(* ===== verification/Prelude.thy ===== *)
theory Prelude
  imports Complex_Main "HOL-Library.Word"
begin

text \<open>
  Shared vocabulary of the development.

  A Rust \<open>String\<close> is a list of Unicode scalar values (\<open>ustr\<close>), so that byte lengths,
  \<open>char::is_whitespace\<close>, \<open>char::is_control\<close> and \<open>str::trim\<close> are computed on the code points
  themselves; a Rust literal is written \<open>us ''...''\<close>.  A Rust \<open>Result\<close> is a sum whose left
  side is the error.  The generic lemmas on lists, splitting and results that the
  component theories share live here.
\<close>

section \<open>Collections of facts\<close>

named_theorems us_lit \<open>string literals as lists of code points\<close>
named_theorems reads \<open>operations that only read: the log of sends is unchanged\<close>
named_theorems fault_simps \<open>the constructors of faults, unfolded\<close>

section \<open>Results\<close>

type_synonym ('a, 'e) result = "'e + 'a"

abbreviation Ok :: "'a \<Rightarrow> 'e + 'a" where
  "Ok \<equiv> Inr"

abbreviation Err :: "'e \<Rightarrow> 'e + 'a" where
  "Err \<equiv> Inl"

definition map_err :: "('e \<Rightarrow> 'f) \<Rightarrow> 'e + 'a \<Rightarrow> 'f + 'a" where
  "map_err f r = (case r of Inl e \<Rightarrow> Inl (f e) | Inr a \<Rightarrow> Inr a)"

definition try_then :: "'e + 'a \<Rightarrow> ('a \<Rightarrow> 'e + 'b) \<Rightarrow> 'e + 'b" where
  "try_then r k = (case r of Inl e \<Rightarrow> Inl e | Inr a \<Rightarrow> k a)"

lemma try_then_simps [simp]:
  "try_then (Inl e) k = Inl e"
  "try_then (Inr a) k = k a"
  by (simp_all add: try_then_def)

lemma map_err_simps [simp]:
  "map_err f (Inl e) = Inl (f e)"
  "map_err f (Inr a) = Inr a"
  by (simp_all add: map_err_def)

lemma try_then_Inr_iff: "try_then r k = Inr b \<longleftrightarrow> (\<exists>a. r = Inr a \<and> k a = Inr b)"
  by (cases r) simp_all

lemma map_err_Inr_iff [simp]: "map_err f r = Inr b \<longleftrightarrow> r = Inr b"
  by (cases r) simp_all

section \<open>Text\<close>

type_synonym ustr = "nat list"

definition us :: "string \<Rightarrow> ustr" where
  "us s = map of_char s"

lemma us_Nil [simp]: "us [] = []"
  by (simp add: us_def)

lemma us_Cons [simp]: "us (c # cs) = of_char c # us cs"
  by (simp add: us_def)

text \<open>Text of a static diagnostic; kept folded by the simplifier.\<close>

definition msg :: "string \<Rightarrow> ustr" where
  "msg s = us s"

definition utf8_width :: "nat \<Rightarrow> nat" where
  "utf8_width c = (if c < 128 then 1 else if c < 2048 then 2 else if c < 65536 then 3 else 4)"

text \<open>\<open>str::len\<close>: the number of bytes of the UTF-8 encoding.\<close>

definition utf8_len :: "ustr \<Rightarrow> nat" where
  "utf8_len s = sum_list (map utf8_width s)"

lemma utf8_len_simps [simp]:
  "utf8_len [] = 0"
  "utf8_len (c # s) = utf8_width c + utf8_len s"
  "utf8_len (s @ t) = utf8_len s + utf8_len t"
  by (simp_all add: utf8_len_def)

lemma utf8_len_eq_0_iff [simp]: "utf8_len s = 0 \<longleftrightarrow> s = []"
  by (cases s) (simp_all add: utf8_width_def)

lemma length_le_utf8_len: "length s \<le> utf8_len s"
  by (induction s) (auto simp: utf8_width_def)

text \<open>\<open>char::is_whitespace\<close>: the Unicode property \<open>White_Space\<close>.\<close>

definition is_whitespace :: "nat \<Rightarrow> bool" where
  "is_whitespace c \<longleftrightarrow> (9 \<le> c \<and> c \<le> 13) \<or> c = 32 \<or> c = 133 \<or> c = 160 \<or> c = 5760
     \<or> (8192 \<le> c \<and> c \<le> 8202) \<or> c = 8232 \<or> c = 8233 \<or> c = 8239 \<or> c = 8287 \<or> c = 12288"

text \<open>\<open>char::is_control\<close>: the Unicode category \<open>Cc\<close>.\<close>

definition is_control :: "nat \<Rightarrow> bool" where
  "is_control c \<longleftrightarrow> c < 32 \<or> (127 \<le> c \<and> c < 160)"

definition trim_start :: "ustr \<Rightarrow> ustr" where
  "trim_start s = dropWhile is_whitespace s"

definition trim_end :: "ustr \<Rightarrow> ustr" where
  "trim_end s = rev (dropWhile is_whitespace (rev s))"

definition trim :: "ustr \<Rightarrow> ustr" where
  "trim s = trim_end (trim_start s)"

lemma trim_Nil [simp]: "trim [] = []"
  by (simp add: trim_def trim_start_def trim_end_def)

lemma dropWhile_id_iff: "dropWhile P xs = xs \<longleftrightarrow> xs = [] \<or> \<not> P (hd xs)"
proof (cases xs)
  case (Cons a list)
  have "length (dropWhile P list) < length xs"
    using length_dropWhile_le [of P list] Cons by simp
  then show ?thesis
    using Cons by auto
qed simp

lemma trim_id_iff:
  "trim s = s \<longleftrightarrow> s = [] \<or> (\<not> is_whitespace (hd s) \<and> \<not> is_whitespace (last s))"
proof
  assume t: "trim s = s"
  have "length (trim s) \<le> length (trim_start s)" "length (trim_start s) \<le> length s"
    using length_dropWhile_le [of is_whitespace] by (simp_all add: trim_def trim_end_def trim_start_def)
      (metis length_dropWhile_le length_rev)
  with t have "length (trim_start s) = length s" by simp
  then have st: "trim_start s = s"
    unfolding trim_start_def by (metis add_cancel_left_left append_Nil length_0_conv length_append
        takeWhile_dropWhile_id)
  with t have "trim_end s = s" by (simp add: trim_def)
  then have "dropWhile is_whitespace (rev s) = rev s"
    by (simp add: trim_end_def rev_swap)
  with st show "s = [] \<or> (\<not> is_whitespace (hd s) \<and> \<not> is_whitespace (last s))"
    by (auto simp: dropWhile_id_iff trim_start_def hd_rev)
next
  assume "s = [] \<or> (\<not> is_whitespace (hd s) \<and> \<not> is_whitespace (last s))"
  then have "dropWhile is_whitespace s = s" "dropWhile is_whitespace (rev s) = rev s"
    by (auto simp: dropWhile_id_iff hd_rev)
  then show "trim s = s"
    by (simp add: trim_def trim_start_def trim_end_def)
qed

lemma trim_idem [simp]: "trim (trim s) = trim s"
proof (cases "trim s = []")
  case False
  let ?r = "dropWhile is_whitespace (rev (trim_start s))"
  have ne: "?r \<noteq> []" using False by (auto simp: trim_def trim_end_def)
  then have "\<not> is_whitespace (hd ?r)" by (rule hd_dropWhile)
  then have last: "\<not> is_whitespace (last (trim s))"
    using ne by (simp add: trim_def trim_end_def last_rev)
  obtain zs where zs: "trim_start s = trim s @ zs"
    by (metis rev_append rev_rev_ident takeWhile_dropWhile_id trim_def trim_end_def)
  have "trim_start s \<noteq> []" using zs False by simp
  then have "\<not> is_whitespace (hd (trim_start s))"
    unfolding trim_start_def by (metis dropWhile_eq_Nil_conv hd_dropWhile)
  then have "\<not> is_whitespace (hd (trim s))" using zs False by simp
  with last show ?thesis by (simp add: trim_id_iff)
qed simp

text \<open>\<open>str::eq_ignore_ascii_case\<close>.\<close>

definition ascii_lower :: "nat \<Rightarrow> nat" where
  "ascii_lower c = (if 65 \<le> c \<and> c \<le> 90 then c + 32 else c)"

definition eq_ignore_ascii_case :: "ustr \<Rightarrow> ustr \<Rightarrow> bool" where
  "eq_ignore_ascii_case s t \<longleftrightarrow> map ascii_lower s = map ascii_lower t"

lemma eq_ignore_ascii_case_refl [simp]: "eq_ignore_ascii_case s s"
  by (simp add: eq_ignore_ascii_case_def)

section \<open>Splitting on a separator\<close>

fun split_on :: "nat \<Rightarrow> ustr \<Rightarrow> ustr list" where
  "split_on sep [] = [[]]"
| "split_on sep (c # s) =
    (if c = sep then [] # split_on sep s
     else (case split_on sep s of [] \<Rightarrow> [[c]] | p # ps \<Rightarrow> (c # p) # ps))"

lemma split_on_ne [simp]: "split_on sep s \<noteq> []"
  by (induction s) (auto split: list.split)

lemma split_on_none: "sep \<notin> set s \<Longrightarrow> split_on sep s = [s]"
  by (induction s) auto

lemma split_on_append: "sep \<notin> set s \<Longrightarrow> split_on sep (s @ sep # t) = s # split_on sep t"
  by (induction s) (auto split: list.split)

text \<open>Segments joined by a separator none of them contains determine the segments.\<close>

fun join_on :: "nat \<Rightarrow> ustr list \<Rightarrow> ustr" where
  "join_on sep [] = []"
| "join_on sep [s] = s"
| "join_on sep (s # t # ss) = s @ sep # join_on sep (t # ss)"

lemma split_join:
  assumes "ss \<noteq> []" "\<forall>s \<in> set ss. sep \<notin> set s"
  shows "split_on sep (join_on sep ss) = ss"
  using assms by (induction sep ss rule: join_on.induct) (auto simp: split_on_none split_on_append)

lemma join_on_inject:
  assumes "join_on sep ss = join_on sep ts" "ss \<noteq> []" "ts \<noteq> []"
    "\<forall>s \<in> set ss. sep \<notin> set s" "\<forall>s \<in> set ts. sep \<notin> set s"
  shows "ss = ts"
  using assms split_join by metis

fun split_once :: "nat \<Rightarrow> ustr \<Rightarrow> (ustr \<times> ustr) option" where
  "split_once sep [] = None"
| "split_once sep (c # cs) = (if c = sep then Some ([], cs) else map_option (\<lambda>(a, b). (c # a, b)) (split_once sep cs))"

lemma split_once_Some: "split_once sep s = Some (a, b) \<longleftrightarrow> s = a @ sep # b \<and> sep \<notin> set a"
proof (induction s arbitrary: a)
  case (Cons c cs)
  show ?case using Cons.IH by (cases a) auto
qed simp

lemma split_once_None: "split_once sep s = None \<longleftrightarrow> sep \<notin> set s"
  by (induction s) auto

lemma join_on_Cons: "join_on sep ((c # s) # ss) = c # join_on sep (s # ss)"
  by (cases ss) simp_all

lemma join_on_Nil: "ss \<noteq> [] \<Longrightarrow> join_on sep ([] # ss) = sep # join_on sep ss"
  by (cases ss) simp_all

lemma join_split: "join_on sep (split_on sep s) = s"
  by (induction s) (auto simp: join_on_Cons join_on_Nil split: list.splits)

lemma join_on_set: "set (join_on sep ss) \<subseteq> insert sep (\<Union> (set ` set ss))"
  by (induction sep ss rule: join_on.induct) auto

section \<open>First matching element\<close>

lemma find_None_all: "List.find P xs = None \<longleftrightarrow> (\<forall>x \<in> set xs. \<not> P x)"
  by (auto simp: find_None_iff)

lemma find_Some_sat: "List.find P xs = Some x \<Longrightarrow> P x \<and> x \<in> set xs"
  by (auto simp: find_Some_iff)

section \<open>Open token sets\<close>

text \<open>
  A Rust \<open>match\<close> on a string with a catch-all arm: the first literal that equals the
  scrutinee wins, otherwise the catch-all constructor keeps the text.
\<close>

definition match_token :: "(ustr \<times> 'a) list \<Rightarrow> (ustr \<Rightarrow> 'a) \<Rightarrow> ustr \<Rightarrow> 'a" where
  "match_token arms other s = (case map_of arms s of Some a \<Rightarrow> a | None \<Rightarrow> other s)"

text \<open>
  The contract of the open enums of the crates: a value prints as its token, the tokens of
  the table print back to their keys, and the catch-all prints as the text it keeps.
  Every reader and every writer of such an enum relies on these laws alone.
\<close>

locale open_tokens =
  fixes arms :: "(ustr \<times> 'a) list"
    and other :: "ustr \<Rightarrow> 'a"
    and as_str :: "'a \<Rightarrow> ustr"
  assumes arms_print: "list_all (\<lambda>(t, v). as_str v = t) arms"
    and arms_distinct: "distinct (map fst arms)"
    and other_print: "as_str (other s) = s"
    and arms_cover: "v \<in> snd ` set arms \<or> (\<exists>s. v = other s)"
begin

lemma arm_print: "map_of arms s = Some v \<Longrightarrow> as_str v = s"
  using arms_print by (auto simp: list_all_iff dest!: map_of_SomeD)

lemma print_parse: "as_str (match_token arms other s) = s"
  by (auto simp: match_token_def other_print arm_print split: option.split)

lemma parse_inject: "match_token arms other s = match_token arms other t \<Longrightarrow> s = t"
  using print_parse by metis

lemma parse_print_known: "v \<in> snd ` set arms \<Longrightarrow> match_token arms other (as_str v) = v"
  using arms_print arms_distinct by (auto simp: match_token_def list_all_iff)

text \<open>The values that do not survive are the catch-alls that hold a known token.\<close>

lemma parse_print_iff:
  "match_token arms other (as_str v) = v \<longleftrightarrow>
    v \<in> snd ` set arms \<or> (\<exists>s. v = other s \<and> s \<notin> fst ` set arms)"
proof
  assume e: "match_token arms other (as_str v) = v"
  show "v \<in> snd ` set arms \<or> (\<exists>s. v = other s \<and> s \<notin> fst ` set arms)"
  proof (cases "map_of arms (as_str v)")
    case None
    then have "v = other (as_str v)" using e by (simp add: match_token_def)
    with None show ?thesis by (auto simp: map_of_eq_None_iff)
  next
    case (Some w)
    then have "w = v" using e by (simp add: match_token_def)
    with Some have "(as_str v, v) \<in> set arms" by (auto dest: map_of_SomeD)
    then show ?thesis by force
  qed
next
  assume "v \<in> snd ` set arms \<or> (\<exists>s. v = other s \<and> s \<notin> fst ` set arms)"
  then show "match_token arms other (as_str v) = v"
  proof (elim disjE exE conjE)
    assume "v \<in> snd ` set arms"
    then show ?thesis by (rule parse_print_known)
  next
    fix s assume "v = other s" "s \<notin> fst ` set arms"
    then show ?thesis by (simp add: match_token_def other_print map_of_eq_None_iff [THEN iffD2])
  qed
qed

end

end
