(* ===== verification/Error_Codes.thy ===== *)
theory Error_Codes
  imports Prelude
begin

text \<open>
  The error codes of the Sz\'amla Agent (\<open>szamlazz-agent/src/error.rs\<close>): the named codes, their
  wire text, the parser shared by the string and the numeric conversion, the classification
  of a failure by what it says about the document, and the same classification on
  \<open>ResponseError\<close> and \<open>ClientError\<close>.  A \<open>u16\<close> is a \<open>16 word\<close>.
\<close>

section \<open>Codes\<close>

datatype ErrorCode =
    EC_Maintenance | EC_InvalidCredentials | EC_MissingData | EC_StornoOfReversalInvoice |
  EC_XmlNotAFile | EC_EInvoiceNotEnabled | EC_EInvoiceSigningFailed |
  EC_InvoiceNotificationDeliveryFailed | EC_MalformedXml | EC_DuplicateOrderNumber |
  EC_PrepaymentInvoiceNotIdentifiable | EC_BrowserSessionActive | EC_LoginBlocked |
  EC_DuplicateOrderNumberNamed | EC_MultipleAccounts | EC_UnregisteredPrefix |
  EC_HasCorrectiveInvoice | EC_NetValueMismatch | EC_VatValueMismatch | EC_GrossValueMismatch |
  EC_NetValueInvalid | EC_VatValueInvalid | EC_GrossValueInvalid | EC_ProformaNotFound |
  EC_ReceiptPrefixUsedForInvoices | EC_InvalidReceiptPrefix | EC_DuplicateReceiptCallId |
  EC_ReceiptNotFound | EC_ReceiptPaymentMismatch | EC_IssueDateMustBeToday |
  EC_ReceiptGrossNotWhole | EC_ReceiptNetPrecision | EC_ReceiptVatPrecision |
  EC_PaymentOnReversedInvoice | EC_ErasureCodeLimit | EC_ErasureCodesUnavailable |
  EC_ErasureCodesDisabled | EC_SimplifiedImageAccountIncompatible | EC_SimplifiedImageItemLimit
  | EC_SimplifiedImageVatInvalid | EC_SimplifiedImageCannotCorrect |
  EC_SimplifiedImagePrepaymentVatMismatch | EC_SimplifiedImageDocumentForbidden
  | EC_Unknown ustr | EC_Absent

primrec ErrorCode_code :: "ErrorCode \<Rightarrow> ustr" where
  "ErrorCode_code EC_Maintenance = us ''1''"
| "ErrorCode_code EC_InvalidCredentials = us ''3''"
| "ErrorCode_code EC_MissingData = us ''7''"
| "ErrorCode_code EC_StornoOfReversalInvoice = us ''14''"
| "ErrorCode_code EC_XmlNotAFile = us ''53''"
| "ErrorCode_code EC_EInvoiceNotEnabled = us ''54''"
| "ErrorCode_code EC_EInvoiceSigningFailed = us ''55''"
| "ErrorCode_code EC_InvoiceNotificationDeliveryFailed = us ''56''"
| "ErrorCode_code EC_MalformedXml = us ''57''"
| "ErrorCode_code EC_DuplicateOrderNumber = us ''71''"
| "ErrorCode_code EC_PrepaymentInvoiceNotIdentifiable = us ''73''"
| "ErrorCode_code EC_BrowserSessionActive = us ''135''"
| "ErrorCode_code EC_LoginBlocked = us ''136''"
| "ErrorCode_code EC_DuplicateOrderNumberNamed = us ''152''"
| "ErrorCode_code EC_MultipleAccounts = us ''164''"
| "ErrorCode_code EC_UnregisteredPrefix = us ''202''"
| "ErrorCode_code EC_HasCorrectiveInvoice = us ''221''"
| "ErrorCode_code EC_NetValueMismatch = us ''259''"
| "ErrorCode_code EC_VatValueMismatch = us ''260''"
| "ErrorCode_code EC_GrossValueMismatch = us ''261''"
| "ErrorCode_code EC_NetValueInvalid = us ''262''"
| "ErrorCode_code EC_VatValueInvalid = us ''263''"
| "ErrorCode_code EC_GrossValueInvalid = us ''264''"
| "ErrorCode_code EC_ProformaNotFound = us ''335''"
| "ErrorCode_code EC_ReceiptPrefixUsedForInvoices = us ''336''"
| "ErrorCode_code EC_InvalidReceiptPrefix = us ''337''"
| "ErrorCode_code EC_DuplicateReceiptCallId = us ''338''"
| "ErrorCode_code EC_ReceiptNotFound = us ''339''"
| "ErrorCode_code EC_ReceiptPaymentMismatch = us ''340''"
| "ErrorCode_code EC_IssueDateMustBeToday = us ''352''"
| "ErrorCode_code EC_ReceiptGrossNotWhole = us ''363''"
| "ErrorCode_code EC_ReceiptNetPrecision = us ''364''"
| "ErrorCode_code EC_ReceiptVatPrecision = us ''365''"
| "ErrorCode_code EC_PaymentOnReversedInvoice = us ''463''"
| "ErrorCode_code EC_ErasureCodeLimit = us ''537''"
| "ErrorCode_code EC_ErasureCodesUnavailable = us ''538''"
| "ErrorCode_code EC_ErasureCodesDisabled = us ''539''"
| "ErrorCode_code EC_SimplifiedImageAccountIncompatible = us ''551''"
| "ErrorCode_code EC_SimplifiedImageItemLimit = us ''552''"
| "ErrorCode_code EC_SimplifiedImageVatInvalid = us ''553''"
| "ErrorCode_code EC_SimplifiedImageCannotCorrect = us ''554''"
| "ErrorCode_code EC_SimplifiedImagePrepaymentVatMismatch = us ''555''"
| "ErrorCode_code EC_SimplifiedImageDocumentForbidden = us ''556''"
| "ErrorCode_code (EC_Unknown code) = code"
| "ErrorCode_code EC_Absent = []"

definition known_codes :: "(16 word \<times> ErrorCode) list" where
  "known_codes =
    [(1, EC_Maintenance), (3, EC_InvalidCredentials), (7, EC_MissingData),
     (14, EC_StornoOfReversalInvoice), (53, EC_XmlNotAFile), (54, EC_EInvoiceNotEnabled),
     (55, EC_EInvoiceSigningFailed), (56, EC_InvoiceNotificationDeliveryFailed),
     (57, EC_MalformedXml), (71, EC_DuplicateOrderNumber), (73, EC_PrepaymentInvoiceNotIdentifiable),
     (135, EC_BrowserSessionActive), (136, EC_LoginBlocked), (152, EC_DuplicateOrderNumberNamed),
     (164, EC_MultipleAccounts), (202, EC_UnregisteredPrefix), (221, EC_HasCorrectiveInvoice),
     (259, EC_NetValueMismatch), (260, EC_VatValueMismatch), (261, EC_GrossValueMismatch),
     (262, EC_NetValueInvalid), (263, EC_VatValueInvalid), (264, EC_GrossValueInvalid),
     (335, EC_ProformaNotFound), (336, EC_ReceiptPrefixUsedForInvoices),
     (337, EC_InvalidReceiptPrefix), (338, EC_DuplicateReceiptCallId), (339, EC_ReceiptNotFound),
     (340, EC_ReceiptPaymentMismatch), (352, EC_IssueDateMustBeToday), (363, EC_ReceiptGrossNotWhole),
     (364, EC_ReceiptNetPrecision), (365, EC_ReceiptVatPrecision), (463, EC_PaymentOnReversedInvoice),
     (537, EC_ErasureCodeLimit), (538, EC_ErasureCodesUnavailable), (539, EC_ErasureCodesDisabled),
     (551, EC_SimplifiedImageAccountIncompatible), (552, EC_SimplifiedImageItemLimit),
     (553, EC_SimplifiedImageVatInvalid), (554, EC_SimplifiedImageCannotCorrect),
     (555, EC_SimplifiedImagePrepaymentVatMismatch), (556, EC_SimplifiedImageDocumentForbidden)]"

definition known :: "16 word \<Rightarrow> ErrorCode option" where
  "known code = map_of known_codes code"

definition is_retryable :: "ErrorCode \<Rightarrow> bool" where
  "is_retryable e \<longleftrightarrow> e = EC_Maintenance \<or> e = EC_EInvoiceSigningFailed"

definition is_credential_error :: "ErrorCode \<Rightarrow> bool" where
  "is_credential_error e \<longleftrightarrow> e = EC_InvalidCredentials \<or> e = EC_BrowserSessionActive
     \<or> e = EC_LoginBlocked \<or> e = EC_MultipleAccounts"

datatype OutcomeClass = OC_Rejected | OC_Unknown | OC_DuplicateOrderNumber | OC_NotFound

primrec ErrorCode_outcome_class :: "ErrorCode \<Rightarrow> OutcomeClass" where
  "ErrorCode_outcome_class EC_Maintenance = OC_Unknown"
| "ErrorCode_outcome_class EC_EInvoiceSigningFailed = OC_Unknown"
| "ErrorCode_outcome_class EC_InvoiceNotificationDeliveryFailed = OC_Unknown"
| "ErrorCode_outcome_class (EC_Unknown code) = OC_Unknown"
| "ErrorCode_outcome_class EC_Absent = OC_Unknown"
| "ErrorCode_outcome_class EC_DuplicateOrderNumber = OC_DuplicateOrderNumber"
| "ErrorCode_outcome_class EC_DuplicateOrderNumberNamed = OC_DuplicateOrderNumber"
| "ErrorCode_outcome_class EC_MissingData = OC_NotFound"
| "ErrorCode_outcome_class EC_ReceiptNotFound = OC_NotFound"
| "ErrorCode_outcome_class EC_InvalidCredentials = OC_Rejected"
| "ErrorCode_outcome_class EC_StornoOfReversalInvoice = OC_Rejected"
| "ErrorCode_outcome_class EC_XmlNotAFile = OC_Rejected"
| "ErrorCode_outcome_class EC_EInvoiceNotEnabled = OC_Rejected"
| "ErrorCode_outcome_class EC_MalformedXml = OC_Rejected"
| "ErrorCode_outcome_class EC_PrepaymentInvoiceNotIdentifiable = OC_Rejected"
| "ErrorCode_outcome_class EC_BrowserSessionActive = OC_Rejected"
| "ErrorCode_outcome_class EC_LoginBlocked = OC_Rejected"
| "ErrorCode_outcome_class EC_MultipleAccounts = OC_Rejected"
| "ErrorCode_outcome_class EC_UnregisteredPrefix = OC_Rejected"
| "ErrorCode_outcome_class EC_HasCorrectiveInvoice = OC_Rejected"
| "ErrorCode_outcome_class EC_NetValueMismatch = OC_Rejected"
| "ErrorCode_outcome_class EC_VatValueMismatch = OC_Rejected"
| "ErrorCode_outcome_class EC_GrossValueMismatch = OC_Rejected"
| "ErrorCode_outcome_class EC_NetValueInvalid = OC_Rejected"
| "ErrorCode_outcome_class EC_VatValueInvalid = OC_Rejected"
| "ErrorCode_outcome_class EC_GrossValueInvalid = OC_Rejected"
| "ErrorCode_outcome_class EC_ProformaNotFound = OC_Rejected"
| "ErrorCode_outcome_class EC_ReceiptPrefixUsedForInvoices = OC_Rejected"
| "ErrorCode_outcome_class EC_InvalidReceiptPrefix = OC_Rejected"
| "ErrorCode_outcome_class EC_DuplicateReceiptCallId = OC_Rejected"
| "ErrorCode_outcome_class EC_ReceiptPaymentMismatch = OC_Rejected"
| "ErrorCode_outcome_class EC_IssueDateMustBeToday = OC_Rejected"
| "ErrorCode_outcome_class EC_ReceiptGrossNotWhole = OC_Rejected"
| "ErrorCode_outcome_class EC_ReceiptNetPrecision = OC_Rejected"
| "ErrorCode_outcome_class EC_ReceiptVatPrecision = OC_Rejected"
| "ErrorCode_outcome_class EC_PaymentOnReversedInvoice = OC_Rejected"
| "ErrorCode_outcome_class EC_ErasureCodeLimit = OC_Rejected"
| "ErrorCode_outcome_class EC_ErasureCodesUnavailable = OC_Rejected"
| "ErrorCode_outcome_class EC_ErasureCodesDisabled = OC_Rejected"
| "ErrorCode_outcome_class EC_SimplifiedImageAccountIncompatible = OC_Rejected"
| "ErrorCode_outcome_class EC_SimplifiedImageItemLimit = OC_Rejected"
| "ErrorCode_outcome_class EC_SimplifiedImageVatInvalid = OC_Rejected"
| "ErrorCode_outcome_class EC_SimplifiedImageCannotCorrect = OC_Rejected"
| "ErrorCode_outcome_class EC_SimplifiedImagePrepaymentVatMismatch = OC_Rejected"
| "ErrorCode_outcome_class EC_SimplifiedImageDocumentForbidden = OC_Rejected"

section \<open>Parsing a wire code\<close>

text \<open>
  \<open>str::parse::<u16>\<close>: an optional leading plus sign, then at least one ASCII digit, each step
  of the accumulation refused when it leaves the range of \<open>u16\<close>.
\<close>

fun u16_digits :: "nat \<Rightarrow> ustr \<Rightarrow> nat option" where
  "u16_digits acc [] = Some acc"
| "u16_digits acc (c # s) =
    (if 48 \<le> c \<and> c \<le> 57 \<and> acc * 10 + (c - 48) \<le> 65535 then u16_digits (acc * 10 + (c - 48)) s
     else None)"

definition parse_u16 :: "ustr \<Rightarrow> 16 word option" where
  "parse_u16 s =
    (let digits = (case s of c # cs \<Rightarrow> if c = of_char (CHR ''+'') then cs else s | [] \<Rightarrow> s) in
     if digits = [] then None else map_option of_nat (u16_digits 0 digits))"

definition ErrorCode_from :: "ustr \<Rightarrow> ErrorCode" where
  "ErrorCode_from text =
    (let code = trim text in
     if code = [] then EC_Absent
     else case Option.bind (parse_u16 code) known of Some e \<Rightarrow> e | None \<Rightarrow> EC_Unknown code)"

fun decimal_digits :: "nat \<Rightarrow> ustr" where
  "decimal_digits n = (if n < 10 then [48 + n] else decimal_digits (n div 10) @ [48 + n mod 10])"

definition ErrorCode_from_u16 :: "16 word \<Rightarrow> ErrorCode" where
  "ErrorCode_from_u16 code =
    (case known code of Some e \<Rightarrow> e | None \<Rightarrow> EC_Unknown (decimal_digits (unat code)))"

definition ErrorCode_display :: "ErrorCode \<Rightarrow> ustr" where
  "ErrorCode_display e = (if e = EC_Absent then us ''absent'' else ErrorCode_code e)"

declare decimal_digits.simps [simp del]

section \<open>Failures of a call\<close>

datatype RequestError =
    RE_MissingLineItems | RE_MissingPrepaymentReference | RE_EmptyCreditEntryReplace
  | RE_MissingExchangeRate | RE_InvalidExchangeRate | RE_ErasureCodeCountOutOfRange nat
  | RE_ParcelCountOutOfRange nat | RE_InvalidDateYear ustr int | RE_UnsupportedOnReceipt ustr
  | RE_InvalidXmlEncoding | RE_InvalidXmlCharacter nat

record ApiError =
  api_code :: ErrorCode
  api_message :: ustr

datatype ParseError =
    PE_Xml | PE_Missing ustr | PE_Invalid ustr ustr | PE_Base64 ustr | PE_UnexpectedBody ustr

datatype ResponseError =
    RSE_Api ApiError | RSE_ServiceUnavailable ustr | RSE_HttpStatus "16 word" ustr
  | RSE_Parse ParseError

primrec ResponseError_outcome_class :: "ResponseError \<Rightarrow> OutcomeClass" where
  "ResponseError_outcome_class (RSE_Api api) = ErrorCode_outcome_class (api_code api)"
| "ResponseError_outcome_class (RSE_ServiceUnavailable m) = OC_Unknown"
| "ResponseError_outcome_class (RSE_HttpStatus status body) = OC_Unknown"
| "ResponseError_outcome_class (RSE_Parse e) = OC_Unknown"

text \<open>What the crate reads of a \<open>reqwest::Error\<close>: its category predicates and its status.\<close>

record TransportError =
  te_is_timeout :: bool
  te_is_connect :: bool
  te_is_redirect :: bool
  te_is_body :: bool
  te_is_decode :: bool
  te_is_builder :: bool
  te_is_request :: bool
  te_status :: "16 word option"

datatype ClientError =
    CE_Request RequestError | CE_Api ApiError | CE_Parse ParseError | CE_ServiceUnavailable ustr
  | CE_HttpStatus "16 word" ustr | CE_Transport TransportError | CE_IncompleteResponse "16 word"

primrec ClientError_outcome_class :: "ClientError \<Rightarrow> OutcomeClass" where
  "ClientError_outcome_class (CE_Request e) = OC_Rejected"
| "ClientError_outcome_class (CE_Api api) = ErrorCode_outcome_class (api_code api)"
| "ClientError_outcome_class (CE_Parse e) = OC_Unknown"
| "ClientError_outcome_class (CE_ServiceUnavailable m) = OC_Unknown"
| "ClientError_outcome_class (CE_HttpStatus status body) = OC_Unknown"
| "ClientError_outcome_class (CE_Transport e) = OC_Unknown"
| "ClientError_outcome_class (CE_IncompleteResponse status) = OC_Unknown"

primrec ClientError_from :: "ResponseError \<Rightarrow> ClientError" where
  "ClientError_from (RSE_Api api) = CE_Api api"
| "ClientError_from (RSE_Parse e) = CE_Parse e"
| "ClientError_from (RSE_ServiceUnavailable m) = CE_ServiceUnavailable m"
| "ClientError_from (RSE_HttpStatus status body) = CE_HttpStatus status body"

section \<open>Lemmas\<close>

lemma known_codes_print:
  "list_all (\<lambda>(c, e). ErrorCode_code e = decimal_digits (unat c)) known_codes"
  unfolding known_codes_def by (simp add: decimal_digits.simps)

lemma known_codes_distinct: "distinct (map fst known_codes)"
  unfolding known_codes_def by simp

lemma known_Some_code: "known c = Some e \<Longrightarrow> ErrorCode_code e = decimal_digits (unat c)"
  using known_codes_print by (auto simp: known_def list_all_iff dest!: map_of_SomeD)

lemma u16_digits_append:
  "u16_digits acc (s @ [c]) = Option.bind (u16_digits acc s)
     (\<lambda>n. if 48 \<le> c \<and> c \<le> 57 \<and> n * 10 + (c - 48) \<le> 65535 then Some (n * 10 + (c - 48)) else None)"
  by (induction s arbitrary: acc) auto

lemma decimal_digits_parse: "n \<le> 65535 \<Longrightarrow> u16_digits 0 (decimal_digits n) = Some n"
proof (induction n rule: decimal_digits.induct)
  case (1 n)
  show ?case
  proof (cases "n < 10")
    case False
    then have "u16_digits 0 (decimal_digits (n div 10)) = Some (n div 10)" using 1 by simp
    then show ?thesis
      using False 1(2) by (simp add: decimal_digits.simps [of n] u16_digits_append)
  qed (simp add: decimal_digits.simps)
qed

lemma decimal_digits_range: "c \<in> set (decimal_digits n) \<Longrightarrow> 48 \<le> c \<and> c \<le> 57"
  by (induction n rule: decimal_digits.induct)
    (subst (asm) (2) decimal_digits.simps, auto split: if_splits)

lemma decimal_digits_ne [simp]: "decimal_digits n \<noteq> []"
  by (subst decimal_digits.simps) simp

lemma decimal_digits_trim [simp]: "trim (decimal_digits n) = decimal_digits n"
proof -
  have "\<forall>c \<in> set (decimal_digits n). \<not> is_whitespace c"
    by (auto dest!: decimal_digits_range simp: is_whitespace_def)
  then show ?thesis by (simp add: trim_id_iff)
qed

lemma parse_u16_decimal: "parse_u16 (decimal_digits (unat c)) = Some c"
proof -
  have le: "unat c \<le> 65535"
    using unsigned_less [of c, where ?'a = nat] by simp
  obtain d ds where d: "decimal_digits (unat c) = d # ds"
    by (cases "decimal_digits (unat c)") auto
  then have "d \<noteq> 43" using decimal_digits_range [of d "unat c"] by auto
  then show ?thesis
    using decimal_digits_parse [OF le] d by (simp add: parse_u16_def)
qed

lemma ErrorCode_from_named: "known c = Some e \<Longrightarrow> ErrorCode_from (ErrorCode_code e) = e"
  by (simp add: known_Some_code ErrorCode_from_def parse_u16_decimal)

text \<open>Parsing is stable: the wire text of whatever a text parses to parses to the same
  code, whatever the text; the numeric conversion agrees with parsing the decimal text; and
  padding does not change the result.\<close>

theorem ErrorCode_from_stable:
  "ErrorCode_from (ErrorCode_code (ErrorCode_from s)) = ErrorCode_from s \<and>
   ErrorCode_from_u16 c = ErrorCode_from (decimal_digits (unat c)) \<and>
   ErrorCode_from (trim s) = ErrorCode_from s"
proof (intro conjI)
  show "ErrorCode_from (ErrorCode_code (ErrorCode_from s)) = ErrorCode_from s"
  proof (cases "Option.bind (parse_u16 (trim s)) known")
    case None
    then show ?thesis by (simp add: ErrorCode_from_def Let_def)
  next
    case (Some e)
    then obtain n where n: "known n = Some e" by (auto simp: bind_eq_Some_conv)
    have "trim s \<noteq> []" using Some by (auto simp: parse_u16_def)
    then have "ErrorCode_from s = e" using Some by (simp add: ErrorCode_from_def)
    then show ?thesis using ErrorCode_from_named [OF n] by simp
  qed
  show "ErrorCode_from_u16 c = ErrorCode_from (decimal_digits (unat c))"
    by (simp add: ErrorCode_from_u16_def ErrorCode_from_def parse_u16_decimal)
qed (simp add: ErrorCode_from_def)

end
