(* ===== verification/Identity.thy ===== *)
theory Identity
  imports Error_Codes
begin

text \<open>
  Identity of orders and documents (\<open>restate-szamlazz/src/identity.rs\<close>): the bounded string
  newtypes \<open>Namespace\<close>, \<open>OrderKey\<close>, \<open>CorrectionId\<close>, \<open>InvoiceNumber\<close> with their validation in
  the order of the source's checks, the document kinds, and the external ids composed of
  them.  Unicode normalisation is third-party code: the functions \<open>is_nfc\<close> and \<open>nfc\<close> of the
  crate \<open>unicode-normalization\<close> are arguments of the definitions that call them.
\<close>

section \<open>XML text\<close>

definition is_xml_10_character :: "nat \<Rightarrow> bool" where
  "is_xml_10_character c \<longleftrightarrow> c = 9 \<or> c = 10 \<or> c = 13 \<or> (32 \<le> c \<and> c \<le> 55295)
     \<or> (57344 \<le> c \<and> c \<le> 65533) \<or> (65536 \<le> c \<and> c \<le> 1114111)"

definition validate_xml_text :: "ustr \<Rightarrow> (unit, RequestError) result" where
  "validate_xml_text text =
    (case List.find (\<lambda>c. \<not> is_xml_10_character c) text of
       Some c \<Rightarrow> Err (RE_InvalidXmlCharacter c)
     | None \<Rightarrow> Ok ())"

lemma validate_xml_text_Ok_iff [simp]:
  "validate_xml_text s = Inr () \<longleftrightarrow> (\<forall>c \<in> set s. is_xml_10_character c)"
  by (auto simp: validate_xml_text_def find_None_iff dest: find_Some_sat split: option.splits)

section \<open>Character classes\<close>

definition is_ascii_lowercase :: "nat \<Rightarrow> bool" where
  "is_ascii_lowercase c \<longleftrightarrow> 97 \<le> c \<and> c \<le> 122"

definition is_ascii_digit :: "nat \<Rightarrow> bool" where
  "is_ascii_digit c \<longleftrightarrow> 48 \<le> c \<and> c \<le> 57"

definition is_ascii_alphanumeric :: "nat \<Rightarrow> bool" where
  "is_ascii_alphanumeric c \<longleftrightarrow> is_ascii_lowercase c \<or> is_ascii_digit c \<or> (65 \<le> c \<and> c \<le> 90)"

definition SEPARATOR :: nat where
  "SEPARATOR = of_char (CHR '':'')"

lemma SEPARATOR_eq: "SEPARATOR = 58"
  by (simp add: SEPARATOR_def)

section \<open>Namespace\<close>

datatype Namespace = Namespace (ns_str: ustr)

datatype InvalidNamespace = NsEmpty | NsTooLong nat | NsInvalidChar nat

definition Namespace_MAX_LEN :: nat where
  "Namespace_MAX_LEN = 16"

definition Namespace_validate :: "ustr \<Rightarrow> (unit, InvalidNamespace) result" where
  "Namespace_validate value =
    (if value = [] then Err NsEmpty
     else if Namespace_MAX_LEN < utf8_len value then Err (NsTooLong (utf8_len value))
     else (case List.find (\<lambda>c. \<not> (is_ascii_lowercase c \<or> is_ascii_digit c \<or> c = of_char (CHR ''-''))) value of
             Some invalid \<Rightarrow> Err (NsInvalidChar invalid)
           | None \<Rightarrow> Ok ()))"

definition Namespace_from_str :: "ustr \<Rightarrow> (Namespace, InvalidNamespace) result" where
  "Namespace_from_str value = try_then (Namespace_validate value) (\<lambda>_. Ok (Namespace value))"

section \<open>Order key\<close>

datatype OrderKey = OrderKey (order_str: ustr)

datatype InvalidOrderKey =
    OkEmpty | OkTooLong nat | OkControlChar nat | OkInternalWhitespace nat | OkSeparator
  | OkNotNfc | OkInvalidXmlText RequestError

definition OrderKey_MAX_LEN :: nat where
  "OrderKey_MAX_LEN = 40"

definition OrderKey_parse :: "(ustr \<Rightarrow> bool) \<Rightarrow> ustr \<Rightarrow> (OrderKey, InvalidOrderKey) result" where
  "OrderKey_parse is_nfc value =
    (let trimmed = trim value in
     if trimmed = [] then Err OkEmpty
     else if OrderKey_MAX_LEN < utf8_len trimmed then Err (OkTooLong (utf8_len trimmed))
     else case List.find is_control trimmed of Some c \<Rightarrow> Err (OkControlChar c) | None \<Rightarrow>
     (case List.find is_whitespace trimmed of Some c \<Rightarrow> Err (OkInternalWhitespace c) | None \<Rightarrow>
      if SEPARATOR \<in> set trimmed then Err OkSeparator
      else if \<not> is_nfc trimmed then Err OkNotNfc
      else try_then (map_err OkInvalidXmlText (validate_xml_text trimmed))
             (\<lambda>_. Ok (OrderKey trimmed))))"

section \<open>Document types and kinds\<close>

datatype DocumentType =
    DT_Invoice | DT_Proforma | DT_Prepayment | DT_Final | DT_Corrective | DT_Storno
  | DT_DeliveryNote | DT_Other ustr

primrec DocumentType_as_wire :: "DocumentType \<Rightarrow> ustr" where
  "DocumentType_as_wire DT_Invoice = us ''SZ''"
| "DocumentType_as_wire DT_Proforma = us ''D''"
| "DocumentType_as_wire DT_Prepayment = us ''ES''"
| "DocumentType_as_wire DT_Final = us ''VS''"
| "DocumentType_as_wire DT_Corrective = us ''HS''"
| "DocumentType_as_wire DT_Storno = us ''SS''"
| "DocumentType_as_wire DT_DeliveryNote = us ''SL''"
| "DocumentType_as_wire (DT_Other code) = code"

definition DocumentType_arms :: "(ustr \<times> DocumentType) list" where
  "DocumentType_arms =
    [(us ''SZ'', DT_Invoice), (us ''D'', DT_Proforma), (us ''ES'', DT_Prepayment),
     (us ''VS'', DT_Final), (us ''HS'', DT_Corrective), (us ''SS'', DT_Storno),
     (us ''SL'', DT_DeliveryNote)]"

definition DocumentType_from :: "ustr \<Rightarrow> DocumentType" where
  "DocumentType_from token = match_token DocumentType_arms DT_Other token"

datatype DocumentKind = DK_Proforma | DK_Invoice | DK_Prepayment | DK_Final

definition DocumentKind_ALL :: "DocumentKind list" where
  "DocumentKind_ALL = [DK_Proforma, DK_Invoice, DK_Prepayment, DK_Final]"

primrec DocumentKind_as_str :: "DocumentKind \<Rightarrow> ustr" where
  "DocumentKind_as_str DK_Proforma = us ''proforma''"
| "DocumentKind_as_str DK_Invoice = us ''invoice''"
| "DocumentKind_as_str DK_Prepayment = us ''prepayment''"
| "DocumentKind_as_str DK_Final = us ''final''"

definition is_invoice_kind :: "DocumentKind \<Rightarrow> bool" where
  "is_invoice_kind k \<longleftrightarrow> k \<noteq> DK_Proforma"

datatype IssuedKind = IK_Proforma | IK_Invoice | IK_Prepayment | IK_Final | IK_Corrective

definition IssuedKind_ALL :: "IssuedKind list" where
  "IssuedKind_ALL = [IK_Proforma, IK_Invoice, IK_Prepayment, IK_Final, IK_Corrective]"

primrec IssuedKind_as_str :: "IssuedKind \<Rightarrow> ustr" where
  "IssuedKind_as_str IK_Proforma = us ''proforma''"
| "IssuedKind_as_str IK_Invoice = us ''invoice''"
| "IssuedKind_as_str IK_Prepayment = us ''prepayment''"
| "IssuedKind_as_str IK_Final = us ''final''"
| "IssuedKind_as_str IK_Corrective = us ''corrective''"

primrec IssuedKind_document_type :: "IssuedKind \<Rightarrow> DocumentType" where
  "IssuedKind_document_type IK_Proforma = DT_Proforma"
| "IssuedKind_document_type IK_Invoice = DT_Invoice"
| "IssuedKind_document_type IK_Prepayment = DT_Prepayment"
| "IssuedKind_document_type IK_Final = DT_Final"
| "IssuedKind_document_type IK_Corrective = DT_Corrective"

fun for_document_type :: "DocumentType \<Rightarrow> IssuedKind option" where
  "for_document_type DT_Proforma = Some IK_Proforma"
| "for_document_type DT_Invoice = Some IK_Invoice"
| "for_document_type DT_Prepayment = Some IK_Prepayment"
| "for_document_type DT_Final = Some IK_Final"
| "for_document_type DT_Corrective = Some IK_Corrective"
| "for_document_type _ = None"

primrec IssuedKind_document_kind :: "IssuedKind \<Rightarrow> DocumentKind option" where
  "IssuedKind_document_kind IK_Proforma = Some DK_Proforma"
| "IssuedKind_document_kind IK_Invoice = Some DK_Invoice"
| "IssuedKind_document_kind IK_Prepayment = Some DK_Prepayment"
| "IssuedKind_document_kind IK_Final = Some DK_Final"
| "IssuedKind_document_kind IK_Corrective = None"

primrec IssuedKind_from :: "DocumentKind \<Rightarrow> IssuedKind" where
  "IssuedKind_from DK_Proforma = IK_Proforma"
| "IssuedKind_from DK_Invoice = IK_Invoice"
| "IssuedKind_from DK_Prepayment = IK_Prepayment"
| "IssuedKind_from DK_Final = IK_Final"

section \<open>External-id tokens\<close>

definition STORNO :: ustr where
  "STORNO = us ''storno''"

definition BY_NUMBER :: ustr where
  "BY_NUMBER = us ''by-number''"

definition CHECK_ACCOUNT :: ustr where
  "CHECK_ACCOUNT = us ''check-account''"

definition TOKENS :: "ustr list" where
  "TOKENS = map IssuedKind_as_str [IK_Proforma, IK_Invoice, IK_Prepayment, IK_Final, IK_Corrective]
     @ [STORNO, BY_NUMBER, CHECK_ACCOUNT]"

definition is_token :: "ustr \<Rightarrow> bool" where
  "is_token value \<longleftrightarrow> list_ex (\<lambda>token. eq_ignore_ascii_case token value) TOKENS"

section \<open>Correction id\<close>

datatype CorrectionId = CorrectionId (correction_str: ustr)

datatype InvalidCorrectionId =
    CiEmpty | CiTooLong nat | CiInvalidStart nat | CiInvalidChar nat | CiReserved ustr

definition CorrectionId_MAX_LEN :: nat where
  "CorrectionId_MAX_LEN = 40"

definition CorrectionId_validate :: "ustr \<Rightarrow> (unit, InvalidCorrectionId) result" where
  "CorrectionId_validate value = (case value of
     [] \<Rightarrow> Err CiEmpty
   | first # chars \<Rightarrow>
       if CorrectionId_MAX_LEN < utf8_len value then Err (CiTooLong (utf8_len value))
       else if \<not> is_ascii_alphanumeric first then Err (CiInvalidStart first)
       else case List.find (\<lambda>c. \<not> (is_ascii_alphanumeric c
                   \<or> c = of_char (CHR ''.'') \<or> c = of_char (CHR ''_'') \<or> c = of_char (CHR ''-''))) chars of
              Some invalid \<Rightarrow> Err (CiInvalidChar invalid)
            | None \<Rightarrow> if is_token value then Err (CiReserved value) else Ok ())"

definition CorrectionId_from_str :: "ustr \<Rightarrow> (CorrectionId, InvalidCorrectionId) result" where
  "CorrectionId_from_str value = try_then (CorrectionId_validate value) (\<lambda>_. Ok (CorrectionId value))"

section \<open>Invoice number\<close>

datatype InvoiceNumber = InvoiceNumber (number_str: ustr)

datatype InvalidInvoiceNumber =
    InEmpty | InTooLong nat | InControlChar nat | InWhitespace nat | InSeparator
  | InInvalidXmlText RequestError

definition InvoiceNumber_MAX_LEN :: nat where
  "InvoiceNumber_MAX_LEN = 40"

definition InvoiceNumber_validate :: "ustr \<Rightarrow> (unit, InvalidInvoiceNumber) result" where
  "InvoiceNumber_validate value =
    (if value = [] then Err InEmpty
     else if InvoiceNumber_MAX_LEN < utf8_len value then Err (InTooLong (utf8_len value))
     else case List.find is_control value of Some c \<Rightarrow> Err (InControlChar c) | None \<Rightarrow>
     (case List.find is_whitespace value of Some c \<Rightarrow> Err (InWhitespace c) | None \<Rightarrow>
      if SEPARATOR \<in> set value then Err InSeparator
      else map_err InInvalidXmlText (validate_xml_text value)))"

definition InvoiceNumber_from_str :: "ustr \<Rightarrow> (InvoiceNumber, InvalidInvoiceNumber) result" where
  "InvoiceNumber_from_str value = try_then (InvoiceNumber_validate value) (\<lambda>_. Ok (InvoiceNumber value))"

section \<open>External id\<close>

datatype ExternalId = ExternalId (external_str: ustr)

definition ExternalId_MAX_LEN :: nat where
  "ExternalId_MAX_LEN = 110"

text \<open>\<open>split(SEPARATOR).next()\<close> of a split that always has a first piece.\<close>

definition ExternalId_namespace :: "ExternalId \<Rightarrow> ustr" where
  "ExternalId_namespace eid = (case split_on SEPARATOR (external_str eid) of [] \<Rightarrow> [] | p # _ \<Rightarrow> p)"

definition for_kind :: "Namespace \<Rightarrow> OrderKey \<Rightarrow> DocumentKind \<Rightarrow> ExternalId" where
  "for_kind ns order kind =
    ExternalId (ns_str ns @ us '':'' @ order_str order @ us '':'' @ DocumentKind_as_str kind)"

definition for_corrective :: "Namespace \<Rightarrow> OrderKey \<Rightarrow> CorrectionId \<Rightarrow> ExternalId" where
  "for_corrective ns order cid =
    ExternalId (ns_str ns @ us '':'' @ order_str order @ us '':'' @ IssuedKind_as_str IK_Corrective
      @ us '':'' @ correction_str cid)"

definition for_storno :: "Namespace \<Rightarrow> OrderKey \<Rightarrow> InvoiceNumber \<Rightarrow> ExternalId" where
  "for_storno ns order original_number =
    ExternalId (ns_str ns @ us '':'' @ order_str order @ us '':'' @ STORNO @ us '':''
      @ number_str original_number)"

definition for_unmanaged_storno :: "Namespace \<Rightarrow> InvoiceNumber \<Rightarrow> ExternalId" where
  "for_unmanaged_storno ns number =
    ExternalId (ns_str ns @ us '':'' @ BY_NUMBER @ us '':'' @ number_str number @ us '':'' @ STORNO)"

definition for_probe :: "Namespace \<Rightarrow> ExternalId" where
  "for_probe ns = ExternalId (ns_str ns @ us '':'' @ CHECK_ACCOUNT)"

definition normalize_buyer_name :: "(ustr \<Rightarrow> ustr) \<Rightarrow> ustr \<Rightarrow> ustr" where
  "normalize_buyer_name nfc name = nfc (trim name)"

section \<open>What validation promises\<close>

text \<open>
  The contract every segment of an external id meets, whatever its type: an accepted text is
  non-empty, within the type's byte bound, free of the separator, of whitespace and of
  control characters, and parsing the stored text again gives the same value.
\<close>

definition parsed :: "(ustr \<Rightarrow> 'e + 'v) \<Rightarrow> 'v \<Rightarrow> bool" where
  "parsed parse v \<longleftrightarrow> (\<exists>s. parse s = Ok v)"

definition clean_segment :: "ustr \<Rightarrow> bool" where
  "clean_segment s \<longleftrightarrow> s \<noteq> [] \<and> SEPARATOR \<notin> set s \<and>
     (\<forall>c \<in> set s. \<not> is_whitespace c \<and> \<not> is_control c)"

lemma clean_segment_trim: "clean_segment s \<Longrightarrow> trim s = s"
  by (auto simp: clean_segment_def trim_id_iff)

locale bounded_segment =
  fixes parse :: "ustr \<Rightarrow> 'e + 'v"
    and str :: "'v \<Rightarrow> ustr"
    and max_len :: nat
  assumes parse_clean: "parse s = Inr v \<Longrightarrow> clean_segment (str v)"
    and parse_bound: "parse s = Inr v \<Longrightarrow> utf8_len (str v) \<le> max_len"
    and parse_canonical: "parse s = Inr v \<Longrightarrow> parse (str v) = Inr v"
begin

lemma parsed_clean: "parsed parse v \<Longrightarrow> clean_segment (str v)"
  by (auto simp: parsed_def dest: parse_clean)

lemma parsed_no_sep [simp]: "parsed parse v \<Longrightarrow> SEPARATOR \<notin> set (str v)"
  using parsed_clean by (simp add: clean_segment_def)

lemma parsed_bound: "parsed parse v \<Longrightarrow> utf8_len (str v) \<le> max_len"
  by (auto simp: parsed_def dest: parse_bound)

lemma parsed_str_inject: "parsed parse v \<Longrightarrow> parsed parse w \<Longrightarrow> str v = str w \<Longrightarrow> v = w"
  unfolding parsed_def by (metis parse_canonical sum.inject(2))

lemma parsed_trimmed: "parsed parse v \<Longrightarrow> trim (str v) = str v"
  by (rule clean_segment_trim) (rule parsed_clean)

end

lemma find_none_ball: "(case List.find P xs of None \<Rightarrow> r | Some c \<Rightarrow> Inl (f c)) = Inr v \<longleftrightarrow>
    (\<forall>x \<in> set xs. \<not> P x) \<and> r = Inr v"
  by (auto simp: find_None_iff dest: find_Some_sat split: option.splits)

lemma Namespace_validate_Ok_iff: "Namespace_validate s = Inr u \<longleftrightarrow>
    s \<noteq> [] \<and> utf8_len s \<le> 16 \<and>
    (\<forall>c \<in> set s. is_ascii_lowercase c \<or> is_ascii_digit c \<or> c = of_char (CHR ''-''))"
  by (auto simp: Namespace_validate_def Namespace_MAX_LEN_def find_none_ball)

lemma OrderKey_parse_Ok_iff: "OrderKey_parse is_nfc s = Inr v \<longleftrightarrow>
    v = OrderKey (trim s) \<and> clean_segment (trim s) \<and> utf8_len (trim s) \<le> 40 \<and> is_nfc (trim s) \<and>
    (\<forall>c \<in> set (trim s). is_xml_10_character c)"
  by (simp add: OrderKey_parse_def Let_def OrderKey_MAX_LEN_def clean_segment_def try_then_Inr_iff
      find_none_ball) auto

lemma CorrectionId_validate_Ok_iff: "CorrectionId_validate s = Inr u \<longleftrightarrow>
    s \<noteq> [] \<and> utf8_len s \<le> 40 \<and> is_ascii_alphanumeric (hd s) \<and> \<not> is_token s \<and>
    (\<forall>c \<in> set (tl s). is_ascii_alphanumeric c
       \<or> c = of_char (CHR ''.'') \<or> c = of_char (CHR ''_'') \<or> c = of_char (CHR ''-''))"
  by (cases s) (auto simp: CorrectionId_validate_def CorrectionId_MAX_LEN_def find_none_ball)

lemma InvoiceNumber_validate_Ok_iff: "InvoiceNumber_validate s = Inr u \<longleftrightarrow>
    clean_segment s \<and> utf8_len s \<le> 40 \<and> (\<forall>c \<in> set s. is_xml_10_character c)"
  by (simp add: InvoiceNumber_validate_def InvoiceNumber_MAX_LEN_def clean_segment_def
      find_none_ball) auto

lemma ascii_visible: "is_ascii_alphanumeric c \<Longrightarrow> \<not> is_whitespace c \<and> \<not> is_control c \<and> c \<noteq> SEPARATOR"
  by (auto simp: is_ascii_alphanumeric_def is_ascii_lowercase_def is_ascii_digit_def
      is_whitespace_def is_control_def SEPARATOR_eq)

lemma punctuation_visible:
  "c = of_char (CHR ''.'') \<or> c = of_char (CHR ''_'') \<or> c = of_char (CHR ''-'') \<Longrightarrow>
    \<not> is_whitespace c \<and> \<not> is_control c \<and> c \<noteq> SEPARATOR"
  by (auto simp: is_whitespace_def is_control_def SEPARATOR_eq)

lemma clean_segmentI: "s \<noteq> [] \<Longrightarrow>
    (\<And>c. c \<in> set s \<Longrightarrow> \<not> is_whitespace c \<and> \<not> is_control c \<and> c \<noteq> SEPARATOR) \<Longrightarrow> clean_segment s"
  by (auto simp: clean_segment_def)

lemma Namespace_clean: "Namespace_validate s = Inr u \<Longrightarrow> clean_segment s"
proof (rule clean_segmentI)
  fix c assume "Namespace_validate s = Inr u" "c \<in> set s"
  then show "\<not> is_whitespace c \<and> \<not> is_control c \<and> c \<noteq> SEPARATOR"
    using ascii_visible [of c] punctuation_visible [of c]
    unfolding Namespace_validate_Ok_iff is_ascii_alphanumeric_def by auto
qed (simp add: Namespace_validate_Ok_iff)

lemma CorrectionId_clean: "CorrectionId_validate s = Inr u \<Longrightarrow> clean_segment s"
proof (cases s)
  case (Cons a t)
  assume v: "CorrectionId_validate s = Inr u"
  show ?thesis
  proof (rule clean_segmentI)
    fix c assume "c \<in> set s"
    then show "\<not> is_whitespace c \<and> \<not> is_control c \<and> c \<noteq> SEPARATOR"
      using v Cons ascii_visible [of c] punctuation_visible [of c]
      unfolding CorrectionId_validate_Ok_iff by auto
  qed (simp add: Cons)
qed (simp add: CorrectionId_validate_Ok_iff)

interpretation namespace: bounded_segment Namespace_from_str ns_str 16
  by unfold_locales
    (auto simp: Namespace_from_str_def try_then_Inr_iff Namespace_clean Namespace_validate_Ok_iff)

interpretation order_key: bounded_segment "OrderKey_parse is_nfc" order_str 40 for is_nfc
  by unfold_locales (auto simp: OrderKey_parse_Ok_iff)

interpretation correction_id: bounded_segment CorrectionId_from_str correction_str 40
  by unfold_locales
    (auto simp: CorrectionId_from_str_def try_then_Inr_iff CorrectionId_clean CorrectionId_validate_Ok_iff)

interpretation invoice_number: bounded_segment InvoiceNumber_from_str number_str 40
  by unfold_locales
    (auto simp: InvoiceNumber_from_str_def try_then_Inr_iff InvoiceNumber_validate_Ok_iff)

interpretation document_type: open_tokens DocumentType_arms DT_Other DocumentType_as_wire
proof unfold_locales
  show "v \<in> snd ` set DocumentType_arms \<or> (\<exists>s. v = DT_Other s)" for v
    by (cases v) (simp_all add: DocumentType_arms_def)
qed (simp_all add: DocumentType_arms_def)

section \<open>External ids are bounded and tell documents apart\<close>

text \<open>
  The five shapes of an external id the crate composes, as one type, and the composition of
  the constructors of \<open>ExternalId\<close> above: a specification of which document an id names.
\<close>

datatype IdShape =
    ShKind OrderKey DocumentKind
  | ShCorrective OrderKey CorrectionId
  | ShStorno OrderKey InvoiceNumber
  | ShUnmanagedStorno InvoiceNumber
  | ShProbe

primrec compose :: "Namespace \<Rightarrow> IdShape \<Rightarrow> ExternalId" where
  "compose ns (ShKind order kind) = for_kind ns order kind"
| "compose ns (ShCorrective order cid) = for_corrective ns order cid"
| "compose ns (ShStorno order number) = for_storno ns order number"
| "compose ns (ShUnmanagedStorno number) = for_unmanaged_storno ns number"
| "compose ns ShProbe = for_probe ns"

primrec segments :: "IdShape \<Rightarrow> ustr list" where
  "segments (ShKind order kind) = [order_str order, DocumentKind_as_str kind]"
| "segments (ShCorrective order cid) = [order_str order, us ''corrective'', correction_str cid]"
| "segments (ShStorno order number) = [order_str order, STORNO, number_str number]"
| "segments (ShUnmanagedStorno number) = [BY_NUMBER, number_str number, STORNO]"
| "segments ShProbe = [CHECK_ACCOUNT]"

primrec valid_shape :: "(ustr \<Rightarrow> bool) \<Rightarrow> IdShape \<Rightarrow> bool" where
  "valid_shape is_nfc (ShKind order kind) \<longleftrightarrow> parsed (OrderKey_parse is_nfc) order"
| "valid_shape is_nfc (ShCorrective order cid) \<longleftrightarrow>
     parsed (OrderKey_parse is_nfc) order \<and> parsed CorrectionId_from_str cid"
| "valid_shape is_nfc (ShStorno order number) \<longleftrightarrow>
     parsed (OrderKey_parse is_nfc) order \<and> parsed InvoiceNumber_from_str number"
| "valid_shape is_nfc (ShUnmanagedStorno number) \<longleftrightarrow> parsed InvoiceNumber_from_str number"
| "valid_shape is_nfc ShProbe \<longleftrightarrow> True"

lemma compose_join: "external_str (compose ns sh) = join_on SEPARATOR (ns_str ns # segments sh)"
  by (cases sh) (simp_all add: for_kind_def for_corrective_def for_storno_def
      for_unmanaged_storno_def for_probe_def SEPARATOR_def)

lemma kind_token_no_sep [simp]: "SEPARATOR \<notin> set (DocumentKind_as_str kind)"
  by (cases kind) (simp_all add: SEPARATOR_def)

lemma fixed_tokens_no_sep [simp]:
  "SEPARATOR \<notin> set STORNO" "SEPARATOR \<notin> set BY_NUMBER" "SEPARATOR \<notin> set CHECK_ACCOUNT"
  "SEPARATOR \<notin> set (us ''corrective'')"
  by (simp_all add: STORNO_def BY_NUMBER_def CHECK_ACCOUNT_def SEPARATOR_def)

lemma segments_no_sep: "valid_shape is_nfc sh \<Longrightarrow> \<forall>s \<in> set (segments sh). SEPARATOR \<notin> set s"
  by (cases sh) (auto simp del: us_Cons)

lemma kind_str_inject: "DocumentKind_as_str k = DocumentKind_as_str k' \<Longrightarrow> k = k'"
  by (cases k; cases k') simp_all

lemma correction_not_token: "parsed CorrectionId_from_str cid \<Longrightarrow> correction_str cid \<noteq> STORNO"
  by (auto simp: parsed_def CorrectionId_from_str_def try_then_Inr_iff CorrectionId_validate_Ok_iff
      is_token_def TOKENS_def)

lemmas str_injects =
  order_key.parsed_str_inject correction_id.parsed_str_inject invoice_number.parsed_str_inject
  kind_str_inject

lemma corrective_ne_storno: "us ''corrective'' \<noteq> STORNO"
  by (simp add: STORNO_def)

definition storno_alias :: "IdShape \<Rightarrow> IdShape \<Rightarrow> bool" where
  "storno_alias a b \<longleftrightarrow>
     a = ShStorno (OrderKey BY_NUMBER) (InvoiceNumber STORNO) \<and> b = ShUnmanagedStorno (InvoiceNumber STORNO)"

lemma segments_inject:
  assumes "valid_shape is_nfc a" "valid_shape is_nfc b" "segments a = segments b"
  shows "a = b \<or> storno_alias a b \<or> storno_alias b a"
  using assms
  by (cases a; cases b)
    (auto simp: storno_alias_def corrective_ne_storno simp del: us_Cons
      intro: str_injects OrderKey.expand InvoiceNumber.expand dest: correction_not_token
      dest!: not_sym [OF corrective_ne_storno, THEN notE])

lemma kind_token_len: "utf8_len (DocumentKind_as_str kind) \<le> 10"
  by (cases kind) (simp_all add: utf8_width_def)

lemma fixed_token_lens [simp]:
  "utf8_len STORNO = 6" "utf8_len BY_NUMBER = 9" "utf8_len CHECK_ACCOUNT = 13"
  by (simp_all add: STORNO_def BY_NUMBER_def CHECK_ACCOUNT_def utf8_width_def)

lemma utf8_len_join: "ss \<noteq> [] \<Longrightarrow>
    utf8_len (join_on SEPARATOR ss) + 1 = sum_list (map utf8_len ss) + length ss"
  by (induction SEPARATOR ss rule: join_on.induct) (auto simp: SEPARATOR_eq utf8_width_def)

lemma segments_len: "valid_shape is_nfc sh \<Longrightarrow> sum_list (map utf8_len (segments sh)) + length (segments sh) \<le> 93"
proof (cases sh)
  case (ShKind order kind)
  assume "valid_shape is_nfc sh"
  then show ?thesis
    using ShKind order_key.parsed_bound [of is_nfc order] kind_token_len [of kind] by simp
next
  case (ShCorrective order cid)
  assume "valid_shape is_nfc sh"
  then show ?thesis
    using ShCorrective order_key.parsed_bound [of is_nfc order] correction_id.parsed_bound [of cid]
    by (simp add: utf8_width_def)
next
  case (ShStorno order number)
  assume "valid_shape is_nfc sh"
  then show ?thesis
    using ShStorno order_key.parsed_bound [of is_nfc order] invoice_number.parsed_bound [of number] by simp
next
  case (ShUnmanagedStorno number)
  assume "valid_shape is_nfc sh"
  then show ?thesis
    using ShUnmanagedStorno invoice_number.parsed_bound [of number] by simp
qed simp

text \<open>Concrete values the examples below share.\<close>

lemmas char_class_defs =
  is_ascii_alphanumeric_def is_ascii_lowercase_def is_ascii_digit_def is_whitespace_def
  is_control_def is_xml_10_character_def utf8_width_def

lemma ex_namespace: "parsed Namespace_from_str (Namespace (us ''acct''))"
  unfolding parsed_def
  by (rule exI [of _ "us ''acct''"])
    (simp add: Namespace_from_str_def try_then_Inr_iff Namespace_validate_Ok_iff char_class_defs)

lemma ex_order: "OrderKey_parse (\<lambda>_. True) (us ''ORD-1'') = Ok (OrderKey (us ''ORD-1''))"
proof -
  have t: "trim (us ''ORD-1'') = us ''ORD-1''" by (simp add: trim_id_iff is_whitespace_def)
  show ?thesis unfolding OrderKey_parse_Ok_iff t
    by (simp add: clean_segment_def SEPARATOR_eq char_class_defs)
qed

lemma ex_correction: "CorrectionId_from_str (us ''fix.1'') = Ok (CorrectionId (us ''fix.1''))"
  by (simp add: CorrectionId_from_str_def try_then_Inr_iff CorrectionId_validate_Ok_iff is_token_def
      TOKENS_def eq_ignore_ascii_case_def ascii_lower_def STORNO_def BY_NUMBER_def CHECK_ACCOUNT_def
      char_class_defs)

lemma ex_number: "InvoiceNumber_from_str (us ''E-1'') = Ok (InvoiceNumber (us ''E-1''))"
  by (simp add: InvoiceNumber_from_str_def try_then_Inr_iff InvoiceNumber_validate_Ok_iff
      clean_segment_def SEPARATOR_eq char_class_defs)

lemma ex_shapes:
  "valid_shape (\<lambda>_. True) (ShCorrective (OrderKey (us ''ORD-1'')) (CorrectionId (us ''fix.1'')))"
  "valid_shape (\<lambda>_. True) (ShStorno (OrderKey (us ''ORD-1'')) (InvoiceNumber (us ''E-1'')))"
  "valid_shape (\<lambda>_. True) (ShUnmanagedStorno (InvoiceNumber (us ''E-1'')))"
  unfolding valid_shape.simps parsed_def using ex_order ex_correction ex_number by blast+

text \<open>(C24) Every external id the worker composes from validated parts, of any of its five
  shapes, is at most 110 bytes of UTF-8: the length szamlazz.hu is known to keep.\<close>

theorem external_id_within_budget:
  assumes "parsed Namespace_from_str ns" and "valid_shape is_nfc sh"
  shows "utf8_len (external_str (compose ns sh)) \<le> ExternalId_MAX_LEN"
  using namespace.parsed_bound [OF assms(1)] segments_len [OF assms(2)]
    utf8_len_join [of "ns_str ns # segments sh"]
  unfolding compose_join ExternalId_MAX_LEN_def by simp

theorem external_id_within_budget_witness:
  "utf8_len (external_str (compose (Namespace (us ''acct''))
     (ShCorrective (OrderKey (us ''ORD-1'')) (CorrectionId (us ''fix.1''))))) \<le> 110"
  using external_id_within_budget [OF ex_namespace ex_shapes(1)]
  by (simp only: ExternalId_MAX_LEN_def)

text \<open>(C17) Two external ids of validated parts are equal exactly when they have the same
  namespace and name the same document, or are the one accepted alias: order \<open>by-number\<close>
  reversing invoice \<open>storno\<close> and the unmanaged reversal of invoice \<open>storno\<close>.  So no two
  documents of one deployment, nor of two deployments, share an id otherwise.\<close>

theorem external_id_unique:
  assumes "parsed Namespace_from_str ns" "parsed Namespace_from_str ns'"
    and "valid_shape is_nfc a" "valid_shape is_nfc b"
  shows "compose ns a = compose ns' b \<longleftrightarrow>
    ns = ns' \<and> (a = b \<or> storno_alias a b \<or> storno_alias b a)"
proof
  assume "compose ns a = compose ns' b"
  then have "join_on SEPARATOR (ns_str ns # segments a) = join_on SEPARATOR (ns_str ns' # segments b)"
    by (metis compose_join)
  then have "ns_str ns # segments a = ns_str ns' # segments b"
    by (rule join_on_inject) (use assms segments_no_sep [of is_nfc] in auto)
  then show "ns = ns' \<and> (a = b \<or> storno_alias a b \<or> storno_alias b a)"
    using assms segments_inject [of is_nfc a b] by (auto intro: Namespace.expand)
next
  assume "ns = ns' \<and> (a = b \<or> storno_alias a b \<or> storno_alias b a)"
  then show "compose ns a = compose ns' b"
    by (auto simp: storno_alias_def for_storno_def for_unmanaged_storno_def)
qed

theorem external_id_unique_witness:
  "compose (Namespace (us ''acct'')) (ShStorno (OrderKey (us ''ORD-1'')) (InvoiceNumber (us ''E-1''))) \<noteq>
   compose (Namespace (us ''acct'')) (ShUnmanagedStorno (InvoiceNumber (us ''E-1'')))"
  using external_id_unique [OF ex_namespace ex_namespace ex_shapes(2,3)]
  by (simp only: storno_alias_def IdShape.simps) (simp add: STORNO_def)

text \<open>Reading the namespace back out of any composed id gives exactly the namespace it
  was composed under.\<close>

theorem external_id_namespace_roundtrip:
  assumes "parsed Namespace_from_str ns"
  shows "ExternalId_namespace (compose ns sh) = ns_str ns"
proof -
  have "segments sh \<noteq> []" by (cases sh) simp_all
  then obtain t ts where "segments sh = t # ts" by (cases "segments sh") auto
  then show ?thesis
    unfolding ExternalId_namespace_def compose_join using assms by (simp add: split_on_append)
qed

theorem external_id_namespace_roundtrip_witness:
  "ExternalId_namespace (compose (Namespace (us ''acct'')) ShProbe) = us ''acct''"
  using external_id_namespace_roundtrip [OF ex_namespace, of ShProbe] by (simp only: Namespace.sel)

text \<open>(C25) An order number is accepted exactly when its trimmed text is non-empty, at most 40
  bytes, free of the separator, of whitespace and of control characters, in NFC and XML 1.0
  text; the key is that trimmed text unchanged, and accepting the key again gives the key.\<close>

theorem OrderKey_parse_exact:
  "(OrderKey_parse is_nfc s = Ok key \<longleftrightarrow>
     key = OrderKey (trim s) \<and> clean_segment (trim s) \<and> utf8_len (trim s) \<le> OrderKey_MAX_LEN \<and>
     is_nfc (trim s) \<and> list_all is_xml_10_character (trim s)) \<and>
   OrderKey_parse is_nfc (trim s) = OrderKey_parse is_nfc s"
  by (auto simp: OrderKey_parse_Ok_iff OrderKey_MAX_LEN_def list_all_iff)
    (simp add: OrderKey_parse_def)

text \<open>The kinds the worker issues and the document types of szamlazz.hu correspond: the
  type of a kind reads back as that kind, a type that reads as a kind is that kind's type,
  and the storno and delivery note types read as no kind.\<close>

theorem issued_kind_document_type:
  "for_document_type (IssuedKind_document_type k) = Some k \<and>
   (for_document_type t = Some k \<longleftrightarrow> t = IssuedKind_document_type k) \<and>
   IssuedKind_document_kind (IssuedKind_from d) = Some d \<and>
   (IssuedKind_document_kind k = Some d \<longleftrightarrow> k = IssuedKind_from d) \<and>
   IssuedKind_as_str (IssuedKind_from d) = DocumentKind_as_str d"
proof -
  have "for_document_type t = Some k \<longleftrightarrow> t = IssuedKind_document_type k"
    by (cases t; cases k) simp_all
  moreover have "IssuedKind_document_kind k = Some d \<longleftrightarrow> k = IssuedKind_from d"
    by (cases k; cases d) simp_all
  ultimately show ?thesis
    by (cases k; cases d) simp_all
qed

end
