(* ===== verification/Accounts.thy ===== *)
theory Accounts
  imports Identity
begin

text \<open>
  The account a call runs under (\<open>account.rs\<close>): its endpoint, document defaults, seller block
  and credential reference, and the validation of its configured texts; the languages of
  \<open>szamlazz-agent/src/types.rs\<close>.  The resolver and the credential store behind an account are
  not part of the model.
\<close>

section \<open>Languages\<close>

datatype Language =
    Hungarian | English | German | Italian | Romanian | Slovak | Croatian | French | Spanish
  | Czech | Polish | Bulgarian | Dutch | Russian | Slovenian

primrec Language_as_wire :: "Language \<Rightarrow> ustr" where
  "Language_as_wire Hungarian = us ''hu''"
| "Language_as_wire English = us ''en''"
| "Language_as_wire German = us ''de''"
| "Language_as_wire Italian = us ''it''"
| "Language_as_wire Romanian = us ''ro''"
| "Language_as_wire Slovak = us ''sk''"
| "Language_as_wire Croatian = us ''hr''"
| "Language_as_wire French = us ''fr''"
| "Language_as_wire Spanish = us ''es''"
| "Language_as_wire Czech = us ''cz''"
| "Language_as_wire Polish = us ''pl''"
| "Language_as_wire Bulgarian = us ''bg''"
| "Language_as_wire Dutch = us ''nl''"
| "Language_as_wire Russian = us ''ru''"
| "Language_as_wire Slovenian = us ''si''"

definition Language_arms :: "(ustr \<times> Language) list" where
  "Language_arms =
    [(us ''hu'', Hungarian), (us ''en'', English), (us ''de'', German), (us ''it'', Italian),
     (us ''ro'', Romanian), (us ''sk'', Slovak), (us ''hr'', Croatian), (us ''fr'', French),
     (us ''es'', Spanish), (us ''cz'', Czech), (us ''pl'', Polish), (us ''bg'', Bulgarian),
     (us ''nl'', Dutch), (us ''ru'', Russian), (us ''si'', Slovenian)]"

datatype UnknownLanguage = UnknownLanguage ustr

definition Language_from_str :: "ustr \<Rightarrow> (Language, UnknownLanguage) result" where
  "Language_from_str token = match_token (map (\<lambda>(t, l). (t, Ok l)) Language_arms) (\<lambda>s. Err (UnknownLanguage s)) token"

section \<open>The account\<close>

record Defaults =
  df_e_invoice :: bool
  df_language :: ustr
  df_currency :: ustr
  df_exchange_rate_bank :: ustr
  df_template :: "ustr option"
  df_send_email :: "bool option"
  df_number_prefix :: "ustr option"
  df_extra_logo :: "ustr option"
  df_aggregator :: "ustr option"
  df_guardian :: "bool option"

definition Defaults_default :: Defaults where
  "Defaults_default =
    \<lparr> df_e_invoice = False, df_language = us ''hu'', df_currency = us ''HUF'',
      df_exchange_rate_bank = us ''MNB'', df_template = None, df_send_email = None,
      df_number_prefix = None, df_extra_logo = None, df_aggregator = None, df_guardian = None \<rparr>"

record SellerEmailConfig =
  sec_reply_to :: "ustr option"
  sec_subject :: "ustr option"
  sec_body :: "ustr option"

record SellerConfig =
  sel_bank :: "ustr option"
  sel_bank_account :: "ustr option"
  sel_signer_name :: "ustr option"
  sel_email :: SellerEmailConfig

definition SellerConfig_default :: SellerConfig where
  "SellerConfig_default =
    \<lparr> sel_bank = None, sel_bank_account = None, sel_signer_name = None,
      sel_email = \<lparr> sec_reply_to = None, sec_subject = None, sec_body = None \<rparr> \<rparr>"

record Account =
  acc_id :: ustr
  acc_endpoint :: ustr
  acc_defaults :: Defaults
  acc_seller :: SellerConfig
  acc_credential_ref :: ustr

definition Endpoint_PRODUCTION :: ustr where
  "Endpoint_PRODUCTION = us ''https://www.szamlazz.hu/szamla/''"

definition Account_new :: "ustr \<Rightarrow> ustr \<Rightarrow> Account" where
  "Account_new i credential_ref =
    \<lparr> acc_id = i, acc_endpoint = Endpoint_PRODUCTION, acc_defaults = Defaults_default,
      acc_seller = SellerConfig_default, acc_credential_ref = credential_ref \<rparr>"

section \<open>Validation\<close>

record InvalidAccount =
  ia_field :: ustr
  ia_rule :: ustr

definition account_texts :: "Account \<Rightarrow> (ustr \<times> ustr option) list" where
  "account_texts account = (let d = acc_defaults account; s = acc_seller account; e = sel_email s in
    [(msg ''defaults.currency'', Some (df_currency d)),
     (msg ''defaults.exchange_rate_bank'', Some (df_exchange_rate_bank d)),
     (msg ''defaults.template'', df_template d),
     (msg ''defaults.number_prefix'', df_number_prefix d),
     (msg ''defaults.extra_logo'', df_extra_logo d),
     (msg ''defaults.aggregator'', df_aggregator d),
     (msg ''seller.bank'', sel_bank s),
     (msg ''seller.bank_account'', sel_bank_account s),
     (msg ''seller.signer_name'', sel_signer_name s),
     (msg ''seller.email.reply_to'', sec_reply_to e),
     (msg ''seller.email.subject'', sec_subject e),
     (msg ''seller.email.body'', sec_body e)])"

primrec validate_texts :: "(ustr \<times> ustr option) list \<Rightarrow> (unit, InvalidAccount) result" where
  "validate_texts [] = Ok ()"
| "validate_texts (fv # rest) = (case snd fv of
     None \<Rightarrow> validate_texts rest
   | Some value \<Rightarrow> try_then
       (map_err (\<lambda>_. \<lparr> ia_field = fst fv, ia_rule = msg ''must be XML 1.0 text'' \<rparr>) (validate_xml_text value))
       (\<lambda>_. validate_texts rest))"

definition Account_validate :: "Account \<Rightarrow> (unit, InvalidAccount) result" where
  "Account_validate account = try_then
    (map_err (\<lambda>_. \<lparr> ia_field = msg ''defaults.language'', ia_rule = msg ''unknown document language'' \<rparr>)
      (Language_from_str (df_language (acc_defaults account))))
    (\<lambda>_. validate_texts (account_texts account))"

lemma validate_texts_Ok_iff:
  "validate_texts fs = Ok u \<longleftrightarrow> (\<forall>f v. (f, Some v) \<in> set fs \<longrightarrow> validate_xml_text v = Ok ())"
  by (induction fs) (auto simp: try_then_Inr_iff split: option.splits)

lemma validate_texts_range:
  "validate_texts fs \<in> {Ok ()} \<union> (\<lambda>f. Err \<lparr> ia_field = f, ia_rule = msg ''must be XML 1.0 text'' \<rparr>) ` set (map fst fs)"
  by (induction fs) (auto simp: try_then_def map_err_def split: option.split sum.split)

lemma Language_from_str_Ok_iff: "Language_from_str token = Ok l \<longleftrightarrow> Language_as_wire l = token"
proof
  assume "Language_from_str token = Ok l"
  then have "(token, l) \<in> set Language_arms"
    by (auto simp: Language_from_str_def match_token_def split: option.splits dest!: map_of_SomeD)
  then show "Language_as_wire l = token" by (auto simp: Language_arms_def)
next
  have "Language_from_str (Language_as_wire l) = Ok l"
    by (cases l) (simp_all add: Language_from_str_def match_token_def Language_arms_def)
  moreover assume "Language_as_wire l = token"
  ultimately show "Language_from_str token = Ok l" by simp
qed

text \<open>A validated account is one whose language is one the Agent knows and whose configured
  texts are all XML 1.0 text.  A refusal is one of a fixed set of diagnostics, a field name
  and a rule, whatever the account: no configured value reaches it.\<close>

theorem Account_validate_exact:
  "(Account_validate account = Ok () \<longleftrightarrow>
     (\<exists>l. Language_as_wire l = df_language (acc_defaults account)) \<and>
     list_all (\<lambda>(f, v). v = None \<or> validate_xml_text (the v) = Ok ()) (account_texts account)) \<and>
   Account_validate account \<in> {Ok (), Err \<lparr> ia_field = msg ''defaults.language'', ia_rule = msg ''unknown document language'' \<rparr>} \<union>
     (\<lambda>f. Err \<lparr> ia_field = f, ia_rule = msg ''must be XML 1.0 text'' \<rparr>) ` set (map fst (account_texts other))"
proof (intro conjI)
  have "Account_validate account = Ok () \<longleftrightarrow>
      (\<exists>l. Language_from_str (df_language (acc_defaults account)) = Ok l) \<and>
      validate_texts (account_texts account) = Ok ()"
    by (auto simp: Account_validate_def try_then_Inr_iff)
  also have "validate_texts (account_texts account) = Ok () \<longleftrightarrow>
      list_all (\<lambda>(f, v). v = None \<or> validate_xml_text (the v) = Ok ()) (account_texts account)"
    unfolding validate_texts_Ok_iff list_all_iff by (auto split: prod.splits)
  finally show "Account_validate account = Ok () \<longleftrightarrow>
     (\<exists>l. Language_as_wire l = df_language (acc_defaults account)) \<and>
     list_all (\<lambda>(f, v). v = None \<or> validate_xml_text (the v) = Ok ()) (account_texts account)"
    by (simp add: Language_from_str_Ok_iff)
  have names: "map fst (account_texts account) = map fst (account_texts other)"
    by (simp add: account_texts_def Let_def)
  have "validate_texts (account_texts account) \<in> {Ok ()} \<union>
      (\<lambda>f. Err \<lparr> ia_field = f, ia_rule = msg ''must be XML 1.0 text'' \<rparr>) ` set (map fst (account_texts account))"
    by (rule validate_texts_range)
  then show "Account_validate account \<in> {Ok (), Err \<lparr> ia_field = msg ''defaults.language'', ia_rule = msg ''unknown document language'' \<rparr>} \<union>
     (\<lambda>f. Err \<lparr> ia_field = f, ia_rule = msg ''must be XML 1.0 text'' \<rparr>) ` set (map fst (account_texts other))"
    unfolding names by (auto simp: Account_validate_def try_then_def map_err_def split: sum.split)
qed

end
