(* ===== verification/Decimals.thy ===== *)
theory Decimals
  imports Prelude "HOL-Library.Signed_Division"
begin

text \<open>
  Exact decimal arithmetic (\<open>szamlazz-agent/src/number.rs\<close>, \<open>contract/decimal.rs\<close>,
  \<open>contract.rs\<close>: \<open>outstanding\<close>).

  A \<open>Decimal\<close> of the third-party package \<open>rust_decimal\<close> is an integer coefficient below
  2 to the 96 and a scale of at most 28.  The package's own operations are a parameter
  (\<open>DecimalLib\<close>), and the locale \<open>decimal_lib\<close> states what its documentation promises of the
  ones the source calls.  \<open>i128\<close> and \<open>i64\<close> arithmetic is written out with its bounds.
\<close>

section \<open>Decimals and bounded integers\<close>

datatype Decimal = Decimal (mantissa: int) (scale: nat)

definition ZERO :: Decimal where
  "ZERO = Decimal 0 0"

definition MAX_SCALE :: nat where
  "MAX_SCALE = 28"

definition valid_decimal :: "Decimal \<Rightarrow> bool" where
  "valid_decimal d \<longleftrightarrow> \<bar>mantissa d\<bar> < 2 ^ 96 \<and> scale d \<le> MAX_SCALE"

definition value_of :: "Decimal \<Rightarrow> rat" where
  "value_of d = of_int (mantissa d) / 10 ^ scale d"

text \<open>No decimal digit of the fraction is superfluous.\<close>

definition normal_form :: "int \<Rightarrow> nat \<Rightarrow> bool" where
  "normal_form c s \<longleftrightarrow> (0 < s \<longrightarrow> \<not> 10 dvd c)"

definition i128 :: "int \<Rightarrow> int option" where
  "i128 x = (if - (2 ^ 127) \<le> x \<and> x < 2 ^ 127 then Some x else None)"

definition i64 :: "int \<Rightarrow> int option" where
  "i64 x = (if - (2 ^ 63) \<le> x \<and> x < 2 ^ 63 then Some x else None)"

definition checked_mul :: "int \<Rightarrow> int \<Rightarrow> int option" where
  "checked_mul a b = i128 (a * b)"

definition checked_add :: "int \<Rightarrow> int \<Rightarrow> int option" where
  "checked_add a b = i128 (a + b)"

text \<open>\<open>Result::ok\<close>.\<close>

definition result_ok :: "'e + 'a \<Rightarrow> 'a option" where
  "result_ok r = (case r of Inl e \<Rightarrow> None | Inr a \<Rightarrow> Some a)"

section \<open>The decimal package\<close>

record DecimalLib =
  dl_normalize :: "Decimal \<Rightarrow> Decimal"
  dl_try_from_i128_with_scale :: "int \<Rightarrow> nat \<Rightarrow> (Decimal, ustr) result"
  dl_round :: "Decimal \<Rightarrow> nat \<Rightarrow> Decimal"
  dl_checked_add :: "Decimal \<Rightarrow> Decimal \<Rightarrow> Decimal option"
  dl_neg :: "Decimal \<Rightarrow> Decimal"
  dl_rescale :: "Decimal \<Rightarrow> nat \<Rightarrow> Decimal"
  dl_eq :: "Decimal \<Rightarrow> Decimal \<Rightarrow> bool"
  dl_le :: "Decimal \<Rightarrow> Decimal \<Rightarrow> bool"

text \<open>Rounding half away from zero, of an exact value to \<open>p\<close> places.\<close>

definition half_away :: "rat \<Rightarrow> int" where
  "half_away x = (if 0 \<le> x then \<lfloor>x + 1 / 2\<rfloor> else - \<lfloor>1 / 2 - x\<rfloor>)"

locale decimal_lib =
  fixes lib :: DecimalLib
  assumes normalize_valid: "valid_decimal d \<Longrightarrow> valid_decimal (dl_normalize lib d)"
    and normalize_value: "valid_decimal d \<Longrightarrow> value_of (dl_normalize lib d) = value_of d"
    and normalize_normal: "valid_decimal d \<Longrightarrow> normal_form (mantissa (dl_normalize lib d)) (scale (dl_normalize lib d))"
    and from_parts: "result_ok (dl_try_from_i128_with_scale lib c s) = (if valid_decimal (Decimal c s) then Some (Decimal c s) else None)"
    and round_valid: "valid_decimal d \<Longrightarrow> valid_decimal (dl_round lib d p)"
    and round_value: "valid_decimal d \<Longrightarrow> value_of (dl_round lib d p) =
      (if scale d \<le> p then value_of d else of_int (half_away (value_of d * 10 ^ p)) / 10 ^ p)"
    and checked_add_valid: "valid_decimal a \<Longrightarrow> valid_decimal b \<Longrightarrow> dl_checked_add lib a b = Some r \<Longrightarrow> valid_decimal r"
    and neg_valid: "valid_decimal d \<Longrightarrow> valid_decimal (dl_neg lib d)"
    and neg_value: "value_of (dl_neg lib d) = - value_of d"
    and rescale_valid: "valid_decimal d \<Longrightarrow> valid_decimal (dl_rescale lib d p)"
    and rescale_value: "valid_decimal d \<Longrightarrow> scale d \<le> p \<Longrightarrow> value_of (dl_rescale lib d p) = value_of d"
    and eq_iff: "dl_eq lib a b \<longleftrightarrow> value_of a = value_of b"
    and le_iff: "dl_le lib a b \<longleftrightarrow> value_of a \<le> value_of b"
begin
end

section \<open>Exact arithmetic\<close>

text \<open>The loop of \<open>exact_coefficient\<close>: trailing zeroes of the fraction are dropped.\<close>

fun strip_zeroes :: "int \<Rightarrow> nat \<Rightarrow> int \<times> nat" where
  "strip_zeroes coefficient 0 = (coefficient, 0)"
| "strip_zeroes coefficient (Suc s) =
    (if coefficient smod 10 = 0 then strip_zeroes (coefficient sdiv 10) s else (coefficient, Suc s))"

definition exact_coefficient :: "DecimalLib \<Rightarrow> int \<Rightarrow> nat \<Rightarrow> Decimal option" where
  "exact_coefficient lib coefficient0 scale0 = (case strip_zeroes coefficient0 scale0 of (coefficient, s) \<Rightarrow>
    (if MAX_SCALE < s then None else result_ok (dl_try_from_i128_with_scale lib coefficient s)))"

text \<open>The loop of \<open>exact_mul\<close>: powers of ten are cancelled before multiplying.\<close>

fun cancel_tens :: "int \<Rightarrow> int \<Rightarrow> nat \<Rightarrow> int \<times> int \<times> nat" where
  "cancel_tens a b 0 = (a, b, 0)"
| "cancel_tens a b (Suc s) =
    (if a smod 10 = 0 then cancel_tens (a sdiv 10) b s
     else if b smod 10 = 0 then cancel_tens a (b sdiv 10) s
     else if a smod 2 = 0 \<and> b smod 5 = 0 then cancel_tens (a sdiv 2) (b sdiv 5) s
     else if a smod 5 = 0 \<and> b smod 2 = 0 then cancel_tens (a sdiv 5) (b sdiv 2) s
     else (a, b, Suc s))"

definition exact_mul :: "DecimalLib \<Rightarrow> Decimal \<Rightarrow> Decimal \<Rightarrow> Decimal option" where
  "exact_mul lib left0 right0 = (let left = dl_normalize lib left0; right = dl_normalize lib right0 in
     case cancel_tens (mantissa left) (mantissa right) (scale left + scale right) of (a, b, s) \<Rightarrow>
       Option.bind (checked_mul a b) (\<lambda>coefficient. exact_coefficient lib coefficient s))"

definition exact_div_100 :: "DecimalLib \<Rightarrow> Decimal \<Rightarrow> Decimal option" where
  "exact_div_100 lib v = exact_coefficient lib (mantissa v) (scale v + 2)"

definition aligned_sum :: "Decimal \<Rightarrow> Decimal \<Rightarrow> nat \<Rightarrow> int option" where
  "aligned_sum left right s =
     Option.bind (checked_mul (mantissa left) (10 ^ (s - scale left))) (\<lambda>a.
     Option.bind (checked_mul (mantissa right) (10 ^ (s - scale right))) (\<lambda>b.
       checked_add a b))"

definition exact_add :: "DecimalLib \<Rightarrow> Decimal \<Rightarrow> Decimal \<Rightarrow> Decimal option" where
  "exact_add lib left0 right0 = (let left = dl_normalize lib left0; right = dl_normalize lib right0;
       s = max (scale left) (scale right) in
     Option.bind (aligned_sum left right s) (\<lambda>coefficient. exact_coefficient lib coefficient s))"

text \<open>\<open>contract/decimal.rs\<close>: the package's own sum is kept, but only when it is the exact one.\<close>

definition exact_balance_add :: "DecimalLib \<Rightarrow> Decimal \<Rightarrow> Decimal \<Rightarrow> Decimal option" where
  "exact_balance_add lib left0 right0 =
     Option.bind (dl_checked_add lib left0 right0) (\<lambda>result.
       let left = dl_normalize lib left0; right = dl_normalize lib right0;
         scale0 = max (scale left) (scale right) in
       Option.bind (aligned_sum left right scale0) (\<lambda>coefficient0.
         case strip_zeroes coefficient0 scale0 of (coefficient, s) \<Rightarrow>
           Option.bind (result_ok (dl_try_from_i128_with_scale lib coefficient s)) (\<lambda>exact.
             if dl_eq lib result exact then Some result else None)))"

fun try_sum :: "DecimalLib \<Rightarrow> Decimal \<Rightarrow> Decimal list \<Rightarrow> Decimal option" where
  "try_sum lib paid [] = Some paid"
| "try_sum lib paid (amount # amounts) =
    Option.bind (exact_balance_add lib paid amount) (\<lambda>paid'. try_sum lib paid' amounts)"

definition outstanding :: "DecimalLib \<Rightarrow> Decimal option \<Rightarrow> Decimal list \<Rightarrow> Decimal option" where
  "outstanding lib gross credit_entries =
     Option.bind (try_sum lib ZERO credit_entries) (\<lambda>paid.
     Option.bind gross (\<lambda>g. exact_balance_add lib g (dl_neg lib paid)))"

section \<open>Parsing\<close>

datatype DecimalError = Underflow | ExceedsMaximumPossibleValue | PackageError ustr | NotANumber ustr

definition is_digit :: "nat \<Rightarrow> bool" where
  "is_digit c \<longleftrightarrow> 48 \<le> c \<and> c \<le> 57"

definition strip_sign :: "ustr \<Rightarrow> ustr" where
  "strip_sign s = (case s of [] \<Rightarrow> [] | c # t \<Rightarrow> if c = 43 \<or> c = 45 then t else s)"

fun split_exponent :: "ustr \<Rightarrow> (ustr \<times> ustr) option" where
  "split_exponent [] = None"
| "split_exponent (c # s) = (if c = 101 \<or> c = 69 then Some ([], s)
     else map_option (\<lambda>(m, e). (c # m, e)) (split_exponent s))"

text \<open>The byte loop over the mantissa: the digits, and the position of the point among them.\<close>

fun scan_digits :: "ustr \<Rightarrow> ustr \<Rightarrow> nat option \<Rightarrow> (ustr \<times> nat option) option" where
  "scan_digits [] digits point = Some (digits, point)"
| "scan_digits (b # bs) digits point =
    (if is_digit b then scan_digits bs (digits @ [b]) point
     else if b = 46 \<and> point = None then scan_digits bs digits (Some (length digits))
     else None)"

definition digits_value :: "ustr \<Rightarrow> nat" where
  "digits_value ds = foldl (\<lambda>n d. n * 10 + (d - 48)) 0 ds"

definition signed_value :: "ustr \<Rightarrow> int" where
  "signed_value s = (if take 1 s = [45] then - int (digits_value (strip_sign s)) else int (digits_value (strip_sign s)))"

definition parse_i64 :: "ustr \<Rightarrow> int option" where
  "parse_i64 s = i64 (signed_value s)"

text \<open>Sign, digits, number of fractional digits and exponent text of a numeric token.\<close>

definition lex_number :: "ustr \<Rightarrow> (ustr \<times> nat \<times> ustr) option" where
  "lex_number v = (let body = strip_sign v;
       (m, exponent) = (case split_exponent body of Some me \<Rightarrow> me | None \<Rightarrow> (body, us ''0''));
       exponent_digits = strip_sign exponent in
     if exponent_digits = [] \<or> \<not> list_all is_digit exponent_digits then None
     else (case scan_digits m [] None of
         None \<Rightarrow> None
       | Some (digits, point) \<Rightarrow> if digits = [] then None
           else Some (digits, (case point of None \<Rightarrow> 0 | Some p \<Rightarrow> length digits - p), exponent)))"

definition zero_with_scale :: "DecimalLib \<Rightarrow> nat \<Rightarrow> ustr \<Rightarrow> Decimal" where
  "zero_with_scale lib fractional exponent = (case parse_i64 exponent of
     None \<Rightarrow> ZERO
   | Some e \<Rightarrow> (case i64 (int fractional) of
       None \<Rightarrow> ZERO
     | Some f \<Rightarrow> (case i64 (f - e) of
         None \<Rightarrow> ZERO
       | Some s \<Rightarrow> if 0 \<le> s \<and> s < 2 ^ 32 then dl_rescale lib ZERO (min (nat s) MAX_SCALE) else ZERO)))"

definition restore_scale :: "DecimalLib \<Rightarrow> Decimal \<Rightarrow> nat \<Rightarrow> int \<Rightarrow> Decimal" where
  "restore_scale lib result fractional e = (case i64 (int fractional) of
     None \<Rightarrow> result
   | Some f \<Rightarrow> (case i64 (f - e) of
       None \<Rightarrow> result
     | Some s \<Rightarrow> if 0 \<le> s \<and> s < 2 ^ 32 then dl_rescale lib result (min (nat s) MAX_SCALE) else result))"

definition checked_scale :: "nat \<Rightarrow> nat \<Rightarrow> int \<Rightarrow> int option" where
  "checked_scale fractional trailing e =
     Option.bind (i64 (int fractional)) (\<lambda>n.
     Option.bind (i64 (int trailing)) (\<lambda>t.
     Option.bind (i64 (n - t)) (\<lambda>m. i64 (m - e))))"

definition nonzero_number :: "DecimalLib \<Rightarrow> bool \<Rightarrow> ustr \<Rightarrow> nat \<Rightarrow> ustr \<Rightarrow> (Decimal, DecimalError) result" where
  "nonzero_number lib negative significant fractional exponent_text =
    (let coefficient = rev (dropWhile (\<lambda>c. c = 48) (rev significant));
       trailing = length significant - length coefficient in
     case parse_i64 exponent_text of
       None \<Rightarrow> Err Underflow
     | Some e \<Rightarrow> (case checked_scale fractional trailing e of
         None \<Rightarrow> Err Underflow
       | Some s \<Rightarrow>
           if int MAX_SCALE < s then Err Underflow
           else let extra = (if s < 0 then nat (- s) else 0) in
             if 29 < length coefficient \<or> 29 - length coefficient < extra then Err ExceedsMaximumPossibleValue
             else (case i128 (int (digits_value (coefficient @ replicate extra 48))) of
                 None \<Rightarrow> Err ExceedsMaximumPossibleValue
               | Some magnitude \<Rightarrow> (let integer = (if negative then - magnitude else magnitude) in
                   case dl_try_from_i128_with_scale lib integer (nat (max s 0)) of
                     Inl error \<Rightarrow> Err (PackageError error)
                   | Inr result \<Rightarrow> Ok (restore_scale lib result fractional e)))))"

definition numeric :: "DecimalLib \<Rightarrow> ustr \<Rightarrow> (Decimal, DecimalError) result option" where
  "numeric lib v = (case lex_number v of
     None \<Rightarrow> None
   | Some (digits, fractional, exponent) \<Rightarrow>
       (let significant = dropWhile (\<lambda>c. c = 48) digits in
        if significant = [] then Some (Ok (zero_with_scale lib fractional exponent))
        else Some (nonzero_number lib (take 1 v = [45]) significant fractional exponent)))"

definition parse_decimal :: "DecimalLib \<Rightarrow> ustr \<Rightarrow> (Decimal, DecimalError) result" where
  "parse_decimal lib v = (case numeric lib v of
     Some r \<Rightarrow> r
   | None \<Rightarrow> Err (NotANumber (msg ''expected a finite decimal number'')))"

section \<open>Truncating division\<close>

lemma smod_eq_0_iff: "(a :: int) smod b = 0 \<longleftrightarrow> b dvd a"
proof -
  have "a smod b = 0 \<longleftrightarrow> a = 0 \<or> \<bar>b\<bar> dvd \<bar>a\<bar>"
    by (simp add: smod_int_alt_def sgn_0_0 dvd_eq_mod_eq_0)
  then show ?thesis by auto
qed

lemma sdiv_dvd:
  assumes "(b :: int) dvd a"
  shows "a sdiv b * b = a"
proof -
  have "a smod b = 0" using assms by (simp add: smod_eq_0_iff)
  with sdiv_mult_smod_eq [of a b] show ?thesis by linarith
qed

section \<open>Representable values\<close>

text \<open>A coefficient in normal form is representable as it is or not at all.\<close>

lemma representable_iff:
  assumes "normal_form c s"
  shows "(\<exists>d. valid_decimal d \<and> value_of d = of_int c / 10 ^ s) \<longleftrightarrow> valid_decimal (Decimal c s)"
proof
  assume "\<exists>d. valid_decimal d \<and> value_of d = of_int c / 10 ^ s"
  then obtain m t where d: "valid_decimal (Decimal m t)" "of_int m / 10 ^ t = (of_int c / 10 ^ s :: rat)"
    by (metis Decimal.collapse value_of_def)
  then have "of_int (m * 10 ^ s) = (of_int (c * 10 ^ t) :: rat)"
    by (simp add: divide_simps)
  then have e: "m * 10 ^ s = c * 10 ^ t" by (rule of_int_eq_iff [THEN iffD1])
  show "valid_decimal (Decimal c s)"
  proof (cases "s \<le> t")
    case True
    then have "m = c * 10 ^ (t - s)"
      using e power_add [of "10 :: int" s "t - s"] by simp
    then have "\<bar>c\<bar> \<le> \<bar>m\<bar>"
      by (simp add: abs_mult) (metis abs_ge_zero linorder_not_less mult.right_neutral mult_left_mono one_le_numeral one_le_power)
    with d(1) True show ?thesis by (simp add: valid_decimal_def)
  next
    case False
    then obtain k where k: "s = Suc (t + k)" by (metis add_Suc_right less_iff_Suc_add not_le)
    then have "c * 10 ^ t = (m * 10 ^ k * 10) * 10 ^ t" using e by (simp add: power_add)
    then have "c = m * 10 ^ k * 10" by (metis mult_right_cancel power_not_zero zero_neq_numeral)
    then have "10 dvd c" by simp
    with assms k show ?thesis by (simp add: normal_form_def)
  qed
next
  assume "valid_decimal (Decimal c s)"
  then show "\<exists>d. valid_decimal d \<and> value_of d = of_int c / 10 ^ s"
    by (intro exI [of _ "Decimal c s"]) (simp add: value_of_def)
qed

lemma strip_zeroes_spec:
  assumes "strip_zeroes c s = (c', s')"
  shows "normal_form c' s' \<and> of_int c' / 10 ^ s' = (of_int c / 10 ^ s :: rat) \<and> s' \<le> s \<and> \<bar>c'\<bar> \<le> \<bar>c\<bar>"
  using assms
proof (induction c s rule: strip_zeroes.induct)
  case (2 c s)
  show ?case
  proof (cases "10 dvd c")
    case True
    define k where "k = c sdiv 10"
    have k: "c = k * 10" using sdiv_dvd [OF True] by (simp add: k_def)
    have "strip_zeroes k s = (c', s')" using 2 True by (simp add: smod_eq_0_iff k_def)
    then have "normal_form c' s' \<and> of_int c' / 10 ^ s' = (of_int k / 10 ^ s :: rat) \<and> s' \<le> s \<and> \<bar>c'\<bar> \<le> \<bar>k\<bar>"
      using 2 True by (simp add: smod_eq_0_iff k_def)
    then show ?thesis by (auto simp: k abs_mult)
  qed (use 2 in \<open>auto simp: smod_eq_0_iff normal_form_def\<close>)
qed (simp add: normal_form_def)

lemma cancel_tens_spec:
  assumes "cancel_tens a b s = (a', b', s')"
  shows "normal_form (a' * b') s' \<and> of_int (a' * b') / 10 ^ s' = (of_int (a * b) / 10 ^ s :: rat)"
  using assms
proof (induction a b s rule: cancel_tens.induct)
  case (2 a b s)
  have div: "of_int (x sdiv p * (y sdiv q)) / 10 ^ s = (of_int (x * y) / 10 ^ Suc s :: rat)"
    if "p dvd x" "q dvd y" "p * q = 10" for x y p q :: int
  proof -
    have "x * y = (x sdiv p * (y sdiv q)) * 10"
      using sdiv_dvd [OF that(1)] sdiv_dvd [OF that(2)] that(3) by (metis mult.assoc mult.commute)
    then show ?thesis by simp
  qed
  have prime: "10 dvd a * b \<Longrightarrow> 10 dvd a \<or> 10 dvd b \<or> (2 dvd a \<and> 5 dvd b) \<or> (5 dvd a \<and> 2 dvd b)"
  proof -
    assume d: "10 dvd a * b"
    have ab: "2 dvd a * b" "5 dvd a * b"
      using dvd_trans [OF _ d, of 2] dvd_trans [OF _ d, of 5] by simp_all
    have "2 dvd a \<or> 2 dvd b" using ab(1) by simp
    moreover have "5 dvd a \<or> 5 dvd b"
    proof (rule ccontr)
      assume n: "\<not> (5 dvd a \<or> 5 dvd b)"
      have "(a mod 5) * (b mod 5) mod 5 = 0" using ab(2) by (simp add: mod_mult_eq dvd_eq_mod_eq_0)
      moreover have "a mod 5 \<in> {1, 2, 3, 4}" "b mod 5 \<in> {1, 2, 3, 4}" using n by (simp_all, presburger+)
      ultimately show False by auto
    qed
    moreover have "10 dvd x \<longleftrightarrow> 2 dvd x \<and> 5 dvd x" for x :: int by presburger
    ultimately show ?thesis by blast
  qed
  show ?case
    using 2 div [of 10 a 1 b] div [of 1 a 10 b] div [of 2 a 5 b] div [of 5 a 2 b] prime
    by (auto simp: smod_eq_0_iff normal_form_def split: if_splits)
qed (simp add: normal_form_def)

text \<open>What an exact operation promises of its result: the value, or that no decimal has it.\<close>

definition exact_result :: "Decimal option \<Rightarrow> rat \<Rightarrow> bool" where
  "exact_result r x \<longleftrightarrow> (case r of
     Some d \<Rightarrow> valid_decimal d \<and> value_of d = x
   | None \<Rightarrow> (\<nexists>d. valid_decimal d \<and> value_of d = x))"

lemma not_representable:
  assumes "normal_form c s" "\<not> valid_decimal (Decimal c s)"
  shows "exact_result None (of_int c / 10 ^ s)"
  using representable_iff [OF assms(1)] assms(2) by (simp add: exact_result_def)

lemma i128_bind_exact:
  assumes "normal_form x s" "\<And>y. y = x \<Longrightarrow> exact_result (f y) (of_int x / 10 ^ s)"
  shows "exact_result (Option.bind (i128 x) f) (of_int x / 10 ^ s)"
proof (cases "i128 x")
  case None
  then have "\<not> valid_decimal (Decimal x s)"
    by (auto simp: i128_def valid_decimal_def split: if_splits)
  with None assms(1) show ?thesis by (simp add: not_representable)
next
  case (Some y)
  then have "y = x" by (simp add: i128_def split: if_splits)
  with Some assms(2) show ?thesis by simp
qed

context decimal_lib
begin

lemma exact_coefficient_exact: "exact_result (exact_coefficient lib c s) (of_int c / 10 ^ s)"
proof -
  obtain c' s' where cs: "strip_zeroes c s = (c', s')" by fastforce
  note spec = strip_zeroes_spec [OF cs]
  have "exact_result (exact_coefficient lib c s) (of_int c' / 10 ^ s')"
  proof (cases "valid_decimal (Decimal c' s')")
    case True
    then show ?thesis
      by (simp add: exact_coefficient_def cs exact_result_def from_parts value_of_def valid_decimal_def)
  next
    case False
    then show ?thesis
      using not_representable [of c' s'] spec by (simp add: exact_coefficient_def cs from_parts)
  qed
  with spec show ?thesis by simp
qed

lemma normalize_parts:
  assumes "valid_decimal d"
  shows "value_of d = of_int (mantissa (dl_normalize lib d)) / 10 ^ scale (dl_normalize lib d)"
  using normalize_value [OF assms] by (simp add: value_of_def)

lemma exact_mul_exact:
  assumes "valid_decimal left" "valid_decimal right"
  shows "exact_result (exact_mul lib left right) (value_of left * value_of right)"
proof -
  let ?l = "dl_normalize lib left" and ?r = "dl_normalize lib right"
  obtain a b s where abs: "cancel_tens (mantissa ?l) (mantissa ?r) (scale ?l + scale ?r) = (a, b, s)"
    by (metis prod_cases3)
  note spec = cancel_tens_spec [OF abs]
  have "value_of left * value_of right = of_int (mantissa ?l * mantissa ?r) / 10 ^ (scale ?l + scale ?r)"
    by (simp add: normalize_parts assms power_add)
  also have "\<dots> = of_int (a * b) / 10 ^ s" using spec by simp
  finally show ?thesis
    using i128_bind_exact [of "a * b" s "\<lambda>c. exact_coefficient lib c s"] spec exact_coefficient_exact [of "a * b" s]
    by (simp add: exact_mul_def abs checked_mul_def Let_def)
qed

lemma exact_div_100_exact: "exact_result (exact_div_100 lib d) (value_of d / 100)"
  using exact_coefficient_exact [of "mantissa d" "scale d + 2"]
  by (simp add: exact_div_100_def value_of_def power_add mult.commute)

end

text \<open>Aligning two normal forms to the larger scale: the one at that scale keeps its last digit,
  so an alignment that leaves \<open>i128\<close> cannot cancel back into a decimal.\<close>

lemma aligned_normal:
  assumes "normal_form a s" "normal_form b t" "s < t"
  shows "normal_form (a * 10 ^ (t - s) + b) t"
proof -
  have "10 dvd a * 10 ^ (t - s)" using assms(3) by (simp add: dvd_power)
  then have "10 dvd a * 10 ^ (t - s) + b \<longleftrightarrow> 10 dvd b" by (rule dvd_add_right_iff)
  with assms show ?thesis by (simp add: normal_form_def)
qed

lemma aligned_overflow:
  assumes "normal_form a s" "normal_form b t" "s < t" "\<bar>b\<bar> < 2 ^ 96" "i128 (a * 10 ^ (t - s)) = None"
  shows "exact_result None (of_int (a * 10 ^ (t - s) + b) / 10 ^ t)"
proof (rule not_representable [OF aligned_normal [OF assms(1-3)]])
  let ?x = "a * 10 ^ (t - s)"
  have "2 ^ 127 \<le> \<bar>?x\<bar>" using assms(5) by (auto simp: i128_def split: if_splits)
  moreover have "\<bar>?x\<bar> \<le> \<bar>?x + b\<bar> + \<bar>b\<bar>" by linarith
  ultimately have "2 ^ 96 \<le> \<bar>?x + b\<bar>" using assms(4) by simp
  then show "\<not> valid_decimal (Decimal (?x + b) t)" by (simp add: valid_decimal_def)
qed

lemma aligned_bind_exact:
  assumes a: "normal_form a s" and b: "normal_form b t" and st: "s < t" and small: "\<bar>b\<bar> < 2 ^ 96"
    and f: "\<And>c. exact_result (f c) (of_int c / 10 ^ t)"
  shows "exact_result (Option.bind (i128 (a * 10 ^ (t - s))) (\<lambda>x. Option.bind (i128 (x + b)) f))
    (of_int a / 10 ^ s + of_int b / 10 ^ t)"
proof -
  let ?x = "a * 10 ^ (t - s)"
  have "(10 :: rat) ^ t = 10 ^ (t - s) * 10 ^ s" using st by (simp flip: power_add)
  then have v: "of_int a / 10 ^ s + of_int b / 10 ^ t = (of_int (?x + b) / 10 ^ t :: rat)"
    by (simp add: field_simps)
  show ?thesis
  proof (cases "i128 ?x")
    case None
    then show ?thesis using aligned_overflow [OF a b st small] unfolding v by simp
  next
    case (Some y)
    then have "y = ?x" by (simp add: i128_def split: if_splits)
    have "exact_result (Option.bind (i128 (?x + b)) f) (of_int (?x + b) / 10 ^ t)"
      by (rule i128_bind_exact [OF aligned_normal [OF a b st]]) (simp only: f)
    then show ?thesis unfolding v Some \<open>y = ?x\<close> by (simp only: Option.bind.simps)
  qed
qed

lemma i128_small: "\<bar>x\<bar> < 2 ^ 96 \<Longrightarrow> i128 x = Some x"
  by (simp add: i128_def) linarith

lemma aligned_sum_exact:
  assumes l: "valid_decimal l" "normal_form (mantissa l) (scale l)"
    and r: "valid_decimal r" "normal_form (mantissa r) (scale r)"
    and f: "\<And>c. exact_result (f c) (of_int c / 10 ^ max (scale l) (scale r))"
  shows "exact_result (Option.bind (aligned_sum l r (max (scale l) (scale r))) f) (value_of l + value_of r)"
proof -
  note small = l(1) r(1)
  consider "scale l < scale r" | "scale r < scale l" | "scale l = scale r" by linarith
  then show ?thesis
  proof cases
    case 1
    then show ?thesis
      using aligned_bind_exact [OF l(2) r(2) 1, of f] f small
      by (simp add: aligned_sum_def checked_mul_def checked_add_def i128_small valid_decimal_def value_of_def max_def)
  next
    case 2
    then show ?thesis
      using aligned_bind_exact [OF r(2) l(2) 2, of f] f small
      by (simp add: aligned_sum_def checked_mul_def checked_add_def i128_small valid_decimal_def value_of_def max_def
          add.commute)
  next
    case 3
    have "i128 (mantissa l + mantissa r) = Some (mantissa l + mantissa r)"
      using small by (simp add: i128_def valid_decimal_def) linarith
    then show ?thesis
      using f [of "mantissa l + mantissa r"] small 3
      by (simp add: aligned_sum_def checked_mul_def checked_add_def i128_small valid_decimal_def value_of_def
          add_divide_distrib)
  qed
qed

context decimal_lib
begin

lemma exact_add_exact:
  assumes "valid_decimal left" "valid_decimal right"
  shows "exact_result (exact_add lib left right) (value_of left + value_of right)"
proof -
  have "exact_result (exact_add lib left right) (value_of (dl_normalize lib left) + value_of (dl_normalize lib right))"
    unfolding exact_add_def Let_def
    by (intro aligned_sum_exact normalize_valid normalize_normal assms exact_coefficient_exact)
  then show ?thesis by (simp add: normalize_value assms)
qed

lemma exact_balance_add_sound:
  assumes "valid_decimal left" "valid_decimal right" "exact_balance_add lib left right = Some d"
  shows "valid_decimal d \<and> value_of d = value_of left + value_of right"
proof -
  let ?l = "dl_normalize lib left" and ?r = "dl_normalize lib right"
  define s0 where "s0 = max (scale ?l) (scale ?r)"
  obtain result where r1: "dl_checked_add lib left right = Some result"
    using assms(3) by (auto simp: exact_balance_add_def bind_eq_Some_conv)
  obtain c0 where r2: "aligned_sum ?l ?r s0 = Some c0"
    using assms(3) by (auto simp: exact_balance_add_def bind_eq_Some_conv Let_def s0_def)
  obtain c s where r3: "strip_zeroes c0 s0 = (c, s)" by fastforce
  obtain exact where r4: "result_ok (dl_try_from_i128_with_scale lib c s) = Some exact" "dl_eq lib result exact" "d = result"
    using assms(3) r1 r2 r3 by (auto simp: exact_balance_add_def bind_eq_Some_conv Let_def s0_def split: if_splits)
  have "exact_result (Option.bind (aligned_sum ?l ?r s0) (\<lambda>c. exact_coefficient lib c s0)) (value_of ?l + value_of ?r)"
    unfolding s0_def by (intro aligned_sum_exact normalize_valid normalize_normal assms exact_coefficient_exact)
  moreover have "exact_coefficient lib c0 s0 = Some exact"
    using r3 r4 by (auto simp: exact_coefficient_def from_parts valid_decimal_def split: if_splits)
  ultimately have "value_of exact = value_of ?l + value_of ?r"
    using r2 by (simp add: exact_result_def)
  then show ?thesis
    using r1 r4 checked_add_valid [OF assms(1,2)] by (simp add: eq_iff normalize_value assms)
qed

lemma try_sum_sound:
  assumes "valid_decimal d" "list_all valid_decimal amounts" "try_sum lib d amounts = Some paid"
  shows "valid_decimal paid \<and> value_of paid = value_of d + sum_list (map value_of amounts)"
  using assms
proof (induction amounts arbitrary: d)
  case (Cons a amounts)
  then obtain d' where d': "exact_balance_add lib d a = Some d'" "try_sum lib d' amounts = Some paid"
    by (auto simp: bind_eq_Some_conv)
  have "valid_decimal d' \<and> value_of d' = value_of d + value_of a"
    using exact_balance_add_sound [of d a d'] Cons.prems d'(1) by simp
  with Cons.IH [of d'] Cons.prems d'(2) show ?case by simp
qed simp

end

section \<open>The value of a numeric token\<close>

definition literal_value :: "ustr \<Rightarrow> rat option" where
  "literal_value v = (case lex_number v of
     None \<Rightarrow> None
   | Some (digits, fractional, exponent) \<Rightarrow>
       Some ((if take 1 v = [45] then - 1 else 1) * of_nat (digits_value digits) * 10 powi signed_value exponent / 10 ^ fractional))"

lemma digits_value_snoc: "digits_value (ds @ [d]) = digits_value ds * 10 + (d - 48)"
  by (simp add: digits_value_def)

lemma digits_value_append: "digits_value (a @ b) = digits_value a * 10 ^ length b + digits_value b"
proof (induction b rule: rev_induct)
  case (snoc d b)
  then show ?case by (simp add: digits_value_snoc flip: append_assoc)
qed (simp add: digits_value_def)

lemma digits_value_zeroes: "digits_value (replicate n 48) = 0"
  by (induction n) (simp_all add: digits_value_def)

lemma digits_value_leading: "digits_value (dropWhile (\<lambda>c. c = 48) ds) = digits_value ds"
proof -
  have "takeWhile (\<lambda>c. c = 48) ds = replicate (length (takeWhile (\<lambda>c. c = 48) ds)) 48"
    by (metis (mono_tags, lifting) replicate_length_same set_takeWhileD)
  then show ?thesis
    using digits_value_append [of "takeWhile (\<lambda>c. c = 48) ds" "dropWhile (\<lambda>c. c = 48) ds"] digits_value_zeroes
    by (metis add_cancel_left_left mult_is_0 takeWhile_dropWhile_id)
qed

lemma digits_value_upper: "list_all is_digit ds \<Longrightarrow> digits_value ds < 10 ^ length ds"
proof (induction ds rule: rev_induct)
  case (snoc d ds)
  then have "digits_value ds < 10 ^ length ds" "d - 48 \<le> 9" by (simp, simp add: is_digit_def, linarith)
  then show ?case by (simp add: digits_value_snoc)
qed (simp add: digits_value_def)

lemma digits_value_lower:
  assumes "list_all is_digit (d # ds)" "d \<noteq> 48"
  shows "10 ^ length ds \<le> digits_value (d # ds)"
proof -
  have "1 * 10 ^ length ds \<le> (d - 48) * 10 ^ length ds"
    by (rule mult_right_mono) (use assms in \<open>auto simp: is_digit_def\<close>)
  moreover have "digits_value (d # ds) = (d - 48) * 10 ^ length ds + digits_value ds"
    using digits_value_append [of "[d]" ds] by (simp add: digits_value_def)
  ultimately show ?thesis by linarith
qed

lemma trailing_zeroes:
  assumes "coefficient = rev (dropWhile (\<lambda>c. c = 48) (rev ds))"
  shows "ds = coefficient @ replicate (length ds - length coefficient) 48"
proof -
  let ?z = "rev (takeWhile (\<lambda>c. c = 48) (rev ds))"
  have d: "ds = coefficient @ ?z" by (metis assms rev_append rev_rev_ident takeWhile_dropWhile_id)
  moreover have "?z = replicate (length ?z) 48"
    by (metis (mono_tags, lifting) length_rev replicate_length_same rev_replicate set_takeWhileD)
  moreover have "length ?z = length ds - length coefficient" by (subst d) simp
  ultimately show ?thesis by metis
qed

lemma scan_digits_spec:
  assumes "scan_digits bs ds p = Some (ds', p')" "list_all is_digit ds" "\<forall>q. p = Some q \<longrightarrow> q \<le> length ds"
  shows "list_all is_digit ds' \<and> length ds' \<le> length ds + length bs \<and> (\<forall>q. p' = Some q \<longrightarrow> q \<le> length ds')"
  using assms by (induction bs ds p rule: scan_digits.induct) (fastforce split: if_splits)+

lemma split_exponent_length: "split_exponent s = Some (m, e) \<Longrightarrow> length m \<le> length s"
  by (induction s arbitrary: m e) (fastforce split: if_splits)+

lemma lex_number_spec:
  assumes "lex_number v = Some (digits, fractional, exponent)"
  shows "list_all is_digit digits \<and> digits \<noteq> [] \<and> length digits \<le> length v \<and> fractional \<le> length digits"
proof -
  obtain m e where me: "(case split_exponent (strip_sign v) of Some me \<Rightarrow> me | None \<Rightarrow> (strip_sign v, us ''0'')) = (m, e)"
    by fastforce
  have "length (strip_sign v) \<le> length v" by (simp add: strip_sign_def split: list.split)
  moreover have "length m \<le> length (strip_sign v)"
    using me split_exponent_length [of "strip_sign v"] by (auto split: option.splits)
  moreover obtain point where "scan_digits m [] None = Some (digits, point)" "digits \<noteq> []"
      "fractional = (case point of None \<Rightarrow> 0 | Some p \<Rightarrow> length digits - p)"
    using assms me by (auto simp: lex_number_def Let_def split: option.splits if_splits prod.splits)
  ultimately show ?thesis
    using scan_digits_spec [of m "[]" None digits point] by (auto split: option.splits)
qed

text \<open>The parts of a nonzero token: a coefficient that ends in a nonzero digit and an exponent.\<close>

lemma coefficient_spec:
  assumes "list_all is_digit ds" "ds \<noteq> []" "hd ds \<noteq> 48" "coefficient = rev (dropWhile (\<lambda>c. c = 48) (rev ds))"
  shows "coefficient \<noteq> []" "list_all is_digit coefficient" "\<not> 10 dvd digits_value coefficient"
    "10 ^ (length coefficient - 1) \<le> digits_value coefficient" "length coefficient \<le> length ds"
    "digits_value ds = digits_value coefficient * 10 ^ (length ds - length coefficient)"
proof -
  note ds = trailing_zeroes [OF assms(4)]
  show ne: "coefficient \<noteq> []"
  proof
    assume "coefficient = []"
    then have "ds = replicate (length ds) 48" using ds by simp
    then show False using assms(2,3) by (metis hd_replicate length_0_conv)
  qed
  show digits: "list_all is_digit coefficient" using ds assms(1) by (metis list_all_append)
  show "length coefficient \<le> length ds" by (subst ds) simp
  show "digits_value ds = digits_value coefficient * 10 ^ (length ds - length coefficient)"
    by (subst (1) ds) (simp add: digits_value_append digits_value_zeroes)
  have "hd coefficient = hd ds" using ne by (subst ds) simp
  then show "10 ^ (length coefficient - 1) \<le> digits_value coefficient"
    using digits_value_lower [of "hd coefficient" "tl coefficient"] ne digits assms(3) by (cases coefficient) auto
  have "dropWhile (\<lambda>c. c = 48) (rev ds) \<noteq> []" using ne assms(4) by simp
  then have "last coefficient \<noteq> 48" using hd_dropWhile assms(4) by (metis (mono_tags, lifting) last_rev)
  moreover have "is_digit (last coefficient)" using digits ne by (metis last_in_set list_all_iff)
  moreover have "digits_value coefficient = digits_value (butlast coefficient) * 10 + (last coefficient - 48)"
    using digits_value_snoc [of "butlast coefficient" "last coefficient"] ne by simp
  ultimately show "\<not> 10 dvd digits_value coefficient"
    by (simp add: is_digit_def) presburger
qed

lemma scaled_value:
  fixes c :: int and s :: int
  shows "of_int c * 10 powi (- s) = (of_int (c * 10 ^ nat (- s)) / 10 ^ nat s :: rat)"
proof (cases "0 \<le> s")
  case True
  then have "(10 :: rat) powi (- s) = inverse (10 ^ nat s)"
    by (metis nat_eq_iff2 power_int_minus power_int_of_nat)
  with True show ?thesis by (simp add: divide_inverse)
next
  case False
  then show ?thesis by (simp add: power_int_def)
qed

context decimal_lib
begin

lemma restore_scale_ok:
  assumes "valid_decimal d" "int (scale d) \<le> max 0 (int fractional - e)"
  shows "valid_decimal (restore_scale lib d fractional e) \<and> value_of (restore_scale lib d fractional e) = value_of d"
proof -
  have "scale d \<le> min (nat (int fractional - e)) MAX_SCALE" if "0 \<le> int fractional - e"
    using assms that by (simp add: valid_decimal_def)
  then show ?thesis
    using rescale_valid [OF assms(1)] rescale_value [OF assms(1)] assms(1)
    by (auto simp: restore_scale_def i64_def split: option.splits if_splits)
qed

lemma zero_with_scale_ok: "valid_decimal (zero_with_scale lib fractional e) \<and> value_of (zero_with_scale lib fractional e) = 0"
proof -
  have "valid_decimal ZERO" "value_of ZERO = 0" "scale ZERO = 0"
    by (simp_all add: valid_decimal_def ZERO_def value_of_def MAX_SCALE_def)
  then show ?thesis
    using rescale_valid [of ZERO] rescale_value [of ZERO]
    by (auto simp: zero_with_scale_def split: option.splits)
qed

lemma nonzero_number_exact:
  assumes ds: "list_all is_digit ds" "ds \<noteq> []" "hd ds \<noteq> 48" and len: "length ds < 2 ^ 62" "fractional < 2 ^ 62"
    and x: "x = (if negative then - 1 else 1) * of_nat (digits_value ds) * 10 powi signed_value exponent / 10 ^ fractional"
  shows "exact_result (result_ok (nonzero_number lib negative ds fractional exponent)) x"
proof -
  define coefficient where "coefficient = rev (dropWhile (\<lambda>c. c = 48) (rev ds))"
  note co = coefficient_spec [OF ds coefficient_def]
  define trailing where "trailing = length ds - length coefficient"
  define e where "e = signed_value exponent"
  define s where "s = int fractional - int trailing - e"
  define sg :: int where "sg = (if negative then - 1 else 1)"
  define M where "M = sg * int (digits_value coefficient) * 10 ^ nat (- s)"
  have sg: "\<bar>sg\<bar> = 1" by (simp add: sg_def)
  have "x = of_int (sg * int (digits_value coefficient)) * (10 ^ trailing * 10 powi e / 10 ^ fractional)"
    using co(6) by (simp add: x sg_def e_def trailing_def)
  also have "10 ^ trailing * 10 powi e / 10 ^ fractional = (10 powi (- s) :: rat)"
    by (simp add: s_def power_int_diff power_int_add)
  finally have xM: "x = of_int M / 10 ^ nat s"
    using scaled_value [of "sg * int (digits_value coefficient)" s] by (simp add: M_def)
  have "\<not> (10 :: int) dvd int (digits_value coefficient)"
    using co(3) by (metis of_nat_dvd_iff of_nat_numeral)
  then have normal: "normal_form M (nat s)"
    by (auto simp: normal_form_def M_def sg_def)
  have big: "\<not> valid_decimal (Decimal M (nat s))"
    if "29 < length coefficient \<or> 29 - length coefficient < nat (- s)"
  proof -
    have "(10 :: int) ^ 29 \<le> 10 ^ (length coefficient - 1 + nat (- s))"
      using that co(1) by (intro power_increasing) (cases coefficient; auto)+
    also have "\<dots> \<le> int (digits_value coefficient) * 10 ^ nat (- s)"
      using co(4) by (simp add: power_add)
    also have "\<dots> = \<bar>M\<bar>" using sg by (simp add: M_def abs_mult)
    finally show ?thesis by (simp add: valid_decimal_def)
  qed
  have none: "exact_result None x" if "\<not> valid_decimal (Decimal M (nat s))"
    using not_representable [OF normal that] by (simp add: xM)
  have e': "parse_i64 exponent = (if - (2 ^ 63) \<le> e \<and> e < 2 ^ 63 then Some e else None)"
    by (simp add: parse_i64_def i64_def e_def)
  have tr: "trailing < 2 ^ 62" using len(1) by (simp add: trailing_def)
  have sc: "checked_scale fractional trailing e = i64 s"
    using len(2) tr by (simp add: checked_scale_def i64_def s_def)
  show ?thesis
  proof (cases "(e < - (2 ^ 63) \<or> 2 ^ 63 \<le> e) \<or> i64 s = None")
    case True
    then have "2 ^ 62 < \<bar>s\<bar>"
      using len(2) tr by (auto simp: i64_def s_def split: if_splits)
    then have "29 < nat (- s) \<or> int MAX_SCALE < s" by (auto simp: MAX_SCALE_def)
    then have "\<not> valid_decimal (Decimal M (nat s))"
      using big by (cases "29 < nat (- s)") (force, auto simp: valid_decimal_def)
    with True none show ?thesis
      by (auto simp: nonzero_number_def Let_def e' coefficient_def [symmetric] trailing_def [symmetric] sc result_ok_def)
  next
    case False
    then have "parse_i64 exponent = Some e" "checked_scale fractional trailing e = Some s"
      by (auto simp: e' sc i64_def split: if_splits)
    moreover have "digits_value (coefficient @ replicate (nat (- s)) 48) = digits_value coefficient * 10 ^ nat (- s)"
      by (simp add: digits_value_append digits_value_zeroes)
    moreover have mx: "nat (max t 0) = nat t" "(if t < 0 then nat (- t) else 0) = nat (- t)" for t :: int by simp_all
    ultimately have run: "nonzero_number lib negative ds fractional exponent =
        (if int MAX_SCALE < s then Err Underflow
         else if 29 < length coefficient \<or> 29 - length coefficient < nat (- s) then Err ExceedsMaximumPossibleValue
         else case i128 \<bar>M\<bar> of None \<Rightarrow> Err ExceedsMaximumPossibleValue
           | Some m \<Rightarrow> case dl_try_from_i128_with_scale lib (sg * m) (nat s) of
               Inl error \<Rightarrow> Err (PackageError error)
             | Inr result \<Rightarrow> Ok (restore_scale lib result fractional e))"
      unfolding nonzero_number_def Let_def coefficient_def [symmetric] trailing_def [symmetric]
      using sg by (cases negative) (auto simp: sg_def M_def abs_mult mx split: option.split)
    show ?thesis
    proof (cases "valid_decimal (Decimal M (nat s))")
      case True
      then have "\<not> int MAX_SCALE < s" "\<not> (29 < length coefficient \<or> 29 - length coefficient < nat (- s))"
        "i128 \<bar>M\<bar> = Some \<bar>M\<bar>" "sg * \<bar>M\<bar> = M"
        using big by (auto simp: valid_decimal_def i128_def M_def sg_def)
      moreover have "dl_try_from_i128_with_scale lib M (nat s) = Inr (Decimal M (nat s))"
        using from_parts [of M "nat s"] True by (auto simp: result_ok_def split: sum.splits)
      moreover have "int (nat s) \<le> max 0 (int fractional - e)" by (simp add: s_def)
      ultimately show ?thesis
        using restore_scale_ok [of "Decimal M (nat s)"] True
        by (simp add: run result_ok_def exact_result_def xM value_of_def)
    next
      case False
      have "sg * \<bar>M\<bar> = M" by (auto simp: M_def sg_def)
      moreover have "\<exists>error. dl_try_from_i128_with_scale lib M (nat s) = Inl error"
        using from_parts [of M "nat s"] False by (auto simp: result_ok_def split: sum.splits)
      ultimately have "\<exists>error. nonzero_number lib negative ds fractional exponent = Inl error"
        by (auto simp: run i128_def)
      then show ?thesis using none [OF False] by (auto simp: result_ok_def)
    qed
  qed
qed

lemma numeric_exact:
  assumes "length v < 2 ^ 62"
  shows "case (numeric lib v, literal_value v) of
      (None, None) \<Rightarrow> True | (Some r, Some x) \<Rightarrow> exact_result (result_ok r) x | _ \<Rightarrow> False"
proof (cases "lex_number v")
  case (Some lex)
  obtain digits fractional exponent where lex: "lex = (digits, fractional, exponent)" by (cases lex)
  note spec = lex_number_spec [OF Some [unfolded lex]]
  let ?sig = "dropWhile (\<lambda>c. c = 48) digits"
  show ?thesis
  proof (cases "?sig = []")
    case True
    then have "digits_value digits = digits_value []" using digits_value_leading [of digits] by metis
    then have "digits_value digits = 0" by (simp add: digits_value_def)
    then show ?thesis
      using zero_with_scale_ok [of fractional exponent] True
      by (simp add: numeric_def literal_value_def Some lex exact_result_def result_ok_def)
  next
    case False
    have "list_all is_digit ?sig" using spec by (metis list_all_append takeWhile_dropWhile_id)
    moreover have "hd ?sig \<noteq> 48" using hd_dropWhile [OF False] by simp
    moreover have "length ?sig < 2 ^ 62" "fractional < 2 ^ 62"
      using spec assms length_dropWhile_le [of "\<lambda>c. c = 48" digits] by simp_all
    ultimately have "exact_result (result_ok (nonzero_number lib (take 1 v = [45]) ?sig fractional exponent))
        ((if take 1 v = [45] then - 1 else 1) * of_nat (digits_value ?sig) * 10 powi signed_value exponent / 10 ^ fractional)"
      by (intro nonzero_number_exact False refl)
    then show ?thesis using False by (auto simp: numeric_def literal_value_def Some lex digits_value_leading)
  qed
qed (simp add: numeric_def literal_value_def)

end

section \<open>A decimal package that keeps the laws\<close>

definition exact_sum :: "Decimal \<Rightarrow> Decimal \<Rightarrow> int \<times> nat" where
  "exact_sum a b = (let s = max (scale a) (scale b) in
     strip_zeroes (mantissa a * 10 ^ (s - scale a) + mantissa b * 10 ^ (s - scale b)) s)"

definition exact_package :: DecimalLib where
  "exact_package = \<lparr>
     dl_normalize = (\<lambda>d. case strip_zeroes (mantissa d) (scale d) of (c, s) \<Rightarrow> Decimal c s),
     dl_try_from_i128_with_scale = (\<lambda>c s. if valid_decimal (Decimal c s) then Inr (Decimal c s) else Inl []),
     dl_round = (\<lambda>d p. if scale d \<le> p then d else Decimal (half_away (of_int (mantissa d) / 10 ^ (scale d - p))) p),
     dl_checked_add = (\<lambda>a b. case exact_sum a b of (c, s) \<Rightarrow>
       if valid_decimal (Decimal c s) then Some (Decimal c s) else None),
     dl_neg = (\<lambda>d. Decimal (- mantissa d) (scale d)),
     dl_rescale = (\<lambda>d p. if scale d \<le> p \<and> valid_decimal (Decimal (mantissa d * 10 ^ (p - scale d)) p)
       then Decimal (mantissa d * 10 ^ (p - scale d)) p else d),
     dl_eq = (\<lambda>a b. mantissa a * 10 ^ scale b = mantissa b * 10 ^ scale a),
     dl_le = (\<lambda>a b. mantissa a * 10 ^ scale b \<le> mantissa b * 10 ^ scale a) \<rparr>"

lemma half_away_bound: "\<bar>of_int (half_away x) - x\<bar> \<le> 1 / 2"
proof (cases "0 \<le> x")
  case True
  then have "half_away x = \<lfloor>x + 1 / 2\<rfloor>" by (simp add: half_away_def)
  then show ?thesis using floor_correct [of "x + 1 / 2"] by linarith
next
  case False
  then have "half_away x = - \<lfloor>1 / 2 - x\<rfloor>" by (simp add: half_away_def)
  then show ?thesis using floor_correct [of "1 / 2 - x"] by linarith
qed

lemma value_compare:
  "value_of a = value_of b \<longleftrightarrow> mantissa a * 10 ^ scale b = mantissa b * 10 ^ scale a"
  "value_of a \<le> value_of b \<longleftrightarrow> mantissa a * 10 ^ scale b \<le> mantissa b * 10 ^ scale a"
proof -
  have "value_of a = value_of b \<longleftrightarrow> (of_int (mantissa a * 10 ^ scale b) :: rat) = of_int (mantissa b * 10 ^ scale a)"
    by (simp add: value_of_def field_simps)
  then show "value_of a = value_of b \<longleftrightarrow> mantissa a * 10 ^ scale b = mantissa b * 10 ^ scale a"
    by (simp only: of_int_eq_iff)
  have "value_of a \<le> value_of b \<longleftrightarrow> (of_int (mantissa a * 10 ^ scale b) :: rat) \<le> of_int (mantissa b * 10 ^ scale a)"
    by (simp add: value_of_def field_simps)
  then show "value_of a \<le> value_of b \<longleftrightarrow> mantissa a * 10 ^ scale b \<le> mantissa b * 10 ^ scale a"
    by (simp only: of_int_le_iff)
qed

lemma rounded_small:
  assumes "\<bar>m\<bar> < 2 ^ 96" "0 < k"
  shows "\<bar>half_away (of_int m / 10 ^ k)\<bar> < 2 ^ 96"
proof -
  have ten: "(10 :: rat) \<le> 10 ^ k" using assms(2) by (metis One_nat_def Suc_leI one_le_numeral power_increasing power_one_right)
  have "\<bar>of_int m / 10 ^ k :: rat\<bar> \<le> \<bar>of_int m\<bar> / 10"
    unfolding abs_divide using ten by (intro frac_le) simp_all
  moreover have "\<bar>of_int (half_away (of_int m / 10 ^ k)) - (of_int m / 10 ^ k :: rat)\<bar> \<le> 1 / 2"
    by (rule half_away_bound)
  moreover have "\<bar>of_int m :: rat\<bar> < 2 ^ 96" using assms(1) by (metis of_int_abs of_int_less_iff of_int_numeral of_int_power)
  moreover have "(2 :: rat) ^ 96 / 10 + 1 / 2 < 2 ^ 96" by simp
  ultimately have "\<bar>of_int (half_away (of_int m / 10 ^ k)) :: rat\<bar> < 2 ^ 96" by linarith
  then show ?thesis by (metis of_int_abs of_int_less_iff of_int_numeral of_int_power)
qed

interpretation exact_package: decimal_lib exact_package
proof
  fix d assume v: "valid_decimal d"
  obtain c s where cs: "strip_zeroes (mantissa d) (scale d) = (c, s)" by fastforce
  note n = strip_zeroes_spec [OF cs]
  show "valid_decimal (dl_normalize exact_package d)" "value_of (dl_normalize exact_package d) = value_of d"
    "normal_form (mantissa (dl_normalize exact_package d)) (scale (dl_normalize exact_package d))"
    using v n by (simp_all add: exact_package_def cs valid_decimal_def value_of_def)
  show "valid_decimal (dl_round exact_package d p)" for p
    using v rounded_small [of "mantissa d" "scale d - p"] by (simp add: exact_package_def valid_decimal_def)
  show "value_of (dl_round exact_package d p) =
      (if scale d \<le> p then value_of d else of_int (half_away (value_of d * 10 ^ p)) / 10 ^ p)" for p
  proof (cases "scale d \<le> p")
    case False
    then have "(10 :: rat) ^ scale d = 10 ^ (scale d - p) * 10 ^ p" by (simp flip: power_add)
    then have "value_of d * 10 ^ p = of_int (mantissa d) / 10 ^ (scale d - p)" by (simp add: value_of_def)
    with False show ?thesis by (simp add: exact_package_def value_of_def)
  qed (simp add: exact_package_def)
  show "valid_decimal (dl_neg exact_package d)" using v by (simp add: exact_package_def valid_decimal_def)
  show "valid_decimal (dl_rescale exact_package d p)" for p using v by (simp add: exact_package_def)
  show "value_of (dl_rescale exact_package d p) = value_of d" if "scale d \<le> p" for p
    using that power_add [of "10 :: rat" "scale d" "p - scale d"] by (simp add: exact_package_def value_of_def)
next
  show "result_ok (dl_try_from_i128_with_scale exact_package c s) =
      (if valid_decimal (Decimal c s) then Some (Decimal c s) else None)" for c s
    by (simp add: exact_package_def result_ok_def)
  show "valid_decimal r" if "dl_checked_add exact_package a b = Some r" for a b r
    using that by (simp add: exact_package_def split: prod.splits if_splits)
qed (simp_all add: exact_package_def value_compare value_of_def [of "Decimal _ _"], simp add: value_of_def)

section \<open>Properties\<close>

text \<open>(C26) The product, the sum and the hundredth of two decimals are exact: the result has exactly the
  mathematical value, and an operation refuses only when no decimal has that value, whatever
  intermediate would leave 128 bits and whatever the scales.  In particular an alignment that
  overflows \<open>i128\<close> never hides a sum that fits.\<close>

theorem exact_arithmetic_complete:
  assumes "decimal_lib lib" "valid_decimal a" "valid_decimal b"
  shows "exact_result (exact_mul lib a b) (value_of a * value_of b) \<and>
    exact_result (exact_add lib a b) (value_of a + value_of b) \<and>
    exact_result (exact_div_100 lib a) (value_of a / 100)"
  using assms decimal_lib.exact_mul_exact decimal_lib.exact_add_exact decimal_lib.exact_div_100_exact by blast

theorem exact_arithmetic_complete_witness:
  "exact_mul exact_package (Decimal 125 2) (Decimal 80 1) = Some (Decimal 10 0) \<and>
   exact_result (exact_mul exact_package (Decimal 125 2) (Decimal 80 1)) (value_of (Decimal 125 2) * value_of (Decimal 80 1))"
proof
  show "exact_mul exact_package (Decimal 125 2) (Decimal 80 1) = Some (Decimal 10 0)"
    by code_simp
  show "exact_result (exact_mul exact_package (Decimal 125 2) (Decimal 80 1)) (value_of (Decimal 125 2) * value_of (Decimal 80 1))"
    using exact_arithmetic_complete [OF exact_package.decimal_lib_axioms, of "Decimal 125 2" "Decimal 80 1"]
    by (simp add: valid_decimal_def MAX_SCALE_def)
qed

text \<open>(C27) Parsing a number never rounds: a token in the accepted grammar parses to exactly its value,
  exponent and all, and is refused only when no decimal has that value; every other token is
  refused as not a number.  A hostile exponent changes nothing of this.\<close>

theorem parse_decimal_exact:
  assumes "decimal_lib lib" "length v < 2 ^ 62"
  shows "case literal_value v of
      None \<Rightarrow> (\<exists>reason. parse_decimal lib v = Err (NotANumber reason))
    | Some x \<Rightarrow> exact_result (result_ok (parse_decimal lib v)) x"
  using decimal_lib.numeric_exact [OF assms]
  by (cases "numeric lib v"; cases "literal_value v") (simp_all add: parse_decimal_def)

theorem parse_decimal_exact_witness:
  "exact_result (result_ok (parse_decimal exact_package (us ''-12.50e1''))) (- 125)"
proof -
  have v: "literal_value (us ''-12.50e1'') = Some (- 125)"
    by (simp add: literal_value_def lex_number_def strip_sign_def is_digit_def digits_value_def signed_value_def)
  have "length (us ''-12.50e1'') < 2 ^ 62" by simp
  from parse_decimal_exact [OF exact_package.decimal_lib_axioms this] show ?thesis
    unfolding v by (simp only: option.case)
qed

text \<open>The outstanding amount reported of a document is exactly its gross total less the sum of its
  credit entries, or is not reported.\<close>

theorem outstanding_exact:
  assumes "decimal_lib lib" "valid_decimal gross" "list_all valid_decimal entries"
    and "outstanding lib (Some gross) entries = Some d"
  shows "valid_decimal d \<and> value_of d = value_of gross - sum_list (map value_of entries)"
proof -
  obtain paid where paid: "try_sum lib ZERO entries = Some paid" "exact_balance_add lib gross (dl_neg lib paid) = Some d"
    using assms(4) by (auto simp: outstanding_def bind_eq_Some_conv)
  have "valid_decimal ZERO" "value_of ZERO = 0"
    by (simp_all add: ZERO_def valid_decimal_def value_of_def MAX_SCALE_def)
  then have "valid_decimal paid \<and> value_of paid = sum_list (map value_of entries)"
    using decimal_lib.try_sum_sound [OF assms(1) _ assms(3) paid(1)] by simp
  then show ?thesis
    using decimal_lib.exact_balance_add_sound [OF assms(1,2) _ paid(2)] decimal_lib.neg_valid [OF assms(1)]
      decimal_lib.neg_value [OF assms(1)] by simp
qed

theorem outstanding_exact_witness:
  "\<exists>d. outstanding exact_package (Some (Decimal 127 0)) [Decimal 1005 1, Decimal 25 0] = Some d \<and> value_of d = 3 / 2"
proof -
  have o: "outstanding exact_package (Some (Decimal 127 0)) [Decimal 1005 1, Decimal 25 0] = Some (Decimal 15 1)"
    by code_simp
  show ?thesis
    using outstanding_exact [OF exact_package.decimal_lib_axioms _ _ o] o
    by (simp add: valid_decimal_def MAX_SCALE_def value_of_def)
qed

end
