(* ===== verification/Line_Items.thy ===== *)
theory Line_Items
  imports Decimals
begin

text \<open>
  The money of a document (\<open>szamlazz-agent/src/item.rs\<close>, the currency and VAT rate of
  \<open>types.rs\<close>, and \<open>contract/document/money.rs\<close> with the line item of \<open>contract/document.rs\<close>):
  line amounts that are computed, line amounts that are asserted and checked, and the totals.
\<close>

section \<open>Currency and VAT rate\<close>

datatype Currency = Currency (currency_str: ustr)

definition EUR :: Currency where
  "EUR = Currency (us ''EUR'')"

definition is_huf :: "Currency \<Rightarrow> bool" where
  "is_huf c \<longleftrightarrow> eq_ignore_ascii_case (currency_str c) (us ''HUF'') \<or> eq_ignore_ascii_case (currency_str c) (us ''Ft'')"

definition ascii_upper :: "nat \<Rightarrow> nat" where
  "ascii_upper c = (if 97 \<le> c \<and> c \<le> 122 then c - 32 else c)"

definition minor_unit_digits :: "Currency \<Rightarrow> nat" where
  "minor_unit_digits c = (if is_huf c then 0 else (let code = map ascii_upper (currency_str c) in
     if code \<in> set (map us [''BIF'', ''CLP'', ''DJF'', ''GNF'', ''ISK'', ''JPY'', ''KMF'', ''KRW'', ''PYG'', ''RWF'',
         ''UGX'', ''UYI'', ''VND'', ''VUV'', ''XAF'', ''XOF'', ''XPF'']) then 0
     else if code \<in> set (map us [''BHD'', ''IQD'', ''JOD'', ''KWD'', ''LYD'', ''OMR'', ''TND'']) then 3
     else if code \<in> set (map us [''CLF'', ''UYW'']) then 4
     else 2))"

datatype VatRate =
    Percent Decimal | Aam | Tam | Tahk | Eut | Eukt | FAfa | KAfa | Ho | Eue | Eufade | Eufad37 | Atk | Nam | Eam
  | Kbauk | Kbaet | Akk | Eu | Euk | Maa | VatOther ustr

definition VatRate_arms :: "(ustr \<times> VatRate) list" where
  "VatRate_arms =
    [(us ''AAM'', Aam), (us ''TAM'', Tam), (us ''TAHK'', Tahk), (us ''EUT'', Eut), (us ''EUKT'', Eukt), (us ''F.AFA'', FAfa),
     (us ''K.AFA'', KAfa), (us ''HO'', Ho), (us ''EUE'', Eue), (us ''EUFADE'', Eufade), (us ''EUFAD37'', Eufad37),
     (us ''ATK'', Atk), (us ''NAM'', Nam), (us ''EAM'', Eam), (us ''KBAUK'', Kbauk), (us ''KBAET'', Kbaet),
     (193 # us ''KK'', Akk), (us ''EU'', Eu), (us ''EUK'', Euk), (us ''MAA'', Maa)]"

definition is_xml_space :: "nat \<Rightarrow> bool" where
  "is_xml_space c \<longleftrightarrow> c \<in> {32, 9, 13, 10}"

definition trim_xml_space :: "ustr \<Rightarrow> ustr" where
  "trim_xml_space s = rev (dropWhile is_xml_space (rev (dropWhile is_xml_space s)))"

definition VatRate_from :: "DecimalLib \<Rightarrow> ustr \<Rightarrow> VatRate" where
  "VatRate_from lib token = match_token VatRate_arms (\<lambda>other.
     case parse_decimal lib (trim_xml_space other) of Inr rate \<Rightarrow> Percent rate | Inl e \<Rightarrow> VatOther other) token"

section \<open>Line items\<close>

type_synonym Date = "int \<times> nat \<times> nat"

datatype Rounding = Scale nat | Exact

definition Rounding_minor_unit :: "Currency \<Rightarrow> Rounding" where
  "Rounding_minor_unit c = Scale (minor_unit_digits c)"

primrec Rounding_apply :: "DecimalLib \<Rightarrow> Rounding \<Rightarrow> Decimal \<Rightarrow> Decimal" where
  "Rounding_apply lib (Scale places) v = dl_round lib v places"
| "Rounding_apply lib Exact v = v"

record LineItemLedger =
  lil_economic_event :: "ustr option"
  lil_vat_economic_event :: "ustr option"
  lil_revenue_account :: "ustr option"
  lil_vat_account :: "ustr option"
  lil_settlement_from :: "Date option"
  lil_settlement_to :: "Date option"

record LineItem =
  li_name :: ustr
  li_id :: "ustr option"
  li_quantity :: Decimal
  li_unit :: ustr
  li_unit_price :: Decimal
  li_vat_rate :: VatRate
  li_margin_vat_base :: "Decimal option"
  li_net_value :: Decimal
  li_vat_value :: Decimal
  li_gross_value :: Decimal
  li_comment :: "ustr option"
  li_ledger :: "LineItemLedger option"
  li_erasure_code_count :: "32 word option"

definition LineItem_new :: "ustr \<Rightarrow> Decimal \<Rightarrow> ustr \<Rightarrow> Decimal \<Rightarrow> VatRate \<Rightarrow> Decimal \<Rightarrow> Decimal \<Rightarrow> Decimal \<Rightarrow> LineItem" where
  "LineItem_new name quantity unit unit_price vat_rate net_value vat_value gross_value =
    \<lparr> li_name = name, li_id = None, li_quantity = quantity, li_unit = unit, li_unit_price = unit_price,
      li_vat_rate = vat_rate, li_margin_vat_base = None, li_net_value = net_value, li_vat_value = vat_value,
      li_gross_value = gross_value, li_comment = None, li_ledger = None, li_erasure_code_count = None \<rparr>"

datatype ArithmeticError = NetOverflow | VatOverflow | GrossOverflow | UnrepresentableVatRate

definition option_or :: "'a option \<Rightarrow> 'e \<Rightarrow> 'e + 'a" where
  "option_or v e = (case v of None \<Rightarrow> Err e | Some a \<Rightarrow> Ok a)"

text \<open>The percentage of a rate: of a numeric token that the open enum kept verbatim too.\<close>

definition vat_percentage :: "DecimalLib \<Rightarrow> VatRate \<Rightarrow> (Decimal option, ArithmeticError) result" where
  "vat_percentage lib vat_rate = (case vat_rate of
     Percent rate \<Rightarrow> Ok (Some rate)
   | VatOther token \<Rightarrow> (case numeric lib (trim_xml_space token) of
       None \<Rightarrow> Ok None
     | Some (Inr rate) \<Rightarrow> Ok (Some rate)
     | Some (Inl e) \<Rightarrow> Err UnrepresentableVatRate)
   | _ \<Rightarrow> Ok None)"

definition vat_of :: "DecimalLib \<Rightarrow> Rounding \<Rightarrow> Decimal \<Rightarrow> Decimal option \<Rightarrow> (Decimal, ArithmeticError) result" where
  "vat_of lib rounding net_value percentage = (case percentage of
     Some rate \<Rightarrow> option_or (map_option (Rounding_apply lib rounding)
       (Option.bind (exact_mul lib net_value rate) (exact_div_100 lib))) VatOverflow
   | None \<Rightarrow> Ok ZERO)"

definition try_calculated ::
  "DecimalLib \<Rightarrow> ustr \<Rightarrow> Decimal \<Rightarrow> ustr \<Rightarrow> Decimal \<Rightarrow> VatRate \<Rightarrow> Rounding \<Rightarrow> (LineItem, ArithmeticError) result" where
  "try_calculated lib name quantity unit unit_price vat_rate rounding =
    try_then (option_or (map_option (Rounding_apply lib rounding) (exact_mul lib unit_price quantity)) NetOverflow) (\<lambda>net_value.
    try_then (vat_percentage lib vat_rate) (\<lambda>percentage.
    try_then (vat_of lib rounding net_value percentage) (\<lambda>vat_value.
    try_then (option_or (exact_add lib net_value vat_value) GrossOverflow) (\<lambda>gross_value.
      Ok (LineItem_new name quantity unit unit_price vat_rate net_value vat_value gross_value)))))"

section \<open>Asserted amounts\<close>

record Amounts =
  am_net :: Decimal
  am_vat :: Decimal
  am_gross :: Decimal

datatype MonetaryError =
    ME_Arithmetic ArithmeticError | ME_Unrepresentable | ME_UnsupportedCurrency | ME_UnsupportedVatRate | ME_NoItems
  | ME_TotalsMismatch | ME_AmountPrecision | ME_ZeroQuantity | ME_GrossMismatch | ME_NetMismatch | ME_VatMismatch
  | ME_Item nat MonetaryError

record LineItemInput =
  lin_name :: ustr
  lin_quantity :: Decimal
  lin_unit :: ustr
  lin_unit_price :: Decimal
  lin_vat_rate :: ustr
  lin_amounts :: "Amounts option"
  lin_id :: "ustr option"
  lin_comment :: "ustr option"

definition pow10 :: "nat \<Rightarrow> (int, MonetaryError) result" where
  "pow10 s = option_or (i128 (10 ^ s)) ME_Unrepresentable"

definition units :: "DecimalLib \<Rightarrow> Decimal \<Rightarrow> nat \<Rightarrow> (int, MonetaryError) result" where
  "units lib value0 s = (let v = dl_normalize lib value0 in
     if s < scale v then Err ME_AmountPrecision
     else try_then (pow10 (s - scale v)) (\<lambda>p. option_or (checked_mul (mantissa v) p) ME_Unrepresentable))"

definition rounded_ratio :: "int \<Rightarrow> int \<Rightarrow> (int, MonetaryError) result" where
  "rounded_ratio numerator denominator = (let quotient = numerator sdiv denominator;
       remainder = \<bar>numerator smod denominator\<bar> in
     if (\<bar>denominator\<bar> + 1) div 2 \<le> remainder
     then option_or (checked_add quotient (sgn numerator)) ME_Unrepresentable
     else Ok quotient)"

definition rescale_round :: "int \<Rightarrow> nat \<Rightarrow> nat \<Rightarrow> (int, MonetaryError) result" where
  "rescale_round coefficient from to =
    (if to < from then try_then (pow10 (from - to)) (\<lambda>p. rounded_ratio coefficient p)
     else try_then (pow10 (to - from)) (\<lambda>p. option_or (checked_mul coefficient p) ME_Unrepresentable))"

definition ONE_HUNDRED :: Decimal where
  "ONE_HUNDRED = Decimal 100 0"

definition explicit_rate :: "DecimalLib \<Rightarrow> VatRate \<Rightarrow> (Decimal, MonetaryError) result" where
  "explicit_rate lib vat_rate = (case vat_rate of
     Percent rate \<Rightarrow> if dl_le lib ZERO rate \<and> dl_le lib rate ONE_HUNDRED then Ok (dl_normalize lib rate)
       else Err ME_UnsupportedVatRate
   | VatOther _ \<Rightarrow> Err ME_UnsupportedVatRate
   | KAfa \<Rightarrow> Err ME_UnsupportedVatRate | Akk \<Rightarrow> Err ME_UnsupportedVatRate | Eu \<Rightarrow> Err ME_UnsupportedVatRate
   | Euk \<Rightarrow> Err ME_UnsupportedVatRate | Maa \<Rightarrow> Err ME_UnsupportedVatRate
   | _ \<Rightarrow> Ok ZERO)"

definition explicit_scale :: "Currency \<Rightarrow> (nat, MonetaryError) result" where
  "explicit_scale currency = (if is_huf currency then Ok 0 else if currency = EUR then Ok 2 else Err ME_UnsupportedCurrency)"

text \<open>The two conventions for the VAT of asserted amounts, in minor units.\<close>

definition vat_conventions :: "Decimal \<Rightarrow> int \<Rightarrow> int \<Rightarrow> (int \<times> int, MonetaryError) result" where
  "vat_conventions rate net gross =
    try_then (pow10 (scale rate)) (\<lambda>p.
    try_then (option_or (checked_mul p 100) ME_Unrepresentable) (\<lambda>hundred.
    try_then (option_or (checked_mul net (mantissa rate)) ME_Unrepresentable) (\<lambda>np.
    try_then (rounded_ratio np hundred) (\<lambda>net_vat.
    try_then (option_or (checked_mul gross (mantissa rate)) ME_Unrepresentable) (\<lambda>gp.
    try_then (option_or (checked_add hundred (mantissa rate)) ME_Unrepresentable) (\<lambda>d.
    try_then (rounded_ratio gp d) (\<lambda>gross_vat. Ok (net_vat, gross_vat))))))))"

definition explicit_item :: "DecimalLib \<Rightarrow> LineItemInput \<Rightarrow> Amounts \<Rightarrow> Currency \<Rightarrow> (LineItem, MonetaryError) result" where
  "explicit_item lib input amounts currency =
    try_then (explicit_scale currency) (\<lambda>s.
    try_then (units lib (am_net amounts) s) (\<lambda>net.
    try_then (units lib (am_vat amounts) s) (\<lambda>vat.
    try_then (units lib (am_gross amounts) s) (\<lambda>gross.
    try_then (option_or (checked_add net vat) ME_Unrepresentable) (\<lambda>total.
    if total \<noteq> gross then Err ME_GrossMismatch
    else if mantissa (lin_quantity input) = 0 then Err ME_ZeroQuantity
    else let price = dl_normalize lib (lin_unit_price input); quantity = dl_normalize lib (lin_quantity input) in
      try_then (option_or (checked_mul (mantissa price) (mantissa quantity)) ME_Unrepresentable) (\<lambda>product.
      try_then (rescale_round product (scale price + scale quantity) s) (\<lambda>net_units.
      if net_units \<noteq> net then Err ME_NetMismatch
      else try_then (explicit_rate lib (VatRate_from lib (lin_vat_rate input))) (\<lambda>rate.
        try_then (vat_conventions rate net gross) (\<lambda>(net_vat, gross_vat).
        if vat \<noteq> net_vat \<and> vat \<noteq> gross_vat then Err ME_VatMismatch
        else Ok ((LineItem_new (lin_name input) (lin_quantity input) (lin_unit input) (lin_unit_price input)
            (VatRate_from lib (lin_vat_rate input)) (am_net amounts) (am_vat amounts) (am_gross amounts))
            \<lparr> li_id := lin_id input, li_comment := lin_comment input \<rparr>))))))))))"

definition to_line_item :: "DecimalLib \<Rightarrow> LineItemInput \<Rightarrow> Currency \<Rightarrow> (LineItem, MonetaryError) result" where
  "to_line_item lib input currency = (case lin_amounts input of
     Some amounts \<Rightarrow> explicit_item lib input amounts currency
   | None \<Rightarrow> map_err ME_Arithmetic (try_then
       (try_calculated lib (lin_name input) (lin_quantity input) (lin_unit input) (lin_unit_price input)
         (VatRate_from lib (lin_vat_rate input)) (Rounding_minor_unit currency))
       (\<lambda>item. Ok (item\<lparr> li_id := lin_id input, li_comment := lin_comment input \<rparr>))))"

section \<open>Totals\<close>

record MonetaryPreflight =
  mp_items :: "LineItem list"
  mp_totals :: Amounts

fun to_line_items :: "DecimalLib \<Rightarrow> Currency \<Rightarrow> nat \<Rightarrow> LineItemInput list \<Rightarrow> (LineItem list, MonetaryError) result" where
  "to_line_items lib currency index [] = Ok []"
| "to_line_items lib currency index (input # inputs) =
    try_then (map_err (ME_Item index) (to_line_item lib input currency)) (\<lambda>item.
    try_then (to_line_items lib currency (Suc index) inputs) (\<lambda>items. Ok (item # items)))"

fun sum_amounts :: "DecimalLib \<Rightarrow> Amounts \<Rightarrow> LineItem list \<Rightarrow> (Amounts, MonetaryError) result" where
  "sum_amounts lib totals [] = Ok totals"
| "sum_amounts lib totals (item # items) =
    try_then (option_or (exact_balance_add lib (am_net totals) (li_net_value item)) ME_Unrepresentable) (\<lambda>net.
    try_then (option_or (exact_balance_add lib (am_vat totals) (li_vat_value item)) ME_Unrepresentable) (\<lambda>vat.
    try_then (option_or (exact_balance_add lib (am_gross totals) (li_gross_value item)) ME_Unrepresentable) (\<lambda>gross.
      sum_amounts lib \<lparr> am_net = net, am_vat = vat, am_gross = gross \<rparr> items)))"

definition amounts_eq :: "DecimalLib \<Rightarrow> Amounts \<Rightarrow> Amounts \<Rightarrow> bool" where
  "amounts_eq lib a b \<longleftrightarrow> dl_eq lib (am_net a) (am_net b) \<and> dl_eq lib (am_vat a) (am_vat b) \<and>
     dl_eq lib (am_gross a) (am_gross b)"

definition monetary_preflight ::
  "DecimalLib \<Rightarrow> LineItemInput list \<Rightarrow> Amounts option \<Rightarrow> Currency \<Rightarrow> (MonetaryPreflight, MonetaryError) result" where
  "monetary_preflight lib inputs expected_totals currency =
    (if inputs = [] then Err ME_NoItems
     else try_then (to_line_items lib currency 0 inputs) (\<lambda>items.
       try_then (sum_amounts lib \<lparr> am_net = ZERO, am_vat = ZERO, am_gross = ZERO \<rparr> items) (\<lambda>totals.
       if (case expected_totals of None \<Rightarrow> False | Some expected \<Rightarrow> \<not> amounts_eq lib expected totals)
       then Err ME_TotalsMismatch
       else Ok \<lparr> mp_items = items, mp_totals = totals \<rparr>)))"

section \<open>Rounding\<close>

lemma half_away_of_int [simp]: "half_away (of_int n) = n"
proof -
  have "\<bar>of_int (half_away (of_int n)) - (of_int n :: rat)\<bar> < 1" using half_away_bound [of "of_int n"] by linarith
  then have "of_int \<bar>half_away (of_int n) - n\<bar> < (of_int 1 :: rat)" by simp
  then have "\<bar>half_away (of_int n) - n\<bar> < 1" by (simp only: of_int_less_iff)
  then show ?thesis by simp
qed

lemma half_away_ratio:
  assumes "0 < d"
  shows "half_away (of_int n / of_int d) = sgn n * ((2 * \<bar>n\<bar> + d) div (2 * d))"
proof -
  have f: "\<lfloor>of_int a / of_int d + 1 / 2 :: rat\<rfloor> = (2 * a + d) div (2 * d)" for a :: int
  proof -
    have "of_int a / of_int d + 1 / 2 = (of_int (2 * a + d) / of_int (2 * d) :: rat)"
      using assms by (simp add: field_simps)
    then show ?thesis by (simp only: floor_divide_of_int_eq)
  qed
  consider "0 < n" | "n = 0" | "n < 0" by linarith
  then show ?thesis
  proof cases
    case 1
    with assms f [of n] show ?thesis by (simp add: half_away_def)
  next
    case 3
    then have "of_int n / of_int d < (0 :: rat)" using assms by (simp add: divide_less_0_iff)
    with 3 f [of "- n"] show ?thesis by (simp add: half_away_def)
  qed (use assms half_away_of_int [of 0] in simp)
qed

text \<open>The one rounding of a rational: \<open>rounded_ratio\<close> is rounding half away from zero.\<close>

lemma rounded_ratio_half_away:
  assumes "0 < d" "rounded_ratio n d = Ok q"
  shows "q = half_away (of_int n / of_int d)"
proof -
  have r: "\<bar>n smod d\<bar> = \<bar>n\<bar> mod d" "n sdiv d = sgn n * (\<bar>n\<bar> div d)"
    using assms(1) by (cases "n = 0"; simp add: smod_int_alt_def signed_divide_int_def abs_mult abs_sgn_eq)+
  have m: "\<bar>n\<bar> = d * (\<bar>n\<bar> div d) + \<bar>n\<bar> mod d" "0 \<le> \<bar>n\<bar> mod d" "\<bar>n\<bar> mod d < d" using assms(1) by simp_all
  have q: "q = sgn n * (\<bar>n\<bar> div d) + (if (d + 1) div 2 \<le> \<bar>n\<bar> mod d then sgn n else 0)"
    using assms r by (auto simp: rounded_ratio_def option_or_def checked_add_def i128_def Let_def split: if_splits)
  define k r where "k = \<bar>n\<bar> div d" and "r = \<bar>n\<bar> mod d"
  have n: "\<bar>n\<bar> = d * k + r" "0 \<le> r" "r < d" using m by (simp_all add: k_def r_def)
  have "(2 * \<bar>n\<bar> + d) div (2 * d) = k + (if (d + 1) div 2 \<le> r then 1 else 0)"
  proof (rule int_div_pos_eq)
    show "2 * \<bar>n\<bar> + d = 2 * d * (k + (if (d + 1) div 2 \<le> r then 1 else 0)) +
        (2 * r + d - (if (d + 1) div 2 \<le> r then 2 * d else 0))"
      unfolding n(1) by (simp add: algebra_simps)
    show "0 \<le> 2 * r + d - (if (d + 1) div 2 \<le> r then 2 * d else 0)"
      "2 * r + d - (if (d + 1) div 2 \<le> r then 2 * d else 0) < 2 * d"
      using n(2,3) by (auto split: if_split)
  qed
  then show ?thesis
    unfolding half_away_ratio [OF assms(1)] q by (simp add: k_def r_def algebra_simps)
qed

lemma option_or_Ok_iff [simp]: "option_or v e = Ok a \<longleftrightarrow> v = Some a"
  by (cases v) (simp_all add: option_or_def)

lemma pow10_Ok_iff: "pow10 s = Ok p \<longleftrightarrow> i128 (10 ^ s) = Some p"
  by (simp add: pow10_def)

lemma i128_Some: "i128 x = Some y \<Longrightarrow> y = x"
  by (simp add: i128_def split: if_splits)

lemma rescale_round_half_away:
  assumes "rescale_round c from to = Ok u"
  shows "u = half_away (of_int c / 10 ^ from * 10 ^ to)"
proof (cases "to < from")
  case True
  then have "rounded_ratio c (10 ^ (from - to)) = Ok u"
    using assms by (auto simp: rescale_round_def try_then_Inr_iff pow10_Ok_iff dest: i128_Some)
  then have "u = half_away (of_int c / of_int (10 ^ (from - to)))" by (rule rounded_ratio_half_away [rotated]) simp
  moreover have "(10 :: rat) ^ from = 10 ^ (from - to) * 10 ^ to" using True by (simp flip: power_add)
  ultimately show ?thesis by simp
next
  case False
  then have "u = c * 10 ^ (to - from)"
    using assms by (auto simp: rescale_round_def try_then_Inr_iff pow10_Ok_iff checked_mul_def dest!: i128_Some)
  moreover have "(10 :: rat) ^ to = 10 ^ from * 10 ^ (to - from)" using False by (simp flip: power_add)
  ultimately show ?thesis using half_away_of_int [of "c * 10 ^ (to - from)"] by simp
qed

section \<open>What the checks establish\<close>

definition rounded :: "nat \<Rightarrow> rat \<Rightarrow> rat" where
  "rounded p x = of_int (half_away (x * 10 ^ p)) / 10 ^ p"

definition valid_amounts :: "Amounts \<Rightarrow> bool" where
  "valid_amounts a \<longleftrightarrow> valid_decimal (am_net a) \<and> valid_decimal (am_vat a) \<and> valid_decimal (am_gross a)"

definition valid_line :: "LineItemInput \<Rightarrow> bool" where
  "valid_line input \<longleftrightarrow> valid_decimal (lin_quantity input) \<and> valid_decimal (lin_unit_price input) \<and>
     length (lin_vat_rate input) < 2 ^ 62 \<and> (\<forall>a. lin_amounts input = Some a \<longrightarrow> valid_amounts a)"

lemma trim_xml_space_length: "length (trim_xml_space s) \<le> length s"
  unfolding trim_xml_space_def by (metis length_dropWhile_le length_rev order_trans)

text \<open>The percentage a VAT token of a line stands for: zero for the codes of untaxed and out-of-scope supplies, and
  otherwise the number it spells.\<close>

definition zero_vat_codes :: "ustr list" where
  "zero_vat_codes = map us [''AAM'', ''TAM'', ''TAHK'', ''EUT'', ''EUKT'', ''F.AFA'', ''HO'', ''EUE'', ''EUFADE'', ''EUFAD37'',
     ''ATK'', ''NAM'', ''EAM'', ''KBAUK'', ''KBAET'']"

definition token_rate :: "ustr \<Rightarrow> rat option" where
  "token_rate token = (if token \<in> set zero_vat_codes then Some 0 else literal_value (trim_xml_space token))"

lemma VatRate_from_arms:
  "VatRate_from lib token = (case map_of VatRate_arms token of Some r \<Rightarrow> r
     | None \<Rightarrow> (case parse_decimal lib (trim_xml_space token) of Inr rate \<Rightarrow> Percent rate | Inl e \<Rightarrow> VatOther token))"
  by (simp add: VatRate_from_def match_token_def)

lemma VatRate_arms_cases:
  "map_of VatRate_arms token = Some r \<Longrightarrow>
    (\<nexists>d. r = Percent d) \<and> (\<nexists>t. r = VatOther t) \<and> (r \<in> {KAfa, Akk, Eu, Euk, Maa} \<or> token \<in> set zero_vat_codes)"
  by (drule map_of_SomeD) (auto simp: VatRate_arms_def zero_vat_codes_def simp del: us_Cons)

lemma zero_vat_codes_arms: "token \<in> set zero_vat_codes \<Longrightarrow> map_of VatRate_arms token \<noteq> None"
  by (auto simp: VatRate_arms_def zero_vat_codes_def map_of_eq_None_iff simp del: us_Cons)

context decimal_lib
begin

lemma parse_valid: "length v < 2 ^ 62 \<Longrightarrow> parse_decimal lib v = Ok d \<Longrightarrow> valid_decimal d"
  using numeric_exact [of v]
  by (cases "numeric lib v"; cases "literal_value v") (auto simp: parse_decimal_def exact_result_def result_ok_def)

lemma parse_value:
  "length v < 2 ^ 62 \<Longrightarrow> parse_decimal lib v = Ok d \<Longrightarrow> literal_value v = Some (value_of d)"
  using numeric_exact [of v]
  by (cases "numeric lib v"; cases "literal_value v") (auto simp: parse_decimal_def exact_result_def result_ok_def)

lemma explicit_rate_value:
  assumes "explicit_rate lib (VatRate_from lib token) = Ok rate" "length token < 2 ^ 62"
  shows "token_rate token = Some (value_of rate)"
proof (cases "map_of VatRate_arms token")
  case (Some r)
  then have "VatRate_from lib token = r" by (simp add: VatRate_from_arms)
  with assms(1) VatRate_arms_cases [OF Some] show ?thesis
    by (cases r) (auto simp: explicit_rate_def token_rate_def value_of_def ZERO_def)
next
  case None
  obtain d where d: "parse_decimal lib (trim_xml_space token) = Ok d" "rate = dl_normalize lib d"
    using assms(1) None by (auto simp: VatRate_from_arms explicit_rate_def split: sum.splits if_splits)
  have l: "length (trim_xml_space token) < 2 ^ 62" using assms(2) trim_xml_space_length [of token] by linarith
  have "value_of rate = value_of d" using d normalize_value [OF parse_valid [OF l d(1)]] by simp
  then show ?thesis
    using None zero_vat_codes_arms [of token] parse_value [OF l d(1)] by (auto simp: token_rate_def)
qed

lemma VatRate_valid:
  assumes "length token < 2 ^ 62" "VatRate_from lib token = Percent rate"
  shows "valid_decimal rate"
proof -
  have "map_of VatRate_arms token \<noteq> Some (Percent rate)"
    by (auto simp: VatRate_arms_def dest!: map_of_SomeD)
  then have "parse_decimal lib (trim_xml_space token) = Ok rate"
    using assms(2) by (auto simp: VatRate_from_def match_token_def split: option.splits sum.splits)
  then show ?thesis using parse_valid trim_xml_space_length [of token] assms(1) by (metis le_less_trans)
qed

lemma units_value:
  assumes "valid_decimal v" "units lib v s = Ok u"
  shows "value_of v = of_int u / 10 ^ s"
proof -
  let ?n = "dl_normalize lib v"
  have n: "scale ?n \<le> s" "u = mantissa ?n * 10 ^ (s - scale ?n)"
    using assms(2) by (auto simp: units_def Let_def try_then_Inr_iff pow10_Ok_iff checked_mul_def dest!: i128_Some split: if_splits)
  have "(10 :: rat) ^ s = 10 ^ scale ?n * 10 ^ (s - scale ?n)" using n(1) by (simp flip: power_add)
  with n show ?thesis using normalize_value [OF assms(1)] by (simp add: value_of_def)
qed

lemma explicit_rate_range:
  assumes "explicit_rate lib r = Ok rate" "\<And>d. r = Percent d \<Longrightarrow> valid_decimal d"
  shows "0 \<le> value_of rate \<and> value_of rate \<le> 100 \<and> 0 \<le> mantissa rate"
proof -
  have c: "value_of ZERO = 0" "value_of ONE_HUNDRED = 100"
    by (simp_all add: value_of_def ZERO_def ONE_HUNDRED_def)
  have "0 \<le> value_of rate \<and> value_of rate \<le> 100"
    using assms c by (cases r) (auto simp: explicit_rate_def le_iff normalize_value split: if_splits)
  moreover have "(0 :: rat) < 10 ^ scale rate" by simp
  ultimately have "0 \<le> mantissa rate"
    by (auto simp: value_of_def zero_le_divide_iff)
  with \<open>0 \<le> value_of rate \<and> value_of rate \<le> 100\<close> show ?thesis by simp
qed

end

lemma vat_conventions_half_away:
  assumes "vat_conventions rate net gross = Ok (net_vat, gross_vat)" "0 \<le> mantissa rate"
  shows "net_vat = half_away (of_int net * value_of rate / 100) \<and>
    gross_vat = half_away (of_int gross * value_of rate / (100 + value_of rate))"
proof -
  let ?h = "10 ^ scale rate * 100 :: int"
  have "rounded_ratio (net * mantissa rate) ?h = Ok net_vat" "rounded_ratio (gross * mantissa rate) (?h + mantissa rate) = Ok gross_vat"
    using assms(1) by (auto simp: vat_conventions_def try_then_Inr_iff pow10_Ok_iff checked_mul_def checked_add_def dest!: i128_Some)
  moreover have "0 < ?h" "0 < ?h + mantissa rate" using assms(2) by (simp_all add: add_pos_nonneg)
  ultimately have "net_vat = half_away (of_int (net * mantissa rate) / of_int ?h)"
    "gross_vat = half_away (of_int (gross * mantissa rate) / of_int (?h + mantissa rate))"
    using rounded_ratio_half_away by metis+
  moreover have "of_int (net * mantissa rate) / of_int ?h = of_int net * value_of rate / 100"
    by (simp add: value_of_def)
  moreover have "of_int (gross * mantissa rate) / of_int (?h + mantissa rate) = of_int gross * value_of rate / (100 + value_of rate)"
    using assms(2) by (simp add: value_of_def field_simps)
  ultimately show ?thesis by metis
qed

text \<open>The amounts of a line agree with each other, and each follows one documented convention.\<close>

definition asserted_line :: "nat \<Rightarrow> rat \<Rightarrow> rat \<Rightarrow> LineItem \<Rightarrow> bool" where
  "asserted_line p product rate item \<longleftrightarrow> (let net = value_of (li_net_value item); vat = value_of (li_vat_value item);
       gross = value_of (li_gross_value item) in
     net = rounded p product \<and> gross = net + vat \<and>
     (vat = rounded p (net * rate / 100) \<or> vat = rounded p (gross * rate / (100 + rate))))"

definition calculated_line :: "nat \<Rightarrow> rat \<Rightarrow> rat \<Rightarrow> LineItem \<Rightarrow> bool" where
  "calculated_line p product rate item \<longleftrightarrow> (let net = value_of (li_net_value item); vat = value_of (li_vat_value item) in
     net = rounded p product \<and> vat = rounded p (net * rate / 100) \<and> value_of (li_gross_value item) = net + vat)"

text \<open>A submitted line is the caller's line: nothing of it but the amounts is computed, and amounts the caller
  asserts are submitted as they are.\<close>

definition keeps_line :: "DecimalLib \<Rightarrow> LineItemInput \<Rightarrow> LineItem \<Rightarrow> bool" where
  "keeps_line lib input item \<longleftrightarrow> li_name item = lin_name input \<and> li_quantity item = lin_quantity input \<and>
     li_unit item = lin_unit input \<and> li_unit_price item = lin_unit_price input \<and>
     li_vat_rate item = VatRate_from lib (lin_vat_rate input) \<and> li_id item = lin_id input \<and>
     li_comment item = lin_comment input \<and>
     (\<forall>a. lin_amounts input = Some a \<longrightarrow> li_net_value item = am_net a \<and> li_vat_value item = am_vat a \<and> li_gross_value item = am_gross a)"

lemma to_line_item_keeps:
  assumes "to_line_item lib input currency = Ok item"
  shows "keeps_line lib input item"
proof (cases "lin_amounts input")
  case None
  with assms show ?thesis
    by (auto simp: to_line_item_def try_then_Inr_iff try_calculated_def LineItem_new_def keeps_line_def map_err_def split: sum.splits)
next
  case (Some amounts)
  with assms show ?thesis
    by (auto simp: to_line_item_def explicit_item_def Let_def try_then_Inr_iff LineItem_new_def keeps_line_def split: if_splits)
qed

lemma preflight_keeps:
  assumes "monetary_preflight lib inputs expected currency = Ok pre"
  shows "list_all2 (keeps_line lib) inputs (mp_items pre)"
proof -
  have "list_all2 (keeps_line lib) inputs items" if "to_line_items lib currency index inputs = Ok items" for index items
    using that by (induction lib currency index inputs arbitrary: items rule: to_line_items.induct)
      (auto simp: try_then_Inr_iff intro: to_line_item_keeps)
  then show ?thesis using assms by (auto simp: monetary_preflight_def try_then_Inr_iff split: if_splits)
qed

context decimal_lib
begin

lemma explicit_item_sound:
  assumes ok: "explicit_item lib input amounts currency = Ok item"
    and valid: "valid_line input" "valid_amounts amounts"
  shows "\<exists>p rate. explicit_scale currency = Ok p \<and> token_rate (lin_vat_rate input) = Some rate \<and> 0 \<le> rate \<and> rate \<le> 100 \<and>
    asserted_line p (value_of (lin_unit_price input) * value_of (lin_quantity input)) rate item \<and>
    li_net_value item = am_net amounts \<and> li_vat_value item = am_vat amounts \<and> li_gross_value item = am_gross amounts"
proof -
  let ?price = "dl_normalize lib (lin_unit_price input)" and ?qty = "dl_normalize lib (lin_quantity input)"
  obtain p net vat gross rate net_vat gross_vat where
    p: "explicit_scale currency = Ok p"
    and u: "units lib (am_net amounts) p = Ok net" "units lib (am_vat amounts) p = Ok vat" "units lib (am_gross amounts) p = Ok gross"
    and g: "gross = net + vat"
    and n: "rescale_round (mantissa ?price * mantissa ?qty) (scale ?price + scale ?qty) p = Ok net"
    and r: "explicit_rate lib (VatRate_from lib (lin_vat_rate input)) = Ok rate"
    and v: "vat_conventions rate net gross = Ok (net_vat, gross_vat)" "vat = net_vat \<or> vat = gross_vat"
    and item: "li_net_value item = am_net amounts" "li_vat_value item = am_vat amounts" "li_gross_value item = am_gross amounts"
    using ok unfolding explicit_item_def Let_def try_then_Inr_iff
    by (auto simp: try_then_Inr_iff checked_mul_def checked_add_def LineItem_new_def dest!: i128_Some split: if_splits)
  have vd: "valid_decimal (am_net amounts)" "valid_decimal (am_vat amounts)" "valid_decimal (am_gross amounts)"
    "valid_decimal (lin_unit_price input)" "valid_decimal (lin_quantity input)" "length (lin_vat_rate input) < 2 ^ 62"
    using valid by (simp_all add: valid_amounts_def valid_line_def)
  note val = units_value [OF vd(1) u(1)] units_value [OF vd(2) u(2)] units_value [OF vd(3) u(3)]
  note rate = explicit_rate_range [OF r VatRate_valid [OF vd(6)]]
  have "net = half_away (value_of (lin_unit_price input) * value_of (lin_quantity input) * 10 ^ p)"
    using rescale_round_half_away [OF n] by (simp add: normalize_parts vd power_add)
  moreover have "net_vat = half_away (of_int net * value_of rate / 100) \<and>
      gross_vat = half_away (of_int gross * value_of rate / (100 + value_of rate))"
    using vat_conventions_half_away [OF v(1)] rate by simp
  moreover have "value_of (am_gross amounts) = value_of (am_net amounts) + value_of (am_vat amounts)"
    unfolding val g by (simp add: add_divide_distrib)
  moreover have "rounded p (value_of (am_net amounts) * value_of rate / 100) = of_int (half_away (of_int net * value_of rate / 100)) / 10 ^ p"
    "rounded p (value_of (am_gross amounts) * value_of rate / (100 + value_of rate)) =
      of_int (half_away (of_int gross * value_of rate / (100 + value_of rate))) / 10 ^ p"
    unfolding val by (simp_all add: rounded_def)
  ultimately have "asserted_line p (value_of (lin_unit_price input) * value_of (lin_quantity input)) (value_of rate) item"
    using v(2) val(1,2) unfolding asserted_line_def Let_def item by (metis rounded_def)
  with p rate item explicit_rate_value [OF r vd(6)] show ?thesis by blast
qed

lemma exact_resultD: "exact_result (Some d) x \<Longrightarrow> valid_decimal d \<and> value_of d = x"
  by (simp add: exact_result_def)

lemma apply_valid: "valid_decimal d \<Longrightarrow> valid_decimal (Rounding_apply lib rounding d)"
  by (cases rounding) (simp_all add: round_valid)

lemma apply_value:
  assumes "valid_decimal d" "rounding = Scale p"
  shows "value_of (Rounding_apply lib rounding d) = rounded p (value_of d)"
proof (cases "scale d \<le> p")
  case True
  then have "(10 :: rat) ^ p = 10 ^ scale d * 10 ^ (p - scale d)" by (simp flip: power_add)
  then have "value_of d * 10 ^ p = of_int (mantissa d * 10 ^ (p - scale d))" by (simp add: value_of_def)
  then have "rounded p (value_of d) = value_of d" unfolding rounded_def
    by (simp only: half_away_of_int) (simp add: \<open>(10 :: rat) ^ p = _\<close> value_of_def)
  with assms True show ?thesis by (simp add: round_value)
qed (use assms in \<open>simp add: round_value rounded_def\<close>)

lemma vat_percentage_valid:
  assumes "vat_percentage lib vat_rate = Ok (Some rate)" "\<And>d. vat_rate = Percent d \<Longrightarrow> valid_decimal d"
    "\<And>t. vat_rate = VatOther t \<Longrightarrow> length t < 2 ^ 62"
  shows "valid_decimal rate"
proof (cases vat_rate)
  case (VatOther token)
  then have "length (trim_xml_space token) < 2 ^ 62" using assms(3) trim_xml_space_length [of token] by (metis le_less_trans)
  moreover have "parse_decimal lib (trim_xml_space token) = Ok rate"
    using assms(1) VatOther by (auto simp: vat_percentage_def parse_decimal_def split: option.splits sum.splits)
  ultimately show ?thesis by (rule parse_valid)
qed (use assms in \<open>auto simp: vat_percentage_def\<close>)

lemma rounded_0 [simp]: "rounded p 0 = 0"
  using half_away_of_int [of 0] by (simp add: rounded_def)

lemma try_calculated_sound:
  assumes ok: "try_calculated lib name quantity unit unit_price vat_rate (Scale p) = Ok item"
    and valid: "valid_decimal quantity" "valid_decimal unit_price" "\<And>d. vat_rate = Percent d \<Longrightarrow> valid_decimal d"
    "\<And>t. vat_rate = VatOther t \<Longrightarrow> length t < 2 ^ 62"
  shows "valid_decimal (li_net_value item) \<and> valid_decimal (li_vat_value item) \<and> valid_decimal (li_gross_value item) \<and>
    (\<exists>percentage. vat_percentage lib vat_rate = Ok percentage \<and>
       calculated_line p (value_of unit_price * value_of quantity) (case percentage of None \<Rightarrow> 0 | Some r \<Rightarrow> value_of r) item)"
proof -
  obtain net0 percentage vat gross where
    net0: "exact_mul lib unit_price quantity = Some net0"
    and pct: "vat_percentage lib vat_rate = Ok percentage"
    and vat: "vat_of lib (Scale p) (dl_round lib net0 p) percentage = Ok vat"
    and gross: "exact_add lib (dl_round lib net0 p) vat = Some gross"
    and item: "li_net_value item = dl_round lib net0 p" "li_vat_value item = vat" "li_gross_value item = gross"
    using ok by (auto simp: try_calculated_def try_then_Inr_iff LineItem_new_def)
  have n: "valid_decimal net0" "value_of net0 = value_of unit_price * value_of quantity"
    using exact_mul_exact [OF valid(2,1)] by (simp_all add: net0 exact_result_def)
  let ?net = "dl_round lib net0 p"
  have net: "valid_decimal ?net" "value_of ?net = rounded p (value_of unit_price * value_of quantity)"
    using apply_valid [OF n(1), of "Scale p"] apply_value [OF n(1), of "Scale p" p] n(2) by simp_all
  have v: "valid_decimal vat \<and> value_of vat = rounded p (value_of ?net * (case percentage of None \<Rightarrow> 0 | Some r \<Rightarrow> value_of r) / 100)"
  proof (cases percentage)
    case None
    with vat show ?thesis by (auto simp: vat_of_def ZERO_def valid_decimal_def value_of_def MAX_SCALE_def)
  next
    case (Some rate)
    then obtain m q where mq: "exact_mul lib ?net rate = Some m" "exact_div_100 lib m = Some q" "vat = dl_round lib q p"
      using vat by (auto simp: vat_of_def bind_eq_Some_conv)
    have "valid_decimal rate" using vat_percentage_valid pct Some valid(3,4) by blast
    then have "value_of m = value_of ?net * value_of rate" using exact_mul_exact [OF net(1)] mq(1) exact_resultD by metis
    then have q: "valid_decimal q" "value_of ?net * value_of rate / 100 = value_of q"
      using exact_div_100_exact [of m] mq(2) by (simp_all add: exact_result_def)
    then show ?thesis
      unfolding Some option.case q(2) using apply_valid [of q "Scale p"] apply_value [of q "Scale p" p] mq(3) by simp
  qed
  have "valid_decimal gross \<and> value_of gross = value_of ?net + value_of vat"
    using exact_add_exact [OF net(1)] v gross exact_resultD by metis
  with v net pct item show ?thesis by (simp add: calculated_line_def)
qed

lemma VatRate_other_length: "VatRate_from lib token = VatOther t \<Longrightarrow> t = token"
  by (auto simp: VatRate_from_def match_token_def VatRate_arms_def split: option.splits sum.splits if_splits)

text \<open>Every line that is submitted, computed or asserted, adds up.\<close>

lemma to_line_item_adds_up:
  assumes "to_line_item lib input currency = Ok item" "valid_line input"
  shows "valid_decimal (li_net_value item) \<and> valid_decimal (li_vat_value item) \<and> valid_decimal (li_gross_value item) \<and>
    value_of (li_gross_value item) = value_of (li_net_value item) + value_of (li_vat_value item)"
proof (cases "lin_amounts input")
  case None
  then obtain item' where i: "try_calculated lib (lin_name input) (lin_quantity input) (lin_unit input) (lin_unit_price input)
         (VatRate_from lib (lin_vat_rate input)) (Scale (minor_unit_digits currency)) = Ok item'"
    "item = item'\<lparr> li_id := lin_id input, li_comment := lin_comment input \<rparr>"
    using assms(1) by (auto simp: to_line_item_def Rounding_minor_unit_def try_then_Inr_iff)
  have l: "length (lin_vat_rate input) < 2 ^ 62" using assms(2) by (simp add: valid_line_def)
  show ?thesis
    using try_calculated_sound [OF i(1)] VatRate_valid [OF l] VatRate_other_length l assms(2) i(2)
    by (fastforce simp: valid_line_def calculated_line_def Let_def)
next
  case (Some amounts)
  then have "explicit_item lib input amounts currency = Ok item" "valid_amounts amounts"
    using assms by (auto simp: to_line_item_def valid_line_def)
  from explicit_item_sound [OF this(1) assms(2) this(2)] this(2) show ?thesis
    by (auto simp: asserted_line_def valid_amounts_def Let_def)
qed

lemma to_line_items_Ok:
  assumes "to_line_items lib currency index inputs = Ok items"
  shows "list_all2 (\<lambda>input item. to_line_item lib input currency = Ok item) inputs items"
  using assms by (induction lib currency index inputs arbitrary: items rule: to_line_items.induct) (auto simp: try_then_Inr_iff)

lemma sum_amounts_exact:
  assumes "sum_amounts lib t items = Ok t'" "valid_amounts t"
    "\<forall>item \<in> set items. valid_decimal (li_net_value item) \<and> valid_decimal (li_vat_value item) \<and> valid_decimal (li_gross_value item)"
  shows "value_of (am_net t') = value_of (am_net t) + (\<Sum>item \<leftarrow> items. value_of (li_net_value item)) \<and>
    value_of (am_vat t') = value_of (am_vat t) + (\<Sum>item \<leftarrow> items. value_of (li_vat_value item)) \<and>
    value_of (am_gross t') = value_of (am_gross t) + (\<Sum>item \<leftarrow> items. value_of (li_gross_value item))"
  using assms
proof (induction items arbitrary: t)
  case (Cons item items)
  obtain n v g where s: "exact_balance_add lib (am_net t) (li_net_value item) = Some n"
    "exact_balance_add lib (am_vat t) (li_vat_value item) = Some v" "exact_balance_add lib (am_gross t) (li_gross_value item) = Some g"
    "sum_amounts lib \<lparr> am_net = n, am_vat = v, am_gross = g \<rparr> items = Ok t'"
    using Cons.prems(1) by (auto simp: try_then_Inr_iff)
  have "valid_decimal n \<and> value_of n = value_of (am_net t) + value_of (li_net_value item)"
    "valid_decimal v \<and> value_of v = value_of (am_vat t) + value_of (li_vat_value item)"
    "valid_decimal g \<and> value_of g = value_of (am_gross t) + value_of (li_gross_value item)"
    using exact_balance_add_sound [OF _ _ s(1)] exact_balance_add_sound [OF _ _ s(2)] exact_balance_add_sound [OF _ _ s(3)]
      Cons.prems(2,3) by (simp_all add: valid_amounts_def)
  with Cons.IH [OF s(4)] Cons.prems(3) show ?case by (simp add: valid_amounts_def)
qed simp

lemma preflight_lines:
  assumes "monetary_preflight lib inputs expected currency = Ok pre" "list_all valid_line inputs"
  shows "list_all2 (\<lambda>input item. to_line_item lib input currency = Ok item) inputs (mp_items pre) \<and>
    (\<forall>item \<in> set (mp_items pre). valid_decimal (li_net_value item) \<and> valid_decimal (li_vat_value item) \<and>
      valid_decimal (li_gross_value item) \<and>
      value_of (li_gross_value item) = value_of (li_net_value item) + value_of (li_vat_value item)) \<and>
    sum_amounts lib \<lparr> am_net = ZERO, am_vat = ZERO, am_gross = ZERO \<rparr> (mp_items pre) = Ok (mp_totals pre)"
proof -
  have i: "to_line_items lib currency 0 inputs = Ok (mp_items pre)"
    "sum_amounts lib \<lparr> am_net = ZERO, am_vat = ZERO, am_gross = ZERO \<rparr> (mp_items pre) = Ok (mp_totals pre)"
    using assms(1) by (auto simp: monetary_preflight_def try_then_Inr_iff split: if_splits)
  note l = to_line_items_Ok [OF i(1)]
  have "valid_decimal (li_net_value item) \<and> valid_decimal (li_vat_value item) \<and> valid_decimal (li_gross_value item) \<and>
      value_of (li_gross_value item) = value_of (li_net_value item) + value_of (li_vat_value item)"
    if item: "item \<in> set (mp_items pre)" for item
  proof -
    obtain n where n: "n < length (mp_items pre)" "item = mp_items pre ! n" using item by (auto simp: in_set_conv_nth)
    then have "to_line_item lib (inputs ! n) currency = Ok item" "inputs ! n \<in> set inputs"
      using l by (auto simp: list_all2_conv_all_nth)
    with to_line_item_adds_up [of "inputs ! n" currency item] assms(2) show ?thesis by (auto simp: list_all_iff)
  qed
  with l i(2) show ?thesis by blast
qed

end

section \<open>Properties\<close>

text \<open>(C28) Amounts a caller asserts for a line are accepted only when they are consistent, and are then
  submitted unchanged: the net is the unit price times the quantity, rounded half away from
  zero to the currency's minor unit (whole forints, euro cents, no other currency), the gross is exactly net plus
  VAT, and the VAT follows the net-first or the gross-first rounding at the rate of that line: the number its
  VAT token spells, between 0 and 100, or zero for the code of an untaxed supply.  No rounding happens
  twice and nothing is replaced silently.\<close>

theorem explicit_item_consistent:
  assumes "decimal_lib lib" "valid_line input" "valid_amounts amounts"
    and "explicit_item lib input amounts currency = Ok item"
  shows "(is_huf currency \<or> currency = EUR) \<and> (\<exists>rate. token_rate (lin_vat_rate input) = Some rate \<and> 0 \<le> rate \<and> rate \<le> 100 \<and>
    asserted_line (if is_huf currency then 0 else 2) (value_of (lin_unit_price input) * value_of (lin_quantity input)) rate item) \<and>
    li_net_value item = am_net amounts \<and> li_vat_value item = am_vat amounts \<and> li_gross_value item = am_gross amounts"
  using decimal_lib.explicit_item_sound [OF assms(1,4,2,3)] by (auto simp: explicit_scale_def split: if_splits)

definition ex_line :: LineItemInput where
  "ex_line = \<lparr> lin_name = us ''x'', lin_quantity = Decimal 1 0, lin_unit = us ''db'', lin_unit_price = Decimal 78740157 5,
     lin_vat_rate = us ''27'', lin_amounts = Some \<lparr> am_net = Decimal 787 0, am_vat = Decimal 213 0, am_gross = Decimal 1000 0 \<rparr>,
     lin_id = None, lin_comment = None \<rparr>"

definition ex_line_item :: LineItem where
  "ex_line_item = LineItem_new (us ''x'') (Decimal 1 0) (us ''db'') (Decimal 78740157 5) (Percent (Decimal 27 0))
     (Decimal 787 0) (Decimal 213 0) (Decimal 1000 0)"

lemma ex_line_explicit:
  "explicit_item exact_package ex_line (the (lin_amounts ex_line)) (Currency (us ''huf'')) = Ok ex_line_item"
  by code_simp

lemma ex_line_valid: "valid_line ex_line" "valid_amounts (the (lin_amounts ex_line))"
  by (simp_all add: valid_line_def ex_line_def valid_amounts_def valid_decimal_def MAX_SCALE_def)

theorem explicit_item_consistent_witness:
  "explicit_item exact_package ex_line (the (lin_amounts ex_line)) (Currency (us ''huf'')) = Ok ex_line_item \<and>
   token_rate (lin_vat_rate ex_line) = Some 27 \<and>
   asserted_line 0 (value_of (lin_unit_price ex_line) * value_of (lin_quantity ex_line)) 27 ex_line_item"
proof -
  have "token_rate (lin_vat_rate ex_line) = Some 27" "is_huf (Currency (us ''huf''))" by code_simp+
  with explicit_item_consistent [OF exact_package.decimal_lib_axioms ex_line_valid ex_line_explicit] ex_line_explicit
  show ?thesis by auto
qed

text \<open>A computed line is exact up to its two documented roundings: net is unit price times quantity
  rounded half away from zero to the currency's minor unit, VAT is net times rate over 100
  rounded the same way (zero for a rate that is no percentage), and gross is exactly net plus
  VAT.\<close>

theorem try_calculated_exact:
  assumes "decimal_lib lib" "valid_decimal quantity" "valid_decimal unit_price" "length token < 2 ^ 62"
    and "try_calculated lib name quantity unit unit_price (VatRate_from lib token) (Rounding_minor_unit currency) = Ok item"
  shows "\<exists>percentage. vat_percentage lib (VatRate_from lib token) = Ok percentage \<and>
    calculated_line (minor_unit_digits currency) (value_of unit_price * value_of quantity)
      (case percentage of None \<Rightarrow> 0 | Some r \<Rightarrow> value_of r) item"
  using decimal_lib.try_calculated_sound [OF assms(1) assms(5) [unfolded Rounding_minor_unit_def] assms(2,3)]
    decimal_lib.VatRate_valid [OF assms(1,4)] decimal_lib.VatRate_other_length [OF assms(1)] assms(4) by blast

definition ex_calculated :: LineItem where
  "ex_calculated = LineItem_new (us ''x'') (Decimal 3 0) (us ''db'') (Decimal 3335 2) (Percent (Decimal 27 0))
     (Decimal 10005 2) (Decimal 2701 2) (Decimal 12706 2)"

theorem try_calculated_exact_witness:
  "\<exists>item. try_calculated exact_package (us ''x'') (Decimal 3 0) (us ''db'') (Decimal 3335 2)
       (VatRate_from exact_package (us ''27'')) (Rounding_minor_unit EUR) = Ok item \<and>
     value_of (li_gross_value item) = value_of (li_net_value item) + value_of (li_vat_value item)"
proof -
  have c: "try_calculated exact_package (us ''x'') (Decimal 3 0) (us ''db'') (Decimal 3335 2)
       (VatRate_from exact_package (us ''27'')) (Rounding_minor_unit EUR) = Ok ex_calculated"
    by code_simp
  show ?thesis
    using try_calculated_exact [OF exact_package.decimal_lib_axioms _ _ _ c] c
    by (auto simp: valid_decimal_def MAX_SCALE_def calculated_line_def Let_def)
qed

text \<open>The money of a prepared document is consistent: there is a line for every input line, every
  line's gross is its net plus its VAT, the totals are exactly the sums of the lines, so that
  the total gross is the total net plus the total VAT, and totals the caller approved are the
  ones that are submitted.\<close>

theorem monetary_preflight_exact:
  assumes "decimal_lib lib" "list_all valid_line inputs" "monetary_preflight lib inputs expected currency = Ok pre"
  shows "length (mp_items pre) = length inputs \<and> inputs \<noteq> [] \<and>
    (\<forall>item \<in> set (mp_items pre). value_of (li_gross_value item) = value_of (li_net_value item) + value_of (li_vat_value item)) \<and>
    value_of (am_net (mp_totals pre)) = (\<Sum>item \<leftarrow> mp_items pre. value_of (li_net_value item)) \<and>
    value_of (am_vat (mp_totals pre)) = (\<Sum>item \<leftarrow> mp_items pre. value_of (li_vat_value item)) \<and>
    value_of (am_gross (mp_totals pre)) = value_of (am_net (mp_totals pre)) + value_of (am_vat (mp_totals pre)) \<and>
    (\<forall>a. expected = Some a \<longrightarrow> value_of (am_net a) = value_of (am_net (mp_totals pre)) \<and>
       value_of (am_vat a) = value_of (am_vat (mp_totals pre)) \<and> value_of (am_gross a) = value_of (am_gross (mp_totals pre)))"
proof -
  note l = decimal_lib.preflight_lines [OF assms(1,3,2)]
  have z: "valid_amounts \<lparr> am_net = ZERO, am_vat = ZERO, am_gross = ZERO \<rparr>" "value_of ZERO = 0"
    by (simp_all add: valid_amounts_def valid_decimal_def ZERO_def value_of_def MAX_SCALE_def)
  have sums: "value_of (am_net (mp_totals pre)) = (\<Sum>item \<leftarrow> mp_items pre. value_of (li_net_value item))"
    "value_of (am_vat (mp_totals pre)) = (\<Sum>item \<leftarrow> mp_items pre. value_of (li_vat_value item))"
    "value_of (am_gross (mp_totals pre)) = (\<Sum>item \<leftarrow> mp_items pre. value_of (li_gross_value item))"
    using decimal_lib.sum_amounts_exact [OF assms(1) _ z(1)] l z(2) by auto
  have "(\<Sum>item \<leftarrow> mp_items pre. value_of (li_gross_value item)) =
      (\<Sum>item \<leftarrow> mp_items pre. value_of (li_net_value item) + value_of (li_vat_value item))"
    using l by (intro arg_cong [where f = sum_list] map_cong) auto
  moreover have "length (mp_items pre) = length inputs" using l by (auto dest: list_all2_lengthD)
  moreover have "inputs \<noteq> []" "expected = Some a \<longrightarrow> amounts_eq lib a (mp_totals pre)" for a
    using assms(3) by (auto simp: monetary_preflight_def try_then_Inr_iff split: if_splits)
  ultimately show ?thesis
    using l sums by (auto simp: sum_list_addf amounts_eq_def decimal_lib.eq_iff [OF assms(1)])
qed

theorem monetary_preflight_exact_witness:
  "\<exists>pre. monetary_preflight exact_package [ex_line, ex_line] None (Currency (us ''HUF'')) = Ok pre \<and>
     value_of (am_gross (mp_totals pre)) = value_of (am_net (mp_totals pre)) + value_of (am_vat (mp_totals pre))"
proof -
  have p: "monetary_preflight exact_package [ex_line, ex_line] None (Currency (us ''HUF'')) =
      Ok \<lparr> mp_items = [ex_line_item, ex_line_item],
        mp_totals = \<lparr> am_net = Decimal 1574 0, am_vat = Decimal 426 0, am_gross = Decimal 2000 0 \<rparr> \<rparr>"
    by code_simp
  have "list_all valid_line [ex_line, ex_line]" by (simp add: ex_line_valid)
  from monetary_preflight_exact [OF exact_package.decimal_lib_axioms this p] p show ?thesis by blast
qed

end
