(* ===== verification/Agent_Requests.thy ===== *)
theory Agent_Requests
  imports Accounts Line_Items
begin

text \<open>
  The requests of the Agent operations the worker sends (\<open>szamlazz-agent/src/ops/invoice.rs\<close>,
  \<open>ops/waybill.rs\<close>, \<open>ops/storno.rs\<close>, \<open>ops/credit_entry.rs\<close>, \<open>ops/proforma.rs\<close>, with the shared
  types of \<open>types.rs\<close> and the writer of \<open>xml.rs\<close>): their data, their validation, and the XML
  document each writes, as a tree in document order.

  Rendering a tree to text (\<open>quick-xml\<close>) and printing a decimal or a date are third-party and
  form the parameter \<open>WireText\<close>.
\<close>

section \<open>Shared values\<close>

datatype InvoiceSelector = ByInvoiceNumber ustr | ByOrderNumber ustr | ByExternalId ustr

datatype PaymentMethod = Transfer | Cash | Card | Check | CashOnDelivery | PayPal | SzepCard | OtherMethod ustr

primrec PaymentMethod_as_wire :: "PaymentMethod \<Rightarrow> ustr" where
  "PaymentMethod_as_wire Transfer = 225 # us ''tutal'' @ 225 # us ''s''"
| "PaymentMethod_as_wire Cash = us ''k'' @ 233 # us ''szp'' @ 233 # us ''nz''"
| "PaymentMethod_as_wire Card = us ''bankk'' @ 225 # us ''rtya''"
| "PaymentMethod_as_wire Check = us ''csekk''"
| "PaymentMethod_as_wire CashOnDelivery = us ''ut'' @ 225 # us ''nv'' @ 233 # us ''t''"
| "PaymentMethod_as_wire PayPal = us ''PayPal''"
| "PaymentMethod_as_wire SzepCard = us ''SZ'' @ 201 # us ''P k'' @ 225 # us ''rtya''"
| "PaymentMethod_as_wire (OtherMethod method) = method"

definition PaymentMethod_arms :: "(ustr \<times> PaymentMethod) list" where
  "PaymentMethod_arms = map (\<lambda>m. (PaymentMethod_as_wire m, m)) [Transfer, Cash, Card, Check, CashOnDelivery, PayPal, SzepCard]"

definition PaymentMethod_from :: "ustr \<Rightarrow> PaymentMethod" where
  "PaymentMethod_from = match_token PaymentMethod_arms OtherMethod"

interpretation payment_methods: open_tokens PaymentMethod_arms OtherMethod PaymentMethod_as_wire
proof unfold_locales
  show "v \<in> snd ` set PaymentMethod_arms \<or> (\<exists>s. v = OtherMethod s)" for v
    by (cases v) (simp_all add: PaymentMethod_arms_def)
qed (simp_all add: PaymentMethod_arms_def)

datatype TaxpayerStatus = NonEuBusiness | EuBusiness | HasTaxNumber | TS_Unknown | NoTaxNumber

primrec TaxpayerStatus_as_wire :: "TaxpayerStatus \<Rightarrow> ustr" where
  "TaxpayerStatus_as_wire NonEuBusiness = us ''7''"
| "TaxpayerStatus_as_wire EuBusiness = us ''6''"
| "TaxpayerStatus_as_wire HasTaxNumber = us ''1''"
| "TaxpayerStatus_as_wire TS_Unknown = us ''0''"
| "TaxpayerStatus_as_wire NoTaxNumber = us ''-1''"

record ExchangeRate =
  er_bank :: ustr
  er_rate :: "Decimal option"

definition automatic_mnb :: ExchangeRate where
  "automatic_mnb = \<lparr> er_bank = us ''MNB'', er_rate = None \<rparr>"

datatype InvoiceTemplate =
    IT_Most | IT_Default | IT_NoEnvelope | IT_EightCentimeter | IT_Continuous | IT_DeliveryNote | IT_Other ustr

primrec InvoiceTemplate_as_wire :: "InvoiceTemplate \<Rightarrow> ustr" where
  "InvoiceTemplate_as_wire IT_Most = us ''SzlaMost''"
| "InvoiceTemplate_as_wire IT_Default = us ''SzlaAlap''"
| "InvoiceTemplate_as_wire IT_NoEnvelope = us ''SzlaNoEnv''"
| "InvoiceTemplate_as_wire IT_EightCentimeter = us ''Szla8cm''"
| "InvoiceTemplate_as_wire IT_Continuous = us ''SzlaTomb''"
| "InvoiceTemplate_as_wire IT_DeliveryNote = us ''SzlaFuvarlevelesAlap''"
| "InvoiceTemplate_as_wire (IT_Other t) = t"

record SellerEmail =
  se_reply_to :: "ustr option"
  se_subject :: "ustr option"
  se_body :: "ustr option"

datatype Credentials = AgentKey ustr | UserPassword ustr ustr

text \<open>The caller's payment methods (\<open>contract/document.rs\<close>) and the two conversions.\<close>

datatype PaymentMethodInput =
    PMI_Transfer | PMI_Cash | PMI_Card | PMI_Check | PMI_CashOnDelivery | PMI_PayPal | PMI_SzepCard | PMI_Other ustr

primrec PaymentMethod_of_input :: "PaymentMethodInput \<Rightarrow> PaymentMethod" where
  "PaymentMethod_of_input PMI_Transfer = Transfer"
| "PaymentMethod_of_input PMI_Cash = Cash"
| "PaymentMethod_of_input PMI_Card = Card"
| "PaymentMethod_of_input PMI_Check = Check"
| "PaymentMethod_of_input PMI_CashOnDelivery = CashOnDelivery"
| "PaymentMethod_of_input PMI_PayPal = PayPal"
| "PaymentMethod_of_input PMI_SzepCard = SzepCard"
| "PaymentMethod_of_input (PMI_Other method) = OtherMethod method"

primrec PaymentMethodInput_from :: "PaymentMethod \<Rightarrow> PaymentMethodInput" where
  "PaymentMethodInput_from Transfer = PMI_Transfer"
| "PaymentMethodInput_from Cash = PMI_Cash"
| "PaymentMethodInput_from Card = PMI_Card"
| "PaymentMethodInput_from Check = PMI_Check"
| "PaymentMethodInput_from CashOnDelivery = PMI_CashOnDelivery"
| "PaymentMethodInput_from PayPal = PMI_PayPal"
| "PaymentMethodInput_from SzepCard = PMI_SzepCard"
| "PaymentMethodInput_from (OtherMethod method) = PMI_Other method"

lemma PaymentMethodInput_roundtrip [simp]:
  "PaymentMethod_of_input (PaymentMethodInput_from m) = m" "PaymentMethodInput_from (PaymentMethod_of_input i) = i"
  by (cases m; simp) (cases i; simp)

section \<open>The create request\<close>

datatype InvoiceKind =
    Kind_Invoice "ustr option"
  | Kind_Proforma
  | Kind_DeliveryNote
  | Kind_Prepayment "ustr option"
  | Kind_Final "ustr option" "ustr option"
  | Kind_Corrective ustr

fun InvoiceKind_proforma_number :: "InvoiceKind \<Rightarrow> ustr option" where
  "InvoiceKind_proforma_number (Kind_Invoice proforma_number) = proforma_number"
| "InvoiceKind_proforma_number (Kind_Prepayment proforma_number) = proforma_number"
| "InvoiceKind_proforma_number (Kind_Final prepayment_number proforma_number) = proforma_number"
| "InvoiceKind_proforma_number _ = None"

record BuyerLedger =
  bl_accounting_date :: "Date option"
  bl_buyer_id :: "ustr option"
  bl_buyer_account :: "ustr option"
  bl_continuous_fulfillment :: "bool option"
  bl_settlement_from :: "Date option"
  bl_settlement_to :: "Date option"

record InvoiceHeader =
  ih_issue_date :: "Date option"
  ih_fulfillment_date :: Date
  ih_due_date :: Date
  ih_payment_method :: PaymentMethod
  ih_currency :: Currency
  ih_language :: Language
  ih_comment :: "ustr option"
  ih_exchange_rate :: "ExchangeRate option"
  ih_order_number :: "ustr option"
  ih_extra_logo :: "ustr option"
  ih_number_prefix :: "ustr option"
  ih_payable_adjustment :: "Decimal option"
  ih_paid :: "bool option"
  ih_margin_vat :: "bool option"
  ih_eu_vat :: "bool option"
  ih_template :: "InvoiceTemplate option"
  ih_preview_pdf :: "bool option"
  ih_simple_items :: "bool option"

definition InvoiceHeader_new :: "Date \<Rightarrow> Date \<Rightarrow> PaymentMethod \<Rightarrow> Currency \<Rightarrow> Language \<Rightarrow> InvoiceHeader" where
  "InvoiceHeader_new fulfillment_date due_date payment_method currency language =
    \<lparr> ih_issue_date = None, ih_fulfillment_date = fulfillment_date, ih_due_date = due_date,
      ih_payment_method = payment_method, ih_currency = currency, ih_language = language, ih_comment = None,
      ih_exchange_rate = None, ih_order_number = None, ih_extra_logo = None, ih_number_prefix = None,
      ih_payable_adjustment = None, ih_paid = None, ih_margin_vat = None, ih_eu_vat = None, ih_template = None,
      ih_preview_pdf = None, ih_simple_items = None \<rparr>"

record Seller =
  sl_bank :: "ustr option"
  sl_bank_account :: "ustr option"
  sl_email :: "SellerEmail option"
  sl_signer_name :: "ustr option"

definition Seller_default :: Seller where
  "Seller_default = \<lparr> sl_bank = None, sl_bank_account = None, sl_email = None, sl_signer_name = None \<rparr>"

record PostalAddress =
  pa_name :: "ustr option"
  pa_country :: "ustr option"
  pa_zip :: "ustr option"
  pa_city :: "ustr option"
  pa_address :: "ustr option"

record Buyer =
  bu_name :: ustr
  bu_country :: "ustr option"
  bu_zip :: ustr
  bu_city :: ustr
  bu_address :: ustr
  bu_email :: "ustr option"
  bu_send_email :: "bool option"
  bu_taxpayer_status :: "TaxpayerStatus option"
  bu_tax_number :: "ustr option"
  bu_group_id :: "ustr option"
  bu_eu_tax_number :: "ustr option"
  bu_postal_address :: "PostalAddress option"
  bu_ledger :: "BuyerLedger option"
  bu_id :: "ustr option"
  bu_signer_name :: "ustr option"
  bu_phone :: "ustr option"
  bu_comment :: "ustr option"

definition Buyer_new :: "ustr \<Rightarrow> ustr \<Rightarrow> ustr \<Rightarrow> ustr \<Rightarrow> Buyer" where
  "Buyer_new name zip_code city address =
    \<lparr> bu_name = name, bu_country = None, bu_zip = zip_code, bu_city = city, bu_address = address, bu_email = None,
      bu_send_email = None, bu_taxpayer_status = None, bu_tax_number = None, bu_group_id = None,
      bu_eu_tax_number = None, bu_postal_address = None, bu_ledger = None, bu_id = None, bu_signer_name = None,
      bu_phone = None, bu_comment = None \<rparr>"

record TransOFlex =
  tof_id :: "ustr option"
  tof_shipment_id :: "ustr option"
  tof_parcel_count :: "32 word option"
  tof_country_code :: "ustr option"
  tof_zip :: "ustr option"
  tof_service :: "ustr option"

record PickPackPoint =
  ppp_barcode_prefix :: "ustr option"
  ppp_barcode_suffix :: "ustr option"

record Sprinter =
  spr_id :: "ustr option"
  spr_sender_code :: "ustr option"
  spr_routing_code :: "ustr option"
  spr_parcel_count :: "32 word option"
  spr_barcode_suffix :: "ustr option"
  spr_delivery_time :: "ustr option"

record Mpl =
  mpl_customer_code :: ustr
  mpl_barcode :: ustr
  mpl_weight :: ustr
  mpl_extra_services :: "ustr option"
  mpl_declared_value :: "Decimal option"

record Waybill =
  wb_destination :: "ustr option"
  wb_carrier :: "ustr option"
  wb_barcode :: "ustr option"
  wb_comment :: "ustr option"
  wb_trans_o_flex :: "TransOFlex option"
  wb_pick_pack_point :: "PickPackPoint option"
  wb_sprinter :: "Sprinter option"
  wb_mpl :: "Mpl option"

definition parcel_counts :: "Waybill \<Rightarrow> 32 word list" where
  "parcel_counts w = List.map_filter id
     [Option.bind (wb_trans_o_flex w) tof_parcel_count, Option.bind (wb_sprinter w) spr_parcel_count]"

record EmailAttachment =
  ea_filename :: ustr
  ea_content :: "8 word list"
  ea_content_type :: ustr

datatype AttachmentError = TooMany | TooLarge

definition MAX_ATTACHMENT_BYTES :: nat where
  "MAX_ATTACHMENT_BYTES = 2000000"

definition attachments_push :: "EmailAttachment list \<Rightarrow> EmailAttachment \<Rightarrow> (EmailAttachment list, AttachmentError) result" where
  "attachments_push attachments a =
    (if length attachments = 5 then Err TooMany
     else if MAX_ATTACHMENT_BYTES < length (ea_content a) then Err TooLarge
     else Ok (attachments @ [a]))"

definition attachments_try_from :: "EmailAttachment list \<Rightarrow> (EmailAttachment list, AttachmentError) result" where
  "attachments_try_from attachments =
    (if 5 < length attachments then Err TooMany
     else if list_ex (\<lambda>a. MAX_ATTACHMENT_BYTES < length (ea_content a)) attachments then Err TooLarge
     else Ok attachments)"

record CreateInvoice =
  ci_kind :: InvoiceKind
  ci_e_invoice :: bool
  ci_download_pdf :: bool
  ci_download_copies :: "8 word option"
  ci_aggregator :: "ustr option"
  ci_guardian :: "bool option"
  ci_item_identifiers_on_invoice :: "bool option"
  ci_external_id :: "ustr option"
  ci_header :: InvoiceHeader
  ci_seller :: Seller
  ci_buyer :: Buyer
  ci_waybill :: "Waybill option"
  ci_items :: "LineItem list"
  ci_attachments :: "EmailAttachment list"

definition CreateInvoice_new :: "InvoiceKind \<Rightarrow> InvoiceHeader \<Rightarrow> Buyer \<Rightarrow> LineItem list \<Rightarrow> CreateInvoice" where
  "CreateInvoice_new kind header buyer items =
    \<lparr> ci_kind = kind, ci_e_invoice = False, ci_download_pdf = False, ci_download_copies = None, ci_aggregator = None,
      ci_guardian = None, ci_item_identifiers_on_invoice = None, ci_external_id = None, ci_header = header,
      ci_seller = Seller_default, ci_buyer = buyer, ci_waybill = None, ci_items = items, ci_attachments = [] \<rparr>"

section \<open>The other requests\<close>

record StornoInvoice =
  si_invoice_number :: ustr
  si_e_invoice :: bool
  si_download_pdf :: bool
  si_download_copies :: "8 word option"
  si_aggregator :: "ustr option"
  si_guardian :: "bool option"
  si_external_id :: "ustr option"
  si_issue_date :: "Date option"
  si_fulfillment_date :: "Date option"
  si_comment :: "ustr option"
  si_template :: "InvoiceTemplate option"
  si_seller_email :: "SellerEmail option"
  si_buyer_email :: "ustr option"
  si_buyer_tax_number :: "ustr option"
  si_buyer_eu_tax_number :: "ustr option"

definition StornoInvoice_new :: "ustr \<Rightarrow> StornoInvoice" where
  "StornoInvoice_new n =
    \<lparr> si_invoice_number = n, si_e_invoice = False, si_download_pdf = False, si_download_copies = None,
      si_aggregator = None, si_guardian = None, si_external_id = None, si_issue_date = None,
      si_fulfillment_date = None, si_comment = None, si_template = None, si_seller_email = None,
      si_buyer_email = None, si_buyer_tax_number = None, si_buyer_eu_tax_number = None \<rparr>"

record CreditEntry =
  cre_date :: Date
  cre_title :: PaymentMethod
  cre_amount :: Decimal
  cre_description :: "ustr option"

record RegisterCreditEntry =
  rce_invoice_number :: ustr
  rce_issuer_tax_number :: "ustr option"
  rce_additive :: bool
  rce_aggregator :: "ustr option"
  rce_entries :: "CreditEntry list"

definition RegisterCreditEntry_new :: "ustr \<Rightarrow> RegisterCreditEntry" where
  "RegisterCreditEntry_new n =
    \<lparr> rce_invoice_number = n, rce_issuer_tax_number = None, rce_additive = False,
      rce_aggregator = None, rce_entries = [] \<rparr>"

section \<open>Validation\<close>

primrec validate_dates :: "(string \<times> Date option) list \<Rightarrow> (unit, RequestError) result" where
  "validate_dates [] = Ok ()"
| "validate_dates (fd # dates) = (case fd of (field, date) \<Rightarrow> (case date of
     Some d \<Rightarrow> if fst d \<le> 0 then Err (RE_InvalidDateYear (us field) (fst d)) else validate_dates dates
   | None \<Rightarrow> validate_dates dates))"

primrec validate_item_ledgers :: "LineItem list \<Rightarrow> (unit, RequestError) result" where
  "validate_item_ledgers [] = Ok ()"
| "validate_item_ledgers (item # items) = (case li_ledger item of
     None \<Rightarrow> validate_item_ledgers items
   | Some ledger \<Rightarrow> try_then (validate_dates
       [(''items.ledger.settlement_from'', lil_settlement_from ledger), (''items.ledger.settlement_to'', lil_settlement_to ledger)])
       (\<lambda>_. validate_item_ledgers items))"

definition MAX_ERASURE_CODE_COUNT :: "32 word" where
  "MAX_ERASURE_CODE_COUNT = 400"

definition nonblank :: "ustr option \<Rightarrow> bool" where
  "nonblank s = (case s of None \<Rightarrow> False | Some t \<Rightarrow> trim t \<noteq> [])"

definition validate_reference :: "CreateInvoice \<Rightarrow> (unit, RequestError) result" where
  "validate_reference c = (case ci_kind c of
     Kind_Final prepayment_number proforma_number \<Rightarrow>
       if \<not> nonblank prepayment_number \<and> \<not> nonblank (ih_order_number (ci_header c)) then Err RE_MissingPrepaymentReference
       else Ok ()
   | _ \<Rightarrow> Ok ())"

definition validate_exchange_rate :: "InvoiceHeader \<Rightarrow> (unit, RequestError) result" where
  "validate_exchange_rate header =
    (if is_huf (ih_currency header) then Ok ()
     else case ih_exchange_rate header of
       None \<Rightarrow> Err RE_MissingExchangeRate
     | Some rate \<Rightarrow> (let bank = trim (er_bank rate) in
         if bank = [] \<or> bank \<noteq> er_bank rate \<or> (er_rate rate = None \<and> bank \<noteq> us ''MNB'') then Err RE_InvalidExchangeRate
         else Ok ()))"

definition CreateInvoice_validate :: "CreateInvoice \<Rightarrow> (unit, RequestError) result" where
  "CreateInvoice_validate c = (let header = ci_header c in
    try_then (validate_dates [(''header.issue_date'', ih_issue_date header),
      (''header.fulfillment_date'', Some (ih_fulfillment_date header)), (''header.due_date'', Some (ih_due_date header))]) (\<lambda>_.
    try_then (case bu_ledger (ci_buyer c) of
        None \<Rightarrow> Ok ()
      | Some ledger \<Rightarrow> validate_dates [(''buyer.ledger.accounting_date'', bl_accounting_date ledger),
          (''buyer.ledger.settlement_from'', bl_settlement_from ledger), (''buyer.ledger.settlement_to'', bl_settlement_to ledger)]) (\<lambda>_.
    try_then (validate_item_ledgers (ci_items c)) (\<lambda>_.
    if ci_items c = [] then Err RE_MissingLineItems
    else try_then (validate_reference c) (\<lambda>_.
      case List.find (\<lambda>count. MAX_ERASURE_CODE_COUNT < count) (List.map_filter li_erasure_code_count (ci_items c)) of
        Some count \<Rightarrow> Err (RE_ErasureCodeCountOutOfRange (unat count))
      | None \<Rightarrow> (case List.find (\<lambda>count. 2147483647 < count) (case ci_waybill c of None \<Rightarrow> [] | Some w \<Rightarrow> parcel_counts w) of
          Some count \<Rightarrow> Err (RE_ParcelCountOutOfRange (unat count))
        | None \<Rightarrow> validate_exchange_rate header))))))"

definition StornoInvoice_validate :: "StornoInvoice \<Rightarrow> (unit, RequestError) result" where
  "StornoInvoice_validate s =
    validate_dates [(''issue_date'', si_issue_date s), (''fulfillment_date'', si_fulfillment_date s)]"

definition RegisterCreditEntry_validate :: "RegisterCreditEntry \<Rightarrow> (unit, RequestError) result" where
  "RegisterCreditEntry_validate r =
    try_then (validate_dates (map (\<lambda>entry. (''entries.date'', Some (cre_date entry))) (rce_entries r))) (\<lambda>_.
    if \<not> rce_additive r \<and> rce_entries r = [] then Err RE_EmptyCreditEntryReplace else Ok ())"

section \<open>The document each request writes\<close>

datatype XmlNode = XText ustr ustr | XNode ustr "XmlNode list"

record XmlDocument =
  xd_root :: ustr
  xd_namespace :: ustr
  xd_children :: "XmlNode list"

record WireText =
  wt_lib :: DecimalLib
  wt_decimal :: "Decimal \<Rightarrow> ustr"
  wt_date :: "Date \<Rightarrow> ustr"
  wt_render :: "XmlDocument \<Rightarrow> ustr"

definition el_text :: "string \<Rightarrow> ustr \<Rightarrow> XmlNode list" where
  "el_text name v = [XText (us name) v]"

definition el_text_opt :: "string \<Rightarrow> ustr option \<Rightarrow> XmlNode list" where
  "el_text_opt name v = (case v of None \<Rightarrow> [] | Some t \<Rightarrow> el_text name t)"

definition el_bool :: "string \<Rightarrow> bool \<Rightarrow> XmlNode list" where
  "el_bool name v = el_text name (if v then us ''true'' else us ''false'')"

definition el_bool_opt :: "string \<Rightarrow> bool option \<Rightarrow> XmlNode list" where
  "el_bool_opt name v = (case v of None \<Rightarrow> [] | Some b \<Rightarrow> el_bool name b)"

definition el_decimal :: "WireText \<Rightarrow> string \<Rightarrow> Decimal \<Rightarrow> XmlNode list" where
  "el_decimal wt name v = el_text name (wt_decimal wt v)"

definition el_decimal_opt :: "WireText \<Rightarrow> string \<Rightarrow> Decimal option \<Rightarrow> XmlNode list" where
  "el_decimal_opt wt name v = (case v of None \<Rightarrow> [] | Some d \<Rightarrow> el_decimal wt name d)"

definition el_date :: "WireText \<Rightarrow> string \<Rightarrow> Date \<Rightarrow> XmlNode list" where
  "el_date wt name v = el_text name (wt_date wt v)"

definition el_date_opt :: "WireText \<Rightarrow> string \<Rightarrow> Date option \<Rightarrow> XmlNode list" where
  "el_date_opt wt name v = (case v of None \<Rightarrow> [] | Some d \<Rightarrow> el_date wt name d)"

definition el_node :: "string \<Rightarrow> XmlNode list \<Rightarrow> XmlNode list" where
  "el_node name children = [XNode (us name) children]"

primrec el_credentials :: "Credentials \<Rightarrow> XmlNode list" where
  "el_credentials (AgentKey key) = el_text ''szamlaagentkulcs'' key"
| "el_credentials (UserPassword username password) = el_text ''felhasznalo'' username @ el_text ''jelszo'' password"

definition on_some :: "'a option \<Rightarrow> ('a \<Rightarrow> XmlNode list) \<Rightarrow> XmlNode list" where
  "on_some v f = (case v of None \<Rightarrow> [] | Some a \<Rightarrow> f a)"

definition RESPONSE_VERSION :: ustr where
  "RESPONSE_VERSION = us ''2''"

definition el_count :: "string \<Rightarrow> nat \<Rightarrow> XmlNode list" where
  "el_count name n = el_text name (decimal_digits n)"

definition VatRate_as_wire :: "WireText \<Rightarrow> VatRate \<Rightarrow> ustr" where
  "VatRate_as_wire wt rate = (case rate of
     Percent d \<Rightarrow> wt_decimal wt (dl_normalize (wt_lib wt) d)
   | VatOther code \<Rightarrow> code
   | listed \<Rightarrow> (case List.find (\<lambda>(t, v). v = listed) VatRate_arms of Some (t, v) \<Rightarrow> t | None \<Rightarrow> []))"

definition kind_elements :: "InvoiceKind \<Rightarrow> XmlNode list" where
  "kind_elements kind = (case kind of
     Kind_Invoice proforma_number \<Rightarrow> []
   | Kind_Prepayment proforma_number \<Rightarrow> el_bool ''elolegszamla'' True
   | Kind_Final prepayment_number proforma_number \<Rightarrow>
       el_bool ''vegszamla'' True @ el_text_opt ''elolegSzamlaszam'' prepayment_number
   | Kind_Corrective corrected_number \<Rightarrow>
       el_bool ''helyesbitoszamla'' True @ el_text ''helyesbitettSzamlaszam'' corrected_number
   | Kind_Proforma \<Rightarrow> el_bool ''dijbekero'' True
   | Kind_DeliveryNote \<Rightarrow> el_bool ''szallitolevel'' True)"

definition settings_elements :: "Credentials \<Rightarrow> CreateInvoice \<Rightarrow> XmlNode list" where
  "settings_elements credentials c =
    el_credentials credentials @ el_bool ''eszamla'' (ci_e_invoice c) @ el_bool ''szamlaLetoltes'' (ci_download_pdf c)
    @ on_some (ci_download_copies c) (\<lambda>copies. el_count ''szamlaLetoltesPld'' (unat copies))
    @ el_text ''valaszVerzio'' RESPONSE_VERSION @ el_text_opt ''aggregator'' (ci_aggregator c)
    @ el_bool_opt ''guardian'' (ci_guardian c) @ el_bool_opt ''cikkazoninvoice'' (ci_item_identifiers_on_invoice c)
    @ el_text_opt ''szamlaKulsoAzon'' (ci_external_id c)"

definition effective_template :: "CreateInvoice \<Rightarrow> InvoiceTemplate option" where
  "effective_template c = (if ci_kind c = Kind_DeliveryNote then Some IT_DeliveryNote else ih_template (ci_header c))"

definition header_elements :: "WireText \<Rightarrow> CreateInvoice \<Rightarrow> XmlNode list" where
  "header_elements wt c = (let h = ci_header c in
    el_date_opt wt ''keltDatum'' (ih_issue_date h) @ el_date wt ''teljesitesDatum'' (ih_fulfillment_date h)
    @ el_date wt ''fizetesiHataridoDatum'' (ih_due_date h)
    @ el_text ''fizmod'' (PaymentMethod_as_wire (ih_payment_method h))
    @ el_text ''penznem'' (currency_str (ih_currency h)) @ el_text ''szamlaNyelve'' (Language_as_wire (ih_language h))
    @ el_text_opt ''megjegyzes'' (ih_comment h)
    @ on_some (ih_exchange_rate h) (\<lambda>rate. el_text ''arfolyamBank'' (er_bank rate) @ el_decimal_opt wt ''arfolyam'' (er_rate rate))
    @ el_text_opt ''rendelesSzam'' (ih_order_number h)
    @ el_text_opt ''dijbekeroSzamlaszam'' (InvoiceKind_proforma_number (ci_kind c))
    @ kind_elements (ci_kind c)
    @ el_text_opt ''logoExtra'' (ih_extra_logo h) @ el_text_opt ''szamlaszamElotag'' (ih_number_prefix h)
    @ el_decimal_opt wt ''fizetendoKorrekcio'' (ih_payable_adjustment h)
    @ el_bool_opt ''fizetve'' (ih_paid h) @ el_bool_opt ''arresAfa'' (ih_margin_vat h) @ el_bool_opt ''eusAfa'' (ih_eu_vat h)
    @ on_some (effective_template c) (\<lambda>t. el_text ''szamlaSablon'' (InvoiceTemplate_as_wire t))
    @ el_bool_opt ''elonezetpdf'' (ih_preview_pdf h) @ el_bool_opt ''simpleItems'' (ih_simple_items h))"

definition email_elements :: "SellerEmail \<Rightarrow> XmlNode list" where
  "email_elements email = el_text_opt ''emailReplyto'' (se_reply_to email) @ el_text_opt ''emailTargy'' (se_subject email)
     @ el_text_opt ''emailSzoveg'' (se_body email)"

definition seller_elements :: "Seller \<Rightarrow> XmlNode list" where
  "seller_elements s = el_text_opt ''bank'' (sl_bank s) @ el_text_opt ''bankszamlaszam'' (sl_bank_account s)
     @ on_some (sl_email s) email_elements @ el_text_opt ''alairoNeve'' (sl_signer_name s)"

definition postal_elements :: "PostalAddress \<Rightarrow> XmlNode list" where
  "postal_elements p = el_text_opt ''postazasiNev'' (pa_name p) @ el_text_opt ''postazasiOrszag'' (pa_country p)
     @ el_text_opt ''postazasiIrsz'' (pa_zip p) @ el_text_opt ''postazasiTelepules'' (pa_city p)
     @ el_text_opt ''postazasiCim'' (pa_address p)"

definition buyer_ledger_elements :: "WireText \<Rightarrow> BuyerLedger \<Rightarrow> XmlNode list" where
  "buyer_ledger_elements wt l = el_node ''vevoFokonyv'' (
     el_date_opt wt ''konyvelesDatum'' (bl_accounting_date l) @ el_text_opt ''vevoAzonosito'' (bl_buyer_id l)
     @ el_text_opt ''vevoFokonyviSzam'' (bl_buyer_account l) @ el_bool_opt ''folyamatosTelj'' (bl_continuous_fulfillment l)
     @ el_date_opt wt ''elszDatumTol'' (bl_settlement_from l) @ el_date_opt wt ''elszDatumIg'' (bl_settlement_to l))"

definition buyer_elements :: "WireText \<Rightarrow> Buyer \<Rightarrow> XmlNode list" where
  "buyer_elements wt b =
    el_text ''nev'' (bu_name b) @ el_text_opt ''orszag'' (bu_country b) @ el_text ''irsz'' (bu_zip b)
    @ el_text ''telepules'' (bu_city b) @ el_text ''cim'' (bu_address b) @ el_text_opt ''email'' (bu_email b)
    @ el_bool_opt ''sendEmail'' (bu_send_email b)
    @ on_some (bu_taxpayer_status b) (\<lambda>status. el_text ''adoalany'' (TaxpayerStatus_as_wire status))
    @ el_text_opt ''adoszam'' (bu_tax_number b) @ el_text_opt ''csoportazonosito'' (bu_group_id b)
    @ el_text_opt ''adoszamEU'' (bu_eu_tax_number b)
    @ on_some (bu_postal_address b) postal_elements
    @ on_some (bu_ledger b) (buyer_ledger_elements wt)
    @ el_text_opt ''azonosito'' (bu_id b) @ el_text_opt ''alairoNeve'' (bu_signer_name b)
    @ el_text_opt ''telefonszam'' (bu_phone b) @ el_text_opt ''megjegyzes'' (bu_comment b)"

definition Waybill_write :: "WireText \<Rightarrow> Waybill \<Rightarrow> XmlNode list" where
  "Waybill_write wt w =
    el_text_opt ''uticel'' (wb_destination w) @ el_text_opt ''futarSzolgalat'' (wb_carrier w)
    @ el_text_opt ''vonalkod'' (wb_barcode w) @ el_text_opt ''megjegyzes'' (wb_comment w)
    @ on_some (wb_trans_o_flex w) (\<lambda>tof. el_node ''tof'' (
        el_text_opt ''azonosito'' (tof_id tof) @ el_text_opt ''shipmentID'' (tof_shipment_id tof)
        @ on_some (tof_parcel_count tof) (\<lambda>count. el_count ''csomagszam'' (unat count))
        @ el_text_opt ''countryCode'' (tof_country_code tof) @ el_text_opt ''zip'' (tof_zip tof)
        @ el_text_opt ''service'' (tof_service tof)))
    @ on_some (wb_pick_pack_point w) (\<lambda>ppp. el_node ''ppp'' (
        el_text_opt ''vonalkodPrefix'' (ppp_barcode_prefix ppp) @ el_text_opt ''vonalkodPostfix'' (ppp_barcode_suffix ppp)))
    @ on_some (wb_sprinter w) (\<lambda>s. el_node ''sprinter'' (
        el_text_opt ''azonosito'' (spr_id s) @ el_text_opt ''feladokod'' (spr_sender_code s)
        @ el_text_opt ''iranykod'' (spr_routing_code s)
        @ on_some (spr_parcel_count s) (\<lambda>count. el_count ''csomagszam'' (unat count))
        @ el_text_opt ''vonalkodPostfix'' (spr_barcode_suffix s) @ el_text_opt ''szallitasiIdo'' (spr_delivery_time s)))
    @ on_some (wb_mpl w) (\<lambda>mpl. el_node ''mpl'' (
        el_text ''vevokod'' (mpl_customer_code mpl) @ el_text ''vonalkod'' (mpl_barcode mpl) @ el_text ''tomeg'' (mpl_weight mpl)
        @ el_text_opt ''kulonszolgaltatasok'' (mpl_extra_services mpl)
        @ el_decimal_opt wt ''erteknyilvanitas'' (mpl_declared_value mpl)))"

definition item_elements :: "WireText \<Rightarrow> LineItem \<Rightarrow> XmlNode list" where
  "item_elements wt item = el_node ''tetel'' (
    el_text ''megnevezes'' (li_name item) @ el_text_opt ''azonosito'' (li_id item)
    @ el_decimal wt ''mennyiseg'' (li_quantity item) @ el_text ''mennyisegiEgyseg'' (li_unit item)
    @ el_decimal wt ''nettoEgysegar'' (li_unit_price item) @ el_text ''afakulcs'' (VatRate_as_wire wt (li_vat_rate item))
    @ el_decimal_opt wt ''arresAfaAlap'' (li_margin_vat_base item)
    @ el_decimal wt ''nettoErtek'' (li_net_value item) @ el_decimal wt ''afaErtek'' (li_vat_value item)
    @ el_decimal wt ''bruttoErtek'' (li_gross_value item) @ el_text_opt ''megjegyzes'' (li_comment item)
    @ on_some (li_ledger item) (\<lambda>l. el_node ''tetelFokonyv'' (
        el_text_opt ''gazdasagiEsem'' (lil_economic_event l) @ el_text_opt ''gazdasagiEsemAfa'' (lil_vat_economic_event l)
        @ el_text_opt ''arbevetelFokonyviSzam'' (lil_revenue_account l) @ el_text_opt ''afaFokonyviSzam'' (lil_vat_account l)
        @ el_date_opt wt ''elszDatumTol'' (lil_settlement_from l) @ el_date_opt wt ''elszDatumIg'' (lil_settlement_to l)))
    @ on_some (li_erasure_code_count item) (\<lambda>count. el_count ''torloKod'' (unat count)))"

definition CreateInvoice_write_xml :: "WireText \<Rightarrow> Credentials \<Rightarrow> CreateInvoice \<Rightarrow> XmlDocument" where
  "CreateInvoice_write_xml wt credentials c =
    \<lparr> xd_root = us ''xmlszamla'', xd_namespace = us ''http://www.szamlazz.hu/xmlszamla'',
      xd_children = el_node ''beallitasok'' (settings_elements credentials c)
        @ el_node ''fejlec'' (header_elements wt c)
        @ el_node ''elado'' (seller_elements (ci_seller c))
        @ el_node ''vevo'' (buyer_elements wt (ci_buyer c))
        @ on_some (ci_waybill c) (\<lambda>w. el_node ''fuvarlevel'' (Waybill_write wt w))
        @ el_node ''tetelek'' (concat (map (item_elements wt) (ci_items c))) \<rparr>"

definition StornoInvoice_write_xml :: "WireText \<Rightarrow> Credentials \<Rightarrow> StornoInvoice \<Rightarrow> XmlDocument" where
  "StornoInvoice_write_xml wt credentials s =
    \<lparr> xd_root = us ''xmlszamlast'', xd_namespace = us ''http://www.szamlazz.hu/xmlszamlast'',
      xd_children = el_node ''beallitasok'' (
          el_credentials credentials @ el_bool ''eszamla'' (si_e_invoice s) @ el_bool ''szamlaLetoltes'' (si_download_pdf s)
          @ on_some (si_download_copies s) (\<lambda>copies. el_count ''szamlaLetoltesPld'' (unat copies))
          @ el_text_opt ''aggregator'' (si_aggregator s) @ el_bool_opt ''guardian'' (si_guardian s)
          @ el_text ''valaszVerzio'' RESPONSE_VERSION @ el_text_opt ''szamlaKulsoAzon'' (si_external_id s))
        @ el_node ''fejlec'' (
          el_text ''szamlaszam'' (si_invoice_number s) @ el_date_opt wt ''keltDatum'' (si_issue_date s)
          @ el_date_opt wt ''teljesitesDatum'' (si_fulfillment_date s) @ el_text_opt ''megjegyzes'' (si_comment s)
          @ el_text ''tipus'' (us ''SS'')
          @ on_some (si_template s) (\<lambda>t. el_text ''szamlaSablon'' (InvoiceTemplate_as_wire t)))
        @ el_node ''elado'' (on_some (si_seller_email s) email_elements)
        @ el_node ''vevo'' (el_text_opt ''email'' (si_buyer_email s) @ el_text_opt ''adoszam'' (si_buyer_tax_number s)
          @ el_text_opt ''adoszamEU'' (si_buyer_eu_tax_number s)) \<rparr>"

definition RegisterCreditEntry_write_xml :: "WireText \<Rightarrow> Credentials \<Rightarrow> RegisterCreditEntry \<Rightarrow> XmlDocument" where
  "RegisterCreditEntry_write_xml wt credentials r =
    \<lparr> xd_root = us ''xmlszamlakifiz'', xd_namespace = us ''http://www.szamlazz.hu/xmlszamlakifiz'',
      xd_children = el_node ''beallitasok'' (
          el_credentials credentials @ el_text ''szamlaszam'' (rce_invoice_number r)
          @ el_text_opt ''adoszam'' (rce_issuer_tax_number r) @ el_bool ''additiv'' (rce_additive r)
          @ el_text_opt ''aggregator'' (rce_aggregator r) @ el_text ''valaszVerzio'' RESPONSE_VERSION)
        @ concat (map (\<lambda>entry. el_node ''kifizetes'' (
            el_date wt ''datum'' (cre_date entry) @ el_text ''jogcim'' (PaymentMethod_as_wire (cre_title entry))
            @ el_decimal wt ''osszeg'' (cre_amount entry) @ el_text_opt ''leiras'' (cre_description entry))) (rce_entries r)) \<rparr>"

datatype ProformaSelector = PS_InvoiceNumber ustr | PS_OrderNumber ustr

record DeleteProforma =
  dp_selector :: ProformaSelector

definition DeleteProforma_write_xml :: "Credentials \<Rightarrow> DeleteProforma \<Rightarrow> XmlDocument" where
  "DeleteProforma_write_xml credentials d =
    \<lparr> xd_root = us ''xmlszamladbkdel'', xd_namespace = us ''http://www.szamlazz.hu/xmlszamladbkdel'',
      xd_children = el_node ''beallitasok'' (el_credentials credentials)
        @ el_node ''fejlec'' (case dp_selector d of
            PS_InvoiceNumber number \<Rightarrow> el_text ''szamlaszam'' number
          | PS_OrderNumber number \<Rightarrow> el_text ''rendelesszam'' number) \<rparr>"

section \<open>Reading an element of a document back\<close>

text \<open>The texts of the elements \<open>name\<close> directly inside the containers \<open>container\<close>.\<close>

fun node_texts :: "ustr \<Rightarrow> XmlNode list \<Rightarrow> ustr list" where
  "node_texts name [] = []"
| "node_texts name (XText n t # nodes) = (if n = name then t # node_texts name nodes else node_texts name nodes)"
| "node_texts name (XNode n c # nodes) = node_texts name nodes"

fun node_children :: "ustr \<Rightarrow> XmlNode list \<Rightarrow> XmlNode list" where
  "node_children name [] = []"
| "node_children name (XText n t # nodes) = node_children name nodes"
| "node_children name (XNode n c # nodes) = (if n = name then c @ node_children name nodes else node_children name nodes)"

definition element_texts :: "string \<Rightarrow> string \<Rightarrow> XmlDocument \<Rightarrow> ustr list" where
  "element_texts container name d = node_texts (us name) (node_children (us container) (xd_children d))"

lemma node_texts_append [simp]: "node_texts name (xs @ ys) = node_texts name xs @ node_texts name ys"
  by (induction name xs rule: node_texts.induct) auto

lemma node_children_append [simp]: "node_children name (xs @ ys) = node_children name xs @ node_children name ys"
  by (induction name xs rule: node_children.induct) auto

lemma node_texts_el [simp]:
  "node_texts n (el_text m t) = (if us m = n then [t] else [])"
  "node_texts n (el_text_opt m o1) = (if us m = n then (case o1 of None \<Rightarrow> [] | Some t \<Rightarrow> [t]) else [])"
  "node_texts n (el_bool m b) = (if us m = n then [if b then us ''true'' else us ''false''] else [])"
  "us m \<noteq> n \<Longrightarrow> node_texts n (el_bool_opt m ob) = []"
  "us m \<noteq> n \<Longrightarrow> node_texts n (el_date wt m d) = []"
  "us m \<noteq> n \<Longrightarrow> node_texts n (el_date_opt wt m od) = []"
  "us m \<noteq> n \<Longrightarrow> node_texts n (el_decimal_opt wt m oc) = []"
  "us m \<noteq> n \<Longrightarrow> node_texts n (el_count m k) = []"
  "node_texts n (el_node m c) = []"
  by (auto simp: el_text_def el_text_opt_def el_bool_def el_bool_opt_def el_date_def el_date_opt_def el_decimal_def
      el_decimal_opt_def el_count_def el_node_def split: option.split)

lemma node_texts_on_some: "node_texts n (on_some v f) = (case v of None \<Rightarrow> [] | Some a \<Rightarrow> node_texts n (f a))"
  by (simp add: on_some_def split: option.split)

lemma node_children_el [simp]: "node_children n (el_node m c) = (if us m = n then c else [])"
  by (simp add: el_node_def)

lemma node_children_on_some: "node_children n (on_some v f) = (case v of None \<Rightarrow> [] | Some a \<Rightarrow> node_children n (f a))"
  by (simp add: on_some_def split: option.split)

text \<open>The elements of the create document the reconciliation later relies on.\<close>

definition opt_list :: "'a option \<Rightarrow> 'a list" where
  "opt_list v = (case v of None \<Rightarrow> [] | Some a \<Rightarrow> [a])"

lemma create_settings_texts:
  "element_texts ''beallitasok'' ''szamlaKulsoAzon'' (CreateInvoice_write_xml wt cr c) = opt_list (ci_external_id c)"
  by (cases cr) (simp_all add: element_texts_def CreateInvoice_write_xml_def settings_elements_def node_children_on_some
      node_texts_on_some opt_list_def split: option.split)

lemma create_header_texts:
  "element_texts ''fejlec'' ''rendelesSzam'' (CreateInvoice_write_xml wt cr c) = opt_list (ih_order_number (ci_header c))"
  "element_texts ''fejlec'' ''dijbekeroSzamlaszam'' (CreateInvoice_write_xml wt cr c) = opt_list (InvoiceKind_proforma_number (ci_kind c))"
  "element_texts ''fejlec'' ''elolegSzamlaszam'' (CreateInvoice_write_xml wt cr c) =
     (case ci_kind c of Kind_Final prepayment_number proforma_number \<Rightarrow> opt_list prepayment_number | _ \<Rightarrow> [])"
  "element_texts ''fejlec'' ''helyesbitettSzamlaszam'' (CreateInvoice_write_xml wt cr c) =
     (case ci_kind c of Kind_Corrective corrected_number \<Rightarrow> [corrected_number] | _ \<Rightarrow> [])"
  by (cases "ci_kind c"; simp add: element_texts_def CreateInvoice_write_xml_def header_elements_def Let_def
      kind_elements_def node_children_on_some node_texts_on_some opt_list_def split: option.split)+

section \<open>What the document of a create says\<close>

text \<open>A reader of the document: the kind its flags and references spell.\<close>

definition only_text :: "ustr list \<Rightarrow> ustr option" where
  "only_text ts = (case ts of [t] \<Rightarrow> Some t | _ \<Rightarrow> None)"

definition kind_of_document :: "XmlDocument \<Rightarrow> InvoiceKind" where
  "kind_of_document d =
    (let flag = (\<lambda>name. element_texts ''fejlec'' name d = [us ''true'']);
         reference = (\<lambda>name. only_text (element_texts ''fejlec'' name d)) in
     if flag ''dijbekero'' then Kind_Proforma
     else if flag ''szallitolevel'' then Kind_DeliveryNote
     else if flag ''elolegszamla'' then Kind_Prepayment (reference ''dijbekeroSzamlaszam'')
     else if flag ''vegszamla'' then Kind_Final (reference ''elolegSzamlaszam'') (reference ''dijbekeroSzamlaszam'')
     else if flag ''helyesbitoszamla'' then
       Kind_Corrective (case reference ''helyesbitettSzamlaszam'' of Some number \<Rightarrow> number | None \<Rightarrow> [])
     else Kind_Invoice (reference ''dijbekeroSzamlaszam''))"

lemma only_text_opt_list [simp]: "only_text (opt_list v) = v"
  by (simp add: only_text_def opt_list_def split: option.split)

lemma create_kind_flags:
  "element_texts ''fejlec'' ''dijbekero'' (CreateInvoice_write_xml wt cr c) = (if ci_kind c = Kind_Proforma then [us ''true''] else [])"
  "element_texts ''fejlec'' ''szallitolevel'' (CreateInvoice_write_xml wt cr c) = (if ci_kind c = Kind_DeliveryNote then [us ''true''] else [])"
  "element_texts ''fejlec'' ''elolegszamla'' (CreateInvoice_write_xml wt cr c) =
     (case ci_kind c of Kind_Prepayment _ \<Rightarrow> [us ''true''] | _ \<Rightarrow> [])"
  "element_texts ''fejlec'' ''vegszamla'' (CreateInvoice_write_xml wt cr c) =
     (case ci_kind c of Kind_Final _ _ \<Rightarrow> [us ''true''] | _ \<Rightarrow> [])"
  "element_texts ''fejlec'' ''helyesbitoszamla'' (CreateInvoice_write_xml wt cr c) =
     (case ci_kind c of Kind_Corrective _ \<Rightarrow> [us ''true''] | _ \<Rightarrow> [])"
  by (cases "ci_kind c"; simp add: element_texts_def CreateInvoice_write_xml_def header_elements_def Let_def
      kind_elements_def node_children_on_some node_texts_on_some split: option.split)+

text \<open>(C29) The document a create writes says, wherever it is read back, exactly the kind of the request with
  its references, its one external identifier and its one order number: no field of the header, the
  seller, the buyer, the items or the credentials can add, hide or change one of them.
\<close>

theorem create_document_faithful:
  "kind_of_document (CreateInvoice_write_xml wt credentials c) = ci_kind c \<and>
   element_texts ''beallitasok'' ''szamlaKulsoAzon'' (CreateInvoice_write_xml wt credentials c) = opt_list (ci_external_id c) \<and>
   element_texts ''fejlec'' ''rendelesSzam'' (CreateInvoice_write_xml wt credentials c) = opt_list (ih_order_number (ci_header c))"
proof -
  have "kind_of_document (CreateInvoice_write_xml wt credentials c) = ci_kind c"
    by (cases "ci_kind c"; simp add: kind_of_document_def create_kind_flags create_header_texts Let_def) (simp add: only_text_def)
  then show ?thesis by (simp add: create_settings_texts create_header_texts)
qed

end
