(* ===== verification/Multipart.thy ===== *)
theory Multipart
  imports Agent_Requests "HOL-Library.Sublist"
begin

text \<open>
  The multipart body of an Agent request (\<open>szamlazz-agent/src/wire.rs\<close>): the choice of a boundary
  that occurs in no payload, the parts, and \<open>to_wire\<close>. The reader of section ``Reading a body'' is the
  reference the body is measured against: the parts between the delimiter lines.
\<close>

type_synonym byte = "8 word"

section \<open>Bytes\<close>

text \<open>The UTF-8 encoding of a \<open>char\<close> (a code point below 0x110000).\<close>

definition utf8_char :: "nat \<Rightarrow> nat list" where
  "utf8_char c =
    (if c < 128 then [c]
     else if c < 2048 then [192 + c div 64, 128 + c mod 64]
     else if c < 65536 then [224 + c div 4096, 128 + c div 64 mod 64, 128 + c mod 64]
     else [240 + c div 262144 mod 8, 128 + c div 4096 mod 64, 128 + c div 64 mod 64, 128 + c mod 64])"

definition as_bytes :: "ustr \<Rightarrow> byte list" where
  "as_bytes s = concat (map (\<lambda>c. map of_nat (utf8_char c)) s)"

abbreviation CR :: byte where "CR \<equiv> 13"
abbreviation LF :: byte where "LF \<equiv> 10"

definition crlf :: ustr where
  "crlf = [13, 10]"

text \<open>\<open>windows(n)\<close> of a slice; \<open>n\<close> is never zero here.\<close>

definition windows :: "nat \<Rightarrow> 'a list \<Rightarrow> 'a list list" where
  "windows n xs = map (\<lambda>i. take n (drop i xs)) [0..<Suc (length xs) - n]"

definition contains_bytes :: "byte list \<Rightarrow> byte list \<Rightarrow> bool" where
  "contains_bytes haystack needle = list_ex (\<lambda>window. window = needle) (windows (length needle) haystack)"

section \<open>The boundary\<close>

record MultipartFile =
  mf_name :: ustr
  mf_filename :: ustr
  mf_content_type :: ustr
  mf_content :: "byte list"

definition BASE_BOUNDARY :: ustr where
  "BASE_BOUNDARY = us ''----szamlazz-agent-4f7d1a2b9c3e''"

definition boundary_candidate :: "64 word \<Rightarrow> ustr" where
  "boundary_candidate candidate = BASE_BOUNDARY @ us ''-'' @ decimal_digits (unat candidate)"

definition boundary_taken :: "byte list \<Rightarrow> MultipartFile list \<Rightarrow> ustr \<Rightarrow> bool" where
  "boundary_taken xml files boundary \<longleftrightarrow>
     contains_bytes xml (as_bytes boundary) \<or> list_ex (\<lambda>file. contains_bytes (mf_content file) (as_bytes boundary)) files"

partial_function (option) boundary_loop :: "byte list \<Rightarrow> MultipartFile list \<Rightarrow> ustr \<Rightarrow> 64 word \<Rightarrow> ustr option" where
  "boundary_loop xml files boundary candidate =
    (if boundary_taken xml files boundary
     then boundary_loop xml files (boundary_candidate (candidate + 1)) (candidate + 1)
     else Some boundary)"

declare boundary_loop.simps [code]

definition multipart_boundary :: "byte list \<Rightarrow> MultipartFile list \<Rightarrow> ustr option" where
  "multipart_boundary xml files = boundary_loop xml files BASE_BOUNDARY 0"

section \<open>The body\<close>

definition remove_breaks :: "ustr \<Rightarrow> ustr" where
  "remove_breaks v = filter (\<lambda>c. c \<notin> {13, 10}) v"

definition replace_char :: "nat \<Rightarrow> ustr \<Rightarrow> ustr \<Rightarrow> ustr" where
  "replace_char c r s = concat (map (\<lambda>x. if x = c then r else [x]) s)"

definition disposition_value :: "ustr \<Rightarrow> ustr" where
  "disposition_value v = replace_char 92 (us ''%5C'') (replace_char 34 (us ''%22'') (remove_breaks v))"

definition disposition :: "ustr \<Rightarrow> ustr \<Rightarrow> ustr" where
  "disposition name filename =
    us ''Content-Disposition: form-data; name='' @ [34] @ name @ [34] @ us ''; filename='' @ [34] @ filename @ [34]"

definition multipart_file :: "ustr \<Rightarrow> MultipartFile \<Rightarrow> byte list" where
  "multipart_file boundary file =
    as_bytes (crlf @ us ''--'' @ boundary @ crlf)
    @ as_bytes (disposition (disposition_value (mf_name file)) (disposition_value (mf_filename file)) @ crlf)
    @ as_bytes (us ''Content-Type: '' @ remove_breaks (mf_content_type file) @ crlf @ crlf)
    @ mf_content file"

definition multipart_body :: "ustr \<Rightarrow> ustr \<Rightarrow> byte list \<Rightarrow> MultipartFile list \<Rightarrow> byte list" where
  "multipart_body boundary action xml files =
    as_bytes (us ''--'' @ boundary @ crlf)
    @ as_bytes (disposition action action @ crlf)
    @ as_bytes (us ''Content-Type: text/xml'' @ crlf @ crlf)
    @ xml
    @ concat (map (multipart_file boundary) files)
    @ as_bytes (crlf @ us ''--'' @ boundary @ us ''--'' @ crlf)"

record WireRequest =
  wr_content_type :: ustr
  wr_body :: "byte list"

definition multipart :: "ustr \<Rightarrow> byte list \<Rightarrow> MultipartFile list \<Rightarrow> WireRequest option" where
  "multipart action xml files = map_option (\<lambda>boundary.
     \<lparr> wr_content_type = us ''multipart/form-data; boundary='' @ boundary,
       wr_body = multipart_body boundary action xml files \<rparr>) (multipart_boundary xml files)"

definition attachment_files :: "EmailAttachment list \<Rightarrow> MultipartFile list" where
  "attachment_files attachments = map (\<lambda>(index, attachment).
     \<lparr> mf_name = us ''attachfile'' @ decimal_digits (index + 1), mf_filename = ea_filename attachment,
       mf_content_type = ea_content_type attachment, mf_content = ea_content attachment \<rparr>)
     (enumerate 0 attachments)"

text \<open>
  \<open>to_wire\<close> over what an operation supplies: its check, its document, its action and its files. The
  rendered text is a \<open>String\<close>, so the encoding check of \<open>validate_xml_10\<close> passes.
\<close>

definition to_wire :: "WireText \<Rightarrow> (unit, RequestError) result \<Rightarrow> XmlDocument \<Rightarrow> ustr \<Rightarrow> MultipartFile list
    \<Rightarrow> (WireRequest option, RequestError) result" where
  "to_wire wt validated document action files =
    try_then validated (\<lambda>_. let xml = wt_render wt document in
    try_then (validate_xml_text xml) (\<lambda>_. Ok (multipart action (as_bytes xml) files)))"

definition CreateInvoice_to_wire :: "WireText \<Rightarrow> Credentials \<Rightarrow> CreateInvoice \<Rightarrow> (WireRequest option, RequestError) result" where
  "CreateInvoice_to_wire wt credentials c =
    to_wire wt (CreateInvoice_validate c) (CreateInvoice_write_xml wt credentials c) (us ''action-xmlagentxmlfile'')
      (attachment_files (ci_attachments c))"

definition StornoInvoice_to_wire :: "WireText \<Rightarrow> Credentials \<Rightarrow> StornoInvoice \<Rightarrow> (WireRequest option, RequestError) result" where
  "StornoInvoice_to_wire wt credentials s =
    to_wire wt (StornoInvoice_validate s) (StornoInvoice_write_xml wt credentials s) (us ''action-szamla_agent_st'') []"

definition RegisterCreditEntry_to_wire :: "WireText \<Rightarrow> Credentials \<Rightarrow> RegisterCreditEntry \<Rightarrow> (WireRequest option, RequestError) result" where
  "RegisterCreditEntry_to_wire wt credentials r =
    to_wire wt (RegisterCreditEntry_validate r) (RegisterCreditEntry_write_xml wt credentials r) (us ''action-szamla_agent_kifiz'') []"

definition DeleteProforma_to_wire :: "WireText \<Rightarrow> Credentials \<Rightarrow> DeleteProforma \<Rightarrow> (WireRequest option, RequestError) result" where
  "DeleteProforma_to_wire wt credentials d =
    to_wire wt (Ok ()) (DeleteProforma_write_xml credentials d) (us ''action-szamla_agent_dijbekero_torlese'') []"

section \<open>The boundary search ends\<close>

lemma contains_bytes_iff: "contains_bytes hay needle \<longleftrightarrow> (\<exists>i. i + length needle \<le> length hay \<and> take (length needle) (drop i hay) = needle)"
proof -
  have "i < Suc (length hay) - length needle \<longleftrightarrow> i + length needle \<le> length hay" for i by auto
  moreover have "contains_bytes hay needle \<longleftrightarrow> (\<exists>i. i < Suc (length hay) - length needle \<and> take (length needle) (drop i hay) = needle)"
    by (auto simp: contains_bytes_def windows_def list_ex_iff image_iff eq_commute [of needle])
  ultimately show ?thesis by simp
qed

lemma contains_bytes_sublist: "contains_bytes hay needle \<longleftrightarrow> sublist needle hay"
proof
  assume "sublist needle hay"
  then obtain p q where "hay = p @ needle @ q" by (auto simp: sublist_def)
  then have "length p + length needle \<le> length hay \<and> take (length needle) (drop (length p) hay) = needle" by simp
  then show "contains_bytes hay needle" unfolding contains_bytes_iff by blast
next
  assume "contains_bytes hay needle"
  then show "sublist needle hay"
    unfolding contains_bytes_iff by (metis sublist_drop sublist_order.order_trans sublist_take)
qed

lemma as_bytes_simps [simp]:
  "as_bytes [] = []"
  "as_bytes (s @ t) = as_bytes s @ as_bytes t"
  by (simp_all add: as_bytes_def)

lemma as_bytes_ascii: "list_all (\<lambda>c. c < 128) s \<Longrightarrow> as_bytes s = map of_nat s"
  by (induction s) (auto simp: as_bytes_def utf8_char_def)

lemma decimal_digits_ascii: "list_all (\<lambda>c. 48 \<le> c \<and> c < 58) (decimal_digits n)"
proof (induction n rule: decimal_digits.induct)
  case (1 n)
  then show ?case by (subst decimal_digits.simps) (auto simp: list_all_append)
qed

lemma decimal_digits_last: "last (decimal_digits n) = 48 + n mod 10"
  by (subst decimal_digits.simps) simp

lemma decimal_digits_butlast: "10 \<le> n \<Longrightarrow> butlast (decimal_digits n) = decimal_digits (n div 10)"
  by (subst decimal_digits.simps) simp

lemma decimal_digits_not_Nil [simp]: "decimal_digits n \<noteq> []"
  by (subst decimal_digits.simps) simp

lemma length_decimal_digits_1: "length (decimal_digits n) = 1 \<longleftrightarrow> n < 10"
  by (subst decimal_digits.simps) simp

lemma decimal_digits_inject: "decimal_digits m = decimal_digits n \<Longrightarrow> m = n"
proof (induction m arbitrary: n rule: decimal_digits.induct)
  case (1 m)
  have l: "m mod 10 = n mod 10" using arg_cong [OF 1(2), of last] by (simp add: decimal_digits_last)
  show ?case
  proof (cases "m < 10")
    case True
    then have "n < 10" using 1(2) length_decimal_digits_1 by metis
    then show ?thesis using l True by simp
  next
    case False
    then have "\<not> n < 10" using 1(2) length_decimal_digits_1 by metis
    then have "m div 10 = n div 10"
      using 1(1) [OF False, of "n div 10"] arg_cong [OF 1(2), of butlast] False by (simp add: decimal_digits_butlast)
    then show ?thesis using l by (metis div_mult_mod_eq)
  qed
qed

lemma length_decimal_digits: "n < 10 ^ Suc k \<Longrightarrow> length (decimal_digits n) \<le> Suc k"
proof (induction k arbitrary: n)
  case 0
  then show ?case using length_decimal_digits_1 [of n] by simp
next
  case (Suc k)
  show ?case
  proof (cases "n < 10")
    case True
    then show ?thesis using length_decimal_digits_1 [of n] by simp
  next
    case False
    have "n div 10 < 10 ^ Suc k" using Suc.prems by (simp add: less_mult_imp_div_less)
    then have "length (decimal_digits (n div 10)) \<le> Suc k" by (rule Suc.IH)
    then show ?thesis using False by (subst decimal_digits.simps) simp
  qed
qed

lemma length_digits_word: "length (decimal_digits (unat (c :: 64 word))) \<le> 20"
proof -
  have "unat c < 10 ^ Suc 19" using unsigned_less [of c, where 'a = nat] by simp
  then show ?thesis using length_decimal_digits [of "unat c" 19] by simp
qed

definition candidate_text :: "nat \<Rightarrow> ustr" where
  "candidate_text n = BASE_BOUNDARY @ us ''-'' @ decimal_digits n"

lemma base_ascii: "list_all (\<lambda>c. 32 < c \<and> c < 128) BASE_BOUNDARY"
  by (simp add: BASE_BOUNDARY_def)

lemma candidate_ascii: "list_all (\<lambda>c. 32 < c \<and> c < 128) (candidate_text n)"
  using base_ascii decimal_digits_ascii [of n] by (auto simp: candidate_text_def list_all_iff)

lemma candidate_bytes: "as_bytes (candidate_text n) = map of_nat (candidate_text n)"
  using candidate_ascii [of n] by (intro as_bytes_ascii) (auto simp: list_all_iff)

lemma of_nat_byte_inject: "m < 256 \<Longrightarrow> n < 256 \<Longrightarrow> (of_nat m :: byte) = of_nat n \<longleftrightarrow> m = n"
proof -
  assume "m < 256" "n < 256"
  then have "unat (of_nat m :: byte) = m" "unat (of_nat n :: byte) = n" by (simp_all add: unat_of_nat)
  then show ?thesis by metis
qed

lemma candidate_bytes_inject: "as_bytes (candidate_text m) = as_bytes (candidate_text n) \<Longrightarrow> m = n"
proof -
  assume "as_bytes (candidate_text m) = as_bytes (candidate_text n)"
  then have "map (of_nat :: nat \<Rightarrow> byte) (candidate_text m) = map of_nat (candidate_text n)" by (simp add: candidate_bytes)
  moreover have "\<forall>c \<in> set (candidate_text m) \<union> set (candidate_text n). c < 256"
    using candidate_ascii [of m] candidate_ascii [of n] by (auto simp: list_all_iff)
  then have "inj_on (of_nat :: nat \<Rightarrow> byte) (set (candidate_text m) \<union> set (candidate_text n))"
    unfolding inj_on_def by (metis of_nat_byte_inject)
  ultimately have "candidate_text m = candidate_text n" using inj_on_map_eq_map by blast
  then show "m = n" using decimal_digits_inject unfolding candidate_text_def by blast
qed

definition payloads :: "byte list \<Rightarrow> MultipartFile list \<Rightarrow> byte list list" where
  "payloads xml files = xml # map mf_content files"

lemma boundary_taken_iff: "boundary_taken xml files b \<longleftrightarrow> (\<exists>p \<in> set (payloads xml files). contains_bytes p (as_bytes b))"
  by (auto simp: boundary_taken_def payloads_def list_ex_iff)

text \<open>
  A payload of \<open>n\<close> bytes holds at most \<open>20 n\<close> candidates: a candidate in it is determined by the
  place where it starts and the number of its digits.
\<close>

lemma taken_bounded:
  assumes "\<And>k. k \<in> {1..N} \<Longrightarrow> boundary_taken xml files (candidate_text k)"
    and N: "N < 2 ^ 64"
  shows "N \<le> 20 * sum_list (map length (payloads xml files))"
proof -
  let ?ps = "payloads xml files"
  let ?needle = "\<lambda>k. as_bytes (candidate_text k)"
  let ?at = "\<lambda>k ip. fst ip < length ?ps \<and> snd ip < length (?ps ! fst ip) \<and> take (length (?needle k)) (drop (snd ip) (?ps ! fst ip)) = ?needle k"
  have "\<exists>ip. ?at k ip" if k: "k \<in> {1..N}" for k
  proof -
    obtain i j where "i < length ?ps" "j + length (?needle k) \<le> length (?ps ! i)" "take (length (?needle k)) (drop j (?ps ! i)) = ?needle k"
      using assms(1) [OF k] unfolding boundary_taken_iff contains_bytes_iff by (metis in_set_conv_nth)
    moreover have "0 < length (?needle k)" unfolding candidate_bytes by (simp add: candidate_text_def)
    ultimately have "j < length (?ps ! i)" by linarith
    then have "?at k (i, j)" using \<open>i < length ?ps\<close> \<open>take (length (?needle k)) (drop j (?ps ! i)) = ?needle k\<close> by simp
    then show ?thesis by blast
  qed
  then obtain pos where pos: "\<And>k. k \<in> {1..N} \<Longrightarrow> ?at k (pos k)" by metis
  let ?f = "\<lambda>k. (pos k, length (decimal_digits k))"
  let ?box = "(SIGMA i : {..<length ?ps}. {..<length (?ps ! i)}) \<times> {1..20 :: nat}"
  have "?f k \<in> ?box" if k: "k \<in> {1..N}" for k
  proof -
    have "k < 10 ^ Suc 19" using k N by simp
    then have "length (decimal_digits k) \<le> 20" using length_decimal_digits [of k 19] by simp
    moreover have "0 < length (decimal_digits k)" by simp
    ultimately have "length (decimal_digits k) \<in> {1..20}" by (simp add: Suc_le_eq)
    then show ?thesis using pos [OF k] by (cases "pos k") auto
  qed
  moreover have "inj_on ?f {1..N}"
  proof (rule inj_onI)
    fix m n assume mn: "m \<in> {1..N}" "n \<in> {1..N}" "?f m = ?f n"
    then have l: "length (?needle m) = length (?needle n)" unfolding candidate_bytes by (simp add: candidate_text_def)
    have p: "pos m = pos n" using mn(3) by simp
    have "?needle m = take (length (?needle m)) (drop (snd (pos m)) (?ps ! fst (pos m)))" using pos [OF mn(1)] by metis
    also have "\<dots> = take (length (?needle n)) (drop (snd (pos n)) (?ps ! fst (pos n)))" unfolding l p ..
    also have "\<dots> = ?needle n" using pos [OF mn(2)] by blast
    finally show "m = n" by (rule candidate_bytes_inject)
  qed
  moreover have "finite ?box" by simp
  ultimately have "card {1..N} \<le> card ?box" by (intro card_inj_on_le [of ?f] image_subsetI)
  moreover have "card (SIGMA i : {..<length ?ps}. {..<length (?ps ! i)}) = sum_list (map length ?ps)"
    by (simp add: sum_list_sum_nth atLeast0LessThan)
  ultimately show ?thesis by (simp add: card_cartesian_product mult.commute)
qed

lemma boundary_candidate_text: "Suc (unat c) < 2 ^ 64 \<Longrightarrow> boundary_candidate (c + 1) = candidate_text (Suc (unat c))" for c :: "64 word"
  by (simp add: boundary_candidate_def candidate_text_def unat_word_ariths)

lemma loop_finds:
  assumes "\<not> boundary_taken xml files (candidate_text k)" "unat c < k" "k < 2 ^ 64"
  shows "\<exists>b. boundary_loop xml files b0 c = Some b \<and> \<not> boundary_taken xml files b \<and> (b = b0 \<or> (\<exists>m. m < 2 ^ 64 \<and> b = candidate_text m))"
  using assms(2)
proof (induction "k - unat c" arbitrary: b0 c)
  case 0
  then show ?case by simp
next
  case (Suc d)
  have s: "Suc (unat c) < 2 ^ 64" using Suc.prems assms(3) by simp
  then have u: "unat (c + 1) = Suc (unat c)" by (simp add: unat_word_ariths)
  show ?case
  proof (cases "boundary_taken xml files b0")
    case False
    then show ?thesis by (simp add: boundary_loop.simps)
  next
    case True
    then have step: "boundary_loop xml files b0 c = boundary_loop xml files (candidate_text (Suc (unat c))) (c + 1)"
      using boundary_candidate_text [OF s] by (subst boundary_loop.simps) simp
    show ?thesis
    proof (cases "k = Suc (unat c)")
      case True
      then show ?thesis using step assms(1,3) boundary_loop.simps by metis
    next
      case False
      then have "d = k - unat (c + 1)" "unat (c + 1) < k" using Suc u by auto
      from Suc.hyps(1) [OF this, of "candidate_text (Suc (unat c))"] show ?thesis using step s by metis
    qed
  qed
qed

lemma multipart_boundary_ok:
  assumes "20 * sum_list (map length (payloads xml files)) < 2 ^ 64 - 1"
  shows "\<exists>b. multipart_boundary xml files = Some b \<and> \<not> boundary_taken xml files b \<and> (b = BASE_BOUNDARY \<or> (\<exists>m. m < 2 ^ 64 \<and> b = candidate_text m))"
proof -
  let ?N = "Suc (20 * sum_list (map length (payloads xml files)))"
  have "\<exists>k \<in> {1..?N}. \<not> boundary_taken xml files (candidate_text k)"
    using taken_bounded [of ?N xml files] assms by fastforce
  then obtain k where "\<not> boundary_taken xml files (candidate_text k)" "0 < k" "k < 2 ^ 64" using assms by force
  then show ?thesis using loop_finds [of xml files k 0] by (simp add: multipart_boundary_def)
qed

section \<open>Reading a body\<close>

text \<open>A needle and what stands before and after its first occurrence.\<close>

fun split_first :: "'a list \<Rightarrow> 'a list \<Rightarrow> ('a list \<times> 'a list) option" where
  "split_first needle [] = None"
| "split_first needle (x # xs) =
    (if take (length needle) (x # xs) = needle then Some ([], drop (length needle) (x # xs))
     else map_option (\<lambda>(before, after). (x # before, after)) (split_first needle xs))"

lemma split_first_Some: "split_first needle xs = Some (before, after) \<Longrightarrow> xs = before @ needle @ after"
  by (induction needle xs arbitrary: before rule: split_first.induct) (auto split: if_splits, metis append_take_drop_id)

definition delimiter :: "ustr \<Rightarrow> byte list" where
  "delimiter boundary = as_bytes (crlf @ us ''--'' @ boundary)"

definition head_end :: "byte list" where
  "head_end = [CR, LF, CR, LF]"

lemma length_delimiter: "0 < length (delimiter boundary)"
  by (simp add: delimiter_def crlf_def as_bytes_def utf8_char_def)

text \<open>The parts after a delimiter: header lines, an empty line, the content up to the next delimiter.\<close>

function read_parts :: "ustr \<Rightarrow> byte list \<Rightarrow> (byte list \<times> byte list) list option" where
  "read_parts boundary body =
    (if take 2 body = as_bytes (us ''--'') then Some []
     else case split_first head_end body of
       None \<Rightarrow> None
     | Some (head, rest) \<Rightarrow> (case split_first (delimiter boundary) rest of
         None \<Rightarrow> None
       | Some (content, following) \<Rightarrow> map_option (Cons (head, content)) (read_parts boundary following)))"
  by pat_completeness auto
termination
  by (relation "measure (\<lambda>(boundary, body). length body)")
    (auto dest!: split_first_Some simp: length_delimiter trans_less_add2 head_end_def)

declare read_parts.simps [simp del]

definition read_body :: "ustr \<Rightarrow> byte list \<Rightarrow> (byte list \<times> byte list) list option" where
  "read_body boundary body =
    (let opening = as_bytes (us ''--'' @ boundary) in
     if take (length opening) body = opening then read_parts boundary (drop (length opening) body) else None)"

lemma split_first_skip:
  assumes "x \<notin> set pre" shows "split_first (x # n) (pre @ xs) = map_option (\<lambda>(before, after). (pre @ before, after)) (split_first (x # n) xs)"
  using assms
proof (induction pre)
  case Nil
  then show ?case by (cases "split_first (x # n) xs") auto
next
  case (Cons a pre)
  then have "take (length (x # n)) (a # pre @ xs) \<noteq> x # n" by auto
  then show ?case using Cons by (cases "split_first (x # n) xs") auto
qed

text \<open>
  A needle that starts with a byte it holds only once is first found after a content in which its tail does
  not occur, whatever the content is.
\<close>

lemma split_first_content:
  assumes "x \<notin> set n" "\<not> sublist m c" "\<exists>l. n = l @ m"
  shows "split_first (x # n) (c @ (x # n) @ rest) = Some (c, rest)"
  using assms(2)
proof (induction c)
  case Nil
  then show ?case by simp
next
  case (Cons a c)
  have "take (length (x # n)) ((a # c) @ (x # n) @ rest) \<noteq> x # n"
  proof
    assume eq: "take (length (x # n)) ((a # c) @ (x # n) @ rest) = x # n"
    show False
    proof (cases "length (x # n) \<le> length (a # c)")
      case True
      then have "take (length (x # n)) (a # c) = x # n" using eq by simp
      then have "sublist (x # n) (a # c)" by (metis sublist_take)
      moreover have "sublist m (x # n)" using assms(3) by (metis Cons_eq_append_conv append.assoc append_Cons sublist_appendI append.right_neutral)
      ultimately show False using Cons.prems sublist_order.order_trans by blast
    next
      case False
      then have l: "length (a # c) < length (x # n)" by simp
      then have "(x # n) ! length (a # c) = ((a # c) @ (x # n) @ rest) ! length (a # c)" using eq by (metis nth_take)
      also have "\<dots> = x" by (simp add: nth_append)
      finally have "n ! length c = x" by simp
      moreover have "length c < length n" using l by simp
      ultimately show False using assms(1) nth_mem by blast
    qed
  qed
  moreover have "\<not> sublist m c" using Cons.prems by (simp add: sublist_Cons_right)
  ultimately show ?case using Cons.IH by simp
qed

lemma as_bytes_CR: "CR \<in> set (as_bytes s) \<longleftrightarrow> 13 \<in> set s"
proof -
  have "CR \<in> set (map of_nat (utf8_char c)) \<longleftrightarrow> c = 13" for c
  proof -
    have "n < 256" if "n \<in> set (utf8_char c)" for n
    proof -
      have "c div 64 < 32" if "c < 2048" using that by (simp add: less_mult_imp_div_less)
      moreover have "c div 4096 < 16" if "c < 65536" using that by (simp add: less_mult_imp_div_less)
      moreover have "k mod 64 < 64" "k mod 8 < 8" for k :: nat by simp_all
      ultimately show ?thesis using that by (auto simp: utf8_char_def split: if_splits intro: less_le_trans)
    qed
    then have "CR \<in> set (map of_nat (utf8_char c)) \<longleftrightarrow> 13 \<in> set (utf8_char c)"
      using of_nat_byte_inject [of _ 13] by force
    also have "\<dots> \<longleftrightarrow> c = 13" by (auto simp: utf8_char_def)
    finally show ?thesis .
  qed
  then show ?thesis by (induction s) (auto simp: as_bytes_def)
qed

text \<open>The head of a part: its two header lines, after the line break that ends the delimiter.\<close>

definition part_head :: "ustr \<Rightarrow> ustr \<Rightarrow> byte list" where
  "part_head disp content_type = as_bytes (crlf @ disp @ crlf @ us ''Content-Type: '' @ content_type)"

lemma crlf_bytes [simp]: "as_bytes crlf = [CR, LF]"
  by (simp add: crlf_def as_bytes_def utf8_char_def)

lemma split_first_lines:
  assumes "CR \<notin> set d" "d \<noteq> []" "CR \<notin> set t" "t \<noteq> []"
  shows "split_first head_end ([CR, LF] @ d @ [CR, LF] @ t @ [CR, LF, CR, LF] @ rest) = Some ([CR, LF] @ d @ [CR, LF] @ t, rest)"
proof -
  obtain a d' where d: "d = a # d'" "a \<noteq> CR" using assms by (cases d) auto
  obtain b t' where t: "t = b # t'" "b \<noteq> CR" using assms by (cases t) auto
  have h: "head_end = CR # [LF, CR, LF]" by (simp add: head_end_def)
  have "split_first head_end ([CR, LF] @ d @ xs) = map_option (\<lambda>(before, after). ([CR, LF] @ d @ before, after)) (split_first head_end xs)" for xs
    using split_first_skip [of CR d] assms(1) d by (cases "split_first head_end xs") (auto simp: h)
  moreover have "split_first head_end ([CR, LF] @ t @ [CR, LF, CR, LF] @ rest) = Some ([CR, LF] @ t, rest)"
    using split_first_skip [of CR t] assms(3) t by (auto simp: h)
  ultimately show ?thesis by (simp only:) simp
qed

lemma split_first_part_head:
  assumes "13 \<notin> set disp" "disp \<noteq> []" "13 \<notin> set content_type"
  shows "split_first head_end (part_head disp content_type @ [CR, LF, CR, LF] @ rest) = Some (part_head disp content_type, rest)"
proof -
  have b: "as_bytes s \<noteq> []" if "s \<noteq> []" for s
    using that by (cases s) (auto simp: as_bytes_def utf8_char_def)
  have "13 \<notin> set (us ''Content-Type: '' @ content_type)" using assms by simp
  then show ?thesis
    using split_first_lines [of "as_bytes disp" "as_bytes (us ''Content-Type: '' @ content_type)" rest] assms(1,2) b [of disp]
      b [of "us ''Content-Type: '' @ content_type"]
    unfolding part_head_def as_bytes_simps(2) [of crlf] as_bytes_simps(2) [of disp] as_bytes_CR crlf_bytes by simp
qed

definition part_of_file :: "MultipartFile \<Rightarrow> byte list \<times> byte list" where
  "part_of_file file =
    (part_head (disposition (disposition_value (mf_name file)) (disposition_value (mf_filename file)))
       (remove_breaks (mf_content_type file)), mf_content file)"

definition clean_boundary :: "ustr \<Rightarrow> bool" where
  "clean_boundary boundary \<longleftrightarrow> 13 \<notin> set boundary"

lemma no_breaks:
  "13 \<notin> set (remove_breaks v)"
  "13 \<notin> set (disposition_value v)"
  by (auto simp: remove_breaks_def disposition_value_def replace_char_def)

lemma disposition_simps [simp]:
  "13 \<in> set (disposition name filename) \<longleftrightarrow> 13 \<in> set name \<or> 13 \<in> set filename"
  "disposition name filename \<noteq> []"
  by (auto simp: disposition_def)

lemma multipart_file_head:
  "multipart_file boundary file = delimiter boundary @ fst (part_of_file file) @ [CR, LF, CR, LF] @ snd (part_of_file file)"
  by (simp add: multipart_file_def part_of_file_def part_head_def delimiter_def del: us_Cons)

lemma split_first_delimiter:
  assumes "clean_boundary boundary" "\<not> contains_bytes content (as_bytes boundary)"
  shows "split_first (delimiter boundary) (content @ delimiter boundary @ rest) = Some (content, rest)"
proof -
  let ?n = "LF # as_bytes (us ''--'' @ boundary)"
  have d: "delimiter boundary = CR # ?n" by (simp add: delimiter_def del: us_Cons)
  have "13 \<notin> set (us ''--'' @ boundary)" using assms(1) by (simp add: clean_boundary_def)
  then have "CR \<notin> set ?n" unfolding as_bytes_CR [symmetric] by auto
  moreover have "?n = (LF # as_bytes (us ''--'')) @ as_bytes boundary" by (simp del: us_Cons)
  ultimately show ?thesis
    using split_first_content [of CR ?n "as_bytes boundary" content rest] assms(2) unfolding contains_bytes_sublist d by blast
qed

lemma read_parts_part:
  assumes "clean_boundary boundary" "\<not> contains_bytes content (as_bytes boundary)"
    and "13 \<notin> set disp" "disp \<noteq> []" "13 \<notin> set content_type"
  shows "read_parts boundary (part_head disp content_type @ [CR, LF, CR, LF] @ content @ delimiter boundary @ rest) =
    map_option (Cons (part_head disp content_type, content)) (read_parts boundary rest)"
proof -
  have "take 2 (part_head disp content_type @ xs) = [CR, LF]" for xs by (simp add: part_head_def del: us_Cons)
  then have "take 2 (part_head disp content_type @ xs) \<noteq> as_bytes (us ''--'')" for xs by (simp add: as_bytes_def utf8_char_def)
  then show ?thesis
    using split_first_part_head [OF assms(3-5)] split_first_delimiter [OF assms(1,2)] by (subst read_parts.simps) simp
qed

lemma read_parts_end: "read_parts boundary (as_bytes (us ''--'') @ rest) = Some []"
  by (subst read_parts.simps) (simp add: as_bytes_def utf8_char_def)

lemma read_parts_files:
  assumes "clean_boundary boundary" "list_all (\<lambda>f. \<not> contains_bytes (mf_content f) (as_bytes boundary)) files"
    and "13 \<notin> set disp" "disp \<noteq> []" "13 \<notin> set content_type" "\<not> contains_bytes content (as_bytes boundary)"
  shows "read_parts boundary (part_head disp content_type @ [CR, LF, CR, LF] @ content @ concat (map (multipart_file boundary) files)
      @ delimiter boundary @ as_bytes (us ''--'' @ crlf)) =
    Some ((part_head disp content_type, content) # map part_of_file files)"
  using assms(2-6)
proof (induction files arbitrary: disp content_type content)
  case Nil
  then show ?case using read_parts_part [OF assms(1), of content disp content_type "as_bytes (us ''--'' @ crlf)"] read_parts_end [of boundary "as_bytes crlf"]
    by (simp del: us_Cons)
next
  case (Cons f files)
  let ?d = "disposition (disposition_value (mf_name f)) (disposition_value (mf_filename f))"
  let ?t = "remove_breaks (mf_content_type f)"
  have "read_parts boundary (part_head ?d ?t @ [CR, LF, CR, LF] @ mf_content f @ concat (map (multipart_file boundary) files)
      @ delimiter boundary @ as_bytes (us ''--'' @ crlf)) = Some ((part_head ?d ?t, mf_content f) # map part_of_file files)"
    using Cons.prems(1) no_breaks by (intro Cons.IH) auto
  then show ?case
    using read_parts_part [OF assms(1) Cons.prems(5,2,3,4)] unfolding list.map concat.simps multipart_file_head
    by (simp add: part_of_file_def del: us_Cons)
qed

lemma multipart_body_read:
  assumes "clean_boundary boundary" "\<not> boundary_taken xml files boundary" "13 \<notin> set action"
  shows "read_body boundary (multipart_body boundary action xml files) =
    Some ((part_head (disposition action action) (us ''text/xml''), xml) # map part_of_file files)"
proof -
  let ?open = "as_bytes (us ''--'' @ boundary)"
  let ?rest = "part_head (disposition action action) (us ''text/xml'') @ [CR, LF, CR, LF] @ xml
      @ concat (map (multipart_file boundary) files) @ delimiter boundary @ as_bytes (us ''--'' @ crlf)"
  have t: "us ''Content-Type: text/xml'' = us ''Content-Type: '' @ us ''text/xml''" by simp
  have "multipart_body boundary action xml files = ?open @ ?rest"
    unfolding multipart_body_def part_head_def delimiter_def t by (simp del: us_Cons)
  moreover have "read_parts boundary ?rest = Some ((part_head (disposition action action) (us ''text/xml''), xml) # map part_of_file files)"
    using assms by (intro read_parts_files) (auto simp: boundary_taken_def list_ex_iff list_all_iff)
  ultimately show ?thesis by (simp add: read_body_def Let_def del: us_Cons as_bytes_simps)
qed

text \<open>(C30) For payloads of less than 9*10^17 bytes in all, the search for a boundary ends (its counter cannot
  wrap), the boundary it finds is at most 70 characters long and occurs neither in the XML nor in
  an attachment, and the body it frames reads back as exactly the XML part and one part for every file, in
  order, with its content byte for byte: no content, file name or content type can end a part early,
  start another or add a header line.
\<close>

theorem multipart_reads_back:
  assumes "sum_list (map length (xml # map mf_content files)) < 9 * 10 ^ 17" "13 \<notin> set action"
  shows "\<exists>boundary request. multipart action xml files = Some request \<and>
    wr_content_type request = us ''multipart/form-data; boundary='' @ boundary \<and> length boundary \<le> 70 \<and>
    \<not> contains_bytes xml (as_bytes boundary) \<and> list_all (\<lambda>file. \<not> contains_bytes (mf_content file) (as_bytes boundary)) files \<and>
    read_body boundary (wr_body request) =
      Some ((part_head (disposition action action) (us ''text/xml''), xml) # map part_of_file files)"
proof -
  have "20 * sum_list (map length (payloads xml files)) < 2 ^ 64 - 1" using assms(1) by (simp add: payloads_def)
  then obtain b where b: "multipart_boundary xml files = Some b" "\<not> boundary_taken xml files b"
      "b = BASE_BOUNDARY \<or> (\<exists>m. m < 2 ^ 64 \<and> b = candidate_text m)"
    using multipart_boundary_ok by blast
  have "list_all (\<lambda>c. 32 < c \<and> c < 128) b" using b(3) base_ascii candidate_ascii by blast
  then have clean: "clean_boundary b" by (auto simp: clean_boundary_def list_all_iff)
  have base: "length BASE_BOUNDARY = 31" by (simp add: BASE_BOUNDARY_def)
  have "length b \<le> 70" using b(3)
  proof
    assume "\<exists>m. m < 2 ^ 64 \<and> b = candidate_text m"
    then obtain m where m: "m < 2 ^ 64" "b = candidate_text m" by blast
    then have "length (decimal_digits m) \<le> 20" using length_decimal_digits [of m 19] by simp
    then show ?thesis by (simp add: m(2) candidate_text_def base)
  qed (simp add: base)
  then show ?thesis using b(1,2) multipart_body_read [OF clean b(2) assms(2)]
    by (auto simp: multipart_def boundary_taken_def list_ex_iff list_all_iff)
qed

definition ex_file :: MultipartFile where
  "ex_file = \<lparr> mf_name = us ''attachfile1'', mf_filename = us ''x.txt'', mf_content_type = us ''text/plain'',
     mf_content = as_bytes BASE_BOUNDARY \<rparr>"

theorem multipart_reads_back_witness:
  "\<exists>boundary request. multipart (us ''action-szamla_agent_st'') (as_bytes (us ''<x/>'')) [ex_file] = Some request \<and>
    \<not> contains_bytes (mf_content ex_file) (as_bytes boundary) \<and>
    read_body boundary (wr_body request) =
      Some [(part_head (disposition (us ''action-szamla_agent_st'') (us ''action-szamla_agent_st'')) (us ''text/xml''),
        as_bytes (us ''<x/>'')), part_of_file ex_file]"
proof -
  have "length (as_bytes BASE_BOUNDARY) = 31"
    using base_ascii by (subst as_bytes_ascii) (auto simp: list_all_iff, simp add: BASE_BOUNDARY_def)
  moreover have "length (as_bytes (us ''<x/>'')) = 4" by (simp add: as_bytes_def utf8_char_def)
  ultimately have size: "sum_list (map length (as_bytes (us ''<x/>'') # map mf_content [ex_file])) < 9 * 10 ^ 17"
    unfolding ex_file_def by simp
  have action: "13 \<notin> set (us ''action-szamla_agent_st'')" by simp
  from multipart_reads_back [OF size action] show ?thesis by (simp del: us_Cons) blast
qed

text \<open>The search for a boundary returns.  The source loops without a bound over the candidates
  \<open>base-1\<close>, \<open>base-2\<close>, \<dots>, and the model of that loop may be undefined; for payloads of fewer than
  about \<open>9 * 10 ^ 17\<close> bytes it is not: a candidate is found before the counter wraps, and it
  occurs in no payload.\<close>

theorem boundary_search_returns:
  assumes "20 * sum_list (map length (payloads xml files)) < 2 ^ 64 - 1"
  shows "\<exists>boundary. multipart_boundary xml files = Some boundary \<and> \<not> boundary_taken xml files boundary"
  using multipart_boundary_ok [OF assms] by blast

theorem boundary_search_returns_witness:
  "boundary_taken (as_bytes (us ''<x/>'')) [ex_file] BASE_BOUNDARY \<and>
   (\<exists>boundary. multipart_boundary (as_bytes (us ''<x/>'')) [ex_file] = Some boundary \<and>
      \<not> boundary_taken (as_bytes (us ''<x/>'')) [ex_file] boundary)"
proof (rule conjI)
  have base: "length (as_bytes BASE_BOUNDARY) = 31"
    using base_ascii by (subst as_bytes_ascii) (auto simp: list_all_iff, simp add: BASE_BOUNDARY_def)
  have xml: "length (as_bytes (us ''<x/>'')) = 4" by (simp add: as_bytes_def utf8_char_def)
  have size: "20 * sum_list (map length (payloads (as_bytes (us ''<x/>'')) [ex_file])) < 2 ^ 64 - 1"
    using base xml unfolding ex_file_def by (simp add: payloads_def del: us_Cons)
  show "\<exists>boundary. multipart_boundary (as_bytes (us ''<x/>'')) [ex_file] = Some boundary \<and>
      \<not> boundary_taken (as_bytes (us ''<x/>'')) [ex_file] boundary"
    by (rule boundary_search_returns [OF size])
  show "boundary_taken (as_bytes (us ''<x/>'')) [ex_file] BASE_BOUNDARY"
    unfolding ex_file_def by (simp add: boundary_taken_def contains_bytes_sublist del: us_Cons)
qed

end
