(* ===== verification/Documents.thy ===== *)
theory Documents
  imports Multipart
begin

text \<open>
  The worker's projections of a szamlazz.hu document (\<open>gateway/document.rs\<close>), the answers the
  gateway keeps of an error code (\<open>SzamlazzAnswer\<close>, \<open>Rejection\<close> of \<open>gateway.rs\<close>), the
  allowlisted diagnostics of \<open>gateway/diagnostic.rs\<close>, and the parts of the Agent's replies
  (\<open>CreatedInvoice\<close>, \<open>CreationOutcome\<close>, \<open>StornoResponse\<close>, \<open>InvoiceDocument\<close>) the worker reads.

  Decimals are carried as the Agent read them; the one comparison made here is of their value.
  An \<open>i64\<close> that is only compared and copied is an \<open>int\<close>.
\<close>

section \<open>Appearance\<close>

datatype InvoiceAppearance = IA_NotInvoice | IA_Paper | IA_Electronic int | IA_Unknown int

primrec InvoiceAppearance_code :: "InvoiceAppearance \<Rightarrow> int" where
  "InvoiceAppearance_code IA_NotInvoice = 0"
| "InvoiceAppearance_code IA_Paper = 1"
| "InvoiceAppearance_code (IA_Electronic code) = code"
| "InvoiceAppearance_code (IA_Unknown code) = code"

definition InvoiceAppearance_from :: "int \<Rightarrow> InvoiceAppearance" where
  "InvoiceAppearance_from code =
    (if code = 0 then IA_NotInvoice else if code = 1 then IA_Paper
     else if code = 2 \<or> code = 3 then IA_Electronic code else IA_Unknown code)"

lemma InvoiceAppearance_code_from [simp]: "InvoiceAppearance_code (InvoiceAppearance_from c) = c"
  by (simp add: InvoiceAppearance_from_def)

section \<open>The Agent's replies\<close>

record QueriedCreditEntry =
  qce_date :: Date
  qce_title :: PaymentMethod
  qce_amount :: Decimal
  qce_comment :: "ustr option"
  qce_bank_account :: "ustr option"

record InvoiceInfo =
  info_id :: int
  info_invoice_number :: ustr
  info_document_type :: DocumentType
  info_order_number :: "ustr option"
  info_reversed :: "bool option"
  info_referenced_invoice_number :: "ustr option"
  info_referenced_proforma_number :: "ustr option"
  info_appearance :: InvoiceAppearance
  info_issue_date :: "Date option"
  info_fulfillment_date :: "Date option"
  info_due_date :: "Date option"
  info_currency :: "Currency option"
  info_test :: "bool option"

record BuyerInfo =
  bi_name :: ustr
  bi_tax_number :: "ustr option"
  bi_eu_tax_number :: "ustr option"

record VatRateTotal =
  vrt_vat_type :: "ustr option"
  vrt_vat_rate_code :: ustr
  vrt_net :: Decimal
  vrt_vat :: Decimal
  vrt_gross :: Decimal

record InvoiceDocument =
  doc_info :: InvoiceInfo
  doc_buyer :: BuyerInfo
  doc_by_vat_rate :: "VatRateTotal list"
  doc_total_net :: Decimal
  doc_total_vat :: Decimal
  doc_total_gross :: Decimal
  doc_credit_entries :: "QueriedCreditEntry list"

record CreatedInvoice =
  cr_invoice_number :: ustr
  cr_document_id :: "int option"
  cr_net_total :: "Decimal option"
  cr_gross_total :: "Decimal option"
  cr_outstanding :: "Decimal option"
  cr_customer_account_url :: "ustr option"
  cr_notification_delivery_failed :: bool

definition reverses :: "CreatedInvoice \<Rightarrow> ustr \<Rightarrow> bool" where
  "reverses created original \<longleftrightarrow> cr_invoice_number created \<noteq> original
     \<and> (case cr_gross_total created of Some gross \<Rightarrow> value_of gross \<le> 0 | None \<Rightarrow> False)"

datatype CreationOutcome = CO_Issued CreatedInvoice | CO_Preview

datatype StornoResponse = SR_Numbered CreatedInvoice | SR_Unnumbered

section \<open>Found documents\<close>

record RecordedCreditEntry =
  ce_date :: "Date option"
  ce_title :: "ustr option"
  ce_amount :: Decimal
  ce_comment :: "ustr option"
  ce_bank_account :: "ustr option"

record FoundDocument =
  document_id :: int
  number :: ustr
  document_type :: DocumentType
  order_number :: "ustr option"
  reversed :: "bool option"
  referenced_invoice_number :: "ustr option"
  referenced_proforma_number :: "ustr option"
  appearance :: int
  issue_date :: "Date option"
  fulfillment_date :: "Date option"
  due_date :: "Date option"
  currency :: "ustr option"
  test_account :: "bool option"
  net_total :: Decimal
  vat_total :: Decimal
  gross_total :: Decimal
  credit_entries :: "RecordedCreditEntry list"

record ReportedDocument =
  rep_number :: ustr
  rep_document_id :: "int option"

definition ReportedDocument_from :: "FoundDocument \<Rightarrow> ReportedDocument" where
  "ReportedDocument_from found = \<lparr> rep_number = number found, rep_document_id = Some (document_id found) \<rparr>"

definition validate_identity :: "ustr \<Rightarrow> ustr option \<Rightarrow> (unit, ustr) result" where
  "validate_identity num expected =
    (if trim num = [] then Err (msg ''query: missing document number'')
     else if (case expected of Some e \<Rightarrow> e \<noteq> num | None \<Rightarrow> False)
       then Err (msg ''query: document number differs from the requested number'')
     else Ok ())"

definition is_live :: "FoundDocument \<Rightarrow> bool" where
  "is_live found \<longleftrightarrow> reversed found \<noteq> Some True"

definition is_storno_of :: "FoundDocument \<Rightarrow> ustr \<Rightarrow> bool" where
  "is_storno_of found num \<longleftrightarrow> trim (number found) \<noteq> [] \<and> number found \<noteq> num
     \<and> document_type found = DT_Storno \<and> referenced_invoice_number found = Some num"

definition is_corrective_of :: "FoundDocument \<Rightarrow> ustr \<Rightarrow> bool" where
  "is_corrective_of found num \<longleftrightarrow>
     document_type found = DT_Corrective \<and> referenced_invoice_number found = Some num"

definition is_invoice_family :: "FoundDocument \<Rightarrow> bool" where
  "is_invoice_family found \<longleftrightarrow> document_type found \<in> {DT_Invoice, DT_Prepayment, DT_Final}"

definition is_stornoable :: "FoundDocument \<Rightarrow> bool" where
  "is_stornoable found \<longleftrightarrow> document_type found \<in> {DT_Invoice, DT_Prepayment, DT_Final, DT_Corrective}"

definition e_invoice :: "FoundDocument \<Rightarrow> bool option" where
  "e_invoice found = (case InvoiceAppearance_from (appearance found) of
     IA_Paper \<Rightarrow> Some False | IA_Electronic c \<Rightarrow> Some True | _ \<Rightarrow> None)"

definition credit_entry_amounts :: "FoundDocument \<Rightarrow> Decimal list" where
  "credit_entry_amounts found = map ce_amount (credit_entries found)"

definition carries_order :: "FoundDocument \<Rightarrow> OrderKey \<Rightarrow> bool" where
  "carries_order found order \<longleftrightarrow> order_number found = Some (order_str order)"

definition is_ours :: "FoundDocument \<Rightarrow> OrderKey \<Rightarrow> IssuedKind \<Rightarrow> bool" where
  "is_ours found order kind \<longleftrightarrow>
     carries_order found order \<and> document_type found = IssuedKind_document_type kind"

definition RecordedCreditEntry_from :: "QueriedCreditEntry \<Rightarrow> RecordedCreditEntry" where
  "RecordedCreditEntry_from entry =
    \<lparr> ce_date = Some (qce_date entry), ce_title = Some (PaymentMethod_as_wire (qce_title entry)), ce_amount = qce_amount entry,
      ce_comment = qce_comment entry, ce_bank_account = qce_bank_account entry \<rparr>"

text \<open>\<open>as_deref().map(trim).filter(nonempty)\<close> of the order number.\<close>

definition trimmed_order :: "ustr option \<Rightarrow> ustr option" where
  "trimmed_order num = (case num of Some s \<Rightarrow> (if trim s = [] then None else Some (trim s)) | None \<Rightarrow> None)"

definition FoundDocument_from :: "InvoiceDocument \<Rightarrow> FoundDocument" where
  "FoundDocument_from d = (let info = doc_info d in
    \<lparr> document_id = info_id info, number = info_invoice_number info,
      document_type = info_document_type info, order_number = trimmed_order (info_order_number info),
      reversed = info_reversed info,
      referenced_invoice_number = info_referenced_invoice_number info,
      referenced_proforma_number = info_referenced_proforma_number info,
      appearance = InvoiceAppearance_code (info_appearance info),
      issue_date = info_issue_date info, fulfillment_date = info_fulfillment_date info,
      due_date = info_due_date info, currency = map_option currency_str (info_currency info), test_account = info_test info,
      net_total = doc_total_net d, vat_total = doc_total_vat d, gross_total = doc_total_gross d,
      credit_entries = map RecordedCreditEntry_from (doc_credit_entries d) \<rparr>)"

record IssuedDocument =
  iss_number :: ustr
  iss_document_id :: "int option"
  iss_net_total :: "Decimal option"
  iss_gross_total :: "Decimal option"
  iss_outstanding :: "Decimal option"
  iss_customer_account_url :: "ustr option"
  iss_notification_delivery_failed :: bool

definition IssuedDocument_from :: "CreatedInvoice \<Rightarrow> IssuedDocument" where
  "IssuedDocument_from c =
    \<lparr> iss_number = cr_invoice_number c, iss_document_id = cr_document_id c,
      iss_net_total = cr_net_total c, iss_gross_total = cr_gross_total c,
      iss_outstanding = cr_outstanding c, iss_customer_account_url = cr_customer_account_url c,
      iss_notification_delivery_failed = cr_notification_delivery_failed c \<rparr>"

section \<open>Answers and refusals\<close>

definition credential_message :: "ustr \<Rightarrow> ustr option" where
  "credential_message code = (case ErrorCode_from code of
     EC_InvalidCredentials \<Rightarrow> Some (msg ''credentials rejected: invalid credentials'')
   | EC_BrowserSessionActive \<Rightarrow> Some (msg ''credentials rejected: browser session active'')
   | EC_LoginBlocked \<Rightarrow> Some (msg ''credentials rejected: login blocked'')
   | EC_MultipleAccounts \<Rightarrow> Some (msg ''credentials rejected: multiple-account access'')
   | _ \<Rightarrow> None)"

record SzamlazzAnswer =
  ans_code :: ustr
  ans_message :: ustr

definition SzamlazzAnswer_new :: "ustr \<Rightarrow> ustr \<Rightarrow> SzamlazzAnswer" where
  "SzamlazzAnswer_new code message =
    \<lparr> ans_code = code,
      ans_message = (case credential_message code of Some static \<Rightarrow> static | None \<Rightarrow> message) \<rparr>"

definition SzamlazzAnswer_from :: "ApiError \<Rightarrow> SzamlazzAnswer" where
  "SzamlazzAnswer_from api = SzamlazzAnswer_new (ErrorCode_display (api_code api)) (api_message api)"

definition SzamlazzAnswer_display :: "SzamlazzAnswer \<Rightarrow> ustr" where
  "SzamlazzAnswer_display a = ans_code a @ us '': '' @ ans_message a"

datatype RejectionCode = RC_Szamlazz ustr | RC_Request

definition REQUEST :: ustr where
  "REQUEST = us ''request''"

primrec RejectionCode_as_str :: "RejectionCode \<Rightarrow> ustr" where
  "RejectionCode_as_str (RC_Szamlazz code) = code"
| "RejectionCode_as_str RC_Request = REQUEST"

definition RejectionCode_arms :: "(ustr \<times> RejectionCode) list" where
  "RejectionCode_arms = [(REQUEST, RC_Request)]"

definition RejectionCode_deserialize :: "ustr \<Rightarrow> RejectionCode" where
  "RejectionCode_deserialize code = match_token RejectionCode_arms RC_Szamlazz code"

record Rejection =
  rej_code :: RejectionCode
  rej_message :: ustr

definition Rejection_request :: "ustr \<Rightarrow> Rejection" where
  "Rejection_request message = \<lparr> rej_code = RC_Request, rej_message = message \<rparr>"

definition Rejection_from_answer :: "SzamlazzAnswer \<Rightarrow> Rejection" where
  "Rejection_from_answer a = \<lparr> rej_code = RC_Szamlazz (ans_code a), rej_message = ans_message a \<rparr>"

definition Rejection_from :: "ApiError \<Rightarrow> Rejection" where
  "Rejection_from api = Rejection_from_answer (SzamlazzAnswer_from api)"

section \<open>Exchanges without an answer\<close>

datatype Unanswered = UA_Transport ustr | UA_Unavailable ustr

primrec Unanswered_display :: "Unanswered \<Rightarrow> ustr" where
  "Unanswered_display (UA_Transport m) = msg ''transport failure: '' @ m"
| "Unanswered_display (UA_Unavailable m) = msg ''szamlazz.hu is unavailable: '' @ m"

definition transport_category :: "TransportError \<Rightarrow> ustr" where
  "transport_category t =
    (if te_is_timeout t then msg ''timeout''
     else if te_is_connect t then msg ''connection''
     else if te_is_redirect t then msg ''redirect''
     else if te_is_body t then msg ''body transfer''
     else if te_is_decode t then msg ''decoding''
     else if te_is_builder t then msg ''request construction''
     else if te_is_request t then msg ''request exchange''
     else msg ''unclassified'')"

primrec parse_category :: "ParseError \<Rightarrow> ustr" where
  "parse_category PE_Xml = msg ''parse: invalid XML''"
| "parse_category (PE_Missing f) = msg ''parse: missing response field''"
| "parse_category (PE_Invalid f m) = msg ''parse: invalid response value''"
| "parse_category (PE_Base64 m) = msg ''parse: invalid base64''"
| "parse_category (PE_UnexpectedBody b) = msg ''parse: unexpected response body''"

definition exchange :: "ustr \<Rightarrow> ClientError \<Rightarrow> Unanswered" where
  "exchange operation e = (case e of
     CE_ServiceUnavailable m \<Rightarrow> UA_Unavailable (operation @ msg '': szlahu_down'')
   | CE_HttpStatus status body \<Rightarrow>
       UA_Transport (operation @ msg '': HTTP '' @ decimal_digits (unat status))
   | CE_Request r \<Rightarrow> UA_Transport (operation @ us '': '' @ msg ''local request validation failed'')
   | CE_Parse p \<Rightarrow> UA_Transport (operation @ us '': '' @ parse_category p)
   | CE_Transport t \<Rightarrow>
       UA_Transport (operation @ msg '': transport: '' @ transport_category t
         @ (case te_status t of Some s \<Rightarrow> msg ''; HTTP '' @ decimal_digits (unat s) | None \<Rightarrow> []))
   | _ \<Rightarrow> UA_Transport (operation @ us '': '' @ msg ''unclassified exchange failure''))"

section \<open>Lemmas\<close>

lemmas document_preds =
  is_live_def is_storno_of_def is_corrective_of_def is_invoice_family_def is_stornoable_def
  carries_order_def is_ours_def

interpretation rejection_code: open_tokens RejectionCode_arms RC_Szamlazz RejectionCode_as_str
proof unfold_locales
  show "v \<in> snd ` set RejectionCode_arms \<or> (\<exists>s. v = RC_Szamlazz s)" for v
    by (cases v) (simp_all add: RejectionCode_arms_def)
qed (simp_all add: RejectionCode_arms_def)

lemma ErrorCode_from_display_known:
  "known c = Some e \<Longrightarrow> ErrorCode_from (ErrorCode_display e) = e"
  using ErrorCode_from_named [of c e] known_Some_code [of c e]
  by (auto simp: ErrorCode_display_def dest: arg_cong [where f = length])

lemma credential_known: "is_credential_error e \<Longrightarrow> \<exists>c. known c = Some e"
proof -
  assume "is_credential_error e"
  moreover have "known 3 = Some EC_InvalidCredentials" "known 135 = Some EC_BrowserSessionActive"
    "known 136 = Some EC_LoginBlocked" "known 164 = Some EC_MultipleAccounts"
    by (simp_all add: known_def known_codes_def)
  ultimately show ?thesis
    unfolding is_credential_error_def by blast
qed

lemma credential_message_iff:
  "credential_message code \<noteq> None \<longleftrightarrow> is_credential_error (ErrorCode_from code)"
  by (cases "ErrorCode_from code") (simp_all add: credential_message_def is_credential_error_def)

text \<open>Whatever szamlazz.hu writes beside a credential refusal, the worker keeps a static
  description that depends on the code alone, so an echoed credential cannot reach a journal
  or a fault; every other answer keeps its message verbatim.\<close>

theorem credential_answer_is_static:
  "(is_credential_error (api_code api) \<longrightarrow>
     SzamlazzAnswer_from api = SzamlazzAnswer_from (api\<lparr>api_message := other\<rparr>)) \<and>
   (\<not> is_credential_error (ErrorCode_from code) \<longrightarrow> ans_message (SzamlazzAnswer_new code m) = m)"
proof (intro conjI impI)
  assume "is_credential_error (api_code api)"
  then have "is_credential_error (ErrorCode_from (ErrorCode_display (api_code api)))"
    using credential_known ErrorCode_from_display_known by metis
  then show "SzamlazzAnswer_from api = SzamlazzAnswer_from (api\<lparr>api_message := other\<rparr>)"
    unfolding credential_message_iff [symmetric]
    by (auto simp: SzamlazzAnswer_from_def SzamlazzAnswer_new_def)
next
  assume "\<not> is_credential_error (ErrorCode_from code)"
  then show "ans_message (SzamlazzAnswer_new code m) = m"
    unfolding credential_message_iff [symmetric] by (simp add: SzamlazzAnswer_new_def)
qed

theorem credential_answer_is_static_witness:
  "ans_message (SzamlazzAnswer_from \<lparr>api_code = EC_LoginBlocked, api_message = us ''key=abc''\<rparr>) =
   ans_message (SzamlazzAnswer_from \<lparr>api_code = EC_LoginBlocked, api_message = []\<rparr>)"
  using credential_answer_is_static
    [of "\<lparr>api_code = EC_LoginBlocked, api_message = us ''key=abc''\<rparr>" "[]"]
  by (simp add: is_credential_error_def)

text \<open>A client error with every text of the remote side erased.\<close>

definition redact_parse :: "ParseError \<Rightarrow> ParseError" where
  "redact_parse p = (case p of PE_Xml \<Rightarrow> PE_Xml | PE_Missing f \<Rightarrow> PE_Missing []
     | PE_Invalid f m \<Rightarrow> PE_Invalid [] [] | PE_Base64 m \<Rightarrow> PE_Base64 []
     | PE_UnexpectedBody b \<Rightarrow> PE_UnexpectedBody [])"

definition redact :: "ClientError \<Rightarrow> ClientError" where
  "redact e = (case e of
     CE_Request r \<Rightarrow> CE_Request RE_MissingLineItems
   | CE_Api api \<Rightarrow> CE_Api (api\<lparr>api_message := []\<rparr>)
   | CE_Parse p \<Rightarrow> CE_Parse (redact_parse p)
   | CE_ServiceUnavailable m \<Rightarrow> CE_ServiceUnavailable []
   | CE_HttpStatus status body \<Rightarrow> CE_HttpStatus status []
   | CE_Transport t \<Rightarrow> CE_Transport t
   | CE_IncompleteResponse s \<Rightarrow> CE_IncompleteResponse s)"

text \<open>The diagnostic kept of an exchange without an answer is a function of the failure's
  category and HTTP status alone: no text a remote party wrote (a body, a header, a parser
  quotation) reaches it.\<close>

theorem exchange_diagnostic_allowlisted: "exchange operation e = exchange operation (redact e)"
  by (cases e) (auto simp: exchange_def redact_def redact_parse_def split: ParseError.split)

end
