(* ===== verification/Exchange.thy ===== *)
theory Exchange
  imports Documents "HOL-Library.State_Monad"
begin

text \<open>
  The exchange with szamlazz.hu.  Everything behind the Agent client's \<open>send\<close> (the network, the
  server, other clients of the account) is a parameter: a record of functions over an
  arbitrary remote state, one per request the gateway sends.  The gateway's async functions
  are programs of the state monad over a \<open>world\<close>: the remote state, which every call may change
  in any way, and the trace of the exchanges made, each with its answer.

  The rules for \<open>yields\<close> below are a small program logic on traces: \<open>yields Q m\<close> says that every
  run of \<open>m\<close> extends the trace by some \<open>xs\<close> and returns some \<open>a\<close> with \<open>Q a xs\<close>.
\<close>

section \<open>Requests\<close>

record InvoiceBalance =
  ib_invoice_number :: "ustr option"
  ib_net_total :: "Decimal option"
  ib_gross_total :: "Decimal option"
  ib_outstanding :: "Decimal option"

section \<open>The remote side and the trace\<close>

record 's Remote =
  rm_query :: "InvoiceSelector \<Rightarrow> 's \<Rightarrow> (InvoiceDocument, ClientError) result \<times> 's"
  rm_create :: "CreateInvoice \<Rightarrow> 's \<Rightarrow> (CreationOutcome, ClientError) result \<times> 's"
  rm_storno :: "StornoInvoice \<Rightarrow> 's \<Rightarrow> (StornoResponse, ClientError) result \<times> 's"
  rm_delete :: "ustr \<Rightarrow> 's \<Rightarrow> (unit, ClientError) result \<times> 's"
  rm_credit :: "RegisterCreditEntry \<Rightarrow> 's \<Rightarrow> (InvoiceBalance, ClientError) result \<times> 's"

datatype Event =
    Queried InvoiceSelector "(InvoiceDocument, ClientError) result"
  | SentCreate CreateInvoice "(CreationOutcome, ClientError) result"
  | SentStorno StornoInvoice "(StornoResponse, ClientError) result"
  | SentDelete ustr "(unit, ClientError) result"
  | SentCredit RegisterCreditEntry "(InvoiceBalance, ClientError) result"

primrec is_write :: "Event \<Rightarrow> bool" where
  "is_write (Queried sel r) = False"
| "is_write (SentCreate c r) = True"
| "is_write (SentStorno s r) = True"
| "is_write (SentDelete n r) = True"
| "is_write (SentCredit e r) = True"

definition writes :: "Event list \<Rightarrow> Event list" where
  "writes xs = filter is_write xs"

lemma writes_simps [simp]:
  "writes [] = []"
  "writes (xs @ ys) = writes xs @ writes ys"
  "writes (Queried sel r # xs) = writes xs"
  "is_write e \<Longrightarrow> writes (e # xs) = e # writes xs"
  by (simp_all add: writes_def)

record 's world =
  remote :: 's
  trace :: "Event list"

type_synonym ('s, 'a) prog = "('s world, 'a) state"

definition exchange_with ::
  "('s \<Rightarrow> 'r \<times> 's) \<Rightarrow> ('r \<Rightarrow> Event) \<Rightarrow> ('s, 'r) prog" where
  "exchange_with call event = State (\<lambda>w. case call (remote w) of (r, s) \<Rightarrow>
     (r, w\<lparr>remote := s, trace := trace w @ [event r]\<rparr>))"

definition send_query :: "'s Remote \<Rightarrow> InvoiceSelector \<Rightarrow> ('s, (InvoiceDocument, ClientError) result) prog" where
  "send_query rm sel = exchange_with (rm_query rm sel) (Queried sel)"

definition send_create :: "'s Remote \<Rightarrow> CreateInvoice \<Rightarrow> ('s, (CreationOutcome, ClientError) result) prog" where
  "send_create rm create = exchange_with (rm_create rm create) (SentCreate create)"

definition send_storno :: "'s Remote \<Rightarrow> StornoInvoice \<Rightarrow> ('s, (StornoResponse, ClientError) result) prog" where
  "send_storno rm storno = exchange_with (rm_storno rm storno) (SentStorno storno)"

definition send_delete :: "'s Remote \<Rightarrow> ustr \<Rightarrow> ('s, (unit, ClientError) result) prog" where
  "send_delete rm num = exchange_with (rm_delete rm num) (SentDelete num)"

definition send_credit :: "'s Remote \<Rightarrow> RegisterCreditEntry \<Rightarrow> ('s, (InvoiceBalance, ClientError) result) prog" where
  "send_credit rm e = exchange_with (rm_credit rm e) (SentCredit e)"

abbreviation ret :: "'a \<Rightarrow> ('s, 'a) prog" where
  "ret \<equiv> State_Monad.return"

section \<open>Reasoning about traces\<close>

definition yields :: "('a \<Rightarrow> Event list \<Rightarrow> bool) \<Rightarrow> ('s, 'a) prog \<Rightarrow> bool" where
  "yields Q m \<longleftrightarrow> (\<forall>w. \<exists>xs. trace (snd (run_state m w)) = trace w @ xs \<and> Q (fst (run_state m w)) xs)"

abbreviation read_only :: "('s, 'a) prog \<Rightarrow> bool" where
  "read_only m \<equiv> yields (\<lambda>_ xs. writes xs = []) m"

lemma yields_return [intro]: "Q a [] \<Longrightarrow> yields Q (ret a)"
  by (simp add: yields_def)

lemma yields_run: "yields Q m \<Longrightarrow> trace w = [] \<Longrightarrow> Q (fst (run_state m w)) (trace (snd (run_state m w)))"
  unfolding yields_def by (metis append_Nil)

lemma yields_weaken: "yields R m \<Longrightarrow> (\<And>a xs. R a xs \<Longrightarrow> Q a xs) \<Longrightarrow> yields Q m"
  unfolding yields_def by meson

lemma yields_bind:
  assumes m: "yields R m"
    and k: "\<And>a xs. R a xs \<Longrightarrow> yields (\<lambda>b ys. Q b (xs @ ys)) (k a)"
  shows "yields Q (m \<bind> k)"
  unfolding yields_def
proof
  fix w
  obtain a w' where r: "run_state m w = (a, w')" by fastforce
  obtain xs where xs: "trace w' = trace w @ xs" "R a xs"
    using m r unfolding yields_def by (metis fst_conv snd_conv)
  obtain ys where "trace (snd (run_state (k a) w')) = trace w' @ ys"
      "Q (fst (run_state (k a) w')) (xs @ ys)"
    using k [OF xs(2)] unfolding yields_def by blast
  then show "\<exists>zs. trace (snd (run_state (m \<bind> k) w)) = trace w @ zs \<and>
      Q (fst (run_state (m \<bind> k) w)) zs"
    using r xs by (intro exI [of _ "xs @ ys"]) simp
qed

lemma read_only_bind [intro]:
  "read_only m \<Longrightarrow> (\<And>a. read_only (k a)) \<Longrightarrow> read_only (m \<bind> k)"
  by (rule yields_bind [where R = "\<lambda>_ xs. writes xs = []"]) simp_all

lemma exchange_with_yields: "yields (\<lambda>r xs. xs = [event r]) (exchange_with call event)"
  by (auto simp: yields_def exchange_with_def split: prod.split)

lemmas send_defs = send_query_def send_create_def send_storno_def send_delete_def send_credit_def

lemma send_yields:
  "yields (\<lambda>r xs. xs = [Queried sel r]) (send_query rm sel)"
  "yields (\<lambda>r xs. xs = [SentCreate c r]) (send_create rm c)"
  "yields (\<lambda>r xs. xs = [SentStorno s r]) (send_storno rm s)"
  "yields (\<lambda>r xs. xs = [SentDelete n r]) (send_delete rm n)"
  "yields (\<lambda>r xs. xs = [SentCredit e r]) (send_credit rm e)"
  unfolding send_defs by (rule exchange_with_yields)+

lemma read_only_query [reads]: "read_only (send_query rm sel)"
  by (rule yields_weaken [OF send_yields(1)]) simp

text \<open>At most one write, and only one that satisfies \<open>P\<close>.\<close>

definition one_write :: "(Event \<Rightarrow> bool) \<Rightarrow> Event list \<Rightarrow> bool" where
  "one_write P xs \<longleftrightarrow> writes xs = [] \<or> (\<exists>e. writes xs = [e] \<and> P e)"

lemma one_write_read: "writes xs = [] \<Longrightarrow> one_write P (xs @ ys) \<longleftrightarrow> one_write P ys"
  by (simp add: one_write_def)

lemma one_write_read_after: "writes ys = [] \<Longrightarrow> one_write P (xs @ ys) \<longleftrightarrow> one_write P xs"
  by (simp add: one_write_def)

lemma one_write_none [simp]: "writes xs = [] \<Longrightarrow> one_write P xs"
  by (simp add: one_write_def)

lemma one_write_bind_read:
  "read_only m \<Longrightarrow> (\<And>a. yields (\<lambda>_. one_write P) (k a)) \<Longrightarrow> yields (\<lambda>_. one_write P) (m \<bind> k)"
  by (rule yields_bind [where R = "\<lambda>_ xs. writes xs = []"]) (simp_all add: one_write_read)

lemma one_write_bind_send:
  "yields (\<lambda>_. one_write P) m \<Longrightarrow> (\<And>a. read_only (k a)) \<Longrightarrow> yields (\<lambda>_. one_write P) (m \<bind> k)"
  by (erule yields_bind)
    (rule yields_weaken [of "\<lambda>_ xs. writes xs = []"], simp_all add: one_write_read_after)

lemma one_write_of_read_only: "read_only m \<Longrightarrow> yields (\<lambda>_. one_write P) m"
  by (erule yields_weaken) simp

section \<open>Scripted remotes\<close>

text \<open>A remote side that answers every request of a kind the same way; the examples use it.\<close>

definition scripted ::
  "(InvoiceSelector \<Rightarrow> (InvoiceDocument, ClientError) result) \<Rightarrow> (CreationOutcome, ClientError) result
     \<Rightarrow> (StornoResponse, ClientError) result \<Rightarrow> (unit, ClientError) result \<Rightarrow> unit Remote" where
  "scripted q c s d =
    \<lparr> rm_query = (\<lambda>sel u. (q sel, u)), rm_create = (\<lambda>_ u. (c, u)), rm_storno = (\<lambda>_ u. (s, u)),
      rm_delete = (\<lambda>_ u. (d, u)), rm_credit = (\<lambda>_ u. (Inl (CE_ServiceUnavailable []), u)) \<rparr>"

definition no_world :: "unit world" where
  "no_world = \<lparr> remote = (), trace = [] \<rparr>"

definition code_error :: "ErrorCode \<Rightarrow> ClientError" where
  "code_error c = CE_Api \<lparr> api_code = c, api_message = [] \<rparr>"

lemma run_exchange_with: "run_state (exchange_with call event) w =
    (fst (call (remote w)), w\<lparr>remote := snd (call (remote w)), trace := trace w @ [event (fst (call (remote w)))]\<rparr>)"
  by (simp add: exchange_with_def split_beta)

lemmas scripted_simps = scripted_def run_exchange_with send_defs code_error_def no_world_def

end
