(* ===== verification/Gateway_Reads.thy ===== *)
theory Gateway_Reads
  imports Exchange
begin

text \<open>
  The read side of \<open>restate-szamlazz/src/gateway.rs\<close>: the raw query with its classification of
  failures, the validated reads by external id (\<open>seen\<close>), the order-number hint, the lookup step
  before a create, the ownership read, the verification by number, the credential probe and
  the storno lookup.  The functions are the source's, over the remote side of
  \<open>Exchange\<close>; tracing output is not modelled.
\<close>

section \<open>Failures of a query\<close>

datatype QueryError =
    QE_NotFound | QE_CredentialsRejected SzamlazzAnswer | QE_Api SzamlazzAnswer
  | QE_Unavailable ustr | QE_Transient SzamlazzAnswer | QE_Transport ustr

primrec QueryError_display :: "QueryError \<Rightarrow> ustr" where
  "QueryError_display QE_NotFound = msg ''szamlazz.hu does not know the document (code 7)''"
| "QueryError_display (QE_CredentialsRejected a) =
     msg ''szamlazz.hu rejected the agent credentials ('' @ SzamlazzAnswer_display a @ us '')''"
| "QueryError_display (QE_Api a) = msg ''szamlazz.hu error '' @ SzamlazzAnswer_display a"
| "QueryError_display (QE_Unavailable m) = msg ''szamlazz.hu is unavailable: '' @ m"
| "QueryError_display (QE_Transient a) = msg ''query: retryable vendor code '' @ ans_code a"
| "QueryError_display (QE_Transport m) = msg ''transport failure: '' @ m"

datatype Answer = An_NotFound | An_CredentialsRejected SzamlazzAnswer | An_Api SzamlazzAnswer

primrec answered :: "QueryError \<Rightarrow> (Answer, Unanswered) result" where
  "answered QE_NotFound = Ok An_NotFound"
| "answered (QE_CredentialsRejected answer) = Ok (An_CredentialsRejected answer)"
| "answered (QE_Api answer) = Ok (An_Api answer)"
| "answered (QE_Transient answer) =
     Err (UA_Unavailable (msg ''query: retryable vendor code '' @ ans_code answer))"
| "answered (QE_Unavailable message) = Err (UA_Unavailable message)"
| "answered (QE_Transport message) = Err (UA_Transport message)"

section \<open>Raw queries\<close>

definition selected_number :: "InvoiceSelector \<Rightarrow> ustr option" where
  "selected_number sel = (case sel of ByInvoiceNumber n \<Rightarrow> Some n | _ \<Rightarrow> None)"

text \<open>The body of \<open>query_projected\<close> after the exchange.\<close>

definition query_result ::
  "InvoiceSelector \<Rightarrow> (InvoiceDocument \<Rightarrow> 'a) \<Rightarrow> (InvoiceDocument, ClientError) result \<Rightarrow> ('a, QueryError) result" where
  "query_result sel project r = (case r of
     Inr document \<Rightarrow>
       try_then (map_err QE_Transport
           (validate_identity (info_invoice_number (doc_info document)) (selected_number sel)))
         (\<lambda>_. Ok (project document))
   | Inl (CE_Api api) \<Rightarrow>
       if api_code api = EC_MissingData then Err QE_NotFound
       else if is_credential_error (api_code api) then Err (QE_CredentialsRejected (SzamlazzAnswer_from api))
       else if is_retryable (api_code api) then Err (QE_Transient (SzamlazzAnswer_from api))
       else Err (QE_Api (SzamlazzAnswer_from api))
   | Inl error \<Rightarrow>
       Err (case exchange (msg ''query'') error of
              UA_Unavailable message \<Rightarrow> QE_Unavailable message
            | UA_Transport message \<Rightarrow> QE_Transport message))"

definition query_projected ::
  "'s Remote \<Rightarrow> InvoiceSelector \<Rightarrow> (InvoiceDocument \<Rightarrow> 'a) \<Rightarrow> ('s, ('a, QueryError) result) prog" where
  "query_projected rm sel project = do {
     r \<leftarrow> send_query rm sel;
     ret (query_result sel project r)
   }"

definition query_raw :: "'s Remote \<Rightarrow> InvoiceSelector \<Rightarrow> ('s, (FoundDocument, QueryError) result) prog" where
  "query_raw rm sel = query_projected rm sel FoundDocument_from"

definition hint_raw :: "'s Remote \<Rightarrow> OrderKey \<Rightarrow> ('s, (FoundDocument, QueryError) result) prog" where
  "hint_raw rm order = query_raw rm (ByOrderNumber (order_str order))"

section \<open>Query outcomes\<close>

datatype 'a QueryOutcome =
    QO_Found 'a | QO_NotFound | QO_CredentialsRejected SzamlazzAnswer | QO_Api SzamlazzAnswer

definition outcome :: "('a, QueryError) result \<Rightarrow> ('a QueryOutcome, Unanswered) result" where
  "outcome r = (case r of
     Inr document \<Rightarrow> Ok (QO_Found document)
   | Inl error \<Rightarrow> try_then (answered error) (\<lambda>answer. Ok (case answer of
       An_NotFound \<Rightarrow> QO_NotFound
     | An_CredentialsRejected a \<Rightarrow> QO_CredentialsRejected a
     | An_Api a \<Rightarrow> QO_Api a)))"

definition verify :: "'s Remote \<Rightarrow> ustr \<Rightarrow> ('s, (FoundDocument QueryOutcome, Unanswered) result) prog" where
  "verify rm num = do {
     r \<leftarrow> query_raw rm (ByInvoiceNumber num);
     ret (outcome r)
   }"

datatype Selector = Sel_InvoiceNumber ustr | Sel_OrderNumber ustr | Sel_ExternalId ustr

primrec invoice_selector :: "Selector \<Rightarrow> InvoiceSelector" where
  "invoice_selector (Sel_InvoiceNumber num) = ByInvoiceNumber num"
| "invoice_selector (Sel_OrderNumber num) = ByOrderNumber num"
| "invoice_selector (Sel_ExternalId eid) = ByExternalId eid"

definition query ::
  "'s Remote \<Rightarrow> (InvoiceDocument \<Rightarrow> 'a) \<Rightarrow> Selector \<Rightarrow> ('s, ('a QueryOutcome, Unanswered) result) prog" where
  "query rm project selector = do {
     r \<leftarrow> query_projected rm (invoice_selector selector) project;
     ret (outcome r)
   }"

definition hint :: "'s Remote \<Rightarrow> OrderKey \<Rightarrow> ('s, (FoundDocument QueryOutcome, Unanswered) result) prog" where
  "hint rm order = do {
     r \<leftarrow> hint_raw rm order;
     ret (outcome r)
   }"

datatype ProbeOutcome = PO_Accepted | PO_CredentialsRejected SzamlazzAnswer

definition probe :: "'s Remote \<Rightarrow> ExternalId \<Rightarrow> ('s, (ProbeOutcome, Unanswered) result) prog" where
  "probe rm external_id = do {
     r \<leftarrow> query_raw rm (ByExternalId (external_str external_id));
     ret (case r of
        Inr found \<Rightarrow> Ok PO_Accepted
      | Inl error \<Rightarrow> try_then (answered error) (\<lambda>answer. case answer of
          An_NotFound \<Rightarrow> Ok PO_Accepted
        | An_Api a \<Rightarrow>
            Err (UA_Unavailable (msg ''probe: vendor answer does not establish credential acceptance''))
        | An_CredentialsRejected a \<Rightarrow> Ok (PO_CredentialsRejected a)))
   }"

section \<open>Reads by external id\<close>

datatype Seen = Seen_Absent | Seen_Live FoundDocument | Seen_Reversed FoundDocument | Seen_Collision FoundDocument

definition seen_result :: "OrderKey \<Rightarrow> IssuedKind \<Rightarrow> (FoundDocument, QueryError) result \<Rightarrow> (Seen, QueryError) result" where
  "seen_result order kind r = (case r of
     Inr found \<Rightarrow>
       if \<not> is_ours found order kind then Ok (Seen_Collision found)
       else if is_live found then Ok (Seen_Live found)
       else Ok (Seen_Reversed found)
   | Inl QE_NotFound \<Rightarrow> Ok Seen_Absent
   | Inl error \<Rightarrow> Err error)"

definition seen :: "'s Remote \<Rightarrow> ExternalId \<Rightarrow> OrderKey \<Rightarrow> IssuedKind \<Rightarrow> ('s, (Seen, QueryError) result) prog" where
  "seen rm external_id order kind = do {
     r \<leftarrow> query_raw rm (ByExternalId (external_str external_id));
     ret (seen_result order kind r)
   }"

datatype OwnershipOutcome =
    OO_Absent | OO_Live FoundDocument | OO_Reversed FoundDocument | OO_Collision FoundDocument
  | OO_CredentialsRejected SzamlazzAnswer | OO_Api SzamlazzAnswer

definition lookup_ours ::
  "'s Remote \<Rightarrow> ExternalId \<Rightarrow> OrderKey \<Rightarrow> IssuedKind \<Rightarrow> ('s, (OwnershipOutcome, Unanswered) result) prog" where
  "lookup_ours rm external_id order kind = do {
     r \<leftarrow> seen rm external_id order kind;
     ret (case r of
        Inr Seen_Absent \<Rightarrow> Ok OO_Absent
      | Inr (Seen_Live found) \<Rightarrow> Ok (OO_Live found)
      | Inr (Seen_Reversed found) \<Rightarrow> Ok (OO_Reversed found)
      | Inr (Seen_Collision found) \<Rightarrow> Ok (OO_Collision found)
      | Inl error \<Rightarrow> try_then (answered error) (\<lambda>answer. Ok (case answer of
          An_NotFound \<Rightarrow> OO_Absent
        | An_CredentialsRejected a \<Rightarrow> OO_CredentialsRejected a
        | An_Api a \<Rightarrow> OO_Api a)))
   }"

section \<open>The lookup step\<close>

record LookupRequest =
  lr_external_id :: ExternalId
  lr_kind :: IssuedKind
  lr_order :: OrderKey
  lr_our_numbers :: "ustr list"

datatype LookupOutcome =
    LO_Absent | LO_Live FoundDocument | LO_Reversed FoundDocument "ustr option"
  | LO_Collision FoundDocument | LO_Foreign FoundDocument
  | LO_CredentialsRejected SzamlazzAnswer | LO_Api SzamlazzAnswer

definition is_foreign :: "FoundDocument \<Rightarrow> ustr list \<Rightarrow> ustr option \<Rightarrow> bool" where
  "is_foreign found our_numbers seen_number \<longleftrightarrow> is_invoice_family found \<and> is_live found
     \<and> Some (number found) \<noteq> seen_number \<and> number found \<notin> set our_numbers"

text \<open>The end of \<open>lookup_inner\<close>: what it returns without or after the hint.\<close>

definition lookup_done :: "FoundDocument option \<Rightarrow> ustr option \<Rightarrow> (LookupOutcome, Unanswered) result" where
  "lookup_done reversed_doc storno_number = Ok (case reversed_doc of
     Some document \<Rightarrow> LO_Reversed document storno_number | None \<Rightarrow> LO_Absent)"

text \<open>Step 2 of \<open>lookup_inner\<close>: the hint read against the reversed document of step 1.\<close>

definition lookup_hint ::
  "LookupRequest \<Rightarrow> bool \<Rightarrow> FoundDocument option \<Rightarrow> (FoundDocument, QueryError) result
     \<Rightarrow> (LookupOutcome, Unanswered) result" where
  "lookup_hint request block_proforma reversed_doc r = (case r of
     Inr h \<Rightarrow>
       if is_foreign h (lr_our_numbers request) (map_option number reversed_doc)
          \<or> (block_proforma \<and> is_live h \<and> number h \<notin> set (lr_our_numbers request)
              \<and> document_type h = DT_Proforma)
       then Ok (LO_Foreign h)
       else lookup_done reversed_doc (case reversed_doc of
              Some old \<Rightarrow> if is_storno_of h (number old) then Some (number h) else None
            | None \<Rightarrow> None)
   | Inl error \<Rightarrow> try_then (answered error) (\<lambda>answer. case answer of
       An_CredentialsRejected a \<Rightarrow> Ok (LO_CredentialsRejected a)
     | An_NotFound \<Rightarrow> lookup_done reversed_doc None
     | An_Api a \<Rightarrow> lookup_done reversed_doc None))"

definition lookup_step2 ::
  "'s Remote \<Rightarrow> LookupRequest \<Rightarrow> bool \<Rightarrow> FoundDocument option \<Rightarrow> ('s, (LookupOutcome, Unanswered) result) prog" where
  "lookup_step2 rm request block_proforma reversed_doc =
    (if lr_kind request \<noteq> IK_Corrective then do {
       r \<leftarrow> hint_raw rm (lr_order request);
       ret (lookup_hint request block_proforma reversed_doc r)
     } else ret (lookup_done reversed_doc None))"

definition lookup_inner ::
  "'s Remote \<Rightarrow> LookupRequest \<Rightarrow> bool \<Rightarrow> ('s, (LookupOutcome, Unanswered) result) prog" where
  "lookup_inner rm request block_proforma = do {
     r \<leftarrow> seen rm (lr_external_id request) (lr_order request) (lr_kind request);
     (case r of
        Inr (Seen_Collision found) \<Rightarrow> ret (Ok (LO_Collision found))
      | Inr (Seen_Live found) \<Rightarrow> ret (Ok (LO_Live found))
      | Inr (Seen_Reversed found) \<Rightarrow> lookup_step2 rm request block_proforma (Some found)
      | Inr Seen_Absent \<Rightarrow> lookup_step2 rm request block_proforma None
      | Inl error \<Rightarrow> (case answered error of
          Inl unanswered \<Rightarrow> ret (Err unanswered)
        | Inr An_NotFound \<Rightarrow> lookup_step2 rm request block_proforma None
        | Inr (An_CredentialsRejected a) \<Rightarrow> ret (Ok (LO_CredentialsRejected a))
        | Inr (An_Api a) \<Rightarrow> ret (Ok (LO_Api a))))
   }"

definition lookup :: "'s Remote \<Rightarrow> LookupRequest \<Rightarrow> ('s, (LookupOutcome, Unanswered) result) prog" where
  "lookup rm request = lookup_inner rm request False"

definition lookup_for_replay :: "'s Remote \<Rightarrow> LookupRequest \<Rightarrow> ('s, (LookupOutcome, Unanswered) result) prog" where
  "lookup_for_replay rm request = lookup_inner rm request True"

section \<open>The storno lookup\<close>

datatype StornoLookupOutcome =
    SLO_Absent | SLO_AlreadyReversed ustr "int option"
  | SLO_CredentialsRejected SzamlazzAnswer | SLO_Api SzamlazzAnswer

definition storno_seen ::
  "'s Remote \<Rightarrow> ExternalId \<Rightarrow> ustr \<Rightarrow> ('s, (ReportedDocument option, QueryError) result) prog" where
  "storno_seen rm external_id invoice_number = do {
     r \<leftarrow> query_raw rm (ByExternalId (external_str external_id));
     ret (case r of
        Inr document \<Rightarrow>
          if is_storno_of document invoice_number then Ok (Some (ReportedDocument_from document))
          else Ok None
      | Inl QE_NotFound \<Rightarrow> Ok None
      | Inl error \<Rightarrow> Err error)
   }"

definition lookup_storno ::
  "'s Remote \<Rightarrow> ExternalId \<Rightarrow> ustr \<Rightarrow> ('s, (StornoLookupOutcome, Unanswered) result) prog" where
  "lookup_storno rm external_id invoice_number = do {
     r \<leftarrow> storno_seen rm external_id invoice_number;
     ret (case r of
        Inr (Some rep) \<Rightarrow> Ok (SLO_AlreadyReversed (rep_number rep) (rep_document_id rep))
      | Inr None \<Rightarrow> Ok SLO_Absent
      | Inl error \<Rightarrow> try_then (answered error) (\<lambda>answer. Ok (case answer of
          An_NotFound \<Rightarrow> SLO_Absent
        | An_CredentialsRejected a \<Rightarrow> SLO_CredentialsRejected a
        | An_Api a \<Rightarrow> SLO_Api a)))
   }"

section \<open>Reads write nothing\<close>

lemma read_only_ret [reads, simp]: "read_only (ret a)"
  by (rule yields_return) simp

lemma query_projected_yields:
  "yields (\<lambda>r xs. \<exists>a. xs = [Queried sel a] \<and> r = query_result sel project a) (query_projected rm sel project)"
  unfolding query_projected_def
  by (rule yields_bind [OF send_yields(1)]) (auto intro: yields_return)

lemma query_raw_yields:
  "yields (\<lambda>r xs. \<exists>a. xs = [Queried sel a] \<and> r = query_result sel FoundDocument_from a) (query_raw rm sel)"
  unfolding query_raw_def by (rule query_projected_yields)

lemma read_only_query_raw [reads]: "read_only (query_raw rm sel)"
  by (rule yields_weaken [OF query_raw_yields]) auto

lemma read_only_basic [reads]:
  "read_only (query_projected rm sel project)" "read_only (hint_raw rm order)" "read_only (verify rm num)"
  "read_only (query rm project selector)" "read_only (hint rm order)" "read_only (probe rm eid)"
  "read_only (seen rm eid order kind)" "read_only (lookup_ours rm eid order kind)"
  "read_only (storno_seen rm eid num)" "read_only (lookup_storno rm eid num)"
  unfolding query_projected_def query_raw_def hint_raw_def verify_def query_def hint_def probe_def
    seen_def lookup_ours_def storno_seen_def lookup_storno_def
  by (intro read_only_bind read_only_ret read_only_query allI)+

lemma read_only_lookup_step2 [reads]: "read_only (lookup_step2 rm request b old)"
  by (auto simp: lookup_step2_def intro!: read_only_bind reads)

lemma read_only_lookup [reads]: "read_only (lookup_inner rm request b)"
  unfolding lookup_inner_def
  by (intro read_only_bind reads) (auto intro: reads split: sum.splits Seen.splits Answer.splits)

section \<open>What a read establishes\<close>

text \<open>The trace holds an answer to the query \<open>sel\<close> that is the document \<open>d\<close>.\<close>

definition evid :: "Event list \<Rightarrow> InvoiceSelector \<Rightarrow> FoundDocument \<Rightarrow> bool" where
  "evid xs sel d \<longleftrightarrow> (\<exists>a. Queried sel a \<in> set xs \<and> query_result sel FoundDocument_from a = Ok d)"

text \<open>The trace holds an answer to the query \<open>sel\<close> that is code 7.\<close>

definition evid_absent :: "Event list \<Rightarrow> InvoiceSelector \<Rightarrow> bool" where
  "evid_absent xs sel \<longleftrightarrow>
     (\<exists>a. Queried sel a \<in> set xs \<and> query_result sel FoundDocument_from a = Err QE_NotFound)"

lemma evid_append [simp]: "evid (xs @ ys) sel d \<longleftrightarrow> evid xs sel d \<or> evid ys sel d"
  by (auto simp: evid_def)

lemma evid_absent_append [simp]: "evid_absent (xs @ ys) sel \<longleftrightarrow> evid_absent xs sel \<or> evid_absent ys sel"
  by (auto simp: evid_absent_def)

lemma query_result_Ok_iff: "query_result sel project a = Inr d \<longleftrightarrow> (\<exists>document. a = Inr document \<and>
    d = project document \<and>
    validate_identity (info_invoice_number (doc_info document)) (selected_number sel) = Inr ())"
proof (cases a)
  case (Inl e)
  then show ?thesis by (cases e) (simp_all add: query_result_def)
qed (auto simp: query_result_def try_then_Inr_iff)

lemma FoundDocument_from_sel [simp]:
  "number (FoundDocument_from d) = info_invoice_number (doc_info d)"
  "order_number (FoundDocument_from d) = trimmed_order (info_order_number (doc_info d))"
  by (simp_all add: FoundDocument_from_def Let_def)

lemma validate_identity_Ok_iff: "validate_identity num expected = Inr () \<longleftrightarrow>
    trim num \<noteq> [] \<and> (expected = None \<or> expected = Some num)"
  by (cases expected) (auto simp: validate_identity_def)

lemma evid_number: "evid xs (ByInvoiceNumber n) d \<Longrightarrow> number d = n"
  by (auto simp: evid_def query_result_Ok_iff validate_identity_Ok_iff selected_number_def)

lemma evid_nonblank: "evid xs sel d \<Longrightarrow> trim (number d) \<noteq> []"
  by (auto simp: evid_def query_result_Ok_iff validate_identity_Ok_iff)

lemma trimmed_order_Some: "trimmed_order num = Some t \<Longrightarrow> trim t = t \<and> t \<noteq> []"
  by (cases num) (auto simp: trimmed_order_def split: if_splits)

lemma evid_order_trimmed: "evid xs sel d \<Longrightarrow> order_number d = Some t \<Longrightarrow> trim t = t \<and> t \<noteq> []"
  by (auto simp: evid_def query_result_Ok_iff dest: trimmed_order_Some)

lemma query_raw_evid:
  "yields (\<lambda>r xs. writes xs = [] \<and> (\<forall>d. r = Inr d \<longrightarrow> evid xs sel d) \<and>
      (r = Inl QE_NotFound \<longrightarrow> evid_absent xs sel)) (query_raw rm sel)"
  by (rule yields_weaken [OF query_raw_yields]) (auto simp: evid_def evid_absent_def)

lemma outcome_Found [simp]: "outcome r = Inr (QO_Found d) \<longleftrightarrow> r = Inr d"
  by (cases r) (auto simp: outcome_def try_then_Inr_iff split: Answer.splits)

lemma verify_evid:
  "yields (\<lambda>r xs. writes xs = [] \<and> (\<forall>d. r = Inr (QO_Found d) \<longrightarrow> evid xs (ByInvoiceNumber num) d)) (verify rm num)"
  unfolding verify_def by (rule yields_bind [OF query_raw_evid]) (auto intro!: yields_return)

lemma hint_raw_evid:
  "yields (\<lambda>r xs. writes xs = [] \<and> (\<forall>d. r = Inr d \<longrightarrow> evid xs (ByOrderNumber (order_str order)) d))
     (hint_raw rm order)"
  unfolding hint_raw_def by (rule yields_weaken [OF query_raw_evid]) auto

lemma hint_evid:
  "yields (\<lambda>r xs. writes xs = [] \<and> (\<forall>d. r = Inr (QO_Found d) \<longrightarrow> evid xs (ByOrderNumber (order_str order)) d))
     (hint rm order)"
  unfolding hint_def by (rule yields_bind [OF hint_raw_evid]) (auto intro!: yields_return)

text \<open>What each verdict on the holder of an external id rests on.\<close>

definition seen_evid :: "ExternalId \<Rightarrow> OrderKey \<Rightarrow> IssuedKind \<Rightarrow> (Seen, QueryError) result \<Rightarrow> Event list \<Rightarrow> bool" where
  "seen_evid eid order kind r xs \<longleftrightarrow> writes xs = [] \<and>
     (let sel = ByExternalId (external_str eid) in case r of
        Inr Seen_Absent \<Rightarrow> evid_absent xs sel
      | Inr (Seen_Live d) \<Rightarrow> evid xs sel d \<and> is_ours d order kind \<and> is_live d
      | Inr (Seen_Reversed d) \<Rightarrow> evid xs sel d \<and> is_ours d order kind \<and> \<not> is_live d
      | Inr (Seen_Collision d) \<Rightarrow> evid xs sel d \<and> \<not> is_ours d order kind
      | Inl e \<Rightarrow> e \<noteq> QE_NotFound)"

lemma seen_yields: "yields (seen_evid eid order kind) (seen rm eid order kind)"
  unfolding seen_def
  by (rule yields_bind [OF query_raw_evid])
    (auto intro!: yields_return simp: seen_evid_def seen_result_def split: sum.split QueryError.splits)

lemma lookup_ours_evid:
  "yields (\<lambda>r xs. writes xs = [] \<and> (\<forall>d. r = Inr (OO_Live d) \<longrightarrow>
       evid xs (ByExternalId (external_str eid)) d \<and> is_ours d order kind \<and> is_live d) \<and>
     (\<forall>d. r = Inr (OO_Reversed d) \<longrightarrow>
       evid xs (ByExternalId (external_str eid)) d \<and> is_ours d order kind \<and> \<not> is_live d) \<and>
     (r = Inr OO_Absent \<longrightarrow> evid_absent xs (ByExternalId (external_str eid)))) (lookup_ours rm eid order kind)"
  unfolding lookup_ours_def
proof (rule yields_bind [OF seen_yields], rule yields_return, goal_cases)
  case (1 r xs)
  then show ?case
  proof (cases r)
    case (Inl e)
    with 1 show ?thesis by (cases e) (simp_all add: seen_evid_def try_then_Inr_iff)
  qed (auto simp: seen_evid_def try_then_Inr_iff split: Seen.splits)
qed

text \<open>The verdicts that let a create go on, and what the lookup checked for them.\<close>

definition hint_permits :: "LookupRequest \<Rightarrow> bool \<Rightarrow> FoundDocument option \<Rightarrow> FoundDocument \<Rightarrow> bool" where
  "hint_permits request b old h \<longleftrightarrow>
     \<not> is_foreign h (lr_our_numbers request) (map_option number old) \<and>
     \<not> (b \<and> is_live h \<and> number h \<notin> set (lr_our_numbers request) \<and> document_type h = DT_Proforma)"

definition proceeds :: "LookupRequest \<Rightarrow> bool \<Rightarrow> FoundDocument option \<Rightarrow> ustr option \<Rightarrow> Event list \<Rightarrow> bool" where
  "proceeds request b old storno_number xs \<longleftrightarrow>
     (lr_kind request = IK_Corrective \<or>
        (\<forall>h. evid xs (ByOrderNumber (order_str (lr_order request))) h \<longrightarrow> hint_permits request b old h)) \<and>
     (\<forall>n. storno_number = Some n \<longrightarrow> (\<exists>d h. old = Some d \<and> number h = n \<and> is_storno_of h (number d) \<and>
        evid xs (ByOrderNumber (order_str (lr_order request))) h))"

lemma evid_single: "evid [Queried sel' a] sel d \<longleftrightarrow> sel' = sel \<and> query_result sel FoundDocument_from a = Ok d"
  by (auto simp: evid_def)

lemma seen_raw_yields: "yields (\<lambda>r xs. seen_evid eid order kind r xs \<and>
    (\<exists>a. xs = [Queried (ByExternalId (external_str eid)) a])) (seen rm eid order kind)"
  unfolding seen_def
  by (rule yields_bind [OF query_raw_yields])
    (auto intro!: yields_return simp: seen_evid_def seen_result_def evid_def evid_absent_def
      split: sum.split QueryError.splits)

lemma lookup_hint_err:
  "lookup_hint request b old (Inl e) = lookup_done old None \<or>
   (\<exists>a. lookup_hint request b old (Inl e) = Ok (LO_CredentialsRejected a)) \<or>
   (\<exists>u. lookup_hint request b old (Inl e) = Err u)"
  by (cases e) (simp_all add: lookup_hint_def)

lemma lookup_hint_cases:
  obtains (Foreign) h where "r = Inr h" "lookup_hint request b old r = Ok (LO_Foreign h)"
  | (Fail) u where "lookup_hint request b old r = Err u"
  | (Cred) a where "lookup_hint request b old r = Ok (LO_CredentialsRejected a)"
  | (Done) n where "lookup_hint request b old r = lookup_done old n"
      "\<And>h. r = Inr h \<Longrightarrow> hint_permits request b old h"
      "\<And>s. n = Some s \<Longrightarrow> \<exists>d h. old = Some d \<and> r = Inr h \<and> number h = s \<and> is_storno_of h (number d)"
proof (cases r)
  case (Inl e)
  then show thesis using lookup_hint_err [of request b old e] that by auto
next
  case (Inr h)
  show thesis
  proof (cases "hint_permits request b old h")
    case True
    then have "lookup_hint request b old r = lookup_done old (case old of
        Some d \<Rightarrow> if is_storno_of h (number d) then Some (number h) else None | None \<Rightarrow> None)"
      using Inr by (auto simp: lookup_hint_def hint_permits_def)
    then show thesis using True Inr that(4) by (auto split: option.splits if_splits)
  next
    case False
    then show thesis using Inr that(1) by (auto simp: lookup_hint_def hint_permits_def)
  qed
qed

lemma lookup_step2_yields:
  "yields (\<lambda>r xs. writes xs = [] \<and>
      ((\<exists>n. r = lookup_done old n \<and> proceeds request b old n xs) \<or>
       (\<exists>h. r = Ok (LO_Foreign h)) \<or> (\<exists>a. r = Ok (LO_CredentialsRejected a)) \<or> (\<exists>u. r = Err u)))
     (lookup_step2 rm request b old)"
proof (cases "lr_kind request = IK_Corrective")
  case True
  then show ?thesis by (auto simp: lookup_step2_def proceeds_def intro!: yields_return)
next
  case False
  then have "lookup_step2 rm request b old =
      query_raw rm (ByOrderNumber (order_str (lr_order request))) \<bind> (\<lambda>r. ret (lookup_hint request b old r))"
    by (simp add: lookup_step2_def hint_raw_def)
  moreover have "yields (\<lambda>r xs. writes xs = [] \<and>
      ((\<exists>n. r = lookup_done old n \<and> proceeds request b old n xs) \<or>
       (\<exists>h. r = Ok (LO_Foreign h)) \<or> (\<exists>a. r = Ok (LO_CredentialsRejected a)) \<or> (\<exists>u. r = Err u))) \<dots>"
  proof (rule yields_bind [OF query_raw_yields], elim exE conjE, rule yields_return, goal_cases)
    case (1 r xs a)
    then show ?case
    proof (cases rule: lookup_hint_cases [of r request b old])
      case (Done n)
      then have "proceeds request b old n (xs @ [])" using 1 by (auto simp: proceeds_def evid_def)
      then show ?thesis using Done 1 by auto
    qed auto
  qed
  ultimately show ?thesis by simp
qed

lemma lookup_inner_yields:
  "yields (\<lambda>r xs. let sel = ByExternalId (external_str (lr_external_id request)) in
      writes xs = [] \<and>
      (r = Ok LO_Absent \<longrightarrow> evid_absent xs sel \<and> proceeds request b None None xs) \<and>
      (\<forall>d s. r = Ok (LO_Reversed d s) \<longrightarrow> evid xs sel d \<and> is_ours d (lr_order request) (lr_kind request) \<and>
          \<not> is_live d \<and> proceeds request b (Some d) s xs) \<and>
      (\<forall>d. r = Ok (LO_Live d) \<longrightarrow> evid xs sel d \<and> is_ours d (lr_order request) (lr_kind request) \<and> is_live d))
    (lookup_inner rm request b)"
  unfolding lookup_inner_def
proof (rule yields_bind [OF seen_raw_yields], goal_cases)
  case (1 r xs)
  let ?Q = "\<lambda>q ys. let sel = ByExternalId (external_str (lr_external_id request)) in
      writes ys = [] \<and>
      (q = Ok LO_Absent \<longrightarrow> evid_absent ys sel \<and> proceeds request b None None ys) \<and>
      (\<forall>d s. q = Ok (LO_Reversed d s) \<longrightarrow> evid ys sel d \<and> is_ours d (lr_order request) (lr_kind request) \<and>
          \<not> is_live d \<and> proceeds request b (Some d) s ys) \<and>
      (\<forall>d. q = Ok (LO_Live d) \<longrightarrow> evid ys sel d \<and> is_ours d (lr_order request) (lr_kind request) \<and> is_live d)"
  note e = 1 [THEN conjunct1] and raw = 1 [THEN conjunct2]
  have step2: "yields (\<lambda>q ys. ?Q q (xs @ ys)) (lookup_step2 rm request b old)"
    if "(r = Inr Seen_Absent \<and> old = None) \<or> (\<exists>d. r = Inr (Seen_Reversed d) \<and> old = Some d)" for old
  proof (rule yields_weaken [OF lookup_step2_yields])
    fix q ys
    assume "writes ys = [] \<and> ((\<exists>n. q = lookup_done old n \<and> proceeds request b old n ys) \<or>
        (\<exists>h. q = Ok (LO_Foreign h)) \<or> (\<exists>a. q = Ok (LO_CredentialsRejected a)) \<or> (\<exists>u. q = Err u))"
    moreover have "proceeds request b old n (xs @ ys)" if "proceeds request b old n ys" for n
      using that raw by (auto simp: proceeds_def evid_single)
    moreover have "proceeds request b None None (xs @ ys)" if "proceeds request b None n ys" for n
      using that raw by (auto simp: proceeds_def evid_single)
    ultimately show "?Q q (xs @ ys)"
      using that e by (auto simp: seen_evid_def lookup_done_def split: option.splits)
  qed
  show ?case
  proof (cases r)
    case (Inl err)
    then have "err \<noteq> QE_NotFound" using e by (simp add: seen_evid_def)
    then show ?thesis
      using Inl e by (cases err) (auto intro!: yields_return simp: seen_evid_def)
  next
    case (Inr s)
    then show ?thesis
      using e step2 by (cases s) (auto intro!: yields_return simp: seen_evid_def)
  qed
qed

text \<open>(C22) The lookup step lets a create go on only on evidence: it answers "absent" only after
  szamlazz.hu answered code 7 to the external id, "reversed" only with a document of this
  order and kind that szamlazz.hu reports reversed, "live" only with one it reports live; and
  whenever it goes on for a kind other than a corrective, the newest document under the order,
  if one was reported, is not a foreign live invoice (nor, for replay-enabled admission, an
  unselected live proforma).  It never writes.\<close>

theorem lookup_proceeds_on_evidence:
  "yields (\<lambda>r xs. let sel = ByExternalId (external_str (lr_external_id request)) in
      writes xs = [] \<and>
      (r = Ok LO_Absent \<longrightarrow> evid_absent xs sel \<and> proceeds request b None None xs) \<and>
      (\<forall>d s. r = Ok (LO_Reversed d s) \<longrightarrow> evid xs sel d \<and> is_ours d (lr_order request) (lr_kind request) \<and>
          \<not> is_live d \<and> proceeds request b (Some d) s xs) \<and>
      (\<forall>d. r = Ok (LO_Live d) \<longrightarrow> evid xs sel d \<and> is_ours d (lr_order request) (lr_kind request) \<and> is_live d))
    (lookup_inner rm request b)"
  by (rule lookup_inner_yields)

definition ex_lookup :: LookupRequest where
  "ex_lookup = \<lparr> lr_external_id = ExternalId (us ''acct:ORD-1:invoice''), lr_kind = IK_Invoice,
     lr_order = OrderKey (us ''ORD-1''), lr_our_numbers = [] \<rparr>"

definition ex_silent :: "unit Remote" where
  "ex_silent = scripted (\<lambda>_. Inl (code_error EC_MissingData)) (Inl (code_error EC_MalformedXml))
     (Inl (code_error EC_MalformedXml)) (Inl (code_error EC_MalformedXml))"

lemmas read_run_defs = lookup_inner_def lookup_step2_def seen_def hint_raw_def query_raw_def
  query_projected_def verify_def hint_def lookup_ours_def

theorem lookup_proceeds_on_evidence_witness:
  "fst (run_state (lookup_inner ex_silent ex_lookup False) no_world) = Ok LO_Absent \<and>
   evid_absent (trace (snd (run_state (lookup_inner ex_silent ex_lookup False) no_world)))
     (ByExternalId (us ''acct:ORD-1:invoice''))"
proof
  show r: "fst (run_state (lookup_inner ex_silent ex_lookup False) no_world) = Ok LO_Absent"
    by (simp add: read_run_defs ex_silent_def scripted_simps ex_lookup_def query_result_def
        seen_result_def lookup_hint_def lookup_done_def)
  show "evid_absent (trace (snd (run_state (lookup_inner ex_silent ex_lookup False) no_world)))
     (ByExternalId (us ''acct:ORD-1:invoice''))"
    using yields_run [OF lookup_proceeds_on_evidence [of ex_lookup False ex_silent], of no_world] r
    by (simp add: no_world_def ex_lookup_def Let_def)
qed

end
