(* ===== verification/Recovery_Contract.thy ===== *)
theory Recovery_Contract
  imports Documents
begin

text \<open>
  The unresolved-write state and the operator's recovery requests
  (\<open>contract/recovery.rs\<close>), the deletion request (\<open>contract/storno.rs\<close>) and provider document
  numbers (\<open>contract/number.rs\<close>).  JSON (de)serialisation is third-party code; what is modelled
  of it is the validation the source adds to it: the exact order key, the non-blank operator,
  the attestations.
\<close>

section \<open>Provider document numbers\<close>

datatype ProviderDocumentNumber = ProviderDocumentNumber (provider_str: ustr)

datatype InvalidProviderDocumentNumber = PN_Blank | PN_Xml RequestError

definition ProviderDocumentNumber_try_from ::
  "ustr \<Rightarrow> (ProviderDocumentNumber, InvalidProviderDocumentNumber) result" where
  "ProviderDocumentNumber_try_from value =
    (if trim value = [] then Err PN_Blank
     else try_then (map_err PN_Xml (validate_xml_text value)) (\<lambda>_. Ok (ProviderDocumentNumber value)))"

section \<open>Deletion requests\<close>

datatype DeleteMode = NamespaceOwned | NamedTarget

record DeleteProformaRequest =
  dpr_expected_number :: InvoiceNumber
  dpr_mode :: DeleteMode
  dpr_force :: bool

section \<open>The unresolved write\<close>

datatype WriteOperation =
    WO_Create IssuedKind "ustr option" "ustr option"
  | WO_Storno ustr
  | WO_Delete ustr

datatype ReplayExecutionContract =
    RequestResponseOrdinaryV1
  | RequestResponseProformaV1
  | RequestResponsePrepaymentV1
  | RequestResponseFinalV1
  | RequestResponseDeleteV1 DeleteMode bool int
  | RequestResponseStornoV1 int Date bool int

definition for_delete :: "DeleteProformaRequest \<Rightarrow> int \<Rightarrow> ReplayExecutionContract" where
  "for_delete request doc_id = RequestResponseDeleteV1 (dpr_mode request) (dpr_force request) doc_id"

datatype MarkerVersion = MarkerVersion

record UnresolvedWrite =
  uw_execution_contract :: "ReplayExecutionContract option"
  uw_proforma_number :: "ustr option"
  uw_prepayment_number :: "ustr option"
  uw_version :: MarkerVersion
  uw_token :: ustr
  uw_owner_invocation :: ustr
  uw_created_at :: ustr
  uw_scope :: "ustr option"
  uw_order :: OrderKey
  uw_namespace :: Namespace
  uw_external_id :: ustr
  uw_account_id :: ustr
  uw_endpoint :: ustr
  uw_credential_ref :: ustr
  uw_operation :: WriteOperation

text \<open>The order of a stored marker: parsed only when it needs no trimming.\<close>

definition exact_order_key :: "(ustr \<Rightarrow> bool) \<Rightarrow> ustr \<Rightarrow> (OrderKey, InvalidOrderKey option) result" where
  "exact_order_key is_nfc value =
    (if trim value \<noteq> value then Err None else map_err Some (OrderKey_parse is_nfc value))"

section \<open>Recovery requests\<close>

datatype AttestedCompletion =
    AC_Issued ProviderDocumentNumber | AC_Reversed ProviderDocumentNumber | AC_Deleted InvoiceNumber

datatype RecoveryEvidence =
    RE_Document ProviderDocumentNumber
  | RE_NotExecuted ustr
  | RE_Completed ustr AttestedCompletion

record RecoveryRequest =
  rr_operator :: ustr
  rr_marker :: UnresolvedWrite
  rr_evidence :: RecoveryEvidence

definition nonblank_operator :: "ustr \<Rightarrow> (ustr, unit) result" where
  "nonblank_operator operator = (if trim operator = [] then Err () else Ok operator)"

text \<open>The two attestations deserialise from \<open>true\<close> only.\<close>

definition attestation_from :: "bool \<Rightarrow> (unit, unit) result" where
  "attestation_from b = (if b then Ok () else Err ())"

datatype 'json UnresolvedObservation =
    Obs_Absent | Obs_Unresolved UnresolvedWrite | Obs_Unreadable | Obs_Other ustr 'json

record RecoveryResponse =
  rresp_token :: ustr
  rresp_operator :: ustr
  rresp_evidence :: RecoveryEvidence

lemma exact_order_key_exact: "exact_order_key is_nfc value = Inr key \<Longrightarrow> order_str key = value"
  by (auto simp: exact_order_key_def OrderKey_parse_Ok_iff split: if_splits)

end
