(* ===== verification/Reconcile.thy ===== *)
theory Reconcile
  imports Gateway_Reads Recovery_Contract
begin

text \<open>
  Intent-aware, read-only evidence for retained writes (\<open>gateway/recovery.rs\<close>): what a query
  establishes about a create or a storno whose reply was lost, for the immediate re-query
  after a send, for the worker's automatic recovery and for an operator's document evidence.
  The outcome types of the writes (\<open>gateway.rs\<close>) are here because evidence is reported in them.
\<close>

section \<open>Outcomes of writes\<close>

datatype CreateOutcome =
    CrO_TargetChanged | CrO_Issued IssuedDocument | CrO_Found FoundDocument
  | CrO_Reversed FoundDocument | CrO_LiveAgain FoundDocument | CrO_Reconciled FoundDocument
  | CrO_Collision FoundDocument | CrO_DuplicateOrderNumber SzamlazzAnswer "ustr option"
  | CrO_Rejected Rejection | CrO_CredentialsRejected SzamlazzAnswer | CrO_Api SzamlazzAnswer
  | CrO_Unavailable ustr

datatype StornoOutcome =
    StO_Unnumbered ustr | StO_Reversed IssuedDocument | StO_AlreadyReversed ustr "int option"
  | StO_NotStornoable | StO_Rejected Rejection | StO_CredentialsRejected SzamlazzAnswer
  | StO_Api SzamlazzAnswer | StO_Unavailable ustr

datatype DeleteOutcome =
    DO_Deleted | DO_AlreadyGone | DO_TargetChanged | DO_Paid | DO_Api SzamlazzAnswer
  | DO_GuardFailed Unanswered | DO_Inconclusive SzamlazzAnswer | DO_Rejected Rejection
  | DO_CredentialsRejected SzamlazzAnswer | DO_Lost Unanswered

datatype Unconfirmed =
    UC_ReissueEcho | UC_Transport ustr | UC_Open "ustr option" ustr | UC_Unavailable ustr
  | UC_StornoVerification ustr bool ustr | UC_ReQueryFailed ustr ustr

definition open_display :: "ustr option \<Rightarrow> ustr \<Rightarrow> ustr" where
  "open_display code message = (case code of
     Some c \<Rightarrow> msg ''open code '' @ c @ us '': '' @ message
   | None \<Rightarrow> msg ''open answer without a code or a document number: '' @ message)"

primrec Unconfirmed_display :: "Unconfirmed \<Rightarrow> ustr" where
  "Unconfirmed_display UC_ReissueEcho =
     msg ''reissue acknowledgement names the old document; replacement is not established''"
| "Unconfirmed_display (UC_Transport m) = msg ''transport failure: '' @ m"
| "Unconfirmed_display (UC_Open code message) = open_display code message"
| "Unconfirmed_display (UC_Unavailable m) = msg ''szamlazz.hu is unavailable (szlahu_down): '' @ m"
| "Unconfirmed_display (UC_StornoVerification num failed message) =
     msg ''storno send returned '' @ num @ msg '', but its reversal identity is unconfirmed: '' @ message"
| "Unconfirmed_display (UC_ReQueryFailed sent re_query) =
     sent @ msg ''; the re-query that would have settled it failed: '' @ re_query"

definition re_query_failed :: "Unconfirmed \<Rightarrow> ustr \<Rightarrow> Unconfirmed" where
  "re_query_failed unconfirmed re_query = UC_ReQueryFailed (Unconfirmed_display unconfirmed) re_query"

section \<open>Diagnostics of unresolved writes\<close>

record WriteDiagnostic =
  wd_reason :: ustr
  wd_candidate_number :: "ustr option"
  wd_notification_delivery_failed :: bool

definition WriteDiagnostic_new :: "ustr \<Rightarrow> WriteDiagnostic" where
  "WriteDiagnostic_new reason =
    \<lparr> wd_reason = reason, wd_candidate_number = None, wd_notification_delivery_failed = False \<rparr>"

primrec WriteDiagnostic_unconfirmed :: "Unconfirmed \<Rightarrow> WriteDiagnostic" where
  "WriteDiagnostic_unconfirmed UC_ReissueEcho = WriteDiagnostic_new (Unconfirmed_display UC_ReissueEcho)"
| "WriteDiagnostic_unconfirmed (UC_Open code message) = WriteDiagnostic_new (case code of
     Some c \<Rightarrow> msg ''open vendor code '' @ c | None \<Rightarrow> msg ''success without a document number'')"
| "WriteDiagnostic_unconfirmed (UC_StornoVerification num failed message) =
     \<lparr> wd_reason = msg ''numbered storno reply needs positive reversal evidence'',
       wd_candidate_number = Some num, wd_notification_delivery_failed = failed \<rparr>"
| "WriteDiagnostic_unconfirmed (UC_Transport message) = WriteDiagnostic_new message"
| "WriteDiagnostic_unconfirmed (UC_Unavailable message) = WriteDiagnostic_new message"
| "WriteDiagnostic_unconfirmed (UC_ReQueryFailed sent re_query) =
     WriteDiagnostic_new (msg ''post-send query failed'')"

datatype WriteResult =
    WR_Create CreateOutcome | WR_Storno StornoOutcome | WR_Delete DeleteOutcome
  | WR_Answered bool SzamlazzAnswer | WR_Unresolved WriteDiagnostic

definition WriteResult_unresolved :: "ustr \<Rightarrow> WriteResult" where
  "WriteResult_unresolved reason = WR_Unresolved (WriteDiagnostic_new reason)"

definition WriteResult_delete :: "DeleteOutcome \<Rightarrow> WriteResult" where
  "WriteResult_delete out = (case out of
     DO_Lost cause \<Rightarrow> WriteResult_unresolved (Unanswered_display cause)
   | DO_Inconclusive answer \<Rightarrow>
       WriteResult_unresolved (msg ''inconclusive deletion code '' @ ans_code answer)
   | settled \<Rightarrow> WR_Delete settled)"

section \<open>Evidence\<close>

definition matches_create_base :: "FoundDocument \<Rightarrow> IssuedKind \<Rightarrow> ustr option \<Rightarrow> bool" where
  "matches_create_base found kind corrected_number = (case (kind, corrected_number) of
     (IK_Corrective, Some base) \<Rightarrow> is_corrective_of found base
   | (IK_Corrective, None) \<Rightarrow> False
   | (_, Some base) \<Rightarrow> False
   | (_, None) \<Rightarrow> True)"

definition matches_corrective_base :: "FoundDocument \<Rightarrow> WriteOperation \<Rightarrow> bool" where
  "matches_corrective_base found operation = (case operation of
     WO_Create kind expected_number corrected_number \<Rightarrow> matches_create_base found kind corrected_number
   | _ \<Rightarrow> True)"

datatype StornoEvidence = SE_Verified ustr "int option" | SE_Inconclusive ustr

definition verify_order_storno ::
  "'s Remote \<Rightarrow> FoundDocument \<Rightarrow> OrderKey \<Rightarrow> ustr \<Rightarrow> ('s, (StornoEvidence, QueryError) result) prog" where
  "verify_order_storno rm found order num =
    (if \<not> is_storno_of found num \<or> \<not> carries_order found order
     then ret (Ok (SE_Inconclusive (msg ''candidate is not the original's storno of this order'')))
     else do {
       r \<leftarrow> query_raw rm (ByInvoiceNumber num);
       ret (try_then r (\<lambda>original.
         if \<not> is_stornoable original \<or> \<not> carries_order original order \<or> reversed original \<noteq> Some True
         then Ok (SE_Inconclusive (msg ''original reversal and order identity are not established''))
         else Ok (SE_Verified (number found) (Some (document_id found)))))
     })"

record ReconciliationRequest =
  rq_external_id :: ustr
  rq_order :: OrderKey
  rq_operation :: WriteOperation
  rq_candidate :: "ustr option"

datatype ReconciliationOutcome =
    RcO_Created FoundDocument | RcO_Reversed ustr "int option" | RcO_Inconclusive ustr
  | RcO_CredentialsRejected SzamlazzAnswer | RcO_Api SzamlazzAnswer

text \<open>Which document is read for the retained intent.\<close>

definition reconcile_query ::
  "'s Remote \<Rightarrow> ReconciliationRequest \<Rightarrow> ('s, (FoundDocument QueryOutcome, Unanswered) result) prog" where
  "reconcile_query rm request = (case rq_operation request of
     WO_Storno num \<Rightarrow> (case rq_candidate request of
         Some candidate \<Rightarrow> verify rm candidate
       | None \<Rightarrow> do {
           r \<leftarrow> query_raw rm (ByExternalId (rq_external_id request));
           (case outcome r of
              Inr QO_NotFound \<Rightarrow> hint rm (rq_order request)
            | other \<Rightarrow> ret other)
         })
   | _ \<Rightarrow> do {
       r \<leftarrow> query_raw rm (ByExternalId (rq_external_id request));
       ret (outcome r)
     })"

text \<open>The arms of \<open>reconcile\<close> on the storno evidence.\<close>

definition storno_reconciled :: "(StornoEvidence, QueryError) result \<Rightarrow> (ReconciliationOutcome, Unanswered) result" where
  "storno_reconciled r = (case r of
     Inr (SE_Verified n i) \<Rightarrow> Ok (RcO_Reversed n i)
   | Inr (SE_Inconclusive reason) \<Rightarrow> Ok (RcO_Inconclusive reason)
   | Inl error \<Rightarrow> try_then (answered error) (\<lambda>answer. Ok (case answer of
       An_CredentialsRejected a \<Rightarrow> RcO_CredentialsRejected a
     | An_Api a \<Rightarrow> RcO_Api a
     | An_NotFound \<Rightarrow> RcO_Inconclusive (msg ''original absent; reversal is not established''))))"

text \<open>The evidence the found document gives of the retained intent.\<close>

definition reconcile_found ::
  "'s Remote \<Rightarrow> ReconciliationRequest \<Rightarrow> FoundDocument \<Rightarrow> ('s, (ReconciliationOutcome, Unanswered) result) prog" where
  "reconcile_found rm request found =
    (if (case rq_candidate request of Some candidate \<Rightarrow> number found \<noteq> candidate | None \<Rightarrow> False)
     then ret (Ok (RcO_Inconclusive (msg ''candidate number does not match the queried document'')))
     else (case rq_operation request of
       WO_Create kind expected_number corrected_number \<Rightarrow>
         ret (Ok (if \<not> is_ours found (rq_order request) kind
                     \<or> expected_number = Some (number found)
                     \<or> \<not> matches_corrective_base found (rq_operation request)
                  then RcO_Inconclusive
                    (msg ''document does not match order, kind or expected issuance intent'')
                  else RcO_Created found))
     | WO_Storno num \<Rightarrow> do {
         r \<leftarrow> verify_order_storno rm found (rq_order request) num;
         ret (storno_reconciled r)
       }
     | WO_Delete num \<Rightarrow> ret (Ok (RcO_Inconclusive
         (msg ''deletion requires independent settlement; document queries cannot establish completion'')))))"

definition reconcile ::
  "'s Remote \<Rightarrow> ReconciliationRequest \<Rightarrow> ('s, (ReconciliationOutcome, Unanswered) result) prog" where
  "reconcile rm request = (case rq_operation request of
     WO_Delete num \<Rightarrow> ret (Ok (RcO_Inconclusive
       (msg ''deletion requires independent settlement; document queries cannot establish completion'')))
   | _ \<Rightarrow> do {
       queried \<leftarrow> reconcile_query rm request;
       (case queried of
          Inl unanswered \<Rightarrow> ret (Err unanswered)
        | Inr (QO_Found found) \<Rightarrow> reconcile_found rm request found
        | Inr (QO_CredentialsRejected answer) \<Rightarrow> ret (Ok (RcO_CredentialsRejected answer))
        | Inr (QO_Api answer) \<Rightarrow> ret (Ok (RcO_Api answer))
        | Inr QO_NotFound \<Rightarrow> ret (Ok (RcO_Inconclusive
            (msg ''document absent; absence does not settle the write''))))
     })"

section \<open>Reconciliation of a marker\<close>

text \<open>The check of a replay-contract storno marker against the pinned original.\<close>

definition check_pinned_original ::
  "'s Remote \<Rightarrow> UnresolvedWrite \<Rightarrow> WriteResult \<Rightarrow> ('s, (WriteResult, Unanswered) result) prog" where
  "check_pinned_original rm marker settled =
    (case (uw_execution_contract marker, uw_operation marker) of
       (Some (RequestResponseStornoV1 doc_id fdate einv app), WO_Storno num) \<Rightarrow> do {
         r \<leftarrow> verify rm num;
         ret (try_then r (\<lambda>out. case out of
            QO_Found original \<Rightarrow>
              if document_id original = doc_id \<and> fulfillment_date original = Some fdate
                 \<and> appearance original = app \<and> carries_order original (uw_order marker)
                 \<and> is_stornoable original \<and> reversed original = Some True
              then Ok settled
              else Ok (WriteResult_unresolved (msg ''reversal evidence does not match pinned original''))
          | QO_CredentialsRejected answer \<Rightarrow> Ok (WR_Answered True answer)
          | QO_Api answer \<Rightarrow> Ok (WR_Answered False answer)
          | QO_NotFound \<Rightarrow>
              Ok (WriteResult_unresolved (msg ''reversal evidence does not match pinned original''))))
       }
     | _ \<Rightarrow> ret (Ok settled))"

definition marker_request :: "UnresolvedWrite \<Rightarrow> ustr option \<Rightarrow> ReconciliationRequest" where
  "marker_request marker candidate =
    \<lparr> rq_external_id = uw_external_id marker, rq_order = uw_order marker,
      rq_operation = uw_operation marker, rq_candidate = candidate \<rparr>"

definition reconcile_write_checked ::
  "'s Remote \<Rightarrow> UnresolvedWrite \<Rightarrow> ustr option \<Rightarrow> ('s, (WriteResult, Unanswered) result) prog" where
  "reconcile_write_checked rm marker candidate = do {
     r \<leftarrow> reconcile rm (marker_request marker candidate);
     (case r of
        Inl unanswered \<Rightarrow> ret (Err unanswered)
      | Inr (RcO_Created found) \<Rightarrow>
          ret (Ok (WR_Create (if is_live found then CrO_Reconciled found else CrO_Reversed found)))
      | Inr (RcO_Reversed storno_number storno_document_id) \<Rightarrow>
          check_pinned_original rm marker (WR_Storno (StO_AlreadyReversed storno_number storno_document_id))
      | Inr (RcO_Inconclusive reason) \<Rightarrow> ret (Ok (WriteResult_unresolved reason))
      | Inr (RcO_CredentialsRejected answer) \<Rightarrow> ret (Ok (WR_Answered True answer))
      | Inr (RcO_Api answer) \<Rightarrow> ret (Ok (WR_Answered False answer)))
   }"

definition is_storno_operation :: "WriteOperation \<Rightarrow> bool" where
  "is_storno_operation operation = (case operation of WO_Storno num \<Rightarrow> True | _ \<Rightarrow> False)"

definition is_storno_result :: "(WriteResult, Unanswered) result \<Rightarrow> bool" where
  "is_storno_result checked = (case checked of Inr (WR_Storno out) \<Rightarrow> True | _ \<Rightarrow> False)"

definition reconcile_write :: "'s Remote \<Rightarrow> UnresolvedWrite \<Rightarrow> ustr option \<Rightarrow> ('s, WriteResult) prog" where
  "reconcile_write rm marker candidate = do {
     first \<leftarrow> reconcile_write_checked rm marker candidate;
     checked \<leftarrow> (if candidate \<noteq> None \<and> is_storno_operation (uw_operation marker)
                    \<and> \<not> is_storno_result first
                 then reconcile_write_checked rm marker None else ret first);
     ret (case checked of
        Inr (WR_Answered credentials answer) \<Rightarrow> WriteResult_unresolved
          ((if credentials then msg ''credentials rejected'' else msg ''inconclusive vendor'')
            @ msg '' code '' @ ans_code answer)
      | Inl cause \<Rightarrow> WriteResult_unresolved (Unanswered_display cause)
      | Inr result \<Rightarrow> result)
   }"

definition reconcile_write_diagnostic ::
  "'s Remote \<Rightarrow> UnresolvedWrite \<Rightarrow> WriteDiagnostic \<Rightarrow> ('s, WriteResult) prog" where
  "reconcile_write_diagnostic rm marker diagnostic = do {
     result \<leftarrow> reconcile_write rm marker (wd_candidate_number diagnostic);
     ret (case result of
        WR_Storno (StO_AlreadyReversed storno_number storno_document_id) \<Rightarrow>
          if wd_notification_delivery_failed diagnostic
             \<and> wd_candidate_number diagnostic = Some storno_number
          then WR_Storno (StO_Reversed
            \<lparr> iss_number = storno_number, iss_document_id = storno_document_id, iss_net_total = None,
              iss_gross_total = None, iss_outstanding = None, iss_customer_account_url = None,
              iss_notification_delivery_failed = True \<rparr>)
          else result
      | _ \<Rightarrow> result)
   }"

section \<open>Reconciliation only reads\<close>

lemma read_only_verify_order_storno [reads]: "read_only (verify_order_storno rm found order num)"
  by (auto simp: verify_order_storno_def intro!: read_only_bind reads)

lemma read_only_reconcile_query [reads]: "read_only (reconcile_query rm request)"
  by (auto simp: reconcile_query_def intro!: read_only_bind reads
      split: WriteOperation.split option.split sum.split QueryOutcome.split)

lemma read_only_reconcile_found [reads]: "read_only (reconcile_found rm request found)"
  by (auto simp: reconcile_found_def intro!: read_only_bind reads split: WriteOperation.split)

lemma read_only_reconcile [reads]: "read_only (reconcile rm request)"
  by (auto simp: reconcile_def intro!: read_only_bind reads
      split: WriteOperation.split sum.split QueryOutcome.split)

lemma read_only_check_pinned_original [reads]: "read_only (check_pinned_original rm marker settled)"
  by (auto simp: check_pinned_original_def intro!: read_only_bind reads
      split: option.split WriteOperation.split ReplayExecutionContract.split prod.split)

lemma read_only_reconcile_write_checked [reads]: "read_only (reconcile_write_checked rm marker candidate)"
  by (auto simp: reconcile_write_checked_def intro!: read_only_bind reads
      split: sum.split ReconciliationOutcome.split)

lemma read_only_reconcile_write [reads]: "read_only (reconcile_write rm marker candidate)"
  by (auto simp: reconcile_write_def intro!: read_only_bind reads)

lemma read_only_reconcile_write_diagnostic [reads]: "read_only (reconcile_write_diagnostic rm marker diagnostic)"
  by (auto simp: reconcile_write_diagnostic_def intro!: read_only_bind reads)

section \<open>What reconciliation settles on\<close>

text \<open>
  Positive evidence for a retained intent: for a create, a document of the order and kind, not
  the document the reissue replaces, on the intended base; for a storno, a storno of the
  original under the order together with the original itself, of the order, stornoable and
  reported reversed.  A deletion has none.
\<close>

definition create_evidence :: "Event list \<Rightarrow> ReconciliationRequest \<Rightarrow> FoundDocument \<Rightarrow> bool" where
  "create_evidence xs request d \<longleftrightarrow> (\<exists>kind expected corrected.
     rq_operation request = WO_Create kind expected corrected \<and>
     evid xs (ByExternalId (rq_external_id request)) d \<and> is_ours d (rq_order request) kind \<and>
     expected \<noteq> Some (number d) \<and> matches_create_base d kind corrected)"

definition storno_evidence :: "Event list \<Rightarrow> OrderKey \<Rightarrow> ustr \<Rightarrow> ustr \<Rightarrow> int option \<Rightarrow> bool" where
  "storno_evidence xs order original n i \<longleftrightarrow> (\<exists>d sel o'.
     evid xs sel d \<and> is_storno_of d original \<and> carries_order d order \<and> number d = n \<and>
     i = Some (document_id d) \<and>
     evid xs (ByInvoiceNumber original) o' \<and> number o' = original \<and> is_stornoable o' \<and>
     carries_order o' order \<and> reversed o' = Some True)"

lemma storno_evidence_append: "storno_evidence xs order num n i \<or> storno_evidence ys order num n i \<Longrightarrow>
    storno_evidence (xs @ ys) order num n i"
  unfolding storno_evidence_def evid_append by blast

lemma create_evidence_append: "create_evidence xs request d \<or> create_evidence ys request d \<Longrightarrow>
    create_evidence (xs @ ys) request d"
  unfolding create_evidence_def evid_append by blast

lemma storno_evidenceI:
  assumes "evid xs sel d" "is_storno_of d original" "carries_order d order"
    "evid ys (ByInvoiceNumber original) o'" "is_stornoable o'" "carries_order o' order"
    "reversed o' = Some True"
  shows "storno_evidence (xs @ ys) order original (number d) (Some (document_id d))"
  unfolding storno_evidence_def evid_append using assms evid_number by blast

lemma verify_order_storno_yields:
  "yields (\<lambda>r ys. writes ys = [] \<and> (\<forall>n i. r = Inr (SE_Verified n i) \<longrightarrow>
      (\<forall>xs sel. evid xs sel found \<longrightarrow> storno_evidence (xs @ ys) order num n i) \<and>
      n = number found \<and> i = Some (document_id found)))
     (verify_order_storno rm found order num)"
proof (cases "is_storno_of found num \<and> carries_order found order")
  case True
  then have "verify_order_storno rm found order num = query_raw rm (ByInvoiceNumber num) \<bind> (\<lambda>r.
      ret (try_then r (\<lambda>original.
         if \<not> is_stornoable original \<or> \<not> carries_order original order \<or> reversed original \<noteq> Some True
         then Ok (SE_Inconclusive (msg ''original reversal and order identity are not established''))
         else Ok (SE_Verified (number found) (Some (document_id found))))))"
    by (simp add: verify_order_storno_def)
  moreover have "yields (\<lambda>r ys. writes ys = [] \<and> (\<forall>n i. r = Inr (SE_Verified n i) \<longrightarrow>
      (\<forall>xs sel. evid xs sel found \<longrightarrow> storno_evidence (xs @ ys) order num n i) \<and>
      n = number found \<and> i = Some (document_id found))) \<dots>"
  proof (rule yields_bind [OF query_raw_evid], rule yields_return, goal_cases)
    case (1 r ys)
    then show ?case
    proof (cases r)
      case (Inr d)
      then have "evid ys (ByInvoiceNumber num) d" using 1 by simp
      then show ?thesis
        using 1 Inr True storno_evidenceI [of _ _ found num order ys d] by auto
    qed simp
  qed
  ultimately show ?thesis by simp
qed (auto simp: verify_order_storno_def intro!: yields_return)

lemma reconcile_query_yields:
  "yields (\<lambda>r xs. writes xs = [] \<and> (\<forall>d. r = Inr (QO_Found d) \<longrightarrow> (\<exists>sel. evid xs sel d \<and>
      (is_storno_operation (rq_operation request) \<or> sel = ByExternalId (rq_external_id request)))))
     (reconcile_query rm request)"
proof (cases "rq_operation request")
  case (WO_Storno num)
  show ?thesis
  proof (cases "rq_candidate request")
    case (Some c)
    show ?thesis
      unfolding reconcile_query_def WO_Storno Some
      by (simp, rule yields_weaken [OF verify_evid]) (auto simp: is_storno_operation_def)
  next
    case None
    show ?thesis
      unfolding reconcile_query_def WO_Storno None
    proof (simp, rule yields_bind [OF query_raw_evid], goal_cases)
      case (1 r xs)
      then show ?case
      proof (cases "outcome r = Inr QO_NotFound")
        case True
        show ?thesis
          unfolding True using 1
          by (simp, intro yields_weaken [OF hint_evid]) (auto simp: is_storno_operation_def)
      next
        case False
        then have "(case outcome r of Inr QO_NotFound \<Rightarrow> hint rm (rq_order request) | other \<Rightarrow> ret other)
            = ret (outcome r)"
          by (auto split: sum.split QueryOutcome.split)
        then show ?thesis
          using 1 by (auto intro!: yields_return simp: is_storno_operation_def)
      qed
    qed
  qed
qed (auto simp: reconcile_query_def intro!: yields_bind [OF query_raw_evid] yields_return)

definition reconcile_sound :: "ReconciliationRequest \<Rightarrow> (ReconciliationOutcome, Unanswered) result \<Rightarrow> Event list \<Rightarrow> bool" where
  "reconcile_sound request r xs \<longleftrightarrow> writes xs = [] \<and>
     (\<forall>d. r = Ok (RcO_Created d) \<longrightarrow> create_evidence xs request d) \<and>
     (\<forall>n i. r = Ok (RcO_Reversed n i) \<longrightarrow> (\<exists>original. rq_operation request = WO_Storno original \<and>
        storno_evidence xs (rq_order request) original n i)) \<and>
     (\<forall>c. rq_candidate request = Some c \<longrightarrow>
        (\<forall>d. r = Ok (RcO_Created d) \<longrightarrow> number d = c) \<and> (\<forall>n i. r = Ok (RcO_Reversed n i) \<longrightarrow> n = c))"

lemma storno_reconciled_iff [simp]:
  "storno_reconciled r = Inr (RcO_Reversed n i) \<longleftrightarrow> r = Inr (SE_Verified n i)"
  "storno_reconciled r \<noteq> Inr (RcO_Created d)"
proof (atomize (full), cases r)
  case (Inl e)
  then show "(storno_reconciled r = Inr (RcO_Reversed n i) \<longleftrightarrow> r = Inr (SE_Verified n i)) \<and>
      storno_reconciled r \<noteq> Inr (RcO_Created d)"
    by (cases e) (simp_all add: storno_reconciled_def)
qed (simp add: storno_reconciled_def split: StornoEvidence.split)

lemma reconcile_found_yields:
  assumes "evid xs sel found"
    "is_storno_operation (rq_operation request) \<or> sel = ByExternalId (rq_external_id request)"
  shows "yields (\<lambda>r ys. writes xs = [] \<longrightarrow> reconcile_sound request r (xs @ ys)) (reconcile_found rm request found)"
proof (cases "rq_operation request")
  case (WO_Create kind expected corrected)
  with assms show ?thesis
    by (auto simp: reconcile_found_def reconcile_sound_def create_evidence_def
        matches_corrective_base_def is_storno_operation_def intro!: yields_return split: option.splits)
next
  case (WO_Storno num)
  have "yields (\<lambda>r ys. writes xs = [] \<longrightarrow> reconcile_sound request r (xs @ ys))
      (verify_order_storno rm found (rq_order request) num \<bind> (\<lambda>r. ret (storno_reconciled r)))"
    if "rq_candidate request = None \<or> rq_candidate request = Some (number found)"
    by (rule yields_bind [OF verify_order_storno_yields], rule yields_return)
      (use assms that WO_Storno in \<open>auto simp: reconcile_sound_def\<close>)
  then show ?thesis
    using WO_Storno
    by (auto simp: reconcile_found_def reconcile_sound_def intro!: yields_return split: option.splits)
next
  case (WO_Delete num)
  then show ?thesis
    by (auto simp: reconcile_found_def reconcile_sound_def intro!: yields_return split: option.splits)
qed

lemma reconcile_yields: "yields (reconcile_sound request) (reconcile rm request)"
proof (cases "\<exists>num. rq_operation request = WO_Delete num")
  case True
  then show ?thesis
    by (auto simp: reconcile_def reconcile_sound_def intro!: yields_return)
next
  case False
  then have "reconcile rm request = reconcile_query rm request \<bind> (\<lambda>queried. case queried of
          Inl unanswered \<Rightarrow> ret (Err unanswered)
        | Inr (QO_Found found) \<Rightarrow> reconcile_found rm request found
        | Inr (QO_CredentialsRejected answer) \<Rightarrow> ret (Ok (RcO_CredentialsRejected answer))
        | Inr (QO_Api answer) \<Rightarrow> ret (Ok (RcO_Api answer))
        | Inr QO_NotFound \<Rightarrow> ret (Ok (RcO_Inconclusive
            (msg ''document absent; absence does not settle the write''))))"
    by (auto simp: reconcile_def split: WriteOperation.split)
  moreover have "yields (reconcile_sound request) \<dots>"
  proof (rule yields_bind [OF reconcile_query_yields], goal_cases)
    case (1 q xs)
    show ?case
    proof (cases "\<exists>d. q = Inr (QO_Found d)")
      case True
      then obtain d where q: "q = Inr (QO_Found d)" by blast
      then obtain sel where "evid xs sel d"
        "is_storno_operation (rq_operation request) \<or> sel = ByExternalId (rq_external_id request)"
        using 1 by blast
      from reconcile_found_yields [OF this] show ?thesis
        unfolding q using 1 by simp
    next
      case False
      then show ?thesis
        using 1 by (auto simp: reconcile_sound_def intro!: yields_return split: sum.split QueryOutcome.split)
    qed
  qed
  ultimately show ?thesis by simp
qed

text \<open>(C21) Reconciling a retained write never writes, and it settles only on positive evidence of
  that very intent: "created" only with a document szamlazz.hu reports under the external id,
  of the order and kind, on the intended base and different from the document being replaced;
  "reversed" only with a storno of the original under the order and the original itself
  reported reversed; never with another number than a submitted candidate.\<close>

theorem reconcile_settles_on_evidence:
  "yields (\<lambda>r xs. writes xs = [] \<and>
     (\<forall>d. r = Ok (RcO_Created d) \<longrightarrow> create_evidence xs request d) \<and>
     (\<forall>n i. r = Ok (RcO_Reversed n i) \<longrightarrow> (\<exists>original. rq_operation request = WO_Storno original \<and>
        storno_evidence xs (rq_order request) original n i)) \<and>
     (\<forall>c. rq_candidate request = Some c \<longrightarrow>
        (\<forall>d. r = Ok (RcO_Created d) \<longrightarrow> number d = c) \<and> (\<forall>n i. r = Ok (RcO_Reversed n i) \<longrightarrow> n = c)))
    (reconcile rm request)"
  by (rule yields_weaken [OF reconcile_yields]) (simp add: reconcile_sound_def)

definition ex_invoice_doc :: "bool option \<Rightarrow> InvoiceDocument" where
  "ex_invoice_doc rv = \<lparr> doc_info =
     \<lparr> info_id = 7, info_invoice_number = us ''E-1'', info_document_type = DT_Invoice,
       info_order_number = Some (us ''ORD-1''), info_reversed = rv,
       info_referenced_invoice_number = None, info_referenced_proforma_number = None,
       info_appearance = IA_Paper, info_issue_date = None, info_fulfillment_date = None,
       info_due_date = None, info_currency = None, info_test = None \<rparr>,
     doc_buyer = \<lparr> bi_name = us ''Buyer'', bi_tax_number = None, bi_eu_tax_number = None \<rparr>, doc_by_vat_rate = [],
     doc_total_net = Decimal 100 0, doc_total_vat = Decimal 27 0, doc_total_gross = Decimal 127 0, doc_credit_entries = [] \<rparr>"

definition ex_holder :: "bool option \<Rightarrow> unit Remote" where
  "ex_holder rv = scripted (\<lambda>_. Inr (ex_invoice_doc rv)) (Inl (code_error EC_MalformedXml))
     (Inl (code_error EC_MalformedXml)) (Inl (code_error EC_MalformedXml))"

definition ex_reconciliation :: ReconciliationRequest where
  "ex_reconciliation = \<lparr> rq_external_id = us ''acct:ORD-1:invoice'', rq_order = OrderKey (us ''ORD-1''),
     rq_operation = WO_Create IK_Invoice None None, rq_candidate = None \<rparr>"

lemma ex_number_nonblank: "trim (us ''E-1'') = us ''E-1''" "trim (us ''ORD-1'') = us ''ORD-1''"
  by (simp_all add: trim_id_iff is_whitespace_def)

lemma ex_invoice_doc_found:
  "query_result (ByExternalId s) FoundDocument_from (Inr (ex_invoice_doc rv)) = Inr (FoundDocument_from (ex_invoice_doc rv))"
  "is_ours (FoundDocument_from (ex_invoice_doc rv)) (OrderKey (us ''ORD-1'')) IK_Invoice"
  "is_live (FoundDocument_from (ex_invoice_doc rv)) \<longleftrightarrow> rv \<noteq> Some True"
  "number (FoundDocument_from (ex_invoice_doc rv)) = us ''E-1''"
  using ex_number_nonblank
  by (auto simp: query_result_Ok_iff validate_identity_Ok_iff selected_number_def ex_invoice_doc_def
      is_ours_def carries_order_def is_live_def FoundDocument_from_def trimmed_order_def)

theorem reconcile_settles_on_evidence_witness:
  "\<exists>d. fst (run_state (reconcile (ex_holder None) ex_reconciliation) no_world) = Ok (RcO_Created d) \<and>
     create_evidence (trace (snd (run_state (reconcile (ex_holder None) ex_reconciliation) no_world)))
       ex_reconciliation d"
proof -
  let ?d = "FoundDocument_from (ex_invoice_doc None)"
  have "fst (run_state (reconcile (ex_holder None) ex_reconciliation) no_world) = Ok (RcO_Created ?d)"
    by (simp add: reconcile_def reconcile_query_def reconcile_found_def read_run_defs ex_holder_def
        scripted_simps ex_reconciliation_def ex_invoice_doc_found outcome_def
        matches_corrective_base_def matches_create_base_def del: us_Cons)
  with yields_run [OF reconcile_settles_on_evidence [of ex_reconciliation "ex_holder None"], of no_world]
  show ?thesis by (auto simp: no_world_def)
qed

text \<open>A deletion is never settled by queries: reconciling one answers "inconclusive" at once,
  asks szamlazz.hu nothing and leaves the world as it is.\<close>

theorem reconcile_never_settles_deletion:
  assumes "rq_operation request = WO_Delete num"
  shows "\<exists>reason. run_state (reconcile rm request) w = (Ok (RcO_Inconclusive reason), w)"
  using assms by (simp add: reconcile_def)

theorem reconcile_never_settles_deletion_witness:
  "\<exists>reason. run_state (reconcile ex_silent \<lparr> rq_external_id = us ''acct:ORD-1:proforma'',
     rq_order = OrderKey (us ''ORD-1''), rq_operation = WO_Delete (us ''D-1''), rq_candidate = None \<rparr>)
     no_world = (Ok (RcO_Inconclusive reason), no_world)"
  by (rule reconcile_never_settles_deletion) simp

end
