(* ===== verification/Gateway_Writes.thy ===== *)
theory Gateway_Writes
  imports Reconcile Accounts
begin

text \<open>
  The writes of \<open>gateway.rs\<close>: the query-first create with its settlement of an uncertain send,
  the storno, the guarded proforma deletion and the credit entries.  Each function is the
  source's whole body over the remote side of \<open>Exchange\<close>; every early return is a branch.
\<close>

section \<open>Create requests\<close>

record CreateStepRequest =
  csr_external_id :: ExternalId
  csr_kind :: IssuedKind
  csr_order :: OrderKey
  csr_create :: CreateInvoice
  csr_reversed :: "ustr option"
  csr_corrected_number :: "ustr option"

datatype CreateStepRequestError =
    ExternalIdMismatch | OrderMismatch | KindMismatch | UnsupportedKind | CorrectiveIntentMismatch

fun outbound_intent :: "InvoiceKind \<Rightarrow> (IssuedKind \<times> ustr option) option" where
  "outbound_intent (Kind_Invoice p) = Some (IK_Invoice, None)"
| "outbound_intent Kind_Proforma = Some (IK_Proforma, None)"
| "outbound_intent (Kind_Prepayment p) = Some (IK_Prepayment, None)"
| "outbound_intent (Kind_Final n p) = Some (IK_Final, None)"
| "outbound_intent (Kind_Corrective c) = Some (IK_Corrective, Some c)"
| "outbound_intent Kind_DeliveryNote = None"

definition CreateStepRequest_new ::
  "ExternalId \<Rightarrow> IssuedKind \<Rightarrow> OrderKey \<Rightarrow> CreateInvoice \<Rightarrow> ustr option \<Rightarrow> ustr option
     \<Rightarrow> (CreateStepRequest, CreateStepRequestError) result" where
  "CreateStepRequest_new external_id kind order create old corrected_number =
    (if ci_external_id create \<noteq> Some (external_str external_id) then Err ExternalIdMismatch
     else if ih_order_number (ci_header create) \<noteq> Some (order_str order) then Err OrderMismatch
     else case outbound_intent (ci_kind create) of
       None \<Rightarrow> Err UnsupportedKind
     | Some (outbound_kind, outbound_base) \<Rightarrow>
         if outbound_kind \<noteq> kind then Err KindMismatch
         else if outbound_base \<noteq> corrected_number
                 \<or> (case corrected_number of Some n \<Rightarrow> trim n = [] | None \<Rightarrow> False)
           then Err CorrectiveIntentMismatch
         else Ok \<lparr> csr_external_id = external_id, csr_kind = kind, csr_order = order,
                   csr_create = create, csr_reversed = old, csr_corrected_number = corrected_number \<rparr>)"

definition csr_operation :: "CreateStepRequest \<Rightarrow> WriteOperation" where
  "csr_operation request = WO_Create (csr_kind request) (csr_reversed request) (csr_corrected_number request)"

definition replay_contract :: "CreateStepRequest \<Rightarrow> ReplayExecutionContract option" where
  "replay_contract request = (case csr_kind request of
     IK_Invoice \<Rightarrow> Some RequestResponseOrdinaryV1
   | IK_Proforma \<Rightarrow> Some RequestResponseProformaV1
   | IK_Prepayment \<Rightarrow> Some RequestResponsePrepaymentV1
   | IK_Final \<Rightarrow> Some RequestResponseFinalV1
   | IK_Corrective \<Rightarrow> None)"

definition csr_prepayment_number :: "CreateStepRequest \<Rightarrow> ustr option" where
  "csr_prepayment_number request = (case ci_kind (csr_create request) of
     Kind_Final prepayment_number proforma_number \<Rightarrow> prepayment_number | _ \<Rightarrow> None)"

definition csr_proforma_number :: "CreateStepRequest \<Rightarrow> ustr option" where
  "csr_proforma_number request = InvoiceKind_proforma_number (ci_kind (csr_create request))"

section \<open>Failures of a send\<close>

text \<open>Hexadecimal digits, the letters from \<open>base\<close> (65 for \<open>{:X}\<close>, 97 for \<open>{:x}\<close>).\<close>

definition hex_digit :: "nat \<Rightarrow> nat \<Rightarrow> nat" where
  "hex_digit base n = (if n < 10 then 48 + n else base + (n - 10))"

fun hex_digits :: "nat \<Rightarrow> nat \<Rightarrow> ustr" where
  "hex_digits base n = (if n < 16 then [hex_digit base n]
     else hex_digits base (n div 16) @ [hex_digit base (n mod 16)])"

declare hex_digits.simps [simp del]

text \<open>The \<open>Debug\<close> form of a character and of a text, between quotes \<open>q\<close>: the escapes of quotes,
  backslashes, controls and white space other than the blank.  The escapes of unassigned,
  formatting and combining code points need the Unicode tables and are left out; the text is
  part of diagnostics only.\<close>

definition debug_char :: "nat \<Rightarrow> nat \<Rightarrow> ustr" where
  "debug_char q c =
    (if c = q \<or> c = 92 then [92, c]
     else if c = 0 then [92, 48] else if c = 9 then [92, 116]
     else if c = 10 then [92, 110] else if c = 13 then [92, 114]
     else if is_control c \<or> (is_whitespace c \<and> c \<noteq> 32) then [92, 117, 123] @ hex_digits 97 c @ [125]
     else [c])"

definition debug_str :: "ustr \<Rightarrow> ustr" where
  "debug_str s = [34] @ concat (map (debug_char 34) s) @ [34]"

definition debug_option :: "ustr option \<Rightarrow> ustr" where
  "debug_option v = (case v of None \<Rightarrow> us ''None'' | Some s \<Rightarrow> us ''Some('' @ debug_str s @ us '')'')"

definition int_display :: "int \<Rightarrow> ustr" where
  "int_display i = (if i < 0 then us ''-'' else []) @ decimal_digits (nat \<bar>i\<bar>)"

primrec RequestError_display :: "RequestError \<Rightarrow> ustr" where
  "RequestError_display RE_MissingLineItems = msg ''document creation requires at least one line item''"
| "RequestError_display RE_MissingPrepaymentReference =
     msg ''a final invoice requires a prepayment invoice number or order number''"
| "RequestError_display RE_EmptyCreditEntryReplace =
     msg ''a replacing credit-entry request needs at least one entry: with none it would clear the invoice's payments''"
| "RequestError_display RE_MissingExchangeRate = msg ''foreign-currency documents require an exchange rate''"
| "RequestError_display RE_InvalidExchangeRate = msg ''invalid foreign-currency exchange-rate details''"
| "RequestError_display (RE_ErasureCodeCountOutOfRange n) =
     msg ''line item requests '' @ decimal_digits n @ msg '' data erasure codes; the maximum is 400''"
| "RequestError_display (RE_ParcelCountOutOfRange n) =
     msg ''waybill parcel count '' @ decimal_digits n @ msg '' exceeds 2147483647''"
| "RequestError_display (RE_InvalidDateYear field year) =
     msg ''request date `'' @ field @ msg ''` has year '' @ int_display year
       @ msg ''; supported years are 1'' @ [8211] @ msg ''9999''"
| "RequestError_display (RE_UnsupportedOnReceipt field) =
     msg ''receipt line items cannot carry `'' @ field @ msg ''`: the field is invoice-only''"
| "RequestError_display RE_InvalidXmlEncoding = msg ''request XML is not valid UTF-8''"
| "RequestError_display (RE_InvalidXmlCharacter c) =
     msg ''request XML contains character U+'' @ replicate (4 - length (hex_digits 65 c)) 48 @ hex_digits 65 c
       @ msg '', which XML 1.0 forbids''"

datatype Failure =
    F_Rejected Rejection | F_Duplicate SzamlazzAnswer | F_CredentialsRejected SzamlazzAnswer
  | F_Unknown SzamlazzAnswer | F_Unavailable ustr | F_Transport ustr

definition classify_failure :: "ustr \<Rightarrow> ClientError \<Rightarrow> Failure" where
  "classify_failure operation error = (case error of
     CE_Api api \<Rightarrow>
       if is_credential_error (api_code api) then F_CredentialsRejected (SzamlazzAnswer_from api)
       else (case ErrorCode_outcome_class (api_code api) of
          OC_DuplicateOrderNumber \<Rightarrow> F_Duplicate (SzamlazzAnswer_from api)
        | OC_Rejected \<Rightarrow> F_Rejected (Rejection_from api)
        | OC_NotFound \<Rightarrow> F_Rejected (Rejection_from api)
        | OC_Unknown \<Rightarrow> F_Unknown (SzamlazzAnswer_from api))
   | CE_Request e \<Rightarrow> F_Rejected (Rejection_request (RequestError_display e))
   | other \<Rightarrow> (case exchange operation other of
       UA_Unavailable message \<Rightarrow> F_Unavailable message
     | UA_Transport message \<Rightarrow> F_Transport message))"

section \<open>Create\<close>

definition settle_create ::
  "(Seen, QueryError) result \<Rightarrow> ustr option \<Rightarrow> (CreateOutcome option, QueryError) result" where
  "settle_create seen_r old = (case seen_r of
     Inr (Seen_Collision found) \<Rightarrow> Ok (Some (CrO_Collision found))
   | Inr (Seen_Live found) \<Rightarrow>
       if Some (number found) \<noteq> old then Ok (Some (CrO_Found found)) else Ok (Some (CrO_LiveAgain found))
   | Inr (Seen_Reversed found) \<Rightarrow>
       if Some (number found) \<noteq> old then Ok (Some (CrO_Reversed found)) else Ok None
   | Inr Seen_Absent \<Rightarrow> Ok None
   | Inl (QE_CredentialsRejected answer) \<Rightarrow> Ok (Some (CrO_CredentialsRejected answer))
   | Inl error \<Rightarrow> Err error)"

text \<open>The corrective-base check of \<open>settled_by_query\<close> on what was seen.\<close>

definition base_checked :: "CreateStepRequest \<Rightarrow> (Seen, QueryError) result \<Rightarrow> (Seen, QueryError) result" where
  "base_checked request r = (case r of
     Inr (Seen_Live found) \<Rightarrow>
       if matches_corrective_base found (csr_operation request) then r else Inr (Seen_Collision found)
   | Inr (Seen_Reversed found) \<Rightarrow>
       if matches_corrective_base found (csr_operation request) then r else Inr (Seen_Collision found)
   | _ \<Rightarrow> r)"

definition target_changed :: "CreateStepRequest \<Rightarrow> (Seen, QueryError) result \<Rightarrow> bool" where
  "target_changed request r = (case csr_reversed request of
     Some expected \<Rightarrow> (case r of
         Inr Seen_Absent \<Rightarrow> True
       | Inr (Seen_Live found) \<Rightarrow> number found \<noteq> expected
       | Inr (Seen_Reversed found) \<Rightarrow> number found \<noteq> expected
       | _ \<Rightarrow> False)
   | None \<Rightarrow> False)"

definition settled_by_query ::
  "'s Remote \<Rightarrow> CreateStepRequest \<Rightarrow> bool \<Rightarrow> ('s, (CreateOutcome option, QueryError) result) prog" where
  "settled_by_query rm request before_send = do {
     r0 \<leftarrow> seen rm (csr_external_id request) (csr_order request) (csr_kind request);
     let r = base_checked request r0;
     ret (if before_send \<and> target_changed request r then Ok (Some CrO_TargetChanged)
          else settle_create r (csr_reversed request))
   }"

definition duplicate_refusal :: "IssuedKind \<Rightarrow> SzamlazzAnswer \<Rightarrow> CreateOutcome" where
  "duplicate_refusal kind answer =
    (if kind = IK_Corrective then CrO_Rejected (Rejection_from_answer answer)
     else CrO_DuplicateOrderNumber answer None)"

definition after_duplicate :: "'s Remote \<Rightarrow> CreateStepRequest \<Rightarrow> SzamlazzAnswer \<Rightarrow> ('s, CreateOutcome) prog" where
  "after_duplicate rm request answer = do {
     settled \<leftarrow> settled_by_query rm request False;
     (case settled of
        Inr (Some (CrO_Found found)) \<Rightarrow> ret (CrO_Reconciled found)
      | Inr (Some (CrO_CredentialsRejected credentials)) \<Rightarrow> ret (duplicate_refusal (csr_kind request) answer)
      | Inr (Some out) \<Rightarrow> ret out
      | Inl error \<Rightarrow> ret (duplicate_refusal (csr_kind request) answer)
      | Inr None \<Rightarrow>
          if csr_kind request = IK_Corrective then ret (CrO_Rejected (Rejection_from_answer answer))
          else do {
            h \<leftarrow> hint_raw rm (csr_order request);
            ret (CrO_DuplicateOrderNumber answer (case h of
               Inr newest \<Rightarrow>
                 if is_live newest \<and> document_type newest = IssuedKind_document_type (csr_kind request)
                 then Some (number newest) else None
             | Inl error \<Rightarrow> None))
          })
   }"

definition settle_or ::
  "'s Remote \<Rightarrow> CreateStepRequest \<Rightarrow> Unconfirmed \<Rightarrow> ('s, (CreateOutcome, Unconfirmed) result) prog" where
  "settle_or rm request unconfirmed = do {
     r \<leftarrow> reconcile rm \<lparr> rq_external_id = external_str (csr_external_id request),
            rq_order = csr_order request, rq_operation = csr_operation request, rq_candidate = None \<rparr>;
     ret (case r of
        Inr (RcO_Created found) \<Rightarrow> Ok (if is_live found then CrO_Found found else CrO_Reversed found)
      | Inr (RcO_CredentialsRejected answer) \<Rightarrow>
          Err (re_query_failed unconfirmed (SzamlazzAnswer_display answer))
      | Inr (RcO_Api answer) \<Rightarrow> Err (re_query_failed unconfirmed (SzamlazzAnswer_display answer))
      | Inl error \<Rightarrow> Err (re_query_failed unconfirmed (Unanswered_display error))
      | Inr _ \<Rightarrow> Err unconfirmed)
   }"

datatype CreateSettlement = Immediate | Retained | RetainedWithDuplicateEvidence

definition settle_unconfirmed_create ::
  "'s Remote \<Rightarrow> CreateStepRequest \<Rightarrow> CreateSettlement \<Rightarrow> Unconfirmed \<Rightarrow> ('s, (CreateOutcome, Unconfirmed) result) prog" where
  "settle_unconfirmed_create rm request settlement unconfirmed = (case settlement of
     Immediate \<Rightarrow> settle_or rm request unconfirmed
   | _ \<Rightarrow> ret (Err unconfirmed))"

text \<open>The choice among duplicate diagnostics at the end of \<open>create_send\<close>.\<close>

definition duplicate_outcome :: "CreateStepRequest \<Rightarrow> CreateSettlement \<Rightarrow> SzamlazzAnswer \<Rightarrow> CreateOutcome \<Rightarrow> CreateOutcome" where
  "duplicate_outcome request settlement answer diagnostic =
    (if settlement = RetainedWithDuplicateEvidence
        \<and> (case diagnostic of CrO_Reconciled found \<Rightarrow> True | CrO_Reversed found \<Rightarrow> True | _ \<Rightarrow> False)
     then diagnostic
     else case diagnostic of
       CrO_DuplicateOrderNumber a existing \<Rightarrow> diagnostic
     | _ \<Rightarrow> if settlement = Immediate then diagnostic else duplicate_refusal (csr_kind request) answer)"

text \<open>The arms of \<open>create_send\<close> on the reply.\<close>

definition create_reply ::
  "'s Remote \<Rightarrow> CreateStepRequest \<Rightarrow> CreateSettlement \<Rightarrow> (CreationOutcome, ClientError) result
     \<Rightarrow> ('s, (CreateOutcome, Unconfirmed) result) prog" where
  "create_reply rm request settlement reply = (case reply of
     Inr (CO_Issued created) \<Rightarrow>
       if csr_reversed request = Some (cr_invoice_number created)
       then settle_unconfirmed_create rm request settlement UC_ReissueEcho
       else ret (Ok (CrO_Issued (IssuedDocument_from created)))
   | Inr CO_Preview \<Rightarrow> settle_unconfirmed_create rm request settlement
       (UC_Open None (msg ''the create succeeded without a document number''))
   | Inl error \<Rightarrow> (case classify_failure (msg ''create'') error of
       F_Rejected rejection \<Rightarrow> ret (Ok (CrO_Rejected rejection))
     | F_CredentialsRejected answer \<Rightarrow> ret (Ok (CrO_CredentialsRejected answer))
     | F_Unknown answer \<Rightarrow> settle_unconfirmed_create rm request settlement
         (UC_Open (Some (ans_code answer)) (ans_message answer))
     | F_Unavailable message \<Rightarrow> settle_unconfirmed_create rm request settlement (UC_Unavailable message)
     | F_Transport message \<Rightarrow> settle_unconfirmed_create rm request settlement (UC_Transport message)
     | F_Duplicate answer \<Rightarrow> do {
         diagnostic \<leftarrow> after_duplicate rm request answer;
         ret (Ok (duplicate_outcome request settlement answer diagnostic))
       }))"

definition create_send ::
  "'s Remote \<Rightarrow> CreateStepRequest \<Rightarrow> CreateSettlement \<Rightarrow> ('s, (CreateOutcome, Unconfirmed) result) prog" where
  "create_send rm request settlement = do {
     reply \<leftarrow> send_create rm (csr_create request);
     create_reply rm request settlement reply
   }"

definition create_inner :: "'s Remote \<Rightarrow> CreateStepRequest \<Rightarrow> ('s, (CreateOutcome, Unconfirmed) result) prog" where
  "create_inner rm request = do {
     r \<leftarrow> settled_by_query rm request True;
     (case r of
        Inr (Some settled) \<Rightarrow> ret (Ok settled)
      | Inr None \<Rightarrow> create_send rm request Immediate
      | Inl QE_NotFound \<Rightarrow>
          if csr_reversed request \<noteq> None then ret (Ok CrO_TargetChanged)
          else create_send rm request Immediate
      | Inl (QE_Api answer) \<Rightarrow> ret (Ok (CrO_Api answer))
      | Inl (QE_Transient answer) \<Rightarrow> ret (Ok (CrO_Api answer))
      | Inl (QE_Unavailable message) \<Rightarrow> ret (Ok (CrO_Unavailable message))
      | Inl (QE_CredentialsRejected answer) \<Rightarrow> ret (Ok (CrO_CredentialsRejected answer))
      | Inl (QE_Transport message) \<Rightarrow> ret (Err (UC_Transport message)))
   }"

text \<open>\<open>create_once\<close>: the consumed permission is a value of a type with one inhabitant.\<close>

definition create_once :: "'s Remote \<Rightarrow> CreateStepRequest \<Rightarrow> unit \<Rightarrow> ('s, (CreateOutcome, Unconfirmed) result) prog" where
  "create_once rm request permission = create_inner rm request"

section \<open>Storno\<close>

record StornoStepRequest =
  ssr_invoice_number :: ustr
  ssr_external_id :: ExternalId
  ssr_comment :: "ustr option"
  ssr_buyer_email :: "ustr option"
  ssr_e_invoice :: bool
  ssr_fulfillment_date :: Date

definition build_storno :: "Account \<Rightarrow> StornoStepRequest \<Rightarrow> StornoInvoice" where
  "build_storno account request = (StornoInvoice_new (ssr_invoice_number request))
    \<lparr> si_e_invoice := ssr_e_invoice request,
      si_external_id := Some (external_str (ssr_external_id request)),
      si_comment := ssr_comment request,
      si_buyer_email := ssr_buyer_email request,
      si_aggregator := df_aggregator (acc_defaults account),
      si_guardian := df_guardian (acc_defaults account),
      si_issue_date := None,
      si_fulfillment_date := Some (ssr_fulfillment_date request) \<rparr>"

datatype StornoReplyEvidence = SRE_Reversal | SRE_SameNumberEcho | SRE_NeedsVerification

definition StornoReplyEvidence_of :: "CreatedInvoice \<Rightarrow> ustr \<Rightarrow> StornoReplyEvidence" where
  "StornoReplyEvidence_of created original =
    (if reverses created original then SRE_Reversal
     else if cr_invoice_number created = original then SRE_SameNumberEcho
     else SRE_NeedsVerification)"

definition settle_storno ::
  "(ReportedDocument option, QueryError) result \<Rightarrow> (StornoOutcome option, QueryError) result" where
  "settle_storno seen_r = (case seen_r of
     Inr (Some rep) \<Rightarrow> Ok (Some (StO_AlreadyReversed (rep_number rep) (rep_document_id rep)))
   | Inr None \<Rightarrow> Ok None
   | Inl (QE_CredentialsRejected answer) \<Rightarrow> Ok (Some (StO_CredentialsRejected answer))
   | Inl error \<Rightarrow> Err error)"

definition storno_settled_by_query ::
  "'s Remote \<Rightarrow> StornoStepRequest \<Rightarrow> ('s, (StornoOutcome option, QueryError) result) prog" where
  "storno_settled_by_query rm request = do {
     r \<leftarrow> storno_seen rm (ssr_external_id request) (ssr_invoice_number request);
     ret (settle_storno r)
   }"

definition storno_settle_or ::
  "'s Remote \<Rightarrow> StornoStepRequest \<Rightarrow> Unconfirmed \<Rightarrow> ('s, (StornoOutcome, Unconfirmed) result) prog" where
  "storno_settle_or rm request unconfirmed = do {
     r \<leftarrow> storno_seen rm (ssr_external_id request) (ssr_invoice_number request);
     ret (case r of
        Inr (Some rep) \<Rightarrow> Ok (StO_AlreadyReversed (rep_number rep) (rep_document_id rep))
      | Inr None \<Rightarrow> Err unconfirmed
      | Inl error \<Rightarrow> Err (re_query_failed unconfirmed (QueryError_display error)))
   }"

definition verify_storno_reply ::
  "'s Remote \<Rightarrow> StornoStepRequest \<Rightarrow> CreatedInvoice \<Rightarrow> ('s, (StornoOutcome, Unconfirmed) result) prog" where
  "verify_storno_reply rm request created = do {
     r \<leftarrow> query_raw rm (ByInvoiceNumber (cr_invoice_number created));
     (let unsettled = (\<lambda>message. do {
          settled \<leftarrow> storno_settle_or rm request
            (UC_StornoVerification (cr_invoice_number created) (cr_notification_delivery_failed created) message);
          ret (try_then settled (\<lambda>out. case out of
             StO_AlreadyReversed storno_number storno_document_id \<Rightarrow>
               if cr_notification_delivery_failed created \<and> storno_number = cr_invoice_number created
               then Ok (StO_Reversed ((IssuedDocument_from created)\<lparr>iss_document_id := storno_document_id\<rparr>))
               else Ok out
           | _ \<Rightarrow> Ok out))
        }) in
      case r of
        Inr document \<Rightarrow>
          if number document = cr_invoice_number created
             \<and> is_storno_of document (ssr_invoice_number request)
          then ret (Ok (StO_Reversed
            ((IssuedDocument_from created)\<lparr>iss_document_id := Some (document_id document)\<rparr>)))
          else unsettled (msg ''queried '' @ number document @ msg '' with document type ''
            @ DocumentType_as_wire (document_type document) @ msg '' and original ''
            @ debug_option (referenced_invoice_number document) @ msg ''; expected a storno of ''
            @ ssr_invoice_number request)
      | Inl error \<Rightarrow> unsettled (QueryError_display error))
   }"

text \<open>The \<open>NeedsVerification\<close> arm of \<open>storno_send\<close> under a marker.\<close>

definition verify_marked_storno ::
  "'s Remote \<Rightarrow> UnresolvedWrite \<Rightarrow> CreatedInvoice \<Rightarrow> ('s, (StornoOutcome, Unconfirmed) result) prog" where
  "verify_marked_storno rm marker created = do {
     checked \<leftarrow> reconcile_write_checked rm marker (Some (cr_invoice_number created));
     ret (case checked of
        Inr (WR_Storno (StO_AlreadyReversed storno_number storno_document_id)) \<Rightarrow>
          Ok (StO_Reversed ((IssuedDocument_from created)\<lparr>iss_document_id := storno_document_id\<rparr>))
      | _ \<Rightarrow> Err (UC_StornoVerification (cr_invoice_number created)
          (cr_notification_delivery_failed created)
          (msg ''numbered reply needs positive identity and original reversal evidence'')))
   }"

text \<open>An uncertain storno: kept for the marker's recovery, re-queried at once without one.\<close>

definition storno_open ::
  "'s Remote \<Rightarrow> StornoStepRequest \<Rightarrow> UnresolvedWrite option \<Rightarrow> Unconfirmed \<Rightarrow> ('s, (StornoOutcome, Unconfirmed) result) prog" where
  "storno_open rm request marker unconfirmed =
    (if marker \<noteq> None then ret (Err unconfirmed) else storno_settle_or rm request unconfirmed)"

definition storno_numbered ::
  "'s Remote \<Rightarrow> StornoStepRequest \<Rightarrow> UnresolvedWrite option \<Rightarrow> ustr \<Rightarrow> CreatedInvoice \<Rightarrow> ('s, (StornoOutcome, Unconfirmed) result) prog" where
  "storno_numbered rm request marker original created =
    (case StornoReplyEvidence_of created original of
       SRE_Reversal \<Rightarrow> ret (Ok (StO_Reversed (IssuedDocument_from created)))
     | SRE_SameNumberEcho \<Rightarrow>
         if marker \<noteq> None
         then ret (Err (UC_StornoVerification (cr_invoice_number created)
           (cr_notification_delivery_failed created)
           (msg ''storno acknowledgement names the verified original; neither reversal nor non-execution is established'')))
         else ret (Ok StO_NotStornoable)
     | SRE_NeedsVerification \<Rightarrow> (case marker of
         Some m \<Rightarrow> verify_marked_storno rm m created
       | None \<Rightarrow> verify_storno_reply rm request created))"

text \<open>The arms of \<open>storno_send\<close> on the reply.\<close>

definition storno_reply ::
  "'s Remote \<Rightarrow> StornoStepRequest \<Rightarrow> UnresolvedWrite option \<Rightarrow> ustr \<Rightarrow> (StornoResponse, ClientError) result
     \<Rightarrow> ('s, (StornoOutcome, Unconfirmed) result) prog" where
  "storno_reply rm request marker original reply = (case reply of
     Inr SR_Unnumbered \<Rightarrow>
       (let unconfirmed = UC_Open None (msg ''storno acknowledged without a document number'') in
        if marker \<noteq> None then ret (Err unconfirmed)
        else do {
          r \<leftarrow> storno_settle_or rm request unconfirmed;
          ret (Ok (case r of Inr out \<Rightarrow> out | Inl cause \<Rightarrow> StO_Unnumbered (Unconfirmed_display cause)))
        })
   | Inr (SR_Numbered created) \<Rightarrow> storno_numbered rm request marker original created
   | Inl error \<Rightarrow> (case classify_failure (msg ''storno'') error of
       F_Rejected rejection \<Rightarrow> ret (Ok (StO_Rejected rejection))
     | F_Duplicate answer \<Rightarrow> ret (Ok (StO_Rejected (Rejection_from_answer answer)))
     | F_CredentialsRejected answer \<Rightarrow> ret (Ok (StO_CredentialsRejected answer))
     | F_Unknown answer \<Rightarrow>
         storno_open rm request marker (UC_Open (Some (ans_code answer)) (ans_message answer))
     | F_Unavailable message \<Rightarrow> storno_open rm request marker (UC_Unavailable message)
     | F_Transport message \<Rightarrow> storno_open rm request marker (UC_Transport message)))"

definition storno_send ::
  "'s Remote \<Rightarrow> Account \<Rightarrow> StornoStepRequest \<Rightarrow> UnresolvedWrite option \<Rightarrow> ('s, (StornoOutcome, Unconfirmed) result) prog" where
  "storno_send rm account request marker = do {
     reply \<leftarrow> send_storno rm (build_storno account request);
     storno_reply rm request marker (si_invoice_number (build_storno account request)) reply
   }"

definition storno_inner ::
  "'s Remote \<Rightarrow> Account \<Rightarrow> StornoStepRequest \<Rightarrow> ('s, (StornoOutcome, Unconfirmed) result) prog" where
  "storno_inner rm account request = do {
     r \<leftarrow> storno_settled_by_query rm request;
     (case r of
        Inr (Some settled) \<Rightarrow> ret (Ok settled)
      | Inr None \<Rightarrow> storno_send rm account request None
      | Inl QE_NotFound \<Rightarrow> storno_send rm account request None
      | Inl (QE_Api answer) \<Rightarrow> ret (Ok (StO_Api answer))
      | Inl (QE_Transient answer) \<Rightarrow> ret (Ok (StO_Api answer))
      | Inl (QE_Unavailable message) \<Rightarrow> ret (Ok (StO_Unavailable message))
      | Inl (QE_CredentialsRejected answer) \<Rightarrow> ret (Ok (StO_CredentialsRejected answer))
      | Inl (QE_Transport message) \<Rightarrow> ret (Err (UC_Transport message)))
   }"

section \<open>Deletion of a proforma\<close>

definition DeleteOutcome_from :: "ApiError \<Rightarrow> DeleteOutcome" where
  "DeleteOutcome_from api =
    (if api_code api = EC_ProformaNotFound then DO_AlreadyGone
     else if is_credential_error (api_code api) then DO_CredentialsRejected (SzamlazzAnswer_from api)
     else if api_code api = EC_XmlNotAFile \<or> api_code api = EC_MalformedXml then DO_Rejected (Rejection_from api)
     else DO_Inconclusive (SzamlazzAnswer_from api))"

text \<open>The guard of \<open>delete_proforma\<close>: \<open>Some\<close> ends the step without a send.\<close>

definition delete_check ::
  "FoundDocument \<Rightarrow> OrderKey \<Rightarrow> bool \<Rightarrow> (FoundDocument, QueryError) result \<Rightarrow> DeleteOutcome option" where
  "delete_check pinned order force r = (case r of
     Inr fresh \<Rightarrow>
       if number fresh \<noteq> number pinned \<or> document_id fresh \<noteq> document_id pinned
          \<or> \<not> is_ours fresh order IK_Proforma then Some DO_TargetChanged
       else if \<not> force \<and> credit_entries fresh \<noteq> [] then Some DO_Paid
       else None
   | Inl error \<Rightarrow> Some (case answered error of
       Inr An_NotFound \<Rightarrow> DO_AlreadyGone
     | Inr (An_CredentialsRejected answer) \<Rightarrow> DO_CredentialsRejected answer
     | Inr (An_Api answer) \<Rightarrow> DO_Api answer
     | Inl unanswered \<Rightarrow> DO_GuardFailed unanswered))"

definition delete_reply :: "(unit, ClientError) result \<Rightarrow> DeleteOutcome" where
  "delete_reply r = (case r of
     Inr _ \<Rightarrow> DO_Deleted
   | Inl (CE_Api api) \<Rightarrow> DeleteOutcome_from api
   | Inl (CE_Request e) \<Rightarrow> DO_Rejected (Rejection_request (RequestError_display e))
   | Inl error \<Rightarrow> DO_Lost (exchange (msg ''delete-proforma'') error))"

definition delete_proforma ::
  "'s Remote \<Rightarrow> FoundDocument \<Rightarrow> OrderKey \<Rightarrow> bool \<Rightarrow> ('s, DeleteOutcome) prog" where
  "delete_proforma rm pinned order force = do {
     r \<leftarrow> query_raw rm (ByInvoiceNumber (number pinned));
     (case delete_check pinned order force r of
        Some refused \<Rightarrow> ret refused
      | None \<Rightarrow> do {
          reply \<leftarrow> send_delete rm (number pinned);
          ret (delete_reply reply)
        })
   }"

section \<open>Credit entries\<close>

record CreditEntryInput =
  cei_date :: Date
  cei_title :: PaymentMethodInput
  cei_amount :: Decimal
  cei_comment :: "ustr option"

definition CreditEntry_from :: "CreditEntryInput \<Rightarrow> CreditEntry" where
  "CreditEntry_from entry = \<lparr> cre_date = cei_date entry, cre_title = PaymentMethod_of_input (cei_title entry),
     cre_amount = cei_amount entry, cre_description = cei_comment entry \<rparr>"

definition credit_entry_request ::
  "ustr \<Rightarrow> CreditEntryInput list \<Rightarrow> bool \<Rightarrow> (RegisterCreditEntry, ustr) result" where
  "credit_entry_request num entries add =
    (if 5 < length entries then Err (msg ''a credit-entry request can contain at most five entries'')
     else Ok ((RegisterCreditEntry_new num)
       \<lparr> rce_additive := add, rce_entries := map CreditEntry_from entries \<rparr>))"

datatype SetCreditEntriesOutcome =
    SC_Done "Decimal option" "Decimal option" | SC_Rejected Rejection
  | SC_CredentialsRejected SzamlazzAnswer | SC_Inconclusive SzamlazzAnswer | SC_Lost Unanswered

definition SetCreditEntriesOutcome_from :: "ApiError \<Rightarrow> SetCreditEntriesOutcome" where
  "SetCreditEntriesOutcome_from api =
    (if is_credential_error (api_code api) then SC_CredentialsRejected (SzamlazzAnswer_from api)
     else if api_code api \<in> {EC_XmlNotAFile, EC_MalformedXml, EC_PaymentOnReversedInvoice}
       then SC_Rejected (Rejection_from api)
     else SC_Inconclusive (SzamlazzAnswer_from api))"

definition set_credit_entries ::
  "'s Remote \<Rightarrow> Account \<Rightarrow> ustr \<Rightarrow> CreditEntryInput list \<Rightarrow> bool \<Rightarrow> ('s, SetCreditEntriesOutcome) prog" where
  "set_credit_entries rm account num entries add =
    (case credit_entry_request num entries add of
       Inl message \<Rightarrow> ret (SC_Rejected (Rejection_request message))
     | Inr request \<Rightarrow> do {
         r \<leftarrow> send_credit rm (request\<lparr>rce_aggregator := df_aggregator (acc_defaults account)\<rparr>);
         ret (case r of
            Inr result \<Rightarrow>
              if (case ib_invoice_number result of Some reported \<Rightarrow> reported \<noteq> num | None \<Rightarrow> False)
              then SC_Lost (UA_Transport
                (msg ''set-credit-entries: reported invoice number differs from the requested number''))
              else SC_Done (ib_outstanding result) (ib_gross_total result)
          | Inl (CE_Api api) \<Rightarrow> SetCreditEntriesOutcome_from api
          | Inl (CE_Request e) \<Rightarrow> SC_Rejected (Rejection_request (RequestError_display e))
          | Inl error \<Rightarrow> SC_Lost (exchange (msg ''set-credit-entries'') error))
       })"

section \<open>Read-only parts\<close>

lemma read_only_settled_by_query [reads]: "read_only (settled_by_query rm request b)"
  by (auto simp: settled_by_query_def Let_def intro!: read_only_bind reads)

lemma read_only_after_duplicate [reads]: "read_only (after_duplicate rm request answer)"
  by (auto simp: after_duplicate_def intro!: read_only_bind reads
      split: sum.split option.split CreateOutcome.split)

lemma read_only_settle_or [reads]: "read_only (settle_or rm request u)"
  by (auto simp: settle_or_def intro!: read_only_bind reads)

lemma read_only_settle_unconfirmed [reads]: "read_only (settle_unconfirmed_create rm request s u)"
  by (cases s) (auto simp: settle_unconfirmed_create_def intro!: reads)

lemma read_only_storno_reads [reads]:
  "read_only (storno_settled_by_query rm sr)" "read_only (storno_settle_or rm sr u)"
  "read_only (verify_marked_storno rm marker created)"
  by (auto simp: storno_settled_by_query_def storno_settle_or_def verify_marked_storno_def
      intro!: read_only_bind reads)

lemma read_only_verify_storno_reply [reads]: "read_only (verify_storno_reply rm sr created)"
  by (auto simp: verify_storno_reply_def Let_def intro!: read_only_bind reads split: sum.split)

lemma read_only_storno_numbered [reads]: "read_only (storno_numbered rm sr marker original created)"
  by (auto simp: storno_numbered_def intro!: reads split: StornoReplyEvidence.split option.split)

lemma read_only_storno_open [reads]: "read_only (storno_open rm sr marker u)"
  by (auto simp: storno_open_def intro!: reads)

section \<open>Uncertain replies\<close>

lemma credential_class: "is_credential_error c \<Longrightarrow> ErrorCode_outcome_class c = OC_Rejected"
  by (auto simp: is_credential_error_def)

text \<open>A failure leaves the outcome open exactly when its class is unknown.\<close>

lemma classify_failure_open:
  "ClientError_outcome_class e = OC_Unknown \<longleftrightarrow>
    (case classify_failure op e of F_Unknown a \<Rightarrow> True | F_Unavailable m \<Rightarrow> True | F_Transport m \<Rightarrow> True | _ \<Rightarrow> False)"
  by (cases e) (auto simp: classify_failure_def credential_class split: OutcomeClass.split Unanswered.split)

definition uncertain_create :: "CreateStepRequest \<Rightarrow> (CreationOutcome, ClientError) result \<Rightarrow> bool" where
  "uncertain_create request reply = (case reply of
     Inl e \<Rightarrow> ClientError_outcome_class e = OC_Unknown
   | Inr CO_Preview \<Rightarrow> True
   | Inr (CO_Issued created) \<Rightarrow> csr_reversed request = Some (cr_invoice_number created))"

definition csr_reconciliation :: "CreateStepRequest \<Rightarrow> ReconciliationRequest" where
  "csr_reconciliation request =
    \<lparr> rq_external_id = external_str (csr_external_id request), rq_order = csr_order request,
      rq_operation = csr_operation request, rq_candidate = None \<rparr>"

text \<open>What a create may report of the holder of its external id, from the reads \<open>xs\<close> alone: a document the
  reads named under the id, live or reversed as reported, or a query that was not answered.\<close>

definition query_answer :: "CreateStepRequest \<Rightarrow> CreateOutcome \<Rightarrow> Event list \<Rightarrow> bool" where
  "query_answer request out xs \<longleftrightarrow> (let sel = ByExternalId (external_str (csr_external_id request));
       ours = (\<lambda>d. is_ours d (csr_order request) (csr_kind request) \<and> matches_corrective_base d (csr_operation request)) in
     case out of
       CrO_Found d \<Rightarrow> is_live d \<and> create_evidence xs (csr_reconciliation request) d
     | CrO_Reversed d \<Rightarrow> \<not> is_live d \<and> create_evidence xs (csr_reconciliation request) d
     | CrO_LiveAgain d \<Rightarrow> is_live d \<and> evid xs sel d \<and> ours d \<and> csr_reversed request = Some (number d)
     | CrO_Collision d \<Rightarrow> evid xs sel d \<and> \<not> ours d
     | CrO_TargetChanged \<Rightarrow> (\<exists>n. csr_reversed request = Some n \<and>
         (evid_absent xs sel \<or> (\<exists>d. evid xs sel d \<and> ours d \<and> number d \<noteq> n)))
     | CrO_CredentialsRejected answer \<Rightarrow> True
     | CrO_Api answer \<Rightarrow> True
     | CrO_Unavailable message \<Rightarrow> True
     | _ \<Rightarrow> False)"

text \<open>What it may report when the reply to its send refused it, from the reads \<open>zs\<close> made after it.\<close>

definition refused_answer :: "CreateStepRequest \<Rightarrow> CreateSettlement \<Rightarrow> CreateOutcome \<Rightarrow> Event list \<Rightarrow> bool" where
  "refused_answer request settlement out zs \<longleftrightarrow> (case out of
     CrO_Rejected rejection \<Rightarrow> True
   | CrO_DuplicateOrderNumber answer existing \<Rightarrow> True
   | CrO_CredentialsRejected answer \<Rightarrow> True
   | CrO_Reconciled d \<Rightarrow> settlement \<noteq> Retained \<and> is_live d \<and> create_evidence zs (csr_reconciliation request) d
   | CrO_Reversed d \<Rightarrow> settlement \<noteq> Retained \<and> \<not> is_live d \<and> create_evidence zs (csr_reconciliation request) d
   | CrO_Issued d \<Rightarrow> False
   | CrO_Found d \<Rightarrow> False
   | _ \<Rightarrow> settlement = Immediate \<and> query_answer request out zs)"

text \<open>What a create may report of the reply to its send.\<close>

definition create_verdict ::
  "CreateStepRequest \<Rightarrow> CreateSettlement \<Rightarrow> (CreationOutcome, ClientError) result \<Rightarrow> Event list
     \<Rightarrow> (CreateOutcome, Unconfirmed) result \<Rightarrow> bool" where
  "create_verdict request settlement reply zs r \<longleftrightarrow>
     (if uncertain_create request reply
      then (\<exists>u. r = Err u) \<or>
        (settlement = Immediate \<and> (\<exists>d. (r = Ok (CrO_Found d) \<or> r = Ok (CrO_Reversed d)) \<and>
           create_evidence zs (csr_reconciliation request) d))
      else case reply of
        Inr (CO_Issued created) \<Rightarrow> r = Ok (CrO_Issued (IssuedDocument_from created))
      | Inr CO_Preview \<Rightarrow> False
      | Inl e \<Rightarrow> (\<exists>out. r = Ok out \<and> refused_answer request settlement out zs))"

lemma settle_or_yields:
  "yields (\<lambda>r zs. writes zs = [] \<and> ((\<exists>u. r = Err u) \<or>
      (\<exists>d. (r = Ok (CrO_Found d) \<or> r = Ok (CrO_Reversed d)) \<and>
         create_evidence zs (csr_reconciliation request) d))) (settle_or rm request u)"
  unfolding settle_or_def csr_reconciliation_def [symmetric]
  by (rule yields_bind [OF reconcile_yields], rule yields_return)
    (auto simp: reconcile_sound_def split: sum.split ReconciliationOutcome.split)

lemma settle_unconfirmed_create_yields:
  "yields (\<lambda>r zs. writes zs = [] \<and> ((\<exists>u. r = Err u) \<or> (settlement = Immediate \<and>
      (\<exists>d. (r = Ok (CrO_Found d) \<or> r = Ok (CrO_Reversed d)) \<and>
         create_evidence zs (csr_reconciliation request) d)))) (settle_unconfirmed_create rm request settlement u)"
  unfolding settle_unconfirmed_create_def
  by (cases settlement) (auto intro!: yields_return yields_weaken [OF settle_or_yields])

lemma create_evidence_later: "create_evidence zs request d \<Longrightarrow> create_evidence (ys @ e # zs) request d"
  using create_evidence_append [of "ys @ [e]" request d zs] by simp

section \<open>When a create may be sent\<close>

text \<open>
  The trace \<open>xs\<close> permits the create: nothing holds the external id for a first issue, or exactly
  the expected document of the order, kind and base holds it, still reversed, for a reissue.
\<close>

definition create_permitted :: "CreateStepRequest \<Rightarrow> Event list \<Rightarrow> bool" where
  "create_permitted request xs \<longleftrightarrow> (let sel = ByExternalId (external_str (csr_external_id request)) in
     case csr_reversed request of
       None \<Rightarrow> evid_absent xs sel
     | Some n \<Rightarrow> (\<exists>d. evid xs sel d \<and> is_ours d (csr_order request) (csr_kind request) \<and>
         \<not> is_live d \<and> number d = n \<and> matches_corrective_base d (csr_operation request)))"

lemma settled_by_query_yields:
  "yields (\<lambda>r xs. writes xs = [] \<and> (\<forall>out. r = Ok (Some out) \<longrightarrow> query_answer request out xs) \<and> r \<noteq> Err QE_NotFound \<and>
      (before_send \<and> r = Ok None \<longrightarrow> create_permitted request xs)) (settled_by_query rm request before_send)"
  unfolding settled_by_query_def Let_def
proof (rule yields_bind [OF seen_yields], rule yields_return, goal_cases)
  case (1 r xs)
  show ?case
  proof (cases r)
    case (Inl e)
    with 1 show ?thesis
      by (cases e) (simp_all add: seen_evid_def base_checked_def target_changed_def settle_create_def query_answer_def Let_def
          split: option.split)
  next
    case (Inr s)
    with 1 show ?thesis
      by (cases s; cases "csr_reversed request")
        (auto simp: seen_evid_def base_checked_def target_changed_def settle_create_def query_answer_def create_evidence_def
          csr_reconciliation_def csr_operation_def matches_corrective_base_def create_permitted_def Let_def split: if_splits)
  qed
qed

lemma query_answer_unanswered [simp]:
  "query_answer request (CrO_CredentialsRejected answer) xs" "query_answer request (CrO_Api answer) xs"
  "query_answer request (CrO_Unavailable message) xs"
  by (simp_all add: query_answer_def)

lemma query_answer_append: "query_answer request out xs \<or> query_answer request out ys \<Longrightarrow> query_answer request out (xs @ ys)"
  by (auto simp: query_answer_def Let_def intro: create_evidence_append split: CreateOutcome.splits)

lemma refused_answer_append:
  "refused_answer request settlement out xs \<or> refused_answer request settlement out ys \<Longrightarrow> refused_answer request settlement out (xs @ ys)"
  unfolding refused_answer_def
  by (auto intro: create_evidence_append query_answer_append split: CreateOutcome.splits)

lemma duplicate_refusal_refused [simp]: "refused_answer request settlement (duplicate_refusal kind answer) zs"
  by (simp add: duplicate_refusal_def refused_answer_def)

lemma query_answer_refused:
  "query_answer request out zs \<Longrightarrow> (\<forall>d. out \<noteq> CrO_Found d) \<Longrightarrow> refused_answer request Immediate out zs"
  by (cases out) (simp_all add: query_answer_def refused_answer_def)

lemma after_duplicate_yields:
  "yields (\<lambda>r zs. writes zs = [] \<and> refused_answer request Immediate r zs) (after_duplicate rm request answer)"
  unfolding after_duplicate_def
proof (rule yields_bind [OF settled_by_query_yields], goal_cases)
  case (1 r xs)
  have hint: "yields (\<lambda>b ys. writes (xs @ ys) = [] \<and> refused_answer request Immediate b (xs @ ys)) (do {
            h \<leftarrow> hint_raw rm (csr_order request);
            ret (CrO_DuplicateOrderNumber answer (f h))
          })" for f
    using 1 by (auto intro!: yields_bind [OF hint_raw_evid] yields_return simp: refused_answer_def)
  have found: "refused_answer request Immediate (CrO_Reconciled d) xs" if "r = Ok (Some (CrO_Found d))" for d
    using 1 that by (simp add: query_answer_def refused_answer_def)
  have rejected: "refused_answer request Immediate (CrO_Rejected d) xs" for d by (simp add: refused_answer_def)
  have other: "refused_answer request Immediate out xs" if "r = Ok (Some out)" "\<forall>d. out \<noteq> CrO_Found d" for out
    using 1 that by (intro query_answer_refused) simp_all
  show ?case
    using 1 hint found rejected other
    by (auto intro!: yields_return split: sum.split option.split CreateOutcome.split)
qed

lemma duplicate_outcome_refused:
  "refused_answer request Immediate diagnostic zs \<Longrightarrow>
    refused_answer request settlement (duplicate_outcome request settlement answer diagnostic) zs"
  by (cases diagnostic; cases settlement) (simp_all add: duplicate_outcome_def refused_answer_def duplicate_refusal_def)

lemma create_reply_yields:
  "yields (\<lambda>r zs. writes zs = [] \<and> create_verdict request settlement reply zs r)
     (create_reply rm request settlement reply)"
proof -
  let ?Q = "\<lambda>r zs. writes zs = [] \<and> create_verdict request settlement reply zs r"
  have unsettled: "yields ?Q (settle_unconfirmed_create rm request settlement u)"
    if "uncertain_create request reply" for u
    by (rule yields_weaken [OF settle_unconfirmed_create_yields]) (use that in \<open>auto simp: create_verdict_def\<close>)
  show ?thesis
  proof (cases reply)
    case (Inl e)
    have u: "uncertain_create request reply \<longleftrightarrow> (case classify_failure (msg ''create'') e of
        F_Unknown a \<Rightarrow> True | F_Unavailable m \<Rightarrow> True | F_Transport m \<Rightarrow> True | _ \<Rightarrow> False)"
      using classify_failure_open [of e] by (simp add: uncertain_create_def Inl)
    show ?thesis
    proof (cases "classify_failure (msg ''create'') e")
      case (F_Duplicate a)
      have "yields ?Q (do {
              diagnostic \<leftarrow> after_duplicate rm request a;
              ret (Ok (duplicate_outcome request settlement a diagnostic))
            })"
        by (rule yields_bind [OF after_duplicate_yields], rule yields_return)
          (use u F_Duplicate Inl in \<open>auto simp: create_verdict_def duplicate_outcome_refused\<close>)
      then show ?thesis by (simp add: create_reply_def Inl F_Duplicate)
    qed (use u unsettled Inl in \<open>auto intro!: yields_return simp: create_reply_def create_verdict_def refused_answer_def\<close>)
  next
    case (Inr out)
    then show ?thesis
      using unsettled
      by (cases out) (auto intro!: yields_return simp: create_reply_def create_verdict_def uncertain_create_def)
  qed
qed

lemma create_send_yields:
  "yields (\<lambda>r xs. \<exists>reply zs. xs = SentCreate (csr_create request) reply # zs \<and> writes zs = [] \<and>
      create_verdict request settlement reply zs r) (create_send rm request settlement)"
  unfolding create_send_def
proof (rule yields_bind [OF send_yields(2)])
  fix reply xs assume "xs = [SentCreate (csr_create request) reply]"
  then show "yields (\<lambda>r ys. \<exists>reply zs. xs @ ys = SentCreate (csr_create request) reply # zs \<and> writes zs = [] \<and>
      create_verdict request settlement reply zs r) (create_reply rm request settlement reply)"
    by (intro yields_weaken [OF create_reply_yields]) auto
qed

text \<open>The trace of one authorised create: nothing written, or one send of this very request
  after reads that permit it, followed by reads only.\<close>

definition single_create :: "CreateStepRequest \<Rightarrow> CreateSettlement \<Rightarrow> (CreateOutcome, Unconfirmed) result \<Rightarrow> Event list \<Rightarrow> bool" where
  "single_create request settlement r xs \<longleftrightarrow>
     (writes xs = [] \<and> (\<forall>out. r = Ok out \<longrightarrow> query_answer request out xs)) \<or>
     (\<exists>ys reply zs. xs = ys @ SentCreate (csr_create request) reply # zs \<and> writes ys = [] \<and> writes zs = [] \<and>
        create_permitted request ys \<and> create_verdict request settlement reply zs r)"

lemma create_send_permitted:
  assumes "writes ys = []" "create_permitted request ys"
  shows "yields (\<lambda>r zs. single_create request settlement r (ys @ zs)) (create_send rm request settlement)"
  by (rule yields_weaken [OF create_send_yields]) (use assms in \<open>auto simp: single_create_def\<close>)

lemma create_inner_yields: "yields (single_create request Immediate) (create_inner rm request)"
  unfolding create_inner_def
proof (rule yields_bind [OF settled_by_query_yields], goal_cases)
  case (1 r xs)
  show ?case
  proof (cases "r = Ok None")
    case True
    then show ?thesis using 1 create_send_permitted [of xs request Immediate] by simp
  next
    case False
    then show ?thesis
      using 1 by (auto intro!: yields_return simp: single_create_def
          split: sum.split option.split QueryError.split)
  qed
qed

text \<open>(C10) One call of \<open>create_once\<close> sends at most one create, and it is this very request; it is
  sent only after szamlazz.hu answered that nothing holds the external id (first issue) or
  that exactly the expected document of this order, kind and base holds it, reversed
  (reissue); after the send only reads follow.  Whatever the remote side does.\<close>

theorem create_once_sends_at_most_once:
  "yields (\<lambda>r xs. writes xs = [] \<or>
     (\<exists>ys reply zs. xs = ys @ SentCreate (csr_create request) reply # zs \<and>
        writes ys = [] \<and> writes zs = [] \<and> create_permitted request ys)) (create_once rm request permission)"
  unfolding create_once_def
  by (rule yields_weaken [OF create_inner_yields]) (auto simp: single_create_def)


definition ex_create_invoice :: CreateInvoice where
  "ex_create_invoice = (CreateInvoice_new (Kind_Invoice None)
     ((InvoiceHeader_new (2026, 7, 4) (2026, 7, 12) Transfer (Currency (us ''HUF'')) Hungarian)\<lparr> ih_order_number := Some (us ''ORD-1'') \<rparr>)
     (Buyer_new [] [] [] []) [])\<lparr> ci_external_id := Some (us ''acct:ORD-1:invoice'') \<rparr>"

lemma ex_create_invoice_simps [simp]:
  "ci_kind ex_create_invoice = Kind_Invoice None"
  "ci_external_id ex_create_invoice = Some (us ''acct:ORD-1:invoice'')"
  "ih_order_number (ci_header ex_create_invoice) = Some (us ''ORD-1'')"
  by (simp_all add: ex_create_invoice_def CreateInvoice_new_def InvoiceHeader_new_def del: us_Cons)

definition ex_create :: CreateStepRequest where
  "ex_create = \<lparr> csr_external_id = ExternalId (us ''acct:ORD-1:invoice''), csr_kind = IK_Invoice,
     csr_order = OrderKey (us ''ORD-1''), csr_create = ex_create_invoice,
     csr_reversed = None, csr_corrected_number = None \<rparr>"

text \<open>Nothing is known under any selector, and the create's reply is lost.\<close>

definition ex_lost :: "unit Remote" where
  "ex_lost = scripted (\<lambda>_. Inl (code_error EC_MissingData)) (Inl (CE_ServiceUnavailable []))
     (Inl (CE_ServiceUnavailable [])) (Inl (CE_ServiceUnavailable []))"

lemmas create_run_defs = create_once_def create_inner_def create_send_def create_reply_def
  settled_by_query_def settle_create_def base_checked_def target_changed_def
  settle_unconfirmed_create_def settle_or_def


section \<open>Storno\<close>

text \<open>The leading query saw no storno of the original under the id.\<close>

definition storno_permitted :: "StornoStepRequest \<Rightarrow> Event list \<Rightarrow> bool" where
  "storno_permitted request xs \<longleftrightarrow> (let sel = ByExternalId (external_str (ssr_external_id request)) in
     evid_absent xs sel \<or> (\<exists>d. evid xs sel d \<and> \<not> is_storno_of d (ssr_invoice_number request)))"

lemma storno_seen_yields:
  "yields (\<lambda>r xs. writes xs = [] \<and> (let sel = ByExternalId (external_str eid) in
      (r = Inr None \<longrightarrow> evid_absent xs sel \<or> (\<exists>d. evid xs sel d \<and> \<not> is_storno_of d num)) \<and>
      (\<forall>rep. r = Inr (Some rep) \<longrightarrow> (\<exists>d. evid xs sel d \<and> is_storno_of d num \<and> rep = ReportedDocument_from d)) \<and>
      r \<noteq> Inl QE_NotFound)) (storno_seen rm eid num)"
  unfolding storno_seen_def
  by (rule yields_bind [OF query_raw_evid], rule yields_return)
    (auto simp: Let_def split: sum.splits QueryError.splits if_splits)

lemma read_only_storno_reply [reads]: "read_only (storno_reply rm request marker original reply)"
  by (auto simp: storno_reply_def Let_def intro!: read_only_bind reads
      split: sum.split StornoResponse.split Failure.split)

lemma storno_inner_yields:
  "yields (\<lambda>r xs. writes xs = [] \<or>
     (\<exists>ys reply zs. xs = ys @ SentStorno (build_storno account request) reply # zs \<and>
        writes ys = [] \<and> writes zs = [] \<and> storno_permitted request ys)) (storno_inner rm account request)"
  unfolding storno_inner_def storno_settled_by_query_def State_Monad.bind_assoc State_Monad.bind_left_identity
proof (rule yields_bind [OF storno_seen_yields], goal_cases)
  case (1 r xs)
  have send: "yields (\<lambda>r' ys. writes (xs @ ys) = [] \<or>
     (\<exists>ys' reply zs. xs @ ys = ys' @ SentStorno (build_storno account request) reply # zs \<and>
        writes ys' = [] \<and> writes zs = [] \<and> storno_permitted request ys')) (storno_send rm account request None)"
    if "r = Inr None"
    unfolding storno_send_def
  proof (rule yields_bind [OF send_yields(3)], rule yields_weaken [OF read_only_storno_reply], goal_cases)
    case (1 reply ws q zs)
    then show ?case
      using that \<open>writes xs = [] \<and> _\<close> by (intro disjI2 exI [of _ xs]) (auto simp: storno_permitted_def Let_def)
  qed
  show ?case
  proof (cases "r = Inr None")
    case True
    with send show ?thesis by (simp add: settle_storno_def)
  next
    case False
    then show ?thesis
      using 1 by (auto intro!: yields_return simp: settle_storno_def Let_def
          split: sum.splits option.splits QueryError.splits)
  qed
qed

text \<open>One storno call sends at most one storno, built from the verified request (the original's
  number and fulfilment date, no issue date of its own), and only after the query of its
  external id reported no storno of that original.\<close>

theorem storno_sends_at_most_once:
  "yields (\<lambda>r xs. writes xs = [] \<or> (\<exists>ys s reply zs. xs = ys @ SentStorno s reply # zs \<and>
        writes ys = [] \<and> writes zs = [] \<and> storno_permitted request ys \<and>
        si_invoice_number s = ssr_invoice_number request \<and> si_issue_date s = None \<and>
        si_fulfillment_date s = Some (ssr_fulfillment_date request) \<and>
        si_external_id s = Some (external_str (ssr_external_id request)))) (storno_inner rm account request)"
proof (rule yields_weaken [OF storno_inner_yields], elim disjE)
  fix r xs
  assume "\<exists>ys reply zs. xs = ys @ SentStorno (build_storno account request) reply # zs \<and>
        writes ys = [] \<and> writes zs = [] \<and> storno_permitted request ys"
  moreover have "si_invoice_number (build_storno account request) = ssr_invoice_number request \<and>
      si_issue_date (build_storno account request) = None \<and>
      si_fulfillment_date (build_storno account request) = Some (ssr_fulfillment_date request) \<and>
      si_external_id (build_storno account request) = Some (external_str (ssr_external_id request))"
    by (simp add: build_storno_def StornoInvoice_new_def)
  ultimately show "writes xs = [] \<or> (\<exists>ys s reply zs. xs = ys @ SentStorno s reply # zs \<and>
        writes ys = [] \<and> writes zs = [] \<and> storno_permitted request ys \<and>
        si_invoice_number s = ssr_invoice_number request \<and> si_issue_date s = None \<and>
        si_fulfillment_date s = Some (ssr_fulfillment_date request) \<and>
        si_external_id s = Some (external_str (ssr_external_id request)))"
    by blast
qed simp

section \<open>Deletion\<close>

lemma delete_check_None_iff: "delete_check pinned order force r = None \<longleftrightarrow> (\<exists>d. r = Inr d \<and>
    number d = number pinned \<and> document_id d = document_id pinned \<and> is_ours d order IK_Proforma \<and>
    (force \<or> credit_entries d = []))"
  by (cases r) (auto simp: delete_check_def)

text \<open>What a deletion that sent nothing may report: the target is gone, changed or paid as the fresh read says,
  or the read was answered with an error or not at all.\<close>

definition unsent_delete :: "ustr \<Rightarrow> DeleteOutcome \<Rightarrow> Event list \<Rightarrow> bool" where
  "unsent_delete num out xs \<longleftrightarrow> (case out of
     DO_AlreadyGone \<Rightarrow> evid_absent xs (ByInvoiceNumber num)
   | DO_TargetChanged \<Rightarrow> (\<exists>d. evid xs (ByInvoiceNumber num) d)
   | DO_Paid \<Rightarrow> (\<exists>d. evid xs (ByInvoiceNumber num) d \<and> credit_entries d \<noteq> [])
   | DO_CredentialsRejected answer \<Rightarrow> True
   | DO_Api answer \<Rightarrow> True
   | DO_GuardFailed unanswered \<Rightarrow> True
   | _ \<Rightarrow> False)"

lemma delete_check_unsent:
  assumes "delete_check pinned order force r = Some out"
    and "\<forall>d. r = Inr d \<longrightarrow> evid xs (ByInvoiceNumber (number pinned)) d"
    and "r = Inl QE_NotFound \<longrightarrow> evid_absent xs (ByInvoiceNumber (number pinned))"
  shows "unsent_delete (number pinned) out xs"
proof (cases r)
  case (Inl e)
  with assms show ?thesis by (cases e) (auto simp: delete_check_def unsent_delete_def answered_def)
next
  case (Inr d)
  with assms show ?thesis by (auto simp: delete_check_def unsent_delete_def split: if_splits)
qed

lemma unsent_not_deleted [simp]: "\<not> unsent_delete num DO_Deleted xs"
  by (simp add: unsent_delete_def)

lemma delete_proforma_yields:
  "yields (\<lambda>r xs. (writes xs = [] \<and> unsent_delete (number pinned) r xs) \<or>
     (\<exists>ys d reply. xs = ys @ [SentDelete (number pinned) reply] \<and> writes ys = [] \<and>
        evid ys (ByInvoiceNumber (number pinned)) d \<and> document_id d = document_id pinned \<and>
        is_ours d order IK_Proforma \<and> (force \<or> credit_entries d = []) \<and> r = delete_reply reply))
    (delete_proforma rm pinned order force)"
  unfolding delete_proforma_def
proof (rule yields_bind [OF query_raw_evid], goal_cases)
  case (1 r xs)
  show ?case
  proof (cases "delete_check pinned order force r")
    case None
    then obtain d where "r = Inr d" "document_id d = document_id pinned" "is_ours d order IK_Proforma"
      "force \<or> credit_entries d = []"
      by (auto simp: delete_check_None_iff)
    with 1 None show ?thesis
      by simp (rule yields_bind [OF send_yields(4)], rule yields_return, auto)
  next
    case (Some refused)
    then show ?thesis
      using 1 delete_check_unsent [OF Some, of xs] by (auto intro!: yields_return)
  qed
qed

lemma delete_reply_Deleted_iff: "delete_reply reply = DO_Deleted \<longleftrightarrow> reply = Inr ()"
proof (cases reply)
  case (Inl e)
  then show ?thesis by (cases e) (simp_all add: delete_reply_def DeleteOutcome_from_def)
qed (simp add: delete_reply_def)

text \<open>A proforma is deleted by at most one request, naming the pinned number, and only when a
  read made just before reports that number with the pinned record id, as a proforma of this
  order, and unpaid unless the caller forces it; "deleted" is reported only when szamlazz.hu
  acknowledged the deletion.\<close>

theorem delete_proforma_guarded:
  "yields (\<lambda>r xs. (writes xs = [] \<and> r \<noteq> DO_Deleted) \<or>
     (\<exists>ys d reply. xs = ys @ [SentDelete (number pinned) reply] \<and> writes ys = [] \<and>
        evid ys (ByInvoiceNumber (number pinned)) d \<and> document_id d = document_id pinned \<and>
        is_ours d order IK_Proforma \<and> (force \<or> credit_entries d = []) \<and>
        (r = DO_Deleted \<longleftrightarrow> reply = Inr ()))) (delete_proforma rm pinned order force)"
proof (rule yields_weaken [OF delete_proforma_yields], elim disjE exE, goal_cases)
  case (2 r xs ys d reply)
  then have "xs = ys @ [SentDelete (number pinned) reply] \<and> writes ys = [] \<and>
        evid ys (ByInvoiceNumber (number pinned)) d \<and> document_id d = document_id pinned \<and>
        is_ours d order IK_Proforma \<and> (force \<or> credit_entries d = []) \<and>
        (r = DO_Deleted \<longleftrightarrow> reply = Inr ())"
    by (simp add: delete_reply_Deleted_iff)
  then show ?case by (intro disjI2 exI)
qed (rule disjI1, auto)

end
