(* ===== verification/Protected_Writes.thy ===== *)
theory Protected_Writes
  imports Gateway_Writes
begin

text \<open>
  The writes an Order invocation performs under its unresolved-write marker
  (\<open>gateway/recovery.rs\<close>): the protected create and storno of the consumed-permission contract,
  and the replay-enabled create, storno and deletion, which an interrupted run may execute
  again.  Their results distinguish what an answer establishes from what stays unresolved.
\<close>

section \<open>The protected storno lookup\<close>

definition order_storno_outcome ::
  "(StornoEvidence, QueryError) result \<Rightarrow> (StornoLookupOutcome, QueryError) result" where
  "order_storno_outcome r = (case r of
     Inr (SE_Verified storno_number storno_document_id) \<Rightarrow>
       Ok (SLO_AlreadyReversed storno_number storno_document_id)
   | Inr (SE_Inconclusive reason) \<Rightarrow> Err (QE_Transport reason)
   | Inl QE_NotFound \<Rightarrow> Err (QE_Transport (msg ''original absent; reversal is not established''))
   | Inl error \<Rightarrow> Err error)"

definition lookup_order_storno_checked ::
  "'s Remote \<Rightarrow> ExternalId \<Rightarrow> OrderKey \<Rightarrow> ustr \<Rightarrow> ('s, (StornoLookupOutcome, QueryError) result) prog" where
  "lookup_order_storno_checked rm external_id order num = do {
     r \<leftarrow> query_raw rm (ByExternalId (external_str external_id));
     (case r of
        Inr found \<Rightarrow> do {
          evidence \<leftarrow> verify_order_storno rm found order num;
          ret (order_storno_outcome evidence)
        }
      | Inl QE_NotFound \<Rightarrow> ret (Ok SLO_Absent)
      | Inl error \<Rightarrow> ret (order_storno_outcome (Err error)))
   }"

definition lookup_order_storno ::
  "'s Remote \<Rightarrow> ExternalId \<Rightarrow> OrderKey \<Rightarrow> ustr \<Rightarrow> ('s, (StornoLookupOutcome, Unanswered) result) prog" where
  "lookup_order_storno rm external_id order num = do {
     r \<leftarrow> lookup_order_storno_checked rm external_id order num;
     ret (case r of
        Inr out \<Rightarrow> Ok out
      | Inl error \<Rightarrow> try_then (answered error) (\<lambda>answer. case answer of
          An_CredentialsRejected a \<Rightarrow> Ok (SLO_CredentialsRejected a)
        | An_Api a \<Rightarrow> Ok (SLO_Api a)
        | An_NotFound \<Rightarrow>
            Err (UA_Transport (msg ''reversal evidence absent; reversal is not established''))))
   }"

section \<open>Protected create and storno\<close>

definition protected_create_result :: "(CreateOutcome, Unconfirmed) result \<Rightarrow> WriteResult" where
  "protected_create_result r = (case r of
     Inr out \<Rightarrow> WR_Create out
   | Inl cause \<Rightarrow> WR_Unresolved (WriteDiagnostic_unconfirmed cause))"

definition protected_create :: "'s Remote \<Rightarrow> CreateStepRequest \<Rightarrow> ('s, WriteResult) prog" where
  "protected_create rm request = do {
     r \<leftarrow> settled_by_query rm request True;
     (let send = do {
        sent \<leftarrow> create_send rm request Retained;
        ret (protected_create_result sent)
      } in
      case r of
        Inr (Some out) \<Rightarrow> ret (WR_Create out)
      | Inr None \<Rightarrow> send
      | Inl QE_NotFound \<Rightarrow> send
      | Inl (QE_Api answer) \<Rightarrow> ret (WR_Create (CrO_Api answer))
      | Inl (QE_Transient answer) \<Rightarrow> ret (WR_Create (CrO_Api answer))
      | Inl (QE_CredentialsRejected answer) \<Rightarrow> ret (WR_Create (CrO_CredentialsRejected answer))
      | Inl (QE_Unavailable message) \<Rightarrow> ret (WR_Create (CrO_Unavailable message))
      | Inl (QE_Transport message) \<Rightarrow> ret (WriteResult_unresolved message))
   }"

definition protected_storno_result :: "(StornoOutcome, Unconfirmed) result \<Rightarrow> WriteResult" where
  "protected_storno_result r = (case r of
     Inr (StO_Reversed document) \<Rightarrow> WR_Storno (StO_Reversed document)
   | Inr (StO_Rejected rejection) \<Rightarrow> WR_Storno (StO_Rejected rejection)
   | Inr (StO_CredentialsRejected answer) \<Rightarrow> WR_Storno (StO_CredentialsRejected answer)
   | Inl cause \<Rightarrow> WR_Unresolved (WriteDiagnostic_unconfirmed cause)
   | Inr _ \<Rightarrow> WriteResult_unresolved (msg ''storno requires positive reversal evidence''))"

definition protected_storno ::
  "'s Remote \<Rightarrow> Account \<Rightarrow> StornoStepRequest \<Rightarrow> UnresolvedWrite \<Rightarrow> ('s, WriteResult) prog" where
  "protected_storno rm account request marker = do {
     r \<leftarrow> lookup_order_storno_checked rm (ssr_external_id request) (uw_order marker) (ssr_invoice_number request);
     (case r of
        Inr (SLO_AlreadyReversed storno_number storno_document_id) \<Rightarrow>
          ret (WR_Storno (StO_AlreadyReversed storno_number storno_document_id))
      | Inr SLO_Absent \<Rightarrow> do {
          sent \<leftarrow> storno_send rm account request (Some marker);
          ret (protected_storno_result sent)
        }
      | Inr (SLO_Api answer) \<Rightarrow> ret (WR_Storno (StO_Api answer))
      | Inl (QE_Api answer) \<Rightarrow> ret (WR_Storno (StO_Api answer))
      | Inl (QE_Transient answer) \<Rightarrow> ret (WR_Storno (StO_Api answer))
      | Inr (SLO_CredentialsRejected answer) \<Rightarrow> ret (WR_Storno (StO_CredentialsRejected answer))
      | Inl (QE_CredentialsRejected answer) \<Rightarrow> ret (WR_Storno (StO_CredentialsRejected answer))
      | Inl (QE_Unavailable message) \<Rightarrow> ret (WR_Storno (StO_Unavailable message))
      | Inl cause \<Rightarrow> ret (WriteResult_unresolved (QueryError_display cause)))
   }"

section \<open>Replay-enabled create\<close>

text \<open>The kinds whose holders a replayed create reads again.\<close>

definition guarded_kinds :: "IssuedKind \<Rightarrow> DocumentKind list" where
  "guarded_kinds kind =
    (if kind = IK_Proforma then [DK_Invoice, DK_Prepayment, DK_Final]
     else if kind = IK_Final then [DK_Invoice, DK_Prepayment, DK_Proforma]
     else if kind = IK_Prepayment then [DK_Invoice, DK_Final, DK_Proforma]
     else [DK_Prepayment, DK_Final, DK_Proforma])"

text \<open>The verdict on one guarded kind: \<open>None\<close> goes on to the next.\<close>

definition replay_kind_verdict ::
  "CreateStepRequest \<Rightarrow> DocumentKind \<Rightarrow> (OwnershipOutcome, Unanswered) result \<Rightarrow> WriteDiagnostic option" where
  "replay_kind_verdict request kind r =
    (let final_base = (kind = DK_Prepayment \<and> csr_kind request = IK_Final);
         refused = Some (WriteDiagnostic_new
           (msg ''fresh '' @ DocumentKind_as_str kind @ msg '' guard did not permit issuance''));
         absent = (if final_base then Some (WriteDiagnostic_new (msg ''pinned prepayment absent or reversed''))
                   else None) in
     case r of
       Inr (OO_Live found) \<Rightarrow>
         if final_base \<and> csr_prepayment_number request = Some (number found) then None
         else if kind = DK_Proforma \<and> csr_proforma_number request = Some (number found) then None
         else refused
     | Inr OO_Absent \<Rightarrow> absent
     | Inr (OO_Reversed found) \<Rightarrow> absent
     | Inr (OO_CredentialsRejected answer) \<Rightarrow> Some (WriteDiagnostic_new
         (msg ''fresh '' @ DocumentKind_as_str kind @ msg '' credentials rejected: '' @ ans_code answer))
     | _ \<Rightarrow> refused)"

primrec check_kinds ::
  "'s Remote \<Rightarrow> Namespace \<Rightarrow> CreateStepRequest \<Rightarrow> DocumentKind list \<Rightarrow> ('s, (unit, WriteDiagnostic) result) prog" where
  "check_kinds rm namespace request [] = ret (Ok ())"
| "check_kinds rm namespace request (kind # kinds) = do {
     r \<leftarrow> lookup_ours rm (for_kind namespace (csr_order request) kind) (csr_order request) (IssuedKind_from kind);
     (case replay_kind_verdict request kind r of
        Some diagnostic \<Rightarrow> ret (Err diagnostic)
      | None \<Rightarrow> check_kinds rm namespace request kinds)
   }"

definition check_replay_create_kinds ::
  "'s Remote \<Rightarrow> CreateStepRequest \<Rightarrow> ('s, (unit, WriteDiagnostic) result) prog" where
  "check_replay_create_kinds rm request =
    (case Namespace_from_str (ExternalId_namespace (csr_external_id request)) of
       Inl e \<Rightarrow> ret (Err (WriteDiagnostic_new (msg ''invalid issuance namespace'')))
     | Inr namespace \<Rightarrow>
         if csr_kind request = IK_Final \<and> csr_prepayment_number request = None
         then ret (Err (WriteDiagnostic_new (msg ''final issuance requires pinned prepayment'')))
         else check_kinds rm namespace request (guarded_kinds (csr_kind request)))"

definition check_reference ::
  "'s Remote \<Rightarrow> ustr option \<Rightarrow> (FoundDocument \<Rightarrow> bool) \<Rightarrow> ustr \<Rightarrow> ustr \<Rightarrow> ('s, (unit, WriteDiagnostic) result) prog" where
  "check_reference rm reference holds credentials refused = (case reference of
     None \<Rightarrow> ret (Ok ())
   | Some num \<Rightarrow> do {
       r \<leftarrow> verify rm num;
       ret (case r of
          Inr (QO_Found found) \<Rightarrow> if holds found then Ok () else Err (WriteDiagnostic_new refused)
        | Inr (QO_CredentialsRejected answer) \<Rightarrow> Err (WriteDiagnostic_new (credentials @ ans_code answer))
        | _ \<Rightarrow> Err (WriteDiagnostic_new refused))
     })"

definition check_replay_create_references ::
  "'s Remote \<Rightarrow> CreateStepRequest \<Rightarrow> ('s, (unit, WriteDiagnostic) result) prog" where
  "check_replay_create_references rm request = do {
     prepayment \<leftarrow> check_reference rm (csr_prepayment_number request)
       (\<lambda>found. is_ours found (csr_order request) IK_Prepayment \<and> is_live found)
       (msg ''prepayment credentials rejected: '') (msg ''pinned prepayment no longer live on this Order'');
     (case prepayment of
        Inl diagnostic \<Rightarrow> ret (Err diagnostic)
      | Inr _ \<Rightarrow> check_reference rm (csr_proforma_number request)
          (\<lambda>found. carries_order found (csr_order request) \<and> document_type found = DT_Proforma \<and> is_live found)
          (msg ''pinned proforma credentials rejected: '') (msg ''pinned proforma no longer live on this Order''))
   }"

text \<open>When the newest document of the order permits the issuance.\<close>

definition replay_hint_permits :: "CreateStepRequest \<Rightarrow> FoundDocument \<Rightarrow> bool" where
  "replay_hint_permits request found \<longleftrightarrow>
     (csr_prepayment_number request = Some (number found) \<and> is_ours found (csr_order request) IK_Prepayment) \<or>
     (document_type found = DT_Proforma \<and> csr_proforma_number request = Some (number found)
        \<and> carries_order found (csr_order request)) \<or>
     \<not> is_live found \<or>
     (\<not> is_invoice_family found \<and> document_type found \<noteq> DT_Proforma)"

definition check_replay_create_hint ::
  "'s Remote \<Rightarrow> CreateStepRequest \<Rightarrow> ('s, (unit, WriteDiagnostic) result) prog" where
  "check_replay_create_hint rm request = do {
     r \<leftarrow> hint_raw rm (csr_order request);
     (let refused = Err (WriteDiagnostic_new (msg ''fresh order hint did not permit issuance'')) in
      ret (case r of
         Inl QE_NotFound \<Rightarrow> Ok ()
       | Inl (QE_CredentialsRejected answer) \<Rightarrow>
           Err (WriteDiagnostic_new (msg ''fresh order hint credentials rejected: '' @ ans_code answer))
       | Inr found \<Rightarrow> if replay_hint_permits request found then Ok () else refused
       | _ \<Rightarrow> refused))
   }"

definition replay_create_result :: "(CreateOutcome, Unconfirmed) result \<Rightarrow> WriteResult" where
  "replay_create_result r = (case r of
     Inr (CrO_Issued d) \<Rightarrow> WR_Create (CrO_Issued d)
   | Inr (CrO_Found d) \<Rightarrow> WR_Create (CrO_Found d)
   | Inr (CrO_Reconciled d) \<Rightarrow> WR_Create (CrO_Reconciled d)
   | Inr (CrO_Reversed d) \<Rightarrow> WR_Create (CrO_Reversed d)
   | Inr (CrO_CredentialsRejected answer) \<Rightarrow>
       WriteResult_unresolved (msg ''issuance credentials rejected: '' @ ans_code answer)
   | Inr (CrO_Rejected rejection) \<Rightarrow>
       WriteResult_unresolved (msg ''issuance refusal: '' @ RejectionCode_as_str (rej_code rejection))
   | Inr (CrO_DuplicateOrderNumber answer existing) \<Rightarrow>
       WriteResult_unresolved (msg ''issuance duplicate refusal: '' @ ans_code answer)
   | Inr _ \<Rightarrow> WriteResult_unresolved (msg ''guard or query did not establish issuance'')
   | Inl cause \<Rightarrow> WR_Unresolved (WriteDiagnostic_unconfirmed cause))"

text \<open>The verdict on the holder of the external id: \<open>None\<close> goes on to the guards.\<close>

definition replay_holder :: "ustr option \<Rightarrow> (Seen, QueryError) result \<Rightarrow> WriteResult option" where
  "replay_holder old r =
    (let refused = Some (WriteResult_unresolved (msg ''holder does not permit the retained issuance intent'')) in
     case r of
       Inr Seen_Absent \<Rightarrow> if old = None then None else refused
     | Inr (Seen_Reversed found) \<Rightarrow>
         if old = Some (number found) then None else Some (WR_Create (CrO_Reversed found))
     | Inr (Seen_Live found) \<Rightarrow>
         if old \<noteq> Some (number found) then Some (WR_Create (CrO_Found found)) else refused
     | Inr (Seen_Collision found) \<Rightarrow> refused
     | Inl (QE_CredentialsRejected answer) \<Rightarrow>
         Some (WriteResult_unresolved (msg ''holder credentials rejected: '' @ ans_code answer))
     | Inl error \<Rightarrow> Some (WriteResult_unresolved (msg ''holder query failed'')))"

text \<open>A guard of the replay: its diagnostic ends the write unresolved.\<close>

definition guarded_by ::
  "('s, (unit, WriteDiagnostic) result) prog \<Rightarrow> ('s, WriteResult) prog \<Rightarrow> ('s, WriteResult) prog" where
  "guarded_by check k = do {
     r \<leftarrow> check;
     (case r of Inl unresolved \<Rightarrow> ret (WR_Unresolved unresolved) | Inr _ \<Rightarrow> k)
   }"

text \<open>\<open>before_send\<close> is an observation point of the tests; it exchanges nothing with szamlazz.hu.\<close>

definition create_replay_enabled :: "'s Remote \<Rightarrow> CreateStepRequest \<Rightarrow> ('s, WriteResult) prog" where
  "create_replay_enabled rm request =
    (if replay_contract request = None \<or> csr_corrected_number request \<noteq> None
     then ret (WriteResult_unresolved (msg ''unsupported replay-enabled issuance intent''))
     else do {
       r \<leftarrow> seen rm (csr_external_id request) (csr_order request) (csr_kind request);
       (case replay_holder (csr_reversed request) r of
          Some result \<Rightarrow> ret result
        | None \<Rightarrow>
            guarded_by (check_replay_create_kinds rm request)
           (guarded_by (check_replay_create_references rm request)
           (guarded_by (check_replay_create_hint rm request) (do {
              sent \<leftarrow> create_send rm request RetainedWithDuplicateEvidence;
              ret (replay_create_result sent)
            }))))
     })"

section \<open>Replay-enabled storno\<close>

text \<open>The arms on the fresh original: \<open>Inl\<close> ends the write.\<close>

definition replay_original :: "(FoundDocument QueryOutcome, Unanswered) result \<Rightarrow> (FoundDocument, WriteResult) result" where
  "replay_original r = (case r of
     Inr (QO_Found found) \<Rightarrow> Ok found
   | Inr (QO_CredentialsRejected answer) \<Rightarrow>
       Err (WriteResult_unresolved (msg ''original credentials rejected: '' @ ans_code answer))
   | Inr (QO_Api answer) \<Rightarrow> Err (WriteResult_unresolved (msg ''original query vendor code '' @ ans_code answer))
   | Inr QO_NotFound \<Rightarrow> Err (WriteResult_unresolved (msg ''original absent; reversal not established''))
   | Inl cause \<Rightarrow> Err (WriteResult_unresolved (msg ''original query unanswered: '' @ Unanswered_display cause)))"

definition replay_storno_result :: "(StornoOutcome, Unconfirmed) result \<Rightarrow> WriteResult" where
  "replay_storno_result r = (case r of
     Inr (StO_Reversed document) \<Rightarrow> WR_Storno (StO_Reversed document)
   | Inr (StO_AlreadyReversed n i) \<Rightarrow> WR_Storno (StO_AlreadyReversed n i)
   | Inr (StO_CredentialsRejected answer) \<Rightarrow>
       WriteResult_unresolved (msg ''storno credentials rejected: '' @ ans_code answer)
   | Inr (StO_Rejected rejection) \<Rightarrow>
       WriteResult_unresolved (msg ''storno refused: '' @ RejectionCode_as_str (rej_code rejection)
         @ msg ''; earlier execution remains unresolved'')
   | Inr _ \<Rightarrow> WriteResult_unresolved (msg ''storno answer did not establish reversal'')
   | Inl cause \<Rightarrow> WR_Unresolved (WriteDiagnostic_unconfirmed cause))"

definition storno_contract :: "StornoStepRequest \<Rightarrow> FoundDocument \<Rightarrow> ReplayExecutionContract" where
  "storno_contract request pinned = RequestResponseStornoV1 (document_id pinned)
     (ssr_fulfillment_date request) (ssr_e_invoice request) (appearance pinned)"

text \<open>The arms on the storno lookup: \<open>None\<close> goes on to the fresh original, \<open>Some None\<close> settles by
  reconciliation, \<open>Some (Some result)\<close> ends the write.\<close>

definition replay_storno_lookup :: "(StornoLookupOutcome, QueryError) result \<Rightarrow> WriteResult option option" where
  "replay_storno_lookup r =
    (let credentials = (\<lambda>answer. Some (Some (WriteResult_unresolved
           (msg ''storno lookup credentials rejected: '' @ ans_code answer))));
         vendor = (\<lambda>answer. Some (Some (WriteResult_unresolved
           (msg ''storno lookup vendor code '' @ ans_code answer)))) in
     case r of
       Inr (SLO_AlreadyReversed n i) \<Rightarrow> Some None
     | Inr SLO_Absent \<Rightarrow> None
     | Inl (QE_CredentialsRejected answer) \<Rightarrow> credentials answer
     | Inr (SLO_CredentialsRejected answer) \<Rightarrow> credentials answer
     | Inl (QE_Api answer) \<Rightarrow> vendor answer
     | Inl (QE_Transient answer) \<Rightarrow> vendor answer
     | Inr (SLO_Api answer) \<Rightarrow> vendor answer
     | Inl cause \<Rightarrow> Some (Some (WriteResult_unresolved
         (msg ''storno lookup inconclusive: '' @ QueryError_display cause))))"

definition same_original :: "StornoStepRequest \<Rightarrow> UnresolvedWrite \<Rightarrow> FoundDocument \<Rightarrow> FoundDocument \<Rightarrow> bool" where
  "same_original request marker pinned fresh \<longleftrightarrow>
     document_id fresh = document_id pinned \<and> carries_order fresh (uw_order marker) \<and>
     is_stornoable fresh \<and> fulfillment_date fresh = Some (ssr_fulfillment_date request) \<and>
     appearance fresh = appearance pinned"

definition storno_replay_enabled ::
  "'s Remote \<Rightarrow> Account \<Rightarrow> StornoStepRequest \<Rightarrow> UnresolvedWrite \<Rightarrow> FoundDocument \<Rightarrow> ('s, WriteResult) prog" where
  "storno_replay_enabled rm account request marker pinned =
    (if uw_execution_contract marker \<noteq> Some (storno_contract request pinned)
        \<or> uw_operation marker \<noteq> WO_Storno (ssr_invoice_number request)
        \<or> uw_external_id marker \<noteq> external_str (ssr_external_id request)
     then ret (WriteResult_unresolved (msg ''storno request differs from retained original intent''))
     else do {
       r \<leftarrow> lookup_order_storno_checked rm (ssr_external_id request) (uw_order marker) (ssr_invoice_number request);
       (case replay_storno_lookup r of
          Some None \<Rightarrow> reconcile_write rm marker None
        | Some (Some result) \<Rightarrow> ret result
        | None \<Rightarrow> do {
            v \<leftarrow> verify rm (ssr_invoice_number request);
            (case replay_original v of
               Inl result \<Rightarrow> ret result
             | Inr fresh \<Rightarrow>
                 if \<not> same_original request marker pinned fresh
                 then ret (WriteResult_unresolved (msg ''fresh original differs from pinned storno intent''))
                 else if \<not> is_live fresh then reconcile_write rm marker None
                 else do {
                   sent \<leftarrow> storno_send rm account request (Some marker);
                   ret (replay_storno_result sent)
                 })
          })
     })"

section \<open>Replay-enabled deletion\<close>

text \<open>The namespace check of a deletion: \<open>None\<close> goes on.\<close>

definition delete_namespace_verdict ::
  "FoundDocument \<Rightarrow> (OwnershipOutcome, Unanswered) result \<Rightarrow> WriteResult option" where
  "delete_namespace_verdict found r =
    (let changed = WriteResult_unresolved (msg ''deletion namespace target changed or collided'');
         same = (\<lambda>current. number current = number found \<and> document_id current = document_id found) in
     case r of
       Inr (OO_Live current) \<Rightarrow> if same current then None else Some changed
     | Inr (OO_Reversed current) \<Rightarrow> if same current then None else Some changed
     | Inr (OO_CredentialsRejected answer) \<Rightarrow>
         Some (WriteResult_unresolved (msg ''deletion namespace credentials rejected: '' @ ans_code answer))
     | Inr OO_Absent \<Rightarrow> Some (WriteResult_unresolved
         (msg ''deletion namespace holder absent; absence does not settle deletion''))
     | Inr (OO_Api answer) \<Rightarrow>
         Some (WriteResult_unresolved (msg ''deletion namespace vendor code '' @ ans_code answer))
     | Inl cause \<Rightarrow> Some (WriteResult_unresolved
         (msg ''deletion namespace query unanswered: '' @ Unanswered_display cause))
     | Inr (OO_Collision current) \<Rightarrow> Some changed)"

primrec replay_delete_result :: "DeleteOutcome \<Rightarrow> WriteResult" where
  "replay_delete_result DO_Deleted = WR_Delete DO_Deleted"
| "replay_delete_result (DO_CredentialsRejected answer) =
     WriteResult_unresolved (msg ''deletion credentials rejected: '' @ ans_code answer)"
| "replay_delete_result DO_AlreadyGone =
     WriteResult_unresolved (msg ''proforma reported absent; absence does not settle earlier deletion'')"
| "replay_delete_result DO_Paid =
     WriteResult_unresolved (msg ''fresh deletion paid guard refused; earlier deletion remains unresolved'')"
| "replay_delete_result DO_TargetChanged =
     WriteResult_unresolved (msg ''fresh deletion target changed; earlier deletion remains unresolved'')"
| "replay_delete_result (DO_Api answer) =
     WriteResult_unresolved (msg ''deletion guard vendor code '' @ ans_code answer)"
| "replay_delete_result (DO_Rejected rejection) =
     WriteResult_unresolved (msg ''deletion refused: '' @ RejectionCode_as_str (rej_code rejection)
       @ msg ''; earlier execution remains unresolved'')"
| "replay_delete_result (DO_Inconclusive answer) =
     WriteResult_unresolved (msg ''inconclusive deletion code '' @ ans_code answer)"
| "replay_delete_result (DO_GuardFailed cause) =
     WriteResult_unresolved (msg ''deletion guard unanswered: '' @ Unanswered_display cause)"
| "replay_delete_result (DO_Lost cause) =
     WriteResult_unresolved (msg ''deletion answer lost: '' @ Unanswered_display cause)"

definition delete_replay_enabled ::
  "'s Remote \<Rightarrow> ExternalId \<Rightarrow> UnresolvedWrite \<Rightarrow> FoundDocument \<Rightarrow> DeleteProformaRequest \<Rightarrow> ('s, WriteResult) prog" where
  "delete_replay_enabled rm external_id marker found request =
    (if uw_execution_contract marker \<noteq> Some (for_delete request (document_id found))
        \<or> uw_operation marker \<noteq> WO_Delete (number found)
     then ret (WriteResult_unresolved (msg ''deletion request differs from retained intent''))
     else do {
       verdict \<leftarrow> (if dpr_mode request = NamespaceOwned
                   then do {
                     r \<leftarrow> lookup_ours rm external_id (uw_order marker) IK_Proforma;
                     ret (delete_namespace_verdict found r)
                   }
                   else ret None);
       (case verdict of
          Some result \<Rightarrow> ret result
        | None \<Rightarrow> do {
            out \<leftarrow> delete_proforma rm found (uw_order marker) (dpr_force request);
            ret (replay_delete_result out)
          })
     })"

section \<open>Read-only parts\<close>

lemma read_only_lookup_order_storno_checked [reads]:
  "read_only (lookup_order_storno_checked rm eid order num)"
  by (auto simp: lookup_order_storno_checked_def intro!: read_only_bind reads split: sum.split QueryError.split)

lemma read_only_lookup_order_storno [reads]: "read_only (lookup_order_storno rm eid order num)"
  by (auto simp: lookup_order_storno_def intro!: read_only_bind reads)

lemma read_only_check_reference [reads]: "read_only (check_reference rm reference P a b)"
  by (auto simp: check_reference_def intro!: read_only_bind reads split: option.split)

section \<open>Protected create\<close>

text \<open>A write szamlazz.hu refused: its reply rules out that it took effect.\<close>

definition refused_write :: "Event \<Rightarrow> bool" where
  "refused_write e \<longleftrightarrow> (case e of
     SentCreate c (Inl error) \<Rightarrow> ClientError_outcome_class error \<noteq> OC_Unknown
   | SentStorno s (Inl error) \<Rightarrow> ClientError_outcome_class error \<noteq> OC_Unknown
   | SentDelete n (Inl error) \<Rightarrow> ClientError_outcome_class error \<noteq> OC_Unknown
   | _ \<Rightarrow> False)"

text \<open>What the settled results of a create rest on: the reply that names a new number, a document the reads name
  for this intent, a reply that refused the create, or that nothing was sent.\<close>

definition create_sound :: "CreateStepRequest \<Rightarrow> WriteResult \<Rightarrow> Event list \<Rightarrow> bool" where
  "create_sound request r xs \<longleftrightarrow> (case r of
     WR_Create (CrO_Issued d) \<Rightarrow> (\<exists>created. SentCreate (csr_create request) (Inr (CO_Issued created)) \<in> set xs \<and>
       d = IssuedDocument_from created \<and> csr_reversed request \<noteq> Some (cr_invoice_number created))
   | WR_Create (CrO_Found d) \<Rightarrow> is_live d \<and> create_evidence xs (csr_reconciliation request) d
   | WR_Create (CrO_Reconciled d) \<Rightarrow> is_live d \<and> create_evidence xs (csr_reconciliation request) d
   | WR_Create (CrO_Reversed d) \<Rightarrow> \<not> is_live d \<and> create_evidence xs (csr_reconciliation request) d
   | WR_Create (CrO_Rejected rejection) \<Rightarrow> writes xs \<noteq> [] \<and> list_all refused_write (writes xs)
   | WR_Create (CrO_DuplicateOrderNumber answer existing) \<Rightarrow> writes xs \<noteq> [] \<and> list_all refused_write (writes xs)
   | WR_Create (CrO_CredentialsRejected answer) \<Rightarrow> list_all refused_write (writes xs)
   | WR_Create out \<Rightarrow> writes xs = []
   | _ \<Rightarrow> False)"

lemma query_answer_sound: "writes xs = [] \<Longrightarrow> query_answer request out xs \<Longrightarrow> create_sound request (WR_Create out) xs"
  by (cases out) (simp_all add: query_answer_def create_sound_def)

definition protected_create_trace :: "CreateStepRequest \<Rightarrow> WriteResult \<Rightarrow> Event list \<Rightarrow> bool" where
  "protected_create_trace request r xs \<longleftrightarrow>
     ((\<exists>diagnostic. r = WR_Unresolved diagnostic) \<or> create_sound request r xs) \<and>
     ((writes xs = [] \<and> (\<forall>d. r \<noteq> WR_Create (CrO_Issued d))) \<or>
      (\<exists>ys reply zs. xs = ys @ SentCreate (csr_create request) reply # zs \<and> writes ys = [] \<and> writes zs = [] \<and>
        create_permitted request ys \<and>
        (uncertain_create request reply \<longleftrightarrow> (\<exists>diagnostic. r = WR_Unresolved diagnostic)) \<and>
        (\<forall>d. r = WR_Create (CrO_Issued d) \<longleftrightarrow> (\<not> uncertain_create request reply \<and>
           (\<exists>created. reply = Inr (CO_Issued created) \<and> d = IssuedDocument_from created)))))"

lemma query_answer_not_issued: "query_answer request out xs \<Longrightarrow> out \<noteq> CrO_Issued d"
  by (auto simp: query_answer_def)

lemma retained_create_sound:
  assumes v: "create_verdict request Retained reply zs s" and w: "writes ys = []" "writes zs = []"
  shows "(\<exists>diagnostic. protected_create_result s = WR_Unresolved diagnostic) \<or>
    create_sound request (protected_create_result s) (ys @ SentCreate (csr_create request) reply # zs)"
proof (cases "uncertain_create request reply")
  case True
  with v show ?thesis by (auto simp: create_verdict_def protected_create_result_def)
next
  case False
  show ?thesis
  proof (cases reply)
    case (Inl e)
    with False v obtain out where "s = Ok out" "refused_answer request Retained out zs" by (auto simp: create_verdict_def)
    with False Inl w show ?thesis
      by (cases out) (auto simp: protected_create_result_def create_sound_def refused_answer_def refused_write_def uncertain_create_def)
  next
    case (Inr out)
    with False v w show ?thesis
      by (cases out) (auto simp: create_verdict_def protected_create_result_def create_sound_def uncertain_create_def)
  qed
qed

lemma protected_create_yields: "yields (protected_create_trace request) (protected_create rm request)"
  unfolding protected_create_def Let_def
proof (rule yields_bind [OF settled_by_query_yields], goal_cases)
  case (1 r xs)
  show ?case
  proof (cases "r = Ok None")
    case True
    have "writes xs = []" "create_permitted request xs" using 1 True by simp_all
    then show ?thesis
      unfolding True sum.case option.case protected_create_trace_def
    proof (intro yields_bind [OF create_send_yields] yields_return conjI, goal_cases)
      case (1 s ws)
      then show ?case using retained_create_sound [of request _ _ s xs] by auto
    next
      case (2 s ws)
      then obtain reply zs where ws: "ws = SentCreate (csr_create request) reply # zs" "writes zs = []"
        and v: "create_verdict request Retained reply zs s" by blast
      have "(uncertain_create request reply \<longleftrightarrow> (\<exists>diagnostic. protected_create_result s = WR_Unresolved diagnostic)) \<and>
        (\<forall>d. protected_create_result s = WR_Create (CrO_Issued d) \<longleftrightarrow> (\<not> uncertain_create request reply \<and>
           (\<exists>created. reply = Inr (CO_Issued created) \<and> d = IssuedDocument_from created)))"
        using v by (auto simp: create_verdict_def protected_create_result_def uncertain_create_def refused_answer_def
            split: if_splits sum.splits CreationOutcome.splits)
      with 2 ws show ?case by (intro disjI2 exI [of _ xs] exI [of _ reply] exI [of _ zs]) simp
    qed
  next
    case False
    have unsent: "protected_create_trace request (WR_Create out) xs" if "query_answer request out xs" for out
      using that 1 query_answer_sound [of xs request out] query_answer_not_issued [of request out xs]
      by (auto simp: protected_create_trace_def)
    have "protected_create_trace request (WR_Unresolved d) xs" for d
      using 1 by (simp add: protected_create_trace_def)
    with False unsent show ?thesis
      using 1 by (auto intro!: yields_return simp: WriteResult_unresolved_def
          split: sum.split option.split QueryError.split)
  qed
qed

text \<open>(C12) A protected create sends at most one create, its own, and only when the leading query
  permits it; a send ends unresolved exactly when its reply leaves the outcome open, and
  "issued" is reported exactly for a reply that names a new number.  Whatever the remote
  does.\<close>

theorem protected_create_keeps_uncertainty:
  "yields (\<lambda>r xs. (writes xs = [] \<and> (\<forall>d. r \<noteq> WR_Create (CrO_Issued d))) \<or>
     (\<exists>ys reply zs. xs = ys @ SentCreate (csr_create request) reply # zs \<and> writes ys = [] \<and> writes zs = [] \<and>
        create_permitted request ys \<and>
        (uncertain_create request reply \<longleftrightarrow> (\<exists>diagnostic. r = WR_Unresolved diagnostic)) \<and>
        (\<forall>d. r = WR_Create (CrO_Issued d) \<longleftrightarrow> (\<not> uncertain_create request reply \<and>
           (\<exists>created. reply = Inr (CO_Issued created) \<and> d = IssuedDocument_from created)))))
    (protected_create rm request)"
  by (rule yields_weaken [OF protected_create_yields]) (unfold protected_create_trace_def, elim conjE)

section \<open>Replay-enabled create\<close>

lemma guarded_by_yields:
  assumes "yields R check" "\<And>r xs d. R r xs \<Longrightarrow> r = Inl d \<Longrightarrow> Q (WR_Unresolved d) xs"
    "\<And>xs. R (Inr ()) xs \<Longrightarrow> yields (\<lambda>b ys. Q b (xs @ ys)) k"
  shows "yields Q (guarded_by check k)"
  unfolding guarded_by_def
  by (rule yields_bind [OF assms(1)]) (use assms(2,3) in \<open>auto intro!: yields_return split: sum.split\<close>)

text \<open>What the reads established of one guarded kind: nothing of it is live under the namespace,
  but for the pinned references of the request.\<close>

definition kind_clear :: "CreateStepRequest \<Rightarrow> Namespace \<Rightarrow> Event list \<Rightarrow> DocumentKind \<Rightarrow> bool" where
  "kind_clear request namespace xs kind \<longleftrightarrow>
     (let sel = ByExternalId (external_str (for_kind namespace (csr_order request) kind)) in
      (\<not> (kind = DK_Prepayment \<and> csr_kind request = IK_Final) \<and> (evid_absent xs sel \<or>
         (\<exists>d. evid xs sel d \<and> is_ours d (csr_order request) (IssuedKind_from kind) \<and> \<not> is_live d))) \<or>
      (\<exists>d. evid xs sel d \<and> is_ours d (csr_order request) (IssuedKind_from kind) \<and> is_live d \<and>
         (kind = DK_Prepayment \<and> csr_kind request = IK_Final \<and> csr_prepayment_number request = Some (number d) \<or>
          kind = DK_Proforma \<and> csr_proforma_number request = Some (number d))))"

lemma kind_clear_append: "kind_clear request ns xs kind \<or> kind_clear request ns ys kind \<Longrightarrow>
    kind_clear request ns (xs @ ys) kind"
  unfolding kind_clear_def Let_def evid_append evid_absent_append by blast

lemma replay_kind_verdict_None:
  "replay_kind_verdict request kind r = None \<Longrightarrow>
    (\<exists>d. r = Inr (OO_Live d) \<and>
       (kind = DK_Prepayment \<and> csr_kind request = IK_Final \<and> csr_prepayment_number request = Some (number d) \<or>
        kind = DK_Proforma \<and> csr_proforma_number request = Some (number d))) \<or>
    (\<not> (kind = DK_Prepayment \<and> csr_kind request = IK_Final) \<and> (r = Inr OO_Absent \<or> (\<exists>d. r = Inr (OO_Reversed d))))"
  by (auto simp: replay_kind_verdict_def Let_def split: sum.splits OwnershipOutcome.splits if_splits)

lemma check_kinds_yields:
  "yields (\<lambda>r xs. writes xs = [] \<and> (r = Inr () \<longrightarrow> (\<forall>kind \<in> set kinds. kind_clear request ns xs kind)))
     (check_kinds rm ns request kinds)"
proof (induction kinds)
  case Nil
  then show ?case by (auto intro!: yields_return)
next
  case (Cons kind kinds)
  show ?case
    unfolding check_kinds.simps
  proof (rule yields_bind [OF lookup_ours_evid], goal_cases)
    case (1 r xs)
    show ?case
    proof (cases "replay_kind_verdict request kind r")
      case None
      then have "kind_clear request ns xs kind"
        using 1 replay_kind_verdict_None [OF None] by (auto simp: kind_clear_def Let_def)
      then show ?thesis
        unfolding None option.case
        by (intro yields_weaken [OF Cons.IH]) (use 1 in \<open>auto intro: kind_clear_append\<close>)
    next
      case (Some d)
      then show ?thesis using 1 by (auto intro!: yields_return)
    qed
  qed
qed

lemma check_reference_yields:
  "yields (\<lambda>r xs. writes xs = [] \<and> (r = Inr () \<longrightarrow>
      (\<forall>n. reference = Some n \<longrightarrow> (\<exists>d. evid xs (ByInvoiceNumber n) d \<and> P d)))) (check_reference rm reference P a b)"
proof (cases reference)
  case (Some n)
  show ?thesis
    unfolding check_reference_def Some option.case
    by (rule yields_bind [OF verify_evid], rule yields_return)
      (auto split: sum.splits QueryOutcome.splits if_splits)
qed (auto simp: check_reference_def intro!: yields_return)

definition references_live :: "CreateStepRequest \<Rightarrow> Event list \<Rightarrow> bool" where
  "references_live request xs \<longleftrightarrow>
     (\<forall>n. csr_prepayment_number request = Some n \<longrightarrow> (\<exists>d. evid xs (ByInvoiceNumber n) d \<and>
        is_ours d (csr_order request) IK_Prepayment \<and> is_live d)) \<and>
     (\<forall>n. csr_proforma_number request = Some n \<longrightarrow> (\<exists>d. evid xs (ByInvoiceNumber n) d \<and>
        carries_order d (csr_order request) \<and> document_type d = DT_Proforma \<and> is_live d))"

lemma references_yields:
  "yields (\<lambda>r xs. writes xs = [] \<and> (r = Inr () \<longrightarrow> references_live request xs))
     (check_replay_create_references rm request)"
  unfolding check_replay_create_references_def
proof (rule yields_bind [OF check_reference_yields], goal_cases)
  case (1 r xs)
  show ?case
  proof (cases r)
    case (Inl d)
    then show ?thesis using 1 by (auto intro!: yields_return)
  next
    case (Inr u)
    then show ?thesis
      unfolding Inr sum.case
      by (intro yields_weaken [OF check_reference_yields]) (use 1 Inr in \<open>simp add: references_live_def, blast\<close>)
  qed
qed

definition hint_clear :: "CreateStepRequest \<Rightarrow> Event list \<Rightarrow> bool" where
  "hint_clear request xs \<longleftrightarrow> (let sel = ByOrderNumber (order_str (csr_order request)) in
     evid_absent xs sel \<or> (\<exists>d. evid xs sel d \<and> replay_hint_permits request d))"

lemma hint_yields:
  "yields (\<lambda>r xs. writes xs = [] \<and> (r = Inr () \<longrightarrow> hint_clear request xs)) (check_replay_create_hint rm request)"
  unfolding check_replay_create_hint_def hint_raw_def Let_def
  by (rule yields_bind [OF query_raw_evid], rule yields_return)
    (auto simp: hint_clear_def Let_def split: sum.splits QueryError.splits if_splits)

lemma kinds_yields:
  "yields (\<lambda>r xs. writes xs = [] \<and> (r = Inr () \<longrightarrow> (\<exists>ns.
      Namespace_from_str (ExternalId_namespace (csr_external_id request)) = Ok ns \<and>
      (\<forall>kind \<in> set (guarded_kinds (csr_kind request)). kind_clear request ns xs kind))))
     (check_replay_create_kinds rm request)"
  unfolding check_replay_create_kinds_def
  by (auto intro!: yields_return yields_weaken [OF check_kinds_yields] split: sum.split)

text \<open>Everything a replayed create checked before it sends.\<close>

definition replay_create_permitted :: "CreateStepRequest \<Rightarrow> Event list \<Rightarrow> bool" where
  "replay_create_permitted request xs \<longleftrightarrow> create_permitted request xs \<and>
     (\<exists>ns. Namespace_from_str (ExternalId_namespace (csr_external_id request)) = Ok ns \<and>
        (\<forall>kind \<in> set (guarded_kinds (csr_kind request)). kind_clear request ns xs kind)) \<and>
     references_live request xs \<and> hint_clear request xs"

definition replay_create_positive :: "WriteResult \<Rightarrow> bool" where
  "replay_create_positive r \<longleftrightarrow> (case r of
     WR_Create (CrO_Issued d) \<Rightarrow> True | WR_Create (CrO_Found d) \<Rightarrow> True
   | WR_Create (CrO_Reconciled d) \<Rightarrow> True | WR_Create (CrO_Reversed d) \<Rightarrow> True | _ \<Rightarrow> False)"

lemma replay_create_result_cases:
  "(\<exists>d. replay_create_result s = WR_Unresolved d) \<or> replay_create_positive (replay_create_result s)"
  by (auto simp: replay_create_result_def replay_create_positive_def WriteResult_unresolved_def
      split: sum.split CreateOutcome.split)

lemma create_permitted_append: "create_permitted request xs \<Longrightarrow> create_permitted request (xs @ ys)"
  by (auto simp: create_permitted_def Let_def split: option.splits)

definition replay_create_trace :: "CreateStepRequest \<Rightarrow> WriteResult \<Rightarrow> Event list \<Rightarrow> bool" where
  "replay_create_trace request r xs \<longleftrightarrow>
     ((\<exists>d. r = WR_Unresolved d) \<or> (replay_create_positive r \<and> create_sound request r xs)) \<and>
     ((writes xs = [] \<and> (\<forall>d. r \<noteq> WR_Create (CrO_Issued d))) \<or>
      (\<exists>ys reply zs. xs = ys @ SentCreate (csr_create request) reply # zs \<and> writes ys = [] \<and> writes zs = [] \<and>
        replay_create_permitted request ys \<and>
        (uncertain_create request reply \<longrightarrow> (\<exists>d. r = WR_Unresolved d)) \<and>
        (\<forall>d. r = WR_Create (CrO_Issued d) \<longrightarrow> (\<exists>created. reply = Inr (CO_Issued created) \<and>
           d = IssuedDocument_from created))))"

lemma replayed_create_sound:
  assumes v: "create_verdict request RetainedWithDuplicateEvidence reply zs s"
  shows "(\<exists>d. replay_create_result s = WR_Unresolved d) \<or>
    create_sound request (replay_create_result s) (ys @ SentCreate (csr_create request) reply # zs)"
proof (cases "uncertain_create request reply")
  case True
  with v show ?thesis by (auto simp: create_verdict_def replay_create_result_def)
next
  case False
  show ?thesis
  proof (cases reply)
    case (Inl e)
    with False v obtain out where "s = Ok out" "refused_answer request RetainedWithDuplicateEvidence out zs" by (auto simp: create_verdict_def)
    then show ?thesis
      by (cases out) (auto simp: replay_create_result_def create_sound_def refused_answer_def WriteResult_unresolved_def intro: create_evidence_later)
  next
    case (Inr out)
    with False v show ?thesis
      by (cases out) (auto simp: create_verdict_def replay_create_result_def create_sound_def uncertain_create_def)
  qed
qed

lemma replayed_create_issued:
  assumes v: "create_verdict request RetainedWithDuplicateEvidence reply zs s"
    and "replay_create_result s = WR_Create (CrO_Issued d)"
  shows "\<exists>created. reply = Inr (CO_Issued created) \<and> d = IssuedDocument_from created"
proof -
  have s: "s = Ok (CrO_Issued d)"
    using assms(2) by (auto simp: replay_create_result_def WriteResult_unresolved_def split: sum.splits CreateOutcome.splits)
  show ?thesis
    using v unfolding s by (cases reply) (auto simp: create_verdict_def refused_answer_def split: if_splits CreationOutcome.splits)
qed

lemma replay_create_send_yields:
  assumes "writes ys = []" "replay_create_permitted request ys"
  shows "yields (\<lambda>r zs. replay_create_trace request r (ys @ zs)) (do {
            sent \<leftarrow> create_send rm request RetainedWithDuplicateEvidence;
            ret (replay_create_result sent)
          })"
proof (rule yields_bind [OF create_send_yields], rule yields_return, goal_cases)
  case (1 s xs)
  then obtain reply zs where xs: "xs = SentCreate (csr_create request) reply # zs" "writes zs = []"
    and v: "create_verdict request RetainedWithDuplicateEvidence reply zs s" by blast
  have "(uncertain_create request reply \<longrightarrow> (\<exists>d. replay_create_result s = WR_Unresolved d)) \<and>
      (\<forall>d. replay_create_result s = WR_Create (CrO_Issued d) \<longrightarrow> (\<exists>created. reply = Inr (CO_Issued created) \<and>
           d = IssuedDocument_from created))"
    using v replayed_create_issued [OF v] by (auto simp: create_verdict_def replay_create_result_def)
  then show ?case
    unfolding replay_create_trace_def using assms xs replay_create_result_cases [of s] replayed_create_sound [OF v, of ys]
    by (intro conjI, simp only: xs append_Nil2, blast) (intro disjI2 exI [of _ ys] exI [of _ reply] exI [of _ zs], simp)
qed

lemma replay_create_unsent:
  "writes xs = [] \<Longrightarrow> (\<exists>d. r = WR_Unresolved d) \<or> (replay_create_positive r \<and> create_sound request r xs \<and> (\<forall>d. r \<noteq> WR_Create (CrO_Issued d))) \<Longrightarrow>
    replay_create_trace request r xs"
  by (auto simp: replay_create_trace_def)

lemma replay_holder_None:
  "replay_holder old r = None \<Longrightarrow> (r = Inr Seen_Absent \<and> old = None) \<or>
    (\<exists>d. r = Inr (Seen_Reversed d) \<and> old = Some (number d))"
  by (auto simp: replay_holder_def Let_def split: sum.splits Seen.splits QueryError.splits if_splits)

lemma replay_holder_Some:
  assumes "replay_holder (csr_reversed request) r = Some result" "seen_evid (csr_external_id request) (csr_order request) (csr_kind request) r xs"
    and base: "\<And>d. matches_corrective_base d (csr_operation request)"
  shows "(\<exists>d. result = WR_Unresolved d) \<or>
    (replay_create_positive result \<and> create_sound request result xs \<and> (\<forall>d. result \<noteq> WR_Create (CrO_Issued d)))"
proof -
  have "create_evidence xs (csr_reconciliation request) d"
    if "evid xs (ByExternalId (external_str (csr_external_id request))) d" "is_ours d (csr_order request) (csr_kind request)"
      "csr_reversed request \<noteq> Some (number d)" for d
    using that base [of d] by (simp add: create_evidence_def csr_reconciliation_def csr_operation_def matches_corrective_base_def)
  then show ?thesis
    using assms(1,2) by (auto simp: replay_holder_def replay_create_positive_def create_sound_def seen_evid_def WriteResult_unresolved_def Let_def
      split: sum.splits Seen.splits QueryError.splits if_splits)
qed

lemma replay_create_permittedI:
  assumes "create_permitted request xs" "Namespace_from_str (ExternalId_namespace (csr_external_id request)) = Ok ns"
    "\<forall>kind \<in> set (guarded_kinds (csr_kind request)). kind_clear request ns ks kind"
    "references_live request rs" "hint_clear request hs"
  shows "replay_create_permitted request (xs @ ks @ rs @ hs)"
proof -
  have "references_live request (xs @ ks @ rs @ hs)" "hint_clear request (xs @ ks @ rs @ hs)"
    using assms(4,5) unfolding references_live_def hint_clear_def Let_def evid_append evid_absent_append by blast+
  moreover have "kind_clear request ns (xs @ ks @ rs @ hs) kind" if "kind \<in> set (guarded_kinds (csr_kind request))" for kind
    using assms(3) that kind_clear_append by blast
  ultimately show ?thesis
    using assms(1,2) create_permitted_append by (auto simp: replay_create_permitted_def)
qed

lemma create_replay_enabled_yields: "yields (replay_create_trace request) (create_replay_enabled rm request)"
proof (cases "replay_contract request = None \<or> csr_corrected_number request \<noteq> None")
  case True
  then show ?thesis
    by (simp add: create_replay_enabled_def WriteResult_unresolved_def)
      (intro yields_return replay_create_unsent, simp_all)
next
  case False
  show ?thesis
    unfolding create_replay_enabled_def if_not_P [OF False]
  proof (rule yields_bind [OF seen_yields], goal_cases)
    case (1 r xs)
    then have rd: "writes xs = []" by (simp add: seen_evid_def)
    have base: "matches_corrective_base d (csr_operation request)" for d
      using False by (cases "csr_kind request")
        (auto simp: matches_corrective_base_def csr_operation_def matches_create_base_def replay_contract_def)
    show ?case
    proof (cases "replay_holder (csr_reversed request) r")
      case (Some result)
      then show ?thesis
        using replay_holder_Some [OF Some 1 base] rd by (auto intro!: yields_return replay_create_unsent)
    next
      case None
      have "create_permitted request xs"
        using replay_holder_None [OF None] 1 base by (auto simp: create_permitted_def seen_evid_def Let_def)
      then show ?thesis
        unfolding None option.case
        by (intro guarded_by_yields [OF kinds_yields] guarded_by_yields [OF references_yields]
            guarded_by_yields [OF hint_yields])
          (use rd replay_create_permittedI [of request xs] in \<open>auto intro!: replay_create_unsent
            replay_create_send_yields [of "xs @ _ @ _ @ _", unfolded append_assoc]\<close>)
    qed
  qed
qed

text \<open>(C13) A replay-enabled create, which an interrupted run may execute again, reports either a
  document (issued, found, reconciled or reversed) or nothing at all: a refusal, a collision
  or a failed guard never settles it.  Each execution sends at most one create, its own, and
  only after fresh reads that permit it: the holder of the external id, every other managed
  kind of the order, the pinned prepayment and proforma, and the newest document of the
  order.\<close>

theorem create_replay_enabled_guarded:
  "yields (\<lambda>r xs. ((\<exists>d. r = WR_Unresolved d) \<or> replay_create_positive r) \<and>
     ((writes xs = [] \<and> (\<forall>d. r \<noteq> WR_Create (CrO_Issued d))) \<or>
      (\<exists>ys reply zs. xs = ys @ SentCreate (csr_create request) reply # zs \<and> writes ys = [] \<and> writes zs = [] \<and>
        replay_create_permitted request ys \<and>
        (uncertain_create request reply \<longrightarrow> (\<exists>d. r = WR_Unresolved d))))) (create_replay_enabled rm request)"
  by (rule yields_weaken [OF create_replay_enabled_yields]) (unfold replay_create_trace_def, blast)

lemmas replay_create_run_defs = create_replay_enabled_def replay_holder_def check_replay_create_kinds_def
  check_replay_create_references_def check_reference_def check_replay_create_hint_def guarded_by_def
  guarded_kinds_def replay_kind_verdict_def create_send_def create_reply_def settle_unconfirmed_create_def
  replay_contract_def csr_prepayment_number_def csr_proforma_number_def

lemma ex_replay_namespace:
  "Namespace_from_str (ExternalId_namespace (ExternalId (us ''acct:ORD-1:invoice''))) = Ok (Namespace (us ''acct''))"
  by (simp add: ExternalId_namespace_def SEPARATOR_eq Namespace_from_str_def try_then_Inr_iff
      Namespace_validate_Ok_iff char_class_defs)

theorem create_replay_enabled_guarded_witness:
  "\<exists>d. fst (run_state (create_replay_enabled ex_lost ex_create) no_world) = WR_Unresolved d"
proof -
  let ?run = "run_state (create_replay_enabled ex_lost ex_create) no_world"
  have "writes (trace (snd ?run)) = [SentCreate (csr_create ex_create) (Inl (CE_ServiceUnavailable []))]"
    by (simp add: replay_create_run_defs read_run_defs ex_lost_def scripted_simps ex_create_def query_result_def
        seen_result_def classify_failure_def exchange_def outcome_def Let_def ex_replay_namespace del: us_Cons)
  moreover have "uncertain_create ex_create (Inl (CE_ServiceUnavailable []))"
    by (simp add: uncertain_create_def)
  ultimately show ?thesis
    using yields_run [OF create_replay_enabled_guarded [of ex_create ex_lost], of no_world]
    by (auto simp: no_world_def)
qed

section \<open>What settles a marker\<close>

definition marker_evidence :: "UnresolvedWrite \<Rightarrow> WriteResult \<Rightarrow> Event list \<Rightarrow> bool" where
  "marker_evidence marker r xs \<longleftrightarrow> (case r of
     WR_Create (CrO_Reconciled d) \<Rightarrow> is_live d \<and> create_evidence xs (marker_request marker None) d
   | WR_Create (CrO_Reversed d) \<Rightarrow> \<not> is_live d \<and> create_evidence xs (marker_request marker None) d
   | WR_Storno (StO_AlreadyReversed n i) \<Rightarrow> (\<exists>original. uw_operation marker = WO_Storno original \<and>
       storno_evidence xs (uw_order marker) original n i)
   | WR_Storno (StO_Reversed d) \<Rightarrow> (\<exists>original. uw_operation marker = WO_Storno original \<and>
       storno_evidence xs (uw_order marker) original (iss_number d) (iss_document_id d))
   | _ \<Rightarrow> False)"

lemma marker_evidence_append: "marker_evidence marker r xs \<or> marker_evidence marker r ys \<Longrightarrow>
    marker_evidence marker r (xs @ ys)"
  unfolding marker_evidence_def
  by (auto split: WriteResult.splits CreateOutcome.splits StornoOutcome.splits
      intro: create_evidence_append storno_evidence_append)

lemma create_evidence_candidate:
  "create_evidence xs (marker_request marker candidate) d \<longleftrightarrow> create_evidence xs (marker_request marker None) d"
  by (simp add: create_evidence_def marker_request_def)

definition checked_sound ::
  "UnresolvedWrite \<Rightarrow> ustr option \<Rightarrow> (WriteResult, Unanswered) result \<Rightarrow> Event list \<Rightarrow> bool" where
  "checked_sound marker candidate r xs \<longleftrightarrow> writes xs = [] \<and> (\<forall>w. r = Ok w \<longrightarrow>
     (\<exists>c a. w = WR_Answered c a) \<or> (\<exists>d. w = WR_Unresolved d) \<or> (marker_evidence marker w xs \<and>
       (\<forall>n i. w = WR_Storno (StO_AlreadyReversed n i) \<longrightarrow> candidate = None \<or> candidate = Some n) \<and>
       (\<forall>d. w \<noteq> WR_Storno (StO_Reversed d))))"

lemma check_pinned_original_yields:
  "yields (\<lambda>r xs. writes xs = [] \<and> (\<forall>w. r = Ok w \<longrightarrow> w = settled \<or> (\<exists>c a. w = WR_Answered c a) \<or> (\<exists>d. w = WR_Unresolved d)))
     (check_pinned_original rm marker settled)"
proof (cases "\<exists>doc_id fdate einv app num. uw_execution_contract marker = Some (RequestResponseStornoV1 doc_id fdate einv app) \<and>
    uw_operation marker = WO_Storno num")
  case True
  then obtain doc_id fdate einv app num where "uw_execution_contract marker = Some (RequestResponseStornoV1 doc_id fdate einv app)"
    "uw_operation marker = WO_Storno num" by blast
  then show ?thesis
  proof (simp add: check_pinned_original_def, intro yields_bind [OF verify_evid] yields_return, goal_cases)
    case (1 r xs)
    show ?case
    proof (cases r)
      case (Inr out)
      with 1 show ?thesis by (cases out) (auto simp: WriteResult_unresolved_def)
    qed (use 1 in simp)
  qed
next
  case False
  then show ?thesis
    by (auto simp: check_pinned_original_def intro!: yields_return
        split: option.split ReplayExecutionContract.split WriteOperation.split)
qed

lemma reconcile_write_checked_yields:
  "yields (checked_sound marker candidate) (reconcile_write_checked rm marker candidate)"
  unfolding reconcile_write_checked_def
proof (rule yields_bind [OF reconcile_yields], goal_cases)
  case (1 r xs)
  then have rd: "writes xs = []" by (simp add: reconcile_sound_def)
  show ?case
  proof (cases "\<exists>n i. r = Ok (RcO_Reversed n i)")
    case True
    then obtain n i where r: "r = Ok (RcO_Reversed n i)" by blast
    with 1 have ev: "marker_evidence marker (WR_Storno (StO_AlreadyReversed n i)) xs"
      "candidate = None \<or> candidate = Some n"
      by (auto simp: reconcile_sound_def marker_evidence_def marker_request_def) (cases candidate, simp_all)
    show ?thesis
      unfolding r sum.case ReconciliationOutcome.case
      by (rule yields_weaken [OF check_pinned_original_yields])
        (use rd ev in \<open>auto simp: checked_sound_def intro: marker_evidence_append\<close>)
  next
    case False
    show ?thesis
    proof (cases r)
      case (Inl u)
      with rd show ?thesis by (auto intro!: yields_return simp: checked_sound_def)
    next
      case (Inr out)
      with 1 rd False show ?thesis
        by (cases out) (auto intro!: yields_return simp: checked_sound_def reconcile_sound_def
            marker_evidence_def WriteResult_unresolved_def create_evidence_candidate [of xs marker candidate])
    qed
  qed
qed

lemma reconcile_write_yields:
  "yields (\<lambda>r xs. writes xs = [] \<and> ((\<exists>d. r = WR_Unresolved d) \<or>
      (marker_evidence marker r xs \<and> (\<forall>d. r \<noteq> WR_Storno (StO_Reversed d)))))
     (reconcile_write rm marker candidate)"
  unfolding reconcile_write_def
proof (rule yields_bind [OF reconcile_write_checked_yields], goal_cases)
  case (1 first xs)
  have again: "yields (\<lambda>r ys. \<exists>c. checked_sound marker c r (xs @ ys)) (reconcile_write_checked rm marker None)"
    by (rule yields_weaken [OF reconcile_write_checked_yields])
      (use 1 in \<open>fastforce simp: checked_sound_def intro: marker_evidence_append\<close>)
  have "yields (\<lambda>r ys. \<exists>c. checked_sound marker c r (xs @ ys))
      (if b then reconcile_write_checked rm marker None else ret first)" for b
    using again 1 by (auto intro!: yields_return)
  then show ?case
    by (rule yields_bind, intro yields_return)
      (auto simp: checked_sound_def WriteResult_unresolved_def split: sum.splits WriteResult.splits)
qed

lemma reconcile_write_diagnostic_yields:
  "yields (\<lambda>r xs. writes xs = [] \<and> ((\<exists>d. r = WR_Unresolved d) \<or> marker_evidence marker r xs))
     (reconcile_write_diagnostic rm marker diagnostic)"
  unfolding reconcile_write_diagnostic_def
  by (rule yields_bind [OF reconcile_write_yields], rule yields_return)
    (auto simp: marker_evidence_def split: WriteResult.splits StornoOutcome.splits)

text \<open>(C14) The read-only recovery that follows an unresolved write (and every replay of it) never
  writes, and ends the uncertainty only on positive evidence for the marker's own operation:
  for a create, a document under its external id, of its order, kind and base, live or
  reversed as reported; for a storno, a storno of the marker's original on the order together
  with that original reported reversed.\<close>

theorem recovery_settles_on_marker_evidence:
  "yields (\<lambda>r xs. writes xs = [] \<and> ((\<exists>d. r = WR_Unresolved d) \<or> marker_evidence marker r xs))
     (reconcile_write_diagnostic rm marker diagnostic)"
  by (rule reconcile_write_diagnostic_yields)

section \<open>Storno under a marker\<close>

text \<open>What a storno sent under a marker may report: a reversal the reply itself or the evidence
  read after it establishes, a refusal for a reply that rules the storno out, or nothing.\<close>

definition marked_storno_verdict ::
  "UnresolvedWrite \<Rightarrow> ustr \<Rightarrow> (StornoResponse, ClientError) result \<Rightarrow> Event list \<Rightarrow> (StornoOutcome, Unconfirmed) result \<Rightarrow> bool" where
  "marked_storno_verdict marker original reply zs r \<longleftrightarrow> (case r of
     Inl u \<Rightarrow> True
   | Inr (StO_Rejected rejection) \<Rightarrow> (\<exists>e. reply = Inl e \<and> ClientError_outcome_class e \<noteq> OC_Unknown)
   | Inr (StO_CredentialsRejected answer) \<Rightarrow> (\<exists>e. reply = Inl e \<and> ClientError_outcome_class e \<noteq> OC_Unknown)
   | Inr (StO_Reversed d) \<Rightarrow> (\<exists>created. reply = Inr (SR_Numbered created) \<and> iss_number d = cr_invoice_number created \<and>
       (reverses created original \<or> marker_evidence marker (WR_Storno (StO_Reversed d)) zs))
   | _ \<Rightarrow> False)"

lemma verify_marked_storno_yields:
  "yields (\<lambda>r zs. writes zs = [] \<and> marked_storno_verdict marker original (Inr (SR_Numbered created)) zs r)
     (verify_marked_storno rm marker created)"
  unfolding verify_marked_storno_def
  by (rule yields_bind [OF reconcile_write_checked_yields], rule yields_return)
    (auto simp: checked_sound_def marked_storno_verdict_def marker_evidence_def IssuedDocument_from_def
      split: sum.splits WriteResult.splits StornoOutcome.splits)

lemma storno_reply_marked_yields:
  "yields (\<lambda>r zs. writes zs = [] \<and> marked_storno_verdict marker original reply zs r)
     (storno_reply rm request (Some marker) original reply)"
proof (cases reply)
  case (Inl e)
  have "ClientError_outcome_class e = OC_Unknown \<longleftrightarrow> (case classify_failure (msg ''storno'') e of
      F_Unknown a \<Rightarrow> True | F_Unavailable m \<Rightarrow> True | F_Transport m \<Rightarrow> True | _ \<Rightarrow> False)"
    by (rule classify_failure_open)
  then show ?thesis
    by (cases "classify_failure (msg ''storno'') e")
      (auto intro!: yields_return simp: storno_reply_def storno_open_def Inl marked_storno_verdict_def)
next
  case (Inr s)
  show ?thesis
  proof (cases s)
    case (SR_Numbered created)
    then show ?thesis
      using verify_marked_storno_yields [of marker original created rm]
      by (auto intro!: yields_return simp: Inr storno_reply_def storno_numbered_def marked_storno_verdict_def
          IssuedDocument_from_def StornoReplyEvidence_of_def)
  qed (auto intro!: yields_return simp: Inr storno_reply_def Let_def marked_storno_verdict_def)
qed

lemma storno_send_marked_yields:
  "yields (\<lambda>r xs. \<exists>reply zs. xs = SentStorno (build_storno account request) reply # zs \<and> writes zs = [] \<and>
      marked_storno_verdict marker (ssr_invoice_number request) reply zs r)
     (storno_send rm account request (Some marker))"
  unfolding storno_send_def
proof (rule yields_bind [OF send_yields(3)], goal_cases)
  case (1 reply xs)
  have "si_invoice_number (build_storno account request) = ssr_invoice_number request"
    by (simp add: build_storno_def StornoInvoice_new_def)
  then show ?case
    using 1 by (intro yields_weaken [OF storno_reply_marked_yields]) auto
qed

lemma lookup_order_storno_checked_yields:
  "yields (\<lambda>r xs. writes xs = [] \<and>
      (r = Inr SLO_Absent \<longrightarrow> evid_absent xs (ByExternalId (external_str eid))) \<and>
      (\<forall>n i. r = Inr (SLO_AlreadyReversed n i) \<longrightarrow> storno_evidence xs order num n i))
     (lookup_order_storno_checked rm eid order num)"
  unfolding lookup_order_storno_checked_def
proof (rule yields_bind [OF query_raw_evid], goal_cases)
  case (1 r xs)
  show ?case
  proof (cases r)
    case (Inl e)
    with 1 show ?thesis
      by (cases e) (auto intro!: yields_return simp: order_storno_outcome_def)
  next
    case (Inr d)
    then have ev: "evid xs (ByExternalId (external_str eid)) d" using 1 by simp
    show ?thesis
      unfolding Inr sum.case
    proof (rule yields_bind [OF verify_order_storno_yields], rule yields_return, goal_cases)
      case (1 v ys)
      with ev \<open>writes xs = [] \<and> _\<close> show ?case
        by (auto simp: order_storno_outcome_def split: sum.splits StornoEvidence.splits QueryError.splits)
    qed
  qed
qed

definition marked_result :: "UnresolvedWrite \<Rightarrow> ustr \<Rightarrow> (StornoResponse, ClientError) result \<Rightarrow> Event list \<Rightarrow> WriteResult \<Rightarrow> bool" where
  "marked_result marker original reply zs r \<longleftrightarrow> (case r of
     WR_Unresolved d \<Rightarrow> True
   | WR_Storno out \<Rightarrow> marked_storno_verdict marker original reply zs (Ok out)
   | _ \<Rightarrow> False)"

lemma marked_results:
  assumes "marked_storno_verdict marker original reply zs s"
  shows "marked_result marker original reply zs (protected_storno_result s)"
    "marked_result marker original reply zs (replay_storno_result s)"
  using assms by (auto simp: marked_result_def protected_storno_result_def replay_storno_result_def
      WriteResult_unresolved_def marked_storno_verdict_def split: sum.splits StornoOutcome.splits)

text \<open>What a storno that sent nothing may report: a reversal the reads establish, that the lookup was answered
  with an error or not at all, or nothing.  It never reports a refusal or a reversal of its own.\<close>

definition unsent_storno :: "UnresolvedWrite \<Rightarrow> ustr \<Rightarrow> WriteResult \<Rightarrow> Event list \<Rightarrow> bool" where
  "unsent_storno marker original r xs \<longleftrightarrow> (case r of
     WR_Unresolved d \<Rightarrow> True
   | WR_Storno (StO_AlreadyReversed n i) \<Rightarrow> storno_evidence xs (uw_order marker) original n i
   | WR_Storno (StO_CredentialsRejected answer) \<Rightarrow> True
   | WR_Storno (StO_Api answer) \<Rightarrow> True
   | WR_Storno (StO_Unavailable message) \<Rightarrow> True
   | _ \<Rightarrow> False)"

text \<open>The results that say the original is reversed: all a replayed storno may settle with.\<close>

definition says_reversed :: "WriteResult \<Rightarrow> bool" where
  "says_reversed r \<longleftrightarrow> (\<exists>d. r = WR_Storno (StO_Reversed d)) \<or> (\<exists>n i. r = WR_Storno (StO_AlreadyReversed n i))"

text \<open>The trace of one storno under its marker: nothing written and nothing claimed that the reads do not
  establish, or one storno sent after \<open>P\<close> held of the reads before it.\<close>

definition single_storno ::
  "Account \<Rightarrow> StornoStepRequest \<Rightarrow> UnresolvedWrite \<Rightarrow> (Event list \<Rightarrow> bool) \<Rightarrow> WriteResult \<Rightarrow> Event list \<Rightarrow> bool" where
  "single_storno account request marker P r xs \<longleftrightarrow>
     (writes xs = [] \<and> unsent_storno marker (ssr_invoice_number request) r xs) \<or>
     (\<exists>ys reply zs. xs = ys @ SentStorno (build_storno account request) reply # zs \<and> writes ys = [] \<and> writes zs = [] \<and>
        evid_absent ys (ByExternalId (external_str (ssr_external_id request))) \<and> P ys \<and>
        marked_result marker (ssr_invoice_number request) reply zs r)"

lemma storno_send_single:
  assumes "writes ys = []" "evid_absent ys (ByExternalId (external_str (ssr_external_id request)))" "P ys"
    and f: "\<And>s reply zs. marked_storno_verdict marker (ssr_invoice_number request) reply zs s \<Longrightarrow>
      marked_result marker (ssr_invoice_number request) reply zs (f s)"
  shows "yields (\<lambda>r zs. single_storno account request marker P r (ys @ zs)) (do {
      sent \<leftarrow> storno_send rm account request (Some marker);
      ret (f sent)
    })"
proof (rule yields_bind [OF storno_send_marked_yields], rule yields_return, goal_cases)
  case (1 s xs)
  then obtain reply zs where "xs = SentStorno (build_storno account request) reply # zs" "writes zs = []"
    "marked_storno_verdict marker (ssr_invoice_number request) reply zs s" by blast
  with assms(1-3) f show ?case
    unfolding single_storno_def by (intro disjI2 exI [of _ ys] exI [of _ reply] exI [of _ zs]) simp
qed

lemma protected_storno_yields:
  "yields (single_storno account request marker (\<lambda>_. True)) (protected_storno rm account request marker)"
  unfolding protected_storno_def
proof (rule yields_bind [OF lookup_order_storno_checked_yields], goal_cases)
  case (1 r xs)
  show ?case
  proof (cases "r = Inr SLO_Absent")
    case True
    then show ?thesis
      using 1 by (simp add: storno_send_single [where P = "\<lambda>_. True"] marked_results)
  next
    case False
    then show ?thesis
      using 1 by (auto intro!: yields_return simp: single_storno_def unsent_storno_def WriteResult_unresolved_def
          split: sum.split StornoLookupOutcome.split QueryError.split)
  qed
qed

text \<open>The fresh original a replayed storno needs: the pinned one, live and unchanged.\<close>

definition replay_storno_trace ::
  "Account \<Rightarrow> StornoStepRequest \<Rightarrow> UnresolvedWrite \<Rightarrow> (Event list \<Rightarrow> bool) \<Rightarrow> WriteResult \<Rightarrow> Event list \<Rightarrow> bool" where
  "replay_storno_trace account request marker P r xs \<longleftrightarrow> single_storno account request marker P r xs \<and>
     ((\<exists>d. r = WR_Unresolved d) \<or> says_reversed r)"

lemma replay_storno_unsettled: "writes xs = [] \<Longrightarrow> replay_storno_trace account request marker P (WR_Unresolved d) xs"
  by (simp add: replay_storno_trace_def single_storno_def unsent_storno_def)

lemma replay_storno_result_cases: "(\<exists>d. replay_storno_result s = WR_Unresolved d) \<or> says_reversed (replay_storno_result s)"
  by (auto simp: replay_storno_result_def says_reversed_def WriteResult_unresolved_def split: sum.split StornoOutcome.split)

definition original_still_live :: "StornoStepRequest \<Rightarrow> UnresolvedWrite \<Rightarrow> FoundDocument \<Rightarrow> Event list \<Rightarrow> bool" where
  "original_still_live request marker pinned xs \<longleftrightarrow>
     (\<exists>fresh. evid xs (ByInvoiceNumber (ssr_invoice_number request)) fresh \<and>
        same_original request marker pinned fresh \<and> is_live fresh)"

lemma yields_both: "yields Q m \<Longrightarrow> yields R m \<Longrightarrow> yields (\<lambda>a xs. Q a xs \<and> R a xs) m"
  unfolding yields_def by (metis same_append_eq)

lemma replay_storno_settles:
  "yields (\<lambda>r zs. (\<exists>d. r = WR_Unresolved d) \<or> says_reversed r) (m \<bind> (\<lambda>sent. ret (replay_storno_result sent)))"
  if "yields R m"
  by (rule yields_bind [OF that], rule yields_return, rule replay_storno_result_cases)

lemma replay_storno_send:
  assumes "writes ys = []" "evid_absent ys (ByExternalId (external_str (ssr_external_id request)))" "P ys"
  shows "yields (\<lambda>r zs. single_storno account request marker P r (ys @ zs) \<and> ((\<exists>d. r = WR_Unresolved d) \<or> says_reversed r)) (do {
      sent \<leftarrow> storno_send rm account request (Some marker);
      ret (replay_storno_result sent)
    })"
  by (rule yields_both [OF storno_send_single [of ys request P, OF assms marked_results(2)]
        replay_storno_settles [OF storno_send_marked_yields]])

lemma reconcile_write_single:
  assumes "writes xs = []" "uw_operation marker = WO_Storno (ssr_invoice_number request)"
  shows "yields (\<lambda>r ys. replay_storno_trace account request marker P r (xs @ ys)) (reconcile_write rm marker None)"
  by (rule yields_weaken [OF reconcile_write_yields])
    (use assms in \<open>auto simp: replay_storno_trace_def single_storno_def unsent_storno_def says_reversed_def marker_evidence_def
      create_evidence_def marker_request_def intro: storno_evidence_append split: WriteResult.splits CreateOutcome.splits StornoOutcome.splits\<close>)

text \<open>The part after the fresh read of the original.\<close>

lemma storno_replay_fresh_yields:
  assumes "writes xs = []" "evid_absent xs (ByExternalId (external_str (ssr_external_id request)))"
    and op: "uw_operation marker = WO_Storno (ssr_invoice_number request)"
    and v: "\<forall>d. v = Inr (QO_Found d) \<longrightarrow> evid xs (ByInvoiceNumber (ssr_invoice_number request)) d"
  shows "yields (\<lambda>r zs. replay_storno_trace account request marker (original_still_live request marker pinned) r (xs @ zs))
    (case replay_original v of
       Inl result \<Rightarrow> ret result
     | Inr fresh \<Rightarrow>
         if \<not> same_original request marker pinned fresh
         then ret (WriteResult_unresolved (msg ''fresh original differs from pinned storno intent''))
         else if \<not> is_live fresh then reconcile_write rm marker None
         else do {
           sent \<leftarrow> storno_send rm account request (Some marker);
           ret (replay_storno_result sent)
         })"
proof (cases "replay_original v")
  case (Inl w)
  then have "\<exists>d. w = WR_Unresolved d"
    by (auto simp: replay_original_def WriteResult_unresolved_def split: sum.splits QueryOutcome.splits)
  with Inl assms(1) show ?thesis by (auto intro!: yields_return simp: replay_storno_unsettled)
next
  case (Inr fresh)
  then have "v = Inr (QO_Found fresh)"
    by (auto simp: replay_original_def split: sum.splits QueryOutcome.splits)
  with v have ev: "evid xs (ByInvoiceNumber (ssr_invoice_number request)) fresh" by simp
  have "yields (\<lambda>r zs. replay_storno_trace account request marker (original_still_live request marker pinned) r (xs @ zs))
      (do {
           sent \<leftarrow> storno_send rm account request (Some marker);
           ret (replay_storno_result sent)
      })" if "same_original request marker pinned fresh" "is_live fresh"
    unfolding replay_storno_trace_def
    by (rule replay_storno_send [OF assms(1,2)])
      (use that ev in \<open>auto simp: original_still_live_def\<close>)
  then show ?thesis
    using reconcile_write_single [OF assms(1) op] assms(1)
    by (auto simp: Inr replay_storno_unsettled WriteResult_unresolved_def intro!: yields_return)
qed

lemma replay_storno_lookup_cases:
  "replay_storno_lookup r = None \<Longrightarrow> r = Inr SLO_Absent"
  "replay_storno_lookup r = Some (Some w) \<Longrightarrow> \<exists>d. w = WR_Unresolved d"
  by (auto simp: replay_storno_lookup_def Let_def WriteResult_unresolved_def
      split: sum.splits StornoLookupOutcome.splits QueryError.splits)

lemma storno_replay_enabled_yields:
  "yields (replay_storno_trace account request marker (original_still_live request marker pinned))
     (storno_replay_enabled rm account request marker pinned)"
proof (cases "uw_execution_contract marker \<noteq> Some (storno_contract request pinned)
        \<or> uw_operation marker \<noteq> WO_Storno (ssr_invoice_number request)
        \<or> uw_external_id marker \<noteq> external_str (ssr_external_id request)")
  case True
  then show ?thesis
    by (auto simp: storno_replay_enabled_def WriteResult_unresolved_def replay_storno_unsettled intro!: yields_return)
next
  case False
  then have op: "uw_operation marker = WO_Storno (ssr_invoice_number request)" by simp
  show ?thesis
    unfolding storno_replay_enabled_def if_not_P [OF False]
  proof (rule yields_bind [OF lookup_order_storno_checked_yields], goal_cases)
    case (1 r xs)
    show ?case
    proof (cases "replay_storno_lookup r")
      case None
      with replay_storno_lookup_cases(1) 1 have rd: "writes xs = []"
        "evid_absent xs (ByExternalId (external_str (ssr_external_id request)))" by blast+
      show ?thesis
        unfolding None option.case
      proof (rule yields_bind [OF verify_evid], goal_cases)
        case (1 v ys)
        then show ?case
          using storno_replay_fresh_yields [of "xs @ ys" request marker v account pinned rm] rd op by simp
      qed
    next
      case (Some action)
      then show ?thesis
        using 1 reconcile_write_single [OF _ op] replay_storno_lookup_cases(2) [of r]
        by (cases action) (auto intro!: yields_return simp: replay_storno_unsettled)
    qed
  qed
qed

text \<open>(C15) A storno under its marker sends at most one storno, the one built from its request, and
  only after the query of its external id found nothing; a replayed storno also needs a fresh
  read of the original that matches the pinned record id, order, fulfilment date and
  appearance and is live.  It reports a reversal only when the reply is itself a reversal of
  the original or reads establish one, and a refusal only for a reply that rules it out: with nothing
  sent it reports no refusal and no reversal of its own.  A replayed storno settles with a reversal
  only; every refusal and every failed read leaves it unresolved.\<close>

theorem marked_storno_guarded:
  "yields (\<lambda>r xs. single_storno account request marker (\<lambda>_. True) r xs)
     (protected_storno rm account request marker) \<and>
   yields (\<lambda>r xs. single_storno account request marker (original_still_live request marker pinned) r xs \<and>
       ((\<exists>d. r = WR_Unresolved d) \<or> says_reversed r))
     (storno_replay_enabled rm account request marker pinned)"
  using protected_storno_yields storno_replay_enabled_yields unfolding replay_storno_trace_def by blast

section \<open>Replay-enabled deletion\<close>

lemma replay_delete_result_cases:
  "(\<exists>d. replay_delete_result out = WR_Unresolved d) \<or> (out = DO_Deleted \<and> replay_delete_result out = WR_Delete DO_Deleted)"
  by (cases out) (simp_all add: WriteResult_unresolved_def)

lemma delete_namespace_verdict_cases:
  "delete_namespace_verdict found r = Some w \<Longrightarrow> \<exists>d. w = WR_Unresolved d"
  "delete_namespace_verdict found r = None \<Longrightarrow> \<exists>d. (r = Inr (OO_Live d) \<or> r = Inr (OO_Reversed d)) \<and>
     number d = number found \<and> document_id d = document_id found"
  by (auto simp: delete_namespace_verdict_def Let_def WriteResult_unresolved_def
      split: sum.splits OwnershipOutcome.splits if_splits)

text \<open>Nothing written and nothing settled, or one deletion sent on fresh evidence.\<close>

definition single_delete ::
  "ExternalId \<Rightarrow> UnresolvedWrite \<Rightarrow> FoundDocument \<Rightarrow> DeleteProformaRequest \<Rightarrow> WriteResult \<Rightarrow> Event list \<Rightarrow> bool" where
  "single_delete eid marker found request r xs \<longleftrightarrow>
     (writes xs = [] \<and> (\<exists>d. r = WR_Unresolved d)) \<or>
     (\<exists>ys d reply. xs = ys @ [SentDelete (number found) reply] \<and> writes ys = [] \<and>
        evid ys (ByInvoiceNumber (number found)) d \<and> document_id d = document_id found \<and>
        is_ours d (uw_order marker) IK_Proforma \<and> (dpr_force request \<or> credit_entries d = []) \<and>
        (dpr_mode request = NamedTarget \<or> (\<exists>h. evid ys (ByExternalId (external_str eid)) h \<and>
           is_ours h (uw_order marker) IK_Proforma \<and> number h = number found \<and> document_id h = document_id found)) \<and>
        (if reply = Inr () then r = WR_Delete DO_Deleted else (\<exists>d. r = WR_Unresolved d)))"

lemma single_delete_unsent: "writes xs = [] \<Longrightarrow> \<exists>d. r = WR_Unresolved d \<Longrightarrow> single_delete eid marker found request r xs"
  by (simp add: single_delete_def)

lemma delete_proforma_single:
  assumes "writes xs = []"
    and ns: "dpr_mode request = NamedTarget \<or> (\<exists>h. evid xs (ByExternalId (external_str eid)) h \<and>
      is_ours h (uw_order marker) IK_Proforma \<and> number h = number found \<and> document_id h = document_id found)"
  shows "yields (\<lambda>r ys. single_delete eid marker found request r (xs @ ys)) (do {
      out \<leftarrow> delete_proforma rm found (uw_order marker) (dpr_force request);
      ret (replay_delete_result out)
    })"
proof (rule yields_bind [OF delete_proforma_yields], rule yields_return, elim disjE exE, goal_cases)
  case (1 out ys)
  then show ?case
    using assms(1) replay_delete_result_cases [of out] by (auto simp: single_delete_def)
next
  case (2 out zs ys d reply)
  have "if reply = Inr () then replay_delete_result out = WR_Delete DO_Deleted
      else (\<exists>d. replay_delete_result out = WR_Unresolved d)"
    using 2 replay_delete_result_cases [of out] delete_reply_Deleted_iff [of reply] by auto
  with 2 assms show ?case
    unfolding single_delete_def by (intro disjI2 exI [of _ "xs @ ys"] exI [of _ d] exI [of _ reply]) auto
qed

lemma delete_replay_enabled_yields:
  "yields (single_delete eid marker found request) (delete_replay_enabled rm eid marker found request)"
proof (cases "uw_execution_contract marker \<noteq> Some (for_delete request (document_id found))
        \<or> uw_operation marker \<noteq> WO_Delete (number found)")
  case True
  then show ?thesis
    by (auto simp: delete_replay_enabled_def WriteResult_unresolved_def single_delete_def intro!: yields_return)
next
  case False
  have ns: "yields (\<lambda>v xs. writes xs = [] \<and> (\<forall>w. v = Some w \<longrightarrow> (\<exists>d. w = WR_Unresolved d)) \<and> (v = None \<longrightarrow>
      dpr_mode request = NamedTarget \<or> (\<exists>h. evid xs (ByExternalId (external_str eid)) h \<and>
      is_ours h (uw_order marker) IK_Proforma \<and> number h = number found \<and> document_id h = document_id found)))
    (if dpr_mode request = NamespaceOwned
     then do {
       r \<leftarrow> lookup_ours rm eid (uw_order marker) IK_Proforma;
       ret (delete_namespace_verdict found r)
     }
     else ret None)"
  proof (cases "dpr_mode request")
    case NamespaceOwned
    then show ?thesis
      by (auto intro!: yields_bind [OF lookup_ours_evid] yields_return dest!: delete_namespace_verdict_cases)
  qed (auto intro!: yields_return)
  show ?thesis
    unfolding delete_replay_enabled_def if_not_P [OF False]
    by (rule yields_bind [OF ns])
      (auto intro!: yields_return delete_proforma_single intro: single_delete_unsent split: option.split)
qed

text \<open>(C16) A replay-enabled deletion sends at most one deletion, of the pinned number, and only on
  a fresh read of that number with the pinned record id, as a proforma of the order, unpaid
  unless forced, and (when the namespace must own it) a fresh read of the namespace's
  proforma that is the same document.  It settles exactly when szamlazz.hu acknowledged a
  deletion: an absent target, a refusal or a failed guard leaves the earlier one
  unresolved.\<close>

theorem delete_replay_enabled_guarded:
  "yields (\<lambda>r xs. single_delete eid marker found request r xs) (delete_replay_enabled rm eid marker found request)"
  by (rule delete_replay_enabled_yields)

end
