(* ===== verification/Faults.thy ===== *)
theory Faults
  imports Gateway_Writes
begin

text \<open>
  The faults of the services: the terminal codes and the fault body of \<open>contract.rs\<close>, and the
  constructors and mappings of \<open>service/support.rs\<close> (an answered code, an exhausted or
  cancelled run, the object key).  The JSON decoder of a fault body is a parameter.
\<close>

section \<open>Terminal codes\<close>

datatype TerminalCode =
    TC_Cancelled | TC_OutcomeUnknown | TC_Unavailable | TC_InvalidInput | TC_CredentialsRejected
  | TC_UnknownAccount | TC_NotFound | TC_SzamlazzError | TC_Other ustr

definition TerminalCode_KNOWN :: "TerminalCode list" where
  "TerminalCode_KNOWN = [TC_Cancelled, TC_InvalidInput, TC_UnknownAccount, TC_NotFound, TC_SzamlazzError,
     TC_OutcomeUnknown, TC_Unavailable, TC_CredentialsRejected]"

primrec TerminalCode_as_str :: "TerminalCode \<Rightarrow> ustr" where
  "TerminalCode_as_str TC_Cancelled = us ''cancelled''"
| "TerminalCode_as_str TC_OutcomeUnknown = us ''outcome_unknown''"
| "TerminalCode_as_str TC_Unavailable = us ''unavailable''"
| "TerminalCode_as_str TC_InvalidInput = us ''invalid_input''"
| "TerminalCode_as_str TC_CredentialsRejected = us ''credentials_rejected''"
| "TerminalCode_as_str TC_UnknownAccount = us ''unknown_account''"
| "TerminalCode_as_str TC_NotFound = us ''not_found''"
| "TerminalCode_as_str TC_SzamlazzError = us ''szamlazz_error''"
| "TerminalCode_as_str (TC_Other token) = token"

definition is_outcome_unknown :: "TerminalCode \<Rightarrow> bool option" where
  "is_outcome_unknown code = (case code of
     TC_OutcomeUnknown \<Rightarrow> Some True | TC_Unavailable \<Rightarrow> Some True | TC_CredentialsRejected \<Rightarrow> Some True
   | TC_Other token \<Rightarrow> None
   | _ \<Rightarrow> Some False)"

primrec TerminalCode_status :: "TerminalCode \<Rightarrow> 16 word option" where
  "TerminalCode_status TC_InvalidInput = Some 400"
| "TerminalCode_status TC_UnknownAccount = Some 400"
| "TerminalCode_status TC_NotFound = Some 404"
| "TerminalCode_status TC_Cancelled = Some 409"
| "TerminalCode_status TC_SzamlazzError = Some 422"
| "TerminalCode_status TC_OutcomeUnknown = Some 500"
| "TerminalCode_status TC_Unavailable = Some 503"
| "TerminalCode_status TC_CredentialsRejected = Some 503"
| "TerminalCode_status (TC_Other token) = None"

definition TerminalCode_arms :: "(ustr \<times> TerminalCode) list" where
  "TerminalCode_arms =
    [(us ''cancelled'', TC_Cancelled), (us ''outcome_unknown'', TC_OutcomeUnknown),
     (us ''unavailable'', TC_Unavailable), (us ''invalid_input'', TC_InvalidInput),
     (us ''credentials_rejected'', TC_CredentialsRejected), (us ''unknown_account'', TC_UnknownAccount),
     (us ''not_found'', TC_NotFound), (us ''szamlazz_error'', TC_SzamlazzError)]"

definition TerminalCode_from :: "ustr \<Rightarrow> TerminalCode" where
  "TerminalCode_from token = match_token TerminalCode_arms TC_Other token"

datatype FaultCause = FC_Cancelled | FC_Other ustr

primrec FaultCause_as_str :: "FaultCause \<Rightarrow> ustr" where
  "FaultCause_as_str FC_Cancelled = us ''cancelled''"
| "FaultCause_as_str (FC_Other token) = token"

definition FaultCause_arms :: "(ustr \<times> FaultCause) list" where
  "FaultCause_arms = [(us ''cancelled'', FC_Cancelled)]"

definition FaultCause_from :: "ustr \<Rightarrow> FaultCause" where
  "FaultCause_from token = match_token FaultCause_arms FC_Other token"

section \<open>Faults\<close>

record Fault =
  f_code :: TerminalCode
  f_message :: ustr
  f_cause :: "FaultCause option"
  f_szamlazz_code :: "ustr option"
  f_order :: "ustr option"
  f_kind :: "IssuedKind option"
  f_external_id :: "ustr option"

definition Fault_new :: "TerminalCode \<Rightarrow> ustr \<Rightarrow> Fault" where
  "Fault_new code message =
    \<lparr> f_code = code, f_message = message, f_cause = None, f_szamlazz_code = None, f_order = None,
      f_kind = None, f_external_id = None \<rparr>"

definition with_cause :: "Fault \<Rightarrow> FaultCause \<Rightarrow> Fault" where
  "with_cause fault cause = fault\<lparr>f_cause := Some cause\<rparr>"

definition with_szamlazz_code :: "Fault \<Rightarrow> ustr \<Rightarrow> Fault" where
  "with_szamlazz_code fault code = fault\<lparr>f_szamlazz_code := Some code\<rparr>"

definition about :: "Fault \<Rightarrow> OrderKey \<Rightarrow> IssuedKind option \<Rightarrow> ExternalId \<Rightarrow> Fault" where
  "about fault order kind external_id = fault
    \<lparr>f_order := Some (order_str order), f_kind := kind, f_external_id := Some (external_str external_id)\<rparr>"

definition Fault_is_cancelled :: "Fault \<Rightarrow> bool option" where
  "Fault_is_cancelled fault = (case (f_code fault, f_cause fault) of
     (TC_Other token, cause) \<Rightarrow> None
   | (code, Some (FC_Other token)) \<Rightarrow> None
   | (code, cause) \<Rightarrow> Some (code = TC_Cancelled \<or> cause = Some FC_Cancelled))"

definition Fault_status :: "Fault \<Rightarrow> 16 word option" where
  "Fault_status fault = TerminalCode_status (f_code fault)"

section \<open>Constructors\<close>

definition Fault_cancelled :: "ustr \<Rightarrow> Fault" where
  "Fault_cancelled message = Fault_new TC_Cancelled message"

definition Fault_invalid_input :: "ustr \<Rightarrow> Fault" where
  "Fault_invalid_input message = Fault_new TC_InvalidInput message"

definition Fault_not_found :: "ustr \<Rightarrow> Fault" where
  "Fault_not_found message = Fault_new TC_NotFound message"

definition Fault_unavailable :: "ustr \<Rightarrow> Fault" where
  "Fault_unavailable message = Fault_new TC_Unavailable message"

definition Fault_outcome_unknown :: "ustr \<Rightarrow> Fault" where
  "Fault_outcome_unknown message = Fault_new TC_OutcomeUnknown message"

definition Fault_unknown_account :: "ustr \<Rightarrow> Fault" where
  "Fault_unknown_account message = Fault_new TC_UnknownAccount message"

definition Fault_szamlazz_error :: "SzamlazzAnswer \<Rightarrow> Fault" where
  "Fault_szamlazz_error answer = with_szamlazz_code
    (Fault_new TC_SzamlazzError (msg ''szamlazz.hu error '' @ SzamlazzAnswer_display answer)) (ans_code answer)"

definition Fault_inconclusive_answer :: "SzamlazzAnswer \<Rightarrow> Fault" where
  "Fault_inconclusive_answer answer = with_szamlazz_code
    (Fault_unavailable (msg ''szamlazz.hu answered the query with code '' @ SzamlazzAnswer_display answer
       @ msg ''; nothing may be concluded; reconcile any earlier write before deliberately renewing the operation''))
    (ans_code answer)"

definition Fault_szlahu_down_answer :: "ustr \<Rightarrow> Fault" where
  "Fault_szlahu_down_answer message = Fault_unavailable
    (msg ''szamlazz.hu reported unavailability (szlahu_down) to the query: '' @ message
     @ msg ''; this query sent no mutation; reconcile any earlier write before deliberately renewing the operation'')"

definition Fault_missing_fulfillment_date :: "ustr \<Rightarrow> Fault" where
  "Fault_missing_fulfillment_date num = Fault_unavailable
    (msg ''szamlazz.hu returned invoice '' @ num
     @ msg '' without a fulfillment date (telj), which the storno must repeat; nothing was sent, so retry with a new Idempotency-Key, or query the invoice'')"

definition Fault_credentials_rejected :: "SzamlazzAnswer \<Rightarrow> Fault" where
  "Fault_credentials_rejected answer = with_szamlazz_code
    (Fault_new TC_CredentialsRejected
      (msg ''szamlazz.hu rejected the agent credentials (code '' @ SzamlazzAnswer_display answer
       @ msg ''); the outcome is not known; fix the account's agent key and reconcile any earlier write before deliberately renewing the operation''))
    (ans_code answer)"

lemmas [fault_simps] = Fault_new_def with_cause_def with_szamlazz_code_def about_def Fault_cancelled_def
  Fault_invalid_input_def Fault_not_found_def Fault_unavailable_def Fault_outcome_unknown_def
  Fault_unknown_account_def Fault_szamlazz_error_def Fault_inconclusive_answer_def
  Fault_szlahu_down_answer_def Fault_missing_fulfillment_date_def Fault_credentials_rejected_def

datatype AnsweredCode =
    AnC_CredentialsRejected SzamlazzAnswer | AnC_Inconclusive SzamlazzAnswer | AnC_PassedThrough SzamlazzAnswer

text \<open>The warning that pages the operator is a log line; the fault is what the caller sees.\<close>

primrec into_fault :: "AnsweredCode \<Rightarrow> Fault" where
  "into_fault (AnC_CredentialsRejected answer) = Fault_credentials_rejected answer"
| "into_fault (AnC_Inconclusive answer) = Fault_inconclusive_answer answer"
| "into_fault (AnC_PassedThrough answer) = Fault_szamlazz_error answer"

section \<open>Terminal errors of the runtime\<close>

record TerminalError =
  term_code :: "16 word"
  term_message :: ustr

datatype FaultConversionError = UnknownStatus TerminalCode | Serialization

text \<open>\<open>encode\<close> is the JSON encoder of a fault body.\<close>

definition TerminalError_try_from :: "(Fault \<Rightarrow> ustr option) \<Rightarrow> Fault \<Rightarrow> (TerminalError, FaultConversionError) result" where
  "TerminalError_try_from encode fault = (case Fault_status fault of
     None \<Rightarrow> Err (UnknownStatus (f_code fault))
   | Some status \<Rightarrow> (case encode fault of
       None \<Rightarrow> Err Serialization
     | Some body \<Rightarrow> Ok \<lparr> term_code = status, term_message = body \<rparr>))"

definition CANCELLED :: "16 word" where
  "CANCELLED = 409"

definition is_cancelled :: "TerminalError \<Rightarrow> bool" where
  "is_cancelled error \<longleftrightarrow> term_code error = CANCELLED"

definition with_run_cause :: "Fault \<Rightarrow> TerminalError \<Rightarrow> Fault" where
  "with_run_cause fault error = (if is_cancelled error then with_cause fault FC_Cancelled else fault)"

text \<open>\<open>decode\<close> is the JSON decoder of a fault body.\<close>

definition initialization_fault :: "(ustr \<Rightarrow> Fault option) \<Rightarrow> TerminalError \<Rightarrow> ustr \<Rightarrow> Fault option" where
  "initialization_fault decode error next_step =
    (if term_code error \<noteq> 503 then None
     else case decode (term_message error) of
       None \<Rightarrow> None
     | Some fault \<Rightarrow>
         if f_code fault = TC_Unavailable
         then Some (fault\<lparr>f_message := f_message fault @ us ''; '' @ next_step\<rparr>) else None)"

definition read_exhausted :: "(ustr \<Rightarrow> Fault option) \<Rightarrow> ustr \<Rightarrow> TerminalError \<Rightarrow> Fault" where
  "read_exhausted decode step error =
    (case initialization_fault decode error (msg ''reconcile any earlier write before deliberately renewing; use a fresh invocation for a new read'') of
       Some fault \<Rightarrow> fault
     | None \<Rightarrow>
         if is_cancelled error
         then Fault_cancelled (msg ''the '' @ step @ msg '' read was cancelled ('' @ decimal_digits (unat (term_code error))
           @ msg '') before szamlazz.hu answered; nothing was sent'')
         else Fault_unavailable (msg ''the '' @ step @ msg '' read ended without an answer from szamlazz.hu (''
           @ decimal_digits (unat (term_code error)) @ msg ''): '' @ term_message error
           @ msg ''; reconcile any earlier write before deliberately renewing; use a fresh invocation for a new read''))"

definition best_effort :: "(ustr \<Rightarrow> Fault option) \<Rightarrow> ustr \<Rightarrow> TerminalError \<Rightarrow> (unit, Fault) result" where
  "best_effort decode step error =
    (if is_cancelled error then Err (read_exhausted decode step error) else Ok ())"

section \<open>The object key\<close>

primrec InvalidOrderKey_display :: "InvalidOrderKey \<Rightarrow> ustr" where
  "InvalidOrderKey_display OkEmpty = msg ''order number must not be empty''"
| "InvalidOrderKey_display (OkTooLong n) = msg ''order number is '' @ decimal_digits n
     @ msg '' bytes long, at most '' @ decimal_digits OrderKey_MAX_LEN @ msg '' are allowed''"
| "InvalidOrderKey_display (OkControlChar c) =
     msg ''order number must not contain control characters, found '' @ [39] @ debug_char 39 c @ [39]"
| "InvalidOrderKey_display (OkInternalWhitespace c) =
     msg ''order number must not contain whitespace, found '' @ [39] @ debug_char 39 c @ [39]"
| "InvalidOrderKey_display OkSeparator =
     msg ''order number must not contain ':' (the external-id separator)''"
| "InvalidOrderKey_display OkNotNfc =
     msg ''order number must be in Unicode NFC (normalise it before calling)''"
| "InvalidOrderKey_display (OkInvalidXmlText e) =
     msg ''order number must be XML 1.0 text: '' @ RequestError_display e"

definition order_key :: "(ustr \<Rightarrow> bool) \<Rightarrow> ustr \<Rightarrow> (OrderKey, Fault) result" where
  "order_key is_nfc key =
    (if trim key \<noteq> key
     then Err (Fault_invalid_input (msg ''invalid order key '' @ debug_str key
       @ msg '': the order key must not have leading or trailing whitespace; Restate locks on the raw key, so trim it before calling''))
     else map_err (\<lambda>error. Fault_invalid_input (msg ''invalid order key: '' @ InvalidOrderKey_display error))
       (OrderKey_parse is_nfc key))"

definition verified_document :: "FoundDocument QueryOutcome \<Rightarrow> ustr \<Rightarrow> (FoundDocument, Fault) result" where
  "verified_document out num = (case out of
     QO_Found found \<Rightarrow> Ok found
   | QO_NotFound \<Rightarrow> Err (Fault_not_found (msg ''invoice '' @ num @ msg '' is not known to szamlazz.hu (code 7)''))
   | QO_Api answer \<Rightarrow> Err (into_fault (AnC_Inconclusive answer))
   | QO_CredentialsRejected answer \<Rightarrow> Err (into_fault (AnC_CredentialsRejected answer)))"

section \<open>Properties\<close>

interpretation terminal_code: open_tokens TerminalCode_arms TC_Other TerminalCode_as_str
proof unfold_locales
  show "v \<in> snd ` set TerminalCode_arms \<or> (\<exists>s. v = TC_Other s)" for v
    by (cases v) (simp_all add: TerminalCode_arms_def)
qed (simp_all add: TerminalCode_arms_def)

interpretation fault_cause: open_tokens FaultCause_arms FC_Other FaultCause_as_str
proof unfold_locales
  show "v \<in> snd ` set FaultCause_arms \<or> (\<exists>s. v = FC_Other s)" for v
    by (cases v) (simp_all add: FaultCause_arms_def)
qed (simp_all add: FaultCause_arms_def)

text \<open>The fault code and cause of a newer worker survive decoding: every token prints back as
  it was read, a known code is read as itself, and exactly the known codes have an HTTP status
  and an outcome classification.\<close>

theorem fault_tokens_open:
  "TerminalCode_as_str (TerminalCode_from token) = token \<and> FaultCause_as_str (FaultCause_from token) = token \<and>
   (TerminalCode_from token \<in> set TerminalCode_KNOWN \<longleftrightarrow> token \<in> TerminalCode_as_str ` set TerminalCode_KNOWN) \<and>
   (TerminalCode_status code = None \<longleftrightarrow> code \<notin> set TerminalCode_KNOWN) \<and>
   (is_outcome_unknown code = None \<longleftrightarrow> code \<notin> set TerminalCode_KNOWN)"
proof (intro conjI)
  show "TerminalCode_as_str (TerminalCode_from token) = token" "FaultCause_as_str (FaultCause_from token) = token"
    unfolding TerminalCode_from_def FaultCause_from_def
    by (rule terminal_code.print_parse fault_cause.print_parse)+
  have known: "snd ` set TerminalCode_arms = set TerminalCode_KNOWN"
    by (auto simp: TerminalCode_arms_def TerminalCode_KNOWN_def)
  show "TerminalCode_from token \<in> set TerminalCode_KNOWN \<longleftrightarrow> token \<in> TerminalCode_as_str ` set TerminalCode_KNOWN"
  proof
    assume "TerminalCode_from token \<in> set TerminalCode_KNOWN"
    then show "token \<in> TerminalCode_as_str ` set TerminalCode_KNOWN"
      using terminal_code.print_parse [of token] unfolding TerminalCode_from_def by (metis imageI)
  next
    assume "token \<in> TerminalCode_as_str ` set TerminalCode_KNOWN"
    then show "TerminalCode_from token \<in> set TerminalCode_KNOWN"
      using terminal_code.parse_print_known unfolding TerminalCode_from_def known by auto
  qed
  show "TerminalCode_status code = None \<longleftrightarrow> code \<notin> set TerminalCode_KNOWN"
    "is_outcome_unknown code = None \<longleftrightarrow> code \<notin> set TerminalCode_KNOWN"
    by (cases code; simp add: TerminalCode_KNOWN_def is_outcome_unknown_def)+
qed

text \<open>A read that ends without an answer is a cancellation exactly when the runtime said so,
  and is otherwise \<open>unavailable\<close>; it never claims a settled outcome of a write, and a
  best-effort read swallows everything but the cancellation.  Whatever JSON decoder.\<close>

theorem read_exhausted_classified:
  "f_code (read_exhausted decode step error) = (if is_cancelled error then TC_Cancelled else TC_Unavailable) \<and>
   (best_effort decode step error = Ok () \<longleftrightarrow> \<not> is_cancelled error)"
  by (auto simp: read_exhausted_def initialization_fault_def best_effort_def is_cancelled_def CANCELLED_def
      fault_simps split: option.split)

text \<open>The object key and the order are one and the same: an accepted key is the order number
  itself, so two keys, and with them two locks of the runtime, never name one order.\<close>

theorem order_key_is_the_lock:
  assumes "order_key is_nfc key = Ok order"
  shows "order_str order = key \<and> clean_segment key \<and>
    (\<forall>key' order'. order_key is_nfc key' = Ok order' \<and> order_str order' = order_str order \<longrightarrow> key' = key)"
proof -
  have acc: "order_str o' = k \<and> clean_segment k" if "order_key is_nfc k = Ok o'" for k o'
    using that by (auto simp: order_key_def OrderKey_parse_Ok_iff split: if_splits)
  from acc [OF assms] acc show ?thesis by auto
qed

theorem order_key_is_the_lock_witness:
  "order_key (\<lambda>_. True) (us ''ORD-1'') = Ok (OrderKey (us ''ORD-1'')) \<and> clean_segment (us ''ORD-1'')"
proof -
  have "order_key (\<lambda>_. True) (us ''ORD-1'') = Ok (OrderKey (us ''ORD-1''))"
    using ex_order ex_number_nonblank by (simp add: order_key_def del: us_Cons)
  with order_key_is_the_lock [OF this] show ?thesis by simp
qed

end
