(* ===== verification/Markers.thy ===== *)
theory Markers
  imports Protected_Writes Faults
begin

text \<open>
  The unresolved-write marker as the services keep it (\<open>service/recovery.rs\<close>): the marker a
  write is prepared with, the checks a stored marker must pass to be read, the guard every
  mutation starts with, the shared observation and the operator's recovery.

  The JSON codec, the URL parser of an endpoint and the timestamp parser are third-party
  code: a record of functions the definitions take.  The object state of one order is the
  optional raw value stored under \<open>unresolved-write\<close>.
\<close>

section \<open>Codec and context\<close>

record ('raw, 'json) StateCodec =
  sc_marker :: "'raw \<Rightarrow> UnresolvedWrite option"
  sc_value :: "'raw \<Rightarrow> 'json option"
  sc_to_value :: "UnresolvedWrite \<Rightarrow> 'json"
  sc_store :: "UnresolvedWrite \<Rightarrow> 'raw"
  sc_endpoint_ok :: "ustr \<Rightarrow> bool"
  sc_timestamp_ok :: "ustr \<Rightarrow> bool"

record ObjectContext =
  cx_scope :: "ustr option"
  cx_key :: ustr
  cx_invocation_id :: ustr

section \<open>Reading a marker\<close>

definition parses :: "(ustr \<Rightarrow> ('a, 'e) result) \<Rightarrow> ustr \<Rightarrow> bool" where
  "parses parse s = (case parse s of Inr v \<Rightarrow> True | Inl e \<Rightarrow> False)"

definition strip_prefix :: "ustr \<Rightarrow> ustr \<Rightarrow> ustr option" where
  "strip_prefix p s = (if take (length p) s = p then Some (drop (length p) s) else None)"

definition valid_execution_contract :: "UnresolvedWrite \<Rightarrow> bool" where
  "valid_execution_contract marker =
    (if uw_prepayment_number marker \<noteq> None \<and> uw_execution_contract marker \<noteq> Some RequestResponseFinalV1
     then False
     else case (uw_execution_contract marker, uw_operation marker) of
       (Some RequestResponseOrdinaryV1, WO_Create IK_Invoice expected None) \<Rightarrow> True
     | (Some RequestResponsePrepaymentV1, WO_Create IK_Prepayment expected None) \<Rightarrow> True
     | (Some RequestResponseFinalV1, WO_Create IK_Final expected None) \<Rightarrow>
         uw_proforma_number marker = None
         \<and> (case uw_prepayment_number marker of
              Some n \<Rightarrow> parses ProviderDocumentNumber_try_from n | None \<Rightarrow> False)
     | (Some RequestResponseProformaV1, WO_Create IK_Proforma expected None) \<Rightarrow> uw_proforma_number marker = None
     | (None, operation) \<Rightarrow> uw_proforma_number marker = None
     | (Some (RequestResponseDeleteV1 mode force doc_id), WO_Delete num) \<Rightarrow> uw_proforma_number marker = None
     | (Some (RequestResponseStornoV1 doc_id fdate einv app), WO_Storno num) \<Rightarrow>
         uw_proforma_number marker = None \<and> 1 \<le> fst fdate \<and> fst fdate \<le> 9999
     | _ \<Rightarrow> False)"

text \<open>The external id a marker's operation must have.\<close>

definition expected_external_id :: "UnresolvedWrite \<Rightarrow> ExternalId option" where
  "expected_external_id marker = (case uw_operation marker of
     WO_Create kind expected_number corrected_number \<Rightarrow>
       if (case expected_number of Some n \<Rightarrow> \<not> parses InvoiceNumber_from_str n | None \<Rightarrow> False) then None
       else if kind = IK_Corrective then
         (case corrected_number of
            None \<Rightarrow> None
          | Some base \<Rightarrow>
              if \<not> parses InvoiceNumber_from_str base \<or> expected_number \<noteq> None then None
              else case strip_prefix
                  (ns_str (uw_namespace marker) @ us '':'' @ order_str (uw_order marker) @ us '':corrective:'')
                  (uw_external_id marker) of
                None \<Rightarrow> None
              | Some rest \<Rightarrow> (case CorrectionId_from_str rest of
                  Inl e \<Rightarrow> None
                | Inr correction \<Rightarrow>
                    Some (for_corrective (uw_namespace marker) (uw_order marker) correction)))
       else if corrected_number \<noteq> None then None
       else (case IssuedKind_document_kind kind of
          None \<Rightarrow> None
        | Some document_kind \<Rightarrow> Some (for_kind (uw_namespace marker) (uw_order marker) document_kind))
   | WO_Storno num \<Rightarrow> (case InvoiceNumber_from_str num of
       Inl e \<Rightarrow> None
     | Inr n \<Rightarrow> Some (for_storno (uw_namespace marker) (uw_order marker) n))
   | WO_Delete num \<Rightarrow>
       if parses InvoiceNumber_from_str num
       then Some (for_kind (uw_namespace marker) (uw_order marker) DK_Proforma) else None)"

text \<open>The checks of \<open>decode_marker\<close> after the JSON decoding.\<close>

definition marker_acceptable :: "('raw, 'json) StateCodec \<Rightarrow> ustr option \<Rightarrow> ustr \<Rightarrow> UnresolvedWrite \<Rightarrow> bool" where
  "marker_acceptable codec scope key marker \<longleftrightarrow>
     valid_execution_contract marker \<and>
     (if uw_execution_contract marker \<noteq> None
      then (case uw_proforma_number marker of Some n \<Rightarrow> parses ProviderDocumentNumber_try_from n | None \<Rightarrow> True)
      else uw_proforma_number marker = None) \<and>
     uw_scope marker = scope \<and> order_str (uw_order marker) = key \<and> uw_token marker \<noteq> [] \<and>
     uw_token marker = uw_owner_invocation marker \<and> sc_endpoint_ok codec (uw_endpoint marker) \<and>
     sc_timestamp_ok codec (uw_created_at marker) \<and>
     (case expected_external_id marker of
        Some expected \<Rightarrow> uw_external_id marker = external_str expected | None \<Rightarrow> False)"

definition decode_marker :: "('raw, 'json) StateCodec \<Rightarrow> 'raw \<Rightarrow> ustr option \<Rightarrow> ustr \<Rightarrow> UnresolvedWrite option" where
  "decode_marker codec raw scope key = (case sc_marker codec raw of
     None \<Rightarrow> None
   | Some marker \<Rightarrow> if marker_acceptable codec scope key marker then Some marker else None)"

section \<open>Writing a marker\<close>

definition write_marker ::
  "Namespace \<Rightarrow> Account \<Rightarrow> ObjectContext \<Rightarrow> OrderKey \<Rightarrow> ExternalId \<Rightarrow> WriteOperation \<Rightarrow> UnresolvedWrite" where
  "write_marker namespace account ctx order external_id operation =
    \<lparr> uw_execution_contract = None, uw_proforma_number = None, uw_prepayment_number = None,
      uw_version = MarkerVersion, uw_token = cx_invocation_id ctx,
      uw_owner_invocation = cx_invocation_id ctx, uw_created_at = [], uw_scope = cx_scope ctx,
      uw_order = order, uw_namespace = namespace, uw_external_id = external_str external_id,
      uw_account_id = acc_id account, uw_endpoint = acc_endpoint account,
      uw_credential_ref = acc_credential_ref account, uw_operation = operation \<rparr>"

text \<open>The markers of the replay-enabled writes.\<close>

definition create_replay_marker ::
  "Namespace \<Rightarrow> Account \<Rightarrow> ObjectContext \<Rightarrow> CreateStepRequest \<Rightarrow> (UnresolvedWrite, Fault) result" where
  "create_replay_marker namespace account ctx request = (case replay_contract request of
     None \<Rightarrow> Err (Fault_invalid_input (msg ''unsupported replay-enabled issuance intent''))
   | Some contract \<Rightarrow> Ok
       ((write_marker namespace account ctx (csr_order request) (csr_external_id request) (csr_operation request))
         \<lparr> uw_execution_contract := Some contract,
           uw_proforma_number := csr_proforma_number request,
           uw_prepayment_number := csr_prepayment_number request \<rparr>))"

definition storno_replay_marker ::
  "Namespace \<Rightarrow> Account \<Rightarrow> ObjectContext \<Rightarrow> OrderKey \<Rightarrow> StornoStepRequest \<Rightarrow> FoundDocument \<Rightarrow> UnresolvedWrite" where
  "storno_replay_marker namespace account ctx order request original =
    (write_marker namespace account ctx order (ssr_external_id request) (WO_Storno (ssr_invoice_number request)))
      \<lparr> uw_execution_contract := Some (storno_contract request original) \<rparr>"

definition delete_replay_marker ::
  "Namespace \<Rightarrow> Account \<Rightarrow> ObjectContext \<Rightarrow> OrderKey \<Rightarrow> ExternalId \<Rightarrow> FoundDocument \<Rightarrow> DeleteProformaRequest \<Rightarrow> UnresolvedWrite" where
  "delete_replay_marker namespace account ctx order external_id found request =
    (write_marker namespace account ctx order external_id (WO_Delete (number found)))
      \<lparr> uw_execution_contract := Some (for_delete request (document_id found)) \<rparr>"

text \<open>\<open>ReplayIntent::new\<close>, which also guards its deserialisation.\<close>

definition ReplayIntent_new :: "UnresolvedWrite \<Rightarrow> (UnresolvedWrite, ustr) result" where
  "ReplayIntent_new marker =
    (if uw_execution_contract marker = None \<or> \<not> valid_execution_contract marker
     then Err (msg ''replay intent requires a valid operation-specific execution contract'')
     else Ok marker)"

section \<open>The guard and the observation\<close>

definition guard :: "'raw option \<Rightarrow> (unit, Fault) result" where
  "guard state = (case state of
     Some raw \<Rightarrow> Err (Fault_outcome_unknown (msg ''an earlier Order write remains unresolved; retain its invocation identity and obtain operator reconciliation; no new mutation is authorized''))
   | None \<Rightarrow> Ok ())"

definition observe_marker ::
  "('raw, 'json) StateCodec \<Rightarrow> bool \<Rightarrow> ObjectContext \<Rightarrow> 'raw option \<Rightarrow> ('json UnresolvedObservation, Fault) result" where
  "observe_marker codec permits_replay ctx state = (case state of
     None \<Rightarrow> Ok Obs_Absent
   | Some raw \<Rightarrow> (case decode_marker codec raw (cx_scope ctx) (cx_key ctx) of
       Some marker \<Rightarrow> (case sc_value codec raw of
         None \<Rightarrow> Err (Fault_unavailable (msg ''could not read marker JSON''))
       | Some value \<Rightarrow>
           if sc_to_value codec marker \<noteq> value then Ok (Obs_Other (us ''unresolved'') value)
           else Ok (Obs_Unresolved marker))
     | None \<Rightarrow> (case (permits_replay, sc_value codec raw) of
         (True, Some value) \<Rightarrow> Ok (Obs_Other (us ''unresolved'') value)
       | _ \<Rightarrow> Ok Obs_Unreadable)))"

section \<open>Recovery by an operator\<close>

definition pinned_account :: "('raw, 'json) StateCodec \<Rightarrow> UnresolvedWrite \<Rightarrow> (Account, Fault) result" where
  "pinned_account codec marker =
    (if sc_endpoint_ok codec (uw_endpoint marker)
     then Ok ((Account_new (uw_account_id marker) (uw_credential_ref marker))\<lparr>acc_endpoint := uw_endpoint marker\<rparr>)
     else Err (Fault_invalid_input (msg ''invalid pinned endpoint'')))"

definition completion_matches :: "WriteOperation \<Rightarrow> AttestedCompletion \<Rightarrow> bool" where
  "completion_matches operation completion = (case (operation, completion) of
     (WO_Create kind expected corrected, AC_Issued num) \<Rightarrow> expected \<noteq> Some (provider_str num)
   | (WO_Storno original, AC_Reversed num) \<Rightarrow> original \<noteq> provider_str num
   | (WO_Delete target, AC_Deleted num) \<Rightarrow> target = number_str num
   | _ \<Rightarrow> False)"

definition validate_completion :: "WriteOperation \<Rightarrow> AttestedCompletion \<Rightarrow> (unit, Fault) result" where
  "validate_completion operation completion =
    (if completion_matches operation completion then Ok ()
     else Err (Fault_invalid_input (msg ''attested completion does not match the unresolved operation and expected document'')))"

text \<open>The verdict of \<open>verify-recovery\<close> on the document evidence.\<close>

definition recovery_verdict :: "WriteResult \<Rightarrow> (unit, Fault) result" where
  "recovery_verdict result = (case result of
     WR_Answered credentials answer \<Rightarrow>
       Err (into_fault (if credentials then AnC_CredentialsRejected answer else AnC_Inconclusive answer))
   | WR_Unresolved diagnostic \<Rightarrow> Err (Fault_outcome_unknown
       (msg ''document evidence does not settle the exact unresolved write; marker retained: '' @ wd_reason diagnostic))
   | _ \<Rightarrow> Ok ())"

text \<open>How the run \<open>verify-recovery\<close> ended when it did not record a result.\<close>

definition read_fault :: "TerminalError \<Rightarrow> Fault" where
  "read_fault error =
    (if is_cancelled error then Fault_cancelled (msg ''recovery observation cancelled; unresolved state is retained'')
     else Fault_unavailable (msg ''could not read or record recovery evidence; inspect the unresolved marker''))"

text \<open>
  \<open>recover_marker_inner\<close>: the returned state is the object state afterwards.  The two runs may
  end with a terminal error of the runtime (a cancellation, an exhausted policy, an account
  that cannot be opened): \<open>verify_error\<close> for \<open>verify-recovery\<close>, whose closure only reads and
  whose unrecorded reads leave nothing behind, and \<open>record_error\<close> for \<open>record-recovery\<close>.
  An unanswered read that the read policy gives up on ends as the runtime's 500.
\<close>

definition check_evidence ::
  "UnresolvedWrite \<Rightarrow> RecoveryEvidence \<Rightarrow> (WriteResult, TerminalError) result \<Rightarrow> (unit, Fault) result" where
  "check_evidence marker evidence verified = (case evidence of
     RE_NotExecuted audit_reference \<Rightarrow>
       if trim audit_reference = [] then Err (Fault_invalid_input (msg ''an operator attestation requires an audit reference''))
       else Ok ()
   | RE_Completed audit_reference completion \<Rightarrow>
       if trim audit_reference = [] then Err (Fault_invalid_input (msg ''an operator attestation requires an audit reference''))
       else validate_completion (uw_operation marker) completion
   | RE_Document num \<Rightarrow> (case verified of
       Inl error \<Rightarrow> Err (read_fault error)
     | Inr result \<Rightarrow> recovery_verdict result))"

definition recoverable ::
  "('raw, 'json) StateCodec \<Rightarrow> ObjectContext \<Rightarrow> RecoveryRequest \<Rightarrow> 'json \<Rightarrow> 'raw option \<Rightarrow> (UnresolvedWrite, Fault) result" where
  "recoverable codec ctx request exact_marker state = (case state of
     None \<Rightarrow> Err (Fault_invalid_input (msg ''no unresolved marker matches this recovery''))
   | Some raw \<Rightarrow> (case decode_marker codec raw (cx_scope ctx) (cx_key ctx) of
       None \<Rightarrow> Err (Fault_outcome_unknown (msg ''unreadable unresolved marker; use a compatible deployment''))
     | Some marker \<Rightarrow> (case sc_value codec raw of
         None \<Rightarrow> Err (Fault_outcome_unknown (msg ''unreadable marker JSON''))
       | Some stored \<Rightarrow>
           if marker \<noteq> rr_marker request \<or> stored \<noteq> exact_marker
           then Err (Fault_invalid_input (msg ''recovery does not match the exact unresolved marker''))
           else try_then (pinned_account codec marker) (\<lambda>_. Ok marker))))"

definition recover_marker_inner ::
  "('raw, 'json) StateCodec \<Rightarrow> 's Remote \<Rightarrow> ObjectContext \<Rightarrow> RecoveryRequest \<Rightarrow> 'json \<Rightarrow> TerminalError option
     \<Rightarrow> TerminalError option \<Rightarrow> 'raw option \<Rightarrow> ('s, (RecoveryResponse, Fault) result \<times> 'raw option) prog" where
  "recover_marker_inner codec rm ctx request exact_marker verify_error record_error state =
    (case recoverable codec ctx request exact_marker state of
       Inl fault \<Rightarrow> ret (Err fault, state)
     | Inr marker \<Rightarrow> do {
         verified \<leftarrow> (case (rr_evidence request, verify_error) of
            (RE_Document num, None) \<Rightarrow> do {
              checked \<leftarrow> reconcile_write_checked rm marker (Some (provider_str num));
              ret (map_err (\<lambda>unanswered. \<lparr> term_code = 500, term_message = Unanswered_display unanswered \<rparr>) checked)
            }
          | (_, Some error) \<Rightarrow> ret (Err error)
          | _ \<Rightarrow> ret (Err \<lparr> term_code = 500, term_message = [] \<rparr>));
         ret (case check_evidence marker (rr_evidence request) verified of
            Inl fault \<Rightarrow> (Err fault, state)
          | Inr _ \<Rightarrow> (case record_error of
              Some error \<Rightarrow> (Err (read_fault error), state)
            | None \<Rightarrow> (Ok \<lparr> rresp_token = uw_token marker, rresp_operator = rr_operator request,
                        rresp_evidence = rr_evidence request \<rparr>, None)))
       })"

section \<open>What a readable marker says\<close>

text \<open>The external id an operation on the order owns.\<close>

definition operation_shape :: "OrderKey \<Rightarrow> WriteOperation \<Rightarrow> IdShape \<Rightarrow> bool" where
  "operation_shape order operation sh \<longleftrightarrow> (case operation of
     WO_Create kind expected corrected \<Rightarrow> (case IssuedKind_document_kind kind of
         Some dk \<Rightarrow> sh = ShKind order dk \<and> corrected = None \<and>
           (case expected of Some n \<Rightarrow> parses InvoiceNumber_from_str n | None \<Rightarrow> True)
       | None \<Rightarrow> (\<exists>cid. sh = ShCorrective order cid \<and> CorrectionId_from_str (correction_str cid) = Ok cid) \<and>
           expected = None \<and> (case corrected of Some n \<Rightarrow> parses InvoiceNumber_from_str n | None \<Rightarrow> False))
   | WO_Storno num \<Rightarrow> sh = ShStorno order (InvoiceNumber num) \<and> parses InvoiceNumber_from_str num
   | WO_Delete num \<Rightarrow> sh = ShKind order DK_Proforma \<and> parses InvoiceNumber_from_str num)"

lemma parses_InvoiceNumber_iff: "parses InvoiceNumber_from_str n \<longleftrightarrow> InvoiceNumber_from_str n = Ok (InvoiceNumber n)"
  by (cases "InvoiceNumber_from_str n")
    (auto simp: parses_def InvoiceNumber_from_str_def try_then_def split: sum.splits)

lemma InvoiceNumber_from_str_Ok: "InvoiceNumber_from_str n = Inr v \<Longrightarrow> v = InvoiceNumber n"
  by (auto simp: InvoiceNumber_from_str_def try_then_Inr_iff)

lemma CorrectionId_from_str_Ok: "CorrectionId_from_str s = Inr cid \<Longrightarrow> correction_str cid = s"
  by (auto simp: CorrectionId_from_str_def try_then_Inr_iff)

lemma document_kind_None_iff: "IssuedKind_document_kind kind = None \<longleftrightarrow> kind = IK_Corrective"
  by (cases kind) simp_all

lemma strip_prefix_append [simp]: "strip_prefix p (p @ s) = Some s"
  by (simp add: strip_prefix_def)

lemma for_corrective_str: "external_str (for_corrective ns order cid) =
    (ns_str ns @ us '':'' @ order_str order @ us '':corrective:'') @ correction_str cid"
  by (simp add: for_corrective_def SEPARATOR_eq)

lemma expected_external_id_shape:
  "expected_external_id m = Some eid \<Longrightarrow> uw_external_id m = external_str eid \<Longrightarrow>
    \<exists>sh. operation_shape (uw_order m) (uw_operation m) sh \<and> eid = compose (uw_namespace m) sh"
proof (cases "uw_operation m")
  case (WO_Create kind expected corrected)
  assume e: "expected_external_id m = Some eid" "uw_external_id m = external_str eid"
  show ?thesis
  proof (cases "kind = IK_Corrective")
    case True
    with e WO_Create obtain cid base where "corrected = Some base" "parses InvoiceNumber_from_str base" "expected = None"
      "eid = for_corrective (uw_namespace m) (uw_order m) cid" "CorrectionId_from_str (correction_str cid) = Ok cid"
      by (auto simp: expected_external_id_def split: if_splits option.splits sum.splits dest: CorrectionId_from_str_Ok)
    with WO_Create True show ?thesis
      by (intro exI [of _ "ShCorrective (uw_order m) cid"]) (simp add: operation_shape_def)
  next
    case False
    with e WO_Create obtain dk where "IssuedKind_document_kind kind = Some dk" "corrected = None"
      "eid = for_kind (uw_namespace m) (uw_order m) dk"
      "case expected of Some n \<Rightarrow> parses InvoiceNumber_from_str n | None \<Rightarrow> True"
      by (auto simp: expected_external_id_def split: if_splits option.splits)
    with WO_Create show ?thesis
      by (intro exI [of _ "ShKind (uw_order m) dk"]) (simp add: operation_shape_def)
  qed
qed (auto simp: expected_external_id_def operation_shape_def parses_def dest!: InvoiceNumber_from_str_Ok
    split: sum.splits if_splits)

text \<open>(C19) A stored marker is read only as the unresolved write of this very object: its scope and
  order are the object's, its token is its owner's invocation, and its external id is the one
  the namespace composes for its operation on this order, so recovery can never be pointed at
  another order's or another kind's document.\<close>

theorem decode_marker_binds_identity:
  assumes "decode_marker codec raw scope key = Some m"
  shows "uw_scope m = scope \<and> order_str (uw_order m) = key \<and> uw_token m = uw_owner_invocation m \<and> uw_token m \<noteq> [] \<and>
    (\<exists>sh. operation_shape (uw_order m) (uw_operation m) sh \<and>
       uw_external_id m = external_str (compose (uw_namespace m) sh))"
proof -
  have acc: "marker_acceptable codec scope key m"
    using assms by (auto simp: decode_marker_def split: option.splits if_splits)
  then obtain eid where "expected_external_id m = Some eid" "uw_external_id m = external_str eid"
    by (auto simp: marker_acceptable_def split: option.splits)
  with expected_external_id_shape [OF this] acc show ?thesis
    by (auto simp: marker_acceptable_def)
qed

text \<open>A codec that stores markers as they are.\<close>

definition ex_codec :: "(UnresolvedWrite, UnresolvedWrite) StateCodec" where
  "ex_codec = \<lparr> sc_marker = Some, sc_value = Some, sc_to_value = (\<lambda>m. m), sc_store = (\<lambda>m. m),
     sc_endpoint_ok = (\<lambda>e. e \<noteq> []), sc_timestamp_ok = (\<lambda>t. t \<noteq> []) \<rparr>"

definition ex_context :: ObjectContext where
  "ex_context = \<lparr> cx_scope = None, cx_key = us ''ORD-1'', cx_invocation_id = us ''inv_1'' \<rparr>"

definition ex_marker :: UnresolvedWrite where
  "ex_marker = (write_marker (Namespace (us ''acct'')) (Account_new (us ''a'') (us ''c'')) ex_context
     (OrderKey (us ''ORD-1'')) (for_kind (Namespace (us ''acct'')) (OrderKey (us ''ORD-1'')) DK_Invoice)
     (WO_Create IK_Invoice None None))\<lparr>uw_created_at := us ''2026-01-01T00:00:00Z''\<rparr>"

lemma ex_marker_sel:
  "uw_operation ex_marker = WO_Create IK_Invoice None None" "uw_order ex_marker = OrderKey (us ''ORD-1'')"
  "uw_namespace ex_marker = Namespace (us ''acct'')"
  by (simp_all add: ex_marker_def write_marker_def)

lemma ex_marker_decodes: "decode_marker ex_codec ex_marker None (us ''ORD-1'') = Some ex_marker"
  by (simp add: decode_marker_def ex_codec_def marker_acceptable_def ex_marker_def write_marker_def
      valid_execution_contract_def expected_external_id_def ex_context_def Account_new_def Endpoint_PRODUCTION_def)

theorem decode_marker_binds_identity_witness:
  "decode_marker ex_codec ex_marker None (us ''ORD-1'') = Some ex_marker \<and>
   uw_token ex_marker = uw_owner_invocation ex_marker"
  using decode_marker_binds_identity [OF ex_marker_decodes] ex_marker_decodes by simp

section \<open>Every prepared marker can be read back\<close>

lemma expected_external_id_of_shape:
  assumes "operation_shape (uw_order m) (uw_operation m) sh" "uw_external_id m = external_str (compose (uw_namespace m) sh)"
  shows "expected_external_id m = Some (compose (uw_namespace m) sh)"
proof (cases "uw_operation m")
  case (WO_Create kind expected corrected)
  show ?thesis
  proof (cases "kind = IK_Corrective")
    case True
    then obtain cid base where c: "sh = ShCorrective (uw_order m) cid" "CorrectionId_from_str (correction_str cid) = Ok cid"
      "expected = None" "corrected = Some base" "parses InvoiceNumber_from_str base"
      using assms(1) WO_Create by (auto simp: operation_shape_def split: option.splits)
    have "uw_external_id m = (ns_str (uw_namespace m) @ us '':'' @ order_str (uw_order m) @ us '':corrective:'') @ correction_str cid"
      using assms(2) c(1) by (simp only: compose.simps for_corrective_str)
    then show ?thesis
      using c WO_Create True by (simp add: expected_external_id_def del: append_assoc us_Cons)
  next
    case False
    then show ?thesis
      using assms(1) WO_Create by (cases kind) (auto simp: operation_shape_def expected_external_id_def split: option.splits)
  qed
qed (use assms(1) in \<open>auto simp: operation_shape_def expected_external_id_def parses_InvoiceNumber_iff\<close>)

text \<open>
  A marker can be read back when its operation is one of its own order, under the id the namespace composes for it, and
  its execution contract is none, or one an intent may carry.
\<close>

lemma marker_readable:
  assumes "operation_shape (uw_order m) (uw_operation m) sh" "uw_external_id m = external_str (compose (uw_namespace m) sh)"
    and "uw_token m = uw_owner_invocation m" "uw_token m \<noteq> []"
    and "sc_endpoint_ok codec (uw_endpoint m)" "sc_timestamp_ok codec (uw_created_at m)"
    and "valid_execution_contract m" "uw_execution_contract m = None \<longrightarrow> uw_proforma_number m = None"
    and "\<And>n. uw_proforma_number m = Some n \<Longrightarrow> parses ProviderDocumentNumber_try_from n"
    and "sc_marker codec raw = Some m"
  shows "decode_marker codec raw (uw_scope m) (order_str (uw_order m)) = Some m"
proof -
  have "marker_acceptable codec (uw_scope m) (order_str (uw_order m)) m"
    unfolding marker_acceptable_def expected_external_id_of_shape [OF assms(1,2)]
    using assms by (auto split: option.split)
  then show ?thesis using assms(10) by (simp add: decode_marker_def)
qed

section \<open>Uncertainty is visible and recoverable\<close>

text \<open>While a marker is stored, no mutation is admitted and no observation calls the order
  settled, whether or not the marker can be read; and the marker an operator observes is
  exactly one a recovery request may name.\<close>

theorem unresolved_is_visible:
  "(guard state = Ok () \<longleftrightarrow> state = None) \<and>
   (observe_marker codec replay ctx state = Ok Obs_Absent \<longleftrightarrow> state = None) \<and>
   (observe_marker codec replay ctx state = Ok (Obs_Unresolved m) \<longrightarrow>
      recoverable codec ctx \<lparr> rr_operator = operator, rr_marker = m, rr_evidence = evidence \<rparr> (sc_to_value codec m) state = Ok m)"
proof (intro conjI impI)
  assume "observe_marker codec replay ctx state = Ok (Obs_Unresolved m)"
  then obtain raw where raw: "state = Some raw" "decode_marker codec raw (cx_scope ctx) (cx_key ctx) = Some m"
      "sc_value codec raw = Some (sc_to_value codec m)"
    by (auto simp: observe_marker_def split: option.splits if_splits bool.splits)
  then have "sc_endpoint_ok codec (uw_endpoint m)"
    by (auto simp: decode_marker_def marker_acceptable_def split: option.splits if_splits)
  with raw show "recoverable codec ctx \<lparr> rr_operator = operator, rr_marker = m, rr_evidence = evidence \<rparr>
      (sc_to_value codec m) state = Ok m"
    by (simp add: recoverable_def pinned_account_def)
qed (auto simp: guard_def observe_marker_def split: option.split bool.split)

theorem unresolved_is_visible_witness:
  "recoverable ex_codec ex_context \<lparr> rr_operator = us ''op'', rr_marker = ex_marker, rr_evidence = RE_NotExecuted (us ''T-1'') \<rparr>
     ex_marker (Some ex_marker) = Ok ex_marker"
proof -
  have "observe_marker ex_codec False ex_context (Some ex_marker) = Ok (Obs_Unresolved ex_marker)"
    using ex_marker_decodes by (simp add: observe_marker_def ex_context_def ex_codec_def)
  with unresolved_is_visible [of "Some ex_marker" ex_codec False ex_context ex_marker] show ?thesis
    by (simp add: ex_codec_def)
qed

text \<open>What a recovery request must show for the marker.\<close>

definition recovery_evidence :: "UnresolvedWrite \<Rightarrow> RecoveryEvidence \<Rightarrow> Event list \<Rightarrow> bool" where
  "recovery_evidence marker evidence xs \<longleftrightarrow> (case evidence of
     RE_NotExecuted audit_reference \<Rightarrow> trim audit_reference \<noteq> []
   | RE_Completed audit_reference completion \<Rightarrow>
       trim audit_reference \<noteq> [] \<and> completion_matches (uw_operation marker) completion
   | RE_Document num \<Rightarrow> (\<exists>w. marker_evidence marker w xs))"

lemma check_evidence_attested:
  "(\<And>num. evidence \<noteq> RE_Document num) \<Longrightarrow> check_evidence marker evidence verified = Ok u \<Longrightarrow>
    recovery_evidence marker evidence xs"
  by (cases evidence) (auto simp: check_evidence_def recovery_evidence_def validate_completion_def split: if_splits)

lemma recoverable_Ok: "recoverable codec ctx request exact_marker state = Ok m \<Longrightarrow>
    \<exists>raw. state = Some raw \<and> decode_marker codec raw (cx_scope ctx) (cx_key ctx) = Some (rr_marker request) \<and>
      sc_value codec raw = Some exact_marker \<and> m = rr_marker request"
  by (auto simp: recoverable_def try_then_Inr_iff split: option.splits if_splits)

text \<open>(C18) Recovery never writes to szamlazz.hu, and it clears the stored marker exactly when it
  answers with a receipt: the request named the exact stored marker, and its evidence is an
  audited attestation that fits the marker's operation, or a document whose fresh reads are
  positive evidence for that operation.  On every other path the marker is kept.\<close>

theorem recovery_clears_on_evidence:
  "yields (\<lambda>(r, state') xs. writes xs = [] \<and> (case r of
      Inl fault \<Rightarrow> state' = state
    | Inr receipt \<Rightarrow> state' = None \<and> rresp_token receipt = uw_token (rr_marker request) \<and>
        (\<exists>raw. state = Some raw \<and> decode_marker codec raw (cx_scope ctx) (cx_key ctx) = Some (rr_marker request) \<and>
           sc_value codec raw = Some exact_marker) \<and>
        recovery_evidence (rr_marker request) (rr_evidence request) xs))
     (recover_marker_inner codec rm ctx request exact_marker verify_error record_error state)"
proof (cases "recoverable codec ctx request exact_marker state")
  case (Inl f)
  then show ?thesis by (auto simp: recover_marker_inner_def intro!: yields_return)
next
  case (Inr m)
  note rec = recoverable_Ok [OF this]
  show ?thesis
  proof (cases "\<exists>num. rr_evidence request = RE_Document num \<and> verify_error = None")
    case True
    then obtain num where num: "rr_evidence request = RE_Document num" "verify_error = None" by blast
    have pos: "\<exists>w. marker_evidence m w xs" if "checked_sound m c checked xs" "checked = Inr w" "recovery_verdict w = Ok u"
      for c checked xs w and u :: unit
      using that by (auto simp: checked_sound_def recovery_verdict_def)
    show ?thesis
      unfolding recover_marker_inner_def Inr sum.case num prod.case RecoveryEvidence.case option.case
        State_Monad.bind_assoc State_Monad.bind_left_identity
    proof (rule yields_bind [OF reconcile_write_checked_yields], rule yields_return, goal_cases)
      case (1 checked xs)
      then show ?case
        using rec pos [OF 1] num
        by (auto simp: check_evidence_def recovery_evidence_def checked_sound_def
            split: sum.split option.split)
    qed
  next
    case False
    define v where "v = (case verify_error of Some error \<Rightarrow> error | None \<Rightarrow> \<lparr> term_code = 500, term_message = [] \<rparr>)"
    have "(case (rr_evidence request, verify_error) of
            (RE_Document num, None) \<Rightarrow> do {
              checked \<leftarrow> reconcile_write_checked rm m (Some (provider_str num));
              ret (map_err (\<lambda>unanswered. \<lparr> term_code = 500, term_message = Unanswered_display unanswered \<rparr>) checked)
            }
          | (_, Some error) \<Rightarrow> ret (Err error)
          | _ \<Rightarrow> ret (Err \<lparr> term_code = 500, term_message = [] \<rparr>)) = ret (Err v)"
      using False by (cases "rr_evidence request"; cases verify_error) (simp_all add: v_def)
    then have "recover_marker_inner codec rm ctx request exact_marker verify_error record_error state =
        ret (case check_evidence m (rr_evidence request) (Err v) of
            Inl fault \<Rightarrow> (Err fault, state)
          | Inr _ \<Rightarrow> (case record_error of
              Some error \<Rightarrow> (Err (read_fault error), state)
            | None \<Rightarrow> (Ok \<lparr> rresp_token = uw_token m, rresp_operator = rr_operator request,
                        rresp_evidence = rr_evidence request \<rparr>, None)))"
      by (simp add: recover_marker_inner_def Inr)
    moreover have "\<not> (\<exists>num. rr_evidence request = RE_Document num)" if "check_evidence m (rr_evidence request) (Err v) = Ok u" for u :: unit
      using that by (auto simp: check_evidence_def)
    ultimately show ?thesis
      using rec check_evidence_attested [of "rr_evidence request" m "Err v"]
      by (auto intro!: yields_return split: sum.split option.split)
  qed
qed

end
