(* ===== verification/Write_Protocol.thy ===== *)
theory Write_Protocol
  imports Markers
begin

text \<open>
  The durable sequence of one Order write (\<open>service/recovery.rs\<close>: \<open>protected_write\<close> and
  \<open>replay_enabled_write\<close>) as a step relation under a durable-execution runtime.

  The runtime is third-party code.  What the services rely on of it, as its documentation
  states it, is in the rules: the result of a completed run is recorded in the invocation's
  journal and returned without executing the closure when the invocation is replayed; a run
  whose result was not recorded executes again; state commands take effect in journal order;
  an execution may stop at any point, lose every local variable and be started again from the
  beginning; a run may end in a terminal error (a cancellation).  A stop or an error inside a
  closure that talks to szamlazz.hu leaves any prefix of its exchanges behind.  Between two
  steps anything else may change the remote side.
\<close>

section \<open>Configurations\<close>

datatype WriteMode = Protected | ReplayEnabled

record Journal =
  jn_prepared :: "UnresolvedWrite option"
  jn_set :: bool
  jn_armed :: bool
  jn_written :: "WriteResult option"
  jn_reconciled :: "WriteResult option"
  jn_cleared :: bool

definition empty_journal :: Journal where
  "empty_journal = \<lparr> jn_prepared = None, jn_set = False, jn_armed = False, jn_written = None,
     jn_reconciled = None, jn_cleared = False \<rparr>"

datatype Pc =
    PrepareRun | SetMarker | ArmRun | ArmExecuted | WriteRun | WriteExecuted WriteResult
  | Judge WriteResult | ReconcileRun WriteDiagnostic | ReconcileExecuted WriteResult
  | ClearMarker WriteResult | Returning WriteResult | Finished "(WriteResult, Fault) result"

record 's Config =
  cf_journal :: Journal
  cf_state :: "UnresolvedWrite option"
  cf_world :: "'s world"
  cf_permit :: bool
  cf_pc :: Pc

record 's WriteCall =
  wc_mode :: WriteMode
  wc_marker :: UnresolvedWrite
  wc_order :: OrderKey
  wc_external_id :: ExternalId
  wc_write :: "UnresolvedWrite \<Rightarrow> ('s, WriteResult) prog"

section \<open>Pieces of the sequence\<close>

text \<open>The fault of a run that ended without recording a result once the marker is set.\<close>

definition uncertain_kind :: "WriteMode \<Rightarrow> WriteOperation \<Rightarrow> IssuedKind option" where
  "uncertain_kind mode operation = (case operation of
     WO_Create kind expected corrected \<Rightarrow> Some kind
   | WO_Delete num \<Rightarrow> (if mode = ReplayEnabled then Some IK_Proforma else None)
   | WO_Storno num \<Rightarrow> None)"

definition uncertain :: "'s WriteCall \<Rightarrow> UnresolvedWrite \<Rightarrow> TerminalError \<Rightarrow> Fault" where
  "uncertain call marker error = about (with_run_cause (Fault_outcome_unknown (case wc_mode call of
       Protected \<Rightarrow> msg ''the Order write ended at a durable await ('' @ decimal_digits (unat (term_code error)) @ us '': ''
         @ (if is_cancelled error then us ''cancelled'' else us ''unconfirmed'')
         @ msg ''); a send may have landed; the unresolved marker is retained; reconcile before deliberately authorizing another operation''
     | ReplayEnabled \<Rightarrow> msg ''replay-enabled Order write interrupted at durable await; marker retained'')) error)
     (wc_order call) (uncertain_kind (wc_mode call) (uw_operation marker)) (wc_external_id call)"

text \<open>The closure of the write run: the permission of this execution is consumed, or, for a
  replay-enabled write, the retained contract is compared with the request's.\<close>

definition unavailable_reason :: "WriteMode \<Rightarrow> ustr" where
  "unavailable_reason mode = (case mode of
     Protected \<Rightarrow> msg ''pinned recovery account unavailable before write execution''
   | ReplayEnabled \<Rightarrow> msg ''pinned account unavailable inside replay-enabled write'')"

definition may_execute :: "'s WriteCall \<Rightarrow> UnresolvedWrite \<Rightarrow> bool \<Rightarrow> bool" where
  "may_execute call marker permit = (case wc_mode call of
     Protected \<Rightarrow> permit
   | ReplayEnabled \<Rightarrow> uw_execution_contract marker = uw_execution_contract (wc_marker call))"

definition refused_reason :: "WriteMode \<Rightarrow> ustr" where
  "refused_reason mode = (case mode of
     Protected \<Rightarrow> msg ''send permission unavailable on replay; reconcile the earlier execution''
   | ReplayEnabled \<Rightarrow> msg ''outbound request differs from retained execution contract'')"

definition write_closure :: "'s WriteCall \<Rightarrow> bool \<Rightarrow> UnresolvedWrite \<Rightarrow> bool \<Rightarrow> ('s, WriteResult) prog" where
  "write_closure call account_available marker permit =
    (if may_execute call marker permit then
       (if account_available then wc_write call marker
        else ret (WriteResult_unresolved (unavailable_reason (wc_mode call))))
     else ret (WriteResult_unresolved (refused_reason (wc_mode call))))"

definition is_unresolved :: "WriteResult \<Rightarrow> bool" where
  "is_unresolved r = (case r of WR_Unresolved d \<Rightarrow> True | _ \<Rightarrow> False)"

text \<open>The world a program stopped in the middle may leave: a prefix of its exchanges was made.\<close>

definition interrupted :: "('s, 'a) prog \<Rightarrow> 's world \<Rightarrow> 's world \<Rightarrow> bool" where
  "interrupted m w w' \<longleftrightarrow> (\<exists>ys zs. trace (snd (run_state m w)) = trace w @ ys @ zs \<and> trace w' = trace w @ ys)"

section \<open>The step relation\<close>

inductive write_step :: "'s Remote \<Rightarrow> 's WriteCall \<Rightarrow> 's Config \<Rightarrow> 's Config \<Rightarrow> bool" for rm call where
  Refused: "cf_pc c = PrepareRun \<Longrightarrow> wc_mode call = ReplayEnabled \<Longrightarrow> ReplayIntent_new (wc_marker call) = Err e \<Longrightarrow>
    write_step rm call c (c\<lparr>cf_pc := Finished (Err (Fault_invalid_input e))\<rparr>)"
| Prepare: "cf_pc c = PrepareRun \<Longrightarrow> wc_mode call = Protected \<or> ReplayIntent_new (wc_marker call) = Ok m \<Longrightarrow>
    jn_prepared (cf_journal c) = None \<Longrightarrow>
    write_step rm call c (c\<lparr>cf_journal := (cf_journal c)\<lparr>jn_prepared := Some ((wc_marker call)\<lparr>uw_created_at := now\<rparr>)\<rparr>,
      cf_pc := SetMarker\<rparr>)"
| PrepareReplay: "cf_pc c = PrepareRun \<Longrightarrow> wc_mode call = Protected \<or> ReplayIntent_new (wc_marker call) = Ok m \<Longrightarrow>
    jn_prepared (cf_journal c) = Some p \<Longrightarrow> write_step rm call c (c\<lparr>cf_pc := SetMarker\<rparr>)"
| PrepareFail: "cf_pc c = PrepareRun \<Longrightarrow> jn_prepared (cf_journal c) = None \<Longrightarrow>
    write_step rm call c (c\<lparr>cf_pc := Finished (Err (read_fault error))\<rparr>)"
| Set: "cf_pc c = SetMarker \<Longrightarrow> \<not> jn_set (cf_journal c) \<Longrightarrow>
    write_step rm call c (c\<lparr>cf_state := jn_prepared (cf_journal c), cf_journal := (cf_journal c)\<lparr>jn_set := True\<rparr>,
      cf_permit := False, cf_pc := ArmRun\<rparr>)"
| SetReplay: "cf_pc c = SetMarker \<Longrightarrow> jn_set (cf_journal c) \<Longrightarrow>
    write_step rm call c (c\<lparr>cf_permit := False, cf_pc := ArmRun\<rparr>)"
| ArmExec: "cf_pc c = ArmRun \<Longrightarrow> \<not> jn_armed (cf_journal c) \<Longrightarrow>
    write_step rm call c (c\<lparr>cf_permit := (wc_mode call = Protected), cf_pc := ArmExecuted\<rparr>)"
| ArmRecord: "cf_pc c = ArmExecuted \<Longrightarrow>
    write_step rm call c (c\<lparr>cf_journal := (cf_journal c)\<lparr>jn_armed := True\<rparr>, cf_pc := WriteRun\<rparr>)"
| ArmReplay: "cf_pc c = ArmRun \<Longrightarrow> jn_armed (cf_journal c) \<Longrightarrow> write_step rm call c (c\<lparr>cf_pc := WriteRun\<rparr>)"
| ArmFail: "cf_pc c \<in> {ArmRun, ArmExecuted} \<Longrightarrow> \<not> jn_armed (cf_journal c) \<Longrightarrow> jn_prepared (cf_journal c) = Some p \<Longrightarrow>
    write_step rm call c (c\<lparr>cf_pc := Finished (Err (uncertain call p error))\<rparr>)"
| WriteExec: "cf_pc c = WriteRun \<Longrightarrow> jn_written (cf_journal c) = None \<Longrightarrow> jn_prepared (cf_journal c) = Some p \<Longrightarrow>
    run_state (write_closure call available p (cf_permit c)) (cf_world c) = (r, w') \<Longrightarrow>
    write_step rm call c (c\<lparr>cf_world := w', cf_permit := False, cf_pc := WriteExecuted r\<rparr>)"
| WriteRecord: "cf_pc c = WriteExecuted r \<Longrightarrow>
    write_step rm call c (c\<lparr>cf_journal := (cf_journal c)\<lparr>jn_written := Some r\<rparr>, cf_pc := Judge r\<rparr>)"
| WriteReplay: "cf_pc c = WriteRun \<Longrightarrow> jn_written (cf_journal c) = Some r \<Longrightarrow>
    write_step rm call c (c\<lparr>cf_pc := Judge r\<rparr>)"
| WriteStopped: "cf_pc c = WriteRun \<Longrightarrow> jn_written (cf_journal c) = None \<Longrightarrow> jn_prepared (cf_journal c) = Some p \<Longrightarrow>
    interrupted (write_closure call available p (cf_permit c)) (cf_world c) w' \<Longrightarrow>
    pc' = PrepareRun \<or> pc' = Finished (Err (uncertain call p error)) \<Longrightarrow>
    write_step rm call c (c\<lparr>cf_world := w', cf_permit := False, cf_pc := pc'\<rparr>)"
| WriteFail: "cf_pc c = WriteExecuted r \<Longrightarrow> jn_prepared (cf_journal c) = Some p \<Longrightarrow>
    write_step rm call c (c\<lparr>cf_pc := Finished (Err (uncertain call p error))\<rparr>)"
| JudgeUnresolved: "cf_pc c = Judge (WR_Unresolved d) \<Longrightarrow> write_step rm call c (c\<lparr>cf_pc := ReconcileRun d\<rparr>)"
| JudgeSettled: "cf_pc c = Judge r \<Longrightarrow> \<not> is_unresolved r \<Longrightarrow> write_step rm call c (c\<lparr>cf_pc := ClearMarker r\<rparr>)"
| ReconcileExec: "cf_pc c = ReconcileRun d \<Longrightarrow> jn_reconciled (cf_journal c) = None \<Longrightarrow> jn_prepared (cf_journal c) = Some p \<Longrightarrow>
    run_state (reconcile_write_diagnostic rm p d) (cf_world c) = (r, w') \<Longrightarrow>
    write_step rm call c (c\<lparr>cf_world := w', cf_permit := False,
      cf_pc := (if is_unresolved r then PrepareRun else ReconcileExecuted r)\<rparr>)"
| ReconcileRecord: "cf_pc c = ReconcileExecuted r \<Longrightarrow>
    write_step rm call c (c\<lparr>cf_journal := (cf_journal c)\<lparr>jn_reconciled := Some r\<rparr>, cf_pc := ClearMarker r\<rparr>)"
| ReconcileReplay: "cf_pc c = ReconcileRun d \<Longrightarrow> jn_reconciled (cf_journal c) = Some r \<Longrightarrow>
    write_step rm call c (c\<lparr>cf_pc := ClearMarker r\<rparr>)"
| ReconcileStopped: "cf_pc c = ReconcileRun d \<Longrightarrow> jn_reconciled (cf_journal c) = None \<Longrightarrow> jn_prepared (cf_journal c) = Some p \<Longrightarrow>
    interrupted (reconcile_write_diagnostic rm p d) (cf_world c) w' \<Longrightarrow>
    pc' = PrepareRun \<or> pc' = Finished (Err (uncertain call p error)) \<Longrightarrow>
    write_step rm call c (c\<lparr>cf_world := w', cf_permit := False, cf_pc := pc'\<rparr>)"
| ReconcileFail: "cf_pc c = ReconcileExecuted r \<Longrightarrow> jn_prepared (cf_journal c) = Some p \<Longrightarrow>
    write_step rm call c (c\<lparr>cf_pc := Finished (Err (uncertain call p error))\<rparr>)"
| Clear: "cf_pc c = ClearMarker r \<Longrightarrow> \<not> jn_cleared (cf_journal c) \<Longrightarrow>
    write_step rm call c (c\<lparr>cf_state := None, cf_journal := (cf_journal c)\<lparr>jn_cleared := True\<rparr>, cf_pc := Returning r\<rparr>)"
| ClearReplay: "cf_pc c = ClearMarker r \<Longrightarrow> jn_cleared (cf_journal c) \<Longrightarrow>
    write_step rm call c (c\<lparr>cf_pc := Returning r\<rparr>)"
| Return: "cf_pc c = Returning r \<Longrightarrow> write_step rm call c (c\<lparr>cf_pc := Finished (Ok r)\<rparr>)"
| Crash: "(\<forall>out. cf_pc c \<noteq> Finished out) \<Longrightarrow> write_step rm call c (c\<lparr>cf_permit := False, cf_pc := PrepareRun\<rparr>)"
| Environment: "write_step rm call c (c\<lparr>cf_world := (cf_world c)\<lparr>remote := s\<rparr>\<rparr>)"

text \<open>An invocation starts on an order without a marker (the guard) with an empty journal.\<close>

definition started :: "'s Config \<Rightarrow> bool" where
  "started c \<longleftrightarrow> guard (cf_state c) = Ok () \<and> cf_journal c = empty_journal \<and> \<not> cf_permit c \<and> cf_pc c = PrepareRun"

section \<open>The journal and the stored marker\<close>

text \<open>How far the journal must have come for each place of the sequence.\<close>

definition settled_in :: "Journal \<Rightarrow> WriteResult \<Rightarrow> bool" where
  "settled_in j r \<longleftrightarrow> \<not> is_unresolved r \<and>
     (jn_written j = Some r \<or> (jn_reconciled j = Some r \<and> (\<exists>d. jn_written j = Some (WR_Unresolved d))))"

definition pc_consistent :: "Journal \<Rightarrow> Pc \<Rightarrow> bool" where
  "pc_consistent j pc \<longleftrightarrow> (case pc of
     PrepareRun \<Rightarrow> True
   | SetMarker \<Rightarrow> jn_prepared j \<noteq> None
   | ArmRun \<Rightarrow> jn_set j
   | ArmExecuted \<Rightarrow> jn_set j \<and> \<not> jn_armed j
   | WriteRun \<Rightarrow> jn_armed j
   | WriteExecuted r \<Rightarrow> jn_armed j \<and> jn_written j = None
   | Judge r \<Rightarrow> jn_written j = Some r
   | ReconcileRun d \<Rightarrow> jn_written j = Some (WR_Unresolved d)
   | ReconcileExecuted r \<Rightarrow> (\<exists>d. jn_written j = Some (WR_Unresolved d)) \<and> jn_reconciled j = None \<and> \<not> is_unresolved r
   | ClearMarker r \<Rightarrow> settled_in j r
   | Returning r \<Rightarrow> settled_in j r \<and> jn_cleared j
   | Finished out \<Rightarrow> (case out of
       Inr r \<Rightarrow> settled_in j r \<and> jn_cleared j
     | Inl fault \<Rightarrow> \<not> jn_cleared j \<and> (jn_set j \<longrightarrow> f_code fault = TC_OutcomeUnknown)))"

definition journal_inv :: "'s WriteCall \<Rightarrow> 's Config \<Rightarrow> bool" where
  "journal_inv call c \<longleftrightarrow> (let j = cf_journal c in
     (\<forall>p. jn_prepared j = Some p \<longrightarrow> (\<exists>now. p = (wc_marker call)\<lparr>uw_created_at := now\<rparr>) \<and>
        (wc_mode call = Protected \<or> (\<exists>m. ReplayIntent_new (wc_marker call) = Ok m))) \<and>
     (jn_set j \<longrightarrow> jn_prepared j \<noteq> None) \<and> (jn_armed j \<longrightarrow> jn_set j) \<and>
     (jn_written j \<noteq> None \<longrightarrow> jn_armed j) \<and>
     (\<forall>r. jn_reconciled j = Some r \<longrightarrow> settled_in j r) \<and>
     (jn_cleared j \<longrightarrow> jn_set j \<and> (\<exists>r. settled_in j r)) \<and>
     cf_state c = (if jn_set j \<and> \<not> jn_cleared j then jn_prepared j else None) \<and>
     pc_consistent j (cf_pc c))"

lemma uncertain_code [simp]: "f_code (uncertain call marker error) = TC_OutcomeUnknown"
  by (simp add: uncertain_def fault_simps with_run_cause_def)

lemma settled_in_simps [simp]:
  "settled_in (j\<lparr>jn_prepared := x\<rparr>) r = settled_in j r" "settled_in (j\<lparr>jn_set := b\<rparr>) r = settled_in j r"
  "settled_in (j\<lparr>jn_armed := b\<rparr>) r = settled_in j r" "settled_in (j\<lparr>jn_cleared := b\<rparr>) r = settled_in j r"
  by (simp_all add: settled_in_def)

lemma is_unresolved_simps [simp]: "is_unresolved (WR_Unresolved d)"
  by (simp add: is_unresolved_def)

lemma is_unresolved_iff: "is_unresolved r \<longleftrightarrow> (\<exists>d. r = WR_Unresolved d)"
  by (cases r) (simp_all add: is_unresolved_def)

lemma journal_inv_started: "started c \<Longrightarrow> journal_inv call c"
  by (auto simp: started_def journal_inv_def empty_journal_def pc_consistent_def guard_def Let_def split: option.splits)

lemma journal_inv_step: "write_step rm call c c' \<Longrightarrow> journal_inv call c \<Longrightarrow> journal_inv call c'"
  by (induction rule: write_step.induct)
    (auto simp: journal_inv_def pc_consistent_def settled_in_def is_unresolved_iff Let_def)

lemma one_write_prefix: "one_write P (ys @ zs) \<Longrightarrow> one_write P ys"
  by (auto simp: one_write_def append_eq_Cons_conv)

lemma interrupted_yields:
  assumes "yields Q m" "interrupted m w w'"
  obtains ys zs r where "trace w' = trace w @ ys" "Q r (ys @ zs)"
  using assms unfolding yields_def interrupted_def by (metis append_same_eq same_append_eq)

lemma yields_elim:
  assumes "yields Q m" "run_state m w = (r, w')"
  obtains xs where "trace w' = trace w @ xs" "Q r xs"
  using assms unfolding yields_def by (metis fst_conv snd_conv)

lemma marker_evidence_created_at [simp]:
  "marker_evidence (m\<lparr>uw_created_at := now\<rparr>) r xs = marker_evidence m r xs"
  by (simp add: marker_evidence_def create_evidence_def marker_request_def
      split: WriteResult.split CreateOutcome.split StornoOutcome.split)

lemma marker_evidence_later: "marker_evidence m r xs \<Longrightarrow> marker_evidence m r (xs @ ys)"
  by (rule marker_evidence_append) simp

section \<open>The contract of an Order write\<close>

text \<open>What the exchanges of an invocation are at each place of the sequence.\<close>

definition trace_inv ::
  "'s WriteCall \<Rightarrow> (Event \<Rightarrow> bool) \<Rightarrow> (WriteResult \<Rightarrow> Event list \<Rightarrow> bool) \<Rightarrow> Event list \<Rightarrow> 's Config \<Rightarrow> bool" where
  "trace_inv call own sound t0 c \<longleftrightarrow> (\<exists>xs. trace (cf_world c) = t0 @ xs \<and> (\<forall>e \<in> set (writes xs). own e) \<and>
     (\<not> jn_armed (cf_journal c) \<longrightarrow> writes xs = []) \<and>
     (wc_mode call = Protected \<longrightarrow> one_write own xs \<and> (cf_permit c \<longrightarrow> writes xs = [])) \<and>
     (\<forall>r. jn_written (cf_journal c) = Some r \<or> cf_pc c = WriteExecuted r \<longrightarrow> is_unresolved r \<or> sound r xs) \<and>
     (\<forall>r. jn_reconciled (cf_journal c) = Some r \<or> cf_pc c = ReconcileExecuted r \<longrightarrow>
        marker_evidence (wc_marker call) r xs))"

text \<open>The results that say the write's effect is there, whoever brought it about: the document was issued, found or
  reversed, the original was reversed, the proforma deleted.  Every other settled result says it is not.\<close>

definition established :: "WriteResult \<Rightarrow> bool" where
  "established r \<longleftrightarrow> (case r of
     WR_Create (CrO_Issued d) \<Rightarrow> True | WR_Create (CrO_Found d) \<Rightarrow> True
   | WR_Create (CrO_Reconciled d) \<Rightarrow> True | WR_Create (CrO_Reversed d) \<Rightarrow> True
   | WR_Storno (StO_Reversed d) \<Rightarrow> True | WR_Storno (StO_AlreadyReversed n i) \<Rightarrow> True
   | WR_Delete DO_Deleted \<Rightarrow> True
   | _ \<Rightarrow> False)"

lemma marker_evidence_established: "marker_evidence m r xs \<Longrightarrow> established r"
  by (auto simp: marker_evidence_def established_def split: WriteResult.splits CreateOutcome.splits StornoOutcome.splits)

text \<open>
  What the sequence relies on of the gateway's operation it runs: one execution makes at most
  one write, an \<open>own\<close> one, and a result other than unresolved is \<open>sound\<close> for the exchanges made;
  a replay-enabled one settles with an established effect only.  A sound result stays sound when reads follow,
  and an established one whatever came before; a result that is not established is sound only when every
  write made was refused.
\<close>

locale order_write =
  fixes rm :: "'s Remote"
    and call :: "'s WriteCall"
    and own :: "Event \<Rightarrow> bool"
    and sound :: "WriteResult \<Rightarrow> Event list \<Rightarrow> bool"
  assumes execution: "yields (\<lambda>r xs. one_write own xs \<and>
      (is_unresolved r \<or> sound r xs \<and> (wc_mode call = ReplayEnabled \<longrightarrow> established r)))
      (wc_write call ((wc_marker call)\<lparr>uw_created_at := now\<rparr>))"
    and sound_later: "sound r xs \<Longrightarrow> writes zs = [] \<Longrightarrow> sound r (xs @ zs)"
    and sound_earlier: "sound r xs \<Longrightarrow> established r \<or> writes ys = [] \<Longrightarrow> sound r (ys @ xs)"
    and sound_refused: "sound r xs \<Longrightarrow> \<not> established r \<Longrightarrow> list_all refused_write (writes xs)"
begin

lemma closure_yields:
  assumes "m = (wc_marker call)\<lparr>uw_created_at := now\<rparr>"
  shows "yields (\<lambda>r xs. one_write own xs \<and> (is_unresolved r \<or> sound r xs \<and> (wc_mode call = ReplayEnabled \<longrightarrow> established r)) \<and>
      (writes xs \<noteq> [] \<or> \<not> is_unresolved r \<longrightarrow> may_execute call m permit)) (write_closure call available m permit)"
  unfolding write_closure_def assms
  by (auto intro!: yields_return yields_weaken [OF execution] simp: WriteResult_unresolved_def)

lemma prepared_form: "journal_inv call c \<Longrightarrow> jn_prepared (cf_journal c) = Some p \<Longrightarrow>
    \<exists>now. p = (wc_marker call)\<lparr>uw_created_at := now\<rparr>"
  by (auto simp: journal_inv_def Let_def)

lemma one_write_own: "one_write own xs \<Longrightarrow> \<forall>e \<in> set (writes xs). own e"
  by (auto simp: one_write_def)

lemma trace_inv_started: "started c \<Longrightarrow> trace_inv call own sound (trace (cf_world c)) c"
  by (auto simp: started_def trace_inv_def empty_journal_def)

lemma trace_inv_write:
  assumes inv: "trace_inv call own sound t0 c" "cf_pc c = WriteRun" "jn_armed (cf_journal c)" "jn_written (cf_journal c) = None"
    and w': "trace w' = trace (cf_world c) @ ys" "one_write own ys" "writes ys \<noteq> [] \<longrightarrow> may_execute call m (cf_permit c)"
    and pc': "\<forall>r. pc' = WriteExecuted r \<longrightarrow> is_unresolved r \<or>
        sound r ys \<and> (wc_mode call = ReplayEnabled \<longrightarrow> established r) \<and> may_execute call m (cf_permit c)"
      "\<forall>r. pc' \<noteq> ReconcileExecuted r"
  shows "trace_inv call own sound t0 (c\<lparr>cf_world := w', cf_permit := False, cf_pc := pc'\<rparr>)"
proof -
  obtain xs where xs: "trace (cf_world c) = t0 @ xs" "\<forall>e \<in> set (writes xs). own e"
    "wc_mode call = Protected \<longrightarrow> one_write own xs \<and> (cf_permit c \<longrightarrow> writes xs = [])"
    "\<forall>r. jn_reconciled (cf_journal c) = Some r \<longrightarrow> marker_evidence (wc_marker call) r xs"
    using inv unfolding trace_inv_def by blast
  have "one_write own (xs @ ys)" if "wc_mode call = Protected"
    using xs(3) w'(2,3) that by (cases "writes ys = []") (auto simp: one_write_def may_execute_def)
  moreover have "is_unresolved r \<or> sound r (xs @ ys)" if "pc' = WriteExecuted r" for r
    using pc'(1) that xs(3) sound_earlier [of r ys xs] by (cases "wc_mode call") (auto simp: may_execute_def)
  ultimately show ?thesis
    unfolding trace_inv_def using xs w'(1) one_write_own [OF w'(2)] inv pc'(2)
    by (intro exI [of _ "xs @ ys"]) (auto intro: marker_evidence_later)
qed

lemma trace_inv_read:
  assumes inv: "trace_inv call own sound t0 c" "jn_reconciled (cf_journal c) = None"
    and w': "trace w' = trace (cf_world c) @ ys" "writes ys = []"
    and pc': "\<forall>r. pc' \<noteq> WriteExecuted r" "\<forall>r. pc' = ReconcileExecuted r \<longrightarrow> marker_evidence (wc_marker call) r ys"
  shows "trace_inv call own sound t0 (c\<lparr>cf_world := w', cf_permit := False, cf_pc := pc'\<rparr>)"
proof -
  obtain xs where xs: "trace (cf_world c) = t0 @ xs" "\<forall>e \<in> set (writes xs). own e"
    "\<not> jn_armed (cf_journal c) \<longrightarrow> writes xs = []" "wc_mode call = Protected \<longrightarrow> one_write own xs"
    "\<forall>r. jn_written (cf_journal c) = Some r \<longrightarrow> is_unresolved r \<or> sound r xs"
    using inv unfolding trace_inv_def by blast
  then show ?thesis
    unfolding trace_inv_def using w' inv(2) pc'
    by (intro exI [of _ "xs @ ys"])
      (auto simp: one_write_read_after intro: sound_later marker_evidence_append)
qed

lemma trace_inv_quiet:
  assumes inv: "trace_inv call own sound t0 c" and w: "trace (cf_world c') = trace (cf_world c)"
    and armed: "jn_armed (cf_journal c) \<longrightarrow> jn_armed (cf_journal c')"
    and permit: "wc_mode call = Protected \<longrightarrow> cf_permit c' \<longrightarrow> cf_permit c \<or> \<not> jn_armed (cf_journal c)"
    and written: "\<forall>r. jn_written (cf_journal c') = Some r \<or> cf_pc c' = WriteExecuted r \<longrightarrow>
      jn_written (cf_journal c) = Some r \<or> cf_pc c = WriteExecuted r"
    and reconciled: "\<forall>r. jn_reconciled (cf_journal c') = Some r \<or> cf_pc c' = ReconcileExecuted r \<longrightarrow>
      jn_reconciled (cf_journal c) = Some r \<or> cf_pc c = ReconcileExecuted r"
  shows "trace_inv call own sound t0 c'"
proof -
  obtain xs where xs: "trace (cf_world c) = t0 @ xs" "\<forall>e \<in> set (writes xs). own e"
    "\<not> jn_armed (cf_journal c) \<longrightarrow> writes xs = []"
    "wc_mode call = Protected \<longrightarrow> one_write own xs \<and> (cf_permit c \<longrightarrow> writes xs = [])"
    "\<forall>r. jn_written (cf_journal c) = Some r \<or> cf_pc c = WriteExecuted r \<longrightarrow> is_unresolved r \<or> sound r xs"
    "\<forall>r. jn_reconciled (cf_journal c) = Some r \<or> cf_pc c = ReconcileExecuted r \<longrightarrow> marker_evidence (wc_marker call) r xs"
    using inv unfolding trace_inv_def by (elim exE conjE)
  have "trace (cf_world c') = t0 @ xs" using w xs(1) by simp
  moreover have "\<not> jn_armed (cf_journal c') \<longrightarrow> writes xs = []" using armed xs(3) by blast
  moreover have "wc_mode call = Protected \<longrightarrow> one_write own xs \<and> (cf_permit c' \<longrightarrow> writes xs = [])"
    using permit xs(3,4) by blast
  moreover have "\<forall>r. jn_written (cf_journal c') = Some r \<or> cf_pc c' = WriteExecuted r \<longrightarrow> is_unresolved r \<or> sound r xs"
    using written xs(5) by blast
  moreover have "\<forall>r. jn_reconciled (cf_journal c') = Some r \<or> cf_pc c' = ReconcileExecuted r \<longrightarrow>
      marker_evidence (wc_marker call) r xs"
    using reconciled xs(6) by blast
  ultimately show ?thesis unfolding trace_inv_def using xs(2) by blast
qed

lemma trace_inv_step:
  assumes "write_step rm call c c'" "journal_inv call c" "trace_inv call own sound t0 c"
  shows "trace_inv call own sound t0 c'"
  using assms
proof (induction rule: write_step.induct)
  case (WriteExec c p available r w')
  then obtain now where "p = (wc_marker call)\<lparr>uw_created_at := now\<rparr>" using prepared_form by blast
  with WriteExec obtain ys where "trace w' = trace (cf_world c) @ ys" "one_write own ys"
    "is_unresolved r \<or> sound r ys \<and> (wc_mode call = ReplayEnabled \<longrightarrow> established r)"
    "writes ys \<noteq> [] \<or> \<not> is_unresolved r \<longrightarrow> may_execute call p (cf_permit c)"
    using yields_elim [OF closure_yields, of p now available "cf_permit c" "cf_world c" r w'] by metis
  with WriteExec show ?case
    by (intro trace_inv_write [where ys = ys and m = p]) (auto simp: journal_inv_def pc_consistent_def Let_def)
next
  case (WriteStopped c p available w' pc' error)
  then obtain now where "p = (wc_marker call)\<lparr>uw_created_at := now\<rparr>" using prepared_form by blast
  with WriteStopped obtain ys zs r where "trace w' = trace (cf_world c) @ ys" "one_write own (ys @ zs)"
    "writes (ys @ zs) \<noteq> [] \<or> \<not> is_unresolved r \<longrightarrow> may_execute call p (cf_permit c)"
    using interrupted_yields [OF closure_yields, of p now available "cf_permit c" "cf_world c" w'] by metis
  with WriteStopped one_write_prefix [of own ys zs] show ?case
    by (intro trace_inv_write [where ys = ys and m = p]) (auto simp: journal_inv_def pc_consistent_def Let_def)
next
  case (ReconcileExec c d p r w')
  then obtain ys where ys: "trace w' = trace (cf_world c) @ ys" "writes ys = []" "(\<exists>d. r = WR_Unresolved d) \<or> marker_evidence p r ys"
    using yields_elim [OF reconcile_write_diagnostic_yields] by metis
  moreover obtain now where "p = (wc_marker call)\<lparr>uw_created_at := now\<rparr>"
    using ReconcileExec prepared_form by blast
  ultimately show ?case
    using ReconcileExec by (intro trace_inv_read) (auto simp: is_unresolved_iff)
next
  case (ReconcileStopped c d p w' pc' error)
  then obtain ys zs r where "trace w' = trace (cf_world c) @ ys" "writes (ys @ zs) = []"
    using interrupted_yields [OF reconcile_write_diagnostic_yields] by metis
  with ReconcileStopped show ?case
    by (intro trace_inv_read [where ys = ys]) auto
qed (erule trace_inv_quiet; simp add: journal_inv_def pc_consistent_def Let_def)+

lemma reachable_inv:
  assumes "(write_step rm call)\<^sup>*\<^sup>* c0 c" "started c0"
  shows "journal_inv call c \<and> trace_inv call own sound (trace (cf_world c0)) c"
  using assms
  by (induction rule: rtranclp_induct)
    (auto intro: journal_inv_started trace_inv_started journal_inv_step trace_inv_step)

lemma reachable_once:
  assumes "(write_step rm call)\<^sup>*\<^sup>* c0 c" "started c0" "wc_mode call = Protected"
  shows "\<exists>xs. trace (cf_world c) = trace (cf_world c0) @ xs \<and> one_write own xs"
  using reachable_inv [OF assms(1,2)] assms(3) unfolding trace_inv_def by blast

lemma sound_established:
  assumes "sound r xs \<or> marker_evidence (wc_marker call) r xs" "\<exists>e \<in> set (writes xs). \<not> refused_write e"
  shows "established r"
  using assms sound_refused [of r xs] marker_evidence_established by (auto simp: list_all_iff)

lemma reachable_own:
  assumes "(write_step rm call)\<^sup>*\<^sup>* c0 c" "started c0"
  shows "\<exists>xs. trace (cf_world c) = trace (cf_world c0) @ xs \<and> (\<forall>e \<in> set (writes xs). own e) \<and>
    (\<forall>r. cf_pc c = Finished (Ok r) \<longrightarrow> sound r xs \<or> marker_evidence (wc_marker call) r xs) \<and>
    (\<forall>fault. writes xs \<noteq> [] \<and> cf_pc c = Finished (Err fault) \<longrightarrow> cf_state c \<noteq> None)"
proof -
  obtain xs where xs: "trace (cf_world c) = trace (cf_world c0) @ xs" "\<forall>e \<in> set (writes xs). own e"
    "\<not> jn_armed (cf_journal c) \<longrightarrow> writes xs = []"
    "\<forall>r. jn_written (cf_journal c) = Some r \<longrightarrow> is_unresolved r \<or> sound r xs"
    "\<forall>r. jn_reconciled (cf_journal c) = Some r \<longrightarrow> marker_evidence (wc_marker call) r xs"
    and j: "journal_inv call c"
    using reachable_inv [OF assms] unfolding trace_inv_def by blast
  have "sound r xs \<or> marker_evidence (wc_marker call) r xs" if "cf_pc c = Finished (Ok r)" for r
    using j that xs(4,5) by (auto simp: journal_inv_def pc_consistent_def settled_in_def Let_def)
  moreover have "cf_state c \<noteq> None" if "writes xs \<noteq> []" "cf_pc c = Finished (Err fault)" for fault
    using j that xs(3) by (auto simp: journal_inv_def pc_consistent_def Let_def)
  ultimately show ?thesis using xs(1,2) by blast
qed

end

section \<open>The writes of the services\<close>

definition protected_create_call ::
  "'s Remote \<Rightarrow> Namespace \<Rightarrow> Account \<Rightarrow> ObjectContext \<Rightarrow> CreateStepRequest \<Rightarrow> 's WriteCall" where
  "protected_create_call rm namespace account ctx request =
    \<lparr> wc_mode = Protected,
      wc_marker = write_marker namespace account ctx (csr_order request) (csr_external_id request) (csr_operation request),
      wc_order = csr_order request, wc_external_id = csr_external_id request,
      wc_write = (\<lambda>_. protected_create rm request) \<rparr>"

definition protected_storno_call ::
  "'s Remote \<Rightarrow> Namespace \<Rightarrow> Account \<Rightarrow> ObjectContext \<Rightarrow> OrderKey \<Rightarrow> StornoStepRequest \<Rightarrow> 's WriteCall" where
  "protected_storno_call rm namespace account ctx order request =
    \<lparr> wc_mode = Protected,
      wc_marker = write_marker namespace account ctx order (ssr_external_id request) (WO_Storno (ssr_invoice_number request)),
      wc_order = order, wc_external_id = ssr_external_id request,
      wc_write = (\<lambda>marker. protected_storno rm account request marker) \<rparr>"

definition protected_delete_call ::
  "'s Remote \<Rightarrow> Namespace \<Rightarrow> Account \<Rightarrow> ObjectContext \<Rightarrow> OrderKey \<Rightarrow> FoundDocument \<Rightarrow> bool \<Rightarrow> 's WriteCall" where
  "protected_delete_call rm namespace account ctx order found force =
    \<lparr> wc_mode = Protected,
      wc_marker = write_marker namespace account ctx order (for_kind namespace order DK_Proforma) (WO_Delete (number found)),
      wc_order = order, wc_external_id = for_kind namespace order DK_Proforma,
      wc_write = (\<lambda>_. do {
        out \<leftarrow> delete_proforma rm found order force;
        ret (WriteResult_delete out)
      }) \<rparr>"

definition replay_create_call ::
  "'s Remote \<Rightarrow> UnresolvedWrite \<Rightarrow> CreateStepRequest \<Rightarrow> 's WriteCall" where
  "replay_create_call rm intent request =
    \<lparr> wc_mode = ReplayEnabled, wc_marker = intent,
      wc_order = csr_order request, wc_external_id = csr_external_id request,
      wc_write = (\<lambda>marker.
        if uw_operation marker \<noteq> csr_operation request
           \<or> uw_proforma_number marker \<noteq> csr_proforma_number request
           \<or> uw_prepayment_number marker \<noteq> csr_prepayment_number request
        then ret (WriteResult_unresolved (msg ''outbound request differs from retained issuance intent''))
        else create_replay_enabled rm request) \<rparr>"

definition replay_storno_call ::
  "'s Remote \<Rightarrow> Namespace \<Rightarrow> Account \<Rightarrow> ObjectContext \<Rightarrow> OrderKey \<Rightarrow> StornoStepRequest \<Rightarrow> FoundDocument \<Rightarrow> 's WriteCall" where
  "replay_storno_call rm namespace account ctx order request original =
    \<lparr> wc_mode = ReplayEnabled, wc_marker = storno_replay_marker namespace account ctx order request original,
      wc_order = order, wc_external_id = ssr_external_id request,
      wc_write = (\<lambda>marker. storno_replay_enabled rm account request marker original) \<rparr>"

definition replay_delete_call ::
  "'s Remote \<Rightarrow> Namespace \<Rightarrow> Account \<Rightarrow> ObjectContext \<Rightarrow> OrderKey \<Rightarrow> ExternalId \<Rightarrow> FoundDocument \<Rightarrow> DeleteProformaRequest \<Rightarrow> 's WriteCall" where
  "replay_delete_call rm namespace account ctx order external_id found request =
    \<lparr> wc_mode = ReplayEnabled, wc_marker = delete_replay_marker namespace account ctx order external_id found request,
      wc_order = order, wc_external_id = external_id,
      wc_write = (\<lambda>marker. delete_replay_enabled rm external_id marker found request) \<rparr>"

lemmas call_defs = protected_create_call_def protected_storno_call_def protected_delete_call_def
  replay_create_call_def replay_storno_call_def replay_delete_call_def

section \<open>They keep the contract\<close>

definition sent_create :: "CreateStepRequest \<Rightarrow> Event \<Rightarrow> bool" where
  "sent_create request e \<longleftrightarrow> (\<exists>reply. e = SentCreate (csr_create request) reply)"

definition sent_storno :: "Account \<Rightarrow> StornoStepRequest \<Rightarrow> Event \<Rightarrow> bool" where
  "sent_storno account request e \<longleftrightarrow> (\<exists>reply. e = SentStorno (build_storno account request) reply)"

text \<open>What the settled results of a storno and of a deletion rest on (\<open>create_sound\<close> is the create's): the reply
  that establishes the effect, the evidence read, a refusal of every write made, or that none was made.\<close>

definition storno_sound :: "Account \<Rightarrow> StornoStepRequest \<Rightarrow> OrderKey \<Rightarrow> WriteResult \<Rightarrow> Event list \<Rightarrow> bool" where
  "storno_sound account request order r xs \<longleftrightarrow> (case r of
     WR_Storno (StO_Reversed d) \<Rightarrow> (\<exists>created.
        SentStorno (build_storno account request) (Inr (SR_Numbered created)) \<in> set xs \<and>
        iss_number d = cr_invoice_number created \<and> (reverses created (ssr_invoice_number request) \<or>
          storno_evidence xs order (ssr_invoice_number request) (iss_number d) (iss_document_id d)))
   | WR_Storno (StO_AlreadyReversed n i) \<Rightarrow> storno_evidence xs order (ssr_invoice_number request) n i
   | WR_Storno (StO_Rejected rejection) \<Rightarrow> writes xs \<noteq> [] \<and> list_all refused_write (writes xs)
   | WR_Storno (StO_CredentialsRejected answer) \<Rightarrow> list_all refused_write (writes xs)
   | WR_Storno (StO_Api answer) \<Rightarrow> writes xs = []
   | WR_Storno (StO_Unavailable message) \<Rightarrow> writes xs = []
   | _ \<Rightarrow> False)"

definition sent_delete :: "ustr \<Rightarrow> Event \<Rightarrow> bool" where
  "sent_delete num e \<longleftrightarrow> (\<exists>reply. e = SentDelete num reply)"

definition delete_sound :: "ustr \<Rightarrow> WriteResult \<Rightarrow> Event list \<Rightarrow> bool" where
  "delete_sound num r xs \<longleftrightarrow> (case r of
     WR_Delete DO_Deleted \<Rightarrow> SentDelete num (Inr ()) \<in> set xs
   | WR_Delete out \<Rightarrow> (if writes xs = [] then unsent_delete num out xs
       else list_all refused_write (writes xs) \<and>
         (case out of DO_AlreadyGone \<Rightarrow> True | DO_Rejected rejection \<Rightarrow> True | DO_CredentialsRejected answer \<Rightarrow> True | _ \<Rightarrow> False))
   | _ \<Rightarrow> False)"

lemma one_write_single: "writes ys = [] \<Longrightarrow> writes zs = [] \<Longrightarrow> is_write e \<Longrightarrow> P e \<Longrightarrow> one_write P (ys @ e # zs)"
  by (simp add: one_write_def)

lemma protected_create_contract:
  "yields (\<lambda>r xs. one_write (sent_create request) xs \<and> (is_unresolved r \<or> create_sound request r xs)) (protected_create rm request)"
proof (rule yields_weaken [OF protected_create_yields], goal_cases)
  case (1 r xs)
  then have "one_write (sent_create request) xs"
    unfolding protected_create_trace_def by (auto simp: sent_create_def intro!: one_write_single)
  with 1 show ?case unfolding protected_create_trace_def is_unresolved_iff by blast
qed

lemma create_replay_contract:
  "yields (\<lambda>r xs. one_write (sent_create request) xs \<and> (is_unresolved r \<or> create_sound request r xs \<and> established r))
     (create_replay_enabled rm request)"
proof (rule yields_weaken [OF create_replay_enabled_yields], goal_cases)
  case (1 r xs)
  have "established r" if "replay_create_positive r"
    using that by (auto simp: replay_create_positive_def established_def split: WriteResult.splits CreateOutcome.splits)
  moreover have "one_write (sent_create request) xs"
    using 1 unfolding replay_create_trace_def by (auto simp: sent_create_def intro!: one_write_single)
  ultimately show ?case using 1 unfolding replay_create_trace_def is_unresolved_iff by blast
qed

lemma unsent_storno_sound:
  "unsent_storno marker (ssr_invoice_number request) r xs \<Longrightarrow> writes xs = [] \<Longrightarrow>
    is_unresolved r \<or> storno_sound account request (uw_order marker) r xs"
  by (auto simp: unsent_storno_def storno_sound_def split: WriteResult.splits StornoOutcome.splits)

lemma sent_storno_sound:
  assumes "marked_result marker (ssr_invoice_number request) reply zs r" "uw_operation marker = WO_Storno (ssr_invoice_number request)"
    and xs: "xs = ys @ SentStorno (build_storno account request) reply # zs" "writes ys = []" "writes zs = []"
  shows "is_unresolved r \<or> storno_sound account request (uw_order marker) r xs"
proof -
  have later: "storno_evidence zs o' n k i \<Longrightarrow> storno_evidence xs o' n k i" for o' n k i
    using xs(1) storno_evidence_append [of "ys @ [SentStorno (build_storno account request) reply]" o' n k i zs] by simp
  have w: "writes xs = [SentStorno (build_storno account request) reply]" "SentStorno (build_storno account request) reply \<in> set xs"
    using xs by simp_all
  have "storno_sound account request (uw_order marker) (WR_Storno out) xs"
    if "marked_storno_verdict marker (ssr_invoice_number request) reply zs (Ok out)" for out
    using that assms(2) later w
    by (cases out) (auto simp: storno_sound_def marked_storno_verdict_def marker_evidence_def refused_write_def)
  then show ?thesis using assms(1) by (cases r) (auto simp: marked_result_def)
qed

lemma single_storno_contract:
  assumes "single_storno account request marker P r xs" "uw_operation marker = WO_Storno (ssr_invoice_number request)"
  shows "one_write (sent_storno account request) xs \<and> (is_unresolved r \<or> storno_sound account request (uw_order marker) r xs)"
  using assms(1) unfolding single_storno_def
proof (elim disjE exE)
  fix ys reply zs
  assume a: "xs = ys @ SentStorno (build_storno account request) reply # zs \<and> writes ys = [] \<and> writes zs = [] \<and>
        evid_absent ys (ByExternalId (external_str (ssr_external_id request))) \<and> P ys \<and>
        marked_result marker (ssr_invoice_number request) reply zs r"
  then show ?thesis
    using sent_storno_sound [of marker request reply zs r xs ys account] assms(2)
    by (auto simp: sent_storno_def intro!: one_write_single)
qed (use unsent_storno_sound in auto)

lemma delete_reply_sound:
  assumes "xs = ys @ [SentDelete num reply]" "writes ys = []" "WriteResult_delete (delete_reply reply) = WR_Delete out"
  shows "delete_sound num (WR_Delete out) xs"
proof (cases reply)
  case (Inl e)
  with assms show ?thesis
    by (cases e) (auto simp: delete_sound_def delete_reply_def DeleteOutcome_from_def WriteResult_delete_def WriteResult_unresolved_def
        refused_write_def is_credential_error_def split: if_splits)
qed (use assms in \<open>auto simp: delete_sound_def delete_reply_def WriteResult_delete_def\<close>)

lemma WriteResult_delete_cases:
  "is_unresolved (WriteResult_delete out) \<or> WriteResult_delete out = WR_Delete out"
  by (cases out) (simp_all add: WriteResult_delete_def WriteResult_unresolved_def)

lemma delete_contract:
  "yields (\<lambda>r xs. one_write (sent_delete (number found)) xs \<and> (is_unresolved r \<or> delete_sound (number found) r xs)) (do {
     out \<leftarrow> delete_proforma rm found order force;
     ret (WriteResult_delete out)
   })"
proof (rule yields_bind [OF delete_proforma_yields], rule yields_return, elim disjE exE, goal_cases)
  case (1 out xs)
  then show ?case
    using WriteResult_delete_cases [of out] by (cases out) (auto simp: delete_sound_def)
next
  case (2 out xs ys d reply)
  then show ?case
    using one_write_single [of ys "[]"] WriteResult_delete_cases [of out] delete_reply_sound [of xs ys "number found" reply out]
    by (auto simp: sent_delete_def)
qed

lemma delete_replay_contract:
  "yields (\<lambda>r xs. one_write (sent_delete (number found)) xs \<and> (is_unresolved r \<or> delete_sound (number found) r xs \<and> established r))
     (delete_replay_enabled rm eid marker found request)"
proof (rule yields_weaken [OF delete_replay_enabled_yields], unfold single_delete_def, elim disjE exE, goal_cases)
  case (2 r xs ys d reply)
  then show ?case
    using one_write_single [of ys "[]"]
    by (auto simp: delete_sound_def sent_delete_def is_unresolved_iff established_def split: if_splits)
qed (auto simp: is_unresolved_iff)

lemma sound_later_laws:
  assumes "writes zs = []"
  shows "create_sound request r xs \<Longrightarrow> create_sound request r (xs @ zs)"
    "storno_sound account sr order r xs \<Longrightarrow> storno_sound account sr order r (xs @ zs)"
    "delete_sound num r xs \<Longrightarrow> delete_sound num r (xs @ zs)"
proof -
  show "create_sound request r xs \<Longrightarrow> create_sound request r (xs @ zs)"
    using assms by (auto simp: create_sound_def intro: create_evidence_append split: WriteResult.splits CreateOutcome.splits)
  show "storno_sound account sr order r xs \<Longrightarrow> storno_sound account sr order r (xs @ zs)"
    using assms by (auto simp: storno_sound_def intro: storno_evidence_append split: WriteResult.splits StornoOutcome.splits)
  have "unsent_delete num out (xs @ zs)" if "unsent_delete num out xs" for out
    using that by (cases out) (auto simp: unsent_delete_def)
  then show "delete_sound num r xs \<Longrightarrow> delete_sound num r (xs @ zs)"
    using assms by (auto simp: delete_sound_def split: WriteResult.splits DeleteOutcome.splits if_splits)
qed

lemma sound_earlier_laws:
  assumes "established r \<or> writes ys = []"
  shows "create_sound request r xs \<Longrightarrow> create_sound request r (ys @ xs)"
    "storno_sound account sr order r xs \<Longrightarrow> storno_sound account sr order r (ys @ xs)"
    "delete_sound num r xs \<Longrightarrow> delete_sound num r (ys @ xs)"
proof -
  show "create_sound request r xs \<Longrightarrow> create_sound request r (ys @ xs)"
    using assms by (auto simp: create_sound_def established_def intro: create_evidence_append split: WriteResult.splits CreateOutcome.splits)
  show "storno_sound account sr order r xs \<Longrightarrow> storno_sound account sr order r (ys @ xs)"
    using assms by (auto simp: storno_sound_def established_def intro: storno_evidence_append split: WriteResult.splits StornoOutcome.splits)
  have "unsent_delete num out (ys @ xs)" if "unsent_delete num out xs" for out
    using that by (cases out) (auto simp: unsent_delete_def)
  then show "delete_sound num r xs \<Longrightarrow> delete_sound num r (ys @ xs)"
    using assms by (auto simp: delete_sound_def established_def split: WriteResult.splits DeleteOutcome.splits if_splits)
qed

lemma sound_refused_laws:
  assumes "\<not> established r"
  shows "create_sound request r xs \<Longrightarrow> list_all refused_write (writes xs)"
    "storno_sound account sr order r xs \<Longrightarrow> list_all refused_write (writes xs)"
    "delete_sound num r xs \<Longrightarrow> list_all refused_write (writes xs)"
  using assms by (auto simp: create_sound_def storno_sound_def delete_sound_def established_def
      split: WriteResult.splits CreateOutcome.splits StornoOutcome.splits DeleteOutcome.splits if_splits)

lemmas sound_laws = sound_later_laws sound_earlier_laws sound_refused_laws

interpretation protected_creates: order_write rm "protected_create_call rm namespace account ctx request"
    "sent_create request" "create_sound request" for rm namespace account ctx request
  by unfold_locales (simp_all add: call_defs protected_create_contract sound_laws)

interpretation protected_deletes: order_write rm "protected_delete_call rm namespace account ctx order found force"
    "sent_delete (number found)" "delete_sound (number found)" for rm namespace account ctx order found force
  by unfold_locales (simp_all add: call_defs delete_contract sound_laws)

interpretation replay_creates: order_write rm "replay_create_call rm intent request"
    "sent_create request" "create_sound request" for rm intent request
proof unfold_locales
  show "yields (\<lambda>r xs. one_write (sent_create request) xs \<and> (is_unresolved r \<or> create_sound request r xs \<and>
      (wc_mode (replay_create_call rm intent request) = ReplayEnabled \<longrightarrow> established r)))
      (wc_write (replay_create_call rm intent request)
        ((wc_marker (replay_create_call rm intent request))\<lparr>uw_created_at := now\<rparr>))" for now
    by (auto simp: call_defs create_replay_contract WriteResult_unresolved_def intro!: yields_return)
qed (fact sound_laws | simp add: sound_laws)+

interpretation replay_deletes: order_write rm "replay_delete_call rm namespace account ctx order eid found request"
    "sent_delete (number found)" "delete_sound (number found)" for rm namespace account ctx order eid found request
  by unfold_locales (simp_all add: call_defs delete_replay_contract sound_laws)

interpretation protected_stornos: order_write rm "protected_storno_call rm namespace account ctx order request"
    "sent_storno account request" "storno_sound account request order" for rm namespace account ctx order request
proof unfold_locales
  let ?m = "\<lambda>now. (wc_marker (protected_storno_call rm namespace account ctx order request))\<lparr>uw_created_at := now\<rparr>"
  have "uw_order (?m now) = order" "uw_operation (?m now) = WO_Storno (ssr_invoice_number request)" for now
    by (simp_all add: call_defs write_marker_def)
  then have "one_write (sent_storno account request) xs \<and> (is_unresolved r \<or> storno_sound account request order r xs)"
    if "single_storno account request (?m now) (\<lambda>_. True) r xs" for now r xs
    using single_storno_contract [OF that] by simp
  moreover have "wc_mode (protected_storno_call rm namespace account ctx order request) = Protected" by (simp add: call_defs)
  ultimately show "yields (\<lambda>r xs. one_write (sent_storno account request) xs \<and>
      (is_unresolved r \<or> storno_sound account request order r xs \<and>
       (wc_mode (protected_storno_call rm namespace account ctx order request) = ReplayEnabled \<longrightarrow> established r)))
      (wc_write (protected_storno_call rm namespace account ctx order request) (?m now))" for now
    by (subst (2) protected_storno_call_def, simp) (rule yields_weaken [OF protected_storno_yields], blast)
qed (fact sound_laws | simp add: sound_laws)+

interpretation replay_stornos: order_write rm "replay_storno_call rm namespace account ctx order request original"
    "sent_storno account request" "storno_sound account request order" for rm namespace account ctx order request original
proof unfold_locales
  let ?m = "\<lambda>now. (wc_marker (replay_storno_call rm namespace account ctx order request original))\<lparr>uw_created_at := now\<rparr>"
  have "uw_order (?m now) = order" "uw_operation (?m now) = WO_Storno (ssr_invoice_number request)" for now
    by (simp_all add: call_defs write_marker_def storno_replay_marker_def)
  then have "one_write (sent_storno account request) xs \<and> (is_unresolved r \<or> storno_sound account request order r xs \<and> established r)"
    if "replay_storno_trace account request (?m now) (original_still_live request (?m now) original) r xs" for now r xs
    using single_storno_contract [of account request "?m now" _ r xs] that
    by (auto simp: replay_storno_trace_def says_reversed_def established_def)
  then show "yields (\<lambda>r xs. one_write (sent_storno account request) xs \<and>
      (is_unresolved r \<or> storno_sound account request order r xs \<and>
       (wc_mode (replay_storno_call rm namespace account ctx order request original) = ReplayEnabled \<longrightarrow> established r)))
      (wc_write (replay_storno_call rm namespace account ctx order request original) (?m now))" for now
    by (subst (2) replay_storno_call_def, simp) (rule yields_weaken [OF storno_replay_enabled_yields], blast)
qed (fact sound_laws | simp add: sound_laws)+

section \<open>One invocation\<close>

text \<open>The Order writes of the services, with the event that is their own write and what their
  results may rest on.\<close>

inductive service_write :: "'s Remote \<Rightarrow> 's WriteCall \<Rightarrow> (Event \<Rightarrow> bool) \<Rightarrow> (WriteResult \<Rightarrow> Event list \<Rightarrow> bool) \<Rightarrow> bool" for rm where
  "service_write rm (protected_create_call rm namespace account ctx request) (sent_create request) (create_sound request)"
| "service_write rm (protected_storno_call rm namespace account ctx order sr) (sent_storno account sr) (storno_sound account sr order)"
| "service_write rm (protected_delete_call rm namespace account ctx order found force)
     (sent_delete (number found)) (delete_sound (number found))"
| "create_replay_marker namespace account ctx request = Ok intent \<Longrightarrow>
   service_write rm (replay_create_call rm intent request) (sent_create request) (create_sound request)"
| "service_write rm (replay_storno_call rm namespace account ctx order sr original) (sent_storno account sr) (storno_sound account sr order)"
| "service_write rm (replay_delete_call rm namespace account ctx order eid found request)
     (sent_delete (number found)) (delete_sound (number found))"

lemma service_write_contract: "service_write rm call own sound \<Longrightarrow> order_write call own sound"
  by (induction rule: service_write.induct)
    (rule protected_creates.order_write_axioms protected_stornos.order_write_axioms
      protected_deletes.order_write_axioms replay_creates.order_write_axioms
      replay_stornos.order_write_axioms replay_deletes.order_write_axioms)+

text \<open>(C1) One invocation of a protected Order write sends at most one write, its own, however often
  the process stops and the runtime replays it: between steps, inside the arming run, in the
  middle of the exchange, after the send and before its result is recorded, during
  reconciliation, under cancellation, and whatever szamlazz.hu and other parties do meanwhile.\<close>

theorem protected_write_sends_at_most_once:
  assumes "service_write rm call own sound" "wc_mode call = Protected"
    and "started c0" "(write_step rm call)\<^sup>*\<^sup>* c0 c"
  shows "\<exists>xs. trace (cf_world c) = trace (cf_world c0) @ xs \<and>
    (writes xs = [] \<or> (\<exists>e. writes xs = [e] \<and> own e))"
  using order_write.reachable_once [OF service_write_contract [OF assms(1)] assms(4,3,2)]
  by (simp add: one_write_def)

text \<open>A protected create whose reply is lost, stopped after the send and before its result was
  recorded: the run that did the send is interrupted and the invocation replayed from the start.\<close>

definition ex_call :: "unit WriteCall" where
  "ex_call = protected_create_call ex_lost (Namespace (us ''acct'')) (Account_new (us ''a'') (us ''c'')) ex_context ex_create"

definition ex_start :: "unit Config" where
  "ex_start = \<lparr> cf_journal = empty_journal, cf_state = None, cf_world = no_world, cf_permit = False, cf_pc = PrepareRun \<rparr>"

definition ex_prepared :: UnresolvedWrite where
  "ex_prepared = (wc_marker ex_call)\<lparr>uw_created_at := us ''2026-01-01T00:00:00Z''\<rparr>"

definition ex_sent :: "Pc \<Rightarrow> unit Config" where
  "ex_sent pc = \<lparr> cf_journal = empty_journal\<lparr>jn_prepared := Some ex_prepared, jn_set := True, jn_armed := True\<rparr>,
     cf_state = Some ex_prepared, cf_world = snd (run_state (protected_create ex_lost ex_create) no_world),
     cf_permit = False, cf_pc = pc \<rparr>"

lemma ex_call_simps:
  "wc_mode ex_call = Protected" "service_write ex_lost ex_call (sent_create ex_create) (create_sound ex_create)"
  "write_closure ex_call True p True = protected_create ex_lost ex_create"
  by (simp_all add: ex_call_def service_write.intros(1), simp_all add: call_defs write_closure_def may_execute_def)

lemma ex_started: "started ex_start"
  by (simp add: started_def ex_start_def guard_def)

lemma ex_reaches_sent:
  "(write_step ex_lost ex_call)\<^sup>*\<^sup>* ex_start
     (ex_sent (WriteExecuted (fst (run_state (protected_create ex_lost ex_create) no_world))))"
proof -
  let ?step = "write_step ex_lost ex_call"
  define c1 where "c1 = ex_start\<lparr>cf_journal := (cf_journal ex_start)\<lparr>jn_prepared := Some ex_prepared\<rparr>, cf_pc := SetMarker\<rparr>"
  define c2 where "c2 = c1\<lparr>cf_state := jn_prepared (cf_journal c1), cf_journal := (cf_journal c1)\<lparr>jn_set := True\<rparr>,
      cf_permit := False, cf_pc := ArmRun\<rparr>"
  define c3 where "c3 = c2\<lparr>cf_permit := (wc_mode ex_call = Protected), cf_pc := ArmExecuted\<rparr>"
  define c4 where "c4 = c3\<lparr>cf_journal := (cf_journal c3)\<lparr>jn_armed := True\<rparr>, cf_pc := WriteRun\<rparr>"
  have s1: "?step ex_start c1"
    unfolding c1_def ex_prepared_def
    by (rule write_step.Prepare) (simp_all add: ex_start_def empty_journal_def ex_call_simps)
  have s2: "?step c1 c2"
    unfolding c2_def by (rule write_step.Set) (simp_all add: c1_def ex_start_def empty_journal_def)
  have s3: "?step c2 c3"
    unfolding c3_def by (rule write_step.ArmExec) (simp_all add: c1_def c2_def ex_start_def empty_journal_def)
  have s4: "?step c3 c4"
    unfolding c4_def by (rule write_step.ArmRecord) (simp add: c3_def)
  have "?step c4 (c4\<lparr>cf_world := snd (run_state (protected_create ex_lost ex_create) no_world), cf_permit := False,
      cf_pc := WriteExecuted (fst (run_state (protected_create ex_lost ex_create) no_world))\<rparr>)"
    by (rule write_step.WriteExec [where available = True and p = ex_prepared])
      (simp_all add: c1_def c2_def c3_def c4_def ex_start_def empty_journal_def ex_call_simps)
  also have "c4\<lparr>cf_world := snd (run_state (protected_create ex_lost ex_create) no_world), cf_permit := False,
      cf_pc := WriteExecuted (fst (run_state (protected_create ex_lost ex_create) no_world))\<rparr> =
      ex_sent (WriteExecuted (fst (run_state (protected_create ex_lost ex_create) no_world)))"
    by (simp add: c1_def c2_def c3_def c4_def ex_start_def empty_journal_def ex_call_simps ex_sent_def)
  finally show ?thesis
    using s1 s2 s3 s4 by (meson converse_rtranclp_into_rtranclp rtranclp.rtrancl_refl)
qed

lemma ex_sent_writes:
  "writes (trace (snd (run_state (protected_create ex_lost ex_create) no_world))) =
     [SentCreate (csr_create ex_create) (Inl (CE_ServiceUnavailable []))]"
  by (simp add: protected_create_def create_run_defs read_run_defs ex_lost_def scripted_simps ex_create_def query_result_def
      seen_result_def classify_failure_def exchange_def outcome_def Let_def del: us_Cons)

theorem protected_write_sends_at_most_once_witness:
  "\<exists>c e. (write_step ex_lost ex_call)\<^sup>*\<^sup>* ex_start c \<and> cf_pc c = PrepareRun \<and> writes (trace (cf_world c)) = [e] \<and>
     sent_create ex_create e"
proof -
  have "write_step ex_lost ex_call (ex_sent (WriteExecuted r)) (ex_sent PrepareRun)" for r
    using write_step.Crash [of "ex_sent (WriteExecuted r)" ex_lost ex_call] by (simp add: ex_sent_def)
  with ex_reaches_sent have r: "(write_step ex_lost ex_call)\<^sup>*\<^sup>* ex_start (ex_sent PrepareRun)"
    by (meson rtranclp.rtrancl_into_rtrancl)
  have "trace (cf_world ex_start) = []" "cf_pc (ex_sent PrepareRun) = PrepareRun"
    "writes (trace (cf_world (ex_sent PrepareRun))) \<noteq> []"
    by (simp_all add: ex_start_def ex_sent_def ex_sent_writes, simp add: no_world_def)
  with protected_write_sends_at_most_once [OF ex_call_simps(2,1) ex_started r] r show ?thesis
    by (metis append_Nil)
qed

text \<open>(C2) An invocation of an Order write, protected or replay-enabled, sends nothing but its own
  write.  It returns a result only when that result is not uncertain and is recorded in the journal, and it has
  then cleared the marker.  The result rests on the exchanges made: an issued document, a reversal or a deletion on
  the reply that names or acknowledges it or on what szamlazz.hu reports of this intent; a refusal only when every
  write made was refused; a failed check only when nothing was sent.  So once a write was sent whose reply does not
  rule it out, the only result it returns is that the effect is there.  When
  it ends in a fault after a write was sent, the fault says the outcome is unknown and the
  marker of that very write is still stored.\<close>

theorem order_write_settles_or_retains:
  assumes "service_write rm call own sound" "started c0" "(write_step rm call)\<^sup>*\<^sup>* c0 c"
  shows "\<exists>xs. trace (cf_world c) = trace (cf_world c0) @ xs \<and> (\<forall>e \<in> set (writes xs). own e) \<and>
    (\<forall>r. cf_pc c = Finished (Ok r) \<longrightarrow> cf_state c = None \<and> \<not> is_unresolved r \<and>
       (jn_written (cf_journal c) = Some r \<or> jn_reconciled (cf_journal c) = Some r) \<and>
       (sound r xs \<or> marker_evidence (wc_marker call) r xs) \<and>
       ((\<exists>e \<in> set (writes xs). \<not> refused_write e) \<longrightarrow> established r)) \<and>
    (\<forall>fault. cf_pc c = Finished (Err fault) \<and> writes xs \<noteq> [] \<longrightarrow> f_code fault = TC_OutcomeUnknown \<and>
       (\<exists>now. cf_state c = Some ((wc_marker call)\<lparr>uw_created_at := now\<rparr>)))"
proof -
  note ow = service_write_contract [OF assms(1)]
  obtain xs where xs: "trace (cf_world c) = trace (cf_world c0) @ xs" "\<forall>e \<in> set (writes xs). own e"
    "\<forall>r. cf_pc c = Finished (Ok r) \<longrightarrow> sound r xs \<or> marker_evidence (wc_marker call) r xs"
    "\<forall>fault. writes xs \<noteq> [] \<and> cf_pc c = Finished (Err fault) \<longrightarrow> cf_state c \<noteq> None"
    using order_write.reachable_own [OF ow assms(3,2)] by blast
  have j: "journal_inv call c"
    using order_write.reachable_inv [OF ow assms(3,2)] by blast
  have ok: "cf_state c = None \<and> \<not> is_unresolved r \<and> (jn_written (cf_journal c) = Some r \<or> jn_reconciled (cf_journal c) = Some r)"
    if "cf_pc c = Finished (Ok r)" for r
    using j that by (auto simp: journal_inv_def pc_consistent_def settled_in_def Let_def)
  have kept: "f_code fault = TC_OutcomeUnknown \<and> (\<exists>now. cf_state c = Some ((wc_marker call)\<lparr>uw_created_at := now\<rparr>))"
    if "cf_pc c = Finished (Err fault)" "writes xs \<noteq> []" for fault
  proof -
    have s: "cf_state c \<noteq> None" using xs(4) that by blast
    with j have "jn_set (cf_journal c)" "cf_state c = jn_prepared (cf_journal c)"
      by (auto simp: journal_inv_def Let_def split: if_splits)
    with j s that show ?thesis
      by (auto simp: journal_inv_def pc_consistent_def Let_def)
  qed
  have est: "established r" if "cf_pc c = Finished (Ok r)" "\<exists>e \<in> set (writes xs). \<not> refused_write e" for r
    using order_write.sound_established [OF ow, of r xs] xs(3) that by blast
  show ?thesis using xs(1-3) ok kept est by blast
qed

theorem order_write_settles_or_retains_witness:
  "\<exists>c fault now. (write_step ex_lost ex_call)\<^sup>*\<^sup>* ex_start c \<and> cf_pc c = Finished (Err fault) \<and>
     f_code fault = TC_OutcomeUnknown \<and> cf_state c = Some ((wc_marker ex_call)\<lparr>uw_created_at := now\<rparr>)"
proof -
  let ?f = "uncertain ex_call ex_prepared \<lparr> term_code = CANCELLED, term_message = [] \<rparr>"
  have "write_step ex_lost ex_call (ex_sent (WriteExecuted r)) (ex_sent (Finished (Err ?f)))" for r
    using write_step.WriteFail [of "ex_sent (WriteExecuted r)" r ex_prepared ex_lost ex_call
        "\<lparr> term_code = CANCELLED, term_message = [] \<rparr>"]
    by (simp add: ex_sent_def)
  with ex_reaches_sent have r: "(write_step ex_lost ex_call)\<^sup>*\<^sup>* ex_start (ex_sent (Finished (Err ?f)))"
    by (meson rtranclp.rtrancl_into_rtrancl)
  have "trace (cf_world ex_start) = []" "cf_pc (ex_sent (Finished (Err ?f))) = Finished (Err ?f)"
    "writes (trace (cf_world (ex_sent (Finished (Err ?f))))) \<noteq> []"
    by (simp_all add: ex_start_def ex_sent_def ex_sent_writes, simp add: no_world_def)
  with order_write_settles_or_retains [OF ex_call_simps(2) ex_started r] r show ?thesis
    by (metis append_Nil)
qed

section \<open>Every stored marker can be read back\<close>

text \<open>
  The writes as the services build them: a create or a correction through a step request under its target's external id
  (\<open>create_step\<close>), a storno of an invoice number under its storno id (\<open>storno_write\<close>) and a deletion of a proforma number
  (\<open>delete\<close>), each protected or replay-enabled, for one namespace, account, object and order.
\<close>

definition create_call :: "'s Remote \<Rightarrow> Namespace \<Rightarrow> Account \<Rightarrow> ObjectContext \<Rightarrow> CreateStepRequest \<Rightarrow> 's WriteCall \<Rightarrow> bool" where
  "create_call rm ns account ctx request call \<longleftrightarrow> call = protected_create_call rm ns account ctx request \<or>
     (\<exists>intent. create_replay_marker ns account ctx request = Ok intent \<and> call = replay_create_call rm intent request)"

inductive own_call :: "'s Remote \<Rightarrow> Namespace \<Rightarrow> Account \<Rightarrow> ObjectContext \<Rightarrow> OrderKey \<Rightarrow> 's WriteCall \<Rightarrow> bool" for rm ns account ctx order where
  Issues: "CreateStepRequest_new (for_kind ns order kind) (IssuedKind_from kind) order create old None = Ok request \<Longrightarrow>
    (\<And>n. old = Some n \<Longrightarrow> parses InvoiceNumber_from_str n) \<Longrightarrow> create_call rm ns account ctx request call \<Longrightarrow>
    own_call rm ns account ctx order call"
| Corrects: "CreateStepRequest_new (for_corrective ns order cid) IK_Corrective order create None (Some base) = Ok request \<Longrightarrow>
    CorrectionId_from_str (correction_str cid) = Ok cid \<Longrightarrow> parses InvoiceNumber_from_str base \<Longrightarrow>
    create_call rm ns account ctx request call \<Longrightarrow> own_call rm ns account ctx order call"
| Reverses: "parses InvoiceNumber_from_str (number_str n) \<Longrightarrow> ssr_invoice_number sr = number_str n \<Longrightarrow>
    ssr_external_id sr = for_storno ns order n \<Longrightarrow>
    call = protected_storno_call rm ns account ctx order sr \<or> call = replay_storno_call rm ns account ctx order sr original \<Longrightarrow>
    own_call rm ns account ctx order call"
| Deletes: "parses InvoiceNumber_from_str (number found) \<Longrightarrow>
    call = protected_delete_call rm ns account ctx order found force \<or>
    call = replay_delete_call rm ns account ctx order (for_kind ns order DK_Proforma) found request \<Longrightarrow>
    own_call rm ns account ctx order call"

lemma create_call_marker:
  assumes "create_call rm ns account ctx request call"
  shows "uw_operation (wc_marker call) = csr_operation request \<and> uw_external_id (wc_marker call) = external_str (csr_external_id request) \<and>
    uw_order (wc_marker call) = csr_order request \<and> uw_namespace (wc_marker call) = ns \<and> uw_endpoint (wc_marker call) = acc_endpoint account \<and>
    uw_token (wc_marker call) = cx_invocation_id ctx \<and> uw_owner_invocation (wc_marker call) = cx_invocation_id ctx \<and>
    uw_scope (wc_marker call) = cx_scope ctx \<and>
    (wc_mode call = Protected \<longrightarrow> uw_execution_contract (wc_marker call) = None \<and> uw_proforma_number (wc_marker call) = None \<and>
       uw_prepayment_number (wc_marker call) = None)"
  using assms by (auto simp: create_call_def call_defs create_replay_marker_def write_marker_def split: option.splits)

lemma CreateStepRequest_new_sel:
  "CreateStepRequest_new eid kind order create old corrected = Ok request \<Longrightarrow> csr_external_id request = eid \<and> csr_order request = order \<and>
    csr_operation request = WO_Create kind old corrected"
  by (auto simp: CreateStepRequest_new_def csr_operation_def split: if_splits option.splits prod.splits)

text \<open>The marker of such a write is one of its own order, before its time is stamped and after.\<close>

definition own_marker :: "Namespace \<Rightarrow> Account \<Rightarrow> ObjectContext \<Rightarrow> OrderKey \<Rightarrow> WriteMode \<Rightarrow> UnresolvedWrite \<Rightarrow> bool" where
  "own_marker ns account ctx order mode m \<longleftrightarrow> (\<exists>sh. operation_shape order (uw_operation m) sh \<and> uw_external_id m = external_str (compose ns sh)) \<and>
     uw_order m = order \<and> uw_namespace m = ns \<and> uw_endpoint m = acc_endpoint account \<and> uw_scope m = cx_scope ctx \<and>
     uw_token m = cx_invocation_id ctx \<and> uw_owner_invocation m = cx_invocation_id ctx \<and>
     (mode = Protected \<longrightarrow> uw_execution_contract m = None \<and> uw_proforma_number m = None \<and> uw_prepayment_number m = None)"

lemma own_call_marker: "own_call rm ns account ctx order call \<Longrightarrow> own_marker ns account ctx order (wc_mode call) (wc_marker call)"
proof (induction rule: own_call.induct)
  case (Issues kind create old request call)
  have "operation_shape order (WO_Create (IssuedKind_from kind) old None) (ShKind order kind)"
    using Issues(2) by (cases kind) (auto simp: operation_shape_def split: option.split)
  with create_call_marker [OF Issues(3)] CreateStepRequest_new_sel [OF Issues(1)] show ?case
    by (auto simp: own_marker_def intro!: exI [of _ "ShKind order kind"])
next
  case (Corrects cid create base request call)
  have "operation_shape order (WO_Create IK_Corrective None (Some base)) (ShCorrective order cid)"
    using Corrects(2,3) by (simp add: operation_shape_def)
  with create_call_marker [OF Corrects(4)] CreateStepRequest_new_sel [OF Corrects(1)] show ?case
    by (auto simp: own_marker_def intro!: exI [of _ "ShCorrective order cid"])
next
  case (Reverses n sr call original)
  have "operation_shape order (WO_Storno (number_str n)) (ShStorno order n)"
    using Reverses(1) by (cases n) (simp add: operation_shape_def)
  with Reverses(2-4) show ?case
    by (auto simp: own_marker_def call_defs storno_replay_marker_def write_marker_def intro!: exI [of _ "ShStorno order n"])
next
  case (Deletes found call force request)
  have "operation_shape order (WO_Delete (number found)) (ShKind order DK_Proforma)"
    using Deletes(1) by (simp add: operation_shape_def)
  with Deletes(2) show ?case
    by (auto simp: own_marker_def call_defs delete_replay_marker_def write_marker_def intro!: exI [of _ "ShKind order DK_Proforma"])
qed

lemma reachable_stored:
  assumes "(write_step rm call)\<^sup>*\<^sup>* c0 c" "started c0" "cf_state c = Some m"
  shows "\<exists>now. m = (wc_marker call)\<lparr>uw_created_at := now\<rparr>" "wc_mode call = Protected \<or> (\<exists>p. ReplayIntent_new (wc_marker call) = Ok p)"
proof -
  have "journal_inv call c"
    using assms(1,2) by (induction rule: rtranclp_induct) (auto intro: journal_inv_started journal_inv_step)
  with assms(3) have "jn_prepared (cf_journal c) = Some m" "journal_inv call c"
    by (auto simp: journal_inv_def Let_def split: if_splits)
  then show "\<exists>now. m = (wc_marker call)\<lparr>uw_created_at := now\<rparr>" "wc_mode call = Protected \<or> (\<exists>p. ReplayIntent_new (wc_marker call) = Ok p)"
    by (auto simp: journal_inv_def Let_def)
qed

lemma valid_execution_contract_created_at [simp]: "valid_execution_contract (m\<lparr>uw_created_at := now\<rparr>) = valid_execution_contract m"
  by (cases m, hypsubst, unfold valid_execution_contract_def UnresolvedWrite.update_convs UnresolvedWrite.select_convs, rule refl)

lemma no_contract_valid: "uw_execution_contract m = None \<Longrightarrow> uw_proforma_number m = None \<Longrightarrow> uw_prepayment_number m = None \<Longrightarrow>
    valid_execution_contract m"
  by (simp add: valid_execution_contract_def)

text \<open>(C20) Whatever marker an Order write of the services leaves stored (of a create of any kind, a correction, a
  storno or a deletion, protected or replay-enabled, at any point of the sequence), the deployment that wrote it can
  read it back unchanged: no check of the marker's identity or of its execution contract refuses it.  It takes a codec
  that decodes what it encodes, an endpoint and a timestamp the parsers accept, an invocation id, and, where the marker names a
  proforma, that this is a number szamlazz.hu can have given (text, not blank).\<close>

theorem prepared_marker_readable:
  assumes call: "own_call rm ns account ctx order call"
    and run: "started c0" "(write_step rm call)\<^sup>*\<^sup>* c0 c" "cf_state c = Some m"
    and codec: "sc_marker codec (sc_store codec m) = Some m"
    and ctx: "cx_key ctx = order_str order" "cx_invocation_id ctx \<noteq> []"
    and ok: "sc_endpoint_ok codec (acc_endpoint account)" "sc_timestamp_ok codec (uw_created_at m)"
    and proforma: "\<And>n. uw_proforma_number m = Some n \<Longrightarrow> parses ProviderDocumentNumber_try_from n"
  shows "decode_marker codec (sc_store codec m) (cx_scope ctx) (cx_key ctx) = Some m"
proof -
  obtain now where m: "m = (wc_marker call)\<lparr>uw_created_at := now\<rparr>" using reachable_stored(1) [OF run(2,1,3)] by blast
  note own = own_call_marker [OF call, unfolded own_marker_def]
  have "valid_execution_contract (wc_marker call) \<and>
      (uw_execution_contract (wc_marker call) = None \<longrightarrow> uw_proforma_number (wc_marker call) = None)"
    using reachable_stored(2) [OF run(2,1,3)] own no_contract_valid [of "wc_marker call"]
    by (cases "wc_mode call") (auto simp: ReplayIntent_new_def split: if_splits)
  then have "valid_execution_contract m \<and> (uw_execution_contract m = None \<longrightarrow> uw_proforma_number m = None)"
    by (simp add: m)
  moreover obtain sh where "operation_shape (uw_order m) (uw_operation m) sh" "uw_external_id m = external_str (compose (uw_namespace m) sh)"
    using own by (auto simp: m)
  ultimately have "decode_marker codec (sc_store codec m) (uw_scope m) (order_str (uw_order m)) = Some m"
    using own ctx ok proforma codec by (intro marker_readable) (auto simp: m)
  then show ?thesis using own ctx(1) by (simp add: m)
qed

theorem prepared_marker_readable_witness:
  "decode_marker ex_codec ex_prepared (cx_scope ex_context) (cx_key ex_context) = Some ex_prepared"
proof -
  have "CreateStepRequest_new (for_kind (Namespace (us ''acct'')) (OrderKey (us ''ORD-1'')) DK_Invoice) (IssuedKind_from DK_Invoice)
      (OrderKey (us ''ORD-1'')) (csr_create ex_create) None None = Ok ex_create"
    by code_simp
  then have "own_call ex_lost (Namespace (us ''acct'')) (Account_new (us ''a'') (us ''c'')) ex_context (OrderKey (us ''ORD-1'')) ex_call"
    by (rule own_call.Issues) (simp_all add: create_call_def ex_call_def)
  from prepared_marker_readable [OF this ex_started ex_reaches_sent, of ex_prepared ex_codec] show ?thesis
    by (simp add: ex_sent_def ex_codec_def ex_context_def Account_new_def Endpoint_PRODUCTION_def ex_prepared_def ex_call_def call_defs write_marker_def)
qed

end
