(* ===== verification/Build_Request.thy ===== *)
theory Build_Request
  imports Write_Protocol
begin

text \<open>
  The projection of a caller's document and the account's defaults into the Agent's create request
  (\<open>gateway/build.rs\<close>), with the caller's types of \<open>contract/document.rs\<close> and the seller block of
  \<open>account.rs\<close>. Unicode normalisation is the parameter \<open>nfc\<close>; decimals and the text of a document are
  the parameter \<open>WireText\<close>.
\<close>

section \<open>The caller's document\<close>

record ExchangeRateInput =
  eri_bank :: ustr
  eri_rate :: "Decimal option"

definition ExchangeRate_from :: "ExchangeRateInput \<Rightarrow> ExchangeRate" where
  "ExchangeRate_from input = \<lparr> er_bank = eri_bank input, er_rate = eri_rate input \<rparr>"

record DocumentOverrides =
  dov_language :: "ustr option"
  dov_currency :: "ustr option"
  dov_exchange_rate :: "ExchangeRateInput option"
  dov_template :: "ustr option"
  dov_send_email :: "bool option"
  dov_e_invoice :: "bool option"
  dov_number_prefix :: "ustr option"

definition DocumentOverrides_default :: DocumentOverrides where
  "DocumentOverrides_default = \<lparr> dov_language = None, dov_currency = None, dov_exchange_rate = None, dov_template = None,
     dov_send_email = None, dov_e_invoice = None, dov_number_prefix = None \<rparr>"

record PostalAddressInput =
  pai_name :: "ustr option"
  pai_country :: "ustr option"
  pai_zip :: "ustr option"
  pai_city :: "ustr option"
  pai_address :: "ustr option"

definition PostalAddress_from :: "PostalAddressInput \<Rightarrow> PostalAddress" where
  "PostalAddress_from input = \<lparr> pa_name = pai_name input, pa_country = pai_country input, pa_zip = pai_zip input,
     pa_city = pai_city input, pa_address = pai_address input \<rparr>"

datatype TaxpayerStatusInput = TSI_NonEuBusiness | TSI_EuBusiness | TSI_HasTaxNumber | TSI_Unknown | TSI_NoTaxNumber

primrec TaxpayerStatus_from :: "TaxpayerStatusInput \<Rightarrow> TaxpayerStatus" where
  "TaxpayerStatus_from TSI_NonEuBusiness = NonEuBusiness"
| "TaxpayerStatus_from TSI_EuBusiness = EuBusiness"
| "TaxpayerStatus_from TSI_HasTaxNumber = HasTaxNumber"
| "TaxpayerStatus_from TSI_Unknown = TS_Unknown"
| "TaxpayerStatus_from TSI_NoTaxNumber = NoTaxNumber"

record BuyerInput =
  bui_name :: ustr
  bui_zip :: ustr
  bui_city :: ustr
  bui_address :: ustr
  bui_country :: "ustr option"
  bui_email :: "ustr option"
  bui_tax_number :: "ustr option"
  bui_eu_tax_number :: "ustr option"
  bui_group_id :: "ustr option"
  bui_taxpayer_status :: "TaxpayerStatusInput option"
  bui_phone :: "ustr option"
  bui_comment :: "ustr option"
  bui_postal_address :: "PostalAddressInput option"
  bui_id :: "ustr option"

definition BuyerInput_new :: "ustr \<Rightarrow> ustr \<Rightarrow> ustr \<Rightarrow> ustr \<Rightarrow> BuyerInput" where
  "BuyerInput_new name zip_code city address =
    \<lparr> bui_name = name, bui_zip = zip_code, bui_city = city, bui_address = address, bui_country = None, bui_email = None,
      bui_tax_number = None, bui_eu_tax_number = None, bui_group_id = None, bui_taxpayer_status = None, bui_phone = None,
      bui_comment = None, bui_postal_address = None, bui_id = None \<rparr>"

definition Buyer_from :: "BuyerInput \<Rightarrow> Buyer" where
  "Buyer_from input = (Buyer_new (bui_name input) (bui_zip input) (bui_city input) (bui_address input))
    \<lparr> bu_country := bui_country input, bu_email := bui_email input, bu_tax_number := bui_tax_number input,
      bu_eu_tax_number := bui_eu_tax_number input, bu_group_id := bui_group_id input,
      bu_taxpayer_status := map_option TaxpayerStatus_from (bui_taxpayer_status input), bu_phone := bui_phone input,
      bu_comment := bui_comment input, bu_postal_address := map_option PostalAddress_from (bui_postal_address input),
      bu_id := bui_id input \<rparr>"

record DocumentInput =
  din_buyer :: BuyerInput
  din_items :: "LineItemInput list"
  din_fulfillment_date :: Date
  din_due_date :: Date
  din_payment_method :: PaymentMethodInput
  din_paid :: "bool option"
  din_comment :: "ustr option"
  din_issue_date :: "Date option"
  din_overrides :: DocumentOverrides
  din_expected_totals :: "Amounts option"

definition DocumentInput_new :: "BuyerInput \<Rightarrow> LineItemInput list \<Rightarrow> Date \<Rightarrow> Date \<Rightarrow> PaymentMethodInput \<Rightarrow> DocumentInput" where
  "DocumentInput_new buyer items fulfillment due method =
    \<lparr> din_buyer = buyer, din_items = items, din_fulfillment_date = fulfillment, din_due_date = due,
      din_payment_method = method, din_paid = None, din_comment = None, din_issue_date = None,
      din_overrides = DocumentOverrides_default, din_expected_totals = None \<rparr>"

section \<open>The seller block\<close>

definition to_seller_email :: "SellerEmailConfig \<Rightarrow> SellerEmail option" where
  "to_seller_email config =
    (if sec_reply_to config = None \<and> sec_subject config = None \<and> sec_body config = None then None
     else Some \<lparr> se_reply_to = sec_reply_to config, se_subject = sec_subject config, se_body = sec_body config \<rparr>)"

definition to_seller :: "SellerConfig \<Rightarrow> Seller" where
  "to_seller config = \<lparr> sl_bank = sel_bank config, sl_bank_account = sel_bank_account config,
     sl_email = to_seller_email (sel_email config), sl_signer_name = sel_signer_name config \<rparr>"

section \<open>Building\<close>

record DocumentRefs =
  ref_proforma :: "ustr option"
  ref_prepayment :: "ustr option"
  ref_corrected :: "ustr option"

definition DocumentRefs_default :: DocumentRefs where
  "DocumentRefs_default = \<lparr> ref_proforma = None, ref_prepayment = None, ref_corrected = None \<rparr>"

datatype InputError =
    IE_UnknownLanguage ustr | IE_MissingExchangeRate ustr | IE_InvalidExchangeRate ustr
  | IE_MissingReference IssuedKind ustr | IE_Monetary MonetaryError

primrec ArithmeticError_display :: "ArithmeticError \<Rightarrow> ustr" where
  "ArithmeticError_display UnrepresentableVatRate = msg ''line item numeric VAT rate cannot be represented exactly by a decimal''"
| "ArithmeticError_display NetOverflow =
     msg ''line item net value (unit price '' @ [215] @ msg '' quantity) cannot fit exactly in a decimal''"
| "ArithmeticError_display VatOverflow =
     msg ''line item VAT value (net '' @ [215] @ msg '' rate / 100) cannot fit exactly in a decimal''"
| "ArithmeticError_display GrossOverflow = msg ''line item gross value (net + VAT) cannot fit exactly in a decimal''"

primrec MonetaryError_display :: "MonetaryError \<Rightarrow> ustr" where
  "MonetaryError_display (ME_Arithmetic error) = ArithmeticError_display error"
| "MonetaryError_display ME_Unrepresentable = msg ''monetary arithmetic is not exactly representable''"
| "MonetaryError_display ME_UnsupportedCurrency = msg ''explicit amounts support HUF/Ft and EUR only''"
| "MonetaryError_display ME_UnsupportedVatRate =
     msg ''explicit amounts require a percentage in 0..=100 or a supported zero-VAT code''"
| "MonetaryError_display ME_NoItems = msg ''at least one line item is required''"
| "MonetaryError_display ME_TotalsMismatch = msg ''expected_totals differ from submitted line totals''"
| "MonetaryError_display ME_AmountPrecision = msg ''explicit amounts must already be rounded to the currency minor unit''"
| "MonetaryError_display ME_ZeroQuantity = msg ''explicit amounts require nonzero quantity''"
| "MonetaryError_display ME_GrossMismatch = msg ''amounts.gross must equal amounts.net + amounts.vat''"
| "MonetaryError_display ME_NetMismatch = msg ''amounts.net must equal rounded unit_price * quantity''"
| "MonetaryError_display ME_VatMismatch = msg ''amounts.vat must follow net-first or gross-first rounding''"
| "MonetaryError_display (ME_Item index source) =
     msg ''items['' @ decimal_digits index @ msg '']: '' @ MonetaryError_display source"

primrec InputError_display :: "InputError \<Rightarrow> ustr" where
  "InputError_display (IE_UnknownLanguage token) = msg ''unknown document language '' @ debug_str token"
| "InputError_display (IE_MissingExchangeRate cur) = msg ''currency '' @ cur
     @ msg '' requires an exchange rate: set overrides.exchange_rate or configure defaults.exchange_rate_bank = ''
     @ debug_str (us ''MNB'')"
| "InputError_display (IE_InvalidExchangeRate bank) =
     msg ''an exchange rate without a rate is only automatic for MNB, not '' @ debug_str bank"
| "InputError_display (IE_MissingReference kind reference) =
     msg ''a '' @ IssuedKind_as_str kind @ msg '' requires a '' @ reference @ msg '' reference''"
| "InputError_display (IE_Monetary error) = MonetaryError_display error"

definition template_arms :: "(ustr \<times> InvoiceTemplate) list" where
  "template_arms =
    [(us ''SzlaMost'', IT_Most), (us ''most'', IT_Most), (us ''SzlaAlap'', IT_Default), (us ''default'', IT_Default),
     (us ''SzlaNoEnv'', IT_NoEnvelope), (us ''no_envelope'', IT_NoEnvelope), (us ''Szla8cm'', IT_EightCentimeter),
     (us ''eight_centimeter'', IT_EightCentimeter), (us ''SzlaTomb'', IT_Continuous), (us ''continuous'', IT_Continuous),
     (us ''SzlaFuvarlevelesAlap'', IT_DeliveryNote), (us ''delivery_note'', IT_DeliveryNote)]"

definition template_from :: "ustr \<Rightarrow> InvoiceTemplate" where
  "template_from token = match_token template_arms IT_Other token"

definition option_else :: "'a option \<Rightarrow> 'a option \<Rightarrow> 'a option" where
  "option_else a b = (case a of Some v \<Rightarrow> Some v | None \<Rightarrow> b)"

definition option_default :: "'a option \<Rightarrow> 'a \<Rightarrow> 'a" where
  "option_default a d = (case a of Some v \<Rightarrow> v | None \<Rightarrow> d)"

definition build_exchange_rate :: "Defaults \<Rightarrow> DocumentOverrides \<Rightarrow> Currency \<Rightarrow> (ExchangeRate option, InputError) result" where
  "build_exchange_rate defaults overrides cur =
    (if is_huf cur then Ok None
     else case dov_exchange_rate overrides of
       Some input \<Rightarrow>
         if eri_rate input = None \<and> eri_bank input \<noteq> us ''MNB'' then Err (IE_InvalidExchangeRate (eri_bank input))
         else Ok (Some (ExchangeRate_from input))
     | None \<Rightarrow>
         if df_exchange_rate_bank defaults = us ''MNB'' then Ok (Some automatic_mnb)
         else Err (IE_MissingExchangeRate (currency_str cur)))"

definition build_kind :: "IssuedKind \<Rightarrow> DocumentRefs \<Rightarrow> (InvoiceKind, InputError) result" where
  "build_kind kind refs = (case kind of
     IK_Proforma \<Rightarrow> Ok Kind_Proforma
   | IK_Invoice \<Rightarrow> Ok (Kind_Invoice (ref_proforma refs))
   | IK_Prepayment \<Rightarrow> Ok (Kind_Prepayment (ref_proforma refs))
   | IK_Final \<Rightarrow> try_then (option_or (ref_prepayment refs) (IE_MissingReference kind (us ''prepayment'')))
       (\<lambda>num. Ok (Kind_Final (Some num) (ref_proforma refs)))
   | IK_Corrective \<Rightarrow> try_then (option_or (ref_corrected refs) (IE_MissingReference kind (us ''corrected invoice'')))
       (\<lambda>num. Ok (Kind_Corrective num)))"

definition build_header :: "Defaults \<Rightarrow> DocumentInput \<Rightarrow> OrderKey \<Rightarrow> Language \<Rightarrow> Currency \<Rightarrow> ExchangeRate option \<Rightarrow> InvoiceHeader" where
  "build_header defaults document order language cur exchange_rate =
    (let overrides = din_overrides document in
     (InvoiceHeader_new (din_fulfillment_date document) (din_due_date document)
        (PaymentMethod_of_input (din_payment_method document)) cur language)
       \<lparr> ih_issue_date := din_issue_date document, ih_comment := din_comment document, ih_exchange_rate := exchange_rate,
         ih_order_number := Some (order_str order), ih_extra_logo := df_extra_logo defaults,
         ih_number_prefix := option_else (dov_number_prefix overrides) (df_number_prefix defaults),
         ih_paid := din_paid document,
         ih_template := map_option template_from (option_else (dov_template overrides) (df_template defaults)) \<rparr>)"

definition build_buyer :: "(ustr \<Rightarrow> ustr) \<Rightarrow> Defaults \<Rightarrow> DocumentInput \<Rightarrow> Buyer" where
  "build_buyer nfc defaults document = (Buyer_from (din_buyer document))
    \<lparr> bu_name := normalize_buyer_name nfc (bui_name (din_buyer document)),
      bu_send_email := option_else (dov_send_email (din_overrides document)) (df_send_email defaults) \<rparr>"

definition build_create :: "DecimalLib \<Rightarrow> (ustr \<Rightarrow> ustr) \<Rightarrow> Account \<Rightarrow> IssuedKind \<Rightarrow> DocumentInput \<Rightarrow> OrderKey \<Rightarrow> ExternalId
    \<Rightarrow> DocumentRefs \<Rightarrow> (CreateInvoice, InputError) result" where
  "build_create lib nfc account kind document order external_id refs =
    (let defaults = acc_defaults account; overrides = din_overrides document in
     if din_items document = [] then Err (IE_Monetary ME_NoItems)
     else let language_token = option_default (dov_language overrides) (df_language defaults);
              cur = Currency (option_default (dov_currency overrides) (df_currency defaults)) in
       try_then (map_err (\<lambda>_. IE_UnknownLanguage language_token) (Language_from_str language_token)) (\<lambda>language.
       try_then (build_exchange_rate defaults overrides cur) (\<lambda>exchange_rate.
       try_then (build_kind kind refs) (\<lambda>invoice_kind.
       try_then (map_err IE_Monetary (monetary_preflight lib (din_items document) (din_expected_totals document) cur)) (\<lambda>money.
       Ok ((CreateInvoice_new invoice_kind (build_header defaults document order language cur exchange_rate)
              (build_buyer nfc defaults document) (mp_items money))
            \<lparr> ci_e_invoice := option_default (dov_e_invoice overrides) (df_e_invoice defaults), ci_download_pdf := False,
              ci_aggregator := df_aggregator defaults, ci_guardian := df_guardian defaults,
              ci_external_id := Some (external_str external_id), ci_seller := to_seller (acc_seller account) \<rparr>))))))"

definition validate_request :: "WireText \<Rightarrow> CreateInvoice \<Rightarrow> (unit, RequestError) result" where
  "validate_request wt request =
    try_then (CreateInvoice_to_wire wt (AgentKey (us ''validation'')) request) (\<lambda>_. Ok ())"

section \<open>What is built\<close>

lemma build_kind_Ok:
  "build_kind kind refs = Ok k \<Longrightarrow> (case kind of
     IK_Proforma \<Rightarrow> k = Kind_Proforma
   | IK_Invoice \<Rightarrow> k = Kind_Invoice (ref_proforma refs)
   | IK_Prepayment \<Rightarrow> k = Kind_Prepayment (ref_proforma refs)
   | IK_Final \<Rightarrow> \<exists>n. ref_prepayment refs = Some n \<and> k = Kind_Final (Some n) (ref_proforma refs)
   | IK_Corrective \<Rightarrow> \<exists>n. ref_corrected refs = Some n \<and> k = Kind_Corrective n)"
  by (auto simp: build_kind_def option_or_def try_then_Inr_iff split: IssuedKind.splits option.splits)

lemma build_kind_intent:
  "build_kind kind refs = Ok k \<Longrightarrow> outbound_intent k = Some (kind, if kind = IK_Corrective then ref_corrected refs else None)"
  by (drule build_kind_Ok) (auto split: IssuedKind.splits)

lemma build_create_Ok:
  assumes "build_create lib nfc account kind document order eid refs = Ok c"
  shows "build_kind kind refs = Ok (ci_kind c)" "ci_external_id c = Some (external_str eid)"
    "ih_order_number (ci_header c) = Some (order_str order)" "\<not> ci_download_pdf c" "ci_attachments c = []" "ci_waybill c = None"
    "bu_name (ci_buyer c) = nfc (trim (bui_name (din_buyer document)))"
    "\<exists>m. monetary_preflight lib (din_items document) (din_expected_totals document) (ih_currency (ci_header c)) = Ok m \<and>
       ci_items c = mp_items m"
    "ih_preview_pdf (ci_header c) = None"
  using assms
  by (auto simp: build_create_def Let_def try_then_Inr_iff CreateInvoice_new_def build_header_def build_buyer_def
      InvoiceHeader_new_def normalize_buyer_name_def map_err_def split: if_splits sum.splits)

text \<open>
  The create is the caller's document: its buyer, dates, payment and lines are the caller's, in the caller's order, and
  what the caller leaves open comes from the account.
\<close>

definition carries_buyer :: "(ustr \<Rightarrow> ustr) \<Rightarrow> BuyerInput \<Rightarrow> Buyer \<Rightarrow> bool" where
  "carries_buyer nfc input buyer \<longleftrightarrow>
     bu_name buyer = nfc (trim (bui_name input)) \<and> bu_zip buyer = bui_zip input \<and> bu_city buyer = bui_city input \<and>
     bu_address buyer = bui_address input \<and> bu_country buyer = bui_country input \<and> bu_email buyer = bui_email input \<and>
     bu_tax_number buyer = bui_tax_number input \<and> bu_eu_tax_number buyer = bui_eu_tax_number input \<and>
     bu_group_id buyer = bui_group_id input \<and> bu_phone buyer = bui_phone input \<and> bu_comment buyer = bui_comment input \<and>
     bu_id buyer = bui_id input \<and> bu_taxpayer_status buyer = map_option TaxpayerStatus_from (bui_taxpayer_status input) \<and>
     bu_postal_address buyer = map_option PostalAddress_from (bui_postal_address input)"

definition carries_document :: "DecimalLib \<Rightarrow> (ustr \<Rightarrow> ustr) \<Rightarrow> Account \<Rightarrow> DocumentInput \<Rightarrow> CreateInvoice \<Rightarrow> bool" where
  "carries_document lib nfc account document create \<longleftrightarrow> (let h = ci_header create; ov = din_overrides document; d = acc_defaults account in
     carries_buyer nfc (din_buyer document) (ci_buyer create) \<and>
     list_all2 (keeps_line lib) (din_items document) (ci_items create) \<and>
     ih_fulfillment_date h = din_fulfillment_date document \<and> ih_due_date h = din_due_date document \<and>
     ih_issue_date h = din_issue_date document \<and> ih_paid h = din_paid document \<and> ih_comment h = din_comment document \<and>
     ih_payment_method h = PaymentMethod_of_input (din_payment_method document) \<and>
     currency_str (ih_currency h) = (case dov_currency ov of Some c \<Rightarrow> c | None \<Rightarrow> df_currency d) \<and>
     ci_e_invoice create = (case dov_e_invoice ov of Some e \<Rightarrow> e | None \<Rightarrow> df_e_invoice d) \<and>
     ih_number_prefix h = (case dov_number_prefix ov of Some n \<Rightarrow> Some n | None \<Rightarrow> df_number_prefix d) \<and>
     sl_bank (ci_seller create) = sel_bank (acc_seller account) \<and>
     sl_bank_account (ci_seller create) = sel_bank_account (acc_seller account) \<and>
     \<not> ci_download_pdf create \<and> ci_attachments create = [] \<and> ih_preview_pdf h = None)"

lemma build_create_carries:
  assumes "build_create lib nfc account kind document order eid refs = Ok c"
  shows "carries_document lib nfc account document c"
proof -
  have "list_all2 (keeps_line lib) (din_items document) (ci_items c)"
    using build_create_Ok(8) [OF assms] preflight_keeps by metis
  then show ?thesis
    using assms
    by (auto simp: carries_document_def carries_buyer_def build_create_def Let_def try_then_Inr_iff CreateInvoice_new_def build_header_def
        build_buyer_def Buyer_from_def Buyer_new_def InvoiceHeader_new_def normalize_buyer_name_def to_seller_def option_default_def option_else_def
        split: if_splits)
qed

text \<open>
  A create that was built always makes a step request: the checks of \<open>CreateStepRequest::new\<close> repeat what building
  established.
\<close>

lemma build_create_step_request:
  assumes "build_create lib nfc account kind document order eid refs = Ok c"
    and "corrected = (if kind = IK_Corrective then ref_corrected refs else None)"
    and "\<And>n. corrected = Some n \<Longrightarrow> trim n \<noteq> []"
  shows "CreateStepRequest_new eid kind order c old corrected =
    Ok \<lparr> csr_external_id = eid, csr_kind = kind, csr_order = order, csr_create = c, csr_reversed = old,
         csr_corrected_number = corrected \<rparr>"
  using build_create_Ok(2,3) [OF assms(1)] build_kind_intent [OF build_create_Ok(1) [OF assms(1)]] assms(2,3)
  by (auto simp: CreateStepRequest_new_def split: option.splits)

end
