(* ===== verification/Durable_Steps.thy ===== *)
theory Durable_Steps
  imports Build_Request
begin

text \<open>
  The durable reads of the handlers (\<open>service/support.rs\<close>): \<open>run_reading\<close>, \<open>run_best_effort\<close> and the
  two journaled reads the handlers share.

  The runtime's \<open>run\<close> is third-party; the record \<open>Runtime\<close> holds what it decides. Its documented
  behaviour is the definition \<open>run_durably\<close>: the closure is executed until one execution both succeeds
  and is recorded; an execution may fail to open its client, be stopped in the middle (leaving any
  prefix of its exchanges behind) or be lost before it is recorded; and the run may end in a terminal
  error, when its policy is exhausted or the invocation is cancelled. A run that never ends gives no
  answer and is not a value. On replay of the invocation the recorded value is returned without
  executing anything, so that in a handler, which only branches on such values, each run appears once.
\<close>

section \<open>The runtime's run\<close>

datatype 's Attempt = At_Recorded | At_Lost | At_Stopped 's nat | At_Unopened

record 's Runtime =
  rt_attempts :: "ustr \<Rightarrow> 's world \<Rightarrow> nat"
  rt_attempt :: "ustr \<Rightarrow> nat \<Rightarrow> 's world \<Rightarrow> 's Attempt"
  rt_terminal :: "ustr \<Rightarrow> 's world \<Rightarrow> TerminalError"
  rt_decode :: "ustr \<Rightarrow> Fault option"

definition stopped_world :: "('s, 'a) prog \<Rightarrow> 's \<Rightarrow> nat \<Rightarrow> 's world \<Rightarrow> 's world" where
  "stopped_world f s k w =
    w\<lparr>remote := s, trace := trace w @ take k (drop (length (trace w)) (trace (snd (run_state f w))))\<rparr>"

primrec run_durably :: "'s Runtime \<Rightarrow> ustr \<Rightarrow> ('s, ('a, 'e) result) prog \<Rightarrow> nat \<Rightarrow> ('s, ('a, TerminalError) result) prog" where
  "run_durably rt name f 0 = State (\<lambda>w. (Err (rt_terminal rt name w), w))"
| "run_durably rt name f (Suc n) = State (\<lambda>w. case rt_attempt rt name n w of
     At_Unopened \<Rightarrow> run_state (run_durably rt name f n) w
   | At_Stopped s k \<Rightarrow> run_state (run_durably rt name f n) (stopped_world f s k w)
   | At_Lost \<Rightarrow> run_state (run_durably rt name f n) (snd (run_state f w))
   | At_Recorded \<Rightarrow> (case run_state f w of
       (Inr v, w') \<Rightarrow> (Ok v, w')
     | (Inl e, w') \<Rightarrow> run_state (run_durably rt name f n) w'))"

definition run_operating :: "'s Runtime \<Rightarrow> ustr \<Rightarrow> ('s, ('a, 'e) result) prog \<Rightarrow> ('s, ('a, TerminalError) result) prog" where
  "run_operating rt name f = State (\<lambda>w. run_state (run_durably rt name f (rt_attempts rt name w)) w)"

definition run_reading :: "'s Runtime \<Rightarrow> ustr \<Rightarrow> ('s, ('a, Unanswered) result) prog \<Rightarrow> ('s, ('a, Fault) result) prog" where
  "run_reading rt name f = do {
     r \<leftarrow> run_operating rt name f;
     ret (map_err (read_exhausted (rt_decode rt) name) r)
   }"

definition run_best_effort :: "'s Runtime \<Rightarrow> ustr \<Rightarrow> ('s, ('a, Unanswered) result) prog \<Rightarrow> ('s, ('a option, Fault) result) prog" where
  "run_best_effort rt name f = do {
     r \<leftarrow> run_operating rt name f;
     ret (case r of
        Inr value \<Rightarrow> Ok (Some value)
      | Inl error \<Rightarrow> try_then (best_effort (rt_decode rt) name error) (\<lambda>_. Ok None))
   }"

section \<open>What a durable read establishes\<close>

lemma stopped_prefix:
  assumes "yields Q f"
  obtains ys zs r where "trace (stopped_world f s k w) = trace w @ ys" "Q r (ys @ zs)"
proof -
  obtain xs where xs: "trace (snd (run_state f w)) = trace w @ xs" "Q (fst (run_state f w)) xs"
    using assms unfolding yields_def by blast
  then have "trace (stopped_world f s k w) = trace w @ take k xs" by (simp add: stopped_world_def)
  then show thesis using that [of "take k xs" "fst (run_state f w)" "drop k xs"] xs(2) by simp
qed

text \<open>Every execution writes only what the closure may write; the value is the recorded one's.\<close>

lemma run_durably_sends:
  assumes f: "yields Q f" and reads: "\<And>r xs. Q r xs \<Longrightarrow> list_all P (writes xs)"
  shows "yields (\<lambda>r ys. list_all P (writes ys) \<and> (\<forall>v. r = Inr v \<longrightarrow> (\<exists>zs xs. ys = zs @ xs \<and> Q (Inr v) xs)))
    (run_durably rt name f n)"
proof (induction n)
  case 0
  then show ?case by (simp add: yields_def)
next
  case (Suc n)
  let ?P = "\<lambda>r ys. list_all P (writes ys) \<and> (\<forall>v. r = Inr v \<longrightarrow> (\<exists>zs xs. ys = zs @ xs \<and> Q (Inr v) xs))"
  have go_on: "\<exists>xs. trace (snd (run_state (run_durably rt name f n) w')) = trace w @ xs \<and>
      ?P (fst (run_state (run_durably rt name f n) w')) xs"
    if "trace w' = trace w @ ys" "list_all P (writes ys)" for w w' ys
  proof -
    obtain zs where zs: "trace (snd (run_state (run_durably rt name f n) w')) = trace w' @ zs"
        "?P (fst (run_state (run_durably rt name f n) w')) zs"
      using Suc.IH unfolding yields_def by blast
    have split: "\<exists>a b. ys @ zs = a @ b \<and> Q (Inr v) b" if v: "fst (run_state (run_durably rt name f n) w') = Inr v" for v
    proof -
      obtain a b where "zs = a @ b" "Q (Inr v) b" using conjunct2 [OF zs(2), rule_format, OF v] by (elim exE conjE)
      then show ?thesis by (intro exI [of _ "ys @ a"] exI [of _ b]) simp
    qed
    have t: "trace (snd (run_state (run_durably rt name f n) w')) = trace w @ (ys @ zs)" using zs(1) that(1) by simp
    have "list_all P (writes (ys @ zs))" using conjunct1 [OF zs(2)] that(2) by simp
    then have "?P (fst (run_state (run_durably rt name f n) w')) (ys @ zs)"
    proof (intro conjI allI impI)
      fix v assume "fst (run_state (run_durably rt name f n) w') = Inr v"
      then show "\<exists>a b. ys @ zs = a @ b \<and> Q (Inr v) b" by (rule split)
    qed
    from conjI [OF t this] show ?thesis by (rule exI)
  qed
  show ?case unfolding yields_def
  proof
    fix w
    obtain r w' where rw: "run_state f w = (r, w')" by fastforce
    obtain xs where xs: "trace w' = trace w @ xs" "Q r xs" using f rw by (rule yields_elim)
    show "\<exists>xs. trace (snd (run_state (run_durably rt name f (Suc n)) w)) = trace w @ xs \<and>
        ?P (fst (run_state (run_durably rt name f (Suc n)) w)) xs"
    proof (cases "rt_attempt rt name n w")
      case At_Recorded
      show ?thesis
      proof (cases r)
        case (Inl e)
        then show ?thesis using At_Recorded rw go_on [OF xs(1) reads [OF xs(2)]] by simp
      next
        case (Inr v)
        then show ?thesis using At_Recorded rw xs reads [OF xs(2)] by (intro exI [of _ xs]) (auto intro: exI [of _ "[]"])
      qed
    next
      case At_Lost
      then show ?thesis using rw go_on [OF xs(1) reads [OF xs(2)]] by simp
    next
      case (At_Stopped s k)
      obtain ys zs r' where st: "trace (stopped_world f s k w) = trace w @ ys" "Q r' (ys @ zs)"
        using f by (rule stopped_prefix)
      have "list_all P (writes ys)" using reads [OF st(2)] by simp
      then show ?thesis using At_Stopped go_on [OF st(1)] by simp
    next
      case At_Unopened
      then show ?thesis using go_on [of w w "[]"] by simp
    qed
  qed
qed

lemma run_operating_sends:
  assumes "yields Q f" "\<And>r xs. Q r xs \<Longrightarrow> list_all P (writes xs)"
  shows "yields (\<lambda>r ys. list_all P (writes ys) \<and> (\<forall>v. r = Inr v \<longrightarrow> (\<exists>zs xs. ys = zs @ xs \<and> Q (Inr v) xs)))
    (run_operating rt name f)"
  using run_durably_sends [OF assms, where rt = rt and name = name] unfolding yields_def run_operating_def by simp

lemma list_all_False: "list_all (\<lambda>_. False) xs \<longleftrightarrow> xs = []"
  by (cases xs) simp_all

lemma run_operating_yields:
  assumes "yields Q f" "\<And>r xs. Q r xs \<Longrightarrow> writes xs = []"
  shows "yields (\<lambda>r ys. writes ys = [] \<and> (\<forall>v. r = Inr v \<longrightarrow> (\<exists>zs xs. ys = zs @ xs \<and> Q (Inr v) xs)))
    (run_operating rt name f)"
  using run_operating_sends [OF assms(1), where P = "\<lambda>_. False"] assms(2) by (simp add: list_all_False)

lemma run_reading_yields:
  assumes "yields Q f" "\<And>r xs. Q r xs \<Longrightarrow> writes xs = []"
  shows "yields (\<lambda>r ys. writes ys = [] \<and> (\<forall>v. r = Inr v \<longrightarrow> (\<exists>zs xs. ys = zs @ xs \<and> Q (Inr v) xs)))
    (run_reading rt name f)"
  unfolding run_reading_def
  by (rule yields_bind [OF run_operating_yields [OF assms]]) (auto intro!: yields_return simp: map_err_def split: sum.splits)

lemma run_best_effort_yields:
  assumes "yields Q f" "\<And>r xs. Q r xs \<Longrightarrow> writes xs = []"
  shows "yields (\<lambda>r ys. writes ys = [] \<and> (\<forall>v. r = Inr (Some v) \<longrightarrow> (\<exists>zs xs. ys = zs @ xs \<and> Q (Inr v) xs)))
    (run_best_effort rt name f)"
  unfolding run_best_effort_def
  by (rule yields_bind [OF run_operating_yields [OF assms]])
    (auto intro!: yields_return simp: try_then_Inr_iff split: sum.splits)

section \<open>The executing operation\<close>

text \<open>
  What a handler of an Order holds after the prologue: the deployment's configuration, the journaled
  account, and the durable write, which is \<open>Write_Protocol\<close>'s sequence run to its end.
\<close>

record 's Execution =
  exe_remote :: "'s Remote"
  exe_runtime :: "'s Runtime"
  exe_write :: "'s WriteCall \<Rightarrow> ('s, (WriteResult, Fault) result) prog"
  exe_namespace :: Namespace
  exe_order_execution :: WriteMode
  exe_account :: Account
  exe_context :: ObjectContext
  exe_wire :: WireText
  exe_nfc :: "ustr \<Rightarrow> ustr"

definition permits_replay :: "WriteMode \<Rightarrow> bool" where
  "permits_replay mode = (mode = ReplayEnabled)"

definition verify_step :: "'s Execution \<Rightarrow> ustr \<Rightarrow> ustr \<Rightarrow> ('s, (FoundDocument QueryOutcome, Fault) result) prog" where
  "verify_step exe name num = run_reading (exe_runtime exe) name (verify (exe_remote exe) num)"

definition lookup_read :: "'s Execution \<Rightarrow> ustr \<Rightarrow> ExternalId \<Rightarrow> OrderKey \<Rightarrow> IssuedKind \<Rightarrow> ('s, (OwnershipOutcome, Fault) result) prog" where
  "lookup_read exe name external_id order kind = do {
     r \<leftarrow> run_reading (exe_runtime exe) name (lookup_ours (exe_remote exe) external_id order kind);
     ret (map_err (\<lambda>fault. about fault order (Some kind) external_id) r)
   }"

text \<open>The verdict on the holder of one of our external ids rests on an answer in the trace.\<close>

definition holder_evid :: "ExternalId \<Rightarrow> OrderKey \<Rightarrow> IssuedKind \<Rightarrow> OwnershipOutcome \<Rightarrow> Event list \<Rightarrow> bool" where
  "holder_evid eid order kind out xs \<longleftrightarrow> (let sel = ByExternalId (external_str eid) in case out of
     OO_Absent \<Rightarrow> evid_absent xs sel
   | OO_Live d \<Rightarrow> evid xs sel d \<and> is_ours d order kind \<and> is_live d
   | OO_Reversed d \<Rightarrow> evid xs sel d \<and> is_ours d order kind \<and> \<not> is_live d
   | _ \<Rightarrow> True)"

lemma holder_evid_append: "holder_evid eid order kind out xs \<Longrightarrow> holder_evid eid order kind out (ys @ xs @ zs)"
  by (auto simp: holder_evid_def Let_def split: OwnershipOutcome.splits)

lemma lookup_read_yields:
  "yields (\<lambda>r xs. writes xs = [] \<and> (\<forall>out. r = Inr out \<longrightarrow> holder_evid eid order kind out xs)) (lookup_read exe name eid order kind)"
  unfolding lookup_read_def
proof (rule yields_bind [OF run_reading_yields [OF lookup_ours_evid]], blast, rule yields_return, goal_cases)
  case (1 r xs)
  have "holder_evid eid order kind out xs" if out: "r = Inr out" for out
  proof -
    obtain zs ys where ys: "xs = zs @ ys"
        "\<forall>d. out = OO_Live d \<longrightarrow> evid ys (ByExternalId (external_str eid)) d \<and> is_ours d order kind \<and> is_live d"
        "\<forall>d. out = OO_Reversed d \<longrightarrow> evid ys (ByExternalId (external_str eid)) d \<and> is_ours d order kind \<and> \<not> is_live d"
        "out = OO_Absent \<longrightarrow> evid_absent ys (ByExternalId (external_str eid))"
      using conjunct2 [OF 1, rule_format, OF out] by auto
    then have "holder_evid eid order kind out ys" by (cases out) (simp_all add: holder_evid_def)
    then show ?thesis using holder_evid_append [of eid order kind out ys zs "[]"] ys(1) by simp
  qed
  moreover have "writes xs = []" using conjunct1 [OF 1] .
  ultimately show ?case by (auto simp: map_err_def split: sum.splits)
qed

lemma verify_step_yields:
  "yields (\<lambda>r xs. writes xs = [] \<and> (\<forall>d. r = Inr (QO_Found d) \<longrightarrow> evid xs (ByInvoiceNumber num) d)) (verify_step exe name num)"
  unfolding verify_step_def by (rule yields_weaken [OF run_reading_yields [OF verify_evid]]) auto

section \<open>The durable write as a program\<close>

text \<open>What a handler relies on of the durable write: each of its runs is a finished run of the sequence.\<close>

definition durable_writes :: "'s Remote \<Rightarrow> ('s WriteCall \<Rightarrow> ('s, (WriteResult, Fault) result) prog) \<Rightarrow> bool" where
  "durable_writes rm write \<longleftrightarrow> (\<forall>call w r w'. run_state (write call) w = (r, w') \<longrightarrow>
     (\<exists>c0 c. started c0 \<and> cf_world c0 = w \<and> (write_step rm call)\<^sup>*\<^sup>* c0 c \<and> cf_world c = w' \<and> cf_pc c = Finished r))"

definition write_outcome :: "'s WriteCall \<Rightarrow> (Event \<Rightarrow> bool) \<Rightarrow> (WriteResult \<Rightarrow> Event list \<Rightarrow> bool) \<Rightarrow> (WriteResult, Fault) result \<Rightarrow> Event list \<Rightarrow> bool" where
  "write_outcome call own sound r xs \<longleftrightarrow>
     (if wc_mode call = Protected then one_write own xs else \<forall>e \<in> set (writes xs). own e) \<and>
     (case r of Inr v \<Rightarrow> \<not> is_unresolved v \<and> (sound v xs \<or> marker_evidence (wc_marker call) v xs)
      | Inl fault \<Rightarrow> writes xs \<noteq> [] \<longrightarrow> f_code fault = TC_OutcomeUnknown)"

lemma durable_write_yields:
  assumes "durable_writes rm write" "service_write rm call own sound"
  shows "yields (write_outcome call own sound) (write call)"
  unfolding yields_def
proof
  fix w
  obtain r w' where rw: "run_state (write call) w = (r, w')" by fastforce
  obtain c0 c where c: "started c0" "cf_world c0 = w" "(write_step rm call)\<^sup>*\<^sup>* c0 c" "cf_world c = w'" "cf_pc c = Finished r"
    using assms(1) rw unfolding durable_writes_def by blast
  note ow = service_write_contract [OF assms(2)]
  obtain xs where xs: "trace w' = trace w @ xs" "\<forall>e \<in> set (writes xs). own e"
      "\<forall>v. cf_pc c = Finished (Ok v) \<longrightarrow> sound v xs \<or> marker_evidence (wc_marker call) v xs"
      "\<forall>fault. writes xs \<noteq> [] \<and> cf_pc c = Finished (Err fault) \<longrightarrow> cf_state c \<noteq> None"
    using order_write.reachable_own [OF ow c(3,1)] c(2,4) by blast
  have j: "journal_inv call c" using order_write.reachable_inv [OF ow c(3,1)] by blast
  have "one_write own xs" if "wc_mode call = Protected"
    using order_write.reachable_once [OF ow c(3,1) that] c(2,4) xs(1) by simp
  moreover have "case r of Inr v \<Rightarrow> \<not> is_unresolved v \<and> (sound v xs \<or> marker_evidence (wc_marker call) v xs)
      | Inl fault \<Rightarrow> writes xs \<noteq> [] \<longrightarrow> f_code fault = TC_OutcomeUnknown"
  proof (cases r)
    case (Inl fault)
    have "f_code fault = TC_OutcomeUnknown" if "writes xs \<noteq> []"
    proof -
      have "cf_state c \<noteq> None" using xs(4) that c(5) Inl by blast
      then have "jn_set (cf_journal c)" using j by (auto simp: journal_inv_def Let_def split: if_splits)
      then show ?thesis using j c(5) Inl by (auto simp: journal_inv_def pc_consistent_def Let_def)
    qed
    then show ?thesis using Inl by simp
  next
    case (Inr v)
    then have "settled_in (cf_journal c) v" using j c(5) by (auto simp: journal_inv_def pc_consistent_def Let_def)
    then show ?thesis using xs(3) c(5) Inr by (auto simp: settled_in_def)
  qed
  ultimately have "write_outcome call own sound r xs" using xs(2) by (simp add: write_outcome_def)
  then show "\<exists>xs. trace (snd (run_state (write call) w)) = trace w @ xs \<and> write_outcome call own sound (fst (run_state (write call) w)) xs"
    using rw xs(1) by auto
qed

section \<open>An execution without interruption\<close>

text \<open>
  The sequence of a durable write when the runtime neither stops nor loses anything, as one program; an outcome
  that stays uncertain ends the invocation.
\<close>

definition unbroken_write :: "'s Remote \<Rightarrow> ustr \<Rightarrow> TerminalError \<Rightarrow> 's WriteCall \<Rightarrow> ('s, (WriteResult, Fault) result) prog" where
  "unbroken_write rm now error call =
    (case (if wc_mode call = Protected then Ok (wc_marker call) else ReplayIntent_new (wc_marker call)) of
       Inl e \<Rightarrow> ret (Err (Fault_invalid_input e))
     | Inr m \<Rightarrow> (let p = (wc_marker call)\<lparr>uw_created_at := now\<rparr> in do {
         r \<leftarrow> write_closure call True p (wc_mode call = Protected);
         (case r of
            WR_Unresolved d \<Rightarrow> do {
              settled \<leftarrow> reconcile_write_diagnostic rm p d;
              ret (if is_unresolved settled then Err (uncertain call p error) else Ok settled)
            }
          | _ \<Rightarrow> ret (Ok r))
       }))"

definition config :: "Journal \<Rightarrow> UnresolvedWrite option \<Rightarrow> 's world \<Rightarrow> bool \<Rightarrow> Pc \<Rightarrow> 's Config" where
  "config j state w permit pc = \<lparr> cf_journal = j, cf_state = state, cf_world = w, cf_permit = permit, cf_pc = pc \<rparr>"

lemma config_simps [simp]:
  "cf_journal (config j s w b pc) = j" "cf_state (config j s w b pc) = s" "cf_world (config j s w b pc) = w"
  "cf_permit (config j s w b pc) = b" "cf_pc (config j s w b pc) = pc"
  "(config j s w b pc)\<lparr>cf_journal := j'\<rparr> = config j' s w b pc" "(config j s w b pc)\<lparr>cf_state := s'\<rparr> = config j s' w b pc"
  "(config j s w b pc)\<lparr>cf_world := w'\<rparr> = config j s w' b pc" "(config j s w b pc)\<lparr>cf_permit := b'\<rparr> = config j s w b' pc"
  "(config j s w b pc)\<lparr>cf_pc := pc'\<rparr> = config j s w b pc'"
  by (simp_all add: config_def)

lemma unbroken_write_sends:
  assumes m: "wc_mode call = Protected \<or> ReplayIntent_new (wc_marker call) = Ok m"
    and p: "p = (wc_marker call)\<lparr>uw_created_at := now\<rparr>"
    and r: "run_state (write_closure call True p (wc_mode call = Protected)) w = (r, w')"
  shows "(write_step rm call)\<^sup>*\<^sup>* (config empty_journal None w False PrepareRun)
    (config (empty_journal\<lparr>jn_prepared := Some p, jn_set := True, jn_armed := True, jn_written := Some r\<rparr>) (Some p) w' False (Judge r))"
proof -
  let ?j1 = "empty_journal\<lparr>jn_prepared := Some p\<rparr>"
  let ?j2 = "?j1\<lparr>jn_set := True\<rparr>"
  let ?j3 = "?j2\<lparr>jn_armed := True\<rparr>"
  let ?step = "write_step rm call"
  have "?step (config empty_journal None w False PrepareRun) (config ?j1 None w False SetMarker)"
    using write_step.Prepare [of "config empty_journal None w False PrepareRun" call m rm now] m p by (simp add: empty_journal_def)
  moreover have "?step (config ?j1 None w False SetMarker) (config ?j2 (Some p) w False ArmRun)"
    using write_step.Set [of "config ?j1 None w False SetMarker" rm call] by (simp add: empty_journal_def)
  moreover have "?step (config ?j2 (Some p) w False ArmRun) (config ?j2 (Some p) w (wc_mode call = Protected) ArmExecuted)"
    using write_step.ArmExec [of "config ?j2 (Some p) w False ArmRun" rm call] by (simp add: empty_journal_def)
  moreover have "?step (config ?j2 (Some p) w (wc_mode call = Protected) ArmExecuted) (config ?j3 (Some p) w (wc_mode call = Protected) WriteRun)"
    using write_step.ArmRecord [of "config ?j2 (Some p) w (wc_mode call = Protected) ArmExecuted" rm call] by simp
  moreover have "?step (config ?j3 (Some p) w (wc_mode call = Protected) WriteRun) (config ?j3 (Some p) w' False (WriteExecuted r))"
    using write_step.WriteExec [of "config ?j3 (Some p) w (wc_mode call = Protected) WriteRun" p call True r w' rm] r by (simp add: empty_journal_def)
  moreover have "?step (config ?j3 (Some p) w' False (WriteExecuted r)) (config (?j3\<lparr>jn_written := Some r\<rparr>) (Some p) w' False (Judge r))"
    using write_step.WriteRecord [of "config ?j3 (Some p) w' False (WriteExecuted r)" r rm call] by simp
  ultimately show ?thesis by (meson converse_rtranclp_into_rtranclp rtranclp.rtrancl_refl)
qed

lemma settled_finishes:
  assumes "cf_pc c = ClearMarker r" "\<not> jn_cleared (cf_journal c)"
  shows "\<exists>c'. (write_step rm call)\<^sup>*\<^sup>* c c' \<and> cf_world c' = cf_world c \<and> cf_pc c' = Finished (Ok r)"
proof -
  let ?c = "c\<lparr>cf_state := None, cf_journal := (cf_journal c)\<lparr>jn_cleared := True\<rparr>, cf_pc := Returning r\<rparr>"
  have "write_step rm call c ?c" "write_step rm call ?c (?c\<lparr>cf_pc := Finished (Ok r)\<rparr>)"
    by (rule write_step.Clear [OF assms], rule write_step.Return) simp
  then have "(write_step rm call)\<^sup>*\<^sup>* c (?c\<lparr>cf_pc := Finished (Ok r)\<rparr>)" by (meson converse_rtranclp_into_rtranclp rtranclp.rtrancl_refl)
  then show ?thesis by (intro exI [of _ "?c\<lparr>cf_pc := Finished (Ok r)\<rparr>"]) simp
qed

lemma unbroken_write_reconciles:
  assumes j: "jn_prepared j = Some p" "jn_reconciled j = None" "\<not> jn_cleared j"
    and r: "run_state (reconcile_write_diagnostic rm p d) w = (r, w')"
    and out: "out = (if is_unresolved r then Err (uncertain call p error) else Ok r)"
  shows "\<exists>c. (write_step rm call)\<^sup>*\<^sup>* (config j s w False (Judge (WR_Unresolved d))) c \<and> cf_world c = w' \<and> cf_pc c = Finished out"
proof -
  let ?c = "config j s w False (ReconcileRun d)"
  have s: "write_step rm call (config j s w False (Judge (WR_Unresolved d))) ?c"
    using write_step.JudgeUnresolved [of "config j s w False (Judge (WR_Unresolved d))" d] by simp
  have "\<exists>c. (write_step rm call)\<^sup>*\<^sup>* ?c c \<and> cf_world c = w' \<and> cf_pc c = Finished out"
  proof (cases "is_unresolved r")
    case True
    obtain ys where "trace w' = trace w @ ys"
      using r yields_elim [OF reconcile_write_diagnostic_yields] by metis
    then have "interrupted (reconcile_write_diagnostic rm p d) w w'"
      using r by (auto simp: interrupted_def)
    then have "write_step rm call ?c (config j s w' False (Finished out))"
      using write_step.ReconcileStopped [of ?c d p rm w' "Finished out" call error] j out True by simp
    then show ?thesis by (intro exI [of _ "config j s w' False (Finished out)"]) auto
  next
    case False
    let ?c1 = "config j s w' False (ReconcileExecuted r)" and ?c2 = "config (j\<lparr>jn_reconciled := Some r\<rparr>) s w' False (ClearMarker r)"
    have "write_step rm call ?c ?c1" "write_step rm call ?c1 ?c2"
      using write_step.ReconcileExec [of ?c d p rm r w' call] write_step.ReconcileRecord [of ?c1 r rm call] j r False by simp_all
    moreover obtain c where "(write_step rm call)\<^sup>*\<^sup>* ?c2 c" "cf_world c = w'" "cf_pc c = Finished (Ok r)"
      using settled_finishes [of ?c2 r rm call] j by auto
    ultimately have "(write_step rm call)\<^sup>*\<^sup>* ?c c" by (blast intro: converse_rtranclp_into_rtranclp)
    then show ?thesis using out False \<open>cf_world c = w'\<close> \<open>cf_pc c = Finished (Ok r)\<close> by auto
  qed
  then show ?thesis using s by (blast intro: converse_rtranclp_into_rtranclp)
qed

lemma unbroken_write_durable: "durable_writes rm (unbroken_write rm now error)"
  unfolding durable_writes_def
proof (intro allI impI)
  fix call w r w'
  assume run: "run_state (unbroken_write rm now error call) w = (r, w')"
  let ?step = "write_step rm call" and ?p = "(wc_marker call)\<lparr>uw_created_at := now\<rparr>"
  let ?c0 = "config empty_journal None w False PrepareRun"
  have c0: "started ?c0" "cf_world ?c0 = w" by (simp_all add: started_def guard_def)
  have "\<exists>c. ?step\<^sup>*\<^sup>* ?c0 c \<and> cf_world c = w' \<and> cf_pc c = Finished r"
  proof (cases "if wc_mode call = Protected then Ok (wc_marker call) else ReplayIntent_new (wc_marker call)")
    case (Inl e)
    then have "wc_mode call = ReplayEnabled" "ReplayIntent_new (wc_marker call) = Err e"
      by (cases "wc_mode call"; simp)+
    then have "?step ?c0 (config empty_journal None w False (Finished (Err (Fault_invalid_input e))))"
      using write_step.Refused [of ?c0 call e rm] by simp
    moreover have "r = Err (Fault_invalid_input e)" "w' = w" using run Inl by (simp_all add: unbroken_write_def)
    ultimately show ?thesis by (intro exI [of _ "config empty_journal None w False (Finished r)"]) auto
  next
    case (Inr m)
    obtain r1 w1 where r1: "run_state (write_closure call True ?p (wc_mode call = Protected)) w = (r1, w1)" by fastforce
    let ?j = "empty_journal\<lparr>jn_prepared := Some ?p, jn_set := True, jn_armed := True, jn_written := Some r1\<rparr>"
    have sent: "?step\<^sup>*\<^sup>* ?c0 (config ?j (Some ?p) w1 False (Judge r1))"
    proof (rule unbroken_write_sends [OF _ refl r1])
      show "wc_mode call = Protected \<or> ReplayIntent_new (wc_marker call) = Ok m" using Inr by (simp split: if_splits)
    qed
    have "\<exists>c. ?step\<^sup>*\<^sup>* (config ?j (Some ?p) w1 False (Judge r1)) c \<and> cf_world c = w' \<and> cf_pc c = Finished r"
    proof (cases "is_unresolved r1")
      case True
      then obtain d where d: "r1 = WR_Unresolved d" by (auto simp: is_unresolved_iff)
      obtain r2 w2 where r2: "run_state (reconcile_write_diagnostic rm ?p d) w1 = (r2, w2)" by fastforce
      have "r = (if is_unresolved r2 then Err (uncertain call ?p error) else Ok r2)" "w' = w2"
        using run Inr r1 r2 d by (simp_all add: unbroken_write_def Let_def State_Monad.bind_def)
      then show ?thesis using unbroken_write_reconciles [OF _ _ _ r2] d by (simp add: empty_journal_def)
    next
      case False
      have "r = Ok r1" "w' = w1"
        using run Inr r1 False by (auto simp: unbroken_write_def Let_def State_Monad.bind_def is_unresolved_iff split: WriteResult.splits)
      moreover have "?step (config ?j (Some ?p) w1 False (Judge r1)) (config ?j (Some ?p) w1 False (ClearMarker r1))"
        using write_step.JudgeSettled [of "config ?j (Some ?p) w1 False (Judge r1)" r1 rm call] False by simp
      moreover obtain c where "?step\<^sup>*\<^sup>* (config ?j (Some ?p) w1 False (ClearMarker r1)) c" "cf_world c = w1" "cf_pc c = Finished (Ok r1)"
        using settled_finishes [of "config ?j (Some ?p) w1 False (ClearMarker r1)" r1 rm call] by (auto simp: empty_journal_def)
      ultimately show ?thesis by (metis converse_rtranclp_into_rtranclp)
    qed
    then show ?thesis using sent by (blast intro: rtranclp_trans)
  qed
  then show "\<exists>c0 c. started c0 \<and> cf_world c0 = w \<and> ?step\<^sup>*\<^sup>* c0 c \<and> cf_world c = w' \<and> cf_pc c = Finished r"
    using c0 by blast
qed

section \<open>A settled write is returned\<close>

lemma settled_replay_judges:
  assumes inv: "journal_inv call c" and "settled_in (cf_journal c) r" and pc: "\<forall>out. cf_pc c \<noteq> Finished out"
  obtains r' where "jn_written (cf_journal c) = Some r'"
    "(write_step rm call)\<^sup>*\<^sup>* c (c\<lparr>cf_permit := False, cf_pc := Judge r'\<rparr>)"
proof -
  let ?j = "cf_journal c" and ?at = "\<lambda>pc. c\<lparr>cf_permit := False, cf_pc := pc\<rparr>"
  obtain r' where r': "jn_written ?j = Some r'" using assms(2) by (auto simp: settled_in_def)
  then have armed: "jn_armed ?j" "jn_set ?j" using inv by (auto simp: journal_inv_def Let_def)
  then obtain p where p: "jn_prepared ?j = Some p" using inv by (auto simp: journal_inv_def Let_def)
  then obtain m where m: "wc_mode call = Protected \<or> ReplayIntent_new (wc_marker call) = Ok m"
    using inv by (auto simp: journal_inv_def Let_def)
  have "write_step rm call c (?at PrepareRun)" using pc by (rule write_step.Crash)
  moreover have "write_step rm call (?at PrepareRun) (?at SetMarker)" using write_step.PrepareReplay [of "?at PrepareRun" call m p rm] m p by simp
  moreover have "write_step rm call (?at SetMarker) (?at ArmRun)" using write_step.SetReplay [of "?at SetMarker" rm call] armed by simp
  moreover have "write_step rm call (?at ArmRun) (?at WriteRun)" using write_step.ArmReplay [of "?at ArmRun" rm call] armed by simp
  moreover have "write_step rm call (?at WriteRun) (?at (Judge r'))" using write_step.WriteReplay [of "?at WriteRun" r' rm call] r' by simp
  ultimately have "(write_step rm call)\<^sup>*\<^sup>* c (?at (Judge r'))" by (meson converse_rtranclp_into_rtranclp rtranclp.rtrancl_refl)
  then show thesis by (rule that [OF r'])
qed

lemma cleared_returns:
  assumes "cf_pc c = ClearMarker r" "journal_inv call c"
  shows "\<exists>c'. (write_step rm call)\<^sup>*\<^sup>* c c' \<and> cf_pc c' = Finished (Ok r) \<and> cf_state c' = None \<and> cf_world c' = cf_world c"
proof -
  obtain c1 where c1: "write_step rm call c c1" "cf_pc c1 = Returning r" "cf_state c1 = None" "cf_world c1 = cf_world c"
  proof (cases "jn_cleared (cf_journal c)")
    case True
    then have "cf_state c = None" using assms(2) by (simp add: journal_inv_def Let_def)
    then show thesis using that [OF write_step.ClearReplay [of c r rm call]] assms(1) True by simp
  next
    case False
    then show thesis using that [OF write_step.Clear [of c r rm call]] assms(1) by simp
  qed
  have "write_step rm call c1 (c1\<lparr>cf_pc := Finished (Ok r)\<rparr>)" using c1(2) by (rule write_step.Return)
  then have "(write_step rm call)\<^sup>*\<^sup>* c (c1\<lparr>cf_pc := Finished (Ok r)\<rparr>)"
    by (meson c1(1) converse_rtranclp_into_rtranclp rtranclp.rtrancl_refl)
  then show ?thesis using c1 by (intro exI [of _ "c1\<lparr>cf_pc := Finished (Ok r)\<rparr>"]) simp
qed

text \<open>(C7) A settled outcome is never lost: once the journal of an Order write records a settled result, by the write or by its
  reconciliation, then wherever the invocation was stopped it can still run to its end, answering that very result
  with the marker cleared, and it makes no further exchange with szamlazz.hu.\<close>

theorem settled_write_returns:
  assumes "started c0" "(write_step rm call)\<^sup>*\<^sup>* c0 c" "settled_in (cf_journal c) r" "\<forall>out. cf_pc c \<noteq> Finished out"
  shows "\<exists>c'. (write_step rm call)\<^sup>*\<^sup>* c c' \<and> cf_pc c' = Finished (Ok r) \<and> cf_state c' = None \<and> cf_world c' = cf_world c"
proof -
  let ?at = "\<lambda>pc. c\<lparr>cf_permit := False, cf_pc := pc\<rparr>"
  have inv: "journal_inv call c" using assms(2,1)
    by (induction rule: rtranclp_induct) (auto intro: journal_inv_started journal_inv_step)
  obtain r' where r': "jn_written (cf_journal c) = Some r'" "(write_step rm call)\<^sup>*\<^sup>* c (?at (Judge r'))"
    by (rule settled_replay_judges [OF inv assms(3,4)])
  have "(write_step rm call)\<^sup>*\<^sup>* (?at (Judge r')) (?at (ClearMarker r))"
  proof (cases "is_unresolved r'")
    case False
    then have "r' = r" using assms(3) r'(1) by (auto simp: settled_in_def)
    then show ?thesis using write_step.JudgeSettled [of "?at (Judge r')" r rm call] False by auto
  next
    case True
    then obtain d where d: "r' = WR_Unresolved d" by (auto simp: is_unresolved_iff)
    have "jn_reconciled (cf_journal c) = Some r" using assms(3) r'(1) True by (auto simp: settled_in_def)
    then have "write_step rm call (?at (ReconcileRun d)) (?at (ClearMarker r))"
      using write_step.ReconcileReplay [of "?at (ReconcileRun d)" d r rm call] by simp
    moreover have "write_step rm call (?at (Judge r')) (?at (ReconcileRun d))"
      using write_step.JudgeUnresolved [of "?at (Judge r')" d rm call] d by simp
    ultimately show ?thesis by (meson converse_rtranclp_into_rtranclp rtranclp.rtrancl_refl)
  qed
  with r'(2) have reach: "(write_step rm call)\<^sup>*\<^sup>* c (?at (ClearMarker r))" by simp
  have "journal_inv call (?at (ClearMarker r))" using reach inv
    by (induction rule: rtranclp_induct) (auto intro: journal_inv_step)
  from cleared_returns [OF _ this, of r rm] obtain c' where c': "(write_step rm call)\<^sup>*\<^sup>* (?at (ClearMarker r)) c'"
      "cf_pc c' = Finished (Ok r)" "cf_state c' = None" "cf_world c' = cf_world c" by auto
  then show ?thesis using rtranclp_trans [OF reach c'(1)] by blast
qed

definition ex_gone :: "unit Remote" where
  "ex_gone = scripted (\<lambda>_. Inl (code_error EC_MissingData)) (Inl (CE_ServiceUnavailable [])) (Inl (CE_ServiceUnavailable [])) (Inr ())"

definition ex_gone_call :: "unit WriteCall" where
  "ex_gone_call = protected_delete_call ex_gone (Namespace (us ''acct'')) (Account_new (us ''a'') (us ''c'')) ex_context
     (OrderKey (us ''ORD-1'')) (FoundDocument_from (ex_invoice_doc (Some False))) False"

theorem settled_write_returns_witness:
  "\<exists>c c'. (write_step ex_gone ex_gone_call)\<^sup>*\<^sup>* (config empty_journal None no_world False PrepareRun) c \<and> cf_pc c = PrepareRun \<and>
     (write_step ex_gone ex_gone_call)\<^sup>*\<^sup>* c c' \<and> cf_pc c' = Finished (Ok (WR_Delete DO_AlreadyGone)) \<and> cf_state c' = None \<and> cf_world c' = cf_world c"
proof -
  let ?p = "(wc_marker ex_gone_call)\<lparr>uw_created_at := us ''2026-01-01T00:00:00Z''\<rparr>" and ?r = "WR_Delete DO_AlreadyGone"
  let ?start = "config empty_journal None no_world False PrepareRun :: unit Config"
  obtain w' where run: "run_state (write_closure ex_gone_call True ?p (wc_mode ex_gone_call = Protected)) no_world = (?r, w')"
    by (simp add: ex_gone_call_def call_defs write_closure_def may_execute_def delete_proforma_def read_run_defs ex_gone_def scripted_simps
        query_result_def delete_check_def WriteResult_delete_def del: us_Cons)
  have m: "wc_mode ex_gone_call = Protected" by (simp add: ex_gone_call_def call_defs)
  let ?judged = "config (empty_journal\<lparr>jn_prepared := Some ?p, jn_set := True, jn_armed := True, jn_written := Some ?r\<rparr>) (Some ?p) w' False (Judge ?r)"
  let ?cut = "?judged\<lparr>cf_permit := False, cf_pc := PrepareRun\<rparr>"
  have "(write_step ex_gone ex_gone_call)\<^sup>*\<^sup>* ?start ?judged" by (rule unbroken_write_sends [OF _ refl run]) (use m in simp)
  moreover have "write_step ex_gone ex_gone_call ?judged ?cut" by (rule write_step.Crash) simp
  ultimately have reach: "(write_step ex_gone ex_gone_call)\<^sup>*\<^sup>* ?start ?cut" by (meson rtranclp.rtrancl_into_rtrancl)
  have start: "started ?start" by (simp add: started_def guard_def)
  have "settled_in (cf_journal ?cut) ?r" by (simp add: settled_in_def is_unresolved_def)
  from settled_write_returns [OF start reach this] reach show ?thesis by fastforce
qed

end
