(* ===== verification/Create_Decisions.thy ===== *)
theory Create_Decisions
  imports Durable_Steps
begin

text \<open>
  The contract of the issuing handlers (\<open>contract/create.rs\<close>) and the pure decisions of the create
  protocol (\<open>service/create.rs\<close>): what each read lets the protocol do.
\<close>

section \<open>The contract\<close>

datatype ProformaLink = PL_Auto | PL_None | PL_Number InvoiceNumber

record Reissue =
  rei_expected_number :: InvoiceNumber

record CreateOptions =
  copt_reissue :: "Reissue option"
  copt_proforma :: ProformaLink

record CreateRequest =
  creq_document :: DocumentInput
  creq_options :: CreateOptions

record CorrectRequest =
  correq_invoice_number :: InvoiceNumber
  correq_correction_id :: CorrectionId
  correq_document :: DocumentInput

datatype CreateStatus =
    CS_Issued | CS_AlreadyIssued | CS_Reconciled | CS_Reversed | CS_Rejected | CS_Conflict | CS_Other ustr

primrec CreateStatus_as_str :: "CreateStatus \<Rightarrow> ustr" where
  "CreateStatus_as_str CS_Issued = us ''issued''"
| "CreateStatus_as_str CS_AlreadyIssued = us ''already_issued''"
| "CreateStatus_as_str CS_Reconciled = us ''reconciled''"
| "CreateStatus_as_str CS_Reversed = us ''reversed''"
| "CreateStatus_as_str CS_Rejected = us ''rejected''"
| "CreateStatus_as_str CS_Conflict = us ''conflict''"
| "CreateStatus_as_str (CS_Other token) = token"

definition CreateStatus_arms :: "(ustr \<times> CreateStatus) list" where
  "CreateStatus_arms =
    [(us ''issued'', CS_Issued), (us ''already_issued'', CS_AlreadyIssued), (us ''reconciled'', CS_Reconciled),
     (us ''reversed'', CS_Reversed), (us ''rejected'', CS_Rejected), (us ''conflict'', CS_Conflict)]"

definition CreateStatus_from :: "ustr \<Rightarrow> CreateStatus" where
  "CreateStatus_from token = match_token CreateStatus_arms CS_Other token"

datatype ConflictReason =
    CoR_PrepaidChain | CoR_OrderInvoiced | CoR_Live | CoR_TargetChanged | CoR_Foreign | CoR_DuplicateOrderNumber
  | CoR_ExternalIdCollision | CoR_ProformaLive | CoR_ProformaMissing | CoR_PrepaymentMissing | CoR_PrepaymentReversed
  | CoR_BaseReversed | CoR_NotManaged | CoR_Other ustr

primrec ConflictReason_as_str :: "ConflictReason \<Rightarrow> ustr" where
  "ConflictReason_as_str CoR_PrepaidChain = us ''prepaid_chain''"
| "ConflictReason_as_str CoR_OrderInvoiced = us ''order_invoiced''"
| "ConflictReason_as_str CoR_Live = us ''live''"
| "ConflictReason_as_str CoR_TargetChanged = us ''target_changed''"
| "ConflictReason_as_str CoR_Foreign = us ''foreign''"
| "ConflictReason_as_str CoR_DuplicateOrderNumber = us ''duplicate_order_number''"
| "ConflictReason_as_str CoR_ExternalIdCollision = us ''external_id_collision''"
| "ConflictReason_as_str CoR_ProformaLive = us ''proforma_live''"
| "ConflictReason_as_str CoR_ProformaMissing = us ''proforma_missing''"
| "ConflictReason_as_str CoR_PrepaymentMissing = us ''prepayment_missing''"
| "ConflictReason_as_str CoR_PrepaymentReversed = us ''prepayment_reversed''"
| "ConflictReason_as_str CoR_BaseReversed = us ''base_reversed''"
| "ConflictReason_as_str CoR_NotManaged = us ''not_managed''"
| "ConflictReason_as_str (CoR_Other token) = token"

definition ConflictReason_arms :: "(ustr \<times> ConflictReason) list" where
  "ConflictReason_arms =
    [(us ''prepaid_chain'', CoR_PrepaidChain), (us ''order_invoiced'', CoR_OrderInvoiced), (us ''live'', CoR_Live),
     (us ''target_changed'', CoR_TargetChanged), (us ''foreign'', CoR_Foreign),
     (us ''duplicate_order_number'', CoR_DuplicateOrderNumber), (us ''external_id_collision'', CoR_ExternalIdCollision),
     (us ''proforma_live'', CoR_ProformaLive), (us ''proforma_missing'', CoR_ProformaMissing),
     (us ''prepayment_missing'', CoR_PrepaymentMissing), (us ''prepayment_reversed'', CoR_PrepaymentReversed),
     (us ''base_reversed'', CoR_BaseReversed), (us ''not_managed'', CoR_NotManaged)]"

definition ConflictReason_from :: "ustr \<Rightarrow> ConflictReason" where
  "ConflictReason_from token = match_token ConflictReason_arms CoR_Other token"

datatype Warning = W_NotificationDeliveryFailed | W_Other ustr

primrec Warning_as_str :: "Warning \<Rightarrow> ustr" where
  "Warning_as_str W_NotificationDeliveryFailed = us ''notification_delivery_failed''"
| "Warning_as_str (W_Other token) = token"

definition Warning_arms :: "(ustr \<times> Warning) list" where
  "Warning_arms = [(us ''notification_delivery_failed'', W_NotificationDeliveryFailed)]"

definition Warning_from :: "ustr \<Rightarrow> Warning" where
  "Warning_from token = match_token Warning_arms W_Other token"

interpretation create_statuses: open_tokens CreateStatus_arms CS_Other CreateStatus_as_str
proof unfold_locales
  show "v \<in> snd ` set CreateStatus_arms \<or> (\<exists>s. v = CS_Other s)" for v
    by (cases v) (simp_all add: CreateStatus_arms_def)
qed (simp_all add: CreateStatus_arms_def)

interpretation conflict_reasons: open_tokens ConflictReason_arms CoR_Other ConflictReason_as_str
proof unfold_locales
  show "v \<in> snd ` set ConflictReason_arms \<or> (\<exists>s. v = CoR_Other s)" for v
    by (cases v) (simp_all add: ConflictReason_arms_def)
qed (simp_all add: ConflictReason_arms_def)

interpretation warnings: open_tokens Warning_arms W_Other Warning_as_str
proof unfold_locales
  show "v \<in> snd ` set Warning_arms \<or> (\<exists>s. v = W_Other s)" for v
    by (cases v) (simp_all add: Warning_arms_def)
qed (simp_all add: Warning_arms_def)

record CreateResponse =
  crs_outcome :: CreateStatus
  crs_conflict_reason :: "ConflictReason option"
  crs_kind :: IssuedKind
  crs_external_id :: ustr
  crs_invoice_number :: "ustr option"
  crs_document_id :: "int option"
  crs_storno_number :: "ustr option"
  crs_net_total :: "Decimal option"
  crs_gross_total :: "Decimal option"
  crs_outstanding :: "Decimal option"
  crs_customer_account_url :: "ustr option"
  crs_existing_number :: "ustr option"
  crs_code :: "ustr option"
  crs_message :: "ustr option"
  crs_warnings :: "Warning list"

definition CreateResponse_new :: "CreateStatus \<Rightarrow> IssuedKind \<Rightarrow> ustr \<Rightarrow> CreateResponse" where
  "CreateResponse_new status kind external_id =
    \<lparr> crs_outcome = status, crs_conflict_reason = None, crs_kind = kind, crs_external_id = external_id,
      crs_invoice_number = None, crs_document_id = None, crs_storno_number = None, crs_net_total = None,
      crs_gross_total = None, crs_outstanding = None, crs_customer_account_url = None, crs_existing_number = None,
      crs_code = None, crs_message = None, crs_warnings = [] \<rparr>"

section \<open>The identity of a response\<close>

record Target =
  tg_kind :: IssuedKind
  tg_external_id :: ExternalId

definition of_kind :: "Namespace \<Rightarrow> OrderKey \<Rightarrow> DocumentKind \<Rightarrow> Target" where
  "of_kind namespace order kind = \<lparr> tg_kind = IssuedKind_from kind, tg_external_id = for_kind namespace order kind \<rparr>"

definition respond :: "Target \<Rightarrow> CreateStatus \<Rightarrow> CreateResponse" where
  "respond identity status = CreateResponse_new status (tg_kind identity) (external_str (tg_external_id identity))"

definition conflict :: "Target \<Rightarrow> ConflictReason \<Rightarrow> CreateResponse" where
  "conflict identity reason = (respond identity CS_Conflict)\<lparr> crs_conflict_reason := Some reason \<rparr>"

definition conflict_about :: "Target \<Rightarrow> ConflictReason \<Rightarrow> ustr \<Rightarrow> CreateResponse" where
  "conflict_about identity reason num = (conflict identity reason)\<lparr> crs_existing_number := Some num \<rparr>"

definition rejected :: "Target \<Rightarrow> ustr \<Rightarrow> ustr \<Rightarrow> CreateResponse" where
  "rejected identity code message = (respond identity CS_Rejected)\<lparr> crs_code := Some code, crs_message := Some message \<rparr>"

definition found_response :: "DecimalLib \<Rightarrow> Target \<Rightarrow> CreateStatus \<Rightarrow> FoundDocument \<Rightarrow> CreateResponse" where
  "found_response lib identity status found = (let gross = Some (gross_total found) in
    (respond identity status)
      \<lparr> crs_invoice_number := Some (number found), crs_document_id := Some (document_id found),
        crs_net_total := Some (net_total found), crs_gross_total := gross,
        crs_outstanding := outstanding lib gross (credit_entry_amounts found) \<rparr>)"

definition reversed_response :: "Target \<Rightarrow> FoundDocument \<Rightarrow> ustr option \<Rightarrow> CreateResponse" where
  "reversed_response identity found storno_number = (respond identity CS_Reversed)
    \<lparr> crs_invoice_number := Some (number found), crs_document_id := Some (document_id found),
      crs_storno_number := storno_number \<rparr>"

definition about_target :: "Target \<Rightarrow> OrderKey \<Rightarrow> Fault \<Rightarrow> Fault" where
  "about_target identity order fault = about fault order (Some (tg_kind identity)) (tg_external_id identity)"

definition respond_to :: "DecimalLib \<Rightarrow> Target \<Rightarrow> CreateOutcome \<Rightarrow> (CreateResponse, Fault) result" where
  "respond_to lib identity out = (case out of
     CrO_TargetChanged \<Rightarrow> Ok (conflict identity CoR_TargetChanged)
   | CrO_Issued issued \<Rightarrow> Ok ((respond identity CS_Issued)
       \<lparr> crs_invoice_number := Some (iss_number issued), crs_document_id := iss_document_id issued,
         crs_net_total := iss_net_total issued, crs_gross_total := iss_gross_total issued,
         crs_outstanding := iss_outstanding issued, crs_customer_account_url := iss_customer_account_url issued,
         crs_warnings := (if iss_notification_delivery_failed issued then [W_NotificationDeliveryFailed] else []) \<rparr>)
   | CrO_Found found \<Rightarrow> Ok (found_response lib identity CS_Issued found)
   | CrO_Reversed found \<Rightarrow> Ok (reversed_response identity found None)
   | CrO_LiveAgain found \<Rightarrow> Ok (conflict_about identity CoR_Live (number found))
   | CrO_Reconciled found \<Rightarrow> Ok (found_response lib identity CS_Reconciled found)
   | CrO_Collision found \<Rightarrow> Ok (conflict_about identity CoR_ExternalIdCollision (number found))
   | CrO_DuplicateOrderNumber answer existing_number \<Rightarrow> Ok ((conflict identity CoR_DuplicateOrderNumber)
       \<lparr> crs_code := Some (ans_code answer), crs_message := Some (ans_message answer), crs_existing_number := existing_number \<rparr>)
   | CrO_Rejected rejection \<Rightarrow>
       if rej_code rejection = RC_Request then Err (Fault_invalid_input (rej_message rejection))
       else Ok (rejected identity (RejectionCode_as_str (rej_code rejection)) (rej_message rejection))
   | CrO_CredentialsRejected answer \<Rightarrow> Err (into_fault (AnC_CredentialsRejected answer))
   | CrO_Api answer \<Rightarrow> Err (into_fault (AnC_Inconclusive answer))
   | CrO_Unavailable message \<Rightarrow> Err (Fault_szlahu_down_answer message))"

section \<open>Decisions\<close>

record Refs =
  rf_proforma :: "ustr option"
  rf_prepayment :: "ustr option"
  rf_our_numbers :: "ustr list"

definition Refs_default :: Refs where
  "Refs_default = \<lparr> rf_proforma = None, rf_prepayment = None, rf_our_numbers = [] \<rparr>"

definition exclusive_with :: "DocumentKind \<Rightarrow> (DocumentKind \<times> ConflictReason) list" where
  "exclusive_with kind = (case kind of
     DK_Invoice \<Rightarrow> [(DK_Prepayment, CoR_PrepaidChain), (DK_Final, CoR_PrepaidChain)]
   | DK_Prepayment \<Rightarrow> [(DK_Invoice, CoR_PrepaidChain), (DK_Final, CoR_PrepaidChain)]
   | DK_Proforma \<Rightarrow> [(DK_Invoice, CoR_OrderInvoiced), (DK_Prepayment, CoR_OrderInvoiced), (DK_Final, CoR_OrderInvoiced)]
   | DK_Final \<Rightarrow> [])"

definition links_proforma :: "DocumentKind \<Rightarrow> bool" where
  "links_proforma kind \<longleftrightarrow> kind = DK_Invoice \<or> kind = DK_Prepayment"

definition decide_exclusivity :: "OwnershipOutcome \<Rightarrow> ConflictReason \<Rightarrow> Target \<Rightarrow> (CreateResponse option, Fault) result" where
  "decide_exclusivity out reason identity = (case out of
     OO_Collision found \<Rightarrow> Ok (Some (conflict_about identity CoR_ExternalIdCollision (number found)))
   | OO_Live found \<Rightarrow> Ok (Some (conflict_about identity reason (number found)))
   | OO_Absent \<Rightarrow> Ok None
   | OO_Reversed _ \<Rightarrow> Ok None
   | OO_Api answer \<Rightarrow> Err (into_fault (AnC_Inconclusive answer))
   | OO_CredentialsRejected answer \<Rightarrow> Err (into_fault (AnC_CredentialsRejected answer)))"

definition decide_prepayment_for_final :: "OwnershipOutcome \<Rightarrow> Target \<Rightarrow> Refs \<Rightarrow> (CreateResponse option \<times> Refs, Fault) result" where
  "decide_prepayment_for_final out identity refs = (case out of
     OO_Absent \<Rightarrow> Ok (Some (conflict identity CoR_PrepaymentMissing), refs)
   | OO_Collision found \<Rightarrow> Ok (Some (conflict_about identity CoR_ExternalIdCollision (number found)), refs)
   | OO_Reversed found \<Rightarrow> Ok (Some (conflict_about identity CoR_PrepaymentReversed (number found)), refs)
   | OO_Live found \<Rightarrow> Ok (None, refs\<lparr> rf_our_numbers := rf_our_numbers refs @ [number found], rf_prepayment := Some (number found) \<rparr>)
   | OO_Api answer \<Rightarrow> Err (into_fault (AnC_Inconclusive answer))
   | OO_CredentialsRejected answer \<Rightarrow> Err (into_fault (AnC_CredentialsRejected answer)))"

definition decide_proforma_link :: "OwnershipOutcome \<Rightarrow> ProformaLink \<Rightarrow> Target \<Rightarrow> Refs \<Rightarrow> (CreateResponse option \<times> Refs, Fault) result" where
  "decide_proforma_link out link identity refs = (case out of
     OO_Collision found \<Rightarrow> Ok (Some (conflict_about identity CoR_ExternalIdCollision (number found)), refs)
   | OO_Live live \<Rightarrow> (if link = PL_None then Ok (Some (conflict_about identity CoR_ProformaLive (number live)), refs)
       else Ok (None, refs\<lparr> rf_our_numbers := rf_our_numbers refs @ [number live], rf_proforma := Some (number live) \<rparr>))
   | OO_Absent \<Rightarrow> Ok (None, refs)
   | OO_Reversed _ \<Rightarrow> Ok (None, refs)
   | OO_Api answer \<Rightarrow> Err (into_fault (AnC_Inconclusive answer))
   | OO_CredentialsRejected answer \<Rightarrow> Err (into_fault (AnC_CredentialsRejected answer)))"

definition decide_proforma_by_number :: "FoundDocument QueryOutcome \<Rightarrow> ustr \<Rightarrow> OrderKey \<Rightarrow> Target \<Rightarrow> Refs
    \<Rightarrow> (CreateResponse option \<times> Refs, Fault) result" where
  "decide_proforma_by_number out num order identity refs = (case out of
     QO_Api answer \<Rightarrow> Err (about_target identity order (into_fault (AnC_Inconclusive answer)))
   | QO_CredentialsRejected answer \<Rightarrow> Err (about_target identity order (into_fault (AnC_CredentialsRejected answer)))
   | QO_NotFound \<Rightarrow> Ok (Some (conflict_about identity CoR_ProformaMissing num), refs)
   | QO_Found found \<Rightarrow>
       if \<not> carries_order found order then Ok (Some (conflict_about identity CoR_NotManaged num), refs)
       else if document_type found \<noteq> DT_Proforma then Err (Fault_invalid_input (num @ msg '' is not a proforma (tipus ''
         @ DocumentType_as_wire (document_type found) @ us '')''))
       else Ok (None, refs\<lparr> rf_our_numbers := rf_our_numbers refs @ [number found], rf_proforma := Some num \<rparr>))"

definition decide_proforma_for_execution :: "WriteMode \<Rightarrow> FoundDocument QueryOutcome \<Rightarrow> ustr \<Rightarrow> OrderKey \<Rightarrow> Target \<Rightarrow> Refs
    \<Rightarrow> (CreateResponse option \<times> Refs, Fault) result" where
  "decide_proforma_for_execution mode out num order identity refs =
    (if permits_replay mode \<and> (case out of
         QO_Found document \<Rightarrow> carries_order document order \<and> document_type document = DT_Proforma \<and> \<not> is_live document
       | _ \<Rightarrow> False)
     then Ok (Some (conflict_about identity CoR_ProformaMissing num), refs)
     else decide_proforma_by_number out num order identity refs)"

definition decide_base :: "FoundDocument \<Rightarrow> OrderKey \<Rightarrow> ustr \<Rightarrow> Target \<Rightarrow> (CreateResponse option, Fault) result" where
  "decide_base found order num identity =
    (if \<not> carries_order found order then Ok (Some (conflict_about identity CoR_NotManaged num))
     else if reversed found = Some True then Ok (Some (conflict_about identity CoR_BaseReversed num))
     else if \<not> is_invoice_family found then Err (Fault_invalid_input (num @ msg '' is not a supported corrective base (tipus ''
       @ DocumentType_as_wire (document_type found) @ msg ''); name the original invoice, prepayment or final invoice''))
     else Ok None)"

definition expected_target :: "Reissue option \<Rightarrow> ustr option \<Rightarrow> Target \<Rightarrow> CreateResponse option" where
  "expected_target reissue holder identity = (case reissue of
     None \<Rightarrow> None
   | Some intent \<Rightarrow>
       if holder = Some (number_str (rei_expected_number intent)) then None
       else Some ((conflict identity CoR_TargetChanged)\<lparr> crs_existing_number := holder \<rparr>))"

definition decide_existing_target :: "DecimalLib \<Rightarrow> OwnershipOutcome \<Rightarrow> Reissue option \<Rightarrow> Target \<Rightarrow> (CreateResponse option, Fault) result" where
  "decide_existing_target lib out reissue identity =
    (let changed = (case out of
         OO_Absent \<Rightarrow> expected_target reissue None identity
       | OO_Live found \<Rightarrow> expected_target reissue (Some (number found)) identity
       | OO_Reversed found \<Rightarrow> expected_target reissue (Some (number found)) identity
       | _ \<Rightarrow> None) in
     if changed \<noteq> None then Ok changed
     else case out of
       OO_Live found \<Rightarrow> (if reissue \<noteq> None then Ok (Some (conflict_about identity CoR_Live (number found)))
         else Ok (Some (found_response lib identity CS_AlreadyIssued found)))
     | OO_Reversed found \<Rightarrow> (if reissue = None then Ok (Some (reversed_response identity found None)) else Ok None)
     | OO_Collision found \<Rightarrow> Ok (Some (conflict_about identity CoR_ExternalIdCollision (number found)))
     | OO_Absent \<Rightarrow> Ok None
     | OO_Api answer \<Rightarrow> Err (into_fault (AnC_Inconclusive answer))
     | OO_CredentialsRejected answer \<Rightarrow> Err (into_fault (AnC_CredentialsRejected answer)))"

text \<open>\<open>ControlFlow\<close>: the response that ends the protocol, or the reversed document to send past.\<close>

datatype Flow = Break CreateResponse | Continue "ustr option"

definition decide_lookup :: "DecimalLib \<Rightarrow> LookupOutcome \<Rightarrow> Reissue option \<Rightarrow> Target \<Rightarrow> (Flow, Fault) result" where
  "decide_lookup lib out reissue identity =
    (let changed = (case out of
         LO_Absent \<Rightarrow> expected_target reissue None identity
       | LO_Live found \<Rightarrow> expected_target reissue (Some (number found)) identity
       | LO_Reversed found _ \<Rightarrow> expected_target reissue (Some (number found)) identity
       | _ \<Rightarrow> None) in
     case changed of
       Some response \<Rightarrow> Ok (Break response)
     | None \<Rightarrow> (case out of
         LO_Api answer \<Rightarrow> Err (into_fault (AnC_Inconclusive answer))
       | LO_CredentialsRejected answer \<Rightarrow> Err (into_fault (AnC_CredentialsRejected answer))
       | LO_Live found \<Rightarrow> (if reissue \<noteq> None then Ok (Break (conflict_about identity CoR_Live (number found)))
           else Ok (Break (found_response lib identity CS_AlreadyIssued found)))
       | LO_Reversed document storno_number \<Rightarrow>
           (if reissue = None then Ok (Break (reversed_response identity document storno_number))
            else Ok (Continue (Some (number document))))
       | LO_Collision found \<Rightarrow> Ok (Break (conflict_about identity CoR_ExternalIdCollision (number found)))
       | LO_Foreign found \<Rightarrow> Ok (Break (conflict_about identity CoR_Foreign (number found)))
       | LO_Absent \<Rightarrow> Ok (Continue None)))"

definition decide_lookup_for_execution :: "DecimalLib \<Rightarrow> WriteMode \<Rightarrow> LookupOutcome \<Rightarrow> Reissue option \<Rightarrow> Target \<Rightarrow> (Flow, Fault) result" where
  "decide_lookup_for_execution lib mode out reissue identity =
    (case out of
       LO_Foreign document \<Rightarrow>
         if permits_replay mode \<and> document_type document = DT_Proforma
         then Ok (Break (conflict_about identity CoR_ProformaLive (number document)))
         else decide_lookup lib out reissue identity
     | _ \<Rightarrow> decide_lookup lib out reissue identity)"

section \<open>When a decision lets the protocol go on\<close>

lemma expected_target_None_iff: "expected_target reissue holder identity = None \<longleftrightarrow>
    (\<forall>intent. reissue = Some intent \<longrightarrow> holder = Some (number_str (rei_expected_number intent)))"
  by (simp add: expected_target_def split: option.split)

lemma decide_exclusivity_go: "decide_exclusivity out reason identity = Inr None \<longleftrightarrow> out = OO_Absent \<or> (\<exists>d. out = OO_Reversed d)"
  by (cases out) (simp_all add: decide_exclusivity_def)

lemma decide_prepayment_go: "decide_prepayment_for_final out identity refs = Inr (None, refs') \<longleftrightarrow> (\<exists>d. out = OO_Live d \<and>
    refs' = refs\<lparr> rf_our_numbers := rf_our_numbers refs @ [number d], rf_prepayment := Some (number d) \<rparr>)"
  by (cases out) (auto simp: decide_prepayment_for_final_def)

lemma decide_link_go: "decide_proforma_link out link identity refs = Inr (None, refs') \<longleftrightarrow>
    ((out = OO_Absent \<or> (\<exists>d. out = OO_Reversed d)) \<and> refs' = refs) \<or>
    (\<exists>d. out = OO_Live d \<and> link \<noteq> PL_None \<and>
      refs' = refs\<lparr> rf_our_numbers := rf_our_numbers refs @ [number d], rf_proforma := Some (number d) \<rparr>)"
  by (cases out) (auto simp: decide_proforma_link_def)

lemma decide_number_go:
  assumes "decide_proforma_for_execution mode out num order identity refs = Inr (None, refs')"
  shows "\<exists>d. out = QO_Found d \<and> carries_order d order \<and> document_type d = DT_Proforma \<and> (permits_replay mode \<longrightarrow> is_live d) \<and>
      refs' = refs\<lparr> rf_our_numbers := rf_our_numbers refs @ [number d], rf_proforma := Some num \<rparr>"
  using assms by (cases out)
    (auto simp: decide_proforma_for_execution_def decide_proforma_by_number_def split: if_splits)

lemma decide_base_go: "decide_base found order num identity = Inr None \<longleftrightarrow>
    carries_order found order \<and> reversed found \<noteq> Some True \<and> is_invoice_family found"
  by (auto simp: decide_base_def)

lemma decide_lookup_go:
  assumes "decide_lookup_for_execution lib mode out reissue identity = Inr (Continue old)"
  shows "(out = LO_Absent \<and> reissue = None \<and> old = None) \<or>
    (\<exists>d s intent. out = LO_Reversed d s \<and> reissue = Some intent \<and> number d = number_str (rei_expected_number intent) \<and>
      old = Some (number d))"
  using assms
  by (cases out)
    (auto simp: decide_lookup_for_execution_def decide_lookup_def expected_target_def split: if_splits option.splits)

end
