(* ===== verification/Create_Service.thy ===== *)
theory Create_Service
  imports Create_Decisions
begin

text \<open>
  The issuing handlers of an Order (\<open>service/create.rs\<close>, with the admission of \<open>correct_invoice\<close> in
  \<open>service/handlers.rs\<close>): the reads, the decisions on them and the durable create, in the order the code
  runs them.
\<close>

section \<open>Sequencing\<close>

text \<open>\<open>?\<close> on a fallible step; an early return of a response; the same for a step that also records references.\<close>

definition then_ok :: "('s, ('a, 'e) result) prog \<Rightarrow> ('a \<Rightarrow> ('s, ('b, 'e) result) prog) \<Rightarrow> ('s, ('b, 'e) result) prog" where
  "then_ok m k = do { r \<leftarrow> m; (case r of Inl e \<Rightarrow> ret (Err e) | Inr a \<Rightarrow> k a) }"

definition unless_answered :: "('s, ('r option, 'e) result) prog \<Rightarrow> ('s, ('r, 'e) result) prog \<Rightarrow> ('s, ('r, 'e) result) prog" where
  "unless_answered m k = then_ok m (\<lambda>answer. case answer of Some response \<Rightarrow> ret (Ok response) | None \<Rightarrow> k)"

definition with_refs :: "('s, ('r option \<times> 'a, 'e) result) prog \<Rightarrow> ('a \<Rightarrow> ('s, ('r, 'e) result) prog) \<Rightarrow> ('s, ('r, 'e) result) prog" where
  "with_refs m k = then_ok m (\<lambda>(answer, refs). case answer of Some response \<Rightarrow> ret (Ok response) | None \<Rightarrow> k refs)"

section \<open>Validation\<close>

record Prepared =
  prep_order :: OrderKey
  prep_document :: DocumentInput
  prep_reissue :: "Reissue option"
  prep_proforma :: ProformaLink

record Intent =
  int_identity :: Target
  int_create :: CreateInvoice
  int_corrected_number :: "ustr option"
  int_reissue :: "Reissue option"
  int_our_numbers :: "ustr list"

definition build :: "'s Execution \<Rightarrow> IssuedKind \<Rightarrow> DocumentInput \<Rightarrow> OrderKey \<Rightarrow> ExternalId \<Rightarrow> DocumentRefs \<Rightarrow> (CreateInvoice, Fault) result" where
  "build exe kind document order external_id refs =
    try_then (map_err (\<lambda>error. Fault_invalid_input (InputError_display error))
      (build_create (wt_lib (exe_wire exe)) (exe_nfc exe) (exe_account exe) kind document order external_id refs)) (\<lambda>request.
    try_then (map_err (\<lambda>error. Fault_invalid_input (RequestError_display error)) (validate_request (exe_wire exe) request)) (\<lambda>_.
    Ok request))"

definition validate_document :: "'s Execution \<Rightarrow> IssuedKind \<Rightarrow> DocumentInput \<Rightarrow> OrderKey \<Rightarrow> (unit, Fault) result" where
  "validate_document exe kind document order =
    (if normalize_buyer_name (exe_nfc exe) (bui_name (din_buyer document)) = []
     then Err (Fault_invalid_input (msg ''buyer.name must not be empty''))
     else try_then (build exe kind document order (ExternalId (us ''-''))
         \<lparr> ref_proforma = None, ref_prepayment = Some (us ''-''), ref_corrected = Some (us ''-'') \<rparr>) (\<lambda>_. Ok ()))"

definition prepare :: "'s Execution \<Rightarrow> OrderKey \<Rightarrow> DocumentKind \<Rightarrow> CreateRequest \<Rightarrow> (Prepared, Fault) result" where
  "prepare exe order kind request = (let options = creq_options request in
    if copt_proforma options \<noteq> PL_Auto \<and> \<not> links_proforma kind
    then Err (Fault_invalid_input (msg ''options.proforma applies to create_invoice and create_prepayment only, not create_''
      @ DocumentKind_as_str kind))
    else try_then (validate_document exe (IssuedKind_from kind) (creq_document request) order) (\<lambda>_.
      Ok \<lparr> prep_order = order, prep_document = creq_document request, prep_reissue = copt_reissue options,
           prep_proforma = copt_proforma options \<rparr>))"

section \<open>The reads\<close>

definition storno_from_hint :: "FoundDocument QueryOutcome \<Rightarrow> ustr \<Rightarrow> (ReportedDocument option, Fault) result" where
  "storno_from_hint out num = (case out of
     QO_Found found \<Rightarrow> Ok (if is_storno_of found num then Some (ReportedDocument_from found) else None)
   | QO_NotFound \<Rightarrow> Ok None
   | QO_Api answer \<Rightarrow> Ok None
   | QO_CredentialsRejected answer \<Rightarrow> Err (into_fault (AnC_CredentialsRejected answer)))"

definition storno_of :: "'s Execution \<Rightarrow> OrderKey \<Rightarrow> ustr \<Rightarrow> ExternalId \<Rightarrow> ('s, (ReportedDocument option, Fault) result) prog" where
  "storno_of exe order num storno_id =
    then_ok (run_best_effort (exe_runtime exe) (us ''hint-storno-'' @ num) (hint (exe_remote exe) order)) (\<lambda>hinted. ret (case hinted of
      None \<Rightarrow> Ok None
    | Some out \<Rightarrow> map_err (\<lambda>fault. about fault order None storno_id) (storno_from_hint out num)))"

definition storno_number_of :: "'s Execution \<Rightarrow> OrderKey \<Rightarrow> ustr \<Rightarrow> ExternalId \<Rightarrow> ('s, (ustr option, Fault) result) prog" where
  "storno_number_of exe order num storno_id =
    then_ok (storno_of exe order num storno_id) (\<lambda>storno. ret (Ok (map_option rep_number storno)))"

definition existing_target :: "'s Execution \<Rightarrow> OrderKey \<Rightarrow> Target \<Rightarrow> Reissue option \<Rightarrow> ('s, (CreateResponse option, Fault) result) prog" where
  "existing_target exe order identity reissue =
    then_ok (lookup_read exe (us ''lookup-'' @ IssuedKind_as_str (tg_kind identity)) (tg_external_id identity) order (tg_kind identity)) (\<lambda>found.
    then_ok (ret (map_err (about_target identity order)
        (decide_existing_target (wt_lib (exe_wire exe)) found reissue identity))) (\<lambda>response.
    case response of
      None \<Rightarrow> ret (Ok None)
    | Some answer \<Rightarrow>
        (case crs_invoice_number answer of
           Some num \<Rightarrow>
             if crs_outcome answer = CS_Reversed \<and> tg_kind identity \<noteq> IK_Corrective
             then then_ok (storno_number_of exe order num (tg_external_id identity)) (\<lambda>storno_number.
               ret (Ok (Some (answer\<lparr> crs_storno_number := storno_number \<rparr>))))
             else ret (Ok (Some answer))
         | None \<Rightarrow> ret (Ok (Some answer)))))"

definition exclusivity :: "'s Execution \<Rightarrow> Prepared \<Rightarrow> Target \<Rightarrow> DocumentKind \<Rightarrow> ConflictReason \<Rightarrow> ('s, (CreateResponse option, Fault) result) prog" where
  "exclusivity exe prepared identity other reason =
    then_ok (lookup_read exe (us ''lookup-'' @ DocumentKind_as_str other)
        (for_kind (exe_namespace exe) (prep_order prepared) other) (prep_order prepared) (IssuedKind_from other)) (\<lambda>found.
    ret (map_err (about_target identity (prep_order prepared)) (decide_exclusivity found reason identity)))"

primrec exclusivities :: "'s Execution \<Rightarrow> Prepared \<Rightarrow> Target \<Rightarrow> (DocumentKind \<times> ConflictReason) list \<Rightarrow> ('s, (CreateResponse option, Fault) result) prog" where
  "exclusivities exe prepared identity [] = ret (Ok None)"
| "exclusivities exe prepared identity (row # rows) =
    then_ok (exclusivity exe prepared identity (fst row) (snd row)) (\<lambda>answer. case answer of
      Some response \<Rightarrow> ret (Ok (Some response))
    | None \<Rightarrow> exclusivities exe prepared identity rows)"

definition prepayment_for_final :: "'s Execution \<Rightarrow> Prepared \<Rightarrow> Target \<Rightarrow> Refs \<Rightarrow> ('s, (CreateResponse option \<times> Refs, Fault) result) prog" where
  "prepayment_for_final exe prepared identity refs =
    then_ok (lookup_read exe (us ''lookup-prepayment'')
        (for_kind (exe_namespace exe) (prep_order prepared) DK_Prepayment) (prep_order prepared) (IssuedKind_from DK_Prepayment)) (\<lambda>found.
    ret (map_err (about_target identity (prep_order prepared)) (decide_prepayment_for_final found identity refs)))"

definition proforma_link :: "'s Execution \<Rightarrow> Prepared \<Rightarrow> Target \<Rightarrow> Refs \<Rightarrow> ('s, (CreateResponse option \<times> Refs, Fault) result) prog" where
  "proforma_link exe prepared identity refs = (case prep_proforma prepared of
     PL_Number named \<Rightarrow> (let num = number_str named in
       then_ok (do {
           found \<leftarrow> verify_step exe (us ''verify-proforma-'' @ num) num;
           ret (map_err (about_target identity (prep_order prepared)) found)
         }) (\<lambda>found.
       ret (decide_proforma_for_execution (exe_order_execution exe) found num (prep_order prepared) identity refs)))
   | link \<Rightarrow>
       then_ok (lookup_read exe (us ''lookup-proforma'')
           (for_kind (exe_namespace exe) (prep_order prepared) DK_Proforma) (prep_order prepared) (IssuedKind_from DK_Proforma)) (\<lambda>found.
       ret (map_err (about_target identity (prep_order prepared)) (decide_proforma_link found link identity refs))))"

definition unselected_proforma :: "'s Execution \<Rightarrow> Prepared \<Rightarrow> Target \<Rightarrow> Refs \<Rightarrow> ('s, (CreateResponse option, Fault) result) prog" where
  "unselected_proforma exe prepared identity refs =
    then_ok (lookup_read exe (us ''lookup-proforma'')
        (for_kind (exe_namespace exe) (prep_order prepared) DK_Proforma) (prep_order prepared) IK_Proforma) (\<lambda>found.
    ret (if (case found of OO_Live document \<Rightarrow> rf_proforma refs = Some (number document) | _ \<Rightarrow> False) then Ok None
      else map_err (about_target identity (prep_order prepared)) (decide_exclusivity found CoR_ProformaLive identity)))"

primrec names_proforma :: "ProformaLink \<Rightarrow> bool" where
  "names_proforma PL_Auto = False"
| "names_proforma PL_None = False"
| "names_proforma (PL_Number num) = True"

section \<open>Lookup, create, answer\<close>

definition lookup_checked :: "'s Execution \<Rightarrow> OrderKey \<Rightarrow> Intent \<Rightarrow> ('s, (LookupOutcome, Unanswered) result) prog" where
  "lookup_checked exe order intent =
    (let kind = tg_kind (int_identity intent);
         request = \<lparr> lr_external_id = tg_external_id (int_identity intent), lr_kind = kind, lr_order = order,
           lr_our_numbers = int_our_numbers intent \<rparr> in
     if permits_replay (exe_order_execution exe) then lookup_for_replay (exe_remote exe) request
     else then_ok (lookup (exe_remote exe) request) (\<lambda>out. ret (Ok (case out of
         LO_Live found \<Rightarrow> if matches_create_base found kind (int_corrected_number intent) then out else LO_Collision found
       | LO_Reversed found _ \<Rightarrow> if matches_create_base found kind (int_corrected_number intent) then out else LO_Collision found
       | other \<Rightarrow> other))))"

definition lookup_step :: "'s Execution \<Rightarrow> OrderKey \<Rightarrow> Intent \<Rightarrow> ('s, (LookupOutcome, Fault) result) prog" where
  "lookup_step exe order intent =
    run_reading (exe_runtime exe) (us ''lookup-'' @ IssuedKind_as_str (tg_kind (int_identity intent))) (lookup_checked exe order intent)"

primrec CreateStepRequestError_display :: "CreateStepRequestError \<Rightarrow> ustr" where
  "CreateStepRequestError_display ExternalIdMismatch = msg ''create external id must exactly match the intended external id''"
| "CreateStepRequestError_display OrderMismatch = msg ''create order number must exactly match the intended order''"
| "CreateStepRequestError_display KindMismatch = msg ''create kind must match the intended issued kind''"
| "CreateStepRequestError_display UnsupportedKind = msg ''create kind is not supported by Gateway issuance''"
| "CreateStepRequestError_display CorrectiveIntentMismatch =
     msg ''create corrective base must exactly match the intended nonblank base, and be absent for other kinds''"

definition create_result :: "ustr \<Rightarrow> WriteResult \<Rightarrow> (CreateOutcome, Fault) result" where
  "create_result otherwise result = (case result of WR_Create out \<Rightarrow> Ok out | _ \<Rightarrow> Err (Fault_outcome_unknown otherwise))"

definition create_step :: "'s Execution \<Rightarrow> OrderKey \<Rightarrow> Intent \<Rightarrow> ustr option \<Rightarrow> ('s, (CreateOutcome, Fault) result) prog" where
  "create_step exe order intent old =
    (case CreateStepRequest_new (tg_external_id (int_identity intent)) (tg_kind (int_identity intent)) order (int_create intent)
        old (int_corrected_number intent) of
       Inl error \<Rightarrow> ret (Err (Fault_invalid_input (CreateStepRequestError_display error)))
     | Inr request \<Rightarrow>
         if permits_replay (exe_order_execution exe) then
           (case create_replay_marker (exe_namespace exe) (exe_account exe) (exe_context exe) request of
              Inl fault \<Rightarrow> ret (Err fault)
            | Inr marker \<Rightarrow> then_ok (exe_write exe (replay_create_call (exe_remote exe) marker request)) (\<lambda>result.
                ret (create_result (msg ''issuance remains unresolved'') result)))
         else then_ok (exe_write exe (protected_create_call (exe_remote exe) (exe_namespace exe) (exe_account exe) (exe_context exe) request))
           (\<lambda>result. ret (create_result (msg ''unexpected recovery operation; operator inspection required'') result)))"

definition issue :: "'s Execution \<Rightarrow> OrderKey \<Rightarrow> Intent \<Rightarrow> ('s, (CreateResponse, Fault) result) prog" where
  "issue exe order intent =
    (let identity = int_identity intent; lib = wt_lib (exe_wire exe) in
     then_ok (do { r \<leftarrow> lookup_step exe order intent; ret (map_err (about_target identity order) r) }) (\<lambda>found.
     then_ok (ret (map_err (about_target identity order)
         (decide_lookup_for_execution lib (exe_order_execution exe) found (int_reissue intent) identity))) (\<lambda>flow.
     case flow of
       Break response \<Rightarrow> ret (Ok response)
     | Continue old \<Rightarrow> then_ok (create_step exe order intent old) (\<lambda>out.
         ret (map_err (about_target identity order) (respond_to lib identity out))))))"

section \<open>The handlers\<close>

definition issue_kind :: "'s Execution \<Rightarrow> OrderKey \<Rightarrow> DocumentKind \<Rightarrow> CreateRequest \<Rightarrow> ('s, (CreateResponse, Fault) result) prog" where
  "issue_kind exe order kind request =
    then_ok (ret (prepare exe order kind request)) (\<lambda>prepared.
    let identity = of_kind (exe_namespace exe) (prep_order prepared) kind; replay = permits_replay (exe_order_execution exe) in
    unless_answered (existing_target exe (prep_order prepared) identity (prep_reissue prepared)) (
    unless_answered (exclusivities exe prepared identity (exclusive_with kind)) (
    with_refs (if kind = DK_Final then prepayment_for_final exe prepared identity Refs_default
      else ret (Ok (None, Refs_default))) (\<lambda>refs1.
    unless_answered (if replay \<and> kind = DK_Final then exclusivity exe prepared identity DK_Invoice CoR_PrepaidChain
      else ret (Ok None)) (
    with_refs (if links_proforma kind then proforma_link exe prepared identity refs1 else ret (Ok (None, refs1))) (\<lambda>refs.
    unless_answered (if replay \<and> (kind = DK_Final \<or> names_proforma (prep_proforma prepared))
      then unselected_proforma exe prepared identity refs else ret (Ok None)) (
    then_ok (ret (build exe (tg_kind identity) (prep_document prepared) (prep_order prepared) (tg_external_id identity)
      \<lparr> ref_proforma = rf_proforma refs, ref_prepayment = rf_prepayment refs, ref_corrected = None \<rparr>)) (\<lambda>create.
    issue exe (prep_order prepared) \<lparr> int_identity = identity, int_create = create, int_corrected_number = None,
      int_reissue = prep_reissue prepared, int_our_numbers = rf_our_numbers refs \<rparr>))))))))"

definition correct :: "'s Execution \<Rightarrow> OrderKey \<Rightarrow> CorrectRequest \<Rightarrow> ('s, (CreateResponse, Fault) result) prog" where
  "correct exe order request =
    (let num = number_str (correq_invoice_number request); document = correq_document request;
         identity = \<lparr> tg_kind = IK_Corrective, tg_external_id = for_corrective (exe_namespace exe) order (correq_correction_id request) \<rparr> in
     then_ok (ret (validate_document exe IK_Corrective document order)) (\<lambda>_.
     unless_answered (existing_target exe order identity None) (
     then_ok (do { r \<leftarrow> verify_step exe (us ''verify-base-'' @ num) num;
         ret (map_err (about_target identity order) (try_then r (\<lambda>out. verified_document out num))) }) (\<lambda>found.
     unless_answered (ret (map_err (about_target identity order) (decide_base found order num identity))) (
     then_ok (ret (build exe IK_Corrective document order (tg_external_id identity)
       (DocumentRefs_default\<lparr> ref_corrected := Some num \<rparr>))) (\<lambda>create.
     issue exe order \<lparr> int_identity = identity, int_create = create, int_corrected_number = Some num,
       int_reissue = None, int_our_numbers = [] \<rparr>))))))"

definition correct_invoice :: "'s Execution \<Rightarrow> OrderKey \<Rightarrow> CorrectRequest \<Rightarrow> ('s, (CreateResponse, Fault) result) prog" where
  "correct_invoice exe order request =
    (if permits_replay (exe_order_execution exe)
     then ret (Err (Fault_invalid_input (msg ''corrective issuance is unsupported with replay_enabled Order execution'')))
     else correct exe order request)"

section \<open>Rules for the sequencing\<close>

lemma then_ok_yields:
  assumes "yields R m"
    and "\<And>e xs. R (Inl e) xs \<Longrightarrow> Q (Inl e) xs"
    and "\<And>a xs. R (Inr a) xs \<Longrightarrow> yields (\<lambda>r ys. Q r (xs @ ys)) (k a)"
  shows "yields Q (then_ok m k)"
  unfolding then_ok_def using assms(1)
  by (rule yields_bind) (auto intro!: yields_return assms(2,3) split: sum.split)

lemma then_ok_ret: "then_ok (ret r) k = (case r of Inl e \<Rightarrow> ret (Err e) | Inr a \<Rightarrow> k a)"
  by (simp add: then_ok_def)

lemma unless_answered_yields:
  assumes "yields R m"
    and "\<And>e xs. R (Inl e) xs \<Longrightarrow> Q (Inl e) xs" "\<And>v xs. R (Inr (Some v)) xs \<Longrightarrow> Q (Inr v) xs"
    and "\<And>xs. R (Inr None) xs \<Longrightarrow> yields (\<lambda>r ys. Q r (xs @ ys)) k"
  shows "yields Q (unless_answered m k)"
  unfolding unless_answered_def using assms(1,2)
  by (rule then_ok_yields) (auto intro!: yields_return assms(3,4) split: option.split)

lemma with_refs_yields:
  assumes "yields R m"
    and "\<And>e xs. R (Inl e) xs \<Longrightarrow> Q (Inl e) xs" "\<And>v a xs. R (Inr (Some v, a)) xs \<Longrightarrow> Q (Inr v) xs"
    and "\<And>a xs. R (Inr (None, a)) xs \<Longrightarrow> yields (\<lambda>r ys. Q r (xs @ ys)) (k a)"
  shows "yields Q (with_refs m k)"
  unfolding with_refs_def using assms(1,2)
  by (rule then_ok_yields) (auto intro!: yields_return assms(3,4) split: option.split)

section \<open>What the reads establish\<close>

definition kind_free :: "Namespace \<Rightarrow> OrderKey \<Rightarrow> DocumentKind \<Rightarrow> Event list \<Rightarrow> bool" where
  "kind_free namespace order other xs \<longleftrightarrow> (let sel = ByExternalId (external_str (for_kind namespace order other)) in
     evid_absent xs sel \<or> (\<exists>d. evid xs sel d \<and> is_ours d order (IssuedKind_from other) \<and> \<not> is_live d))"

definition kind_held :: "Namespace \<Rightarrow> OrderKey \<Rightarrow> DocumentKind \<Rightarrow> FoundDocument \<Rightarrow> Event list \<Rightarrow> bool" where
  "kind_held namespace order other d xs \<longleftrightarrow>
     evid xs (ByExternalId (external_str (for_kind namespace order other))) d \<and> is_ours d order (IssuedKind_from other) \<and> is_live d"

lemma kind_free_append: "kind_free namespace order other (xs @ ys) \<longleftrightarrow> kind_free namespace order other xs \<or> kind_free namespace order other ys"
  by (auto simp: kind_free_def Let_def)

lemma kind_held_append: "kind_held namespace order other d (xs @ ys) \<longleftrightarrow> kind_held namespace order other d xs \<or> kind_held namespace order other d ys"
  by (auto simp: kind_held_def)

lemma exclusivity_yields:
  "yields (\<lambda>r xs. writes xs = [] \<and> (r = Inr None \<longrightarrow> kind_free (exe_namespace exe) (prep_order prepared) other xs))
    (exclusivity exe prepared identity other reason)"
  unfolding exclusivity_def
proof (rule then_ok_yields [OF lookup_read_yields], simp, rule yields_return, goal_cases)
  case (1 out xs)
  then show ?case
    by (cases out) (auto simp: map_err_def kind_free_def holder_evid_def decide_exclusivity_def Let_def)
qed

lemma exclusivities_yields:
  "yields (\<lambda>r xs. writes xs = [] \<and> (r = Inr None \<longrightarrow> (\<forall>other \<in> fst ` set rows. kind_free (exe_namespace exe) (prep_order prepared) other xs)))
    (exclusivities exe prepared identity rows)"
proof (induction rows)
  case Nil
  then show ?case by (auto intro!: yields_return)
next
  case (Cons row rows)
  show ?case unfolding exclusivities.simps
    by (rule then_ok_yields [OF exclusivity_yields])
      (auto intro!: yields_return yields_weaken [OF Cons.IH] simp: kind_free_append split: option.split)
qed

lemma prepayment_for_final_yields:
  "yields (\<lambda>r xs. writes xs = [] \<and> (\<forall>refs'. r = Inr (None, refs') \<longrightarrow> (\<exists>d. kind_held (exe_namespace exe) (prep_order prepared) DK_Prepayment d xs \<and>
      refs' = refs\<lparr> rf_our_numbers := rf_our_numbers refs @ [number d], rf_prepayment := Some (number d) \<rparr>)))
    (prepayment_for_final exe prepared identity refs)"
  unfolding prepayment_for_final_def
proof (rule then_ok_yields [OF lookup_read_yields], simp, rule yields_return, goal_cases)
  case (1 out xs)
  then show ?case
    by (cases out) (auto simp: map_err_def kind_held_def holder_evid_def decide_prepayment_for_final_def)
qed

text \<open>The proforma reference a create carries is the one the caller's choice allows.\<close>

definition link_justified :: "'s Execution \<Rightarrow> OrderKey \<Rightarrow> ProformaLink \<Rightarrow> ustr option \<Rightarrow> Event list \<Rightarrow> bool" where
  "link_justified exe order link p xs \<longleftrightarrow> (case link of
     PL_Number n \<Rightarrow> p = Some (number_str n) \<and> (\<exists>d. evid xs (ByInvoiceNumber (number_str n)) d \<and> carries_order d order \<and>
       document_type d = DT_Proforma \<and> (permits_replay (exe_order_execution exe) \<longrightarrow> is_live d))
   | _ \<Rightarrow> (p = None \<and> kind_free (exe_namespace exe) order DK_Proforma xs) \<or>
       (link = PL_Auto \<and> (\<exists>d. p = Some (number d) \<and> kind_held (exe_namespace exe) order DK_Proforma d xs)))"

lemma link_justified_append: "link_justified exe order link p xs \<Longrightarrow> link_justified exe order link p (ys @ xs @ zs)"
  by (auto simp: link_justified_def kind_free_append kind_held_append split: ProformaLink.splits)

lemma proforma_link_yields:
  assumes "rf_proforma refs = None"
  shows "yields (\<lambda>r xs. writes xs = [] \<and> (\<forall>refs'. r = Inr (None, refs') \<longrightarrow>
      link_justified exe (prep_order prepared) (prep_proforma prepared) (rf_proforma refs') xs \<and>
      rf_prepayment refs' = rf_prepayment refs \<and> set (rf_our_numbers refs') \<subseteq> set (rf_our_numbers refs) \<union> set_option (rf_proforma refs')))
    (proforma_link exe prepared identity refs)"
proof (cases "prep_proforma prepared")
  case (PL_Number n)
  have "yields (\<lambda>r xs. writes xs = [] \<and> (\<forall>d. r = Inr (QO_Found d) \<longrightarrow> evid xs (ByInvoiceNumber (number_str n)) d))
      (do { found \<leftarrow> verify_step exe name (number_str n); ret (map_err f found) })" for f name
    by (rule yields_bind [OF verify_step_yields]) (auto intro!: yields_return simp: map_err_def split: sum.splits)
  then show ?thesis unfolding proforma_link_def PL_Number ProformaLink.case Let_def
  proof (rule then_ok_yields, goal_cases)
    case (2 out xs)
    then show ?case
      by (intro yields_return)
        (auto dest!: decide_number_go evid_number simp: link_justified_def)
  qed simp
next
  case PL_Auto
  show ?thesis unfolding proforma_link_def PL_Auto ProformaLink.case
  proof (rule then_ok_yields [OF lookup_read_yields], simp, rule yields_return, goal_cases)
    case (1 out xs)
    then show ?case using assms
      by (cases out) (auto simp: map_err_def link_justified_def kind_free_def kind_held_def holder_evid_def decide_proforma_link_def Let_def)
  qed
next
  case PL_None
  show ?thesis unfolding proforma_link_def PL_None ProformaLink.case
  proof (rule then_ok_yields [OF lookup_read_yields], simp, rule yields_return, goal_cases)
    case (1 out xs)
    then show ?case using assms
      by (cases out) (auto simp: map_err_def link_justified_def kind_free_def kind_held_def holder_evid_def decide_proforma_link_def Let_def)
  qed
qed

text \<open>The reads around these answer nothing but end the protocol.\<close>

lemma storno_number_of_reads: "read_only (storno_number_of exe order num eid)"
  unfolding storno_number_of_def storno_of_def
  by (intro then_ok_yields [where R = "\<lambda>_ xs. writes xs = []"]
      yields_weaken [OF run_best_effort_yields [OF hint_evid]]) (auto intro!: yields_return)

lemma existing_target_reads: "read_only (existing_target exe order identity reissue)"
  unfolding existing_target_def
proof (rule then_ok_yields [OF lookup_read_yields], goal_cases)
  case (2 out xs)
  then show ?case
    by (auto simp: then_ok_ret intro!: yields_return then_ok_yields [OF storno_number_of_reads] split: sum.split option.split)
qed simp

text \<open>A replay-enabled create leaves no live proforma of the order unselected.\<close>

definition proforma_settled :: "Namespace \<Rightarrow> OrderKey \<Rightarrow> ustr option \<Rightarrow> Event list \<Rightarrow> bool" where
  "proforma_settled namespace order p xs \<longleftrightarrow> kind_free namespace order DK_Proforma xs \<or>
     (\<exists>d. kind_held namespace order DK_Proforma d xs \<and> p = Some (number d))"

lemma unselected_proforma_yields:
  "yields (\<lambda>r xs. writes xs = [] \<and> (r = Inr None \<longrightarrow> proforma_settled (exe_namespace exe) (prep_order prepared) (rf_proforma refs) xs))
    (unselected_proforma exe prepared identity refs)"
  unfolding unselected_proforma_def
proof (rule then_ok_yields [OF lookup_read_yields], simp, rule yields_return, goal_cases)
  case (1 out xs)
  then show ?case
    by (cases out) (auto simp: map_err_def proforma_settled_def kind_free_def kind_held_def holder_evid_def decide_exclusivity_def Let_def split: if_splits)
qed

section \<open>The create is sent only when it is justified\<close>

definition intent_lookup :: "OrderKey \<Rightarrow> Intent \<Rightarrow> LookupRequest" where
  "intent_lookup order intent = \<lparr> lr_external_id = tg_external_id (int_identity intent), lr_kind = tg_kind (int_identity intent),
      lr_order = order, lr_our_numbers = int_our_numbers intent \<rparr>"

text \<open>
  What a read prefix \<open>xs\<close> says of the target: it is absent, or, for a reissue, it is the expected document,
  ours and reversed; and the newest document of the order, where one was reported, is no foreign live
  invoice.
\<close>

definition target_open :: "'s Execution \<Rightarrow> OrderKey \<Rightarrow> Intent \<Rightarrow> ustr option \<Rightarrow> Event list \<Rightarrow> bool" where
  "target_open exe order intent old xs \<longleftrightarrow>
    (let identity = int_identity intent; sel = ByExternalId (external_str (tg_external_id identity));
         request = intent_lookup order intent;
         replay = permits_replay (exe_order_execution exe) in
     case int_reissue intent of
       None \<Rightarrow> old = None \<and> evid_absent xs sel \<and> (\<exists>a l b. xs = a @ l @ b \<and> proceeds request replay None None l)
     | Some reissue \<Rightarrow> (\<exists>d. old = Some (number d) \<and> number d = number_str (rei_expected_number reissue) \<and> evid xs sel d \<and>
         is_ours d order (tg_kind identity) \<and> \<not> is_live d \<and> (\<exists>a l b s. xs = a @ l @ b \<and> proceeds request replay (Some d) s l)))"

lemma target_open_append: "target_open exe order intent old xs \<Longrightarrow> target_open exe order intent old (ys @ xs)"
  unfolding target_open_def Let_def by (auto split: option.splits) (metis append.assoc)+

lemma whole: "P xs \<Longrightarrow> \<exists>a l b. xs = a @ l @ b \<and> P l"
  by (intro exI [of _ "[]"] exI [of _ xs]) simp

lemma lookup_checked_yields:
  "yields (\<lambda>r xs. writes xs = [] \<and>
      (let sel = ByExternalId (external_str (tg_external_id (int_identity intent))); replay = permits_replay (exe_order_execution exe) in
       (r = Ok LO_Absent \<longrightarrow> evid_absent xs sel \<and> proceeds (intent_lookup order intent) replay None None xs) \<and>
       (\<forall>d s. r = Ok (LO_Reversed d s) \<longrightarrow> evid xs sel d \<and> is_ours d order (tg_kind (int_identity intent)) \<and> \<not> is_live d \<and>
          proceeds (intent_lookup order intent) replay (Some d) s xs))) (lookup_checked exe order intent)"
proof (cases "permits_replay (exe_order_execution exe)")
  case True
  then have "lookup_checked exe order intent = lookup_inner (exe_remote exe) (intent_lookup order intent) True"
    by (simp add: lookup_checked_def lookup_for_replay_def intent_lookup_def)
  then show ?thesis
    using True yields_weaken [OF lookup_inner_yields [of "intent_lookup order intent" True "exe_remote exe"]] by (simp add: intent_lookup_def Let_def)
next
  case False
  let ?out = "\<lambda>out. case out of
         LO_Live found \<Rightarrow> if matches_create_base found (tg_kind (int_identity intent)) (int_corrected_number intent) then out else LO_Collision found
       | LO_Reversed found _ \<Rightarrow> if matches_create_base found (tg_kind (int_identity intent)) (int_corrected_number intent) then out else LO_Collision found
       | other \<Rightarrow> other"
  have eq: "lookup_checked exe order intent = then_ok (lookup_inner (exe_remote exe) (intent_lookup order intent) False) (\<lambda>out. ret (Ok (?out out)))"
    using False by (simp add: lookup_checked_def lookup_def intent_lookup_def Let_def)
  have out: "?out o' = LO_Absent \<longleftrightarrow> o' = LO_Absent" "?out o' = LO_Reversed d s \<Longrightarrow> o' = LO_Reversed d s" for o' d s
    by (cases o'; simp split: if_splits)+
  show ?thesis unfolding eq
  proof (rule then_ok_yields [OF lookup_inner_yields], goal_cases)
    case (2 o' xs)
    then show ?case using False by (intro yields_return) (auto simp: intent_lookup_def Let_def out(1) dest!: out(2))
  qed (simp add: Let_def)
qed

lemma lookup_step_open:
  "yields (\<lambda>r xs. writes xs = [] \<and> (\<forall>out old. r = Inr out \<and>
      decide_lookup_for_execution lib (exe_order_execution exe) out (int_reissue intent) (int_identity intent) = Inr (Continue old) \<longrightarrow>
      target_open exe order intent old xs)) (lookup_step exe order intent)"
  unfolding lookup_step_def
proof (rule yields_weaken [OF run_reading_yields [OF lookup_checked_yields]], blast, goal_cases)
  case (1 r xs)
  have "target_open exe order intent old xs"
    if out: "r = Inr out" and go: "decide_lookup_for_execution lib (exe_order_execution exe) out (int_reissue intent) (int_identity intent) = Inr (Continue old)"
    for out old
  proof -
    obtain zs ys where ys: "xs = zs @ ys"
        "out = LO_Absent \<longrightarrow> evid_absent ys (ByExternalId (external_str (tg_external_id (int_identity intent)))) \<and>
           proceeds (intent_lookup order intent) (permits_replay (exe_order_execution exe)) None None ys"
        "\<forall>d s. out = LO_Reversed d s \<longrightarrow> evid ys (ByExternalId (external_str (tg_external_id (int_identity intent)))) d \<and>
           is_ours d order (tg_kind (int_identity intent)) \<and> \<not> is_live d \<and>
           proceeds (intent_lookup order intent) (permits_replay (exe_order_execution exe)) (Some d) s ys"
      using conjunct2 [OF 1, rule_format, OF out] by (auto simp: Let_def)
    have "target_open exe order intent old ys"
      using decide_lookup_go [OF go]
    proof
      assume c: "out = LO_Absent \<and> int_reissue intent = None \<and> old = None"
      then show ?thesis using ys(2) whole [of "proceeds (intent_lookup order intent) (permits_replay (exe_order_execution exe)) None None" ys]
        by (simp add: target_open_def)
    next
      assume "\<exists>d s i. out = LO_Reversed d s \<and> int_reissue intent = Some i \<and> number d = number_str (rei_expected_number i) \<and> old = Some (number d)"
      then obtain d s i where c: "out = LO_Reversed d s" "int_reissue intent = Some i" "number d = number_str (rei_expected_number i)" "old = Some (number d)"
        by blast
      then show ?thesis using ys(3) whole [of "proceeds (intent_lookup order intent) (permits_replay (exe_order_execution exe)) (Some d) s" ys]
        unfolding target_open_def Let_def c(2) option.case by (intro exI [of _ d]) blast
    qed
    then show ?thesis using ys(1) target_open_append by simp
  qed
  then show ?case using conjunct1 [OF 1] by blast
qed

text \<open>The writes of a step that may send one create.\<close>

definition sends_create :: "'s Execution \<Rightarrow> CreateInvoice \<Rightarrow> Event list \<Rightarrow> bool" where
  "sends_create exe create xs \<longleftrightarrow> (\<forall>e \<in> set (writes xs). \<exists>reply. e = SentCreate create reply) \<and>
     (\<not> permits_replay (exe_order_execution exe) \<longrightarrow> length (writes xs) \<le> 1)"

lemma sends_create_read: "writes xs = [] \<Longrightarrow> sends_create exe create xs"
  by (simp add: sends_create_def)

lemma create_call_yields:
  assumes "durable_writes (exe_remote exe) (exe_write exe)" "service_write (exe_remote exe) call (sent_create request) (create_sound request)"
    and "wc_mode call = exe_order_execution exe"
  shows "yields (\<lambda>r xs. sends_create exe (csr_create request) xs) (exe_write exe call)"
proof (rule yields_weaken [OF durable_write_yields [OF assms(1,2)]], goal_cases)
  case (1 r xs)
  then show ?case using assms(3)
    by (auto simp: write_outcome_def sends_create_def sent_create_def one_write_def permits_replay_def split: if_splits)
      (metis WriteMode.exhaust)+
qed

lemma create_call_modes:
  "wc_mode (protected_create_call rm namespace account ctx request) = Protected"
  "wc_mode (replay_create_call rm marker request) = ReplayEnabled"
  by (simp_all add: call_defs)

lemma create_step_yields:
  assumes "durable_writes (exe_remote exe) (exe_write exe)"
  shows "yields (\<lambda>r xs. sends_create exe (int_create intent) xs) (create_step exe order intent old)"
proof (cases "CreateStepRequest_new (tg_external_id (int_identity intent)) (tg_kind (int_identity intent)) order (int_create intent)
        old (int_corrected_number intent)")
  case (Inl e)
  then show ?thesis by (auto simp: create_step_def sends_create_def intro!: yields_return)
next
  case (Inr request)
  then have c: "int_create intent = csr_create request"
    by (auto simp: CreateStepRequest_new_def split: if_splits option.splits prod.splits)
  have send: "yields (\<lambda>r xs. sends_create exe (csr_create request) xs) (then_ok (exe_write exe call) (\<lambda>result. ret (g result)))"
    if "service_write (exe_remote exe) call (sent_create request) (create_sound request)" "wc_mode call = exe_order_execution exe" for call g
    by (rule then_ok_yields [OF create_call_yields [OF assms that]]) (auto intro!: yields_return)
  show ?thesis
  proof (cases "exe_order_execution exe")
    case Protected
    then show ?thesis unfolding create_step_def Inr sum.case unfolding c
      by (simp add: permits_replay_def send [OF service_write.intros(1)] create_call_modes)
  next
    case ReplayEnabled
    then show ?thesis unfolding create_step_def Inr sum.case unfolding c
      by (auto simp: permits_replay_def sends_create_read create_call_modes split: sum.split
          intro!: yields_return send [OF service_write.intros(4)])
  qed
qed

text \<open>Every write of \<open>issue\<close> is its create, and comes after a read prefix that left the target open.\<close>

definition issues :: "'s Execution \<Rightarrow> OrderKey \<Rightarrow> Intent \<Rightarrow> Event list \<Rightarrow> bool" where
  "issues exe order intent xs \<longleftrightarrow> (\<exists>pre post old. xs = pre @ post \<and> writes pre = [] \<and> target_open exe order intent old pre \<and>
     sends_create exe (int_create intent) post)"

lemma issue_yields:
  assumes "durable_writes (exe_remote exe) (exe_write exe)"
  shows "yields (\<lambda>r xs. writes xs = [] \<or> issues exe order intent xs) (issue exe order intent)"
proof -
  let ?d = "decide_lookup_for_execution (wt_lib (exe_wire exe)) (exe_order_execution exe)"
  have "yields (\<lambda>r xs. writes xs = [] \<and> (\<forall>out old. r = Inr out \<and> ?d out (int_reissue intent) (int_identity intent) = Inr (Continue old) \<longrightarrow>
      target_open exe order intent old xs)) (do { r \<leftarrow> lookup_step exe order intent; ret (map_err f r) })" for f
    by (rule yields_bind [OF lookup_step_open [where lib = "wt_lib (exe_wire exe)"]]) (auto intro!: yields_return simp: map_err_def split: sum.splits)
  then show ?thesis unfolding issue_def Let_def
  proof (rule then_ok_yields, goal_cases)
    case (2 found xs)
    have step: "yields (\<lambda>r ys. writes ys = [] \<or> issues exe order intent (xs @ ys)) (then_ok (create_step exe order intent old) (\<lambda>out. ret (g out)))"
      if "target_open exe order intent old xs" for old g
    proof -
      have "issues exe order intent (xs @ ys)" if "sends_create exe (int_create intent) ys" for ys
        using 2 that \<open>target_open exe order intent old xs\<close> unfolding issues_def by blast
      then show ?thesis by (intro then_ok_yields [OF create_step_yields [OF assms]]) (auto intro!: yields_return)
    qed
    show ?case
    proof (cases "?d found (int_reissue intent) (int_identity intent)")
      case (Inr flow)
      then show ?thesis using 2
        by (cases flow) (auto simp: then_ok_ret map_err_def intro!: yields_return step)
    qed (use 2 in \<open>auto simp: then_ok_ret map_err_def intro!: yields_return\<close>)
  qed simp
qed

text \<open>
  Stages of a handler: a stage that reads and may answer, and what it established when it did not, in front of
  the rest.
\<close>

lemma stage_yields:
  assumes "yields (\<lambda>r xs. writes xs = [] \<and> (r = Inr None \<longrightarrow> P xs)) m"
    and "\<And>xs. writes xs = [] \<Longrightarrow> P xs \<Longrightarrow> yields (\<lambda>r ys. writes ys = [] \<or> J (xs @ ys)) k"
  shows "yields (\<lambda>r ys. writes ys = [] \<or> J ys) (unless_answered m k)"
  using assms(1) by (rule unless_answered_yields) (auto intro: yields_weaken [OF assms(2)])

lemma stage_refs_yields:
  assumes "yields (\<lambda>r xs. writes xs = [] \<and> (\<forall>refs. r = Inr (None, refs) \<longrightarrow> P refs xs)) m"
    and "\<And>refs xs. writes xs = [] \<Longrightarrow> P refs xs \<Longrightarrow> yields (\<lambda>r ys. writes ys = [] \<or> J (xs @ ys)) (k refs)"
  shows "yields (\<lambda>r ys. writes ys = [] \<or> J ys) (with_refs m k)"
  using assms(1) by (rule with_refs_yields) (auto intro: yields_weaken [OF assms(2)])

text \<open>
  What a create of \<open>issue_kind\<close> rests on: the reads \<open>xs\<close> before it showed every exclusive kind of the order free and
  the target open; a final invoice names the order's live prepayment; an invoice or prepayment names the
  proforma the caller's choice allows; and the create is the caller's document, with the order's number and the
  kind's external id.
\<close>

definition proforma_of :: "InvoiceKind \<Rightarrow> ustr option" where
  "proforma_of k = (case k of Kind_Invoice p \<Rightarrow> p | Kind_Prepayment p \<Rightarrow> p | Kind_Final _ p \<Rightarrow> p | _ \<Rightarrow> None)"

definition issue_justified :: "'s Execution \<Rightarrow> OrderKey \<Rightarrow> DocumentKind \<Rightarrow> CreateRequest \<Rightarrow> Intent \<Rightarrow> Event list \<Rightarrow> bool" where
  "issue_justified exe order kind request intent xs \<longleftrightarrow> (let ns = exe_namespace exe; create = int_create intent;
       options = creq_options request in
     carries_document (wt_lib (exe_wire exe)) (exe_nfc exe) (exe_account exe) (creq_document request) create \<and>
     int_identity intent = of_kind ns order kind \<and> int_reissue intent = copt_reissue options \<and>
     ci_external_id create = Some (external_str (for_kind ns order kind)) \<and>
     ih_order_number (ci_header create) = Some (order_str order) \<and>
     outbound_intent (ci_kind create) = Some (IssuedKind_from kind, None) \<and>
     (\<forall>other \<in> fst ` set (exclusive_with kind). kind_free ns order other xs) \<and>
     (kind = DK_Final \<longrightarrow> (\<exists>d. kind_held ns order DK_Prepayment d xs \<and> ci_kind create = Kind_Final (Some (number d)) None) \<and>
        (permits_replay (exe_order_execution exe) \<longrightarrow> kind_free ns order DK_Invoice xs)) \<and>
     (links_proforma kind \<longrightarrow> link_justified exe order (copt_proforma options) (proforma_of (ci_kind create)) xs) \<and>
     (permits_replay (exe_order_execution exe) \<and> (kind = DK_Final \<or> names_proforma (copt_proforma options)) \<longrightarrow>
        proforma_settled ns order (proforma_of (ci_kind create)) xs))"

lemma build_Ok:
  assumes "build exe kind document order eid refs = Ok c"
  shows "build_create (wt_lib (exe_wire exe)) (exe_nfc exe) (exe_account exe) kind document order eid refs = Ok c"
  using assms by (auto simp: build_def try_then_Inr_iff map_err_def split: sum.splits)

lemma prepare_Ok:
  assumes "prepare exe order kind request = Ok prepared"
  shows "prep_order prepared = order" "prep_document prepared = creq_document request"
    "prep_reissue prepared = copt_reissue (creq_options request)" "prep_proforma prepared = copt_proforma (creq_options request)"
  using assms by (auto simp: prepare_def try_then_Inr_iff Let_def split: if_splits)

definition stages_passed :: "'s Execution \<Rightarrow> OrderKey \<Rightarrow> DocumentKind \<Rightarrow> CreateOptions \<Rightarrow> Refs \<Rightarrow> Event list \<Rightarrow> bool" where
  "stages_passed exe order kind options refs xs \<longleftrightarrow> (let ns = exe_namespace exe; replay = permits_replay (exe_order_execution exe) in
     (\<forall>other \<in> fst ` set (exclusive_with kind). kind_free ns order other xs) \<and>
     (kind = DK_Final \<longrightarrow> (\<exists>d. kind_held ns order DK_Prepayment d xs \<and> rf_prepayment refs = Some (number d))) \<and>
     (replay \<and> kind = DK_Final \<longrightarrow> kind_free ns order DK_Invoice xs) \<and>
     (links_proforma kind \<longrightarrow> link_justified exe order (copt_proforma options) (rf_proforma refs) xs) \<and>
     (\<not> links_proforma kind \<longrightarrow> rf_proforma refs = None) \<and>
     (replay \<and> (kind = DK_Final \<or> names_proforma (copt_proforma options)) \<longrightarrow> proforma_settled ns order (rf_proforma refs) xs))"

lemma built_justified:
  assumes b: "build exe (IssuedKind_from kind) (creq_document request) order (for_kind (exe_namespace exe) order kind)
        \<lparr> ref_proforma = rf_proforma refs, ref_prepayment = rf_prepayment refs, ref_corrected = None \<rparr> = Ok create"
    and "stages_passed exe order kind (creq_options request) refs xs"
  shows "issue_justified exe order kind request \<lparr> int_identity = of_kind (exe_namespace exe) order kind, int_create = create,
        int_corrected_number = None, int_reissue = copt_reissue (creq_options request), int_our_numbers = rf_our_numbers refs \<rparr> xs"
proof -
  note c = build_create_Ok [OF build_Ok [OF b]]
  show ?thesis
    using assms(2) build_kind_Ok [OF c(1)] build_kind_intent [OF c(1)] c(2,3) build_create_carries [OF build_Ok [OF b]]
    by (cases kind) (auto simp: issue_justified_def stages_passed_def Let_def of_kind_def links_proforma_def proforma_of_def)
qed

lemma issue_kind_yields:
  assumes w: "durable_writes (exe_remote exe) (exe_write exe)" and p: "prepare exe order kind request = Ok prepared"
  shows "yields (\<lambda>r xs. writes xs = [] \<or> (\<exists>pre post intent. xs = pre @ post \<and> writes pre = [] \<and>
      issue_justified exe order kind request intent pre \<and> issues exe order intent post)) (issue_kind exe order kind request)"
proof -
  let ?opts = "creq_options request" and ?ns = "exe_namespace exe" and ?replay = "permits_replay (exe_order_execution exe)"
  let ?J = "\<lambda>xs. \<exists>pre post intent. xs = pre @ post \<and> writes pre = [] \<and> issue_justified exe order kind request intent pre \<and> issues exe order intent post"
  let ?id = "of_kind ?ns order kind"
  note prep = prepare_Ok [OF p]
  have free: "yields (\<lambda>r xs. writes xs = [] \<and> (r = Inr None \<longrightarrow> ?replay \<and> kind = DK_Final \<longrightarrow> kind_free ?ns order DK_Invoice xs))
      (if ?replay \<and> kind = DK_Final then exclusivity exe prepared ?id DK_Invoice CoR_PrepaidChain else ret (Ok None))"
    using exclusivity_yields [of exe prepared DK_Invoice ?id] prep(1) by (auto intro!: yields_return)
  have settled: "yields (\<lambda>r xs. writes xs = [] \<and> (r = Inr None \<longrightarrow> ?replay \<and> (kind = DK_Final \<or> names_proforma (copt_proforma ?opts)) \<longrightarrow>
        proforma_settled ?ns order (rf_proforma refs) xs))
      (if ?replay \<and> (kind = DK_Final \<or> names_proforma (prep_proforma prepared)) then unselected_proforma exe prepared ?id refs else ret (Ok None))" for refs
    using unselected_proforma_yields [of exe prepared refs ?id] prep by (auto intro!: yields_return)
  have pre: "yields (\<lambda>r xs. writes xs = [] \<and> (\<forall>refs. r = Inr (None, refs) \<longrightarrow> rf_proforma refs = None \<and>
        (kind = DK_Final \<longrightarrow> (\<exists>d. kind_held ?ns order DK_Prepayment d xs \<and> rf_prepayment refs = Some (number d)))))
      (if kind = DK_Final then prepayment_for_final exe prepared ?id Refs_default else ret (Ok (None, Refs_default)))"
    by (auto intro!: yields_return yields_weaken [OF prepayment_for_final_yields] simp: prep(1) Refs_default_def) blast
  have link: "yields (\<lambda>r xs. writes xs = [] \<and> (\<forall>refs. r = Inr (None, refs) \<longrightarrow> rf_prepayment refs = rf_prepayment refs1 \<and>
        (links_proforma kind \<longrightarrow> link_justified exe order (copt_proforma ?opts) (rf_proforma refs) xs) \<and>
        (\<not> links_proforma kind \<longrightarrow> rf_proforma refs = None)))
      (if links_proforma kind then proforma_link exe prepared ?id refs1 else ret (Ok (None, refs1)))" if "rf_proforma refs1 = None" for refs1
    by (auto intro!: yields_return yields_weaken [OF proforma_link_yields [OF that]] simp: prep that)
  show ?thesis
    unfolding issue_kind_def then_ok_ret p sum.case Let_def prep(1)
  proof (rule stage_yields [OF yields_weaken [OF existing_target_reads], where P = "\<lambda>_. True"], simp,
      rule stage_yields [OF exclusivities_yields], rule stage_refs_yields [OF pre], rule stage_yields [OF free],
      rule stage_refs_yields [OF link], blast, rule stage_yields [OF settled], goal_cases)
    case (1 x1 x2 refs1 x3 x4 refs x5 x6)
    let ?xs = "x1 @ x2 @ x3 @ x4 @ x5 @ x6"
    have passed: "stages_passed exe order kind ?opts refs ?xs"
      using 1 link_justified_append [of exe order "copt_proforma ?opts" "rf_proforma refs" x5 "x1 @ x2 @ x3 @ x4" x6] prep(1)
      by (auto simp: stages_passed_def Let_def kind_free_append kind_held_append proforma_settled_def)
    have "yields (\<lambda>r ys. writes ys = [] \<or> ?J (?xs @ ys)) (issue exe order \<lparr> int_identity = ?id, int_create = create,
        int_corrected_number = None, int_reissue = copt_reissue ?opts, int_our_numbers = rf_our_numbers refs \<rparr>)"
      if "build exe (IssuedKind_from kind) (creq_document request) order (for_kind ?ns order kind)
        \<lparr> ref_proforma = rf_proforma refs, ref_prepayment = rf_prepayment refs, ref_corrected = None \<rparr> = Ok create" for create
    proof -
      have "writes ?xs = []" using 1 by simp
      then have "?J (?xs @ ys)" if "issues exe order \<lparr> int_identity = ?id, int_create = create,
        int_corrected_number = None, int_reissue = copt_reissue ?opts, int_our_numbers = rf_our_numbers refs \<rparr> ys" for ys
        using built_justified [OF \<open>build _ _ _ _ _ _ = _\<close> passed] that by blast
      then show ?thesis by (intro yields_weaken [OF issue_yields [OF w]]) blast
    qed
    then show ?case by (auto simp: then_ok_ret prep of_kind_def intro!: yields_return split: sum.split)
  qed
qed


text \<open>What a corrective rests on: its base was reported under its number, on this order, an invoice that is not reversed.\<close>

definition correct_justified :: "'s Execution \<Rightarrow> OrderKey \<Rightarrow> CorrectRequest \<Rightarrow> Intent \<Rightarrow> Event list \<Rightarrow> bool" where
  "correct_justified exe order request intent xs \<longleftrightarrow> (let num = number_str (correq_invoice_number request); create = int_create intent;
       eid = for_corrective (exe_namespace exe) order (correq_correction_id request) in
     int_identity intent = \<lparr> tg_kind = IK_Corrective, tg_external_id = eid \<rparr> \<and> int_reissue intent = None \<and>
     ci_external_id create = Some (external_str eid) \<and> ih_order_number (ci_header create) = Some (order_str order) \<and>
     ci_kind create = Kind_Corrective num \<and>
     (\<exists>d. evid xs (ByInvoiceNumber num) d \<and> carries_order d order \<and> reversed d \<noteq> Some True \<and> is_invoice_family d))"

lemma correct_yields:
  assumes w: "durable_writes (exe_remote exe) (exe_write exe)" and v: "validate_document exe IK_Corrective (correq_document request) order = Ok ()"
  shows "yields (\<lambda>r xs. writes xs = [] \<or> (\<exists>pre post intent. xs = pre @ post \<and> writes pre = [] \<and>
      correct_justified exe order request intent pre \<and> issues exe order intent post)) (correct exe order request)"
proof -
  let ?num = "number_str (correq_invoice_number request)" and ?eid = "for_corrective (exe_namespace exe) order (correq_correction_id request)"
  let ?id = "\<lparr> tg_kind = IK_Corrective, tg_external_id = ?eid \<rparr>"
  let ?J = "\<lambda>xs. \<exists>pre post intent. xs = pre @ post \<and> writes pre = [] \<and> correct_justified exe order request intent pre \<and> issues exe order intent post"
  have base: "yields (\<lambda>r xs. writes xs = [] \<and> (\<forall>d. r = Inr d \<longrightarrow> evid xs (ByInvoiceNumber ?num) d))
      (do { r \<leftarrow> verify_step exe name ?num; ret (map_err f (try_then r (\<lambda>out. verified_document out ?num))) })" for name f
    by (rule yields_bind [OF verify_step_yields])
      (auto intro!: yields_return simp: map_err_def verified_document_def try_then_def split: sum.splits QueryOutcome.splits)
  have send: "yields (\<lambda>r ys. writes ys = [] \<or> ?J (xs @ ys)) (issue exe order \<lparr> int_identity = ?id, int_create = create,
      int_corrected_number = Some ?num, int_reissue = None, int_our_numbers = [] \<rparr>)"
    if b: "build exe IK_Corrective (correq_document request) order ?eid (DocumentRefs_default\<lparr> ref_corrected := Some ?num \<rparr>) = Ok create"
      and d: "writes xs = []" "evid xs (ByInvoiceNumber ?num) d" "decide_base d order ?num ?id = Inr None" for create xs d
  proof -
    note c = build_create_Ok [OF build_Ok [OF b]]
    have "correct_justified exe order request \<lparr> int_identity = ?id, int_create = create,
        int_corrected_number = Some ?num, int_reissue = None, int_our_numbers = [] \<rparr> xs"
      using build_kind_Ok [OF c(1)] c(2,3) d(2,3) by (auto simp: correct_justified_def Let_def decide_base_go)
    then have "?J (xs @ ys)" if "issues exe order \<lparr> int_identity = ?id, int_create = create,
        int_corrected_number = Some ?num, int_reissue = None, int_our_numbers = [] \<rparr> ys" for ys
      using that d(1) by blast
    then show ?thesis by (intro yields_weaken [OF issue_yields [OF w]]) blast
  qed
  show ?thesis unfolding correct_def Let_def v then_ok_ret sum.case
  proof (rule stage_yields [OF yields_weaken [OF existing_target_reads], where P = "\<lambda>_. True"], simp,
      rule then_ok_yields [OF base], simp, goal_cases)
    case (1 x1 d x2)
    have x: "writes (x1 @ x2) = []" "evid (x1 @ x2) (ByInvoiceNumber ?num) d" using 1 by auto
    show ?case
    proof (cases "decide_base d order ?num ?id")
      case (Inr answer)
      then show ?thesis using send [OF _ x] 1
        by (cases answer) (auto simp: unless_answered_def then_ok_ret map_err_def intro!: yields_return split: sum.split)
    qed (use 1 in \<open>auto simp: unless_answered_def then_ok_ret map_err_def intro!: yields_return\<close>)
  qed
qed

text \<open>(C4) \<open>correct\<close> sends nothing but one corrective, under the external id of the caller's correction id, naming
  the base the caller named, and only after szamlazz.hu reported that base on this order as an invoice that
  is not reversed and the corrective's own external id as free.\<close>

theorem correct_sends_only_on_base:
  assumes "durable_writes (exe_remote exe) (exe_write exe)" "run_state (correct exe order request) w = (r, w')"
  shows "\<exists>xs. trace w' = trace w @ xs \<and> (writes xs = [] \<or> (\<exists>pre post intent. xs = pre @ post \<and> writes pre = [] \<and>
      correct_justified exe order request intent pre \<and> issues exe order intent post))"
proof (cases "validate_document exe IK_Corrective (correq_document request) order")
  case (Inl fault)
  then show ?thesis using assms(2) by (simp add: correct_def Let_def then_ok_ret)
next
  case (Inr u)
  then have "validate_document exe IK_Corrective (correq_document request) order = Ok ()" by simp
  from correct_yields [OF assms(1) this] show ?thesis using assms(2) unfolding yields_def by (metis fst_conv snd_conv)
qed

section \<open>An order without documents\<close>

definition ex_quiet :: "unit Runtime" where
  "ex_quiet = \<lparr> rt_attempts = (\<lambda>_ _. 1), rt_attempt = (\<lambda>_ _ _. At_Recorded),
     rt_terminal = (\<lambda>_ _. \<lparr> term_code = CANCELLED, term_message = [] \<rparr>), rt_decode = (\<lambda>_. None) \<rparr>"

definition ex_execution :: "unit Remote \<Rightarrow> WriteMode \<Rightarrow> unit Execution" where
  "ex_execution rm mode = \<lparr> exe_remote = rm, exe_runtime = ex_quiet,
     exe_write = unbroken_write rm (us ''2026-01-01T00:00:00Z'') \<lparr> term_code = CANCELLED, term_message = [] \<rparr>,
     exe_namespace = Namespace (us ''acct''), exe_order_execution = mode, exe_account = Account_new (us ''a'') (us ''c''),
     exe_context = ex_context,
     exe_wire = \<lparr> wt_lib = exact_package, wt_decimal = (\<lambda>_. us ''1''), wt_date = (\<lambda>_. us ''2026-01-01''), wt_render = (\<lambda>_. []) \<rparr>,
     exe_nfc = (\<lambda>s. s) \<rparr>"

definition ex_request :: CreateRequest where
  "ex_request = \<lparr> creq_document = DocumentInput_new (BuyerInput_new (us ''B'') (us ''1'') (us ''C'') (us ''D'')) [ex_line]
       (2026, 1, 1) (2026, 1, 1) PMI_Transfer,
     creq_options = \<lparr> copt_reissue = None, copt_proforma = PL_Auto \<rparr> \<rparr>"

text \<open>Only the invoice E-1 is known, by its number, and the create is answered with a number.\<close>

definition ex_issuing :: "unit Remote" where
  "ex_issuing = scripted (\<lambda>sel. case sel of ByInvoiceNumber _ \<Rightarrow> Inr (ex_invoice_doc (Some False)) | _ \<Rightarrow> Inl (code_error EC_MissingData))
     (Inr (CO_Issued \<lparr> cr_invoice_number = us ''E-2'', cr_document_id = None, cr_net_total = None, cr_gross_total = None,
        cr_outstanding = None, cr_customer_account_url = None, cr_notification_delivery_failed = False \<rparr>))
     (Inl (CE_ServiceUnavailable [])) (Inl (CE_ServiceUnavailable []))"

definition ex_exe :: "unit Execution" where
  "ex_exe = ex_execution ex_issuing Protected"

definition ex_order :: OrderKey where
  "ex_order = OrderKey (us ''ORD-1'')"

lemma ex_exe_simps:
  "exe_remote ex_exe = ex_issuing" "exe_runtime ex_exe = ex_quiet" "exe_order_execution ex_exe = Protected"
  "exe_namespace ex_exe = Namespace (us ''acct'')" "wt_lib (exe_wire ex_exe) = exact_package" "exe_nfc ex_exe s = s"
  "exe_account ex_exe = Account_new (us ''a'') (us ''c'')" "wt_render (exe_wire ex_exe) doc = []"
  by (simp_all add: ex_exe_def ex_execution_def)

lemma ex_remote_simps:
  "rm_query ex_issuing (ByExternalId eid) u = (Inl (code_error EC_MissingData), u)"
  "rm_query ex_issuing (ByOrderNumber num) u = (Inl (code_error EC_MissingData), u)"
  "rm_query ex_issuing (ByInvoiceNumber num) u = (Inr (ex_invoice_doc (Some False)), u)"
  by (simp_all add: ex_issuing_def scripted_def)

lemma ex_money: "monetary_preflight exact_package [ex_line] None (Currency (us ''HUF'')) =
      Ok \<lparr> mp_items = [ex_line_item], mp_totals = \<lparr> am_net = Decimal 787 0, am_vat = Decimal 213 0, am_gross = Decimal 1000 0 \<rparr> \<rparr>"
  by code_simp

lemmas ex_read_defs = run_reading_def run_operating_def ex_exe_simps ex_quiet_def read_run_defs ex_remote_simps run_exchange_with send_defs
    code_error_def query_result_def seen_result_def map_err_def

lemma ex_lookup_read: "\<exists>w1. run_state (lookup_read ex_exe name eid order kind) w = (Ok OO_Absent, w1)"
  by (simp add: lookup_read_def ex_read_defs)

lemma ex_lookup_checked: "\<exists>w1. run_state (lookup_checked ex_exe order intent) w = (Ok LO_Absent, w1)"
  by (simp add: lookup_checked_def Let_def then_ok_def lookup_def ex_read_defs permits_replay_def lookup_hint_def lookup_done_def)

lemma ex_lookup_step: "\<exists>w1. run_state (lookup_step ex_exe order intent) w = (Ok LO_Absent, w1)"
proof -
  obtain w1 where "run_state (lookup_checked ex_exe order intent) w = (Ok LO_Absent, w1)" using ex_lookup_checked by blast
  then show ?thesis by (simp add: lookup_step_def run_reading_def run_operating_def ex_exe_simps ex_quiet_def map_err_def)
qed

lemma ex_create_built:
  assumes "kind = IK_Invoice \<or> kind = IK_Corrective \<and> k \<noteq> None"
  shows "\<exists>create. build_create exact_package (\<lambda>s. s) (Account_new (us ''a'') (us ''c'')) kind (creq_document ex_request) ex_order eid
    \<lparr> ref_proforma = None, ref_prepayment = n, ref_corrected = k \<rparr> = Ok create \<and> CreateInvoice_validate create = Ok ()"
proof -
  have huf: "is_huf (Currency (us ''HUF''))" "Language_from_str (us ''hu'') = Ok Hungarian" by code_simp+
  obtain ik where ik: "build_kind kind \<lparr> ref_proforma = None, ref_prepayment = n, ref_corrected = k \<rparr> = Ok ik"
      "\<And>a b. ik \<noteq> Kind_Final a b"
    using assms by (elim disjE conjE) (auto simp: build_kind_def option_or_def try_then_def)
  show ?thesis
    by (simp add: build_create_def ex_request_def DocumentInput_new_def DocumentOverrides_default_def Account_new_def Defaults_default_def option_default_def
        option_else_def build_exchange_rate_def huf ik ex_money map_err_def try_then_def Let_def CreateInvoice_validate_def CreateInvoice_new_def
        build_header_def InvoiceHeader_new_def build_buyer_def Buyer_from_def Buyer_new_def BuyerInput_new_def ex_line_item_def LineItem_new_def
        validate_reference_def validate_exchange_rate_def List.map_filter_simps split: InvoiceKind.split del: us_Cons)
qed

lemma ex_built:
  assumes "kind = IK_Invoice \<or> kind = IK_Corrective \<and> k \<noteq> None"
  shows "\<exists>create. build ex_exe kind (creq_document ex_request) ex_order eid
    \<lparr> ref_proforma = None, ref_prepayment = n, ref_corrected = k \<rparr> = Ok create"
proof -
  have nfc: "exe_nfc ex_exe = (\<lambda>s. s)" by (simp add: ex_exe_def ex_execution_def)
  obtain create where "build_create exact_package (\<lambda>s. s) (Account_new (us ''a'') (us ''c'')) kind (creq_document ex_request) ex_order eid
    \<lparr> ref_proforma = None, ref_prepayment = n, ref_corrected = k \<rparr> = Ok create" "CreateInvoice_validate create = Ok ()"
    using ex_create_built [OF assms] by blast
  then show ?thesis by (simp add: build_def ex_exe_simps nfc map_err_def try_then_def validate_request_def CreateInvoice_to_wire_def to_wire_def Let_def
    validate_xml_text_def del: us_Cons)
qed

lemma ex_valid:
  assumes "kind = IK_Invoice \<or> kind = IK_Corrective"
  shows "validate_document ex_exe kind (creq_document ex_request) ex_order = Ok ()"
proof -
  obtain create where "build ex_exe kind (creq_document ex_request) ex_order (ExternalId (us ''-''))
    \<lparr> ref_proforma = None, ref_prepayment = Some (us ''-''), ref_corrected = Some (us ''-'') \<rparr> = Ok create"
    using ex_built [of kind "Some (us ''-'')"] assms by blast
  moreover have "normalize_buyer_name (exe_nfc ex_exe) (bui_name (din_buyer (creq_document ex_request))) \<noteq> []"
    by (simp add: normalize_buyer_name_def ex_exe_simps ex_request_def DocumentInput_new_def BuyerInput_new_def, code_simp)
  ultimately show ?thesis by (simp add: validate_document_def try_then_def del: us_Cons)
qed

lemma ex_prepare: "prepare ex_exe ex_order DK_Invoice ex_request = Ok \<lparr> prep_order = ex_order, prep_document = creq_document ex_request,
    prep_reissue = None, prep_proforma = PL_Auto \<rparr>"
  using ex_valid [of IK_Invoice] by (simp add: prepare_def try_then_def ex_request_def Let_def del: us_Cons)

lemma ex_protected_create:
  assumes "csr_reversed request = None"
  shows "\<exists>out w1. run_state (protected_create ex_issuing request) w = (WR_Create (CrO_Issued out), w1) \<and> writes (trace w1) \<noteq> []"
  using assms
  by (simp add: protected_create_def protected_create_result_def create_run_defs ex_issuing_def scripted_simps read_run_defs query_result_def
    seen_result_def del: us_Cons)

lemma ex_write:
  assumes "run_state (protected_create ex_issuing request) w = (WR_Create out, w1)"
  shows "run_state (exe_write ex_exe (protected_create_call ex_issuing ns account ctx request)) w = (Ok (WR_Create out), w1)"
  using assms
  by (simp add: ex_exe_def ex_execution_def unbroken_write_def create_call_modes Let_def State_Monad.bind_def write_closure_def may_execute_def)
    (simp add: call_defs)

lemma ex_create_sent:
  assumes "CreateStepRequest_new (tg_external_id (int_identity intent)) (tg_kind (int_identity intent)) order (int_create intent)
        None (int_corrected_number intent) = Ok request"
  shows "writes (trace (snd (run_state (create_step ex_exe order intent None) w))) \<noteq> []"
proof -
  have "csr_reversed request = None" using assms by (auto simp: CreateStepRequest_new_def split: if_splits option.splits prod.splits)
  then obtain out w1 where "run_state (protected_create ex_issuing request) w = (WR_Create (CrO_Issued out), w1)" "writes (trace w1) \<noteq> []"
    using ex_protected_create by blast
  then show ?thesis using assms
    by (simp add: create_step_def ex_exe_simps permits_replay_def then_ok_def ex_write)
qed

text \<open>Every read stage passes.\<close>

definition passes :: "(unit, ('a, Fault) result) prog \<Rightarrow> 'a \<Rightarrow> bool" where
  "passes m v \<longleftrightarrow> (\<forall>w. \<exists>w1. run_state m w = (Ok v, w1))"

definition sends :: "(unit, 'a) prog \<Rightarrow> bool" where
  "sends m \<longleftrightarrow> (\<forall>w. writes (trace (snd (run_state m w))) \<noteq> [])"

lemma sends_then: "passes m v \<Longrightarrow> sends (k v) \<Longrightarrow> sends (then_ok m k)"
  unfolding sends_def passes_def then_ok_def
proof
  fix w
  assume m: "\<forall>w. \<exists>w1. run_state m w = (Ok v, w1)" and k: "\<forall>w. writes (trace (snd (run_state (k v) w))) \<noteq> []"
  obtain w1 where "run_state m w = (Ok v, w1)" using m by blast
  then show "writes (trace (snd (run_state (do { r \<leftarrow> m; (case r of Inl e \<Rightarrow> ret (Err e) | Inr a \<Rightarrow> k a) }) w))) \<noteq> []" using k by simp
qed

lemma sends_stages:
  "passes m1 None \<Longrightarrow> sends n \<Longrightarrow> sends (unless_answered m1 n)"
  "passes m2 (None, refs) \<Longrightarrow> sends (h refs) \<Longrightarrow> sends (with_refs m2 h)"
  unfolding unless_answered_def with_refs_def by (erule sends_then, simp)+

lemma passes_then: "passes m v \<Longrightarrow> passes (k v) u \<Longrightarrow> passes (then_ok m k) u"
  unfolding passes_def then_ok_def
proof
  fix w
  assume m: "\<forall>w. \<exists>w1. run_state m w = (Ok v, w1)" and k: "\<forall>w. \<exists>w1. run_state (k v) w = (Ok u, w1)"
  obtain w1 where "run_state m w = (Ok v, w1)" using m by blast
  then show "\<exists>w1. run_state (do { r \<leftarrow> m; (case r of Inl e \<Rightarrow> ret (Err e) | Inr a \<Rightarrow> k a) }) w = (Ok u, w1)" using k by simp
qed

lemma ex_passes:
  "passes (ret (Ok v)) v"
  "passes (existing_target ex_exe order identity None) None"
  "passes (exclusivity ex_exe prepared identity other reason) None"
  "prep_proforma prepared = PL_Auto \<Longrightarrow> passes (proforma_link ex_exe prepared identity refs) (None, refs)"
proof -
  have read: "passes (lookup_read ex_exe name eid order kind) OO_Absent" for name eid order kind
    using ex_lookup_read by (simp add: passes_def)
  show ret: "passes (ret (Ok v)) v" for v :: 'b by (simp add: passes_def)
  show "passes (existing_target ex_exe order identity None) None" unfolding existing_target_def
    by (rule passes_then [OF read])
      (simp add: then_ok_ret map_err_def decide_existing_target_def expected_target_def, simp add: passes_def)
  show "passes (exclusivity ex_exe prepared identity other reason) None" unfolding exclusivity_def
    by (rule passes_then [OF read]) (simp add: map_err_def decide_exclusivity_def passes_def)
  show "passes (proforma_link ex_exe prepared identity refs) (None, refs)" if "prep_proforma prepared = PL_Auto"
    unfolding proforma_link_def that ProformaLink.case
    by (rule passes_then [OF read]) (simp add: map_err_def decide_proforma_link_def passes_def)
qed

lemma ex_passes_all: "passes (exclusivities ex_exe prepared identity rows) None"
  by (induction rows) (auto intro!: ex_passes(1) passes_then [OF ex_passes(3)])

lemma ex_issue:
  assumes "CreateStepRequest_new (tg_external_id (int_identity intent)) (tg_kind (int_identity intent)) ex_order (int_create intent)
      None (int_corrected_number intent) = Ok request" "int_reissue intent = None"
  shows "sends (issue ex_exe ex_order intent)"
  unfolding sends_def
proof
  fix w
  obtain w1 where w1: "run_state (lookup_step ex_exe ex_order intent) w = (Ok LO_Absent, w1)" using ex_lookup_step by blast
  show "writes (trace (snd (run_state (issue ex_exe ex_order intent) w))) \<noteq> []"
    using ex_create_sent [OF assms(1), of w1] w1 assms(2)
    by (auto simp: issue_def Let_def then_ok_def State_Monad.bind_def map_err_def decide_lookup_for_execution_def decide_lookup_def expected_target_def
        split: prod.split sum.split)
qed

lemma ex_issue_sends:
  "writes (trace (snd (run_state (issue_kind ex_exe ex_order DK_Invoice ex_request) no_world))) \<noteq> []"
proof -
  let ?id = "of_kind (Namespace (us ''acct'')) ex_order DK_Invoice"
  obtain create where create: "build ex_exe IK_Invoice (creq_document ex_request) ex_order (for_kind (Namespace (us ''acct'')) ex_order DK_Invoice)
      \<lparr> ref_proforma = None, ref_prepayment = None, ref_corrected = None \<rparr> = Ok create"
    using ex_built [of IK_Invoice] by blast
  let ?intent = "\<lparr> int_identity = ?id, int_create = create, int_corrected_number = None, int_reissue = None, int_our_numbers = [] \<rparr>"
  obtain request where request: "CreateStepRequest_new (tg_external_id ?id) (tg_kind ?id) ex_order create None None = Ok request"
    using build_create_step_request [OF build_Ok [OF create], of None None] by (auto simp: of_kind_def)
  have s: "sends (issue ex_exe ex_order ?intent)" using ex_issue [of ?intent] request by simp
  have "sends (issue_kind ex_exe ex_order DK_Invoice ex_request)"
    unfolding issue_kind_def then_ok_ret ex_prepare sum.case Let_def
    by (rule sends_stages(1), simp add: ex_passes(2) del: us_Cons, rule sends_stages(1) [OF ex_passes_all],
        rule sends_stages(2) [where refs = Refs_default], simp add: ex_passes(1), rule sends_stages(1),
        simp add: ex_passes(1) ex_exe_simps permits_replay_def, rule sends_stages(2) [where refs = Refs_default],
        simp add: ex_passes(4) links_proforma_def del: us_Cons, rule sends_stages(1), simp add: ex_passes(1) ex_exe_simps permits_replay_def)
      (use s in \<open>simp add: create of_kind_def ex_exe_simps Refs_default_def then_ok_ret del: us_Cons\<close>)
  then show ?thesis unfolding sends_def by blast
qed

lemma ex_durable: "durable_writes (exe_remote ex_exe) (exe_write ex_exe)"
  by (simp add: ex_exe_def ex_execution_def unbroken_write_durable)


definition ex_correction :: CorrectRequest where
  "ex_correction = \<lparr> correq_invoice_number = InvoiceNumber (us ''E-1''), correq_correction_id = CorrectionId (us ''c1''),
     correq_document = creq_document ex_request \<rparr>"

lemma ex_base_passes:
  "passes (do { r \<leftarrow> verify_step ex_exe name (us ''E-1''); ret (map_err f (try_then r (\<lambda>out. verified_document out (us ''E-1'')))) })
     (FoundDocument_from (ex_invoice_doc (Some False)))"
  by (simp add: passes_def verify_step_def ex_read_defs outcome_def verified_document_def try_then_def validate_identity_def ex_invoice_doc_def, code_simp)

lemma ex_correct_sends: "sends (correct ex_exe ex_order ex_correction)"
proof -
  let ?eid = "for_corrective (Namespace (us ''acct'')) ex_order (CorrectionId (us ''c1''))"
  let ?id = "\<lparr> tg_kind = IK_Corrective, tg_external_id = ?eid \<rparr>"
  obtain create where create: "build ex_exe IK_Corrective (creq_document ex_request) ex_order ?eid
      (DocumentRefs_default\<lparr> ref_corrected := Some (us ''E-1'') \<rparr>) = Ok create"
    using ex_built [of IK_Corrective "Some (us ''E-1'')"] by (auto simp: DocumentRefs_default_def simp del: us_Cons)
  let ?intent = "\<lparr> int_identity = ?id, int_create = create,
      int_corrected_number = Some (us ''E-1''), int_reissue = None, int_our_numbers = [] \<rparr>"
  have "trim (us ''E-1'') \<noteq> []" by code_simp
  then obtain request where "CreateStepRequest_new ?eid IK_Corrective ex_order create None (Some (us ''E-1'')) = Ok request"
    using build_create_step_request [OF build_Ok [OF create], of "Some (us ''E-1'')" None] by (auto simp del: us_Cons)
  then have s: "sends (issue ex_exe ex_order ?intent)" using ex_issue [of ?intent] by simp
  have base: "decide_base (FoundDocument_from (ex_invoice_doc (Some False))) ex_order (us ''E-1'') ?id = Inr None"
    unfolding decide_base_go by (simp add: carries_order_def is_invoice_family_def FoundDocument_from_def ex_order_def ex_invoice_doc_def Let_def del: us_Cons, code_simp)
  show ?thesis
    unfolding correct_def Let_def ex_correction_def CorrectRequest.select_convs InvoiceNumber.sel then_ok_ret ex_valid [of IK_Corrective, simplified] sum.case ex_exe_simps(4)
    by (rule sends_stages(1) [OF ex_passes(2)], rule sends_then [OF ex_base_passes], rule sends_stages(1),
        simp add: base map_err_def passes_def del: us_Cons)
      (simp add: create s del: us_Cons)
qed

theorem correct_sends_only_on_base_witness:
  "\<exists>pre post intent. trace (snd (run_state (correct ex_exe ex_order ex_correction) no_world)) = pre @ post \<and>
     writes pre = [] \<and> writes post \<noteq> [] \<and> correct_justified ex_exe ex_order ex_correction intent pre \<and>
     issues ex_exe ex_order intent post"
proof -
  have sent: "writes (trace (snd (run_state (correct ex_exe ex_order ex_correction) no_world))) \<noteq> []"
    using ex_correct_sends by (simp add: sends_def)
  from correct_sends_only_on_base [OF ex_durable surjective_pairing, of ex_order ex_correction no_world]
  obtain pre post intent where "trace (snd (run_state (correct ex_exe ex_order ex_correction) no_world)) = pre @ post"
    "writes pre = []" "correct_justified ex_exe ex_order ex_correction intent pre" "issues ex_exe ex_order intent post"
    using sent by (auto simp: no_world_def)
  moreover from this have "writes post \<noteq> []" using sent by auto
  ultimately show ?thesis by blast
qed

end
