(* ===== verification/Storno_Service.thy ===== *)
theory Storno_Service
  imports Create_Service
begin

text \<open>
  The storno protocol (\<open>service/storno.rs\<close>, \<open>contract/storno.rs\<close>): the request with its recipient, the verdict on the
  verified original, the intent, and the two shells: \<open>storno\<close>, on an order, over the durable write, and
  \<open>storno_by_number\<close>, for an invoice without an order number, over one retried step.
\<close>

section \<open>The contract\<close>

datatype StornoRecipient = StornoRecipient (recipient_str: ustr)

definition is_alphanumeric_byte :: "nat \<Rightarrow> bool" where
  "is_alphanumeric_byte b \<longleftrightarrow> (48 \<le> b \<and> b \<le> 57) \<or> (65 \<le> b \<and> b \<le> 90) \<or> (97 \<le> b \<and> b \<le> 122)"

definition is_atom_byte :: "nat \<Rightarrow> bool" where
  "is_atom_byte b \<longleftrightarrow> is_alphanumeric_byte b \<or> b \<in> set (us ''!#$%&'' @ [39] @ us ''*+-/=?^_`{|}~'')"

definition valid_local :: "ustr \<Rightarrow> bool" where
  "valid_local local \<longleftrightarrow> utf8_len local \<le> 64 \<and> list_all (\<lambda>part. part \<noteq> [] \<and> list_all is_atom_byte part) (split_on (of_char CHR ''.'') local)"

definition valid_label :: "ustr \<Rightarrow> bool" where
  "valid_label label \<longleftrightarrow> label \<noteq> [] \<and> utf8_len label \<le> 63 \<and> hd label \<noteq> of_char CHR ''-'' \<and> last label \<noteq> of_char CHR ''-'' \<and>
     list_all (\<lambda>b. is_alphanumeric_byte b \<or> b = of_char CHR ''-'') label"

definition StornoRecipient_try_from :: "ustr \<Rightarrow> (StornoRecipient, unit) result" where
  "StornoRecipient_try_from value = (case split_once (of_char CHR ''@'') value of
     None \<Rightarrow> Err ()
   | Some (local, domain) \<Rightarrow>
       if 254 < utf8_len value \<or> \<not> valid_local local \<or> \<not> list_all valid_label (split_on (of_char CHR ''.'') domain)
       then Err () else Ok (StornoRecipient value))"

record StornoRequest =
  srq_invoice_number :: InvoiceNumber
  srq_comment :: "ustr option"
  srq_buyer_email :: "StornoRecipient option"

definition StornoRequest_new :: "InvoiceNumber \<Rightarrow> StornoRequest" where
  "StornoRequest_new invoice_number = \<lparr> srq_invoice_number = invoice_number, srq_comment = None, srq_buyer_email = None \<rparr>"

datatype StornoStatus = SS_Reversed | SS_Rejected | SS_Conflict | SS_ManagedByOrder | SS_UnsupportedOrderNumber | SS_Other ustr

primrec StornoStatus_as_str :: "StornoStatus \<Rightarrow> ustr" where
  "StornoStatus_as_str SS_Reversed = us ''reversed''"
| "StornoStatus_as_str SS_Rejected = us ''rejected''"
| "StornoStatus_as_str SS_Conflict = us ''conflict''"
| "StornoStatus_as_str SS_ManagedByOrder = us ''managed_by_order''"
| "StornoStatus_as_str SS_UnsupportedOrderNumber = us ''unsupported_order_number''"
| "StornoStatus_as_str (SS_Other token) = token"

definition StornoStatus_arms :: "(ustr \<times> StornoStatus) list" where
  "StornoStatus_arms = [(us ''reversed'', SS_Reversed), (us ''rejected'', SS_Rejected), (us ''conflict'', SS_Conflict),
     (us ''managed_by_order'', SS_ManagedByOrder), (us ''unsupported_order_number'', SS_UnsupportedOrderNumber)]"

definition StornoStatus_from :: "ustr \<Rightarrow> StornoStatus" where
  "StornoStatus_from token = match_token StornoStatus_arms SS_Other token"

interpretation storno_statuses: open_tokens StornoStatus_arms SS_Other StornoStatus_as_str
proof unfold_locales
  show "v \<in> snd ` set StornoStatus_arms \<or> (\<exists>s. v = SS_Other s)" for v
    by (cases v) (simp_all add: StornoStatus_arms_def)
qed (simp_all add: StornoStatus_arms_def)

record StornoAnswer =
  sra_outcome :: StornoStatus
  sra_conflict_reason :: "ConflictReason option"
  sra_invoice_number :: ustr
  sra_invoice_document_id :: "int option"
  sra_storno_number :: "ustr option"
  sra_storno_document_id :: "int option"
  sra_order_key :: "ustr option"
  sra_code :: "ustr option"
  sra_message :: "ustr option"
  sra_warnings :: "Warning list"

definition StornoAnswer_new :: "StornoStatus \<Rightarrow> ustr \<Rightarrow> StornoAnswer" where
  "StornoAnswer_new status num = \<lparr> sra_outcome = status, sra_conflict_reason = None, sra_invoice_number = num,
     sra_invoice_document_id = None, sra_storno_number = None, sra_storno_document_id = None, sra_order_key = None,
     sra_code = None, sra_message = None, sra_warnings = [] \<rparr>"

definition with_invoice_document_id :: "StornoAnswer \<Rightarrow> int \<Rightarrow> StornoAnswer" where
  "with_invoice_document_id response i = response\<lparr> sra_invoice_document_id := Some i \<rparr>"

definition NOT_STORNOABLE :: ustr where
  "NOT_STORNOABLE = us ''not_stornoable''"

definition not_stornoable :: "ustr \<Rightarrow> ustr \<Rightarrow> StornoAnswer" where
  "not_stornoable num message = (StornoAnswer_new SS_Rejected num)\<lparr> sra_code := Some NOT_STORNOABLE, sra_message := Some message \<rparr>"

section \<open>The intent\<close>

record StornoIntent =
  sin_number :: ustr
  sin_storno_id :: ExternalId
  sin_comment :: "ustr option"
  sin_buyer_email :: "StornoRecipient option"
  sin_e_invoice :: bool
  sin_fulfillment_date :: Date

definition as_step_request :: "StornoIntent \<Rightarrow> StornoStepRequest" where
  "as_step_request intent = \<lparr> ssr_invoice_number = sin_number intent, ssr_external_id = sin_storno_id intent,
     ssr_comment = sin_comment intent, ssr_buyer_email = map_option recipient_str (sin_buyer_email intent),
     ssr_e_invoice = sin_e_invoice intent, ssr_fulfillment_date = sin_fulfillment_date intent \<rparr>"

definition validate_storno :: "WireText \<Rightarrow> StornoInvoice \<Rightarrow> (unit, RequestError) result" where
  "validate_storno wt request =
    try_then (StornoInvoice_to_wire wt (AgentKey (us ''validation'')) request) (\<lambda>_. Ok ())"

definition storno_input_fault :: "ustr \<Rightarrow> RequestError \<Rightarrow> Fault" where
  "storno_input_fault num error = (case error of
     RE_InvalidDateYear field year \<Rightarrow>
       if field = us ''fulfillment_date'' then Fault_unavailable (msg ''szamlazz.hu returned invoice '' @ num
         @ msg '' with an unusable fulfillment date (telj), which the storno must repeat; nothing was sent; query the invoice and reconcile any earlier write before deliberately renewing the operation'')
       else Fault_invalid_input (RequestError_display error)
   | _ \<Rightarrow> Fault_invalid_input (RequestError_display error))"

definition from_verified :: "WireText \<Rightarrow> FoundDocument \<Rightarrow> Account \<Rightarrow> ustr \<Rightarrow> ExternalId \<Rightarrow> ustr option \<Rightarrow> StornoRecipient option
    \<Rightarrow> (StornoIntent, Fault) result" where
  "from_verified wt found account num storno_id comment buyer_email = (case fulfillment_date found of
     None \<Rightarrow> Err (Fault_missing_fulfillment_date num)
   | Some date \<Rightarrow>
       (let intent = \<lparr> sin_number = num, sin_storno_id = storno_id, sin_comment = comment, sin_buyer_email = buyer_email,
              sin_e_invoice = (case e_invoice found of Some e \<Rightarrow> e | None \<Rightarrow> df_e_invoice (acc_defaults account)),
              sin_fulfillment_date = date \<rparr> in
        try_then (map_err (storno_input_fault num) (validate_storno wt (build_storno account (as_step_request intent)))) (\<lambda>_.
        Ok intent)))"

section \<open>Decisions\<close>

datatype StornoVerdict = SV_Proceed | SV_AlreadyReversed | SV_Answered StornoAnswer

definition storno_verdict :: "FoundDocument \<Rightarrow> OrderKey \<Rightarrow> ustr \<Rightarrow> StornoVerdict" where
  "storno_verdict found order num =
    (if \<not> carries_order found order
     then SV_Answered ((StornoAnswer_new SS_Conflict num)\<lparr> sra_conflict_reason := Some CoR_NotManaged \<rparr>)
     else if \<not> is_live found then SV_AlreadyReversed
     else if \<not> is_stornoable found
     then SV_Answered (not_stornoable num (msg ''the document cannot be reversed: only invoices can be stornoed''))
     else SV_Proceed)"

definition unmanaged_storno_verdict :: "(ustr \<Rightarrow> bool) \<Rightarrow> FoundDocument \<Rightarrow> ustr \<Rightarrow> StornoVerdict" where
  "unmanaged_storno_verdict is_nfc found num = (case order_number found of
     Some order \<Rightarrow> (case OrderKey_parse is_nfc order of
         Inl error \<Rightarrow> SV_Answered ((StornoAnswer_new SS_UnsupportedOrderNumber num)\<lparr> sra_order_key := Some order,
           sra_message := Some (msg ''the reported order number cannot be used as a Szamlazz.Order key: '' @ InvalidOrderKey_display error
             @ msg ''; nothing was sent; reverse this invoice in szamlazz.hu and reconcile it in your system; do not normalize the order number or bypass the order guard'') \<rparr>)
       | Inr _ \<Rightarrow> SV_Answered ((StornoAnswer_new SS_ManagedByOrder num)\<lparr> sra_order_key := Some order \<rparr>))
   | None \<Rightarrow> if \<not> is_live found then SV_AlreadyReversed else SV_Proceed)"

definition reversed_answer :: "ustr \<Rightarrow> ReportedDocument option \<Rightarrow> StornoAnswer" where
  "reversed_answer num storno = (let response = StornoAnswer_new SS_Reversed num in case storno of
     None \<Rightarrow> response
   | Some storno \<Rightarrow> response\<lparr> sra_storno_number := Some (rep_number storno), sra_storno_document_id := rep_document_id storno \<rparr>)"

definition after_storno_lookup :: "StornoLookupOutcome \<Rightarrow> ustr \<Rightarrow> (StornoAnswer option, Fault) result" where
  "after_storno_lookup out num = (case out of
     SLO_Absent \<Rightarrow> Ok None
   | SLO_AlreadyReversed storno_number storno_document_id \<Rightarrow> Ok (Some (reversed_answer num
       (Some \<lparr> rep_number = storno_number, rep_document_id = storno_document_id \<rparr>)))
   | SLO_CredentialsRejected answer \<Rightarrow> Err (into_fault (AnC_CredentialsRejected answer))
   | SLO_Api answer \<Rightarrow> Err (into_fault (AnC_Inconclusive answer)))"

definition STORNO_RECOVERY :: ustr where
  "STORNO_RECOVERY = msg ''query the original invoice and reconcile the earlier reversal; establish that it completed and cannot execute later, or did not execute and cannot execute later; absence and elapsed time are not settlement evidence; only after settlement, deliberately renew with a new Idempotency-Key if still intended''"

definition storno_response :: "StornoOutcome \<Rightarrow> ustr \<Rightarrow> (StornoAnswer, Fault) result" where
  "storno_response out num = (case out of
     StO_Unnumbered message \<Rightarrow> Err (Fault_outcome_unknown (message @ us ''; '' @ STORNO_RECOVERY))
   | StO_Reversed storno \<Rightarrow> Ok ((StornoAnswer_new SS_Reversed num)\<lparr> sra_storno_number := Some (iss_number storno),
       sra_storno_document_id := iss_document_id storno,
       sra_warnings := (if iss_notification_delivery_failed storno then [W_NotificationDeliveryFailed] else []) \<rparr>)
   | StO_AlreadyReversed storno_number storno_document_id \<Rightarrow> Ok (reversed_answer num
       (Some \<lparr> rep_number = storno_number, rep_document_id = storno_document_id \<rparr>))
   | StO_NotStornoable \<Rightarrow> Ok (not_stornoable num
       (msg ''szamlazz.hu echoed the document unchanged: it cannot be reversed (only invoices can be stornoed)''))
   | StO_Rejected rejection \<Rightarrow>
       if rej_code rejection = RC_Request then Err (Fault_invalid_input (rej_message rejection))
       else Ok ((StornoAnswer_new SS_Rejected num)\<lparr> sra_code := Some (RejectionCode_as_str (rej_code rejection)),
         sra_message := Some (rej_message rejection) \<rparr>)
   | StO_CredentialsRejected answer \<Rightarrow> Err (into_fault (AnC_CredentialsRejected answer))
   | StO_Api answer \<Rightarrow> Err (into_fault (AnC_Inconclusive answer))
   | StO_Unavailable message \<Rightarrow> Err (Fault_szlahu_down_answer message))"

definition storno_outcome_unknown :: "(ustr \<Rightarrow> Fault option) \<Rightarrow> TerminalError \<Rightarrow> Fault" where
  "storno_outcome_unknown decode error = (case initialization_fault decode error STORNO_RECOVERY of
     Some fault \<Rightarrow> fault
   | None \<Rightarrow>
       if is_cancelled error then with_run_cause (Fault_outcome_unknown (msg ''the storno step was cancelled (''
         @ decimal_digits (unat (term_code error))
         @ msg '') before its outcome was confirmed; a send may have landed: '' @ STORNO_RECOVERY)) error
       else Fault_outcome_unknown (msg ''the storno step ended without a confirmed outcome (''
         @ decimal_digits (unat (term_code error)) @ us ''): '' @ term_message error @ us ''; '' @ STORNO_RECOVERY))"

definition storno_from_lookup :: "StornoLookupOutcome \<Rightarrow> (ReportedDocument option, Fault) result" where
  "storno_from_lookup out = (case out of
     SLO_AlreadyReversed storno_number storno_document_id \<Rightarrow>
       Ok (Some \<lparr> rep_number = storno_number, rep_document_id = storno_document_id \<rparr>)
   | SLO_Absent \<Rightarrow> Ok None
   | SLO_Api answer \<Rightarrow> Ok None
   | SLO_CredentialsRejected answer \<Rightarrow> Err (into_fault (AnC_CredentialsRejected answer)))"

section \<open>The durable steps\<close>

definition lookup_storno_step :: "'s Execution \<Rightarrow> StornoIntent \<Rightarrow> ('s, (StornoLookupOutcome, Fault) result) prog" where
  "lookup_storno_step exe intent = run_reading (exe_runtime exe) (us ''lookup-storno-'' @ sin_number intent)
     (lookup_storno (exe_remote exe) (sin_storno_id intent) (sin_number intent))"

definition storno_step :: "'s Execution \<Rightarrow> StornoIntent \<Rightarrow> ('s, (StornoOutcome, TerminalError) result) prog" where
  "storno_step exe intent = run_operating (exe_runtime exe) (us ''storno-'' @ sin_number intent)
     (storno_inner (exe_remote exe) (exe_account exe) (as_step_request intent))"

definition storno_of_unmanaged :: "'s Execution \<Rightarrow> InvoiceNumber \<Rightarrow> ('s, (ReportedDocument option, Fault) result) prog" where
  "storno_of_unmanaged exe num =
    then_ok (run_best_effort (exe_runtime exe) (us ''lookup-storno-'' @ number_str num)
      (lookup_storno (exe_remote exe) (for_unmanaged_storno (exe_namespace exe) num) (number_str num))) (\<lambda>looked_up. ret (case looked_up of
        None \<Rightarrow> Ok None
      | Some out \<Rightarrow> storno_from_lookup out))"

section \<open>The two shells\<close>

text \<open>\<open>verify_for_storno\<close>: the response that ends the protocol, or the verified document.\<close>

definition verify_for_storno :: "'s Execution \<Rightarrow> OrderKey \<Rightarrow> ustr \<Rightarrow> ExternalId \<Rightarrow> ('s, (StornoAnswer + FoundDocument, Fault) result) prog" where
  "verify_for_storno exe order num storno_id =
    then_ok (do { r \<leftarrow> verify_step exe (us ''verify-original-'' @ num) num;
        ret (map_err (\<lambda>fault. about fault order None storno_id) (try_then r (\<lambda>out. verified_document out num))) }) (\<lambda>found.
    case storno_verdict found order num of
      SV_Proceed \<Rightarrow> ret (Ok (Inr found))
    | SV_Answered response \<Rightarrow> ret (Ok (Inl (with_invoice_document_id response (document_id found))))
    | SV_AlreadyReversed \<Rightarrow> then_ok (storno_of exe order num storno_id) (\<lambda>storno.
        ret (Ok (Inl (with_invoice_document_id (reversed_answer num storno) (document_id found))))))"

definition storno_result :: "WriteResult \<Rightarrow> (StornoOutcome, Fault) result" where
  "storno_result result = (case result of WR_Storno out \<Rightarrow> Ok out | _ \<Rightarrow> Err (Fault_outcome_unknown (msg ''unexpected recovery operation'')))"

definition storno_write :: "'s Execution \<Rightarrow> OrderKey \<Rightarrow> FoundDocument \<Rightarrow> StornoIntent \<Rightarrow> ('s, (StornoOutcome, Fault) result) prog" where
  "storno_write exe order found intent =
    then_ok (exe_write exe (if permits_replay (exe_order_execution exe)
        then replay_storno_call (exe_remote exe) (exe_namespace exe) (exe_account exe) (exe_context exe) order (as_step_request intent) found
        else protected_storno_call (exe_remote exe) (exe_namespace exe) (exe_account exe) (exe_context exe) order (as_step_request intent)))
      (\<lambda>result. ret (storno_result result))"

definition storno :: "'s Execution \<Rightarrow> OrderKey \<Rightarrow> StornoRequest \<Rightarrow> ('s, (StornoAnswer, Fault) result) prog" where
  "storno exe order request =
    (let storno_id = for_storno (exe_namespace exe) order (srq_invoice_number request); num = number_str (srq_invoice_number request) in
     then_ok (verify_for_storno exe order num storno_id) (\<lambda>verified. case verified of
       Inl response \<Rightarrow> ret (Ok response)
     | Inr found \<Rightarrow>
         (let kind = for_document_type (document_type found); about' = (\<lambda>fault. about fault order kind storno_id) in
          then_ok (ret (map_err about' (from_verified (exe_wire exe) found (exe_account exe) num storno_id (srq_comment request)
            (srq_buyer_email request)))) (\<lambda>intent.
          then_ok (do { r \<leftarrow> run_reading (exe_runtime exe) (us ''lookup-storno-'' @ num)
                (lookup_order_storno (exe_remote exe) (sin_storno_id intent) order num);
              ret (map_err about' (try_then r (\<lambda>looked_up. after_storno_lookup looked_up num))) }) (\<lambda>answer. case answer of
            Some response \<Rightarrow> ret (Ok (with_invoice_document_id response (document_id found)))
          | None \<Rightarrow> then_ok (storno_write exe order found intent) (\<lambda>out.
              ret (map_err about' (try_then (storno_response out num) (\<lambda>response.
                Ok (with_invoice_document_id response (document_id found)))))))))))"

definition storno_by_number :: "'s Execution \<Rightarrow> (ustr \<Rightarrow> bool) \<Rightarrow> StornoRequest \<Rightarrow> ('s, (StornoAnswer, Fault) result) prog" where
  "storno_by_number exe is_nfc request =
    (let num = number_str (srq_invoice_number request) in
     then_ok (do { r \<leftarrow> verify_step exe (us ''verify-original-'' @ num) num;
         ret (try_then r (\<lambda>out. verified_document out num)) }) (\<lambda>found.
     case unmanaged_storno_verdict is_nfc found num of
       SV_Answered response \<Rightarrow> ret (Ok (with_invoice_document_id response (document_id found)))
     | SV_AlreadyReversed \<Rightarrow> then_ok (storno_of_unmanaged exe (srq_invoice_number request)) (\<lambda>storno.
         ret (Ok (with_invoice_document_id (reversed_answer num storno) (document_id found))))
     | SV_Proceed \<Rightarrow>
         then_ok (ret (from_verified (exe_wire exe) found (exe_account exe) num
           (for_unmanaged_storno (exe_namespace exe) (srq_invoice_number request)) (srq_comment request) (srq_buyer_email request))) (\<lambda>intent.
         then_ok (do { r \<leftarrow> lookup_storno_step exe intent; ret (try_then r (\<lambda>looked_up. after_storno_lookup looked_up num)) }) (\<lambda>answer. case answer of
           Some response \<Rightarrow> ret (Ok (with_invoice_document_id response (document_id found)))
         | None \<Rightarrow> then_ok (do { r \<leftarrow> storno_step exe intent; ret (map_err (storno_outcome_unknown (rt_decode (exe_runtime exe))) r) }) (\<lambda>out.
             ret (try_then (storno_response out num) (\<lambda>response. Ok (with_invoice_document_id response (document_id found)))))))))"

section \<open>What a storno rests on\<close>

text \<open>The trace names \<open>n\<close> as a storno of the invoice: szamlazz.hu reported it, or acknowledged the send with it.\<close>

definition storno_named :: "OrderKey \<Rightarrow> ustr \<Rightarrow> ustr \<Rightarrow> Event list \<Rightarrow> bool" where
  "storno_named order num n xs \<longleftrightarrow> (\<exists>i. storno_evidence xs order num n i) \<or>
     (\<exists>d. evid xs (ByOrderNumber (order_str order)) d \<and> is_storno_of d num \<and> number d = n) \<or>
     (\<exists>s created. SentStorno s (Inr (SR_Numbered created)) \<in> set xs \<and> si_invoice_number s = num \<and>
        cr_invoice_number created = n \<and> reverses created num)"

definition reversal_known :: "OrderKey \<Rightarrow> ustr \<Rightarrow> StornoAnswer \<Rightarrow> Event list \<Rightarrow> bool" where
  "reversal_known order num answer xs \<longleftrightarrow> sra_outcome answer = SS_Reversed \<longrightarrow>
     (\<forall>n. sra_storno_number answer = Some n \<longrightarrow> storno_named order num n xs) \<and>
     (sra_storno_number answer = None \<longrightarrow> (\<exists>d. evid xs (ByInvoiceNumber num) d \<and> carries_order d order \<and> \<not> is_live d))"

definition storno_justified :: "'s Execution \<Rightarrow> OrderKey \<Rightarrow> StornoRequest \<Rightarrow> StornoInvoice \<Rightarrow> Event list \<Rightarrow> bool" where
  "storno_justified exe order request s xs \<longleftrightarrow> (let num = number_str (srq_invoice_number request);
       eid = for_storno (exe_namespace exe) order (srq_invoice_number request) in
     evid_absent xs (ByExternalId (external_str eid)) \<and> si_external_id s = Some (external_str eid) \<and> si_invoice_number s = num \<and>
     (\<exists>d. evid xs (ByInvoiceNumber num) d \<and> carries_order d order \<and> is_live d \<and> is_stornoable d \<and>
        si_fulfillment_date s = fulfillment_date d \<and> si_fulfillment_date s \<noteq> None))"

definition sends_storno :: "'s Execution \<Rightarrow> StornoInvoice \<Rightarrow> Event list \<Rightarrow> bool" where
  "sends_storno exe s xs \<longleftrightarrow> (\<forall>e \<in> set (writes xs). \<exists>reply. e = SentStorno s reply) \<and>
     (\<not> permits_replay (exe_order_execution exe) \<longrightarrow> length (writes xs) \<le> 1)"

lemma storno_named_append: "storno_named order num n xs \<or> storno_named order num n ys \<Longrightarrow> storno_named order num n (xs @ ys)"
  unfolding storno_named_def using storno_evidence_append [of xs order num n _ ys] by (auto simp: evid_append)

lemma reversal_known_append: "reversal_known order num answer xs \<or> reversal_known order num answer ys \<Longrightarrow> reversal_known order num answer (xs @ ys)"
  unfolding reversal_known_def using storno_named_append [of order num _ xs ys] by (auto simp: evid_append)

lemma from_verified_Ok:
  assumes "from_verified wt found account num storno_id comment email = Ok intent"
  shows "ssr_invoice_number (as_step_request intent) = num" "ssr_external_id (as_step_request intent) = storno_id"
    "fulfillment_date found = Some (ssr_fulfillment_date (as_step_request intent))" "sin_number intent = num" "sin_storno_id intent = storno_id"
  using assms by (auto simp: from_verified_def Let_def try_then_Inr_iff as_step_request_def split: option.splits)

lemma build_storno_sel:
  "si_external_id (build_storno account request) = Some (external_str (ssr_external_id request))"
  "si_invoice_number (build_storno account request) = ssr_invoice_number request"
  "si_fulfillment_date (build_storno account request) = Some (ssr_fulfillment_date request)"
  by (simp_all add: build_storno_def StornoInvoice_new_def)

lemma storno_of_yields:
  "yields (\<lambda>r xs. writes xs = [] \<and> (\<forall>rep. r = Inr (Some rep) \<longrightarrow> storno_named order num (rep_number rep) xs)) (storno_of exe order num eid)"
  unfolding storno_of_def
proof (rule then_ok_yields [OF run_best_effort_yields [OF hint_evid]], blast, simp, rule yields_return, goal_cases)
  case (1 hinted xs)
  have "storno_named order num (rep_number rep) xs" if h: "hinted = Some (QO_Found d)" "is_storno_of d num" "rep = ReportedDocument_from d" for d rep
  proof -
    obtain zs ys where "xs = zs @ ys" "evid ys (ByOrderNumber (order_str order)) d"
      using conjunct2 [OF 1, rule_format, of "QO_Found d"] h(1) by auto
    then show ?thesis using h(2,3) by (auto simp: storno_named_def evid_append ReportedDocument_from_def)
  qed
  note named = this
  show ?case
  proof (cases hinted)
    case (Some out)
    then show ?thesis using named conjunct1 [OF 1]
      by (cases out) (simp_all add: storno_from_hint_def map_err_def)
  qed (use conjunct1 [OF 1] in simp)
qed


lemma lookup_order_storno_yields:
  "yields (\<lambda>r xs. writes xs = [] \<and> (r = Inr SLO_Absent \<longrightarrow> evid_absent xs (ByExternalId (external_str eid))) \<and>
      (\<forall>n i. r = Inr (SLO_AlreadyReversed n i) \<longrightarrow> storno_evidence xs order num n i)) (lookup_order_storno rm eid order num)"
  unfolding lookup_order_storno_def
  by (rule yields_bind [OF lookup_order_storno_checked_yields], rule yields_return)
    (auto simp: try_then_def split: sum.splits Answer.splits)

lemma storno_lookup_yields:
  "yields (\<lambda>r xs. writes xs = [] \<and> (r = Inr None \<longrightarrow> evid_absent xs (ByExternalId (external_str eid))) \<and>
      (\<forall>answer. r = Inr (Some answer) \<longrightarrow> reversal_known order num answer xs))
    (do { r \<leftarrow> run_reading rt name (lookup_order_storno rm eid order num);
          ret (map_err f (try_then r (\<lambda>looked_up. after_storno_lookup looked_up num))) })"
proof (rule yields_bind [OF run_reading_yields [OF lookup_order_storno_yields]], blast, rule yields_return, goal_cases)
  case (1 r xs)
  show ?case
  proof (cases r)
    case (Inr out)
    obtain zs ys where "xs = zs @ ys" "out = SLO_Absent \<longrightarrow> evid_absent ys (ByExternalId (external_str eid))"
        "\<forall>n i. out = SLO_AlreadyReversed n i \<longrightarrow> storno_evidence ys order num n i"
      using conjunct2 [OF 1, rule_format, OF Inr] by auto
    then show ?thesis using conjunct1 [OF 1] Inr storno_evidence_append [of zs order num _ _ ys]
      by (cases out) (auto simp: after_storno_lookup_def reversed_answer_def StornoAnswer_new_def reversal_known_def storno_named_def)
  qed (use conjunct1 [OF 1] in simp)
qed

lemma storno_call_modes:
  "wc_mode (protected_storno_call rm namespace account ctx order request) = Protected"
  "wc_mode (replay_storno_call rm namespace account ctx order request found) = ReplayEnabled"
  "uw_operation (wc_marker (protected_storno_call rm namespace account ctx order request)) = WO_Storno (ssr_invoice_number request)"
  "uw_operation (wc_marker (replay_storno_call rm namespace account ctx order request found)) = WO_Storno (ssr_invoice_number request)"
  "uw_order (wc_marker (protected_storno_call rm namespace account ctx order request)) = order"
  "uw_order (wc_marker (replay_storno_call rm namespace account ctx order request found)) = order"
  by (simp_all add: call_defs write_marker_def storno_replay_marker_def)

lemma storno_write_yields:
  assumes "durable_writes (exe_remote exe) (exe_write exe)"
  shows "yields (\<lambda>r xs. sends_storno exe (build_storno (exe_account exe) (as_step_request intent)) xs \<and>
      (\<forall>d. r = Inr (StO_Reversed d) \<longrightarrow> storno_named order (sin_number intent) (iss_number d) xs) \<and>
      (\<forall>n i. r = Inr (StO_AlreadyReversed n i) \<longrightarrow> storno_named order (sin_number intent) n xs)) (storno_write exe order found intent)"
proof -
  let ?req = "as_step_request intent" and ?rm = "exe_remote exe"
  define call where "call = (if permits_replay (exe_order_execution exe)
        then replay_storno_call ?rm (exe_namespace exe) (exe_account exe) (exe_context exe) order ?req found
        else protected_storno_call ?rm (exe_namespace exe) (exe_account exe) (exe_context exe) order ?req)"
  have num: "ssr_invoice_number ?req = sin_number intent" by (simp add: as_step_request_def)
  have si: "si_invoice_number (build_storno (exe_account exe) ?req) = sin_number intent" by (simp add: build_storno_sel num)
  have sw: "service_write ?rm call (sent_storno (exe_account exe) ?req) (storno_sound (exe_account exe) ?req order)"
    by (simp add: call_def service_write.intros(2,5))
  have c: "uw_operation (wc_marker call) = WO_Storno (sin_number intent)" "uw_order (wc_marker call) = order"
      "\<not> permits_replay (exe_order_execution exe) \<Longrightarrow> wc_mode call = Protected"
    by (simp_all add: call_def storno_call_modes num)
  have ok: "sends_storno exe (build_storno (exe_account exe) ?req) xs \<and>
      (\<forall>d. r = Inr (WR_Storno (StO_Reversed d)) \<longrightarrow> storno_named order (sin_number intent) (iss_number d) xs) \<and>
      (\<forall>n i. r = Inr (WR_Storno (StO_AlreadyReversed n i)) \<longrightarrow> storno_named order (sin_number intent) n xs)"
    if out: "write_outcome call (sent_storno (exe_account exe) ?req) (storno_sound (exe_account exe) ?req order) r xs" for r xs
  proof (intro conjI allI impI)
    show "sends_storno exe (build_storno (exe_account exe) ?req) xs"
      using out c(3) by (auto simp: write_outcome_def sends_storno_def sent_storno_def one_write_def split: if_splits)
  next
    fix d assume "r = Inr (WR_Storno (StO_Reversed d))"
    then have "storno_sound (exe_account exe) ?req order (WR_Storno (StO_Reversed d)) xs \<or> marker_evidence (wc_marker call) (WR_Storno (StO_Reversed d)) xs"
      using out by (auto simp: write_outcome_def)
    then show "storno_named order (sin_number intent) (iss_number d) xs"
      unfolding storno_named_def storno_sound_def marker_evidence_def using si by (simp add: c num) metis
  next
    fix n i assume "r = Inr (WR_Storno (StO_AlreadyReversed n i))"
    then have "storno_sound (exe_account exe) ?req order (WR_Storno (StO_AlreadyReversed n i)) xs \<or>
        marker_evidence (wc_marker call) (WR_Storno (StO_AlreadyReversed n i)) xs"
      using out by (auto simp: write_outcome_def)
    then show "storno_named order (sin_number intent) n xs"
      unfolding storno_named_def storno_sound_def marker_evidence_def by (auto simp: c num)
  qed
  show ?thesis unfolding storno_write_def call_def [symmetric]
    by (rule then_ok_yields [OF durable_write_yields [OF assms sw]])
     (auto dest!: ok intro!: yields_return simp: storno_result_def split: WriteResult.splits)
qed


definition storno_sent :: "'s Execution \<Rightarrow> OrderKey \<Rightarrow> StornoRequest \<Rightarrow> Event list \<Rightarrow> bool" where
  "storno_sent exe order request xs \<longleftrightarrow> writes xs = [] \<or> (\<exists>pre post s. xs = pre @ post \<and> writes pre = [] \<and>
     storno_justified exe order request s pre \<and> sends_storno exe s post)"

lemma verify_for_storno_yields:
  "yields (\<lambda>r xs. writes xs = [] \<and> (\<forall>answer. r = Inr (Inl answer) \<longrightarrow> reversal_known order num answer xs) \<and>
      (\<forall>d. r = Inr (Inr d) \<longrightarrow> evid xs (ByInvoiceNumber num) d \<and> carries_order d order \<and> is_live d \<and> is_stornoable d))
    (verify_for_storno exe order num eid)"
proof -
  have base: "yields (\<lambda>r xs. writes xs = [] \<and> (\<forall>d. r = Inr d \<longrightarrow> evid xs (ByInvoiceNumber num) d))
      (do { r \<leftarrow> verify_step exe name num; ret (map_err f (try_then r (\<lambda>out. verified_document out num))) })" for name f
    by (rule yields_bind [OF verify_step_yields])
      (auto intro!: yields_return simp: map_err_def verified_document_def try_then_def split: sum.splits QueryOutcome.splits)
  show ?thesis unfolding verify_for_storno_def
  proof (rule then_ok_yields [OF base], goal_cases)
    case (2 d xs)
    show ?case
    proof (cases "storno_verdict d order num")
      case SV_Proceed
      then show ?thesis using 2 by (auto simp: storno_verdict_def intro!: yields_return split: if_splits)
    next
      case (SV_Answered response)
      then show ?thesis using 2
        by (auto simp: storno_verdict_def reversal_known_def with_invoice_document_id_def not_stornoable_def StornoAnswer_new_def
            intro!: yields_return split: if_splits)
    next
      case SV_AlreadyReversed
      then have d: "carries_order d order" "\<not> is_live d" by (auto simp: storno_verdict_def split: if_splits)
      have known: "reversal_known order num (with_invoice_document_id (reversed_answer num st) i) (xs @ ys)"
        if "\<forall>rep. st = Some rep \<longrightarrow> storno_named order num (rep_number rep) ys" for st i ys
        using that 2 d storno_named_append [of order num _ xs ys]
        by (auto simp: reversal_known_def with_invoice_document_id_def reversed_answer_def StornoAnswer_new_def evid_append Let_def split: option.splits)
      show ?thesis unfolding SV_AlreadyReversed StornoVerdict.case
        by (rule then_ok_yields [OF storno_of_yields]) (use 2 in \<open>auto intro!: yields_return known\<close>)
    qed
  qed simp
qed

lemma storno_response_known:
  assumes "storno_response out num = Ok answer"
    and "\<And>d. out = StO_Reversed d \<Longrightarrow> storno_named order num (iss_number d) xs"
    and "\<And>n i. out = StO_AlreadyReversed n i \<Longrightarrow> storno_named order num n xs"
  shows "reversal_known order num (with_invoice_document_id answer i) xs"
  using assms by (cases out)
    (auto simp: storno_response_def reversal_known_def with_invoice_document_id_def reversed_answer_def StornoAnswer_new_def not_stornoable_def Let_def split: if_splits)


definition storno_done :: "'s Execution \<Rightarrow> OrderKey \<Rightarrow> StornoRequest \<Rightarrow> (StornoAnswer, Fault) result \<Rightarrow> Event list \<Rightarrow> bool" where
  "storno_done exe order request r xs \<longleftrightarrow> storno_sent exe order request xs \<and>
     (\<forall>answer. r = Inr answer \<longrightarrow> reversal_known order (number_str (srq_invoice_number request)) answer xs)"

lemma storno_done_read: "writes xs = [] \<Longrightarrow> storno_done exe order request (Inl fault) xs"
  "writes xs = [] \<Longrightarrow> reversal_known order (number_str (srq_invoice_number request)) answer xs \<Longrightarrow> storno_done exe order request (Inr answer) xs"
  by (simp_all add: storno_done_def storno_sent_def)

lemma storno_after_lookup_yields:
  assumes w: "durable_writes (exe_remote exe) (exe_write exe)"
    and intent: "from_verified wt d (exe_account exe) (number_str (srq_invoice_number request))
      (for_storno (exe_namespace exe) order (srq_invoice_number request)) comment email = Ok intent"
    and d: "evid xs (ByInvoiceNumber (number_str (srq_invoice_number request))) d" "carries_order d order" "is_live d" "is_stornoable d"
    and xs: "writes xs = []" "evid_absent xs (ByExternalId (external_str (for_storno (exe_namespace exe) order (srq_invoice_number request))))"
  shows "yields (\<lambda>r ys. storno_done exe order request r (xs @ ys))
    (then_ok (storno_write exe order d intent) (\<lambda>out. ret (map_err f (try_then (storno_response out (number_str (srq_invoice_number request)))
       (\<lambda>response. Ok (with_invoice_document_id response i))))))"
proof -
  note iv = from_verified_Ok [OF intent]
  let ?s = "build_storno (exe_account exe) (as_step_request intent)"
  have j: "storno_justified exe order request ?s xs"
    using d xs iv unfolding storno_justified_def Let_def by (auto simp: build_storno_sel)
  then have sent: "storno_sent exe order request (xs @ ys)" if "sends_storno exe ?s ys" for ys
    using xs(1) that unfolding storno_sent_def by blast
  show ?thesis
  proof (rule then_ok_yields [OF storno_write_yields [OF w]], goal_cases)
    case (1 e ys)
    then show ?case using sent by (simp add: storno_done_def)
  next
    case (2 out ys)
    have "reversal_known order (number_str (srq_invoice_number request)) (with_invoice_document_id answer i) (xs @ ys)"
      if "storno_response out (number_str (srq_invoice_number request)) = Ok answer" for answer
      by (rule storno_response_known [OF that]) (use 2 iv storno_named_append in auto)
    then show ?case using 2 sent
      by (intro yields_return) (auto simp: storno_done_def map_err_def try_then_Inr_iff split: sum.splits)
  qed
qed

lemma storno_yields:
  assumes w: "durable_writes (exe_remote exe) (exe_write exe)"
  shows "yields (storno_done exe order request) (storno exe order request)"
  unfolding storno_def Let_def
proof (rule then_ok_yields [OF verify_for_storno_yields], simp add: storno_done_read, goal_cases)
  case (1 verified xs)
  let ?num = "number_str (srq_invoice_number request)" and ?eid = "for_storno (exe_namespace exe) order (srq_invoice_number request)"
  show ?case
  proof (cases verified)
    case (Inl response)
    then show ?thesis using 1 by (auto intro!: yields_return simp: storno_done_read)
  next
    case d: (Inr d)
    show ?thesis
    proof (cases "from_verified (exe_wire exe) d (exe_account exe) ?num ?eid (srq_comment request) (srq_buyer_email request)")
      case (Inl fault)
      then show ?thesis using 1 d by (auto intro!: yields_return simp: then_ok_ret storno_done_read)
    next
      case (Inr intent)
      note iv = from_verified_Ok [OF Inr]
      show ?thesis unfolding d sum.case Inr then_ok_ret map_err_simps iv
      proof (rule then_ok_yields [OF storno_lookup_yields], goal_cases)
        case (1 e ys)
        then show ?case using \<open>writes xs = [] \<and> _\<close> by (simp add: storno_done_read)
      next
        case (2 answer ys)
        show ?case
        proof (cases answer)
          case None
          show ?thesis unfolding None option.case append_assoc [symmetric]
            by (rule storno_after_lookup_yields [OF w Inr]) (use 1 2 d None in \<open>auto simp: evid_append evid_absent_append\<close>)
        next
          case (Some response)
          have "reversal_known order ?num (with_invoice_document_id response i) (xs @ ys)" for i
            using reversal_known_append [of order ?num "with_invoice_document_id response i" xs ys] 2 Some
            by (simp add: reversal_known_def with_invoice_document_id_def)
          then show ?thesis using 1 2 Some by (auto intro!: yields_return simp: storno_done_read)
        qed
      qed
    qed
  qed
qed

section \<open>Properties\<close>

lemma atom_no_sep: "list_all is_atom_byte p \<Longrightarrow> 46 \<notin> set p \<and> 64 \<notin> set p"
  by (induction p) (auto simp: is_atom_byte_def is_alphanumeric_byte_def)

lemma label_no_dot: "valid_label l \<Longrightarrow> 46 \<notin> set l"
  by (auto simp: valid_label_def list_all_iff is_alphanumeric_byte_def)

text \<open>A notification recipient is accepted exactly when it is one mailbox of the documented shape: dot-separated
  nonempty atoms of at most 64 bytes, an at sign, dot-separated DNS labels of 1 to 63 letters, digits and
  inner hyphens, 254 bytes in all; and it is kept unchanged.\<close>

theorem storno_recipient_exact:
  "StornoRecipient_try_from v = Ok r \<longleftrightarrow> r = StornoRecipient v \<and> utf8_len v \<le> 254 \<and>
    (\<exists>parts labels. v = join_on 46 parts @ 64 # join_on 46 labels \<and> parts \<noteq> [] \<and> labels \<noteq> [] \<and> utf8_len (join_on 46 parts) \<le> 64 \<and>
       list_all (\<lambda>part. part \<noteq> [] \<and> list_all is_atom_byte part) parts \<and> list_all valid_label labels)"
    (is "_ \<longleftrightarrow> _ \<and> _ \<and> ?grammar")
proof -
  have "?grammar \<longleftrightarrow> (\<exists>a b. split_once 64 v = Some (a, b) \<and> valid_local a \<and> list_all valid_label (split_on 46 b))"
  proof
    assume ?grammar
    then obtain parts labels where g: "v = join_on 46 parts @ 64 # join_on 46 labels" "parts \<noteq> []" "labels \<noteq> []" "utf8_len (join_on 46 parts) \<le> 64"
        "list_all (\<lambda>part. part \<noteq> [] \<and> list_all is_atom_byte part) parts" "list_all valid_label labels" by blast
    have p: "\<forall>part \<in> set parts. 46 \<notin> set part \<and> 64 \<notin> set part" "\<forall>l \<in> set labels. 46 \<notin> set l"
      using g(5,6) atom_no_sep label_no_dot by (auto simp: list_all_iff)
    then have "64 \<notin> set (join_on 46 parts)" using join_on_set [of 46 parts] by auto
    then show "\<exists>a b. split_once 64 v = Some (a, b) \<and> valid_local a \<and> list_all valid_label (split_on 46 b)"
      using g p by (intro exI [of _ "join_on 46 parts"] exI [of _ "join_on 46 labels"]) (simp add: split_once_Some valid_local_def split_join)
  next
    assume "\<exists>a b. split_once 64 v = Some (a, b) \<and> valid_local a \<and> list_all valid_label (split_on 46 b)"
    then obtain a b where "v = a @ 64 # b" "valid_local a" "list_all valid_label (split_on 46 b)" by (auto simp: split_once_Some)
    then show ?grammar
      by (intro exI [of _ "split_on 46 a"] exI [of _ "split_on 46 b"]) (simp add: join_split valid_local_def)
  qed
  then show ?thesis
    by (auto simp: StornoRecipient_try_from_def split: option.split)
qed

text \<open>(C5) \<open>storno\<close> on an order sends nothing but one storno, of the invoice the caller named, under that storno's
  own external id and repeating the invoice's fulfilment date, and only after szamlazz.hu reported the
  invoice on this order as a live document that can be reversed and the storno's external id as free; a
  protected execution sends at most one. It answers \<open>reversed\<close> only on evidence: the storno it names was
  reported or acknowledged as a storno of that invoice, and an answer that names none rests on the invoice
  being reported reversed.\<close>

theorem storno_guarded:
  assumes "durable_writes (exe_remote exe) (exe_write exe)" "run_state (storno exe order request) w = (r, w')"
  shows "\<exists>xs. trace w' = trace w @ xs \<and>
     (writes xs = [] \<or> (\<exists>pre post s. xs = pre @ post \<and> writes pre = [] \<and> storno_justified exe order request s pre \<and> sends_storno exe s post)) \<and>
     (\<forall>answer. r = Ok answer \<longrightarrow> reversal_known order (number_str (srq_invoice_number request)) answer xs)"
  using storno_yields [OF assms(1), of order request] assms(2)
  unfolding yields_def storno_done_def storno_sent_def by (metis fst_conv snd_conv)

definition unmanaged_justified :: "'s Execution \<Rightarrow> StornoRequest \<Rightarrow> StornoInvoice \<Rightarrow> Event list \<Rightarrow> bool" where
  "unmanaged_justified exe request s xs \<longleftrightarrow> (let num = number_str (srq_invoice_number request);
       eid = for_unmanaged_storno (exe_namespace exe) (srq_invoice_number request) in
     si_external_id s = Some (external_str eid) \<and> si_invoice_number s = num \<and>
     (\<exists>d. evid xs (ByInvoiceNumber num) d \<and> order_number d = None \<and> is_live d \<and> si_fulfillment_date s = fulfillment_date d))"

definition unmanaged_sent :: "'s Execution \<Rightarrow> StornoRequest \<Rightarrow> Event list \<Rightarrow> bool" where
  "unmanaged_sent exe request xs \<longleftrightarrow> writes xs = [] \<or> (\<exists>pre post s. xs = pre @ post \<and> writes pre = [] \<and>
     unmanaged_justified exe request s pre \<and> list_all (\<lambda>e. \<exists>reply. e = SentStorno s reply) (writes post))"

lemma storno_step_yields:
  "yields (\<lambda>r xs. list_all (\<lambda>e. \<exists>reply. e = SentStorno (build_storno (exe_account exe) (as_step_request intent)) reply) (writes xs))
    (storno_step exe intent)"
  unfolding storno_step_def
  by (rule yields_weaken [OF run_operating_sends [OF storno_inner_yields,
        where P = "\<lambda>e. \<exists>reply. e = SentStorno (build_storno (exe_account exe) (as_step_request intent)) reply"]])
    (elim disjE exE conjE, auto)

lemma lookup_storno_read: "read_only (lookup_storno rm eid num)"
  unfolding lookup_storno_def by (rule yields_bind [OF storno_seen_yields]) (auto intro!: yields_return)

lemma storno_of_unmanaged_read: "read_only (storno_of_unmanaged exe num)"
  unfolding storno_of_unmanaged_def
  by (intro then_ok_yields [where R = "\<lambda>_ xs. writes xs = []"] yields_weaken [OF run_best_effort_yields [OF lookup_storno_read]])
    (auto intro!: yields_return)

lemma unmanaged_step_yields:
  assumes "writes xs = []" "unmanaged_justified exe request (build_storno (exe_account exe) (as_step_request intent)) xs"
  shows "yields (\<lambda>r ys. unmanaged_sent exe request (xs @ ys))
    (then_ok (do { r \<leftarrow> storno_step exe intent; ret (map_err f r) }) (\<lambda>out. ret (g out)))"
proof -
  have "unmanaged_sent exe request (xs @ ys)"
    if "list_all (\<lambda>e. \<exists>reply. e = SentStorno (build_storno (exe_account exe) (as_step_request intent)) reply) (writes ys)" for ys
    using assms that unfolding unmanaged_sent_def by blast
  then have "yields (\<lambda>r ys. unmanaged_sent exe request (xs @ ys)) (do { r \<leftarrow> storno_step exe intent; ret (map_err f r) })"
    by (intro yields_bind [OF storno_step_yields]) (auto intro!: yields_return)
  then show ?thesis by (rule then_ok_yields) (auto intro!: yields_return)
qed

lemma storno_by_number_yields: "yields (\<lambda>r xs. unmanaged_sent exe request xs) (storno_by_number exe is_nfc request)"
proof -
  let ?num = "number_str (srq_invoice_number request)" and ?eid = "for_unmanaged_storno (exe_namespace exe) (srq_invoice_number request)"
  have base: "yields (\<lambda>r xs. writes xs = [] \<and> (\<forall>d. r = Inr d \<longrightarrow> evid xs (ByInvoiceNumber ?num) d))
      (do { r \<leftarrow> verify_step exe name ?num; ret (try_then r (\<lambda>out. verified_document out ?num)) })" for name
    by (rule yields_bind [OF verify_step_yields])
      (auto intro!: yields_return simp: verified_document_def try_then_def split: sum.splits QueryOutcome.splits)
  have lookup: "read_only (do { r \<leftarrow> lookup_storno_step exe intent; ret (try_then r (\<lambda>looked_up. after_storno_lookup looked_up ?num)) })" for intent
    unfolding lookup_storno_step_def
    by (rule yields_bind [OF run_reading_yields [OF lookup_storno_read]]) (auto intro!: yields_return)
  show ?thesis unfolding storno_by_number_def Let_def
  proof (rule then_ok_yields [OF base], simp add: unmanaged_sent_def, goal_cases)
    case (1 d xs)
    show ?case
    proof (cases "unmanaged_storno_verdict is_nfc d ?num")
      case SV_Proceed
      then have d: "order_number d = None" "is_live d"
        by (auto simp: unmanaged_storno_verdict_def split: option.splits sum.splits if_splits)
      show ?thesis
      proof (cases "from_verified (exe_wire exe) d (exe_account exe) ?num ?eid (srq_comment request) (srq_buyer_email request)")
        case (Inl fault)
        then show ?thesis using 1 SV_Proceed by (auto intro!: yields_return simp: then_ok_ret unmanaged_sent_def)
      next
        case (Inr intent)
        have j: "unmanaged_justified exe request (build_storno (exe_account exe) (as_step_request intent)) (xs @ ys)" for ys
          using from_verified_Ok [OF Inr] d 1 unfolding unmanaged_justified_def Let_def by (auto simp: build_storno_sel)
        show ?thesis unfolding SV_Proceed StornoVerdict.case Inr then_ok_ret sum.case
        proof (rule then_ok_yields [OF lookup], goal_cases)
          case (2 answer ys)
          then show ?case
            using 1 unmanaged_step_yields [OF _ j [of ys]]
            by (cases answer) (auto intro!: yields_return simp: unmanaged_sent_def append_assoc [symmetric] simp del: append_assoc)
        qed (use 1 in \<open>simp add: unmanaged_sent_def\<close>)
      qed
    qed (use 1 in \<open>auto intro!: yields_return then_ok_yields [OF storno_of_unmanaged_read] simp: unmanaged_sent_def\<close>)
  qed
qed

text \<open>(C8) The by-number storno sends nothing but stornos of the invoice the caller named, all of them the same request
  under the by-number external id, and only after szamlazz.hu reported that invoice live and without an order
  number: an invoice that belongs to an order, whether or not its number can be an order key, is never
  reversed past the order's own object.\<close>

theorem storno_by_number_spares_orders:
  "\<exists>xs. trace (snd (run_state (storno_by_number exe is_nfc request) w)) = trace w @ xs \<and>
     (writes xs = [] \<or> (\<exists>pre post s. xs = pre @ post \<and> writes pre = [] \<and>
        unmanaged_justified exe request s pre \<and> list_all (\<lambda>e. \<exists>reply. e = SentStorno s reply) (writes post)))"
  using storno_by_number_yields [of exe request is_nfc]
  unfolding yields_def unmanaged_sent_def by blast

section \<open>A storno that is sent\<close>

definition ex_dated_doc :: "ustr option \<Rightarrow> InvoiceDocument" where
  "ex_dated_doc order = (ex_invoice_doc (Some False))\<lparr> doc_info := (doc_info (ex_invoice_doc (Some False)))
     \<lparr> info_order_number := order, info_fulfillment_date := Some (2026, 1, 1) \<rparr> \<rparr>"

definition ex_acknowledged :: CreatedInvoice where
  "ex_acknowledged = \<lparr> cr_invoice_number = us ''E-2'', cr_document_id = None, cr_net_total = None, cr_gross_total = Some (Decimal (-127) 0),
     cr_outstanding = None, cr_customer_account_url = None, cr_notification_delivery_failed = False \<rparr>"

lemma ex_acknowledged_reverses: "StornoReplyEvidence_of ex_acknowledged (us ''E-1'') = SRE_Reversal"
  by code_simp

definition ex_reversing :: "ustr option \<Rightarrow> unit Remote" where
  "ex_reversing order = scripted (\<lambda>sel. case sel of ByInvoiceNumber _ \<Rightarrow> Inr (ex_dated_doc order) | _ \<Rightarrow> Inl (code_error EC_MissingData))
     (Inl (CE_ServiceUnavailable []))
     (Inr (SR_Numbered ex_acknowledged)) (Inl (CE_ServiceUnavailable []))"

definition ex_storno_exe :: "ustr option \<Rightarrow> unit Execution" where
  "ex_storno_exe order = ex_execution (ex_reversing order) Protected"

definition ex_storno_request :: StornoRequest where
  "ex_storno_request = StornoRequest_new (InvoiceNumber (us ''E-1''))"

lemma ex_storno_simps:
  "exe_remote (ex_storno_exe order) = ex_reversing order" "exe_runtime (ex_storno_exe order) = ex_quiet"
  "exe_order_execution (ex_storno_exe order) = Protected"
  "exe_namespace (ex_storno_exe order) = Namespace (us ''acct'')" "wt_render (exe_wire (ex_storno_exe order)) doc = []"
  "exe_account (ex_storno_exe order) = Account_new (us ''a'') (us ''c'')"
  "exe_write (ex_storno_exe order) = unbroken_write (ex_reversing order) (us ''2026-01-01T00:00:00Z'') \<lparr> term_code = CANCELLED, term_message = [] \<rparr>"
  by (simp_all add: ex_storno_exe_def ex_execution_def)

lemma ex_reversing_simps:
  "rm_query (ex_reversing order) (ByExternalId eid) u = (Inl (code_error EC_MissingData), u)"
  "rm_query (ex_reversing order) (ByOrderNumber num) u = (Inl (code_error EC_MissingData), u)"
  "rm_query (ex_reversing order) (ByInvoiceNumber num) u = (Inr (ex_dated_doc order), u)"
  by (simp_all add: ex_reversing_def scripted_def)

abbreviation ex_original :: "ustr option \<Rightarrow> FoundDocument" where
  "ex_original order \<equiv> FoundDocument_from (ex_dated_doc order)"

lemma ex_verified: "\<exists>w1. run_state (verify_step (ex_storno_exe order) name (us ''E-1'')) w = (Ok (QO_Found (ex_original order)), w1)"
  by (simp add: verify_step_def run_reading_def run_operating_def ex_storno_simps ex_quiet_def read_run_defs ex_reversing_simps run_exchange_with send_defs
      query_result_def map_err_def outcome_def validate_identity_def ex_dated_doc_def ex_invoice_doc_def, code_simp)

lemma ex_original_simps:
  "carries_order (ex_original (Some (us ''ORD-1''))) ex_order" "is_live (ex_original order)" "is_stornoable (ex_original order)"
  "fulfillment_date (ex_original order) = Some (2026, 1, 1)" "order_number (ex_original None) = None"
proof -
  have "trim (us ''ORD-1'') = us ''ORD-1''" by code_simp
  then show "carries_order (ex_original (Some (us ''ORD-1''))) ex_order"
    by (simp add: carries_order_def ex_dated_doc_def ex_order_def trimmed_order_def del: us_Cons, simp)
qed (simp_all add: ex_dated_doc_def is_live_def is_stornoable_def FoundDocument_from_def Let_def ex_invoice_doc_def trimmed_order_def)

lemma ex_from_verified: "\<exists>intent. from_verified (exe_wire (ex_storno_exe order)) (ex_original order') account num eid comment email = Ok intent"
  by (simp add: from_verified_def ex_original_simps Let_def try_then_def validate_storno_def StornoInvoice_to_wire_def to_wire_def
      StornoInvoice_validate_def build_storno_def StornoInvoice_new_def as_step_request_def ex_storno_simps validate_xml_text_def)


lemma ex_verify_passes:
  "passes (verify_for_storno (ex_storno_exe (Some (us ''ORD-1''))) ex_order (us ''E-1'') eid) (Inr (ex_original (Some (us ''ORD-1''))))"
proof -
  have "passes (do { r \<leftarrow> verify_step (ex_storno_exe order) name (us ''E-1''); ret (map_err f (try_then r (\<lambda>out. verified_document out (us ''E-1'')))) })
      (ex_original order)" for order name f
    unfolding passes_def
  proof
    fix w
    obtain w1 where "run_state (verify_step (ex_storno_exe order) name (us ''E-1'')) w = (Ok (QO_Found (ex_original order)), w1)"
      using ex_verified by blast
    then show "\<exists>w1. run_state (do { r \<leftarrow> verify_step (ex_storno_exe order) name (us ''E-1''); ret (map_err f (try_then r (\<lambda>out. verified_document out (us ''E-1'')))) }) w =
        (Ok (ex_original order), w1)" by (simp add: verified_document_def del: us_Cons)
  qed
  then show ?thesis unfolding verify_for_storno_def
    by (rule passes_then) (simp add: storno_verdict_def ex_original_simps passes_def del: us_Cons)
qed

lemma ex_storno_lookup_passes:
  "passes (do { r \<leftarrow> run_reading (exe_runtime (ex_storno_exe order)) name (lookup_order_storno (exe_remote (ex_storno_exe order)) eid ord num);
      ret (map_err f (try_then r (\<lambda>looked_up. after_storno_lookup looked_up num))) }) None"
  by (simp add: passes_def run_reading_def run_operating_def ex_storno_simps ex_quiet_def lookup_order_storno_def lookup_order_storno_checked_def
      read_run_defs ex_reversing_simps run_exchange_with send_defs code_error_def query_result_def map_err_def after_storno_lookup_def)

lemma ex_protected_storno:
  assumes "ssr_invoice_number req = us ''E-1''"
  shows "\<exists>d w1. run_state (protected_storno (ex_reversing order) account req marker) w = (WR_Storno (StO_Reversed d), w1) \<and> writes (trace w1) \<noteq> []"
  using assms
  by (simp add: protected_storno_def lookup_order_storno_checked_def read_run_defs ex_reversing_def scripted_simps query_result_def protected_storno_result_def
      storno_send_def storno_reply_def storno_numbered_def build_storno_sel ex_acknowledged_reverses del: us_Cons)

lemma ex_storno_write_sends:
  assumes "sin_number intent = us ''E-1''"
  shows "sends (then_ok (storno_write (ex_storno_exe order) ex_order found intent) (\<lambda>out. ret (g out)))"
  unfolding sends_def
proof
  fix w
  let ?req = "as_step_request intent" and ?exe = "ex_storno_exe order"
  let ?call = "protected_storno_call (ex_reversing order) (exe_namespace ?exe) (exe_account ?exe) (exe_context ?exe) ex_order ?req"
  let ?p = "(wc_marker ?call)\<lparr> uw_created_at := us ''2026-01-01T00:00:00Z'' \<rparr>"
  have "ssr_invoice_number ?req = us ''E-1''" using assms by (simp add: as_step_request_def del: us_Cons)
  then obtain d w1 where run: "run_state (protected_storno (ex_reversing order) (exe_account ?exe) ?req ?p) w = (WR_Storno (StO_Reversed d), w1)" "writes (trace w1) \<noteq> []"
    using ex_protected_storno by blast
  have "run_state (exe_write ?exe ?call) w = (Ok (WR_Storno (StO_Reversed d)), w1)"
    using run(1) unfolding ex_storno_simps(7) unbroken_write_def
    by (simp add: storno_call_modes Let_def State_Monad.bind_def write_closure_def may_execute_def del: us_Cons)
      (simp add: call_defs del: us_Cons)
  then show "writes (trace (snd (run_state (then_ok (storno_write ?exe ex_order found intent) (\<lambda>out. ret (g out))) w))) \<noteq> []"
    using run(2) by (simp add: storno_write_def then_ok_def ex_storno_simps permits_replay_def storno_result_def del: us_Cons)
qed

lemma ex_storno_sends: "sends (storno (ex_storno_exe (Some (us ''ORD-1''))) ex_order ex_storno_request)"
proof -
  let ?exe = "ex_storno_exe (Some (us ''ORD-1''))" and ?d = "ex_original (Some (us ''ORD-1''))"
  let ?eid = "for_storno (exe_namespace ?exe) ex_order (InvoiceNumber (us ''E-1''))"
  obtain intent where i: "from_verified (exe_wire ?exe) ?d (exe_account ?exe) (us ''E-1'') ?eid None None = Ok intent"
    using ex_from_verified by blast
  note iv = from_verified_Ok [OF i]
  show ?thesis
    unfolding storno_def Let_def ex_storno_request_def StornoRequest_new_def StornoRequest.select_convs InvoiceNumber.sel
    by (rule sends_then [OF ex_verify_passes], unfold sum.case i then_ok_ret map_err_simps, rule sends_then [OF ex_storno_lookup_passes])
      (unfold option.case, rule ex_storno_write_sends [OF iv(4)])
qed

theorem storno_guarded_witness:
  "\<exists>pre post s. trace (snd (run_state (storno (ex_storno_exe (Some (us ''ORD-1''))) ex_order ex_storno_request) no_world)) = pre @ post \<and>
     writes pre = [] \<and> writes post \<noteq> [] \<and> storno_justified (ex_storno_exe (Some (us ''ORD-1''))) ex_order ex_storno_request s pre \<and>
     sends_storno (ex_storno_exe (Some (us ''ORD-1''))) s post"
proof -
  let ?exe = "ex_storno_exe (Some (us ''ORD-1''))"
  have sent: "writes (trace (snd (run_state (storno ?exe ex_order ex_storno_request) no_world))) \<noteq> []"
    using ex_storno_sends by (simp add: sends_def)
  have "durable_writes (exe_remote ?exe) (exe_write ?exe)" by (simp add: ex_storno_simps unbroken_write_durable del: us_Cons)
  from storno_guarded [OF this surjective_pairing, of ex_order ex_storno_request no_world]
  obtain pre post s where "trace (snd (run_state (storno ?exe ex_order ex_storno_request) no_world)) = pre @ post"
    "writes pre = []" "storno_justified ?exe ex_order ex_storno_request s pre" "sends_storno ?exe s post"
    using sent by (auto simp: no_world_def simp del: us_Cons)
  moreover from this have "writes post \<noteq> []" using sent by auto
  ultimately show ?thesis by blast
qed

end
