(* ===== verification/Delete_Service.thy ===== *)
theory Delete_Service
  imports Storno_Service
begin

text \<open>
  \<open>Szamlazz.Order.delete_proforma\<close> (\<open>service/delete.rs\<close>, with its contract in \<open>contract/storno.rs\<close>): the selection of the
  target by ownership or by number, its guards, and the durable deletion.
\<close>

section \<open>The contract\<close>

definition DeleteProformaRequest_new :: "InvoiceNumber \<Rightarrow> bool \<Rightarrow> DeleteProformaRequest" where
  "DeleteProformaRequest_new expected_number force =
    \<lparr> dpr_expected_number = expected_number, dpr_mode = NamespaceOwned, dpr_force = force \<rparr>"

datatype DeleteStatus = DS_Deleted | DS_Absent | DS_Conflict | DS_Rejected | DS_Other ustr

primrec DeleteStatus_as_str :: "DeleteStatus \<Rightarrow> ustr" where
  "DeleteStatus_as_str DS_Deleted = us ''deleted''"
| "DeleteStatus_as_str DS_Absent = us ''absent''"
| "DeleteStatus_as_str DS_Conflict = us ''conflict''"
| "DeleteStatus_as_str DS_Rejected = us ''rejected''"
| "DeleteStatus_as_str (DS_Other token) = token"

definition DeleteStatus_arms :: "(ustr \<times> DeleteStatus) list" where
  "DeleteStatus_arms = [(us ''deleted'', DS_Deleted), (us ''absent'', DS_Absent), (us ''conflict'', DS_Conflict), (us ''rejected'', DS_Rejected)]"

definition DeleteStatus_from :: "ustr \<Rightarrow> DeleteStatus" where
  "DeleteStatus_from token = match_token DeleteStatus_arms DS_Other token"

datatype DeleteReason = DR_ProformaPaid | DR_ExternalIdCollision | DR_TargetChanged | DR_Other ustr

primrec DeleteReason_as_str :: "DeleteReason \<Rightarrow> ustr" where
  "DeleteReason_as_str DR_ProformaPaid = us ''proforma_paid''"
| "DeleteReason_as_str DR_ExternalIdCollision = us ''external_id_collision''"
| "DeleteReason_as_str DR_TargetChanged = us ''target_changed''"
| "DeleteReason_as_str (DR_Other reason) = reason"

definition DeleteReason_arms :: "(ustr \<times> DeleteReason) list" where
  "DeleteReason_arms = [(us ''proforma_paid'', DR_ProformaPaid), (us ''external_id_collision'', DR_ExternalIdCollision),
     (us ''target_changed'', DR_TargetChanged)]"

definition DeleteReason_from :: "ustr \<Rightarrow> DeleteReason" where
  "DeleteReason_from token = match_token DeleteReason_arms DR_Other token"

interpretation delete_statuses: open_tokens DeleteStatus_arms DS_Other DeleteStatus_as_str
proof unfold_locales
  show "v \<in> snd ` set DeleteStatus_arms \<or> (\<exists>s. v = DS_Other s)" for v
    by (cases v) (simp_all add: DeleteStatus_arms_def)
qed (simp_all add: DeleteStatus_arms_def)

interpretation delete_reasons: open_tokens DeleteReason_arms DR_Other DeleteReason_as_str
proof unfold_locales
  show "v \<in> snd ` set DeleteReason_arms \<or> (\<exists>s. v = DR_Other s)" for v
    by (cases v) (simp_all add: DeleteReason_arms_def)
qed (simp_all add: DeleteReason_arms_def)

record DeleteProformaResponse =
  dps_outcome :: DeleteStatus
  dps_reason :: "DeleteReason option"
  dps_code :: "ustr option"
  dps_message :: "ustr option"

definition delete_deleted :: DeleteProformaResponse where
  "delete_deleted = \<lparr> dps_outcome = DS_Deleted, dps_reason = None, dps_code = None, dps_message = None \<rparr>"

definition delete_absent :: DeleteProformaResponse where
  "delete_absent = \<lparr> dps_outcome = DS_Absent, dps_reason = None, dps_code = None, dps_message = None \<rparr>"

definition delete_conflict :: "DeleteReason \<Rightarrow> DeleteProformaResponse" where
  "delete_conflict reason = \<lparr> dps_outcome = DS_Conflict, dps_reason = Some reason, dps_code = None, dps_message = None \<rparr>"

definition delete_rejected :: "ustr \<Rightarrow> ustr \<Rightarrow> DeleteProformaResponse" where
  "delete_rejected code message = \<lparr> dps_outcome = DS_Rejected, dps_reason = None, dps_code = Some code, dps_message = Some message \<rparr>"

section \<open>The guards\<close>

text \<open>A guard answers (\<open>Inl\<close>) or pins the target (\<open>Inr\<close>).\<close>

definition paid_guard :: "FoundDocument \<Rightarrow> bool \<Rightarrow> DeleteProformaResponse + FoundDocument" where
  "paid_guard found force = (if credit_entries found \<noteq> [] \<and> \<not> force then Inl (delete_conflict DR_ProformaPaid) else Inr found)"

definition named_delete_guard :: "FoundDocument QueryOutcome \<Rightarrow> OrderKey \<Rightarrow> bool \<Rightarrow> (DeleteProformaResponse + FoundDocument, Fault) result" where
  "named_delete_guard out order force = (case out of
     QO_Found found \<Rightarrow>
       if \<not> is_ours found order IK_Proforma then Ok (Inl (delete_conflict DR_TargetChanged)) else Ok (paid_guard found force)
   | QO_NotFound \<Rightarrow> Ok (Inl delete_absent)
   | QO_Api answer \<Rightarrow> Err (into_fault (AnC_Inconclusive answer))
   | QO_CredentialsRejected answer \<Rightarrow> Err (into_fault (AnC_CredentialsRejected answer)))"

definition delete_guard :: "OwnershipOutcome \<Rightarrow> bool \<Rightarrow> (DeleteProformaResponse + FoundDocument, Fault) result" where
  "delete_guard out force = (case out of
     OO_Absent \<Rightarrow> Ok (Inl delete_absent)
   | OO_Collision _ \<Rightarrow> Ok (Inl (delete_conflict DR_ExternalIdCollision))
   | OO_Live found \<Rightarrow> Ok (paid_guard found force)
   | OO_Reversed found \<Rightarrow> Ok (paid_guard found force)
   | OO_Api answer \<Rightarrow> Err (into_fault (AnC_Inconclusive answer))
   | OO_CredentialsRejected answer \<Rightarrow> Err (into_fault (AnC_CredentialsRejected answer)))"

definition DELETE_RECOVERY :: ustr where
  "DELETE_RECOVERY = msg ''read get and query the expected number; get covers only namespace-owned documents and absence cannot settle deletion; reconcile the earlier send, then, if deletion is still intended, retry with a new Idempotency-Key and the same expected_number and mode; never substitute a replacement automatically''"

definition delete_unknown :: "ustr \<Rightarrow> Fault" where
  "delete_unknown lost = Fault_outcome_unknown (msg ''proforma deletion outcome unknown: '' @ lost
     @ msg ''; deletion may have landed: '' @ DELETE_RECOVERY)"

definition delete_response :: "DeleteOutcome \<Rightarrow> (DeleteProformaResponse, Fault) result" where
  "delete_response out = (case out of
     DO_Deleted \<Rightarrow> Ok delete_deleted
   | DO_AlreadyGone \<Rightarrow> Ok delete_absent
   | DO_Rejected rejection \<Rightarrow>
       if rej_code rejection = RC_Request then Err (Fault_invalid_input (rej_message rejection))
       else Ok (delete_rejected (RejectionCode_as_str (rej_code rejection)) (rej_message rejection))
   | DO_TargetChanged \<Rightarrow> Ok (delete_conflict DR_TargetChanged)
   | DO_Paid \<Rightarrow> Ok (delete_conflict DR_ProformaPaid)
   | DO_Api answer \<Rightarrow> Err (into_fault (AnC_Inconclusive answer))
   | DO_GuardFailed cause \<Rightarrow> Err (Fault_unavailable (msg ''could not refresh the pinned proforma before deletion: ''
       @ Unanswered_display cause @ msg ''; the outcome is not known; '' @ DELETE_RECOVERY))
   | DO_CredentialsRejected answer \<Rightarrow> Err (into_fault (AnC_CredentialsRejected answer))
   | DO_Lost lost \<Rightarrow> Err (delete_unknown (Unanswered_display lost))
   | DO_Inconclusive answer \<Rightarrow> Err (with_szamlazz_code (delete_unknown (SzamlazzAnswer_display answer)) (ans_code answer)))"

section \<open>The handler\<close>

definition delete_select :: "'s Execution \<Rightarrow> OrderKey \<Rightarrow> DeleteProformaRequest \<Rightarrow> ('s, (DeleteProformaResponse + FoundDocument, Fault) result) prog" where
  "delete_select exe order request =
    (let proforma_id = for_kind (exe_namespace exe) order DK_Proforma; about' = (\<lambda>fault. about fault order (Some IK_Proforma) proforma_id);
         num = number_str (dpr_expected_number request) in
     case dpr_mode request of
       NamespaceOwned \<Rightarrow>
         then_ok (lookup_read exe (us ''lookup-proforma'') proforma_id order (IssuedKind_from DK_Proforma)) (\<lambda>found. ret
           (if (case found of OO_Live doc \<Rightarrow> number doc \<noteq> num | OO_Reversed doc \<Rightarrow> number doc \<noteq> num | _ \<Rightarrow> False)
            then Ok (Inl (delete_conflict DR_TargetChanged))
            else map_err about' (delete_guard found (dpr_force request))))
     | NamedTarget \<Rightarrow>
         then_ok (do { r \<leftarrow> verify_step exe (us ''verify-proforma-'' @ num) num; ret (map_err about' r) }) (\<lambda>found.
           ret (map_err about' (named_delete_guard found order (dpr_force request)))))"

definition delete_result :: "WriteResult \<Rightarrow> (DeleteOutcome, Fault) result" where
  "delete_result result = (case result of WR_Delete out \<Rightarrow> Ok out | _ \<Rightarrow> Err (Fault_outcome_unknown (msg ''unexpected recovery operation'')))"

definition delete :: "'s Execution \<Rightarrow> OrderKey \<Rightarrow> DeleteProformaRequest \<Rightarrow> ('s, (DeleteProformaResponse, Fault) result) prog" where
  "delete exe order request =
    (let proforma_id = for_kind (exe_namespace exe) order DK_Proforma; about' = (\<lambda>fault. about fault order (Some IK_Proforma) proforma_id) in
     then_ok (delete_select exe order request) (\<lambda>selection. case selection of
       Inl response \<Rightarrow> ret (Ok response)
     | Inr found \<Rightarrow>
         (let target_fault = (\<lambda>fault. about' (fault\<lparr> f_message := msg ''proforma '' @ number found @ us '': '' @ f_message fault \<rparr>)) in
          then_ok (exe_write exe (if permits_replay (exe_order_execution exe)
              then replay_delete_call (exe_remote exe) (exe_namespace exe) (exe_account exe) (exe_context exe) order proforma_id found request
              else protected_delete_call (exe_remote exe) (exe_namespace exe) (exe_account exe) (exe_context exe) order found (dpr_force request))) (\<lambda>result.
          then_ok (ret (delete_result result)) (\<lambda>out.
          ret (map_err target_fault (delete_response out)))))))"

section \<open>What a deletion rests on\<close>

definition delete_justified :: "'s Execution \<Rightarrow> OrderKey \<Rightarrow> DeleteProformaRequest \<Rightarrow> Event list \<Rightarrow> bool" where
  "delete_justified exe order request xs \<longleftrightarrow> (\<exists>d. number d = number_str (dpr_expected_number request) \<and> is_ours d order IK_Proforma \<and>
     (dpr_force request \<or> credit_entries d = []) \<and>
     evid xs (case dpr_mode request of
        NamespaceOwned \<Rightarrow> ByExternalId (external_str (for_kind (exe_namespace exe) order DK_Proforma))
      | NamedTarget \<Rightarrow> ByInvoiceNumber (number_str (dpr_expected_number request))) d)"

definition sends_delete :: "'s Execution \<Rightarrow> ustr \<Rightarrow> Event list \<Rightarrow> bool" where
  "sends_delete exe num xs \<longleftrightarrow> list_all (\<lambda>e. \<exists>reply. e = SentDelete num reply) (writes xs) \<and>
     (\<not> permits_replay (exe_order_execution exe) \<longrightarrow> length (writes xs) \<le> 1)"

lemma delete_select_yields:
  "yields (\<lambda>r xs. writes xs = [] \<and> (\<forall>a. r = Inr (Inl a) \<longrightarrow> dps_outcome a \<noteq> DS_Deleted) \<and>
      (\<forall>d. r = Inr (Inr d) \<longrightarrow> number d = number_str (dpr_expected_number request) \<and> delete_justified exe order request xs))
    (delete_select exe order request)"
proof (cases "dpr_mode request")
  case NamespaceOwned
  show ?thesis unfolding delete_select_def Let_def NamespaceOwned DeleteMode.case
  proof (rule then_ok_yields [OF lookup_read_yields], simp, rule yields_return, goal_cases)
    case (1 out xs)
    then show ?case using NamespaceOwned
      by (cases out) (auto simp: delete_guard_def paid_guard_def delete_justified_def holder_evid_def map_err_def
          delete_conflict_def delete_absent_def)
  qed
next
  case NamedTarget
  have v: "yields (\<lambda>r xs. writes xs = [] \<and> (\<forall>d. r = Inr (QO_Found d) \<longrightarrow> evid xs (ByInvoiceNumber num) d))
      (do { r \<leftarrow> verify_step exe name num; ret (map_err f r) })" for name num f
    by (rule yields_bind [OF verify_step_yields]) (auto intro!: yields_return simp: map_err_def split: sum.splits)
  show ?thesis unfolding delete_select_def Let_def NamedTarget DeleteMode.case
  proof (rule then_ok_yields [OF v], simp, rule yields_return, goal_cases)
    case (1 out xs)
    then show ?case using NamedTarget
      by (cases out) (auto simp: named_delete_guard_def paid_guard_def delete_justified_def map_err_def
          delete_conflict_def delete_absent_def dest: evid_number)
  qed
qed

lemma delete_call_modes:
  "wc_mode (protected_delete_call rm namespace account ctx order found force) = Protected"
  by (simp add: call_defs)

lemma delete_write_yields:
  assumes w: "durable_writes (exe_remote exe) (exe_write exe)"
  shows "yields (\<lambda>r xs. sends_delete exe (number found) xs \<and> (r = Inr (WR_Delete DO_Deleted) \<longrightarrow> SentDelete (number found) (Inr ()) \<in> set xs))
    (exe_write exe (if permits_replay (exe_order_execution exe)
       then replay_delete_call (exe_remote exe) (exe_namespace exe) (exe_account exe) (exe_context exe) order eid found request
       else protected_delete_call (exe_remote exe) (exe_namespace exe) (exe_account exe) (exe_context exe) order found force))"
proof -
  define call where "call = (if permits_replay (exe_order_execution exe)
       then replay_delete_call (exe_remote exe) (exe_namespace exe) (exe_account exe) (exe_context exe) order eid found request
       else protected_delete_call (exe_remote exe) (exe_namespace exe) (exe_account exe) (exe_context exe) order found force)"
  have sw: "service_write (exe_remote exe) call (sent_delete (number found)) (delete_sound (number found))"
    by (simp add: call_def service_write.intros(3,6))
  have m: "\<not> permits_replay (exe_order_execution exe) \<Longrightarrow> wc_mode call = Protected" by (simp add: call_def delete_call_modes)
  have "sends_delete exe (number found) xs \<and> (r = Inr (WR_Delete DO_Deleted) \<longrightarrow> SentDelete (number found) (Inr ()) \<in> set xs)"
    if "write_outcome call (sent_delete (number found)) (delete_sound (number found)) r xs" for r xs
    using that m
    by (auto simp: write_outcome_def sends_delete_def sent_delete_def one_write_def delete_sound_def marker_evidence_def list_all_iff split: if_splits)
  then show ?thesis unfolding call_def [symmetric] by (intro yields_weaken [OF durable_write_yields [OF w sw]]) blast
qed

text \<open>(C6) \<open>delete_proforma\<close> sends nothing but deletions of the proforma number the caller expected, and only after
  szamlazz.hu reported that number on this order as a proforma, in the namespace's own slot or by its number as
  the caller chose, without a credit entry unless the caller forces it; a protected execution sends at most
  one. It answers \<open>deleted\<close> only when szamlazz.hu acknowledged the deletion of that number.\<close>

theorem delete_guarded:
  assumes "durable_writes (exe_remote exe) (exe_write exe)" "run_state (delete exe order request) w = (r, w')"
  shows "\<exists>xs. trace w' = trace w @ xs \<and>
     (writes xs = [] \<or> (\<exists>pre post. xs = pre @ post \<and> writes pre = [] \<and> delete_justified exe order request pre \<and>
        sends_delete exe (number_str (dpr_expected_number request)) post)) \<and>
     (\<forall>answer. r = Ok answer \<and> dps_outcome answer = DS_Deleted \<longrightarrow> SentDelete (number_str (dpr_expected_number request)) (Inr ()) \<in> set xs)"
proof -
  let ?num = "number_str (dpr_expected_number request)"
  let ?Q = "\<lambda>r xs. (writes xs = [] \<or> (\<exists>pre post. xs = pre @ post \<and> writes pre = [] \<and> delete_justified exe order request pre \<and>
        sends_delete exe ?num post)) \<and> (\<forall>answer. r = Ok answer \<and> dps_outcome answer = DS_Deleted \<longrightarrow> SentDelete ?num (Inr ()) \<in> set xs)"
  have "yields ?Q (delete exe order request)" unfolding delete_def Let_def
  proof (rule then_ok_yields [OF delete_select_yields], simp, goal_cases)
    case (1 selection xs)
    show ?case
    proof (cases selection)
      case (Inl a)
      then show ?thesis using 1 by (auto intro!: yields_return)
    next
      case (Inr d)
      then have d: "number d = ?num" "delete_justified exe order request xs" "writes xs = []" using 1 by auto
      have sent: "writes (xs @ ys) = [] \<or> (\<exists>pre post. xs @ ys = pre @ post \<and> writes pre = [] \<and> delete_justified exe order request pre \<and>
          sends_delete exe ?num post)" if "sends_delete exe ?num ys" for ys using that d by blast
      show ?thesis unfolding Inr sum.case
      proof (rule then_ok_yields [OF delete_write_yields [OF assms(1)]], goal_cases)
        case (2 result ys)
        have "result = WR_Delete DO_Deleted" if "delete_result result = Inr out" "delete_response out = Ok answer" "dps_outcome answer = DS_Deleted" for out answer
          using that by (cases result; cases out)
            (auto simp: delete_result_def delete_response_def delete_absent_def delete_conflict_def delete_rejected_def split: if_splits)
        then show ?case using 2 sent [of ys] d
          by (auto simp: then_ok_ret map_err_def intro!: yields_return split: sum.split)
      qed (use sent d in auto)
    qed
  qed
  then show ?thesis using assms(2) unfolding yields_def by (metis fst_conv snd_conv)
qed

section \<open>A deletion that is sent\<close>

definition ex_proforma_doc :: InvoiceDocument where
  "ex_proforma_doc = (ex_invoice_doc (Some False))\<lparr> doc_info := (doc_info (ex_invoice_doc (Some False)))\<lparr> info_document_type := DT_Proforma \<rparr> \<rparr>"

definition ex_deleting :: "unit Remote" where
  "ex_deleting = scripted (\<lambda>_. Inr ex_proforma_doc) (Inl (CE_ServiceUnavailable [])) (Inl (CE_ServiceUnavailable [])) (Inr ())"

definition ex_delete_exe :: "unit Execution" where
  "ex_delete_exe = ex_execution ex_deleting Protected"

definition ex_delete_request :: DeleteProformaRequest where
  "ex_delete_request = DeleteProformaRequest_new (InvoiceNumber (us ''E-1'')) False"

lemma ex_delete_simps:
  "exe_remote ex_delete_exe = ex_deleting" "exe_runtime ex_delete_exe = ex_quiet" "exe_order_execution ex_delete_exe = Protected"
  "exe_write ex_delete_exe = unbroken_write ex_deleting (us ''2026-01-01T00:00:00Z'') \<lparr> term_code = CANCELLED, term_message = [] \<rparr>"
  by (simp_all add: ex_delete_exe_def ex_execution_def)

abbreviation ex_proforma :: FoundDocument where
  "ex_proforma \<equiv> FoundDocument_from ex_proforma_doc"

lemma ex_proforma_simps:
  "query_result (ByExternalId s) FoundDocument_from (Inr ex_proforma_doc) = Inr ex_proforma"
  "query_result (ByInvoiceNumber (us ''E-1'')) FoundDocument_from (Inr ex_proforma_doc) = Inr ex_proforma"
  "is_ours ex_proforma ex_order IK_Proforma" "number ex_proforma = us ''E-1''" "info_invoice_number (doc_info ex_proforma_doc) = us ''E-1''" "credit_entries ex_proforma = []" "is_live ex_proforma"
  using ex_number_nonblank
  by (auto simp: query_result_Ok_iff validate_identity_Ok_iff selected_number_def ex_proforma_doc_def ex_invoice_doc_def ex_order_def
      is_ours_def carries_order_def is_live_def FoundDocument_from_def trimmed_order_def)

lemma ex_delete_selects: "passes (delete_select ex_delete_exe ex_order ex_delete_request) (Inr ex_proforma)"
  by (simp add: passes_def delete_select_def Let_def ex_delete_request_def DeleteProformaRequest_new_def then_ok_def lookup_read_def
      run_reading_def run_operating_def ex_delete_simps ex_quiet_def read_run_defs ex_deleting_def scripted_simps ex_proforma_simps
      seen_result_def outcome_def map_err_def delete_guard_def paid_guard_def del: us_Cons)

lemma ex_delete_proforma: "\<exists>w1. run_state (delete_proforma ex_deleting ex_proforma ex_order False) w = (DO_Deleted, w1) \<and> writes (trace w1) \<noteq> []"
  by (simp add: delete_proforma_def read_run_defs ex_deleting_def scripted_simps ex_proforma_simps delete_check_def delete_reply_def del: us_Cons)

lemma ex_delete_sends: "sends (delete ex_delete_exe ex_order ex_delete_request)"
proof -
  let ?exe = ex_delete_exe
  let ?call = "protected_delete_call ex_deleting (exe_namespace ?exe) (exe_account ?exe) (exe_context ?exe) ex_order ex_proforma False"
  have force: "dpr_force ex_delete_request = False" by (simp add: ex_delete_request_def DeleteProformaRequest_new_def)
  have "\<exists>w1. run_state (exe_write ?exe ?call) w = (Ok (WR_Delete DO_Deleted), w1) \<and> writes (trace w1) \<noteq> []" for w
  proof -
    obtain w1 where run: "run_state (delete_proforma ex_deleting ex_proforma ex_order False) w = (DO_Deleted, w1)" "writes (trace w1) \<noteq> []"
      using ex_delete_proforma by blast
    have "run_state (exe_write ?exe ?call) w = (Ok (WR_Delete DO_Deleted), w1)"
      using run(1) unfolding ex_delete_simps unbroken_write_def
      by (simp add: delete_call_modes Let_def State_Monad.bind_def write_closure_def may_execute_def del: us_Cons)
        (simp add: call_defs WriteResult_delete_def del: us_Cons)
    with run(2) show ?thesis by blast
  qed
  then have "sends (then_ok (exe_write ?exe ?call) (\<lambda>result. then_ok (ret (delete_result result)) (\<lambda>out. ret (g out))))" for g
    unfolding sends_def
  proof (intro allI, goal_cases)
    case (1 w)
    then obtain w1 where "run_state (exe_write ?exe ?call) w = (Ok (WR_Delete DO_Deleted), w1)" "writes (trace w1) \<noteq> []" by blast
    then show ?case by (simp add: then_ok_def delete_result_def del: us_Cons)
  qed
  then show ?thesis unfolding delete_def Let_def
    by (intro sends_then [OF ex_delete_selects])
      (simp add: ex_delete_simps permits_replay_def force del: us_Cons)
qed

theorem delete_guarded_witness:
  "\<exists>pre post. trace (snd (run_state (delete ex_delete_exe ex_order ex_delete_request) no_world)) = pre @ post \<and>
     writes pre = [] \<and> writes post \<noteq> [] \<and> delete_justified ex_delete_exe ex_order ex_delete_request pre \<and>
     sends_delete ex_delete_exe (us ''E-1'') post"
proof -
  have sent: "writes (trace (snd (run_state (delete ex_delete_exe ex_order ex_delete_request) no_world))) \<noteq> []"
    using ex_delete_sends by (simp add: sends_def)
  have num: "number_str (dpr_expected_number ex_delete_request) = us ''E-1''"
    by (simp add: ex_delete_request_def DeleteProformaRequest_new_def)
  have "durable_writes (exe_remote ex_delete_exe) (exe_write ex_delete_exe)" by (simp add: ex_delete_simps unbroken_write_durable del: us_Cons)
  from delete_guarded [OF this surjective_pairing, of ex_order ex_delete_request no_world]
  obtain pre post where "trace (snd (run_state (delete ex_delete_exe ex_order ex_delete_request) no_world)) = pre @ post"
    "writes pre = []" "delete_justified ex_delete_exe ex_order ex_delete_request pre" "sends_delete ex_delete_exe (us ''E-1'') post"
    using sent unfolding num by (auto simp: no_world_def simp del: us_Cons)
  moreover from this have "writes post \<noteq> []" using sent by auto
  ultimately show ?thesis by blast
qed

end
