(* ===== verification/Status_Service.thy ===== *)
theory Status_Service
  imports Delete_Service
begin

text \<open>
  \<open>Szamlazz.Order.get\<close> (\<open>service/status.rs\<close>, with its contract in \<open>contract/storno.rs\<close>): the status of the order's four
  document slots, folded from four reads in sequence, and the open enumeration of document states with its
  wire form.  A JSON value is data here; reading and writing JSON text is \<open>serde_json\<close>'s.
\<close>

section \<open>The contract\<close>

datatype Json = J_Null | J_Bool bool | J_Number ustr | J_String ustr | J_Array "Json list" | J_Object "(ustr \<times> Json) list"

datatype DocumentState = DSt_Live | DSt_Reversed "ustr option" | DSt_Consumed ustr | DSt_Other ustr "(ustr \<times> Json) list"

definition DocumentState_KNOWN :: "ustr list" where
  "DocumentState_KNOWN = [us ''live'', us ''reversed'', us ''consumed'']"

primrec DocumentState_as_str :: "DocumentState \<Rightarrow> ustr" where
  "DocumentState_as_str DSt_Live = us ''live''"
| "DocumentState_as_str (DSt_Reversed _) = us ''reversed''"
| "DocumentState_as_str (DSt_Consumed _) = us ''consumed''"
| "DocumentState_as_str (DSt_Other state _) = state"

text \<open>The derived serializer: the tag \<open>state\<close> and the variant's payload, beside the payload of the flattening struct.\<close>

primrec DocumentState_fields :: "DocumentState \<Rightarrow> (ustr \<times> Json) list" where
  "DocumentState_fields DSt_Live = []"
| "DocumentState_fields (DSt_Reversed storno_number) =
    [(us ''storno_number'', case storno_number of None \<Rightarrow> J_Null | Some n \<Rightarrow> J_String n)]"
| "DocumentState_fields (DSt_Consumed by) = [(us ''by'', J_String by)]"
| "DocumentState_fields (DSt_Other _ payload) = payload"

definition DocumentState_serialize :: "DocumentState \<Rightarrow> (ustr \<times> Json) list" where
  "DocumentState_serialize state = (us ''state'', J_String (DocumentState_as_str state)) # DocumentState_fields state"

text \<open>The deserializer over the payload of an object: the tag is read as a string, the rest is the payload.\<close>

definition DocumentState_deserialize :: "(ustr \<times> Json) list \<Rightarrow> (DocumentState, ustr) result" where
  "DocumentState_deserialize object = (case map_of object (us ''state'') of
     Some (J_String state) \<Rightarrow>
       (let payload = filter (\<lambda>f. fst f \<noteq> us ''state'') object in
        if state = us ''live'' then Ok DSt_Live
        else if state = us ''reversed'' then (case map_of payload (us ''storno_number'') of
            None \<Rightarrow> Ok (DSt_Reversed None)
          | Some J_Null \<Rightarrow> Ok (DSt_Reversed None)
          | Some (J_String n) \<Rightarrow> Ok (DSt_Reversed (Some n))
          | Some _ \<Rightarrow> Err (us ''invalid type''))
        else if state = us ''consumed'' then (case map_of payload (us ''by'') of
            None \<Rightarrow> Err (us ''missing field `by`'')
          | Some (J_String by) \<Rightarrow> Ok (DSt_Consumed by)
          | Some _ \<Rightarrow> Err (us ''invalid type''))
        else Ok (DSt_Other state payload))
   | Some _ \<Rightarrow> Err (us ''invalid type'')
   | None \<Rightarrow> Err (us ''missing field `state`''))"

record DocumentStatus =
  dst_number :: ustr
  dst_document_id :: "int option"
  dst_state :: DocumentState
  dst_gross :: "Decimal option"
  dst_net :: "Decimal option"
  dst_credit_entry_amounts :: "Decimal list"
  dst_referenced_proforma :: "ustr option"
  dst_e_invoice :: "bool option"

definition DocumentStatus_new :: "ustr \<Rightarrow> DocumentState \<Rightarrow> DocumentStatus" where
  "DocumentStatus_new num state = \<lparr> dst_number = num, dst_document_id = None, dst_state = state, dst_gross = None, dst_net = None,
     dst_credit_entry_amounts = [], dst_referenced_proforma = None, dst_e_invoice = None \<rparr>"

record OrderStatus =
  ost_proforma :: "DocumentStatus option"
  ost_invoice :: "DocumentStatus option"
  ost_prepayment :: "DocumentStatus option"
  ost_final :: "DocumentStatus option"
  ost_collisions :: "DocumentKind list"

definition OrderStatus_default :: OrderStatus where
  "OrderStatus_default = \<lparr> ost_proforma = None, ost_invoice = None, ost_prepayment = None, ost_final = None, ost_collisions = [] \<rparr>"

primrec OrderStatus_get :: "DocumentKind \<Rightarrow> OrderStatus \<Rightarrow> DocumentStatus option" where
  "OrderStatus_get DK_Proforma = ost_proforma"
| "OrderStatus_get DK_Invoice = ost_invoice"
| "OrderStatus_get DK_Prepayment = ost_prepayment"
| "OrderStatus_get DK_Final = ost_final"

primrec OrderStatus_set :: "DocumentKind \<Rightarrow> DocumentStatus option \<Rightarrow> OrderStatus \<Rightarrow> OrderStatus" where
  "OrderStatus_set DK_Proforma v = ost_proforma_update (\<lambda>_. v)"
| "OrderStatus_set DK_Invoice v = ost_invoice_update (\<lambda>_. v)"
| "OrderStatus_set DK_Prepayment v = ost_prepayment_update (\<lambda>_. v)"
| "OrderStatus_set DK_Final v = ost_final_update (\<lambda>_. v)"

lemma OrderStatus_get_set [simp]: "OrderStatus_get k (OrderStatus_set k' v st) = (if k = k' then v else OrderStatus_get k st)"
  "ost_collisions (OrderStatus_set k' v st) = ost_collisions st"
  by (cases k; cases k'; simp) (cases k'; simp)

section \<open>The projection and the fold\<close>

definition document_status :: "FoundDocument \<Rightarrow> DocumentStatus" where
  "document_status found = (DocumentStatus_new (number found) (if is_live found then DSt_Live else DSt_Reversed None))
     \<lparr> dst_document_id := Some (document_id found), dst_gross := Some (gross_total found), dst_net := Some (net_total found),
       dst_credit_entry_amounts := credit_entry_amounts found, dst_referenced_proforma := referenced_proforma_number found,
       dst_e_invoice := e_invoice found \<rparr>"

definition record_observation :: "OrderStatus \<Rightarrow> DocumentKind \<Rightarrow> OwnershipOutcome \<Rightarrow> (OrderStatus, Fault) result" where
  "record_observation status kind looked_up = (case looked_up of
     OO_Live found \<Rightarrow> Ok (OrderStatus_set kind (Some (document_status found)) status)
   | OO_Reversed found \<Rightarrow> Ok (OrderStatus_set kind (Some (document_status found)) status)
   | OO_Absent \<Rightarrow> Ok status
   | OO_Collision _ \<Rightarrow> Ok (status\<lparr> ost_collisions := ost_collisions status @ [kind] \<rparr>)
   | OO_Api answer \<Rightarrow> Err (into_fault (AnC_Inconclusive answer))
   | OO_CredentialsRejected answer \<Rightarrow> Err (into_fault (AnC_CredentialsRejected answer)))"

definition with_consumed_proforma :: "OrderStatus \<Rightarrow> OrderStatus" where
  "with_consumed_proforma status =
    (if ost_proforma status = None \<and> DK_Proforma \<notin> set (ost_collisions status)
     then case find (\<lambda>document. dst_referenced_proforma document \<noteq> None)
              (List.map_filter (\<lambda>slot. slot) [ost_invoice status, ost_prepayment status]) of
         None \<Rightarrow> status
       | Some consumer \<Rightarrow> (case dst_referenced_proforma consumer of
           None \<Rightarrow> status
         | Some proforma \<Rightarrow> status\<lparr> ost_proforma := Some (DocumentStatus_new proforma (DSt_Consumed (dst_number consumer))) \<rparr>)
     else status)"

section \<open>The handler\<close>

primrec status_reads :: "'s Execution \<Rightarrow> OrderKey \<Rightarrow> DocumentKind list \<Rightarrow> OrderStatus \<Rightarrow> ('s, (OrderStatus, Fault) result) prog" where
  "status_reads exe order [] st = ret (Ok st)"
| "status_reads exe order (kind # kinds) st =
    (let external_id = for_kind (exe_namespace exe) order kind in
     then_ok (lookup_read exe (us ''lookup-'' @ DocumentKind_as_str kind) external_id order (IssuedKind_from kind)) (\<lambda>looked_up.
     then_ok (ret (map_err (\<lambda>fault. about fault order (Some (IssuedKind_from kind)) external_id) (record_observation st kind looked_up))) (\<lambda>st.
     status_reads exe order kinds st)))"

definition status :: "'s Execution \<Rightarrow> OrderKey \<Rightarrow> ('s, (OrderStatus, Fault) result) prog" where
  "status exe order = then_ok (status_reads exe order DocumentKind_ALL OrderStatus_default) (\<lambda>st. ret (Ok (with_consumed_proforma st)))"

section \<open>What a status rests on\<close>

text \<open>A slot as the reads left it: the projection of a document reported under the slot's external id, of this
  order and kind; or a collision; or an answered absence.\<close>

definition slot_observed :: "'s Execution \<Rightarrow> OrderKey \<Rightarrow> Event list \<Rightarrow> OrderStatus \<Rightarrow> DocumentKind \<Rightarrow> bool" where
  "slot_observed exe order xs st kind \<longleftrightarrow> (let sel = ByExternalId (external_str (for_kind (exe_namespace exe) order kind)) in
     case OrderStatus_get kind st of
       Some ds \<Rightarrow> kind \<notin> set (ost_collisions st) \<and> (\<exists>d. evid xs sel d \<and> is_ours d order (IssuedKind_from kind) \<and> ds = document_status d)
     | None \<Rightarrow> kind \<in> set (ost_collisions st) \<or> evid_absent xs sel)"

text \<open>The inferred slot: the proforma was answered absent, and the invoice or the prepayment of this order references it.\<close>

definition slot_consumed :: "'s Execution \<Rightarrow> OrderKey \<Rightarrow> Event list \<Rightarrow> OrderStatus \<Rightarrow> bool" where
  "slot_consumed exe order xs st \<longleftrightarrow> DK_Proforma \<notin> set (ost_collisions st) \<and>
     evid_absent xs (ByExternalId (external_str (for_kind (exe_namespace exe) order DK_Proforma))) \<and>
     (\<exists>kind d proforma. kind \<in> {DK_Invoice, DK_Prepayment} \<and> OrderStatus_get kind st = Some (document_status d) \<and>
        referenced_proforma_number d = Some proforma \<and>
        ost_proforma st = Some (DocumentStatus_new proforma (DSt_Consumed (number d))))"

lemma slot_observed_grows: "slot_observed exe order xs st k \<Longrightarrow> slot_observed exe order (ys @ xs @ zs) st k"
  by (auto simp: slot_observed_def Let_def split: option.splits)

lemma slot_observed_cong:
  "OrderStatus_get k st' = OrderStatus_get k st \<Longrightarrow> (k \<in> set (ost_collisions st')) = (k \<in> set (ost_collisions st)) \<Longrightarrow>
   slot_observed exe order xs st' k = slot_observed exe order xs st k"
  by (simp add: slot_observed_def Let_def split: option.split)

lemma OrderStatus_get_collisions [simp]: "OrderStatus_get k (ost_collisions_update f st) = OrderStatus_get k st"
  by (cases k) simp_all

lemma record_observation_Ok:
  assumes "record_observation st kind out = Ok st'" "holder_evid (for_kind (exe_namespace exe) order kind) order (IssuedKind_from kind) out xs"
    "OrderStatus_get kind st = None" "kind \<notin> set (ost_collisions st)"
  shows "slot_observed exe order xs st' kind" "k \<noteq> kind \<Longrightarrow> OrderStatus_get k st' = OrderStatus_get k st"
    "k \<noteq> kind \<Longrightarrow> (k \<in> set (ost_collisions st')) = (k \<in> set (ost_collisions st))"
  using assms by (auto simp: record_observation_def slot_observed_def holder_evid_def Let_def split: OwnershipOutcome.splits)

definition slots_read :: "'s Execution \<Rightarrow> OrderKey \<Rightarrow> DocumentKind list \<Rightarrow> OrderStatus \<Rightarrow> (OrderStatus, Fault) result \<Rightarrow> Event list \<Rightarrow> bool" where
  "slots_read exe order kinds st r xs \<longleftrightarrow> writes xs = [] \<and> (\<forall>st'. r = Inr st' \<longrightarrow> list_all (slot_observed exe order xs st') kinds \<and>
     (\<forall>k. k \<notin> set kinds \<longrightarrow> OrderStatus_get k st' = OrderStatus_get k st \<and> (k \<in> set (ost_collisions st')) = (k \<in> set (ost_collisions st))))"

lemma status_reads_yields:
  "distinct kinds \<Longrightarrow> list_all (\<lambda>k. OrderStatus_get k st = None \<and> k \<notin> set (ost_collisions st)) kinds \<Longrightarrow>
   yields (slots_read exe order kinds st) (status_reads exe order kinds st)"
proof (induction kinds arbitrary: st)
  case Nil
  then show ?case by (auto intro!: yields_return simp: slots_read_def)
next
  case (Cons kind kinds)
  show ?case unfolding status_reads.simps Let_def
  proof (rule then_ok_yields [OF lookup_read_yields], simp add: slots_read_def, goal_cases)
    case (1 out xs)
    show ?case
    proof (cases "record_observation st kind out")
      case (Inl fault)
      then show ?thesis using 1 by (auto intro!: yields_return simp: then_ok_ret map_err_def slots_read_def)
    next
      case (Inr st')
      have free: "OrderStatus_get kind st = None" "kind \<notin> set (ost_collisions st)" using Cons.prems by simp_all
      have evidence: "holder_evid (for_kind (exe_namespace exe) order kind) order (IssuedKind_from kind) out xs" "writes xs = []" using 1 by simp_all
      note rec = record_observation_Ok [OF Inr evidence(1) free]
      have "list_all (\<lambda>k. OrderStatus_get k st' = None \<and> k \<notin> set (ost_collisions st')) kinds"
        using Cons.prems rec(2,3) by (auto simp: list_all_iff) metis+
      then have "yields (slots_read exe order kinds st') (status_reads exe order kinds st')" using Cons by simp
      then show ?thesis unfolding Inr map_err_simps then_ok_ret sum.case
      proof (rule yields_weaken, unfold slots_read_def, goal_cases)
        case (1 r ys)
        have "slot_observed exe order (xs @ ys) st'' kind" if "r = Inr st''" for st''
          using 1 that Cons.prems(1) slot_observed_grows [OF rec(1), of "[]" ys] slot_observed_cong [of kind st'' st' exe order "xs @ ys"] by simp
        then show ?case using 1 evidence(2) rec(2,3) slot_observed_grows [of exe order ys _ _ xs "[]"]
          by (auto simp: list_all_iff)
      qed
    qed
  qed
qed

lemma with_consumed_proforma_other: "k \<noteq> DK_Proforma \<Longrightarrow> OrderStatus_get k (with_consumed_proforma st) = OrderStatus_get k st"
  "ost_collisions (with_consumed_proforma st) = ost_collisions st"
  by (cases k; simp add: with_consumed_proforma_def split: option.splits) (simp add: with_consumed_proforma_def split: option.splits)

lemma with_consumed_proforma_changed:
  assumes "with_consumed_proforma st \<noteq> st"
  obtains kind ds proforma where "kind \<in> {DK_Invoice, DK_Prepayment}" "OrderStatus_get kind st = Some ds" "dst_referenced_proforma ds = Some proforma"
    "ost_proforma st = None" "DK_Proforma \<notin> set (ost_collisions st)"
    "with_consumed_proforma st = st\<lparr> ost_proforma := Some (DocumentStatus_new proforma (DSt_Consumed (dst_number ds))) \<rparr>"
proof -
  have p: "ost_proforma st = None" "DK_Proforma \<notin> set (ost_collisions st)"
    using assms by (auto simp: with_consumed_proforma_def split: if_splits)
  obtain ds proforma where ds: "find (\<lambda>document. dst_referenced_proforma document \<noteq> None)
      (List.map_filter (\<lambda>slot. slot) [ost_invoice st, ost_prepayment st]) = Some ds" "dst_referenced_proforma ds = Some proforma"
    using assms by (auto simp: with_consumed_proforma_def split: if_splits option.splits)
  then have "ost_invoice st = Some ds \<or> ost_prepayment st = Some ds"
    by (cases "ost_invoice st"; cases "ost_prepayment st") (auto simp: List.map_filter_simps split: if_splits)
  then have "\<exists>kind. kind \<in> {DK_Invoice, DK_Prepayment} \<and> OrderStatus_get kind st = Some ds"
    by (metis OrderStatus_get.simps(2,3) insertCI)
  then show ?thesis using that p ds by (auto simp: with_consumed_proforma_def)
qed

text \<open>(C9) \<open>get\<close> only reads.  Every slot of the status it answers rests on what szamlazz.hu answered under that slot's external
  id: a filled slot projects a document of this order and kind reported there, an empty one is a listed collision
  or an answered absence.  Only the proforma can be inferred: it is called consumed when its external id was answered absent
  (never on a collision) and the invoice or the prepayment of this order carries its number.\<close>

theorem status_rests_on_reads:
  "\<exists>xs. trace (snd (run_state (status exe order) w)) = trace w @ xs \<and> writes xs = [] \<and>
     (case fst (run_state (status exe order) w) of
        Inl fault \<Rightarrow> True
      | Inr st \<Rightarrow> list_all (slot_observed exe order xs st) [DK_Invoice, DK_Prepayment, DK_Final] \<and>
          (slot_observed exe order xs st DK_Proforma \<or> slot_consumed exe order xs st))"
proof -
  let ?Q = "\<lambda>r xs. writes xs = [] \<and> (case r of Inl fault \<Rightarrow> True
      | Inr st \<Rightarrow> list_all (slot_observed exe order xs st) [DK_Invoice, DK_Prepayment, DK_Final] \<and>
          (slot_observed exe order xs st DK_Proforma \<or> slot_consumed exe order xs st))"
  have reads: "yields (slots_read exe order DocumentKind_ALL OrderStatus_default) (status_reads exe order DocumentKind_ALL OrderStatus_default)"
    by (rule status_reads_yields) (simp_all add: DocumentKind_ALL_def OrderStatus_default_def)
  have "?Q (Ok (with_consumed_proforma st)) xs" if "slots_read exe order DocumentKind_ALL OrderStatus_default (Inr st) xs" for st xs
  proof -
    have obs: "slot_observed exe order xs st k" for k using that by (cases k) (simp_all add: slots_read_def DocumentKind_ALL_def)
    have others: "k \<noteq> DK_Proforma \<Longrightarrow> slot_observed exe order xs (with_consumed_proforma st) k" for k
      using obs [of k] slot_observed_cong [of k "with_consumed_proforma st" st exe order xs] by (simp add: with_consumed_proforma_other)
    have "slot_consumed exe order xs (with_consumed_proforma st)" if ch: "with_consumed_proforma st \<noteq> st"
    proof -
      obtain kind ds proforma where c: "kind \<in> {DK_Invoice, DK_Prepayment}" "OrderStatus_get kind st = Some ds"
          "dst_referenced_proforma ds = Some proforma" "ost_proforma st = None" "DK_Proforma \<notin> set (ost_collisions st)"
          "with_consumed_proforma st = st\<lparr> ost_proforma := Some (DocumentStatus_new proforma (DSt_Consumed (dst_number ds))) \<rparr>"
        by (rule with_consumed_proforma_changed [OF ch])
      obtain d where d: "ds = document_status d" using obs [of kind] c(2) by (auto simp: slot_observed_def)
      have absent: "evid_absent xs (ByExternalId (external_str (for_kind (exe_namespace exe) order DK_Proforma)))"
        using obs [of DK_Proforma] c(4,5) by (simp add: slot_observed_def)
      have refs: "referenced_proforma_number d = Some proforma" "dst_number ds = number d"
        using c(3) d by (simp_all add: document_status_def DocumentStatus_new_def)
      have "OrderStatus_get kind (with_consumed_proforma st) = Some (document_status d)"
        using c(1,2) d with_consumed_proforma_other(1) [of kind st] by auto
      then show ?thesis unfolding slot_consumed_def with_consumed_proforma_other(2)
        using c(1,5,6) absent refs by fastforce
    qed
    then have "slot_observed exe order xs (with_consumed_proforma st) DK_Proforma \<or> slot_consumed exe order xs (with_consumed_proforma st)"
      using obs [of DK_Proforma] by (cases "with_consumed_proforma st = st") simp_all
    with others that show ?thesis by (simp add: slots_read_def)
  qed
  then have "yields ?Q (status exe order)" unfolding status_def
    by (intro then_ok_yields [OF reads]) (auto intro!: yields_return simp: slots_read_def)
  then show ?thesis unfolding yields_def by blast
qed

text \<open>A document state survives its wire form, an unknown state with its payload included: the deserializer gives back
  the state the serializer wrote, exactly when the unknown token is not in fact a known one and its payload
  does not carry a second tag.\<close>

theorem document_state_roundtrip:
  "DocumentState_deserialize (DocumentState_serialize state) = Ok state \<longleftrightarrow>
   (case state of DSt_Other token payload \<Rightarrow> token \<notin> set DocumentState_KNOWN \<and> us ''state'' \<notin> fst ` set payload | _ \<Rightarrow> True)"
proof (cases state)
  case (DSt_Other token payload)
  have "filter (\<lambda>f. fst f \<noteq> us ''state'') payload = payload \<longleftrightarrow> us ''state'' \<notin> fst ` set payload"
    unfolding filter_id_conv by force
  then show ?thesis
    by (auto simp: DSt_Other DocumentState_deserialize_def DocumentState_serialize_def DocumentState_KNOWN_def Let_def
        simp del: us_Cons split: option.splits Json.splits)
qed (auto simp: DocumentState_deserialize_def DocumentState_serialize_def split: option.splits)

end
