(* ===== verification/Taxpayers.thy ===== *)
theory Taxpayers
  imports Documents
begin

text \<open>
  The taxpayer query (\<open>szamlazz-agent/src/ops/taxpayer.rs\<close>): the eight-digit prefix, the layouts of the two NAV
  namespaces, the pull parser of the reply as a stack machine over XML events, and the reply's conversion. Reading events from
  bytes is \<open>quick_xml\<close>'s; an event carries the resolved namespace, the decoded text and the resolved character reference.
\<close>

section \<open>The prefix\<close>

datatype TaxpayerPrefix = TaxpayerPrefix (prefix_str: ustr)

definition TaxpayerPrefix_validate :: "ustr \<Rightarrow> bool" where
  "TaxpayerPrefix_validate value \<longleftrightarrow> utf8_len value = 8 \<and> list_all is_digit value"

definition TaxpayerPrefix_from_str :: "ustr \<Rightarrow> (TaxpayerPrefix, unit) result" where
  "TaxpayerPrefix_from_str value = (if TaxpayerPrefix_validate value then Ok (TaxpayerPrefix value) else Err ())"

definition QueryTaxpayer_write_xml :: "Credentials \<Rightarrow> TaxpayerPrefix \<Rightarrow> XmlDocument" where
  "QueryTaxpayer_write_xml credentials tax_number_prefix =
    \<lparr> xd_root = us ''xmltaxpayer'', xd_namespace = us ''http://www.szamlazz.hu/xmltaxpayer'',
      xd_children = el_node ''beallitasok'' (el_credentials credentials) @ el_text ''torzsszam'' (prefix_str tax_number_prefix) \<rparr>"

section \<open>The reply\<close>

datatype Incorporation = Inc_Organization | Inc_SelfEmployed | Inc_TaxablePerson | Inc_Other ustr

primrec Incorporation_as_wire :: "Incorporation \<Rightarrow> ustr" where
  "Incorporation_as_wire Inc_Organization = us ''ORGANIZATION''"
| "Incorporation_as_wire Inc_SelfEmployed = us ''SELF_EMPLOYED''"
| "Incorporation_as_wire Inc_TaxablePerson = us ''TAXABLE_PERSON''"
| "Incorporation_as_wire (Inc_Other token) = token"

definition Incorporation_arms :: "(ustr \<times> Incorporation) list" where
  "Incorporation_arms = [(us ''ORGANIZATION'', Inc_Organization), (us ''SELF_EMPLOYED'', Inc_SelfEmployed), (us ''TAXABLE_PERSON'', Inc_TaxablePerson)]"

definition Incorporation_from :: "ustr \<Rightarrow> Incorporation" where
  "Incorporation_from token = match_token Incorporation_arms Inc_Other token"

interpretation incorporations: open_tokens Incorporation_arms Inc_Other Incorporation_as_wire
proof unfold_locales
  show "v \<in> snd ` set Incorporation_arms \<or> (\<exists>s. v = Inc_Other s)" for v
    by (cases v) (simp_all add: Incorporation_arms_def)
qed (simp_all add: Incorporation_arms_def)

record TaxpayerHeader =
  th_request_id :: "ustr option"
  th_timestamp :: "ustr option"
  th_request_version :: "ustr option"
  th_header_version :: "ustr option"

definition TaxpayerHeader_default :: TaxpayerHeader where
  "TaxpayerHeader_default = \<lparr> th_request_id = None, th_timestamp = None, th_request_version = None, th_header_version = None \<rparr>"

record TaxpayerSoftware =
  tsw_id :: "ustr option"
  tsw_name :: "ustr option"
  tsw_operation :: "ustr option"
  tsw_main_version :: "ustr option"
  tsw_developer_name :: "ustr option"
  tsw_developer_contact :: "ustr option"
  tsw_developer_country_code :: "ustr option"
  tsw_developer_tax_number :: "ustr option"

definition TaxpayerSoftware_default :: TaxpayerSoftware where
  "TaxpayerSoftware_default = \<lparr> tsw_id = None, tsw_name = None, tsw_operation = None, tsw_main_version = None, tsw_developer_name = None,
     tsw_developer_contact = None, tsw_developer_country_code = None, tsw_developer_tax_number = None \<rparr>"

record TaxpayerNotification =
  tn_code :: "ustr option"
  tn_text :: "ustr option"

record TaxpayerDiagnostics =
  td_func_code :: "ustr option"
  td_error_code :: "ustr option"
  td_message :: "ustr option"
  td_notifications :: "TaxpayerNotification list"

record TaxpayerAddress =
  ta_kind :: "ustr option"
  ta_country_code :: "ustr option"
  ta_region :: "ustr option"
  ta_postal_code :: "ustr option"
  ta_city :: "ustr option"
  ta_street_name :: "ustr option"
  ta_public_place_category :: "ustr option"
  ta_number :: "ustr option"
  ta_building :: "ustr option"
  ta_staircase :: "ustr option"
  ta_floor :: "ustr option"
  ta_door :: "ustr option"
  ta_lot_number :: "ustr option"
  ta_additional_address_detail :: "ustr option"

definition TaxpayerAddress_default :: TaxpayerAddress where
  "TaxpayerAddress_default = \<lparr> ta_kind = None, ta_country_code = None, ta_region = None, ta_postal_code = None, ta_city = None,
     ta_street_name = None, ta_public_place_category = None, ta_number = None, ta_building = None, ta_staircase = None,
     ta_floor = None, ta_door = None, ta_lot_number = None, ta_additional_address_detail = None \<rparr>"

record TaxpayerInfo =
  ti_valid :: "bool option"
  ti_header :: "TaxpayerHeader option"
  ti_software :: "TaxpayerSoftware option"
  ti_diagnostics :: "TaxpayerDiagnostics option"
  ti_name :: "ustr option"
  ti_short_name :: "ustr option"
  ti_county_code :: "ustr option"
  ti_vat_group_membership :: "ustr option"
  ti_incorporation :: "Incorporation option"
  ti_info_date :: "ustr option"
  ti_tax_number :: "ustr option"
  ti_vat_code :: "ustr option"
  ti_addresses :: "TaxpayerAddress list"

record TaxpayerResponse =
  tr_header :: "TaxpayerHeader option"
  tr_software :: "TaxpayerSoftware option"
  tr_diagnostics :: TaxpayerDiagnostics
  tr_validity :: "bool option"
  tr_name :: "ustr option"
  tr_short_name :: "ustr option"
  tr_county_code :: "ustr option"
  tr_vat_group_membership :: "ustr option"
  tr_incorporation :: "Incorporation option"
  tr_info_date :: "ustr option"
  tr_taxpayer_id :: "ustr option"
  tr_vat_code :: "ustr option"
  tr_addresses :: "TaxpayerAddress list"

definition TaxpayerResponse_default :: TaxpayerResponse where
  "TaxpayerResponse_default = \<lparr> tr_header = None, tr_software = None,
     tr_diagnostics = \<lparr> td_func_code = None, td_error_code = None, td_message = None, td_notifications = [] \<rparr>,
     tr_validity = None, tr_name = None, tr_short_name = None, tr_county_code = None, tr_vat_group_membership = None,
     tr_incorporation = None, tr_info_date = None, tr_taxpayer_id = None, tr_vat_code = None, tr_addresses = [] \<rparr>"

section \<open>The layouts\<close>

record Frame =
  fr_name :: ustr
  fr_scalar :: bool
  fr_address :: bool
  fr_seen :: "ustr list"
  fr_text :: ustr

definition Frame_new :: "ustr \<Rightarrow> bool \<Rightarrow> bool \<Rightarrow> Frame" where
  "Frame_new name scalar address = \<lparr> fr_name = name, fr_scalar = scalar, fr_address = address, fr_seen = [], fr_text = [] \<rparr>"

record Layout =
  lo_api :: ustr
  lo_result :: ustr
  lo_component :: ustr

definition for_root_index :: "nat \<Rightarrow> Layout" where
  "for_root_index root_index =
    (if root_index = 0
     then \<lparr> lo_api = us ''http://schemas.nav.gov.hu/OSA/2.0/api'', lo_result = us ''http://schemas.nav.gov.hu/OSA/2.0/api'',
       lo_component = us ''http://schemas.nav.gov.hu/OSA/2.0/data'' \<rparr>
     else \<lparr> lo_api = us ''http://schemas.nav.gov.hu/OSA/3.0/api'', lo_result = us ''http://schemas.nav.gov.hu/NTCA/1.0/common'',
       lo_component = us ''http://schemas.nav.gov.hu/OSA/3.0/base'' \<rparr>)"

text \<open>The namespace, the containers and the leaves known under a parent.\<close>

definition layout_of :: "Layout \<Rightarrow> ustr \<Rightarrow> ustr \<Rightarrow> (ustr \<times> ustr list \<times> ustr list) option" where
  "layout_of l parent name =
    (if parent = us ''QueryTaxpayerResponse'' then
       (if name = us ''header'' \<or> name = us ''result'' then Some (lo_result l, [us ''header'', us ''result''], [])
        else Some (lo_api l, [us ''taxpayerData'', us ''software''], [us ''taxpayerValidity'', us ''infoDate'']))
     else if parent = us ''header'' then Some (lo_result l, [], [us ''requestId'', us ''timestamp'', us ''requestVersion'', us ''headerVersion''])
     else if parent = us ''software'' then Some (lo_api l, [],
       [us ''softwareId'', us ''softwareName'', us ''softwareOperation'', us ''softwareMainVersion'', us ''softwareDevName'',
        us ''softwareDevContact'', us ''softwareDevCountryCode'', us ''softwareDevTaxNumber''])
     else if parent = us ''result'' then Some (lo_result l, [us ''notifications''], [us ''funcCode'', us ''errorCode'', us ''message''])
     else if parent = us ''notifications'' then Some (lo_result l, [us ''notification''], [])
     else if parent = us ''notification'' then Some (lo_result l, [], [us ''notificationCode'', us ''notificationText''])
     else if parent = us ''taxpayerData'' then Some (lo_api l, [us ''taxNumberDetail'', us ''taxpayerAddressList''],
       [us ''taxpayerName'', us ''taxpayerShortName'', us ''vatGroupMembership'', us ''incorporation''])
     else if parent = us ''taxNumberDetail'' then Some (lo_component l, [], [us ''taxpayerId'', us ''vatCode'', us ''countyCode''])
     else if parent = us ''taxpayerAddressList'' then Some (lo_api l, [us ''taxpayerAddressItem''], [])
     else if parent = us ''taxpayerAddressItem'' then Some (lo_api l, [us ''taxpayerAddress''], [us ''taxpayerAddressType''])
     else if parent = us ''taxpayerAddress'' then Some (lo_component l, [],
       [us ''countryCode'', us ''region'', us ''postalCode'', us ''city'', us ''streetName'', us ''publicPlaceCategory'', us ''number'',
        us ''building'', us ''staircase'', us ''floor'', us ''door'', us ''lotNumber'', us ''additionalAddressDetail''])
     else None)"

definition Layout_child :: "Layout \<Rightarrow> ustr \<Rightarrow> ustr option \<Rightarrow> ustr \<Rightarrow> ustr \<times> bool" where
  "Layout_child l parent namespace name = (case layout_of l parent name of
     None \<Rightarrow> ([], False)
   | Some (ns, containers, leaves) \<Rightarrow>
       if namespace \<noteq> Some ns then ([], False)
       else if name \<in> set containers then (name, False)
       else if name \<in> set leaves then (name, True) else ([], False))"

section \<open>Leaves\<close>

text \<open>\<open>last_mut\<close>: an update of the last element, when there is one.\<close>

definition update_last :: "('a \<Rightarrow> 'a) \<Rightarrow> 'a list \<Rightarrow> 'a list" where
  "update_last f xs = (if xs = [] then [] else butlast xs @ [f (last xs)])"

definition set_address :: "ustr \<Rightarrow> ustr \<Rightarrow> TaxpayerAddress \<Rightarrow> TaxpayerAddress" where
  "set_address element v address =
    (if element = us ''taxpayerAddressType'' then address\<lparr> ta_kind := Some v \<rparr>
     else if element = us ''countryCode'' then address\<lparr> ta_country_code := Some v \<rparr>
     else if element = us ''region'' then address\<lparr> ta_region := Some v \<rparr>
     else if element = us ''postalCode'' then address\<lparr> ta_postal_code := Some v \<rparr>
     else if element = us ''city'' then address\<lparr> ta_city := Some v \<rparr>
     else if element = us ''streetName'' then address\<lparr> ta_street_name := Some v \<rparr>
     else if element = us ''publicPlaceCategory'' then address\<lparr> ta_public_place_category := Some v \<rparr>
     else if element = us ''number'' then address\<lparr> ta_number := Some v \<rparr>
     else if element = us ''building'' then address\<lparr> ta_building := Some v \<rparr>
     else if element = us ''staircase'' then address\<lparr> ta_staircase := Some v \<rparr>
     else if element = us ''floor'' then address\<lparr> ta_floor := Some v \<rparr>
     else if element = us ''door'' then address\<lparr> ta_door := Some v \<rparr>
     else if element = us ''lotNumber'' then address\<lparr> ta_lot_number := Some v \<rparr>
     else if element = us ''additionalAddressDetail'' then address\<lparr> ta_additional_address_detail := Some v \<rparr>
     else address)"

text \<open>\<open>get_or_insert_default\<close> followed by the assignment of a field.\<close>

definition set_header :: "(TaxpayerHeader \<Rightarrow> TaxpayerHeader) \<Rightarrow> TaxpayerResponse \<Rightarrow> TaxpayerResponse" where
  "set_header f r = r\<lparr> tr_header := Some (f (case tr_header r of Some h \<Rightarrow> h | None \<Rightarrow> TaxpayerHeader_default)) \<rparr>"

definition set_software :: "(TaxpayerSoftware \<Rightarrow> TaxpayerSoftware) \<Rightarrow> TaxpayerResponse \<Rightarrow> TaxpayerResponse" where
  "set_software f r = r\<lparr> tr_software := Some (f (case tr_software r of Some s \<Rightarrow> s | None \<Rightarrow> TaxpayerSoftware_default)) \<rparr>"

definition set_diagnostics :: "(TaxpayerDiagnostics \<Rightarrow> TaxpayerDiagnostics) \<Rightarrow> TaxpayerResponse \<Rightarrow> TaxpayerResponse" where
  "set_diagnostics f r = r\<lparr> tr_diagnostics := f (tr_diagnostics r) \<rparr>"

definition set_leaf :: "TaxpayerResponse \<Rightarrow> ustr \<Rightarrow> ustr \<Rightarrow> bool \<Rightarrow> (TaxpayerResponse, ParseError) result" where
  "set_leaf r element v in_address =
    (if in_address then Ok (r\<lparr> tr_addresses := update_last (set_address element v) (tr_addresses r) \<rparr>)
     else if element = us ''funcCode'' then Ok (set_diagnostics (td_func_code_update (\<lambda>_. Some v)) r)
     else if element = us ''errorCode'' then Ok (set_diagnostics (td_error_code_update (\<lambda>_. Some v)) r)
     else if element = us ''message'' then Ok (set_diagnostics (td_message_update (\<lambda>_. Some v)) r)
     else if element = us ''requestId'' then Ok (set_header (th_request_id_update (\<lambda>_. Some v)) r)
     else if element = us ''timestamp'' then Ok (set_header (th_timestamp_update (\<lambda>_. Some v)) r)
     else if element = us ''requestVersion'' then Ok (set_header (th_request_version_update (\<lambda>_. Some v)) r)
     else if element = us ''headerVersion'' then Ok (set_header (th_header_version_update (\<lambda>_. Some v)) r)
     else if element = us ''softwareId'' then Ok (set_software (tsw_id_update (\<lambda>_. Some v)) r)
     else if element = us ''softwareName'' then Ok (set_software (tsw_name_update (\<lambda>_. Some v)) r)
     else if element = us ''softwareOperation'' then Ok (set_software (tsw_operation_update (\<lambda>_. Some v)) r)
     else if element = us ''softwareMainVersion'' then Ok (set_software (tsw_main_version_update (\<lambda>_. Some v)) r)
     else if element = us ''softwareDevName'' then Ok (set_software (tsw_developer_name_update (\<lambda>_. Some v)) r)
     else if element = us ''softwareDevContact'' then Ok (set_software (tsw_developer_contact_update (\<lambda>_. Some v)) r)
     else if element = us ''softwareDevCountryCode'' then Ok (set_software (tsw_developer_country_code_update (\<lambda>_. Some v)) r)
     else if element = us ''softwareDevTaxNumber'' then Ok (set_software (tsw_developer_tax_number_update (\<lambda>_. Some v)) r)
     else if element = us ''notificationCode'' then
       Ok (set_diagnostics (td_notifications_update (update_last (tn_code_update (\<lambda>_. Some v)))) r)
     else if element = us ''notificationText'' then
       Ok (set_diagnostics (td_notifications_update (update_last (tn_text_update (\<lambda>_. Some v)))) r)
     else if element = us ''taxpayerValidity'' then
       (if v = us ''true'' \<or> v = us ''1'' then Ok (r\<lparr> tr_validity := Some True \<rparr>)
        else if v = us ''false'' \<or> v = us ''0'' then Ok (r\<lparr> tr_validity := Some False \<rparr>)
        else Err (PE_Invalid (us ''taxpayerValidity'') (msg ''invalid XML boolean '' @ v)))
     else if element = us ''taxpayerName'' then Ok (r\<lparr> tr_name := Some v \<rparr>)
     else if element = us ''taxpayerShortName'' then Ok (r\<lparr> tr_short_name := Some v \<rparr>)
     else if element = us ''countyCode'' then Ok (r\<lparr> tr_county_code := Some v \<rparr>)
     else if element = us ''vatGroupMembership'' then Ok (r\<lparr> tr_vat_group_membership := Some v \<rparr>)
     else if element = us ''incorporation'' then Ok (r\<lparr> tr_incorporation := Some (Incorporation_from v) \<rparr>)
     else if element = us ''infoDate'' then Ok (r\<lparr> tr_info_date := Some v \<rparr>)
     else if element = us ''taxpayerId'' then Ok (r\<lparr> tr_taxpayer_id := Some v \<rparr>)
     else if element = us ''vatCode'' then Ok (r\<lparr> tr_vat_code := Some v \<rparr>)
     else Ok r)"

definition finish_frame :: "TaxpayerResponse \<Rightarrow> Frame \<Rightarrow> (TaxpayerResponse, ParseError) result" where
  "finish_frame r frame =
    (if fr_scalar frame then
       (let v = (if fr_name frame = us ''taxpayerValidity'' then trim_xml_space (fr_text frame)
            else if fr_name frame = us ''funcCode'' \<or> fr_name frame = us ''errorCode'' then trim (fr_text frame)
            else fr_text frame) in
        if fr_name frame = us ''taxpayerValidity'' \<or> \<not> list_all is_xml_space v then set_leaf r (fr_name frame) v (fr_address frame) else Ok r)
     else Ok r)"

section \<open>The event loop\<close>

text \<open>\<open>Ev_Start\<close>: an element with its namespace and local name, self-closing or not. \<open>Ev_Ref\<close>: a reference, with its
  character when it is numeric.\<close>

datatype XmlEvent =
    Ev_Start "ustr option" ustr bool | Ev_Text ustr | Ev_CData ustr | Ev_Ref "nat option" ustr | Ev_End | Ev_Other

definition entity :: "ustr \<Rightarrow> nat option" where
  "entity name =
    (if name = us ''amp'' then Some 38 else if name = us ''lt'' then Some 60 else if name = us ''gt'' then Some 62
     else if name = us ''apos'' then Some 39 else if name = us ''quot'' then Some 34 else None)"

type_synonym Parser = "TaxpayerResponse \<times> Frame list"

definition push_text :: "ustr \<Rightarrow> Frame list \<Rightarrow> Frame list" where
  "push_text t stack = (case stack of
     frame # rest \<Rightarrow> (if fr_scalar frame then frame\<lparr> fr_text := fr_text frame @ t \<rparr> # rest else stack)
   | [] \<Rightarrow> [])"

definition open_element :: "ustr \<Rightarrow> TaxpayerResponse \<Rightarrow> TaxpayerResponse" where
  "open_element name r =
    (if name = us ''header'' then r\<lparr> tr_header := Some TaxpayerHeader_default \<rparr>
     else if name = us ''software'' then r\<lparr> tr_software := Some TaxpayerSoftware_default \<rparr>
     else if name = us ''notification'' then set_diagnostics (td_notifications_update (\<lambda>ns. ns @ [\<lparr> tn_code = None, tn_text = None \<rparr>])) r
     else if name = us ''taxpayerAddressItem'' then r\<lparr> tr_addresses := tr_addresses r @ [TaxpayerAddress_default] \<rparr>
     else r)"

text \<open>The name and flags of a started element, with the parent's record of its singletons.\<close>

definition classify_start :: "Layout \<Rightarrow> Frame list \<Rightarrow> ustr option \<Rightarrow> ustr \<Rightarrow> ((ustr \<times> bool \<times> bool) \<times> Frame list, ParseError) result" where
  "classify_start l stack namespace local = (case stack of
     [] \<Rightarrow> Ok ((us ''QueryTaxpayerResponse'', False, False), [])
   | parent # rest \<Rightarrow>
       if fr_scalar parent then Err (PE_Invalid (fr_name parent) (msg ''child element in scalar''))
       else (let (name, scalar) = Layout_child l (fr_name parent) namespace local;
               singleton = (name \<noteq> [] \<and> name \<noteq> us ''taxpayerAddressItem'' \<and> name \<noteq> us ''notification'') in
             if singleton \<and> name \<in> set (fr_seen parent) then Err (PE_Invalid name (us ''duplicate singleton''))
             else Ok ((name, scalar, fr_address parent \<or> name = us ''taxpayerAddressItem''),
               (if singleton then parent\<lparr> fr_seen := name # fr_seen parent \<rparr> else parent) # rest)))"

definition parse_event :: "Layout \<Rightarrow> Parser \<Rightarrow> XmlEvent \<Rightarrow> (Parser, ParseError) result" where
  "parse_event l st event = (case st of (r, stack) \<Rightarrow> (case event of
     Ev_Start namespace local self_closing \<Rightarrow>
       try_then (classify_start l stack namespace local) (\<lambda>((name, scalar, address), stack).
       (let r = open_element name r; frame = Frame_new name scalar address in
        if self_closing then try_then (finish_frame r frame) (\<lambda>r. Ok (r, stack)) else Ok (r, frame # stack)))
   | Ev_Text t \<Rightarrow> Ok (r, push_text t stack)
   | Ev_CData t \<Rightarrow> Ok (r, push_text t stack)
   | Ev_Ref (Some c) _ \<Rightarrow> Ok (r, push_text [c] stack)
   | Ev_Ref None name \<Rightarrow> (case entity name of
       Some c \<Rightarrow> Ok (r, push_text [c] stack)
     | None \<Rightarrow> Err (PE_Invalid (msg ''taxpayer response'') (msg ''undefined entity: '' @ name)))
   | Ev_End \<Rightarrow> (case stack of [] \<Rightarrow> Ok (r, []) | frame # rest \<Rightarrow> try_then (finish_frame r frame) (\<lambda>r. Ok (r, rest)))
   | Ev_Other \<Rightarrow> Ok (r, stack)))"

fun parse_events :: "Layout \<Rightarrow> Parser \<Rightarrow> (XmlEvent, ParseError) result list \<Rightarrow> (Parser, ParseError) result" where
  "parse_events l st [] = Ok st"
| "parse_events l st (Inl e # events) = Err e"
| "parse_events l st (Inr event # events) = try_then (parse_event l st event) (\<lambda>st. parse_events l st events)"

definition from_body :: "nat \<Rightarrow> (XmlEvent, ParseError) result list \<Rightarrow> (TaxpayerResponse, ParseError) result" where
  "from_body root_index events = try_then (parse_events (for_root_index root_index) (TaxpayerResponse_default, []) events) (\<lambda>st. Ok (fst st))"

definition into_info :: "TaxpayerResponse \<Rightarrow> (TaxpayerInfo, ResponseError) result" where
  "into_info r = (let d = tr_diagnostics r in case td_func_code d of
     None \<Rightarrow> Err (RSE_Parse (PE_Missing (us ''funcCode'')))
   | Some func_code \<Rightarrow>
       if func_code = us ''OK'' then Ok \<lparr> ti_valid = tr_validity r, ti_header = tr_header r, ti_software = tr_software r,
         ti_diagnostics = Some d, ti_name = tr_name r, ti_short_name = tr_short_name r, ti_county_code = tr_county_code r,
         ti_vat_group_membership = tr_vat_group_membership r, ti_incorporation = tr_incorporation r, ti_info_date = tr_info_date r,
         ti_tax_number = tr_taxpayer_id r, ti_vat_code = tr_vat_code r, ti_addresses = tr_addresses r \<rparr>
       else Err (RSE_Api \<lparr>
         api_code = (case td_error_code d of None \<Rightarrow> EC_Absent | Some code \<Rightarrow> ErrorCode_from code),
         api_message = (case (td_error_code d, td_message d) of
             (_, Some message) \<Rightarrow> message
           | (Some raw_code, None) \<Rightarrow> raw_code
           | (None, None) \<Rightarrow> msg ''NAV funcCode '' @ func_code) \<rparr>))"

section \<open>Unknown elements contribute nothing\<close>

text \<open>The events of the content of an element: what a well-formed document puts between a start and its end.\<close>

inductive content :: "XmlEvent list \<Rightarrow> bool" where
  content_Nil: "content []"
| content_Text: "content events \<Longrightarrow> content (Ev_Text t # events)"
| content_CData: "content events \<Longrightarrow> content (Ev_CData t # events)"
| content_Ref: "content events \<Longrightarrow> content (Ev_Ref c name # events)"
| content_Other: "content events \<Longrightarrow> content (Ev_Other # events)"
| content_Empty: "content events \<Longrightarrow> content (Ev_Start ns name True # events)"
| content_Element: "content inner \<Longrightarrow> content events \<Longrightarrow> content (Ev_Start ns name False # inner @ Ev_End # events)"

lemma parse_events_append:
  "parse_events l st (xs @ ys) = try_then (parse_events l st xs) (\<lambda>st. parse_events l st ys)"
  by (induction l st xs rule: parse_events.induct) (auto simp: try_then_def split: sum.split)

definition unknown :: "Frame \<Rightarrow> bool" where
  "unknown frame \<longleftrightarrow> fr_name frame = [] \<and> \<not> fr_scalar frame"

lemma unknown_child: "Layout_child l [] ns name = ([], False)"
  by (simp add: Layout_child_def layout_of_def)

lemma open_unknown [simp]: "open_element [] r = r"
  by (simp add: open_element_def)

lemma finish_unknown [simp]: "\<not> fr_scalar frame \<Longrightarrow> finish_frame r frame = Ok r"
  by (simp add: finish_frame_def)

lemma push_text_container [simp]: "\<not> fr_scalar frame \<Longrightarrow> push_text t (frame # stack) = frame # stack"
  by (simp add: push_text_def)

lemma start_unknown:
  assumes "\<not> fr_scalar parent" "Layout_child l (fr_name parent) ns name = ([], False)"
  shows "classify_start l (parent # stack) ns name = Ok (([], False, fr_address parent), parent # stack)"
  using assms by (simp add: classify_start_def)

lemma unknown_content:
  assumes "content events" "unknown frame" "parse_events l (r, frame # stack) (map Inr events) = Ok st"
  shows "st = (r, frame # stack)"
  using assms
proof (induction arbitrary: frame stack st rule: content.induct)
  case (content_Ref events c name)
  then show ?case by (auto simp: unknown_def parse_event_def try_then_Inr_iff split: option.splits)
next
  case (content_Empty events ns name)
  then show ?case by (simp add: unknown_def parse_event_def start_unknown unknown_child Frame_new_def)
next
  case (content_Element inner events ns name)
  let ?frame = "Frame_new [] False (fr_address frame)"
  have u: "unknown ?frame" by (simp add: unknown_def Frame_new_def)
  have start: "parse_event l (r, frame # stack) (Ev_Start ns name False) = Ok (r, ?frame # frame # stack)"
    using content_Element.prems(1) by (simp add: unknown_def parse_event_def start_unknown unknown_child)
  obtain st' where st': "parse_events l (r, ?frame # frame # stack) (map Inr inner) = Ok st'"
      "parse_events l st' (Inr Ev_End # map Inr events) = Ok st"
    using content_Element.prems(2) start by (auto simp: parse_events_append try_then_Inr_iff)
  have "st' = (r, ?frame # frame # stack)" using content_Element.IH(1) [OF u st'(1)] .
  then have "parse_events l (r, frame # stack) (map Inr events) = Ok st"
    using st'(2) by (simp add: parse_event_def Frame_new_def)
  then show ?case by (rule content_Element.IH(2) [OF content_Element.prems(1)])
qed (auto simp: unknown_def parse_event_def)

text \<open>An element the layout does not know under its parent, by its name or by its namespace, contributes nothing to a taxpayer
  reply, and nor does anything inside it, whatever familiar names its descendants have: once its end is read, the
  parsed record and the open elements are what they were before its start.\<close>

theorem unknown_element_ignored:
  assumes "content inner" "\<not> fr_scalar parent" "Layout_child l (fr_name parent) ns name = ([], False)"
    "parse_events l (r, parent # stack) (map Inr (Ev_Start ns name False # inner @ [Ev_End])) = Ok st"
  shows "st = (r, parent # stack)"
proof -
  let ?frame = "Frame_new [] False (fr_address parent)"
  have u: "unknown ?frame" by (simp add: unknown_def Frame_new_def)
  obtain st' where st': "parse_events l (r, ?frame # parent # stack) (map Inr inner) = Ok st'" "parse_events l st' [Inr Ev_End] = Ok st"
    using assms(4) by (auto simp: parse_event_def start_unknown [OF assms(2,3)] parse_events_append try_then_Inr_iff)
  then show ?thesis using unknown_content [OF assms(1) u st'(1)] by (simp add: parse_event_def Frame_new_def)
qed

definition ex_foreign :: "XmlEvent list" where
  "ex_foreign = [Ev_Start None (us ''result'') False, Ev_Start (Some (lo_api (for_root_index 0))) (us ''taxpayerValidity'') False,
     Ev_Text (us ''true''), Ev_End, Ev_End]"

theorem unknown_element_ignored_witness:
  "parse_events (for_root_index 0) (TaxpayerResponse_default, [Frame_new (us ''QueryTaxpayerResponse'') False False])
     (map Inr (Ev_Start None (us ''wrapper'') False # ex_foreign @ [Ev_End])) =
   Ok (TaxpayerResponse_default, [Frame_new (us ''QueryTaxpayerResponse'') False False])"
proof -
  let ?root = "Frame_new (us ''QueryTaxpayerResponse'') False False"
  have foreign: "Layout_child (for_root_index 0) (fr_name ?root) None (us ''wrapper'') = ([], False)"
    by (simp add: Layout_child_def layout_of_def Frame_new_def)
  have inner: "content ex_foreign" unfolding ex_foreign_def
    using content_Element [OF content_Element [OF content_Text [OF content_Nil] content_Nil] content_Nil] by simp
  have "\<exists>st. parse_events (for_root_index 0) (TaxpayerResponse_default, [?root])
      (map Inr (Ev_Start None (us ''wrapper'') False # ex_foreign @ [Ev_End])) = Ok st"
    using foreign by (simp add: ex_foreign_def parse_event_def start_unknown unknown_child Frame_new_def del: us_Cons)
  then obtain st where "parse_events (for_root_index 0) (TaxpayerResponse_default, [?root])
      (map Inr (Ev_Start None (us ''wrapper'') False # ex_foreign @ [Ev_End])) = Ok st" by blast
  with unknown_element_ignored [OF inner _ foreign this] show ?thesis by (simp add: Frame_new_def del: us_Cons)
qed

end
