(* ===== verification/Agent_Service.thy ===== *)
theory Agent_Service
  imports Status_Service Taxpayers
begin

text \<open>
  The stateless \<open>Szamlazz.Agent\<close> handlers (\<open>service/agent.rs\<close>, \<open>contract/agent.rs\<close>, and the \<open>query_taxpayer\<close> of \<open>gateway.rs\<close>):
  \<open>query\<close>, \<open>query_taxpayer\<close>, \<open>set_credit_entries\<close> and \<open>check_account\<close>. The taxpayer exchange is a parameter of the one
  handler that uses it; the trace records document exchanges, and a taxpayer query adds none. How the runtime
  displays a terminal error is a parameter too.
\<close>

section \<open>The query\<close>

record QueryRequest =
  qrq_selector :: Selector

definition Selector_validate :: "Selector \<Rightarrow> (unit, RequestError) result" where
  "Selector_validate selector = validate_xml_text (case selector of
     Sel_InvoiceNumber num \<Rightarrow> num | Sel_OrderNumber t \<Rightarrow> t | Sel_ExternalId t \<Rightarrow> t)"

record QueryBuyer =
  qb_name :: ustr
  qb_tax_number :: "ustr option"
  qb_eu_tax_number :: "ustr option"

record VatTotal =
  vt_vat_type :: "ustr option"
  vt_vat_rate_code :: ustr
  vt_net :: Decimal
  vt_vat :: Decimal
  vt_gross :: Decimal

record QueryResponse =
  qrs_buyer :: "QueryBuyer option"
  qrs_by_vat_rate :: "VatTotal list"
  qrs_invoice_number :: ustr
  qrs_document_id :: "int option"
  qrs_document_type :: ustr
  qrs_reversed :: "bool option"
  qrs_referenced_invoice_number :: "ustr option"
  qrs_referenced_proforma_number :: "ustr option"
  qrs_order_number :: "ustr option"
  qrs_issue_date :: "Date option"
  qrs_fulfillment_date :: "Date option"
  qrs_due_date :: "Date option"
  qrs_currency :: "ustr option"
  qrs_net_total :: "Decimal option"
  qrs_vat_total :: "Decimal option"
  qrs_gross_total :: "Decimal option"
  qrs_credit_entries :: "RecordedCreditEntry list"
  qrs_outstanding :: "Decimal option"
  qrs_test :: "bool option"

definition QueryResponse_new :: "ustr \<Rightarrow> ustr \<Rightarrow> QueryResponse" where
  "QueryResponse_new invoice_number wire_type = \<lparr> qrs_buyer = None, qrs_by_vat_rate = [], qrs_invoice_number = invoice_number,
     qrs_document_id = None, qrs_document_type = wire_type, qrs_reversed = None, qrs_referenced_invoice_number = None,
     qrs_referenced_proforma_number = None, qrs_order_number = None, qrs_issue_date = None, qrs_fulfillment_date = None, qrs_due_date = None,
     qrs_currency = None, qrs_net_total = None, qrs_vat_total = None, qrs_gross_total = None, qrs_credit_entries = [],
     qrs_outstanding = None, qrs_test = None \<rparr>"

definition QueryResponse_of_found :: "DecimalLib \<Rightarrow> FoundDocument \<Rightarrow> QueryResponse" where
  "QueryResponse_of_found lib document = (QueryResponse_new (number document) (DocumentType_as_wire (document_type document)))
     \<lparr> qrs_document_id := Some (document_id document), qrs_reversed := reversed document,
       qrs_referenced_invoice_number := referenced_invoice_number document,
       qrs_referenced_proforma_number := referenced_proforma_number document, qrs_order_number := order_number document,
       qrs_issue_date := issue_date document, qrs_fulfillment_date := fulfillment_date document, qrs_due_date := due_date document,
       qrs_currency := currency document, qrs_net_total := Some (net_total document), qrs_vat_total := Some (vat_total document),
       qrs_gross_total := Some (gross_total document), qrs_credit_entries := credit_entries document,
       qrs_outstanding := outstanding lib (Some (gross_total document)) (credit_entry_amounts document), qrs_test := test_account document \<rparr>"

definition QueryResponse_from :: "DecimalLib \<Rightarrow> InvoiceDocument \<Rightarrow> QueryResponse" where
  "QueryResponse_from lib document = (QueryResponse_of_found lib (FoundDocument_from document))
     \<lparr> qrs_buyer := Some \<lparr> qb_name = bi_name (doc_buyer document), qb_tax_number = bi_tax_number (doc_buyer document),
         qb_eu_tax_number = bi_eu_tax_number (doc_buyer document) \<rparr>,
       qrs_by_vat_rate := map (\<lambda>total. \<lparr> vt_vat_type = vrt_vat_type total, vt_vat_rate_code = vrt_vat_rate_code total,
         vt_net = vrt_net total, vt_vat = vrt_vat total, vt_gross = vrt_gross total \<rparr>) (doc_by_vat_rate document) \<rparr>"

definition query_response :: "'a QueryOutcome \<Rightarrow> ('a, Fault) result" where
  "query_response out = (case out of
     QO_Found found \<Rightarrow> Ok found
   | QO_NotFound \<Rightarrow> Err (Fault_not_found (msg ''szamlazz.hu does not know the document (code 7)''))
   | QO_CredentialsRejected answer \<Rightarrow> Err (into_fault (AnC_CredentialsRejected answer))
   | QO_Api answer \<Rightarrow> Err (into_fault (AnC_PassedThrough answer)))"

definition query_request :: "'s Execution \<Rightarrow> QueryRequest \<Rightarrow> ('s, (QueryResponse, Fault) result) prog" where
  "query_request exe request =
    then_ok (run_reading (exe_runtime exe) (us ''query'')
      (query (exe_remote exe) (QueryResponse_from (wt_lib (exe_wire exe))) (qrq_selector request))) (\<lambda>out. ret (query_response out))"

section \<open>The account check\<close>

datatype CredentialsCheck = CC_Ok | CC_Rejected ustr ustr | CC_Other ustr "(ustr \<times> Json) list"

primrec CredentialsCheck_as_str :: "CredentialsCheck \<Rightarrow> ustr" where
  "CredentialsCheck_as_str CC_Ok = us ''ok''"
| "CredentialsCheck_as_str (CC_Rejected _ _) = us ''rejected''"
| "CredentialsCheck_as_str (CC_Other state _) = state"

primrec CredentialsCheck_fields :: "CredentialsCheck \<Rightarrow> (ustr \<times> Json) list" where
  "CredentialsCheck_fields CC_Ok = []"
| "CredentialsCheck_fields (CC_Rejected code message) = [(us ''code'', J_String code), (us ''message'', J_String message)]"
| "CredentialsCheck_fields (CC_Other _ payload) = payload"

definition CredentialsCheck_serialize :: "CredentialsCheck \<Rightarrow> (ustr \<times> Json) list" where
  "CredentialsCheck_serialize check = (us ''state'', J_String (CredentialsCheck_as_str check)) # CredentialsCheck_fields check"

definition string_field :: "(ustr \<times> Json) list \<Rightarrow> ustr \<Rightarrow> (ustr, ustr) result" where
  "string_field object key = (case map_of object key of
     Some (J_String s) \<Rightarrow> Ok s
   | Some _ \<Rightarrow> Err (us ''invalid type'')
   | None \<Rightarrow> Err (msg ''missing field `'' @ key @ us ''`''))"

definition CredentialsCheck_deserialize :: "(ustr \<times> Json) list \<Rightarrow> (CredentialsCheck, ustr) result" where
  "CredentialsCheck_deserialize object =
    try_then (string_field object (us ''state'')) (\<lambda>state.
     (let payload = filter (\<lambda>f. fst f \<noteq> us ''state'') object in
      if state = us ''ok'' then Ok CC_Ok
      else if state = us ''rejected'' then
        try_then (string_field payload (us ''code'')) (\<lambda>code.
        try_then (string_field payload (us ''message'')) (\<lambda>message. Ok (CC_Rejected code message)))
      else Ok (CC_Other state payload)))"

record CheckAccountResponse =
  car_scope :: "ustr option"
  car_account :: ustr
  car_namespace :: ustr
  car_credentials :: CredentialsCheck

definition credentials_check :: "ProbeOutcome \<Rightarrow> CredentialsCheck" where
  "credentials_check out = (case out of
     PO_Accepted \<Rightarrow> CC_Ok
   | PO_CredentialsRejected answer \<Rightarrow> CC_Rejected (ans_code answer) (ans_message answer))"

definition check_account_request :: "'s Execution \<Rightarrow> ustr option \<Rightarrow> ('s, (CheckAccountResponse, Fault) result) prog" where
  "check_account_request exe scope =
    then_ok (run_reading (exe_runtime exe) (us ''probe'') (probe (exe_remote exe) (for_probe (exe_namespace exe)))) (\<lambda>out.
    ret (Ok \<lparr> car_scope = scope, car_account = acc_id (exe_account exe), car_namespace = ns_str (exe_namespace exe),
      car_credentials = credentials_check out \<rparr>))"

section \<open>The taxpayer query\<close>

datatype InvalidTaxNumber = InvalidTaxNumber ustr

definition InvalidTaxNumber_display :: "InvalidTaxNumber \<Rightarrow> ustr" where
  "InvalidTaxNumber_display error = (case error of InvalidTaxNumber n \<Rightarrow> msg ''invalid tax number '' @ debug_str n
     @ msg '': expected the eight-digit stem (12345678) or the full Hungarian tax number (12345678-2-42)'')"

definition tax_digits :: "ustr \<Rightarrow> nat \<Rightarrow> bool" where
  "tax_digits v n \<longleftrightarrow> utf8_len v = n \<and> list_all is_digit v"

definition tax_number_prefix :: "ustr \<Rightarrow> (TaxpayerPrefix, InvalidTaxNumber) result" where
  "tax_number_prefix tax_number =
    (let (stem, suffix) = (case split_once 45 tax_number of None \<Rightarrow> (tax_number, None) | Some (stem, rest) \<Rightarrow> (stem, Some rest)) in
     if (case suffix of
           None \<Rightarrow> False
         | Some rest \<Rightarrow> \<not> (case split_once 45 rest of None \<Rightarrow> False | Some (vat, area) \<Rightarrow> tax_digits vat 1 \<and> tax_digits area 2))
     then Err (InvalidTaxNumber tax_number)
     else map_err (\<lambda>_. InvalidTaxNumber tax_number) (TaxpayerPrefix_from_str stem))"

definition taxpayer_prefix :: "ustr \<Rightarrow> (TaxpayerPrefix, Fault) result" where
  "taxpayer_prefix tax_number = map_err (\<lambda>error. Fault_invalid_input (InvalidTaxNumber_display error)) (tax_number_prefix tax_number)"

definition taxpayer_step :: "TaxpayerPrefix \<Rightarrow> ustr" where
  "taxpayer_step stem = us ''lookup-taxpayer-'' @ prefix_str stem"

record QueryTaxpayerResponse =
  qtr_valid :: bool
  qtr_name :: "ustr option"
  qtr_tax_number :: "ustr option"
  qtr_vat_code :: "ustr option"
  qtr_addresses :: "TaxpayerAddress list"

text \<open>An address is projected field by field onto a type with the same fields.\<close>

definition QueryTaxpayerResponse_try_from :: "TaxpayerInfo \<Rightarrow> (QueryTaxpayerResponse, ustr) result" where
  "QueryTaxpayerResponse_try_from info = (case ti_valid info of
     None \<Rightarrow> Err (msg ''taxpayer reply omitted taxpayerValidity'')
   | Some valid \<Rightarrow> Ok \<lparr> qtr_valid = valid, qtr_name = ti_name info, qtr_tax_number = ti_tax_number info,
       qtr_vat_code = ti_vat_code info, qtr_addresses = ti_addresses info \<rparr>)"

datatype TaxpayerOutcome = TO_Found QueryTaxpayerResponse | TO_CredentialsRejected SzamlazzAnswer | TO_Api SzamlazzAnswer

definition taxpayer_outcome :: "(TaxpayerInfo, ClientError) result \<Rightarrow> (TaxpayerOutcome, Unanswered) result" where
  "taxpayer_outcome r = (case r of
     Inr info \<Rightarrow> try_then (map_err UA_Transport (QueryTaxpayerResponse_try_from info)) (\<lambda>taxpayer. Ok (TO_Found taxpayer))
   | Inl (CE_Api api) \<Rightarrow>
       Ok (if is_credential_error (api_code api) then TO_CredentialsRejected (SzamlazzAnswer_from api) else TO_Api (SzamlazzAnswer_from api))
   | Inl error \<Rightarrow> Err (exchange (msg ''query-taxpayer'') error))"

definition query_taxpayer :: "(TaxpayerPrefix \<Rightarrow> 's \<Rightarrow> (TaxpayerInfo, ClientError) result \<times> 's) \<Rightarrow> TaxpayerPrefix
    \<Rightarrow> ('s, (TaxpayerOutcome, Unanswered) result) prog" where
  "query_taxpayer ask stem = State (\<lambda>w. case ask stem (remote w) of (r, s) \<Rightarrow> (taxpayer_outcome r, w\<lparr> remote := s \<rparr>))"

definition taxpayer_response :: "TaxpayerOutcome \<Rightarrow> (QueryTaxpayerResponse, Fault) result" where
  "taxpayer_response out = (case out of
     TO_Found taxpayer \<Rightarrow> Ok taxpayer
   | TO_CredentialsRejected answer \<Rightarrow> Err (into_fault (AnC_CredentialsRejected answer))
   | TO_Api answer \<Rightarrow> Err (into_fault (AnC_PassedThrough answer)))"

definition query_taxpayer_request :: "(TaxpayerPrefix \<Rightarrow> 's \<Rightarrow> (TaxpayerInfo, ClientError) result \<times> 's) \<Rightarrow> 's Execution \<Rightarrow> TaxpayerPrefix
    \<Rightarrow> ('s, (QueryTaxpayerResponse, Fault) result) prog" where
  "query_taxpayer_request ask exe stem =
    then_ok (run_reading (exe_runtime exe) (taxpayer_step stem) (query_taxpayer ask stem)) (\<lambda>out. ret (taxpayer_response out))"

section \<open>Credit entries\<close>

record SetCreditEntriesRequest =
  scr_invoice_number :: InvoiceNumber
  scr_entries :: "CreditEntryInput list"
  scr_additive :: bool

record SetCreditEntriesResponse =
  scs_invoice_number :: ustr
  scs_outstanding :: "Decimal option"
  scs_gross_total :: "Decimal option"

definition credit_entries_recovery :: "bool \<Rightarrow> ustr" where
  "credit_entries_recovery add =
    (if add then msg ''the entries are additive and may have landed; first settle whether the earlier registration completed and cannot execute later, or did not execute and cannot execute later; missing entries and elapsed time are not settlement evidence; then query the invoice and, only after settlement, send only those entries still required with a new Idempotency-Key''
     else msg ''first settle whether the earlier registration completed and cannot execute later, or did not execute and cannot execute later; missing entries and elapsed time are not settlement evidence; then query the invoice and, only after settlement, submit any still-intended replacement using the current intended snapshot and a new Idempotency-Key'')"

definition set_credit_entries_unknown :: "bool \<Rightarrow> ustr \<Rightarrow> Fault" where
  "set_credit_entries_unknown add lost = Fault_outcome_unknown (msg ''credit entry registration outcome unknown: '' @ lost @ us ''; ''
     @ credit_entries_recovery add)"

definition set_credit_entries_response :: "SetCreditEntriesOutcome \<Rightarrow> ustr \<Rightarrow> bool \<Rightarrow> (SetCreditEntriesResponse, Fault) result" where
  "set_credit_entries_response out num add = (case out of
     SC_Done outs gross \<Rightarrow> Ok \<lparr> scs_invoice_number = num, scs_outstanding = outs, scs_gross_total = gross \<rparr>
   | SC_Rejected rejection \<Rightarrow> Err (case rej_code rejection of
       RC_Request \<Rightarrow> Fault_invalid_input (msg ''the credit entries cannot be sent: '' @ rej_message rejection @ msg ''; nothing was sent'')
     | RC_Szamlazz code \<Rightarrow> with_szamlazz_code (set_credit_entries_unknown add (msg ''the latest registration on invoice '' @ num
         @ msg '' was refused ('' @ code @ us '': '' @ rej_message rejection
         @ msg ''); this does not settle an earlier execution of the open run'')) code)
   | SC_CredentialsRejected answer \<Rightarrow> Err (into_fault (AnC_CredentialsRejected answer))
   | SC_Lost lost \<Rightarrow> Err (set_credit_entries_unknown add (Unanswered_display lost))
   | SC_Inconclusive answer \<Rightarrow> Err (with_szamlazz_code (set_credit_entries_unknown add (SzamlazzAnswer_display answer)) (ans_code answer)))"

definition validate_credit_entries :: "WireText \<Rightarrow> SetCreditEntriesRequest \<Rightarrow> (unit, Fault) result" where
  "validate_credit_entries wt request =
    (let invalid = (\<lambda>message. Fault_invalid_input (msg ''the credit entries cannot be sent: '' @ message @ msg ''; nothing was sent'')) in
     try_then (map_err invalid (credit_entry_request (number_str (scr_invoice_number request)) (scr_entries request) (scr_additive request))) (\<lambda>wire.
     map_err (\<lambda>error. invalid (RequestError_display error))
       (try_then (RegisterCreditEntry_to_wire wt (AgentKey (us ''validation'')) wire) (\<lambda>_. Ok ()))))"

definition credit_entries_fault :: "(TerminalError \<Rightarrow> ustr) \<Rightarrow> (ustr \<Rightarrow> Fault option) \<Rightarrow> bool \<Rightarrow> TerminalError \<Rightarrow> Fault" where
  "credit_entries_fault display decode add error = (case initialization_fault decode error (credit_entries_recovery add) of
     Some fault \<Rightarrow> fault
   | None \<Rightarrow> with_run_cause (set_credit_entries_unknown add (display error)) error)"

definition set_credit_entries_request :: "(TerminalError \<Rightarrow> ustr) \<Rightarrow> 's Execution \<Rightarrow> SetCreditEntriesRequest
    \<Rightarrow> ('s, (SetCreditEntriesResponse, Fault) result) prog" where
  "set_credit_entries_request display exe request =
    (let num = number_str (scr_invoice_number request); add = scr_additive request in
     then_ok (do {
       r \<leftarrow> run_operating (exe_runtime exe) (us ''set-credit-entries-'' @ num)
          (do { out \<leftarrow> set_credit_entries (exe_remote exe) (exe_account exe) num (scr_entries request) add; ret (Inr out :: (SetCreditEntriesOutcome, unit) result) });
       ret (map_err (credit_entries_fault display (rt_decode (exe_runtime exe)) add) r) }) (\<lambda>out.
     ret (set_credit_entries_response out num add)))"

section \<open>The tax number\<close>

lemma tax_digits_hyphen: "tax_digits v n \<Longrightarrow> 45 \<notin> set v"
  by (auto simp: tax_digits_def list_all_iff is_digit_def)

text \<open>A tax number is taken exactly in its two forms, eight digits or eight digits, a hyphen, one digit, a hyphen and two digits,
  and what is asked about is the eight digits.\<close>

theorem tax_number_forms:
  "tax_number_prefix n = Ok p \<longleftrightarrow> (tax_digits (prefix_str p) 8 \<and>
     (n = prefix_str p \<or> (\<exists>v area. tax_digits v 1 \<and> tax_digits area 2 \<and> n = prefix_str p @ [45] @ v @ [45] @ area)))"
proof -
  have stem: "map_err f (TaxpayerPrefix_from_str s) = Ok p \<longleftrightarrow> tax_digits s 8 \<and> prefix_str p = s" for s and f :: "unit \<Rightarrow> InvalidTaxNumber"
    by (cases p) (auto simp: TaxpayerPrefix_from_str_def TaxpayerPrefix_validate_def tax_digits_def map_err_def)
  have suffix: "(case split_once 45 rest of None \<Rightarrow> False | Some (vat, area) \<Rightarrow> tax_digits vat 1 \<and> tax_digits area 2) \<longleftrightarrow>
      (\<exists>v area. tax_digits v 1 \<and> tax_digits area 2 \<and> rest = v @ [45] @ area)" for rest
  proof
    show "\<exists>v area. tax_digits v 1 \<and> tax_digits area 2 \<and> rest = v @ [45] @ area"
      if "case split_once 45 rest of None \<Rightarrow> False | Some (vat, area) \<Rightarrow> tax_digits vat 1 \<and> tax_digits area 2"
      using that by (auto simp: split_once_Some split: option.splits)
  next
    assume "\<exists>v area. tax_digits v 1 \<and> tax_digits area 2 \<and> rest = v @ [45] @ area"
    then obtain v area where v: "tax_digits v 1" "tax_digits area 2" "rest = v @ 45 # area" by auto
    then have "split_once 45 rest = Some (v, area)" using tax_digits_hyphen by (simp add: split_once_Some)
    then show "case split_once 45 rest of None \<Rightarrow> False | Some (vat, area) \<Rightarrow> tax_digits vat 1 \<and> tax_digits area 2" using v by simp
  qed
  show ?thesis
  proof (cases "split_once 45 n")
    case None
    have "tax_number_prefix n = Ok p \<longleftrightarrow> tax_digits n 8 \<and> prefix_str p = n" 
      using None stem [of _ n] by (simp add: tax_number_prefix_def)
    then show ?thesis using None unfolding split_once_None by auto
  next
    case (Some sr)
    then obtain s rest where sr: "sr = (s, rest)" "n = s @ 45 # rest" "45 \<notin> set s" by (cases sr) (auto simp: split_once_Some)
    have same: "s = u \<and> rest = t" if "s @ 45 # rest = u @ 45 # t" "45 \<notin> set u" for u t
      using that sr(3) split_once_Some [of 45 "u @ 45 # t" u t] split_once_Some [of 45 "s @ 45 # rest" s rest] by simp
    have "tax_number_prefix n = Ok p \<longleftrightarrow> (\<exists>v area. tax_digits v 1 \<and> tax_digits area 2 \<and> rest = v @ [45] @ area) \<and> tax_digits s 8 \<and> prefix_str p = s"
      using Some sr(1) stem [of _ s] unfolding tax_number_prefix_def suffix [symmetric] by auto
    also have "\<dots> \<longleftrightarrow> tax_digits (prefix_str p) 8 \<and> (\<exists>v area. tax_digits v 1 \<and> tax_digits area 2 \<and> n = prefix_str p @ [45] @ v @ [45] @ area)"
      using same tax_digits_hyphen unfolding sr(2) by fastforce
    also have "\<dots> \<longleftrightarrow> tax_digits (prefix_str p) 8 \<and>
        (n = prefix_str p \<or> (\<exists>v area. tax_digits v 1 \<and> tax_digits area 2 \<and> n = prefix_str p @ [45] @ v @ [45] @ area))"
      using tax_digits_hyphen [of n 8] sr(2) by auto
    finally show ?thesis .
  qed
qed

section \<open>Registrations\<close>

text \<open>The registration a request asks for, on its account.\<close>

definition registration :: "Account \<Rightarrow> SetCreditEntriesRequest \<Rightarrow> RegisterCreditEntry" where
  "registration account request = \<lparr> rce_invoice_number = number_str (scr_invoice_number request), rce_issuer_tax_number = None,
     rce_additive = scr_additive request, rce_aggregator = df_aggregator (acc_defaults account), rce_entries = map CreditEntry_from (scr_entries request) \<rparr>"

definition acknowledged :: "Account \<Rightarrow> SetCreditEntriesRequest \<Rightarrow> SetCreditEntriesResponse \<Rightarrow> Event list \<Rightarrow> bool" where
  "acknowledged account request response xs \<longleftrightarrow> (\<exists>balance. SentCredit (registration account request) (Inr balance) \<in> set xs \<and>
     ib_invoice_number balance \<in> {None, Some (number_str (scr_invoice_number request))} \<and>
     response = \<lparr> scs_invoice_number = number_str (scr_invoice_number request), scs_outstanding = ib_outstanding balance,
       scs_gross_total = ib_gross_total balance \<rparr>)"

definition own_credit :: "Account \<Rightarrow> SetCreditEntriesRequest \<Rightarrow> Event \<Rightarrow> bool" where
  "own_credit account request e \<longleftrightarrow> length (scr_entries request) \<le> 5 \<and> (\<exists>reply. e = SentCredit (registration account request) reply)"

text \<open>What a registration that was not acknowledged may end with: the credentials were refused in the last reply; the request could
  not be sent, with more than five entries or a request that does not render; the client could not be opened; and
  otherwise the outcome is unknown.\<close>

definition credit_fault :: "Account \<Rightarrow> SetCreditEntriesRequest \<Rightarrow> Fault \<Rightarrow> Event list \<Rightarrow> bool" where
  "credit_fault account request fault xs \<longleftrightarrow> (case f_code fault of
     TC_OutcomeUnknown \<Rightarrow> True
   | TC_CredentialsRejected \<Rightarrow> (\<exists>ys api. writes xs = ys @ [SentCredit (registration account request) (Inl (CE_Api api))] \<and>
       is_credential_error (api_code api))
   | TC_InvalidInput \<Rightarrow> (writes xs = [] \<and> 5 < length (scr_entries request)) \<or>
       (\<exists>ys e. writes xs = ys @ [SentCredit (registration account request) (Inl (CE_Request e))])
   | TC_Unavailable \<Rightarrow> (\<exists>reason. f_message fault = reason @ us ''; '' @ credit_entries_recovery (scr_additive request))
   | _ \<Rightarrow> False)"

text \<open>The same of one execution of the gateway's step.\<close>

definition credit_outcome :: "Account \<Rightarrow> SetCreditEntriesRequest \<Rightarrow> SetCreditEntriesOutcome \<Rightarrow> Event list \<Rightarrow> bool" where
  "credit_outcome account request out xs \<longleftrightarrow> (case out of
     SC_Done outs gross \<Rightarrow> acknowledged account request
       \<lparr> scs_invoice_number = number_str (scr_invoice_number request), scs_outstanding = outs, scs_gross_total = gross \<rparr> xs
   | SC_Rejected rejection \<Rightarrow> rej_code rejection = RC_Request \<longrightarrow>
       (if 5 < length (scr_entries request) then writes xs = []
        else \<exists>ys e. writes xs = ys @ [SentCredit (registration account request) (Inl (CE_Request e))])
   | SC_CredentialsRejected answer \<Rightarrow> (\<exists>ys api. writes xs = ys @ [SentCredit (registration account request) (Inl (CE_Api api))] \<and>
       is_credential_error (api_code api))
   | _ \<Rightarrow> True)"

lemma set_credit_entries_yields:
  "yields (\<lambda>out xs. list_all (own_credit account request) (writes xs) \<and> credit_outcome account request out xs)
    (set_credit_entries rm account (number_str (scr_invoice_number request)) (scr_entries request) (scr_additive request))"
proof (cases "5 < length (scr_entries request)")
  case True
  then show ?thesis by (auto intro!: yields_return simp: set_credit_entries_def credit_entry_request_def credit_outcome_def)
next
  case False
  let ?num = "number_str (scr_invoice_number request)"
  have r: "credit_entry_request ?num (scr_entries request) (scr_additive request) =
      Ok ((registration account request)\<lparr> rce_aggregator := None \<rparr>)"
    using False by (simp add: credit_entry_request_def registration_def RegisterCreditEntry_new_def)
  have reg: "(registration account request)\<lparr> rce_aggregator := None, rce_aggregator := df_aggregator (acc_defaults account) \<rparr> = registration account request"
    by (simp add: registration_def)
  show ?thesis unfolding set_credit_entries_def r sum.case reg
  proof (rule yields_bind [OF send_yields(5)], rule yields_return, goal_cases)
    case (1 reply xs)
    have own: "own_credit account request (SentCredit (registration account request) reply)" using False by (simp add: own_credit_def)
    show ?case
    proof (cases reply)
      case (Inl e)
      with 1 own False show ?thesis
        by (cases e) (auto simp: credit_outcome_def SetCreditEntriesOutcome_from_def Rejection_from_def Rejection_from_answer_def)
    next
      case (Inr balance)
      with 1 own show ?thesis by (auto simp: credit_outcome_def acknowledged_def split: option.splits)
    qed
  qed
qed

lemma credit_outcome_grow:
  assumes "credit_outcome account request out xs" "list_all (own_credit account request) (writes (zs @ xs))"
  shows "credit_outcome account request out (zs @ xs)"
proof -
  have "writes (zs @ xs) = []" if "5 < length (scr_entries request)"
  proof (cases "writes (zs @ xs)")
    case (Cons e es)
    have "own_credit account request e" using assms(2) unfolding Cons by simp
    with that show ?thesis by (simp add: own_credit_def)
  qed
  with assms(1) show ?thesis
    by (cases out) (auto simp: credit_outcome_def acknowledged_def)
qed

lemma credit_entries_fault_fault:
  "credit_fault account request (credit_entries_fault display decode (scr_additive request) error) xs"
  by (auto simp: credit_entries_fault_def initialization_fault_def with_run_cause_def with_cause_def set_credit_entries_unknown_def
      Fault_outcome_unknown_def Fault_new_def credit_fault_def split: option.splits if_splits)

lemma credit_response_fault:
  assumes "credit_outcome account request out xs"
    and "set_credit_entries_response out (number_str (scr_invoice_number request)) (scr_additive request) = Err fault"
  shows "credit_fault account request fault xs"
  using assms by (cases out)
    (auto simp: set_credit_entries_response_def set_credit_entries_unknown_def fault_simps credit_outcome_def credit_fault_def
      split: RejectionCode.splits if_splits)

text \<open>(C31) \<open>set_credit_entries\<close> sends nothing but the registration it was asked for, with the requested entries (five at most) and flag, on the
  named invoice; it answers success only when szamlazz.hu acknowledged that registration without naming another invoice, with the
  totals of the acknowledgement.  Otherwise the fault follows from what happened: "invalid input" only when nothing was sent (more than
  five entries) or the last attempt could not be put on the wire; "credentials rejected" only when the last reply refused the
  credentials; "unavailable" only with the advice to settle an earlier execution; and everything else, every other refusal of
  szamlazz.hu included, is an unknown outcome: a refusal is never passed on as if it settled the registration.\<close>

theorem credit_entries_registered:
  "\<exists>xs. trace (snd (run_state (set_credit_entries_request display exe request) w)) = trace w @ xs \<and>
     list_all (own_credit (exe_account exe) request) (writes xs) \<and>
     (case fst (run_state (set_credit_entries_request display exe request) w) of
        Inr response \<Rightarrow> acknowledged (exe_account exe) request response xs
      | Inl fault \<Rightarrow> credit_fault (exe_account exe) request fault xs)"
proof -
  let ?num = "number_str (scr_invoice_number request)" and ?acc = "exe_account exe" and ?add = "scr_additive request"
  let ?own = "\<lambda>xs. list_all (own_credit ?acc request) (writes xs)"
  let ?Q = "\<lambda>r xs. ?own xs \<and> (case r of Inr response \<Rightarrow> acknowledged ?acc request response xs | Inl fault \<Rightarrow> credit_fault ?acc request fault xs)"
  let ?S = "\<lambda>r xs. ?own xs \<and> (\<forall>out. r = Inr out \<longrightarrow> credit_outcome ?acc request out xs)"
  have step: "yields ?S (do { out \<leftarrow> set_credit_entries (exe_remote exe) ?acc ?num (scr_entries request) ?add;
      ret (Inr out :: (SetCreditEntriesOutcome, unit) result) })"
    by (rule yields_bind [OF set_credit_entries_yields]) (auto intro!: yields_return)
  have run: "yields (\<lambda>r xs. ?own xs \<and> (case r of Inl f \<Rightarrow> credit_fault ?acc request f xs | Inr out \<Rightarrow> credit_outcome ?acc request out xs))
      (do { r \<leftarrow> run_operating (exe_runtime exe) name
          (do { out \<leftarrow> set_credit_entries (exe_remote exe) ?acc ?num (scr_entries request) ?add;
            ret (Inr out :: (SetCreditEntriesOutcome, unit) result) });
        ret (map_err (credit_entries_fault display decode ?add) r) })" for name decode
  proof (rule yields_bind [OF run_operating_sends [OF step, where P = "own_credit ?acc request"]], blast, rule yields_return, goal_cases)
    case (1 r xs)
    then show ?case
      using credit_entries_fault_fault credit_outcome_grow [of ?acc request] by (cases r) (auto simp: map_err_def)
  qed
  have "yields ?Q (set_credit_entries_request display exe request)" unfolding set_credit_entries_request_def Let_def
  proof (rule then_ok_yields [OF run], goal_cases)
    case (2 out xs)
    show ?case
    proof (rule yields_return, cases "set_credit_entries_response out ?num ?add")
      case (Inl fault)
      with 2 credit_response_fault [of ?acc request out xs fault]
      show "?Q (set_credit_entries_response out ?num ?add) (xs @ [])" by simp
    next
      case (Inr response)
      with 2 show "?Q (set_credit_entries_response out ?num ?add) (xs @ [])"
        by (cases out) (auto simp: set_credit_entries_response_def credit_outcome_def)
    qed
  qed auto
  then show ?thesis unfolding yields_def by blast
qed

end
