(* ===== verification/Payment_Notification.thy ===== *)
theory Payment_Notification
  imports Multipart
begin

text \<open>
  The receiver of instant payment notifications (the crate \<open>szamlazz-ipn\<close>): the check of the form encoding, the exact
  reading of amounts, and the notification built from the decoded pairs.  The form decoder
  (\<open>form_urlencoded\<close>), the calendar (\<open>jiff\<close>) and the decimal package are parameters.
\<close>

section \<open>UTF-8\<close>

text \<open>\<open>std::str::from_utf8\<close>: the well-formed byte sequences of the Unicode standard.\<close>

definition continuation :: "nat \<Rightarrow> bool" where
  "continuation b \<longleftrightarrow> 128 \<le> b \<and> b < 192"

fun from_utf8_nat :: "nat list \<Rightarrow> ustr option" where
  "from_utf8_nat [] = Some []"
| "from_utf8_nat (a # bs) =
    (if a < 128 then map_option (Cons a) (from_utf8_nat bs)
     else if a < 194 then None
     else if a < 224 then (case bs of
         b # bs \<Rightarrow> if continuation b then map_option (Cons ((a - 192) * 64 + (b - 128))) (from_utf8_nat bs) else None
       | [] \<Rightarrow> None)
     else if a < 240 then (case bs of
         b # c # bs \<Rightarrow>
           if continuation b \<and> continuation c \<and> (a = 224 \<longrightarrow> 160 \<le> b) \<and> (a = 237 \<longrightarrow> b < 160)
           then map_option (Cons ((a - 224) * 4096 + (b - 128) * 64 + (c - 128))) (from_utf8_nat bs) else None
       | _ \<Rightarrow> None)
     else if a < 245 then (case bs of
         b # c # d # bs \<Rightarrow>
           if continuation b \<and> continuation c \<and> continuation d \<and> (a = 240 \<longrightarrow> 144 \<le> b) \<and> (a = 244 \<longrightarrow> b < 144)
           then map_option (Cons ((a - 240) * 262144 + (b - 128) * 4096 + (c - 128) * 64 + (d - 128))) (from_utf8_nat bs) else None
       | _ \<Rightarrow> None)
     else None)"

definition from_utf8 :: "byte list \<Rightarrow> ustr option" where
  "from_utf8 bytes = from_utf8_nat (map unat bytes)"

section \<open>The form encoding\<close>

datatype IpnParseError = Ipn_Missing ustr | Ipn_MalformedForm | Ipn_InvalidUtf8

definition IpnParseError_display :: "ustr \<Rightarrow> IpnParseError \<Rightarrow> ustr" where
  "IpnParseError_display utf8_error error = (case error of
     Ipn_Missing parameter \<Rightarrow> msg ''missing IPN parameter '' @ parameter
   | Ipn_MalformedForm \<Rightarrow> msg ''malformed IPN form encoding: invalid percent escape''
   | Ipn_InvalidUtf8 \<Rightarrow> msg ''invalid UTF-8 in IPN form: '' @ utf8_error)"

definition ipn_hex_digit :: "byte \<Rightarrow> byte option" where
  "ipn_hex_digit b = (if 48 \<le> b \<and> b \<le> 57 then Some (b - 48)
     else if 97 \<le> b \<and> b \<le> 102 then Some (b - 97 + 10)
     else if 65 \<le> b \<and> b \<le> 70 then Some (b - 65 + 10)
     else None)"

text \<open>The byte loop of \<open>validate_form\<close>.\<close>

fun percent_decode :: "byte list \<Rightarrow> byte list option" where
  "percent_decode [] = Some []"
| "percent_decode (b # bs) =
    (if b = 37 then (case bs of
         h # l # bs \<Rightarrow> (case (ipn_hex_digit h, ipn_hex_digit l) of
             (Some high, Some low) \<Rightarrow> map_option (Cons (high * 16 + low)) (percent_decode bs)
           | _ \<Rightarrow> None)
       | _ \<Rightarrow> None)
     else map_option (Cons b) (percent_decode bs))"

definition validate_form :: "byte list \<Rightarrow> (unit, IpnParseError) result" where
  "validate_form body = (case percent_decode body of
     None \<Rightarrow> Err Ipn_MalformedForm
   | Some decoded \<Rightarrow> (case from_utf8 decoded of None \<Rightarrow> Err Ipn_InvalidUtf8 | Some _ \<Rightarrow> Ok ()))"

section \<open>Amounts\<close>

text \<open>\<open>i128\<close> arithmetic, wrapping around.\<close>

definition wrap_i128 :: "int \<Rightarrow> int" where
  "wrap_i128 x = (x + 2 ^ 127) mod 2 ^ 128 - 2 ^ 127"

fun exact_loop :: "ustr \<Rightarrow> int \<Rightarrow> nat \<Rightarrow> bool \<Rightarrow> bool \<Rightarrow> (int \<times> nat, DecimalError) result" where
  "exact_loop [] coefficient s point digit_seen =
    (if digit_seen then Ok (coefficient, s) else Err (PackageError (msg ''decimal has no digits'')))"
| "exact_loop (b # bs) coefficient s point digit_seen =
    (if point \<and> s = MAX_SCALE then Err Underflow
     else if is_digit b then
       (let coefficient = wrap_i128 (coefficient * 10 + int (b - 48)) in
        if 2 ^ 96 - 1 < coefficient then Err ExceedsMaximumPossibleValue
        else exact_loop bs coefficient (if point then s + 1 else s) point True)
     else if b = 46 \<and> \<not> point then exact_loop bs coefficient s True digit_seen
     else if b = 95 \<and> digit_seen then exact_loop bs coefficient s point digit_seen
     else Err (PackageError (msg ''invalid decimal character'')))"

definition ipn_exact :: "DecimalLib \<Rightarrow> ustr \<Rightarrow> (Decimal, DecimalError) result" where
  "ipn_exact lib text =
    (let (negative, text) = (case text of
         c # rest \<Rightarrow> if c = 45 then (True, rest) else (False, if c = 43 then rest else text)
       | [] \<Rightarrow> (False, text)) in
     try_then (exact_loop text 0 0 False False) (\<lambda>(coefficient, s).
     map_err PackageError (dl_try_from_i128_with_scale lib (if negative then - coefficient else coefficient) s)))"

definition ipn_parse_decimal :: "DecimalLib \<Rightarrow> ustr \<Rightarrow> Decimal option" where
  "ipn_parse_decimal lib value = (let value = trim value in
     case ipn_exact lib value of
       Inr d \<Rightarrow> Some d
     | Inl error \<Rightarrow>
         if count_list value 44 = 1 \<and> 46 \<notin> set value
         then result_ok (ipn_exact lib (map (\<lambda>c. if c = 44 then 46 else c) value)) else None)"

section \<open>The notification\<close>

definition non_empty :: "ustr \<Rightarrow> ustr option" where
  "non_empty value = (let trimmed = trim value in if trimmed = [] then None else Some trimmed)"

record PaymentNotification =
  pn_document_number :: ustr
  pn_gross_total :: "Decimal option"
  pn_raw_gross_total :: "ustr option"
  pn_paid_gross :: "Decimal option"
  pn_raw_paid_gross :: "ustr option"
  pn_payment_method :: "ustr option"
  pn_raw_payment_method :: "ustr option"
  pn_payment_date :: "Date option"
  pn_raw_payment_date :: "ustr option"
  pn_proforma_number :: "ustr option"
  pn_order_number :: "ustr option"

definition PaymentNotification_new :: "ustr \<Rightarrow> Decimal \<Rightarrow> Decimal \<Rightarrow> ustr \<Rightarrow> PaymentNotification" where
  "PaymentNotification_new document_number gross_total paid_gross payment_method =
    \<lparr> pn_document_number = document_number, pn_gross_total = Some gross_total, pn_raw_gross_total = None,
      pn_paid_gross = Some paid_gross, pn_raw_paid_gross = None, pn_payment_method = Some payment_method, pn_raw_payment_method = None,
      pn_payment_date = None, pn_raw_payment_date = None, pn_proforma_number = None, pn_order_number = None \<rparr>"

text \<open>The sign of a coefficient; the package also has a negative zero, which \<open>try_from_i128_with_scale\<close> never builds.\<close>

definition is_fully_paid :: "DecimalLib \<Rightarrow> PaymentNotification \<Rightarrow> bool option" where
  "is_fully_paid lib notification =
    Option.bind (pn_gross_total notification) (\<lambda>gross_total.
    Option.bind (pn_paid_gross notification) (\<lambda>paid_gross.
    Some (if mantissa gross_total < 0 then dl_le lib paid_gross gross_total else dl_le lib gross_total paid_gross)))"

text \<open>The local variables of \<open>from_pairs\<close>.\<close>

record PairFields =
  pf_document_number :: "ustr option"
  pf_gross_total :: "Decimal option"
  pf_paid_gross :: "Decimal option"
  pf_payment_method :: "ustr option"
  pf_payment_date :: "Date option"
  pf_raw_gross_total :: "ustr option"
  pf_raw_paid_gross :: "ustr option"
  pf_raw_payment_method :: "ustr option"
  pf_raw_payment_date :: "ustr option"
  pf_proforma_number :: "ustr option"
  pf_order_number :: "ustr option"

definition no_fields :: PairFields where
  "no_fields = \<lparr> pf_document_number = None, pf_gross_total = None, pf_paid_gross = None, pf_payment_method = None, pf_payment_date = None,
     pf_raw_gross_total = None, pf_raw_paid_gross = None, pf_raw_payment_method = None, pf_raw_payment_date = None,
     pf_proforma_number = None, pf_order_number = None \<rparr>"

definition take_pair :: "DecimalLib \<Rightarrow> (ustr \<Rightarrow> Date option) \<Rightarrow> PairFields \<Rightarrow> ustr \<times> ustr \<Rightarrow> PairFields" where
  "take_pair lib strptime fs pair = (case pair of (key, value) \<Rightarrow>
     if key = us ''szlahu_szamlaszam'' then fs\<lparr> pf_document_number := non_empty value \<rparr>
     else if key = us ''szlahu_bruttovegosszeg'' then
       fs\<lparr> pf_gross_total := ipn_parse_decimal lib value, pf_raw_gross_total := Some value \<rparr>
     else if key = us ''szlahu_kifizetettbrutto'' then
       fs\<lparr> pf_paid_gross := ipn_parse_decimal lib value, pf_raw_paid_gross := Some value \<rparr>
     else if key = us ''szlahu_fizetesmod'' then
       fs\<lparr> pf_payment_method := non_empty value, pf_raw_payment_method := Some value \<rparr>
     else if key = us ''szlahu_kifizdat'' then
       fs\<lparr> pf_payment_date := strptime (trim value), pf_raw_payment_date := Some value \<rparr>
     else if key = us ''szlahu_dijbekero_szama'' then fs\<lparr> pf_proforma_number := non_empty value \<rparr>
     else if key = us ''szlahu_rendelesszam'' then fs\<lparr> pf_order_number := non_empty value \<rparr>
     else fs)"

definition from_pairs :: "DecimalLib \<Rightarrow> (ustr \<Rightarrow> Date option) \<Rightarrow> (ustr \<times> ustr) list \<Rightarrow> (PaymentNotification, IpnParseError) result" where
  "from_pairs lib strptime pairs = (let fs = foldl (take_pair lib strptime) no_fields pairs in
     case pf_document_number fs of
       None \<Rightarrow> Err (Ipn_Missing (us ''szlahu_szamlaszam''))
     | Some document_number \<Rightarrow> Ok \<lparr> pn_document_number = document_number,
         pn_gross_total = pf_gross_total fs, pn_raw_gross_total = pf_raw_gross_total fs,
         pn_paid_gross = pf_paid_gross fs, pn_raw_paid_gross = pf_raw_paid_gross fs,
         pn_payment_method = pf_payment_method fs, pn_raw_payment_method = pf_raw_payment_method fs,
         pn_payment_date = pf_payment_date fs, pn_raw_payment_date = pf_raw_payment_date fs,
         pn_proforma_number = pf_proforma_number fs, pn_order_number = pf_order_number fs \<rparr>)"

definition from_form_bytes :: "DecimalLib \<Rightarrow> (ustr \<Rightarrow> Date option) \<Rightarrow> (byte list \<Rightarrow> (ustr \<times> ustr) list) \<Rightarrow> byte list
    \<Rightarrow> (PaymentNotification, IpnParseError) result" where
  "from_form_bytes lib strptime parse body = try_then (validate_form body) (\<lambda>_. from_pairs lib strptime (parse body))"

section \<open>The form encoding is well formed\<close>

definition scalar :: "nat \<Rightarrow> bool" where
  "scalar c \<longleftrightarrow> c < 1114112 \<and> \<not> (55296 \<le> c \<and> c < 57344)"

lemma utf8_char_small: "scalar c \<Longrightarrow> b \<in> set (utf8_char c) \<Longrightarrow> b < 256"
  by (auto simp: utf8_char_def scalar_def split: if_splits)

lemma base_64: "y < 64 \<Longrightarrow> (x * 64 + y) div 64 = x \<and> (x * 64 + y) mod 64 = (y :: nat)"
  by auto

text \<open>The characters of two, three and four bytes by their base-64 digits.\<close>

lemma utf8_char_2: "2 \<le> x \<Longrightarrow> x < 32 \<Longrightarrow> y < 64 \<Longrightarrow> utf8_char (x * 64 + y) = [192 + x, 128 + y] \<and> scalar (x * 64 + y)"
  using base_64 [of y x] by (auto simp: utf8_char_def scalar_def)

lemma utf8_char_3:
  assumes "x < 16" "y < 64" "z < 64" "x = 0 \<Longrightarrow> 32 \<le> y"
  shows "utf8_char ((x * 64 + y) * 64 + z) = [224 + x, 128 + y, 128 + z]"
    "scalar ((x * 64 + y) * 64 + z) \<longleftrightarrow> \<not> (x = 13 \<and> 32 \<le> y)"
proof -
  let ?c = "(x * 64 + y) * 64 + z"
  have "?c div 4096 = ?c div 64 div 64" by (simp flip: div_mult2_eq)
  moreover have "2048 \<le> ?c" using assms by (cases "x = 0") auto
  moreover have "?c < 65536" using assms(1-3) by auto
  ultimately show "utf8_char ?c = [224 + x, 128 + y, 128 + z]"
    using assms base_64 [of z "x * 64 + y"] base_64 [of y x] unfolding utf8_char_def by simp
  have "?c < 1114112" using assms(1-3) by auto
  moreover have "55296 \<le> ?c \<and> ?c < 57344 \<Longrightarrow> x = 13" using assms(1-3) by auto
  then have "55296 \<le> ?c \<and> ?c < 57344 \<longleftrightarrow> x = 13 \<and> 32 \<le> y" using assms(2,3) by (cases "x = 13") auto
  ultimately show "scalar ?c \<longleftrightarrow> \<not> (x = 13 \<and> 32 \<le> y)" unfolding scalar_def by blast
qed

lemma utf8_char_4:
  assumes "w < 5" "x < 64" "y < 64" "z < 64" "w = 0 \<Longrightarrow> 16 \<le> x"
  shows "utf8_char (((w * 64 + x) * 64 + y) * 64 + z) = [240 + w, 128 + x, 128 + y, 128 + z]"
    "scalar (((w * 64 + x) * 64 + y) * 64 + z) \<longleftrightarrow> \<not> (w = 4 \<and> 16 \<le> x)"
proof -
  let ?c = "((w * 64 + x) * 64 + y) * 64 + z"
  have "?c div 4096 = ?c div 64 div 64" "?c div 262144 = ?c div 64 div 64 div 64" by (simp_all flip: div_mult2_eq)
  moreover have big: "65536 \<le> ?c" using assms by (cases "w = 0") auto
  ultimately show "utf8_char ?c = [240 + w, 128 + x, 128 + y, 128 + z]"
    using assms base_64 [of z "(w * 64 + x) * 64 + y"] base_64 [of y "w * 64 + x"] base_64 [of x w] unfolding utf8_char_def by simp
  have "scalar ?c \<longleftrightarrow> ?c < 1114112" using big by (simp add: scalar_def)
  also have "\<dots> \<longleftrightarrow> \<not> (w = 4 \<and> 16 \<le> x)" using assms(1-4) by (cases "w = 4"; simp) linarith+
  finally show "scalar ?c \<longleftrightarrow> \<not> (w = 4 \<and> 16 \<le> x)" .
qed

lemma scalar_cases:
  assumes "scalar c"
  obtains "c < 128"
  | x y where "c = x * 64 + y" "2 \<le> x" "x < 32" "y < 64"
  | x y z where "c = (x * 64 + y) * 64 + z" "x < 16" "y < 64" "z < 64" "x = 0 \<Longrightarrow> 32 \<le> y" "\<not> (x = 13 \<and> 32 \<le> y)"
  | w x y z where "c = ((w * 64 + x) * 64 + y) * 64 + z" "w < 5" "x < 64" "y < 64" "z < 64" "w = 0 \<Longrightarrow> 16 \<le> x" "\<not> (w = 4 \<and> 16 \<le> x)"
proof -
  define z q where "z = c mod 64" and "q = c div 64"
  define y p where "y = q mod 64" and "p = q div 64"
  define x w where "x = p mod 64" and "w = p div 64"
  have c: "c = q * 64 + z" "q = p * 64 + y" "p = w * 64 + x" "z < 64" "y < 64" "x < 64"
    by (simp_all add: z_def q_def y_def p_def x_def w_def)
  consider "c < 128" | "128 \<le> c" "c < 2048" | "2048 \<le> c" "c < 65536" | "65536 \<le> c" by linarith
  then show ?thesis
  proof cases
    case 2
    then have "2 \<le> q" "q < 32" using c(1,4) by linarith+
    then show ?thesis using that(2) c(1,4) by blast
  next
    case 3
    have "c = (p * 64 + y) * 64 + z" using c by simp
    moreover have p: "p < 16" "p = 0 \<Longrightarrow> 32 \<le> y" using 3 c(1,2,4) by linarith+
    moreover have "\<not> (p = 13 \<and> 32 \<le> y)" using utf8_char_3(2) [OF p(1) c(5,4) p(2)] assms c(1,2) by simp
    ultimately show ?thesis using that(3) c(4,5) by blast
  next
    case 4
    have "c = ((w * 64 + x) * 64 + y) * 64 + z" using c by simp
    moreover have "c < 1114112" using assms by (simp add: scalar_def)
    then have w: "w < 5" "w = 0 \<Longrightarrow> 16 \<le> x" using 4 c(1-5) by linarith+
    moreover have "\<not> (w = 4 \<and> 16 \<le> x)" using utf8_char_4(2) [OF w(1) c(6,5,4) w(2)] assms c(1-3) by simp
    ultimately show ?thesis using that(4) c(4-6) by blast
  qed (rule that(1))
qed

lemma from_utf8_char: "scalar c \<Longrightarrow> from_utf8_nat (utf8_char c @ bs) = map_option (Cons c) (from_utf8_nat bs)"
proof (erule scalar_cases, goal_cases)
  case 1
  then show ?case by (simp add: utf8_char_def)
next
  case (2 x y)
  then show ?case by (simp add: utf8_char_2 continuation_def)
next
  case (3 x y z)
  then show ?case using utf8_char_3 [of x y z] by (auto simp: continuation_def algebra_simps)
next
  case (4 w x y z)
  then show ?case using utf8_char_4 [of w x y z] by (auto simp: continuation_def algebra_simps)
qed

lemma from_utf8_encoded: "list_all scalar s \<Longrightarrow> from_utf8_nat (concat (map utf8_char s)) = Some s"
  by (induction s) (simp_all add: from_utf8_char)

lemma from_utf8_sound: "from_utf8_nat bs = Some s \<Longrightarrow> list_all scalar s \<and> bs = concat (map utf8_char s)"
proof (induction bs arbitrary: s rule: from_utf8_nat.induct)
  case IH: (2 a bs)
  consider "a < 128" | "194 \<le> a" "a < 224" | "224 \<le> a" "a < 240" | "240 \<le> a" "a < 245"
    using IH(5) by (fastforce split: if_splits)
  then show ?case
  proof cases
    case 1
    then obtain t where "s = a # t" "from_utf8_nat bs = Some t" using IH(5) by auto
    then show ?thesis using IH(1) [of t] 1 by (simp add: utf8_char_def scalar_def)
  next
    case 2
    then obtain b cs t where t: "bs = b # cs" "continuation b" "from_utf8_nat cs = Some t" "s = ((a - 192) * 64 + (b - 128)) # t"
      using IH(5) by (auto split: list.splits if_splits)
    then show ?thesis using IH(2) [of b cs t] 2 utf8_char_2 [of "a - 192" "b - 128"] by (auto simp: continuation_def)
  next
    case 3
    then obtain b c cs t where t: "bs = b # c # cs" "continuation b \<and> continuation c \<and> (a = 224 \<longrightarrow> 160 \<le> b) \<and> (a = 237 \<longrightarrow> b < 160)"
        "from_utf8_nat cs = Some t" "s = ((a - 224) * 4096 + (b - 128) * 64 + (c - 128)) # t"
      using IH(5) by (auto split: list.splits if_splits)
    moreover have "list_all scalar t \<and> cs = concat (map utf8_char t)" using IH(3) [of b "c # cs" c cs t] 3 t by simp
    moreover have "(a - 224) * 4096 + (b - 128) * 64 + (c - 128) = ((a - 224) * 64 + (b - 128)) * 64 + (c - 128)" by simp
    moreover have "scalar (((a - 224) * 64 + (b - 128)) * 64 + (c - 128)) \<and> utf8_char (((a - 224) * 64 + (b - 128)) * 64 + (c - 128)) = [a, b, c]"
      using 3 t(2) utf8_char_3 [of "a - 224" "b - 128" "c - 128"] by (auto simp: continuation_def simp del: diff_add_assoc2 diff_mult_distrib)
    ultimately show ?thesis by simp
  next
    case 4
    then obtain b c d cs t where t: "bs = b # c # d # cs"
        "continuation b \<and> continuation c \<and> continuation d \<and> (a = 240 \<longrightarrow> 144 \<le> b) \<and> (a = 244 \<longrightarrow> b < 144)"
        "from_utf8_nat cs = Some t" "s = ((a - 240) * 262144 + (b - 128) * 4096 + (c - 128) * 64 + (d - 128)) # t"
      using IH(5) by (auto split: list.splits if_splits)
    moreover have "list_all scalar t \<and> cs = concat (map utf8_char t)" using IH(4) [of b "c # d # cs" c "d # cs" d cs t] 4 t by simp
    moreover have "(a - 240) * 262144 + (b - 128) * 4096 + (c - 128) * 64 + (d - 128) = (((a - 240) * 64 + (b - 128)) * 64 + (c - 128)) * 64 + (d - 128)" by simp
    moreover have "scalar ((((a - 240) * 64 + (b - 128)) * 64 + (c - 128)) * 64 + (d - 128)) \<and>
        utf8_char ((((a - 240) * 64 + (b - 128)) * 64 + (c - 128)) * 64 + (d - 128)) = [a, b, c, d]"
    proof -
      have r: "a - 240 < 5" "b - 128 < 64" "c - 128 < 64" "d - 128 < 64" "a - 240 = 0 \<Longrightarrow> 16 \<le> b - 128" "\<not> (a - 240 = 4 \<and> 16 \<le> b - 128)"
        using 4 t(2) by (auto simp: continuation_def)
      have "240 + (a - 240) = a" "128 + (b - 128) = b" "128 + (c - 128) = c" "128 + (d - 128) = d" using 4 t(2) by (auto simp: continuation_def)
      then show ?thesis using utf8_char_4 [OF r(1-5)] r(6) by simp
    qed
    ultimately show ?thesis by simp
  qed
qed simp

lemma from_utf8_iff: "from_utf8 bytes = Some s \<longleftrightarrow> list_all scalar s \<and> bytes = as_bytes s"
proof -
  have small: "unat (of_nat b :: byte) = b" if "scalar c" "b \<in> set (utf8_char c)" for b c
    using utf8_char_small [OF that] by (simp add: unsigned_of_nat take_bit_nat_eq_self)
  have "map (unat \<circ> (of_nat :: nat \<Rightarrow> byte)) (utf8_char c) = utf8_char c" if "scalar c" for c
    using small [OF that] by (intro map_idI) simp
  then have bytes: "map unat (as_bytes t) = concat (map utf8_char t)" if "list_all scalar t" for t
    using that by (induction t) (simp_all add: as_bytes_def)
  have "map unat bytes = concat (map utf8_char s) \<longleftrightarrow> bytes = as_bytes s" if "list_all scalar s"
    using bytes [OF that] by (metis list.inj_map_strong unsigned_word_eqI)
  then show ?thesis unfolding from_utf8_def using from_utf8_sound [of "map unat bytes" s] from_utf8_encoded [of s] by metis
qed

text \<open>A sender's escapes: any choice of the bytes left as they are, and of the case of each digit.\<close>

definition hex_of :: "bool \<Rightarrow> byte \<Rightarrow> byte" where
  "hex_of upper n = (if n < 10 then 48 + n else if upper then 55 + n else 87 + n)"

definition percent_encode :: "(byte \<Rightarrow> bool) \<Rightarrow> (byte \<Rightarrow> bool) \<Rightarrow> byte list \<Rightarrow> byte list" where
  "percent_encode keep upper bs = concat (map (\<lambda>b. if keep b \<and> b \<noteq> 37 then [b]
     else [37, hex_of (upper b) (b div 16), hex_of (upper b) (b mod 16)]) bs)"

lemma ipn_hex_digit_of: "n < 16 \<Longrightarrow> ipn_hex_digit (hex_of upper n) = Some n"
proof -
  assume n: "n < 16"
  define k where "k = unat n"
  then have k: "n = of_nat k" "k < 16" using n by (simp_all add: word_less_nat_alt)
  have "k \<in> set [0..<16]" using k(2) by simp
  then have "ipn_hex_digit (hex_of upper (of_nat k)) = Some (of_nat k)"
    by (simp add: upt_rec, elim disjE) (auto simp: ipn_hex_digit_def hex_of_def)
  then show ?thesis using k by simp
qed

lemma percent_roundtrip: "percent_decode (percent_encode keep upper bs) = Some bs"
proof (induction bs)
  case (Cons b bs)
  have "unat b < 256" using unsigned_less [of b] by simp
  then have "unat (b div 16) < 16" "unat (b mod 16) < 16" by (auto simp: unat_div unat_mod)
  then have "b div 16 < 16" "b mod 16 < 16" by (simp_all add: word_less_nat_alt)
  moreover have "b div 16 * 16 + b mod 16 = b" by (rule div_mult_mod_eq)
  ultimately show ?case using Cons by (simp add: percent_encode_def ipn_hex_digit_of)
qed (simp add: percent_encode_def)

text \<open>The form check accepts exactly the bodies whose percent escapes decode to the UTF-8 encoding of a text, and
  it accepts, byte for byte, whatever a sender escapes: any choice of the bytes left as they are and either case of
  the digits decodes to the bytes that were escaped, without a wrapped byte.\<close>

theorem validate_form_exact:
  "(validate_form body = Ok () \<longleftrightarrow> (\<exists>s. list_all scalar s \<and> percent_decode body = Some (as_bytes s))) \<and>
   percent_decode (percent_encode keep upper bytes) = Some bytes"
proof -
  have "validate_form body = Ok () \<longleftrightarrow> (\<exists>decoded s. percent_decode body = Some decoded \<and> from_utf8 decoded = Some s)"
    by (auto simp: validate_form_def split: option.splits)
  also have "\<dots> \<longleftrightarrow> (\<exists>s. list_all scalar s \<and> percent_decode body = Some (as_bytes s))"
    unfolding from_utf8_iff by blast
  finally show ?thesis using percent_roundtrip by blast
qed

section \<open>Amounts are read exactly\<close>

text \<open>The reference reading: the digits and the point without the separators, which may stand after a digit only;
  nothing may follow the twenty-eighth digit of the fraction.\<close>

definition fraction_digits :: "ustr \<Rightarrow> nat option \<Rightarrow> nat" where
  "fraction_digits digits point = (case point of None \<Rightarrow> 0 | Some p \<Rightarrow> length digits - p)"

definition read_digits :: "ustr \<Rightarrow> ustr \<Rightarrow> nat option \<Rightarrow> (nat \<times> nat) option" where
  "read_digits text digits point = (case scan_digits (filter (\<lambda>c. c \<noteq> 95) text) digits point of
     None \<Rightarrow> None
   | Some (ds, p) \<Rightarrow>
       if ds = [] \<or> (digits = [] \<and> 95 \<in> set (takeWhile (\<lambda>c. \<not> is_digit c) text)) \<or>
          MAX_SCALE < fraction_digits ds p \<or> (fraction_digits ds p = MAX_SCALE \<and> text \<noteq> [] \<and> last text = 95) \<or> 2 ^ 96 \<le> digits_value ds
       then None else Some (digits_value ds, fraction_digits ds p))"

definition amount_text :: "ustr \<Rightarrow> Decimal option" where
  "amount_text text = map_option (\<lambda>(n, s). Decimal (if take 1 text = [45] then - int n else int n) s) (read_digits (strip_sign text) [] None)"

lemma wrap_i128_small: "0 \<le> x \<Longrightarrow> x < 2 ^ 127 \<Longrightarrow> wrap_i128 x = x"
  by (simp add: wrap_i128_def)

lemma scan_digits_extends: "scan_digits bs ds p = Some (ds', p') \<Longrightarrow> \<exists>es. ds' = ds @ es \<and> (p \<noteq> None \<longrightarrow> p' = p)"
  by (induction bs ds p rule: scan_digits.induct) (fastforce split: if_splits)+

lemma scan_digits_grows:
  assumes "scan_digits bs ds p = Some (ds', p')" "\<forall>q. p = Some q \<longrightarrow> q \<le> length ds"
  shows "fraction_digits ds p \<le> fraction_digits ds' p'" "digits_value ds \<le> digits_value ds'"
proof -
  obtain es where es: "ds' = ds @ es" "p \<noteq> None \<longrightarrow> p' = p" using scan_digits_extends [OF assms(1)] by blast
  then show "fraction_digits ds p \<le> fraction_digits ds' p'" using assms(2) by (auto simp: fraction_digits_def split: option.splits)
  have "digits_value ds * 1 \<le> digits_value ds * 10 ^ length es" by (rule mult_left_mono) simp_all
  then show "digits_value ds \<le> digits_value ds'" unfolding es(1) digits_value_append by linarith
qed

lemma scan_digits_after_point: "scan_digits bs ds (Some q) = Some (ds', p') \<Longrightarrow> ds' = ds @ bs \<and> p' = Some q"
  by (induction bs arbitrary: ds) (fastforce split: if_splits)+

lemma read_digits_full:
  assumes "fraction_digits ds (Some q) = MAX_SCALE" "text \<noteq> []"
  shows "read_digits text ds (Some q) = None"
proof (cases "filter (\<lambda>c. c \<noteq> 95) text")
  case Nil
  then have "last text = 95" using assms(2) by (simp add: filter_empty_conv)
  then show ?thesis using assms Nil by (simp add: read_digits_def)
next
  case (Cons c cs)
  have "fraction_digits (ds @ c # cs) (Some q) > MAX_SCALE"
    using assms(1) by (simp add: fraction_digits_def MAX_SCALE_def)
  then show ?thesis unfolding read_digits_def Cons
    by (auto dest!: scan_digits_after_point split: option.split)
qed

lemma read_digits_digit: "is_digit b \<Longrightarrow> read_digits (b # bs) ds p = read_digits bs (ds @ [b]) p"
  by (auto simp: read_digits_def is_digit_def split: option.splits)

lemma read_digits_point: "read_digits (46 # bs) ds None = read_digits bs ds (Some (length ds))"
  by (auto simp: read_digits_def is_digit_def split: option.splits)

lemma read_digits_separator:
  "fraction_digits ds p \<noteq> MAX_SCALE \<Longrightarrow> read_digits (95 # bs) ds p = (if ds = [] then None else read_digits bs ds p)"
  by (auto simp: read_digits_def is_digit_def split: option.splits)

lemma read_digits_large: "2 ^ 96 \<le> digits_value ds \<Longrightarrow> \<forall>q. p = Some q \<longrightarrow> q \<le> length ds \<Longrightarrow> read_digits bs ds p = None"
  by (auto simp: read_digits_def dest!: scan_digits_grows(2) split: option.split)

lemma exact_loop_reads:
  assumes "digits_value ds < 2 ^ 96" "fraction_digits ds p \<le> MAX_SCALE" "\<forall>q. p = Some q \<longrightarrow> q \<le> length ds"
  shows "result_ok (exact_loop bs (int (digits_value ds)) (fraction_digits ds p) (p \<noteq> None) (ds \<noteq> [])) =
    map_option (\<lambda>(n, s). (int n, s)) (read_digits bs ds p)"
  using assms
proof (induction bs arbitrary: ds p)
  case Nil
  then show ?case by (auto simp: read_digits_def result_ok_def)
next
  case (Cons b bs)
  have none: "fraction_digits ds None \<noteq> MAX_SCALE" by (simp add: fraction_digits_def MAX_SCALE_def)
  consider (full) "p \<noteq> None" "fraction_digits ds p = MAX_SCALE" | (digit) "is_digit b" "\<not> (p \<noteq> None \<and> fraction_digits ds p = MAX_SCALE)"
    | (point) "b = 46" "p = None" | (sep) "b = 95" "fraction_digits ds p \<noteq> MAX_SCALE"
    | (other) "\<not> is_digit b" "b = 46 \<longrightarrow> p \<noteq> None" "b \<noteq> 95" "\<not> (p \<noteq> None \<and> fraction_digits ds p = MAX_SCALE)" using none by (cases p) auto
  then show ?case
  proof cases
    case full
    then show ?thesis by (auto simp: read_digits_full result_ok_def)
  next
    case digit
    let ?ds = "ds @ [b]"
    have "int (digits_value ds) * 10 + int (b - 48) = int (digits_value ?ds)" by (simp add: digits_value_snoc)
    moreover have "digits_value ?ds < 2 ^ 127" using Cons.prems(1) digit(1) by (simp add: digits_value_snoc is_digit_def) linarith
    ultimately have w: "wrap_i128 (int (digits_value ds) * 10 + int (b - 48)) = int (digits_value ?ds)" by (simp add: wrap_i128_small)
    show ?thesis
    proof (cases "digits_value ?ds < 2 ^ 96")
      case True
      have "fraction_digits ?ds p = (if p \<noteq> None then fraction_digits ds p + 1 else fraction_digits ds p)"
        using Cons.prems(3) by (auto simp: fraction_digits_def split: option.splits)
      then show ?thesis using Cons.IH [of ?ds p] Cons.prems digit True w
        by (auto simp: read_digits_digit le_SucI)
    next
      case False
      then show ?thesis using digit w Cons.prems(3) read_digits_large [of ?ds p bs]
        by (auto simp: read_digits_digit result_ok_def le_SucI)
    qed
  next
    case point
    have "fraction_digits ds (Some (length ds)) = 0" "fraction_digits ds None = 0" by (simp_all add: fraction_digits_def)
    then show ?thesis using point Cons.IH [of ds "Some (length ds)"] Cons.prems by (simp add: read_digits_point is_digit_def)
  next
    case sep
    then show ?thesis using Cons.IH [of ds p] Cons.prems by (cases "ds = []") (simp_all add: read_digits_separator is_digit_def result_ok_def)
  next
    case other
    then have "read_digits (b # bs) ds p = None" by (auto simp: read_digits_def)
    then show ?thesis using other by (auto simp: result_ok_def)
  qed
qed

text \<open>(C32) An amount of a notification is read exactly or not at all: whatever decimal package keeps its documented contract, the parser
  accepts exactly the texts of the reference reading, without rounding, and gives the coefficient of the digits
  and the number of digits after the point; the 128-bit accumulator never wraps.\<close>

theorem ipn_exact_reads: "decimal_lib lib \<Longrightarrow> result_ok (ipn_exact lib text) = amount_text text"
proof -
  assume lib: "decimal_lib lib"
  let ?body = "strip_sign text" and ?n = "take 1 text = [45]"
  have signed: "(case text of c # rest \<Rightarrow> if c = 45 then (True, rest) else (False, if c = 43 then rest else text) | [] \<Rightarrow> (False, text)) = (?n, ?body)"
    by (cases "text") (auto simp: strip_sign_def)
  have loop: "result_ok (exact_loop ?body 0 0 False False) = map_option (\<lambda>(n, s). (int n, s)) (read_digits ?body [] None)"
    using exact_loop_reads [of "[]" None ?body] by (simp add: digits_value_def fraction_digits_def)
  have fits: "valid_decimal (Decimal (if ?n then - int n else int n) s)" if "read_digits ?body [] None = Some (n, s)" for n s
  proof -
    have "n < 2 ^ 96" "s \<le> MAX_SCALE" using that by (auto simp: read_digits_def split: option.splits if_splits)
    then show ?thesis by (simp add: valid_decimal_def)
  qed
  show ?thesis
  proof (cases "exact_loop ?body 0 0 False False")
    case (Inl e)
    then show ?thesis using loop by (simp add: ipn_exact_def signed amount_text_def result_ok_def)
  next
    case (Inr cs)
    then obtain n s where ns: "read_digits ?body [] None = Some (n, s)" "cs = (int n, s)"
      using loop by (cases "read_digits ?body [] None") (auto simp: result_ok_def)
    then show ?thesis using fits [OF ns(1)] decimal_lib.from_parts [OF lib, of "if ?n then - int n else int n" s] Inr
      by (cases ?n) (auto simp: ipn_exact_def signed amount_text_def result_ok_def map_err_def split: sum.splits)
  qed
qed

theorem ipn_exact_reads_witness: "ipn_exact exact_package (us ''-12_700.50'') = Ok (Decimal (-1270050) 2)"
proof -
  have "result_ok (ipn_exact exact_package (us ''-12_700.50'')) = amount_text (us ''-12_700.50'')"
    by (rule ipn_exact_reads [OF exact_package.decimal_lib_axioms])
  moreover have "amount_text (us ''-12_700.50'') = Some (Decimal (-1270050) 2)"
    by (simp add: amount_text_def read_digits_def strip_sign_def is_digit_def fraction_digits_def digits_value_def MAX_SCALE_def)
  ultimately show ?thesis by (auto simp: result_ok_def split: sum.splits)
qed

section \<open>The last value of a parameter counts\<close>

definition last_value :: "(ustr \<times> ustr) list \<Rightarrow> ustr \<Rightarrow> ustr option" where
  "last_value pairs key = map_of (rev pairs) key"

text \<open>A notification is refused exactly when the last document number of the form is missing or blank.  Otherwise each field is
  read from the last value of its own parameter, whatever other parameters come between, and an
  unreadable amount or date, or a blank method, is absent with its text kept.\<close>

theorem from_pairs_last:
  "from_pairs lib strptime pairs = (case Option.bind (last_value pairs (us ''szlahu_szamlaszam'')) non_empty of
     None \<Rightarrow> Err (Ipn_Missing (us ''szlahu_szamlaszam''))
   | Some document_number \<Rightarrow> Ok \<lparr> pn_document_number = document_number,
       pn_gross_total = Option.bind (last_value pairs (us ''szlahu_bruttovegosszeg'')) (ipn_parse_decimal lib),
       pn_raw_gross_total = last_value pairs (us ''szlahu_bruttovegosszeg''),
       pn_paid_gross = Option.bind (last_value pairs (us ''szlahu_kifizetettbrutto'')) (ipn_parse_decimal lib),
       pn_raw_paid_gross = last_value pairs (us ''szlahu_kifizetettbrutto''),
       pn_payment_method = Option.bind (last_value pairs (us ''szlahu_fizetesmod'')) non_empty,
       pn_raw_payment_method = last_value pairs (us ''szlahu_fizetesmod''),
       pn_payment_date = Option.bind (last_value pairs (us ''szlahu_kifizdat'')) (\<lambda>value. strptime (trim value)),
       pn_raw_payment_date = last_value pairs (us ''szlahu_kifizdat''),
       pn_proforma_number = Option.bind (last_value pairs (us ''szlahu_dijbekero_szama'')) non_empty,
       pn_order_number = Option.bind (last_value pairs (us ''szlahu_rendelesszam'')) non_empty \<rparr>)"
proof -
  have "foldl (take_pair lib strptime) no_fields pairs = \<lparr>
      pf_document_number = Option.bind (last_value pairs (us ''szlahu_szamlaszam'')) non_empty,
      pf_gross_total = Option.bind (last_value pairs (us ''szlahu_bruttovegosszeg'')) (ipn_parse_decimal lib),
      pf_paid_gross = Option.bind (last_value pairs (us ''szlahu_kifizetettbrutto'')) (ipn_parse_decimal lib),
      pf_payment_method = Option.bind (last_value pairs (us ''szlahu_fizetesmod'')) non_empty,
      pf_payment_date = Option.bind (last_value pairs (us ''szlahu_kifizdat'')) (\<lambda>value. strptime (trim value)),
      pf_raw_gross_total = last_value pairs (us ''szlahu_bruttovegosszeg''),
      pf_raw_paid_gross = last_value pairs (us ''szlahu_kifizetettbrutto''),
      pf_raw_payment_method = last_value pairs (us ''szlahu_fizetesmod''),
      pf_raw_payment_date = last_value pairs (us ''szlahu_kifizdat''),
      pf_proforma_number = Option.bind (last_value pairs (us ''szlahu_dijbekero_szama'')) non_empty,
      pf_order_number = Option.bind (last_value pairs (us ''szlahu_rendelesszam'')) non_empty \<rparr>"
  proof (induction pairs rule: rev_induct)
    case (snoc pair pairs)
    obtain key v where "pair = (key, v)" by fastforce
    with snoc show ?case by (simp add: take_pair_def last_value_def)
  qed (simp add: no_fields_def last_value_def)
  then show ?thesis by (simp add: from_pairs_def Let_def split: option.split)
qed

end
