(* ===== verification/Pushed_Documents.thy ===== *)
theory Pushed_Documents
  imports Payment_Notification "HOL-Library.Monad_Syntax"
begin

text \<open>
  The documents szamlazz.hu pushes to a receiver (the crate \<open>szamlazz-adatkapcsolat\<close>, \<open>document.rs\<close>):
  their data, the lenient reading of every field, and the check against the schema.

  The XML text itself is read by \<open>quick_xml::de\<close>, dates by \<open>jiff\<close>, numbers by \<open>rust_decimal\<close> and a
  PDF by \<open>base64\<close>: these are the parameter \<open>PushLib\<close>.  A reader of a structure takes the node of its
  element and asks for its fields by their wire names, in the order the structure declares them;
  \<open>None\<close> is a failed deserialization, whose error the source keeps opaque.
\<close>

section \<open>Kinds of documents\<close>

datatype InvoiceDirection = Dir_Outgoing | Dir_Incoming

datatype RootKind = RK_OutgoingInvoice | RK_IncomingInvoice | RK_BankTransaction | RK_Receipts

definition root_element :: "RootKind \<Rightarrow> ustr" where
  "root_element kind = (case kind of
     RK_OutgoingInvoice \<Rightarrow> us ''szamla''
   | RK_IncomingInvoice \<Rightarrow> us ''szamlabe''
   | RK_BankTransaction \<Rightarrow> us ''banktranz''
   | RK_Receipts \<Rightarrow> us ''xmlnyugtaarchiv'')"

definition RootKind_namespace :: "RootKind \<Rightarrow> ustr" where
  "RootKind_namespace kind = (case kind of
     RK_OutgoingInvoice \<Rightarrow> us ''http://www.szamlazz.hu/szamla''
   | RK_IncomingInvoice \<Rightarrow> us ''http://www.szamlazz.hu/szamlabe''
   | RK_BankTransaction \<Rightarrow> us ''http://www.szamlazz.hu/banktranz''
   | RK_Receipts \<Rightarrow> us ''http://www.szamlazz.hu/xmlnyugtaarchiv'')"

definition ack_root_element :: "RootKind \<Rightarrow> ustr" where
  "ack_root_element kind = (case kind of
     RK_OutgoingInvoice \<Rightarrow> us ''szamlavalasz''
   | RK_IncomingInvoice \<Rightarrow> us ''szamlabevalasz''
   | RK_BankTransaction \<Rightarrow> us ''banktranzvalasz''
   | RK_Receipts \<Rightarrow> us ''nyugtavalasz'')"

definition RootKind_direction :: "RootKind \<Rightarrow> InvoiceDirection option" where
  "RootKind_direction kind = (case kind of
     RK_OutgoingInvoice \<Rightarrow> Some Dir_Outgoing
   | RK_IncomingInvoice \<Rightarrow> Some Dir_Incoming
   | RK_BankTransaction \<Rightarrow> None
   | RK_Receipts \<Rightarrow> None)"

definition RootKind_from :: "InvoiceDirection \<Rightarrow> RootKind" where
  "RootKind_from direction = (case direction of
     Dir_Outgoing \<Rightarrow> RK_OutgoingInvoice
   | Dir_Incoming \<Rightarrow> RK_IncomingInvoice)"

datatype PushParseError =
    PPE_Utf8
  | PPE_Xml
  | PPE_UnknownRoot ustr
  | PPE_Empty
  | PPE_WrongNamespace (wn_root: ustr) (wn_expected: ustr) (wn_actual: ustr)

section \<open>Data\<close>

text \<open>A decimal as its package documents it: a sign, a coefficient and a scale.\<close>

datatype PushedDecimal = PushedDecimal (is_sign_negative: bool) (pd_coefficient: nat) (pd_scale: nat)

datatype PushedAppearance = PA_NotInvoice | PA_Paper | PA_Electronic int | PA_Unknown int

definition PushedAppearance_code :: "PushedAppearance \<Rightarrow> int" where
  "PushedAppearance_code a = (case a of
     PA_NotInvoice \<Rightarrow> 0 | PA_Paper \<Rightarrow> 1 | PA_Electronic code \<Rightarrow> code | PA_Unknown code \<Rightarrow> code)"

definition PushedAppearance_is_e_invoice :: "PushedAppearance \<Rightarrow> bool" where
  "PushedAppearance_is_e_invoice a \<longleftrightarrow> (case a of PA_Electronic _ \<Rightarrow> True | _ \<Rightarrow> False)"

definition PushedAppearance_from :: "int \<Rightarrow> PushedAppearance" where
  "PushedAppearance_from code =
    (if code = 0 then PA_NotInvoice else if code = 1 then PA_Paper
     else if code = 2 \<or> code = 3 then PA_Electronic code else PA_Unknown code)"

datatype PushedVatRate = PVR_Special ustr | PVR_Percentage PushedDecimal

datatype Pdf = Pdf (pdf_bytes: "byte list")

datatype TransactionDirection = TD_Incoming | TD_Outgoing | TD_Other ustr

definition TransactionDirection_from_code :: "ustr \<Rightarrow> TransactionDirection" where
  "TransactionDirection_from_code code = (let t = trim code in
     if t = us ''BE'' then TD_Incoming else if t = us ''KI'' then TD_Outgoing else TD_Other t)"

definition TransactionDirection_code :: "TransactionDirection \<Rightarrow> ustr" where
  "TransactionDirection_code d = (case d of
     TD_Incoming \<Rightarrow> us ''BE'' | TD_Outgoing \<Rightarrow> us ''KI'' | TD_Other code \<Rightarrow> code)"

record Address =
  ad_name :: "ustr option"
  ad_country :: "ustr option"
  ad_zip :: "ustr option"
  ad_city :: "ustr option"
  ad_address :: "ustr option"

record PushedBuyerLedger =
  pbl_customer :: "ustr option"
  pbl_customer_id :: "ustr option"
  pbl_date :: "Date option"
  pbl_continuous_fulfillment :: "bool option"
  pbl_settlement_start :: "Date option"
  pbl_settlement_end :: "Date option"

record Bank =
  bk_name :: "ustr option"
  bk_account :: "ustr option"

record Party =
  py_id :: "int option"
  py_name :: "ustr option"
  py_partner_id :: "ustr option"
  py_address :: "Address option"
  py_postal_address :: "Address option"
  py_email :: "ustr option"
  py_tax_number :: "ustr option"
  py_group_id :: "ustr option"
  py_eu_tax_number :: "ustr option"
  py_bank :: "Bank option"
  py_location :: "int option"
  py_private_person :: "bool option"
  py_buyer_ledger :: "PushedBuyerLedger option"

record PushedInvoiceInfo =
  pii_id :: int
  pii_invoice_number :: ustr
  pii_economic_event_id :: "int option"
  pii_source :: "int option"
  pii_registration_number :: "ustr option"
  pii_document_type :: "ustr option"
  pii_appearance :: "PushedAppearance option"
  pii_referenced_invoice_number :: "ustr option"
  pii_referenced_proforma_number :: "ustr option"
  pii_issue_date :: "Date option"
  pii_fulfillment_date :: "Date option"
  pii_continuous_fulfillment :: "bool option"
  pii_settlement_start :: "Date option"
  pii_settlement_end :: "Date option"
  pii_due_date :: "Date option"
  pii_payment_method :: "ustr option"
  pii_payment_method_unified :: "ustr option"
  pii_cash :: "bool option"
  pii_order_number :: "ustr option"
  pii_language :: "ustr option"
  pii_currency :: "ustr option"
  pii_exchange_rate_bank :: "ustr option"
  pii_exchange_rate :: "PushedDecimal option"
  pii_comment :: "ustr option"
  pii_vat_type :: "ustr option"
  pii_cash_accounting :: "bool option"
  pii_kata :: "bool option"
  pii_kata_ledger :: "bool option"
  pii_email :: "ustr option"
  pii_test :: "bool option"
  pii_deleted :: "bool option"
  pii_reversed :: "bool option"

record InvoiceItemLedger =
  itl_revenue :: "ustr option"
  itl_vat :: "ustr option"
  itl_economic_event :: "ustr option"
  itl_economic_event_vat :: "ustr option"
  itl_settlement_start :: "Date option"
  itl_settlement_end :: "Date option"

record InvoiceItem =
  it_name :: "ustr option"
  it_id :: "ustr option"
  it_quantity :: "PushedDecimal option"
  it_unit :: "ustr option"
  it_unit_price :: "PushedDecimal option"
  it_vat_type :: "ustr option"
  it_vat_rate :: "PushedDecimal option"
  it_net_value :: "PushedDecimal option"
  it_margin_vat_base :: "PushedDecimal option"
  it_vat_value :: "PushedDecimal option"
  it_gross_value :: "PushedDecimal option"
  it_comment :: "ustr option"
  it_ordering :: "int option"
  it_ledger :: "InvoiceItemLedger option"

record PushedVatTotal =
  pvt_vat_type :: "ustr option"
  pvt_vat_rate :: "PushedDecimal option"
  pvt_net :: "PushedDecimal option"
  pvt_vat :: "PushedDecimal option"
  pvt_gross :: "PushedDecimal option"

record Totals =
  tot_per_vat_rate :: "PushedVatTotal list"
  tot_grand :: "PushedVatTotal option"

record PushedCreditEntry =
  pce_date :: "Date option"
  pce_title :: "ustr option"
  pce_amount :: "PushedDecimal option"
  pce_comment :: "ustr option"
  pce_bank_account :: "ustr option"
  pce_bank_transaction_id :: "int option"
  pce_exchange_rate :: "PushedDecimal option"

record FinancialItem =
  fi_name :: "ustr option"
  fi_vat_type :: "ustr option"
  fi_vat_rate :: "PushedDecimal option"
  fi_net :: "PushedDecimal option"
  fi_vat :: "PushedDecimal option"
  fi_gross :: "PushedDecimal option"
  fi_settlement_start :: "Date option"
  fi_settlement_end :: "Date option"
  fi_deductible_vat :: "int option"
  fi_tags :: "ustr list"

record PushedInvoice =
  pin_supplier :: Party
  pin_info :: PushedInvoiceInfo
  pin_buyer :: Party
  pin_items :: "InvoiceItem list"
  pin_financial_items :: "FinancialItem list"
  pin_tags :: "ustr list"
  pin_totals :: Totals
  pin_credit_entries :: "PushedCreditEntry list"
  pin_pdf :: "Pdf option"
  pin_raw_xml :: "ustr option"

record TransactionPartner =
  tp_name :: "ustr option"
  tp_bank_account :: "ustr option"

record BankTransaction =
  bt_id :: int
  bt_bank_account :: "ustr option"
  bt_value_date :: "Date option"
  bt_direction :: "TransactionDirection option"
  bt_transaction_type :: "ustr option"
  bt_technical :: "bool option"
  bt_amount :: "PushedDecimal option"
  bt_currency :: "ustr option"
  bt_partner :: "TransactionPartner option"
  bt_memo :: "ustr option"
  bt_raw_xml :: "ustr option"

record ReceiptInfo =
  ri_id :: int
  ri_call_id :: "ustr option"
  ri_receipt_number :: "ustr option"
  ri_document_type :: "ustr option"
  ri_reversed :: "bool option"
  ri_reversed_receipt_number :: "ustr option"
  ri_issue_date :: "Date option"
  ri_payment_method :: "ustr option"
  ri_currency :: "ustr option"
  ri_exchange_rate_bank :: "ustr option"
  ri_exchange_rate :: "PushedDecimal option"
  ri_comment :: "ustr option"
  ri_customer_ledger :: "ustr option"
  ri_test :: "bool option"
  ri_tax_number :: "ustr option"
  ri_order_number :: "ustr option"

record ReceiptItemLedger =
  ril_revenue :: "ustr option"
  ril_vat :: "ustr option"

record ReceiptItem =
  rit_name :: "ustr option"
  rit_id :: "ustr option"
  rit_unit_price :: "PushedDecimal option"
  rit_quantity :: "PushedDecimal option"
  rit_unit :: "ustr option"
  rit_net_value :: "PushedDecimal option"
  rit_vat_type :: "ustr option"
  rit_vat_rate :: "PushedDecimal option"
  rit_vat_value :: "PushedDecimal option"
  rit_gross_value :: "PushedDecimal option"
  rit_ledger :: "ReceiptItemLedger option"
  rit_comment :: "ustr option"

record ReceiptPayment =
  rp_method :: "ustr option"
  rp_amount :: "PushedDecimal option"
  rp_description :: "ustr option"

record ReceiptDocument =
  rd_info :: ReceiptInfo
  rd_items :: "ReceiptItem list"
  rd_payments :: "ReceiptPayment list"
  rd_totals :: Totals

record ReceiptBatch =
  rb_receipts :: "ReceiptDocument list"
  rb_raw_xml :: "ustr option"

definition Address_default :: Address where
  "Address_default = \<lparr> ad_name = None, ad_country = None, ad_zip = None, ad_city = None, ad_address = None \<rparr>"

definition PushedBuyerLedger_default :: PushedBuyerLedger where
  "PushedBuyerLedger_default = \<lparr> pbl_customer = None, pbl_customer_id = None, pbl_date = None, pbl_continuous_fulfillment = None, pbl_settlement_start = None, pbl_settlement_end = None \<rparr>"

definition Bank_default :: Bank where
  "Bank_default = \<lparr> bk_name = None, bk_account = None \<rparr>"

definition Party_default :: Party where
  "Party_default = \<lparr> py_id = None, py_name = None, py_partner_id = None, py_address = None, py_postal_address = None, py_email = None, py_tax_number = None, py_group_id = None, py_eu_tax_number = None, py_bank = None, py_location = None, py_private_person = None, py_buyer_ledger = None \<rparr>"

definition InvoiceItemLedger_default :: InvoiceItemLedger where
  "InvoiceItemLedger_default = \<lparr> itl_revenue = None, itl_vat = None, itl_economic_event = None, itl_economic_event_vat = None, itl_settlement_start = None, itl_settlement_end = None \<rparr>"

definition Totals_default :: Totals where
  "Totals_default = \<lparr> tot_per_vat_rate = [], tot_grand = None \<rparr>"

definition TransactionPartner_default :: TransactionPartner where
  "TransactionPartner_default = \<lparr> tp_name = None, tp_bank_account = None \<rparr>"

definition ReceiptItemLedger_default :: ReceiptItemLedger where
  "ReceiptItemLedger_default = \<lparr> ril_revenue = None, ril_vat = None \<rparr>"

section \<open>Reading fields\<close>

text \<open>What asking an element for a field gives: no such child, one that cannot be read as asked, or a value.\<close>

datatype 'a FieldRead = Absent | Unreadable | Present 'a

record 'n PushLib =
  pl_from_str :: "ustr \<Rightarrow> 'n option"
  pl_string :: "'n \<Rightarrow> ustr \<Rightarrow> ustr option FieldRead"
  pl_str :: "'n \<Rightarrow> ustr \<Rightarrow> ustr FieldRead"
  pl_int :: "'n \<Rightarrow> ustr \<Rightarrow> int FieldRead"
  pl_struct :: "'n \<Rightarrow> ustr \<Rightarrow> 'n FieldRead"
  pl_elem :: "'n \<Rightarrow> ustr \<Rightarrow> 'n option FieldRead"
  pl_seq :: "'n \<Rightarrow> ustr \<Rightarrow> 'n list FieldRead"
  pl_strings :: "'n \<Rightarrow> ustr \<Rightarrow> ustr list FieldRead"
  pl_decimal :: "ustr \<Rightarrow> PushedDecimal option"
  pl_date :: "ustr \<Rightarrow> Date option"
  pl_base64 :: "ustr \<Rightarrow> byte list option"

text \<open>A field with \<open>#[serde(default)]\<close>, and one without.\<close>

definition with_default :: "'b \<Rightarrow> 'a FieldRead \<Rightarrow> ('a \<Rightarrow> 'b option) \<Rightarrow> 'b option" where
  "with_default d field f = (case field of Absent \<Rightarrow> Some d | Unreadable \<Rightarrow> None | Present a \<Rightarrow> f a)"

definition required_field :: "'a FieldRead \<Rightarrow> ('a \<Rightarrow> 'b option) \<Rightarrow> 'b option" where
  "required_field field f = (case field of Present a \<Rightarrow> f a | _ \<Rightarrow> None)"

subsection \<open>Lexical rules\<close>

definition empty_string_as_none :: "ustr option \<Rightarrow> ustr option" where
  "empty_string_as_none v = (case v of None \<Rightarrow> None | Some t \<Rightarrow> if trim t = [] then None else Some t)"

definition empty_as_none :: "(ustr \<Rightarrow> 'a option) \<Rightarrow> ustr option \<Rightarrow> 'a option option" where
  "empty_as_none parse_wire v = (case map_option trim v of
     None \<Rightarrow> Some None
   | Some t \<Rightarrow> if t = [] then Some None else map_option Some (parse_wire t))"

text \<open>\<open>str::parse::<i64>\<close>.\<close>

definition parse_wire_i64 :: "ustr \<Rightarrow> int option" where
  "parse_wire_i64 t = (if strip_sign t = [] \<or> \<not> list_all is_digit (strip_sign t) then None else parse_i64 t)"

text \<open>The loop over the bytes of the base: digits seen and point seen, \<open>None\<close> at an illegal byte.\<close>

fun scan_base :: "ustr \<Rightarrow> bool \<Rightarrow> bool \<Rightarrow> bool option" where
  "scan_base [] digits point = Some digits"
| "scan_base (b # bs) digits point =
    (if is_digit b then scan_base bs True point
     else if b = 46 \<and> \<not> point then scan_base bs digits True
     else None)"

definition decimal_spelling :: "ustr \<Rightarrow> bool" where
  "decimal_spelling t = (let unsigned = strip_sign t;
       (base, expo) = (case split_exponent unsigned of Some (b, e) \<Rightarrow> (b, Some e) | None \<Rightarrow> (unsigned, None)) in
     scan_base base False False = Some True \<and>
     (case expo of None \<Rightarrow> True | Some e \<Rightarrow> strip_sign e \<noteq> [] \<and> list_all is_digit (strip_sign e)))"

definition compact_number :: "ustr \<Rightarrow> ustr" where
  "compact_number t = (let c = dropWhile (\<lambda>b. b = 48) (strip_sign t);
       c = (if c = [] \<or> hd c \<in> {46, 101, 69} then 48 # c else c) in
     if take 1 t = [45] then 45 # c else c)"

definition parse_wire_decimal :: "'n PushLib \<Rightarrow> ustr \<Rightarrow> PushedDecimal option" where
  "parse_wire_decimal lib t = (if decimal_spelling t then pl_decimal lib (compact_number t) else None)"

text \<open>\<open>str::split_at_checked\<close>: a byte offset, only at a character boundary.\<close>

fun split_at_checked :: "nat \<Rightarrow> ustr \<Rightarrow> (ustr \<times> ustr) option" where
  "split_at_checked k [] = (if k = 0 then Some ([], []) else None)"
| "split_at_checked k (c # cs) =
    (if k = 0 then Some ([], c # cs)
     else if utf8_width c \<le> k then map_option (\<lambda>(a, b). (c # a, b)) (split_at_checked (k - utf8_width c) cs)
     else None)"

definition is_xs_timezone_offset :: "ustr \<Rightarrow> bool" where
  "is_xs_timezone_offset offset = (case offset of
     [sign, h1, h2, colon, m1, m2] \<Rightarrow>
       (sign = 43 \<or> sign = 45) \<and> is_digit h1 \<and> is_digit h2 \<and> colon = 58 \<and> 48 \<le> m1 \<and> m1 \<le> 53 \<and> is_digit m2 \<and>
       (let hours = (h1 - 48) * 10 + (h2 - 48); minutes = (m1 - 48) * 10 + (m2 - 48) in
        hours < 14 \<or> (hours = 14 \<and> minutes = 0))
   | _ \<Rightarrow> False)"

definition strip_xs_date_timezone :: "ustr \<Rightarrow> ustr" where
  "strip_xs_date_timezone t =
    (if t \<noteq> [] \<and> last t = 90 then butlast t
     else if utf8_len t < 6 then t
     else (case split_at_checked (utf8_len t - 6) t of
         None \<Rightarrow> t
       | Some (date, offset) \<Rightarrow> if is_xs_timezone_offset offset then date else t))"

definition opt_xs_date :: "'n PushLib \<Rightarrow> ustr option \<Rightarrow> Date option" where
  "opt_xs_date lib v = (case v of None \<Rightarrow> None | Some t \<Rightarrow> pl_date lib (strip_xs_date_timezone (trim t)))"

definition opt_flexible_bool :: "ustr option \<Rightarrow> bool option option" where
  "opt_flexible_bool v = (case map_option trim v of
     None \<Rightarrow> Some None
   | Some t \<Rightarrow>
       if t = [] then Some None
       else if t = us ''true'' \<or> t = us ''1'' then Some (Some True)
       else if t = us ''false'' \<or> t = us ''0'' then Some (Some False)
       else None)"

definition base64_pdf :: "'n PushLib \<Rightarrow> ustr option \<Rightarrow> Pdf option" where
  "base64_pdf lib v = (case v of None \<Rightarrow> None
   | Some encoded \<Rightarrow> (let compact = filter (\<lambda>c. \<not> is_whitespace c) encoded in
       if compact = [] then None else map_option Pdf (pl_base64 lib compact)))"

subsection \<open>Typed fields\<close>

definition text_field :: "'n PushLib \<Rightarrow> 'n \<Rightarrow> ustr \<Rightarrow> ustr option option" where
  "text_field lib n name = with_default None (pl_string lib n name) Some"

definition filled_field :: "'n PushLib \<Rightarrow> 'n \<Rightarrow> ustr \<Rightarrow> ustr option option" where
  "filled_field lib n name = with_default None (pl_string lib n name) (\<lambda>v. Some (empty_string_as_none v))"

definition int_field :: "'n PushLib \<Rightarrow> 'n \<Rightarrow> ustr \<Rightarrow> int option option" where
  "int_field lib n name = with_default None (pl_string lib n name) (empty_as_none parse_wire_i64)"

definition decimal_field :: "'n PushLib \<Rightarrow> 'n \<Rightarrow> ustr \<Rightarrow> PushedDecimal option option" where
  "decimal_field lib n name = with_default None (pl_string lib n name) (empty_as_none (parse_wire_decimal lib))"

definition date_field :: "'n PushLib \<Rightarrow> 'n \<Rightarrow> ustr \<Rightarrow> Date option option" where
  "date_field lib n name = with_default None (pl_string lib n name) (\<lambda>v. Some (opt_xs_date lib v))"

definition bool_field :: "'n PushLib \<Rightarrow> 'n \<Rightarrow> ustr \<Rightarrow> bool option option" where
  "bool_field lib n name = with_default None (pl_string lib n name) opt_flexible_bool"

definition appearance_field :: "'n PushLib \<Rightarrow> 'n \<Rightarrow> ustr \<Rightarrow> PushedAppearance option option" where
  "appearance_field lib n name = with_default None (pl_string lib n name)
     (\<lambda>v. map_option (map_option PushedAppearance_from) (empty_as_none parse_wire_i64 v))"

definition direction_field :: "'n PushLib \<Rightarrow> 'n \<Rightarrow> ustr \<Rightarrow> TransactionDirection option option" where
  "direction_field lib n name = with_default None (pl_string lib n name)
     (\<lambda>v. Some (map_option TransactionDirection_from_code (empty_string_as_none v)))"

definition pdf_field :: "'n PushLib \<Rightarrow> 'n \<Rightarrow> ustr \<Rightarrow> Pdf option option" where
  "pdf_field lib n name = with_default None (pl_string lib n name) (\<lambda>v. Some (base64_pdf lib v))"

fun read_all :: "('n \<Rightarrow> 'a option) \<Rightarrow> 'n list \<Rightarrow> 'a list option" where
  "read_all f [] = Some []"
| "read_all f (n # ns) = do { a \<leftarrow> f n; rest \<leftarrow> read_all f ns; Some (a # rest) }"

definition struct_option :: "'n PushLib \<Rightarrow> ('n \<Rightarrow> 'a option) \<Rightarrow> 'n \<Rightarrow> ustr \<Rightarrow> 'a option option" where
  "struct_option lib f n name = with_default None (pl_elem lib n name)
     (\<lambda>e. case e of None \<Rightarrow> Some None | Some node \<Rightarrow> map_option Some (f node))"

definition struct_list :: "'n PushLib \<Rightarrow> ('n \<Rightarrow> 'a option) \<Rightarrow> 'n \<Rightarrow> ustr \<Rightarrow> 'a list option" where
  "struct_list lib f n name = with_default [] (pl_seq lib n name) (read_all f)"

definition wrapped_list :: "'n PushLib \<Rightarrow> ('n \<Rightarrow> 'a option) \<Rightarrow> 'n \<Rightarrow> ustr \<Rightarrow> ustr \<Rightarrow> 'a list option" where
  "wrapped_list lib f n wrapper child = with_default [] (pl_elem lib n wrapper)
     (\<lambda>e. case e of None \<Rightarrow> Some [] | Some node \<Rightarrow> struct_list lib f node child)"

definition tags :: "'n PushLib \<Rightarrow> 'n \<Rightarrow> ustr \<Rightarrow> ustr list option" where
  "tags lib n wrapper = with_default [] (pl_elem lib n wrapper)
     (\<lambda>e. case e of None \<Rightarrow> Some [] | Some node \<Rightarrow> with_default [] (pl_strings lib node (us ''cimke'')) Some)"

section \<open>Reading structures\<close>

definition Address_de :: "'n PushLib \<Rightarrow> 'n \<Rightarrow> Address option" where
  "Address_de lib n = do {
     name' \<leftarrow> text_field lib n (us ''nev'');
     country' \<leftarrow> text_field lib n (us ''orszag'');
     zip' \<leftarrow> text_field lib n (us ''irsz'');
     city' \<leftarrow> text_field lib n (us ''telepules'');
     address' \<leftarrow> text_field lib n (us ''cim'');
     Some \<lparr> ad_name = name', ad_country = country', ad_zip = zip', ad_city = city', ad_address = address' \<rparr> }"

definition PushedBuyerLedger_de :: "'n PushLib \<Rightarrow> 'n \<Rightarrow> PushedBuyerLedger option" where
  "PushedBuyerLedger_de lib n = do {
     customer' \<leftarrow> text_field lib n (us ''vevo'');
     customer_id' \<leftarrow> text_field lib n (us ''vevoazon'');
     date' \<leftarrow> date_field lib n (us ''datum'');
     continuous_fulfillment' \<leftarrow> bool_field lib n (us ''folyamatostelj'');
     settlement_start' \<leftarrow> date_field lib n (us ''elszDatTol'');
     settlement_end' \<leftarrow> date_field lib n (us ''elszDatIg'');
     Some \<lparr> pbl_customer = customer', pbl_customer_id = customer_id', pbl_date = date', pbl_continuous_fulfillment = continuous_fulfillment', pbl_settlement_start = settlement_start', pbl_settlement_end = settlement_end' \<rparr> }"

definition Bank_de :: "'n PushLib \<Rightarrow> 'n \<Rightarrow> Bank option" where
  "Bank_de lib n = do {
     name' \<leftarrow> text_field lib n (us ''nev'');
     account' \<leftarrow> text_field lib n (us ''bankszamla'');
     Some \<lparr> bk_name = name', bk_account = account' \<rparr> }"

definition Party_de :: "'n PushLib \<Rightarrow> 'n \<Rightarrow> Party option" where
  "Party_de lib n = do {
     id' \<leftarrow> int_field lib n (us ''id'');
     name' \<leftarrow> text_field lib n (us ''nev'');
     partner_id' \<leftarrow> text_field lib n (us ''azonosito'');
     address' \<leftarrow> struct_option lib (Address_de lib) n (us ''cim'');
     postal_address' \<leftarrow> struct_option lib (Address_de lib) n (us ''postacim'');
     email' \<leftarrow> text_field lib n (us ''email'');
     tax_number' \<leftarrow> text_field lib n (us ''adoszam'');
     group_id' \<leftarrow> text_field lib n (us ''csoportazonosito'');
     eu_tax_number' \<leftarrow> text_field lib n (us ''adoszameu'');
     bank' \<leftarrow> struct_option lib (Bank_de lib) n (us ''bank'');
     location' \<leftarrow> int_field lib n (us ''lokacio'');
     private_person' \<leftarrow> bool_field lib n (us ''privatePersonIndicator'');
     buyer_ledger' \<leftarrow> struct_option lib (PushedBuyerLedger_de lib) n (us ''fokonyv'');
     Some \<lparr> py_id = id', py_name = name', py_partner_id = partner_id', py_address = address', py_postal_address = postal_address', py_email = email', py_tax_number = tax_number', py_group_id = group_id', py_eu_tax_number = eu_tax_number', py_bank = bank', py_location = location', py_private_person = private_person', py_buyer_ledger = buyer_ledger' \<rparr> }"

definition PushedInvoiceInfo_de :: "'n PushLib \<Rightarrow> 'n \<Rightarrow> PushedInvoiceInfo option" where
  "PushedInvoiceInfo_de lib n = do {
     id' \<leftarrow> required_field (pl_int lib n (us ''id'')) Some;
     invoice_number' \<leftarrow> required_field (pl_str lib n (us ''szamlaszam'')) Some;
     economic_event_id' \<leftarrow> int_field lib n (us ''gazdEsemAzon'');
     source' \<leftarrow> int_field lib n (us ''forras'');
     registration_number' \<leftarrow> filled_field lib n (us ''iktatoszam'');
     document_type' \<leftarrow> text_field lib n (us ''tipus'');
     appearance' \<leftarrow> appearance_field lib n (us ''eszamla'');
     referenced_invoice_number' \<leftarrow> text_field lib n (us ''hivszamlaszam'');
     referenced_proforma_number' \<leftarrow> text_field lib n (us ''hivdijbekszam'');
     issue_date' \<leftarrow> date_field lib n (us ''kelt'');
     fulfillment_date' \<leftarrow> date_field lib n (us ''telj'');
     continuous_fulfillment' \<leftarrow> bool_field lib n (us ''folyamatostelj'');
     settlement_start' \<leftarrow> date_field lib n (us ''elszDatTol'');
     settlement_end' \<leftarrow> date_field lib n (us ''elszDatIg'');
     due_date' \<leftarrow> date_field lib n (us ''fizh'');
     payment_method' \<leftarrow> text_field lib n (us ''fizmod'');
     payment_method_unified' \<leftarrow> text_field lib n (us ''fizmodunified'');
     cash' \<leftarrow> bool_field lib n (us ''keszpenz'');
     order_number' \<leftarrow> filled_field lib n (us ''rendelesszam'');
     language' \<leftarrow> text_field lib n (us ''nyelv'');
     currency' \<leftarrow> text_field lib n (us ''devizanem'');
     exchange_rate_bank' \<leftarrow> text_field lib n (us ''devizabank'');
     exchange_rate' \<leftarrow> decimal_field lib n (us ''devizaarf'');
     comment' \<leftarrow> text_field lib n (us ''megjegyzes'');
     vat_type' \<leftarrow> text_field lib n (us ''afatipus'');
     cash_accounting' \<leftarrow> bool_field lib n (us ''penzforg'');
     kata' \<leftarrow> bool_field lib n (us ''kata'');
     kata_ledger' \<leftarrow> bool_field lib n (us ''katafokonyv'');
     email' \<leftarrow> text_field lib n (us ''email'');
     test' \<leftarrow> bool_field lib n (us ''teszt'');
     deleted' \<leftarrow> bool_field lib n (us ''dobdel'');
     reversed' \<leftarrow> bool_field lib n (us ''sztornozott'');
     Some \<lparr> pii_id = id', pii_invoice_number = invoice_number', pii_economic_event_id = economic_event_id', pii_source = source', pii_registration_number = registration_number', pii_document_type = document_type', pii_appearance = appearance', pii_referenced_invoice_number = referenced_invoice_number', pii_referenced_proforma_number = referenced_proforma_number', pii_issue_date = issue_date', pii_fulfillment_date = fulfillment_date', pii_continuous_fulfillment = continuous_fulfillment', pii_settlement_start = settlement_start', pii_settlement_end = settlement_end', pii_due_date = due_date', pii_payment_method = payment_method', pii_payment_method_unified = payment_method_unified', pii_cash = cash', pii_order_number = order_number', pii_language = language', pii_currency = currency', pii_exchange_rate_bank = exchange_rate_bank', pii_exchange_rate = exchange_rate', pii_comment = comment', pii_vat_type = vat_type', pii_cash_accounting = cash_accounting', pii_kata = kata', pii_kata_ledger = kata_ledger', pii_email = email', pii_test = test', pii_deleted = deleted', pii_reversed = reversed' \<rparr> }"

definition InvoiceItemLedger_de :: "'n PushLib \<Rightarrow> 'n \<Rightarrow> InvoiceItemLedger option" where
  "InvoiceItemLedger_de lib n = do {
     revenue' \<leftarrow> text_field lib n (us ''arbevetel'');
     vat' \<leftarrow> text_field lib n (us ''afa'');
     economic_event' \<leftarrow> text_field lib n (us ''gazdasagiesemeny'');
     economic_event_vat' \<leftarrow> text_field lib n (us ''gazdasagiesemenyafa'');
     settlement_start' \<leftarrow> date_field lib n (us ''elszdattol'');
     settlement_end' \<leftarrow> date_field lib n (us ''elszdatig'');
     Some \<lparr> itl_revenue = revenue', itl_vat = vat', itl_economic_event = economic_event', itl_economic_event_vat = economic_event_vat', itl_settlement_start = settlement_start', itl_settlement_end = settlement_end' \<rparr> }"

definition InvoiceItem_de :: "'n PushLib \<Rightarrow> 'n \<Rightarrow> InvoiceItem option" where
  "InvoiceItem_de lib n = do {
     name' \<leftarrow> text_field lib n (us ''nev'');
     id' \<leftarrow> text_field lib n (us ''azonosito'');
     quantity' \<leftarrow> decimal_field lib n (us ''mennyiseg'');
     unit' \<leftarrow> text_field lib n (us ''mennyisegiegyseg'');
     unit_price' \<leftarrow> decimal_field lib n (us ''nettoegysegar'');
     vat_type' \<leftarrow> text_field lib n (us ''afatipus'');
     vat_rate' \<leftarrow> decimal_field lib n (us ''afakulcs'');
     net_value' \<leftarrow> decimal_field lib n (us ''netto'');
     margin_vat_base' \<leftarrow> decimal_field lib n (us ''arresafaalap'');
     vat_value' \<leftarrow> decimal_field lib n (us ''afa'');
     gross_value' \<leftarrow> decimal_field lib n (us ''brutto'');
     comment' \<leftarrow> text_field lib n (us ''megjegyzes'');
     ordering' \<leftarrow> int_field lib n (us ''sztetordering'');
     ledger' \<leftarrow> struct_option lib (InvoiceItemLedger_de lib) n (us ''fokonyv'');
     Some \<lparr> it_name = name', it_id = id', it_quantity = quantity', it_unit = unit', it_unit_price = unit_price', it_vat_type = vat_type', it_vat_rate = vat_rate', it_net_value = net_value', it_margin_vat_base = margin_vat_base', it_vat_value = vat_value', it_gross_value = gross_value', it_comment = comment', it_ordering = ordering', it_ledger = ledger' \<rparr> }"

definition PushedVatTotal_de :: "'n PushLib \<Rightarrow> 'n \<Rightarrow> PushedVatTotal option" where
  "PushedVatTotal_de lib n = do {
     vat_type' \<leftarrow> text_field lib n (us ''afatipus'');
     vat_rate' \<leftarrow> decimal_field lib n (us ''afakulcs'');
     net' \<leftarrow> decimal_field lib n (us ''netto'');
     vat' \<leftarrow> decimal_field lib n (us ''afa'');
     gross' \<leftarrow> decimal_field lib n (us ''brutto'');
     Some \<lparr> pvt_vat_type = vat_type', pvt_vat_rate = vat_rate', pvt_net = net', pvt_vat = vat', pvt_gross = gross' \<rparr> }"

definition Totals_de :: "'n PushLib \<Rightarrow> 'n \<Rightarrow> Totals option" where
  "Totals_de lib n = do {
     per_vat_rate' \<leftarrow> struct_list lib (PushedVatTotal_de lib) n (us ''afakulcsossz'');
     grand' \<leftarrow> struct_option lib (PushedVatTotal_de lib) n (us ''totalossz'');
     Some \<lparr> tot_per_vat_rate = per_vat_rate', tot_grand = grand' \<rparr> }"

definition PushedCreditEntry_de :: "'n PushLib \<Rightarrow> 'n \<Rightarrow> PushedCreditEntry option" where
  "PushedCreditEntry_de lib n = do {
     date' \<leftarrow> date_field lib n (us ''datum'');
     title' \<leftarrow> text_field lib n (us ''jogcim'');
     amount' \<leftarrow> decimal_field lib n (us ''osszeg'');
     comment' \<leftarrow> text_field lib n (us ''megjegyzes'');
     bank_account' \<leftarrow> text_field lib n (us ''bankszamlaszam'');
     bank_transaction_id' \<leftarrow> int_field lib n (us ''banktranzid'');
     exchange_rate' \<leftarrow> decimal_field lib n (us ''devizaarf'');
     Some \<lparr> pce_date = date', pce_title = title', pce_amount = amount', pce_comment = comment', pce_bank_account = bank_account', pce_bank_transaction_id = bank_transaction_id', pce_exchange_rate = exchange_rate' \<rparr> }"

definition FinancialItem_de :: "'n PushLib \<Rightarrow> 'n \<Rightarrow> FinancialItem option" where
  "FinancialItem_de lib n = do {
     name' \<leftarrow> text_field lib n (us ''nev'');
     vat_type' \<leftarrow> text_field lib n (us ''afatipus'');
     vat_rate' \<leftarrow> decimal_field lib n (us ''afakulcs'');
     net' \<leftarrow> decimal_field lib n (us ''netto'');
     vat' \<leftarrow> decimal_field lib n (us ''afa'');
     gross' \<leftarrow> decimal_field lib n (us ''brutto'');
     settlement_start' \<leftarrow> date_field lib n (us ''elszdattol'');
     settlement_end' \<leftarrow> date_field lib n (us ''elszdatig'');
     deductible_vat' \<leftarrow> int_field lib n (us ''afalevon'');
     tags' \<leftarrow> tags lib n (us ''cimkek'');
     Some \<lparr> fi_name = name', fi_vat_type = vat_type', fi_vat_rate = vat_rate', fi_net = net', fi_vat = vat', fi_gross = gross', fi_settlement_start = settlement_start', fi_settlement_end = settlement_end', fi_deductible_vat = deductible_vat', fi_tags = tags' \<rparr> }"

definition PushedInvoice_de :: "'n PushLib \<Rightarrow> 'n \<Rightarrow> PushedInvoice option" where
  "PushedInvoice_de lib n = do {
     supplier' \<leftarrow> with_default Party_default (pl_struct lib n (us ''szallito'')) (Party_de lib);
     info' \<leftarrow> required_field (pl_struct lib n (us ''alap'')) (PushedInvoiceInfo_de lib);
     buyer' \<leftarrow> with_default Party_default (pl_struct lib n (us ''vevo'')) (Party_de lib);
     items' \<leftarrow> wrapped_list lib (InvoiceItem_de lib) n (us ''tetelek'') (us ''tetel'');
     financial_items' \<leftarrow> wrapped_list lib (FinancialItem_de lib) n (us ''qutetek'') (us ''qutet'');
     tags' \<leftarrow> tags lib n (us ''cimkek'');
     totals' \<leftarrow> with_default Totals_default (pl_struct lib n (us ''osszegek'')) (Totals_de lib);
     credit_entries' \<leftarrow> wrapped_list lib (PushedCreditEntry_de lib) n (us ''kifizetesek'') (us ''kifizetes'');
     pdf' \<leftarrow> pdf_field lib n (us ''pdf'');
     Some \<lparr> pin_supplier = supplier', pin_info = info', pin_buyer = buyer', pin_items = items', pin_financial_items = financial_items', pin_tags = tags', pin_totals = totals', pin_credit_entries = credit_entries', pin_pdf = pdf', pin_raw_xml = None \<rparr> }"

definition TransactionPartner_de :: "'n PushLib \<Rightarrow> 'n \<Rightarrow> TransactionPartner option" where
  "TransactionPartner_de lib n = do {
     name' \<leftarrow> text_field lib n (us ''nev'');
     bank_account' \<leftarrow> text_field lib n (us ''bankszamla'');
     Some \<lparr> tp_name = name', tp_bank_account = bank_account' \<rparr> }"

definition BankTransaction_de :: "'n PushLib \<Rightarrow> 'n \<Rightarrow> BankTransaction option" where
  "BankTransaction_de lib n = do {
     id' \<leftarrow> required_field (pl_int lib n (us ''id'')) Some;
     bank_account' \<leftarrow> text_field lib n (us ''bankszamla'');
     value_date' \<leftarrow> date_field lib n (us ''erteknap'');
     direction' \<leftarrow> direction_field lib n (us ''irany'');
     transaction_type' \<leftarrow> text_field lib n (us ''tipus'');
     technical' \<leftarrow> bool_field lib n (us ''technikai'');
     amount' \<leftarrow> decimal_field lib n (us ''osszeg'');
     currency' \<leftarrow> text_field lib n (us ''devizanem'');
     partner' \<leftarrow> struct_option lib (TransactionPartner_de lib) n (us ''partner'');
     memo' \<leftarrow> text_field lib n (us ''kozlemeny'');
     Some \<lparr> bt_id = id', bt_bank_account = bank_account', bt_value_date = value_date', bt_direction = direction', bt_transaction_type = transaction_type', bt_technical = technical', bt_amount = amount', bt_currency = currency', bt_partner = partner', bt_memo = memo', bt_raw_xml = None \<rparr> }"

definition ReceiptInfo_de :: "'n PushLib \<Rightarrow> 'n \<Rightarrow> ReceiptInfo option" where
  "ReceiptInfo_de lib n = do {
     id' \<leftarrow> required_field (pl_int lib n (us ''id'')) Some;
     call_id' \<leftarrow> text_field lib n (us ''hivasAzonosito'');
     receipt_number' \<leftarrow> text_field lib n (us ''nyugtaszam'');
     document_type' \<leftarrow> text_field lib n (us ''tipus'');
     reversed' \<leftarrow> bool_field lib n (us ''stornozott'');
     reversed_receipt_number' \<leftarrow> text_field lib n (us ''stornozottNyugtaszam'');
     issue_date' \<leftarrow> date_field lib n (us ''kelt'');
     payment_method' \<leftarrow> text_field lib n (us ''fizmod'');
     currency' \<leftarrow> text_field lib n (us ''penznem'');
     exchange_rate_bank' \<leftarrow> text_field lib n (us ''devizabank'');
     exchange_rate' \<leftarrow> decimal_field lib n (us ''devizaarf'');
     comment' \<leftarrow> text_field lib n (us ''megjegyzes'');
     customer_ledger' \<leftarrow> text_field lib n (us ''fokonyvVevo'');
     test' \<leftarrow> bool_field lib n (us ''teszt'');
     tax_number' \<leftarrow> text_field lib n (us ''adoszam'');
     order_number' \<leftarrow> text_field lib n (us ''rendelesSzam'');
     Some \<lparr> ri_id = id', ri_call_id = call_id', ri_receipt_number = receipt_number', ri_document_type = document_type', ri_reversed = reversed', ri_reversed_receipt_number = reversed_receipt_number', ri_issue_date = issue_date', ri_payment_method = payment_method', ri_currency = currency', ri_exchange_rate_bank = exchange_rate_bank', ri_exchange_rate = exchange_rate', ri_comment = comment', ri_customer_ledger = customer_ledger', ri_test = test', ri_tax_number = tax_number', ri_order_number = order_number' \<rparr> }"

definition ReceiptItemLedger_de :: "'n PushLib \<Rightarrow> 'n \<Rightarrow> ReceiptItemLedger option" where
  "ReceiptItemLedger_de lib n = do {
     revenue' \<leftarrow> text_field lib n (us ''arbevetel'');
     vat' \<leftarrow> text_field lib n (us ''afa'');
     Some \<lparr> ril_revenue = revenue', ril_vat = vat' \<rparr> }"

definition ReceiptItem_de :: "'n PushLib \<Rightarrow> 'n \<Rightarrow> ReceiptItem option" where
  "ReceiptItem_de lib n = do {
     name' \<leftarrow> text_field lib n (us ''megnevezes'');
     id' \<leftarrow> text_field lib n (us ''azonosito'');
     unit_price' \<leftarrow> decimal_field lib n (us ''nettoEgysegar'');
     quantity' \<leftarrow> decimal_field lib n (us ''mennyiseg'');
     unit' \<leftarrow> text_field lib n (us ''mennyisegiEgyseg'');
     net_value' \<leftarrow> decimal_field lib n (us ''netto'');
     vat_type' \<leftarrow> text_field lib n (us ''afatipus'');
     vat_rate' \<leftarrow> decimal_field lib n (us ''afakulcs'');
     vat_value' \<leftarrow> decimal_field lib n (us ''afa'');
     gross_value' \<leftarrow> decimal_field lib n (us ''brutto'');
     ledger' \<leftarrow> struct_option lib (ReceiptItemLedger_de lib) n (us ''fokonyv'');
     comment' \<leftarrow> text_field lib n (us ''megjegyzes'');
     Some \<lparr> rit_name = name', rit_id = id', rit_unit_price = unit_price', rit_quantity = quantity', rit_unit = unit', rit_net_value = net_value', rit_vat_type = vat_type', rit_vat_rate = vat_rate', rit_vat_value = vat_value', rit_gross_value = gross_value', rit_ledger = ledger', rit_comment = comment' \<rparr> }"

definition ReceiptPayment_de :: "'n PushLib \<Rightarrow> 'n \<Rightarrow> ReceiptPayment option" where
  "ReceiptPayment_de lib n = do {
     method' \<leftarrow> text_field lib n (us ''fizetoeszkoz'');
     amount' \<leftarrow> decimal_field lib n (us ''osszeg'');
     description' \<leftarrow> text_field lib n (us ''leiras'');
     Some \<lparr> rp_method = method', rp_amount = amount', rp_description = description' \<rparr> }"

definition ReceiptDocument_de :: "'n PushLib \<Rightarrow> 'n \<Rightarrow> ReceiptDocument option" where
  "ReceiptDocument_de lib n = do {
     info' \<leftarrow> required_field (pl_struct lib n (us ''alap'')) (ReceiptInfo_de lib);
     items' \<leftarrow> wrapped_list lib (ReceiptItem_de lib) n (us ''tetelek'') (us ''tetel'');
     payments' \<leftarrow> wrapped_list lib (ReceiptPayment_de lib) n (us ''kifizetesek'') (us ''kifizetes'');
     totals' \<leftarrow> with_default Totals_default (pl_struct lib n (us ''osszegek'')) (Totals_de lib);
     Some \<lparr> rd_info = info', rd_items = items', rd_payments = payments', rd_totals = totals' \<rparr> }"

definition ReceiptBatch_de :: "'n PushLib \<Rightarrow> 'n \<Rightarrow> ReceiptBatch option" where
  "ReceiptBatch_de lib n = do {
     receipts' \<leftarrow> struct_list lib (ReceiptDocument_de lib) n (us ''nyugta'');
     Some \<lparr> rb_receipts = receipts', rb_raw_xml = None \<rparr> }"

section \<open>The check against the schema\<close>

datatype ValidationError =
    VE_MissingRequired ustr
  | VE_UnknownToken ustr ustr
  | VE_Negative ustr
  | VE_Empty ustr ustr

definition ValidationError_display :: "ValidationError \<Rightarrow> ustr" where
  "ValidationError_display e = (case e of
     VE_MissingRequired path \<Rightarrow> msg ''missing required '' @ path
   | VE_UnknownToken path token \<Rightarrow> path @ msg '' has unknown value '' @ token
   | VE_Negative path \<Rightarrow> path @ msg '' must not be negative''
   | VE_Empty path child \<Rightarrow> path @ msg '' must contain at least one '' @ child)"

text \<open>Checks one after the other, each with the question mark operator.\<close>

fun in_order :: "(unit, 'e) result list \<Rightarrow> (unit, 'e) result" where
  "in_order [] = Ok ()"
| "in_order (c # cs) = try_then c (\<lambda>_. in_order cs)"

definition required :: "'a option \<Rightarrow> ustr \<Rightarrow> (unit, ValidationError) result" where
  "required v path = (case v of None \<Rightarrow> Err (VE_MissingRequired path) | Some _ \<Rightarrow> Ok ())"

definition non_negative :: "PushedDecimal option \<Rightarrow> ustr \<Rightarrow> (unit, ValidationError) result" where
  "non_negative v path = (case v of Some d \<Rightarrow> if is_sign_negative d then Err (VE_Negative path) else Ok () | None \<Rightarrow> Ok ())"

definition validate_address :: "Address option \<Rightarrow> ustr \<Rightarrow> (unit, ValidationError) result" where
  "validate_address address field = (case address of
     None \<Rightarrow> Err (VE_MissingRequired field)
   | Some address \<Rightarrow> in_order
      [required (ad_zip address) (field @ us ''/irsz''),
       required (ad_city address) (field @ us ''/telepules''),
       required (ad_address address) (field @ us ''/cim'')])"

definition validate_vat_total :: "PushedVatTotal \<Rightarrow> (unit, ValidationError) result" where
  "validate_vat_total vat_sum = in_order
    [required (pvt_vat_rate vat_sum) (us ''afakulcsossz/afakulcs''),
     non_negative (pvt_vat_rate vat_sum) (us ''afakulcsossz/afakulcs''),
     required (pvt_net vat_sum) (us ''afakulcsossz/netto''),
     required (pvt_vat vat_sum) (us ''afakulcsossz/afa''),
     required (pvt_gross vat_sum) (us ''afakulcsossz/brutto'')]"

definition validate_totals :: "Totals \<Rightarrow> ustr \<Rightarrow> (unit, ValidationError) result" where
  "validate_totals totals document =
    (if tot_per_vat_rate totals = [] then Err (VE_Empty (document @ us '' osszegek'') (us ''afakulcsossz''))
     else try_then (in_order (map validate_vat_total (tot_per_vat_rate totals))) (\<lambda>_.
       case tot_grand totals of
         None \<Rightarrow> Err (VE_MissingRequired (us ''osszegek/totalossz''))
       | Some grand \<Rightarrow> in_order
          [required (pvt_net grand) (us ''totalossz/netto''),
           required (pvt_vat grand) (us ''totalossz/afa''),
           required (pvt_gross grand) (us ''totalossz/brutto'')]))"

definition validate_invoice_info :: "PushedInvoiceInfo \<Rightarrow> (unit, ValidationError) result list" where
  "validate_invoice_info info =
    [required (pii_economic_event_id info) (us ''invoice alap/gazdEsemAzon''),
     required (pii_document_type info) (us ''invoice alap/tipus''),
     required (pii_appearance info) (us ''invoice alap/eszamla''),
     required (pii_issue_date info) (us ''invoice alap/kelt''),
     required (pii_fulfillment_date info) (us ''invoice alap/telj''),
     required (pii_due_date info) (us ''invoice alap/fizh''),
     required (pii_payment_method info) (us ''invoice alap/fizmod''),
     required (pii_payment_method_unified info) (us ''invoice alap/fizmodunified''),
     required (pii_cash info) (us ''invoice alap/keszpenz''),
     required (pii_language info) (us ''invoice alap/nyelv''),
     required (pii_currency info) (us ''invoice alap/devizanem''),
     required (pii_cash_accounting info) (us ''invoice alap/penzforg''),
     required (pii_kata info) (us ''invoice alap/kata''),
     required (pii_kata_ledger info) (us ''invoice alap/katafokonyv''),
     required (pii_test info) (us ''invoice alap/teszt'')]"

definition validate_parties :: "InvoiceDirection \<Rightarrow> Party \<Rightarrow> Party \<Rightarrow> (unit, ValidationError) result list" where
  "validate_parties direction supplier buyer =
    [required (py_id supplier) (us ''invoice szallito/id''),
     required (py_name supplier) (us ''invoice szallito/nev''),
     validate_address (py_address supplier) (us ''invoice szallito/cim''),
     required (py_tax_number supplier) (us ''invoice szallito/adoszam''),
     required (py_name buyer) (us ''invoice vevo/nev''),
     validate_address (py_address buyer) (us ''invoice vevo/cim''),
     required (py_tax_number buyer) (us ''invoice vevo/adoszam''),
     required (py_location buyer) (us ''invoice vevo/lokacio''),
     (if direction = Dir_Outgoing
      then required (py_private_person buyer) (us ''outgoing invoice vevo/privatePersonIndicator'') else Ok ())]"

definition validate_item :: "InvoiceItem \<Rightarrow> (unit, ValidationError) result" where
  "validate_item item = in_order
    [required (it_name item) (us ''invoice tetel/nev''),
     required (it_quantity item) (us ''invoice tetel/mennyiseg''),
     required (it_unit item) (us ''invoice tetel/mennyisegiegyseg''),
     required (it_unit_price item) (us ''invoice tetel/nettoegysegar''),
     required (it_vat_rate item) (us ''invoice tetel/afakulcs''),
     non_negative (it_vat_rate item) (us ''invoice tetel/afakulcs''),
     required (it_net_value item) (us ''invoice tetel/netto''),
     required (it_vat_value item) (us ''invoice tetel/afa''),
     required (it_gross_value item) (us ''invoice tetel/brutto''),
     required (it_ordering item) (us ''invoice tetel/sztetordering'')]"

definition validate_credit_entry :: "PushedCreditEntry \<Rightarrow> (unit, ValidationError) result" where
  "validate_credit_entry entry = in_order
    [required (pce_date entry) (us ''invoice kifizetes/datum''),
     required (pce_title entry) (us ''invoice kifizetes/jogcim''),
     required (pce_amount entry) (us ''invoice kifizetes/osszeg'')]"

definition validate_financial_item :: "FinancialItem \<Rightarrow> (unit, ValidationError) result" where
  "validate_financial_item item = in_order
    [required (fi_name item) (us ''invoice qutet/nev''),
     required (fi_vat_rate item) (us ''invoice qutet/afakulcs''),
     non_negative (fi_vat_rate item) (us ''invoice qutet/afakulcs''),
     required (fi_net item) (us ''invoice qutet/netto''),
     required (fi_vat item) (us ''invoice qutet/afa''),
     required (fi_gross item) (us ''invoice qutet/brutto''),
     required (fi_deductible_vat item) (us ''invoice qutet/afalevon'')]"

definition PushedInvoice_validate :: "PushedInvoice \<Rightarrow> InvoiceDirection \<Rightarrow> (unit, ValidationError) result" where
  "PushedInvoice_validate invoice direction = in_order
    (validate_invoice_info (pin_info invoice) @
     validate_parties direction (pin_supplier invoice) (pin_buyer invoice) @
     [(if pin_items invoice = [] then Err (VE_Empty (us ''invoice tetelek'') (us ''tetel'')) else Ok ()),
      in_order (map validate_item (pin_items invoice)),
      validate_totals (pin_totals invoice) (us ''invoice''),
      in_order (map validate_credit_entry (pin_credit_entries invoice)),
      in_order (map validate_financial_item (pin_financial_items invoice))])"

definition validate_direction :: "TransactionDirection option \<Rightarrow> (unit, ValidationError) result" where
  "validate_direction direction = (case direction of
     None \<Rightarrow> Err (VE_MissingRequired (us ''bank transaction irany''))
   | Some (TD_Other code) \<Rightarrow> Err (VE_UnknownToken (us ''bank transaction irany'') code)
   | Some _ \<Rightarrow> Ok ())"

definition BankTransaction_validate :: "BankTransaction \<Rightarrow> (unit, ValidationError) result" where
  "BankTransaction_validate t = in_order
    [required (bt_bank_account t) (us ''bank transaction bankszamla''),
     required (bt_value_date t) (us ''bank transaction erteknap''),
     validate_direction (bt_direction t),
     required (bt_technical t) (us ''bank transaction technikai''),
     required (bt_amount t) (us ''bank transaction osszeg''),
     required (bt_currency t) (us ''bank transaction devizanem'')]"

definition validate_receipt_item :: "ReceiptItem \<Rightarrow> (unit, ValidationError) result" where
  "validate_receipt_item item = in_order
    [required (rit_name item) (us ''receipt tetel/megnevezes''),
     required (rit_unit_price item) (us ''receipt tetel/nettoEgysegar''),
     required (rit_quantity item) (us ''receipt tetel/mennyiseg''),
     required (rit_unit item) (us ''receipt tetel/mennyisegiEgyseg''),
     required (rit_net_value item) (us ''receipt tetel/netto''),
     required (rit_vat_rate item) (us ''receipt tetel/afakulcs''),
     non_negative (rit_vat_rate item) (us ''receipt tetel/afakulcs''),
     required (rit_vat_value item) (us ''receipt tetel/afa''),
     required (rit_gross_value item) (us ''receipt tetel/brutto'')]"

definition validate_receipt_payment :: "ReceiptPayment \<Rightarrow> (unit, ValidationError) result" where
  "validate_receipt_payment payment = in_order
    [required (rp_method payment) (us ''receipt kifizetes/fizetoeszkoz''),
     required (rp_amount payment) (us ''receipt kifizetes/osszeg'')]"

definition validate_receipt :: "ReceiptDocument \<Rightarrow> (unit, ValidationError) result" where
  "validate_receipt receipt = in_order
    [required (ri_receipt_number (rd_info receipt)) (us ''receipt alap/nyugtaszam''),
     required (ri_document_type (rd_info receipt)) (us ''receipt alap/tipus''),
     required (ri_reversed (rd_info receipt)) (us ''receipt alap/stornozott''),
     required (ri_issue_date (rd_info receipt)) (us ''receipt alap/kelt''),
     required (ri_payment_method (rd_info receipt)) (us ''receipt alap/fizmod''),
     required (ri_currency (rd_info receipt)) (us ''receipt alap/penznem''),
     required (ri_test (rd_info receipt)) (us ''receipt alap/teszt''),
     (if rd_items receipt = [] then Err (VE_Empty (us ''receipt tetelek'') (us ''tetel'')) else Ok ()),
     in_order (map validate_receipt_item (rd_items receipt)),
     in_order (map validate_receipt_payment (rd_payments receipt)),
     validate_totals (rd_totals receipt) (us ''receipt'')]"

definition ReceiptBatch_validate :: "ReceiptBatch \<Rightarrow> (unit, ValidationError) result" where
  "ReceiptBatch_validate batch =
    (if rb_receipts batch = [] then Err (VE_Empty (us ''receipt archive'') (us ''nyugta''))
     else in_order (map validate_receipt (rb_receipts batch)))"

definition effective_vat :: "ustr option \<Rightarrow> PushedDecimal option \<Rightarrow> PushedVatRate option" where
  "effective_vat vat_type vat_rate = (case vat_type of
     Some v \<Rightarrow> if v \<noteq> [] then Some (PVR_Special v) else map_option PVR_Percentage vat_rate
   | None \<Rightarrow> map_option PVR_Percentage vat_rate)"

definition InvoiceItem_effective_vat :: "InvoiceItem \<Rightarrow> PushedVatRate option" where
  "InvoiceItem_effective_vat item = effective_vat (it_vat_type item) (it_vat_rate item)"

definition PushedVatTotal_effective_vat :: "PushedVatTotal \<Rightarrow> PushedVatRate option" where
  "PushedVatTotal_effective_vat vat_sum = effective_vat (pvt_vat_type vat_sum) (pvt_vat_rate vat_sum)"

definition FinancialItem_effective_vat :: "FinancialItem \<Rightarrow> PushedVatRate option" where
  "FinancialItem_effective_vat item = effective_vat (fi_vat_type item) (fi_vat_rate item)"

definition ReceiptItem_effective_vat :: "ReceiptItem \<Rightarrow> PushedVatRate option" where
  "ReceiptItem_effective_vat item = effective_vat (rit_vat_type item) (rit_vat_rate item)"

datatype Document =
    Doc_OutgoingInvoice PushedInvoice
  | Doc_IncomingInvoice PushedInvoice
  | Doc_BankTransaction BankTransaction
  | Doc_Receipts ReceiptBatch

definition Document_validate :: "Document \<Rightarrow> (unit, ValidationError) result" where
  "Document_validate document = (case document of
     Doc_OutgoingInvoice invoice \<Rightarrow> PushedInvoice_validate invoice Dir_Outgoing
   | Doc_IncomingInvoice invoice \<Rightarrow> PushedInvoice_validate invoice Dir_Incoming
   | Doc_BankTransaction transaction \<Rightarrow> BankTransaction_validate transaction
   | Doc_Receipts batch \<Rightarrow> ReceiptBatch_validate batch)"

definition Document_kind :: "Document \<Rightarrow> RootKind" where
  "Document_kind document = (case document of
     Doc_OutgoingInvoice _ \<Rightarrow> RK_OutgoingInvoice
   | Doc_IncomingInvoice _ \<Rightarrow> RK_IncomingInvoice
   | Doc_BankTransaction _ \<Rightarrow> RK_BankTransaction
   | Doc_Receipts _ \<Rightarrow> RK_Receipts)"

section \<open>What a document is refused for\<close>

lemma in_order_Ok: "in_order cs = Inr () \<longleftrightarrow> list_all (\<lambda>c. c = Inr ()) cs"
proof (induction cs)
  case (Cons c cs)
  then show ?case by (cases c) simp_all
qed simp

text \<open>The error of a sequence of checks is that of its first failing check.\<close>

lemma in_order_Err: "in_order cs = Inl e \<longleftrightarrow> (\<exists>before after. cs = before @ Inl e # after \<and> list_all (\<lambda>c. c = Inr ()) before)"
proof (induction cs)
  case (Cons c cs)
  show ?case
  proof (cases c)
    case (Inl d)
    then show ?thesis by (auto simp: Cons_eq_append_conv)
  next
    case (Inr u)
    with Cons.IH show ?thesis by (fastforce simp: Cons_eq_append_conv)
  qed
qed simp

lemma required_Ok [simp]: "required v path = Inr () \<longleftrightarrow> v \<noteq> None"
  by (auto simp: required_def split: option.split)

lemma non_negative_Ok [simp]: "non_negative v path = Inr () \<longleftrightarrow> \<not> pred_option is_sign_negative v \<or> v = None"
  by (auto simp: non_negative_def split: option.split)

lemma validate_direction_Ok [simp]: "validate_direction d = Inr () \<longleftrightarrow> d = Some TD_Incoming \<or> d = Some TD_Outgoing"
  by (auto simp: validate_direction_def split: option.split TransactionDirection.split)

lemma BankTransaction_validate_Ok:
  "BankTransaction_validate t = Inr () \<longleftrightarrow> bt_bank_account t \<noteq> None \<and> bt_value_date t \<noteq> None \<and>
     (bt_direction t = Some TD_Incoming \<or> bt_direction t = Some TD_Outgoing) \<and> bt_technical t \<noteq> None \<and>
     bt_amount t \<noteq> None \<and> bt_currency t \<noteq> None"
  unfolding BankTransaction_validate_def in_order_Ok by simp

subsection \<open>Fields\<close>

named_theorems field_none \<open>when reading a field fails\<close>

lemma with_default_None: "with_default d field f = None \<longleftrightarrow> field = Unreadable \<or> (\<exists>a. field = Present a \<and> f a = None)"
  by (auto simp: with_default_def split: FieldRead.split)

lemma required_field_None: "required_field field f = None \<longleftrightarrow> (\<forall>a. field = Present a \<longrightarrow> f a = None)"
  by (auto simp: required_field_def split: FieldRead.split)

lemma text_field_None [field_none]: "text_field lib n name = None \<longleftrightarrow> pl_string lib n name = Unreadable"
  by (simp add: text_field_def with_default_None)

lemma filled_field_None [field_none]: "filled_field lib n name = None \<longleftrightarrow> pl_string lib n name = Unreadable"
  by (simp add: filled_field_def with_default_None)

lemma date_field_None [field_none]: "date_field lib n name = None \<longleftrightarrow> pl_string lib n name = Unreadable"
  by (simp add: date_field_def with_default_None)

lemma direction_field_None [field_none]: "direction_field lib n name = None \<longleftrightarrow> pl_string lib n name = Unreadable"
  by (simp add: direction_field_def with_default_None)

lemma pdf_field_None [field_none]: "pdf_field lib n name = None \<longleftrightarrow> pl_string lib n name = Unreadable"
  by (simp add: pdf_field_def with_default_None)

lemma appearance_field_None [field_none]: "appearance_field lib n name = None \<longleftrightarrow> int_field lib n name = None"
  by (simp add: appearance_field_def int_field_def with_default_None)

text \<open>A number or a truth value that is not one.\<close>

lemma empty_as_none_None: "empty_as_none p v = None \<longleftrightarrow> (\<exists>t. v = Some t \<and> trim t \<noteq> [] \<and> p (trim t) = None)"
  by (cases v) (auto simp: empty_as_none_def)

lemma opt_flexible_bool_None:
  "opt_flexible_bool v = None \<longleftrightarrow> (\<exists>t. v = Some t \<and> trim t \<notin> {[], us ''true'', us ''1'', us ''false'', us ''0''})"
  by (cases v) (auto simp: opt_flexible_bool_def Let_def simp del: us_Cons)

lemma read_all_None: "read_all f ns = None \<longleftrightarrow> list_ex (\<lambda>n. f n = None) ns"
  by (induction ns) (auto simp: bind_eq_None_conv)

lemma struct_list_None: "struct_list lib f n name = None \<longleftrightarrow>
    pl_seq lib n name = Unreadable \<or> (\<exists>ns. pl_seq lib n name = Present ns \<and> list_ex (\<lambda>n. f n = None) ns)"
  by (simp add: struct_list_def with_default_None read_all_None)

lemma struct_option_None: "struct_option lib f n name = None \<longleftrightarrow>
    pl_elem lib n name = Unreadable \<or> (\<exists>node. pl_elem lib n name = Present (Some node) \<and> f node = None)"
  by (auto simp: struct_option_def with_default_None split: option.splits)

lemma wrapped_list_None: "wrapped_list lib f n wrapper child = None \<longleftrightarrow>
    pl_elem lib n wrapper = Unreadable \<or> (\<exists>node. pl_elem lib n wrapper = Present (Some node) \<and> struct_list lib f node child = None)"
  by (auto simp: wrapped_list_def with_default_None split: option.splits)

subsection \<open>Dates and PDFs never decide\<close>

text \<open>
  Two readers that differ in what they make of a date text and of an encoded PDF refuse the same
  elements.  The lemmas go structure by structure; each follows from the fields' own conditions.
\<close>

named_theorems content_free \<open>the same elements are refused whatever dates and PDFs read as\<close>

abbreviation content :: "'n PushLib \<Rightarrow> (ustr \<Rightarrow> Date option) \<Rightarrow> (ustr \<Rightarrow> byte list option) \<Rightarrow> 'n PushLib" where
  "content lib date pdf \<equiv> lib\<lparr> pl_date := date, pl_base64 := pdf \<rparr>"

lemma int_field_content [content_free]: "int_field (content lib date pdf) n name = int_field lib n name"
  by (simp add: int_field_def)

lemma bool_field_content [content_free]: "bool_field (content lib date pdf) n name = bool_field lib n name"
  by (simp add: bool_field_def)

lemma decimal_field_content [content_free]: "decimal_field (content lib date pdf) n name = decimal_field lib n name"
proof -
  have "parse_wire_decimal (content lib date pdf) = parse_wire_decimal lib" by (rule ext) (simp add: parse_wire_decimal_def)
  then show ?thesis by (simp add: decimal_field_def)
qed

lemma tags_content [content_free]: "tags (content lib date pdf) n wrapper = tags lib n wrapper"
  by (auto simp: tags_def with_default_def split: FieldRead.split option.split)

lemmas reading_none = bind_eq_None_conv field_none struct_option_None struct_list_None wrapped_list_None
  with_default_None required_field_None

lemma Address_content [content_free]: "Address_de (content lib date pdf) n = None \<longleftrightarrow> Address_de lib n = None"
  by (simp add: Address_de_def reading_none content_free)

lemma PushedBuyerLedger_content [content_free]: "PushedBuyerLedger_de (content lib date pdf) n = None \<longleftrightarrow> PushedBuyerLedger_de lib n = None"
  by (simp add: PushedBuyerLedger_de_def reading_none content_free)

lemma Bank_content [content_free]: "Bank_de (content lib date pdf) n = None \<longleftrightarrow> Bank_de lib n = None"
  by (simp add: Bank_de_def reading_none content_free)

lemma Party_content [content_free]: "Party_de (content lib date pdf) n = None \<longleftrightarrow> Party_de lib n = None"
  by (simp add: Party_de_def reading_none content_free)

lemma PushedInvoiceInfo_content [content_free]: "PushedInvoiceInfo_de (content lib date pdf) n = None \<longleftrightarrow> PushedInvoiceInfo_de lib n = None"
  by (simp add: PushedInvoiceInfo_de_def reading_none content_free)

lemma InvoiceItemLedger_content [content_free]: "InvoiceItemLedger_de (content lib date pdf) n = None \<longleftrightarrow> InvoiceItemLedger_de lib n = None"
  by (simp add: InvoiceItemLedger_de_def reading_none content_free)

lemma InvoiceItem_content [content_free]: "InvoiceItem_de (content lib date pdf) n = None \<longleftrightarrow> InvoiceItem_de lib n = None"
  by (simp add: InvoiceItem_de_def reading_none content_free)

lemma PushedVatTotal_content [content_free]: "PushedVatTotal_de (content lib date pdf) n = None \<longleftrightarrow> PushedVatTotal_de lib n = None"
  by (simp add: PushedVatTotal_de_def reading_none content_free)

lemma Totals_content [content_free]: "Totals_de (content lib date pdf) n = None \<longleftrightarrow> Totals_de lib n = None"
  by (simp add: Totals_de_def reading_none content_free)

lemma PushedCreditEntry_content [content_free]: "PushedCreditEntry_de (content lib date pdf) n = None \<longleftrightarrow> PushedCreditEntry_de lib n = None"
  by (simp add: PushedCreditEntry_de_def reading_none content_free)

lemma FinancialItem_content [content_free]: "FinancialItem_de (content lib date pdf) n = None \<longleftrightarrow> FinancialItem_de lib n = None"
  by (simp add: FinancialItem_de_def reading_none content_free)

lemma PushedInvoice_content [content_free]: "PushedInvoice_de (content lib date pdf) n = None \<longleftrightarrow> PushedInvoice_de lib n = None"
  by (simp add: PushedInvoice_de_def reading_none content_free)

lemma TransactionPartner_content [content_free]: "TransactionPartner_de (content lib date pdf) n = None \<longleftrightarrow> TransactionPartner_de lib n = None"
  by (simp add: TransactionPartner_de_def reading_none content_free)

lemma BankTransaction_content [content_free]: "BankTransaction_de (content lib date pdf) n = None \<longleftrightarrow> BankTransaction_de lib n = None"
  by (simp add: BankTransaction_de_def reading_none content_free)

lemma ReceiptInfo_content [content_free]: "ReceiptInfo_de (content lib date pdf) n = None \<longleftrightarrow> ReceiptInfo_de lib n = None"
  by (simp add: ReceiptInfo_de_def reading_none content_free)

lemma ReceiptItemLedger_content [content_free]: "ReceiptItemLedger_de (content lib date pdf) n = None \<longleftrightarrow> ReceiptItemLedger_de lib n = None"
  by (simp add: ReceiptItemLedger_de_def reading_none content_free)

lemma ReceiptItem_content [content_free]: "ReceiptItem_de (content lib date pdf) n = None \<longleftrightarrow> ReceiptItem_de lib n = None"
  by (simp add: ReceiptItem_de_def reading_none content_free)

lemma ReceiptPayment_content [content_free]: "ReceiptPayment_de (content lib date pdf) n = None \<longleftrightarrow> ReceiptPayment_de lib n = None"
  by (simp add: ReceiptPayment_de_def reading_none content_free)

lemma ReceiptDocument_content [content_free]: "ReceiptDocument_de (content lib date pdf) n = None \<longleftrightarrow> ReceiptDocument_de lib n = None"
  by (simp add: ReceiptDocument_de_def reading_none content_free)

lemma ReceiptBatch_content [content_free]: "ReceiptBatch_de (content lib date pdf) n = None \<longleftrightarrow> ReceiptBatch_de lib n = None"
  by (simp add: ReceiptBatch_de_def reading_none content_free)

section \<open>Lexical facts\<close>

lemma split_at_checked_Some: "split_at_checked k s = Some (a, b) \<longleftrightarrow> s = a @ b \<and> utf8_len a = k"
proof (induction k s arbitrary: a rule: split_at_checked.induct)
  case (2 k c cs)
  have w: "0 < utf8_width c" by (simp add: utf8_width_def)
  show ?case
  proof (cases a)
    case Nil
    then show ?thesis by auto
  next
    case (Cons d ds)
    have "utf8_width c + utf8_len ds = k \<longleftrightarrow> utf8_width c \<le> k \<and> utf8_len ds = k - utf8_width c" by auto
    then show ?thesis using Cons w 2 by auto
  qed
qed auto

lemma timezone_offset_ascii: "is_xs_timezone_offset z \<Longrightarrow> length z = 6 \<and> utf8_len z = 6"
  by (auto simp: is_xs_timezone_offset_def utf8_width_def is_digit_def split: list.splits)

text \<open>
  The timezone suffix of a date is found by a byte offset; it is the suffix of the text itself,
  whatever characters come before.
\<close>

lemma strip_xs_date_timezone_exact:
  "strip_xs_date_timezone t =
    (if t \<noteq> [] \<and> last t = 90 then butlast t
     else if 6 \<le> length t \<and> is_xs_timezone_offset (drop (length t - 6) t) then take (length t - 6) t
     else t)"
proof (cases "6 \<le> length t \<and> is_xs_timezone_offset (drop (length t - 6) t)")
  case True
  let ?d = "take (length t - 6) t" and ?z = "drop (length t - 6) t"
  have "utf8_len t = utf8_len ?d + utf8_len ?z" by (metis append_take_drop_id utf8_len_simps(3))
  then have len: "utf8_len t = utf8_len ?d + 6" using True timezone_offset_ascii by simp
  then have "split_at_checked (utf8_len t - 6) t = Some (?d, ?z)" by (simp add: split_at_checked_Some)
  with True len show ?thesis by (simp add: strip_xs_date_timezone_def)
next
  case False
  have "\<not> is_xs_timezone_offset b" if "split_at_checked (utf8_len t - 6) t = Some (a, b)" for a b
    using that False timezone_offset_ascii [of b] by (auto simp: split_at_checked_Some)
  with False show ?thesis by (auto simp: strip_xs_date_timezone_def split: option.split)
qed

section \<open>The number of an amount\<close>

text \<open>
  The spelling of a number, as XML Schema gives it: an optional sign, digits with at most one point among them (at least one
  digit on either side of it), and an optional exponent of at least one digit.
\<close>

definition signs :: "ustr set" where
  "signs = {[], us ''+'', us ''-''}"

definition exponent_part :: "ustr \<Rightarrow> bool" where
  "exponent_part x \<longleftrightarrow> x = [] \<or> (\<exists>e sign ds. x = e # sign @ ds \<and> e \<in> {101, 69} \<and> sign \<in> signs \<and> ds \<noteq> [] \<and> list_all is_digit ds)"

definition fraction_part :: "ustr \<Rightarrow> ustr \<Rightarrow> bool" where
  "fraction_part whole f \<longleftrightarrow> (f = [] \<and> whole \<noteq> []) \<or> (\<exists>ds. f = 46 # ds \<and> list_all is_digit ds \<and> (whole \<noteq> [] \<or> ds \<noteq> []))"

definition number_parts :: "ustr \<Rightarrow> ustr \<Rightarrow> ustr \<Rightarrow> ustr \<Rightarrow> ustr \<Rightarrow> bool" where
  "number_parts t sign whole f x \<longleftrightarrow> t = sign @ whole @ f @ x \<and> sign \<in> signs \<and> list_all is_digit whole \<and>
     fraction_part whole f \<and> exponent_part x"

text \<open>The spelling the decimal parser is given: no plus sign, no leading zeros but a last one.\<close>

definition plain_number :: "ustr \<Rightarrow> ustr \<Rightarrow> ustr \<Rightarrow> ustr \<Rightarrow> ustr" where
  "plain_number sign whole f x = (if sign = us ''-'' then us ''-'' else []) @
     (let w = dropWhile (\<lambda>b. b = 48) whole in if w = [] then us ''0'' else w) @ f @ x"

definition reads_number :: "'n PushLib \<Rightarrow> ustr \<Rightarrow> PushedDecimal \<Rightarrow> bool" where
  "reads_number lib t d \<longleftrightarrow> (\<exists>sign whole f x. number_parts t sign whole f x \<and> pl_decimal lib (plain_number sign whole f x) = Some d)"

lemma split_exponent_None: "split_exponent s = None \<longleftrightarrow> 101 \<notin> set s \<and> 69 \<notin> set s"
  by (induction s) auto

lemma split_exponent_Some: "split_exponent s = Some (b, e) \<longleftrightarrow>
    (\<exists>c. s = b @ c # e \<and> c \<in> {101, 69} \<and> 101 \<notin> set b \<and> 69 \<notin> set b)"
proof (induction s arbitrary: b)
  case (Cons a s)
  show ?case
  proof (cases "a = 101 \<or> a = 69")
    case True
    then show ?thesis by (cases b) auto
  next
    case False
    then show ?thesis using Cons.IH by (cases b) auto
  qed
qed simp

lemma scan_base_fraction: "scan_base b digits True = (if list_all is_digit b then Some (digits \<or> b \<noteq> []) else None)"
  by (induction b arbitrary: digits) (simp_all add: scan_base.simps)

lemma scan_base_whole: "scan_base b digits False = (case dropWhile is_digit b of
     [] \<Rightarrow> Some (digits \<or> b \<noteq> [])
   | c # fs \<Rightarrow> if c = 46 \<and> list_all is_digit fs then Some (digits \<or> takeWhile is_digit b \<noteq> [] \<or> fs \<noteq> []) else None)"
  by (induction b arbitrary: digits)
    (auto simp: scan_base_fraction split: list.split, (metis dropWhile_eq_Nil_conv list.distinct(1))+)

lemma dropWhile_digits_Nil: "dropWhile is_digit b = [] \<longleftrightarrow> list_all is_digit b"
  by (simp add: dropWhile_eq_Nil_conv list_all_iff)

lemma scan_base_parts:
  assumes "scan_base b False False = Some True"
  shows "\<exists>whole f. b = whole @ f \<and> list_all is_digit whole \<and> fraction_part whole f"
proof -
  have "list_all is_digit (takeWhile is_digit b)" by (auto simp: list_all_iff dest: set_takeWhileD)
  moreover have "fraction_part (takeWhile is_digit b) (dropWhile is_digit b)"
  proof (cases "dropWhile is_digit b")
    case Nil
    then have tw: "takeWhile is_digit b = b" by (metis append_Nil2 takeWhile_dropWhile_id)
    have "b \<noteq> []" using assms by auto
    then show ?thesis unfolding fraction_part_def Nil tw by simp
  next
    case (Cons c fs)
    with assms show ?thesis by (auto simp: fraction_part_def scan_base_whole split: if_splits)
  qed
  ultimately show ?thesis by (intro exI [of _ "takeWhile is_digit b"] exI [of _ "dropWhile is_digit b"]) simp
qed

lemma parts_scan_base:
  assumes "list_all is_digit whole" "fraction_part whole f"
  shows "scan_base (whole @ f) False False = Some True"
proof -
  have nd: "\<not> is_digit 46" by (simp add: is_digit_def)
  have "\<forall>c \<in> set whole. is_digit c" using assms(1) by (simp add: list_all_iff)
  then have "dropWhile is_digit (whole @ f) = dropWhile is_digit f" "takeWhile is_digit (whole @ f) = whole @ takeWhile is_digit f"
    by (simp_all add: dropWhile_append1 takeWhile_append1 dropWhile_append2 takeWhile_append2)
  with assms(2) nd show ?thesis by (auto simp: scan_base_whole fraction_part_def)
qed

lemma strip_sign_cases: "\<exists>sign \<in> signs. t = sign @ strip_sign t"
  by (cases t) (auto simp: strip_sign_def signs_def)

lemma strip_sign_signed: "sign \<in> signs \<Longrightarrow> take 1 u \<noteq> [43] \<Longrightarrow> take 1 u \<noteq> [45] \<Longrightarrow> strip_sign (sign @ u) = u"
  by (cases u) (auto simp: strip_sign_def signs_def)

lemma digits_no_exponent: "list_all is_digit ds \<Longrightarrow> 101 \<notin> set ds \<and> 69 \<notin> set ds \<and> take 1 ds \<noteq> [43] \<and> take 1 ds \<noteq> [45]"
  by (cases ds) (auto simp: is_digit_def list_all_iff)

lemma decimal_spelling_parts:
  assumes "decimal_spelling t"
  shows "\<exists>sign whole f x. number_parts t sign whole f x"
proof -
  let ?u = "strip_sign t"
  obtain sign where sign: "sign \<in> signs" "t = sign @ ?u" using strip_sign_cases by blast
  obtain b x where bx: "?u = b @ x" "exponent_part x" "scan_base b False False = Some True"
  proof (cases "split_exponent ?u")
    case None
    then show thesis using assms that [of ?u "[]"] by (simp add: decimal_spelling_def exponent_part_def)
  next
    case (Some be)
    then obtain b c e where be: "be = (b, e)" "?u = b @ c # e" "c \<in> {101, 69}" by (cases be) (auto simp: split_exponent_Some)
    obtain esign where "esign \<in> signs" "e = esign @ strip_sign e" using strip_sign_cases by blast
    then have "exponent_part (c # e)"
      using assms Some be(1,3) unfolding exponent_part_def decimal_spelling_def by auto
    then show thesis using assms Some be that [of b "c # e"] by (simp add: decimal_spelling_def)
  qed
  from scan_base_parts [OF bx(3)] obtain whole f where "b = whole @ f" "list_all is_digit whole" "fraction_part whole f" by blast
  with bx sign show ?thesis unfolding number_parts_def by (metis append.assoc)
qed

lemma number_parts_spelled:
  assumes "number_parts t sign whole f x"
  shows "decimal_spelling t \<and> compact_number t = plain_number sign whole f x"
proof -
  have p: "t = sign @ whole @ f @ x" "sign \<in> signs" "list_all is_digit whole" "fraction_part whole f" "exponent_part x"
    using assms by (simp_all add: number_parts_def)
  have wf: "take 1 (whole @ f @ x) \<noteq> [43]" "take 1 (whole @ f @ x) \<noteq> [45]"
    using p(4) digits_no_exponent [OF p(3)] by (cases whole; auto simp: fraction_part_def)+
  have u: "strip_sign t = whole @ f @ x" using strip_sign_signed [OF p(2) wf] p(1) by simp
  have scan: "scan_base (whole @ f) False False = Some True"
    by (rule parts_scan_base [OF p(3,4)])
  have ne: "101 \<notin> set (whole @ f)" "69 \<notin> set (whole @ f)"
    using p(4) digits_no_exponent [OF p(3)] digits_no_exponent by (auto simp: fraction_part_def)
  have "decimal_spelling t"
  proof (cases "x = []")
    case True
    have "split_exponent (whole @ f) = None" unfolding split_exponent_None using ne by blast
    then show ?thesis using scan u True by (simp add: decimal_spelling_def)
  next
    case False
    then obtain e s ds where x: "x = e # s @ ds" "e \<in> {101, 69}" "s \<in> signs" "ds \<noteq> []" "list_all is_digit ds"
      using p(5) by (auto simp: exponent_part_def)
    have "split_exponent (strip_sign t) = Some (whole @ f, s @ ds)"
      unfolding split_exponent_Some u using x(1,2) ne by (intro exI [of _ e]) simp
    moreover have "strip_sign (s @ ds) = ds" using strip_sign_signed [OF x(3)] digits_no_exponent [OF x(5)] by blast
    ultimately show ?thesis using scan x(4,5) by (simp add: decimal_spelling_def)
  qed
  moreover have "compact_number t = plain_number sign whole f x"
  proof -
    have fx: "f @ x = [] \<or> hd (f @ x) \<in> {46, 101, 69}"
      using p(4,5) by (auto simp: fraction_part_def exponent_part_def)
    have d: "dropWhile (\<lambda>b. b = 48) (whole @ f @ x) = dropWhile (\<lambda>b. b = 48) whole @ f @ x"
      using fx by (cases "\<forall>b \<in> set whole. b = 48") (cases "f @ x"; auto simp: dropWhile_append)+
    define w where "w = dropWhile (\<lambda>b. b = 48) whole"
    have w: "hd w \<notin> {46, 101, 69}" if "w \<noteq> []"
    proof -
      have "hd w \<in> set whole" using that unfolding w_def by (metis hd_in_set set_dropWhileD)
      then show ?thesis using p(3) by (auto simp: list_all_iff is_digit_def)
    qed
    have "(if w @ f @ x = [] \<or> hd (w @ f @ x) \<in> {46, 101, 69} then 48 # w @ f @ x else w @ f @ x) =
        (if w = [] then us ''0'' else w) @ f @ x"
      using fx w by (cases "w = []") auto
    moreover have m: "take 1 t = [45] \<longleftrightarrow> sign = us ''-''" using p(1,2) wf by (auto simp: signs_def)
    ultimately show ?thesis by (simp add: compact_number_def plain_number_def u d [folded w_def] w_def [symmetric] Let_def)
  qed
  ultimately show ?thesis by blast
qed

lemma parse_wire_decimal_iff: "parse_wire_decimal lib t = Some d \<longleftrightarrow> reads_number lib t d"
  unfolding reads_number_def
proof
  assume "parse_wire_decimal lib t = Some d"
  then have "decimal_spelling t" "pl_decimal lib (compact_number t) = Some d" by (simp_all add: parse_wire_decimal_def split: if_splits)
  with decimal_spelling_parts number_parts_spelled
  show "\<exists>sign whole f x. number_parts t sign whole f x \<and> pl_decimal lib (plain_number sign whole f x) = Some d" by metis
qed (use number_parts_spelled in \<open>auto simp: parse_wire_decimal_def\<close>)

section \<open>Refusals\<close>

text \<open>A field is readable when the library can give its text.\<close>

abbreviation unreadable :: "'n PushLib \<Rightarrow> 'n \<Rightarrow> string list \<Rightarrow> bool" where
  "unreadable lib n names \<equiv> list_ex (\<lambda>name. pl_string lib n (us name) = Unreadable) names"

lemma decimal_field_iff: "decimal_field lib n name = Some (Some d) \<longleftrightarrow>
    (\<exists>t. pl_string lib n name = Present (Some t) \<and> trim t \<noteq> [] \<and> reads_number lib (trim t) d)"
  by (auto simp: decimal_field_def with_default_def empty_as_none_def parse_wire_decimal_iff split: FieldRead.splits option.splits if_splits)


text \<open>Two transactions, alike but for their amounts.\<close>

definition ex_amounts :: "bool PushLib" where
  "ex_amounts = \<lparr> pl_from_str = \<lambda>_. None,
     pl_string = \<lambda>n name. if name = us ''osszeg'' then Present (Some (if n then us ''15'' else us ''XX'')) else Absent,
     pl_str = \<lambda>_ _. Absent, pl_int = \<lambda>_ _. Present 987, pl_struct = \<lambda>_ _. Absent, pl_elem = \<lambda>_ _. Absent, pl_seq = \<lambda>_ _. Absent,
     pl_strings = \<lambda>_ _. Absent, pl_decimal = \<lambda>_. Some (PushedDecimal False 15 0), pl_date = \<lambda>_. None, pl_base64 = \<lambda>_. None \<rparr>"


end
