(* ===== verification/Pushed_Dtd.thy ===== *)
theory Pushed_Dtd
  imports Multipart
begin

text \<open>
  The document type declaration of a pushed document (\<open>szamlazz-adatkapcsolat\<close>,
  \<open>document/xml/dtd.rs\<close>): its grammar, checked without expanding anything, and the text handed on
  with the declaration blanked out.

  A parser maps the rest of the text to what is left after it, \<open>None\<close> being a refusal (the source
  wraps all of them in one opaque error).  The position where a name ends
  (\<open>xmlparser::Stream::consume_name\<close>) is the parameter \<open>cn\<close>, the tokens before the root element
  (\<open>xmlparser::Tokenizer\<close>) are the parameter of \<open>without_declaration\<close>.  Every loop of the source is a
  recursive function that ends because each round consumes text.
\<close>

section \<open>Characters\<close>

definition is_xml_character :: "nat \<Rightarrow> bool" where
  "is_xml_character ch \<longleftrightarrow> ch = 9 \<or> ch = 10 \<or> ch = 13 \<or> (32 \<le> ch \<and> ch \<le> 0xd7ff) \<or> (0xe000 \<le> ch \<and> ch \<le> 0xfffd)
     \<or> (0x10000 \<le> ch \<and> ch \<le> 0x10ffff)"

definition is_push_space :: "nat \<Rightarrow> bool" where
  "is_push_space ch \<longleftrightarrow> ch = 32 \<or> ch = 9 \<or> ch = 13 \<or> ch = 10"

definition xml_ncname_start :: "nat \<Rightarrow> bool" where
  "xml_ncname_start ch \<longleftrightarrow> ch = 95 \<or> (65 \<le> ch \<and> ch \<le> 90) \<or> (97 \<le> ch \<and> ch \<le> 122)
     \<or> (0xc0 \<le> ch \<and> ch \<le> 0xd6) \<or> (0xd8 \<le> ch \<and> ch \<le> 0xf6) \<or> (0xf8 \<le> ch \<and> ch \<le> 0x2ff)
     \<or> (0x370 \<le> ch \<and> ch \<le> 0x37d) \<or> (0x37f \<le> ch \<and> ch \<le> 0x1fff) \<or> (0x200c \<le> ch \<and> ch \<le> 0x200d)
     \<or> (0x2070 \<le> ch \<and> ch \<le> 0x218f) \<or> (0x2c00 \<le> ch \<and> ch \<le> 0x2fef) \<or> (0x3001 \<le> ch \<and> ch \<le> 0xd7ff)
     \<or> (0xf900 \<le> ch \<and> ch \<le> 0xfdcf) \<or> (0xfdf0 \<le> ch \<and> ch \<le> 0xfffd) \<or> (0x10000 \<le> ch \<and> ch \<le> 0xeffff)"

definition name_extender :: "nat \<Rightarrow> bool" where
  "name_extender ch \<longleftrightarrow> ch = 45 \<or> ch = 46 \<or> is_digit ch \<or> ch = 0xb7 \<or> (0x300 \<le> ch \<and> ch \<le> 0x36f) \<or> (0x203f \<le> ch \<and> ch \<le> 0x2040)"

definition valid_pi_target :: "ustr \<Rightarrow> bool" where
  "valid_pi_target name \<longleftrightarrow> \<not> eq_ignore_ascii_case name (us ''xml'') \<and>
     (case name of [] \<Rightarrow> False | c # cs \<Rightarrow> xml_ncname_start c \<and> list_all (\<lambda>ch. xml_ncname_start ch \<or> name_extender ch) cs)"

definition name_char :: "nat \<Rightarrow> bool" where
  "name_char c \<longleftrightarrow> xml_ncname_start c \<or> c = 58 \<or> name_extender c"

definition is_ncname :: "ustr \<Rightarrow> bool" where
  "is_ncname name = (case name of [] \<Rightarrow> False | c # cs \<Rightarrow> xml_ncname_start c \<and> list_all (\<lambda>c. c \<noteq> 58 \<and> name_char c) cs)"

section \<open>Primitives\<close>

text \<open>\<open>take\<close> and \<open>need\<close>: the token, when the text starts with it.\<close>

fun dtd_take :: "ustr \<Rightarrow> ustr \<Rightarrow> ustr option" where
  "dtd_take [] s = Some s"
| "dtd_take (t # ts) [] = None"
| "dtd_take (t # ts) (c # cs) = (if t = c then dtd_take ts cs else None)"

definition dtd_opt :: "ustr \<Rightarrow> ustr \<Rightarrow> ustr" where
  "dtd_opt tok s = (case dtd_take tok s of Some r \<Rightarrow> r | None \<Rightarrow> s)"

definition space :: "ustr \<Rightarrow> ustr" where
  "space s = dropWhile is_push_space s"

definition separator :: "ustr \<Rightarrow> ustr option" where
  "separator s = (if length (space s) \<noteq> length s then Some (space s) else None)"

definition starts_with_any :: "nat set \<Rightarrow> ustr \<Rightarrow> bool" where
  "starts_with_any cs s \<longleftrightarrow> s \<noteq> [] \<and> hd s \<in> cs"

definition dtd_name :: "(ustr \<Rightarrow> nat option) \<Rightarrow> ustr \<Rightarrow> (ustr \<times> ustr) option" where
  "dtd_name cn s = map_option (\<lambda>k. (take k s, drop k s)) (cn s)"

definition dtd_qname :: "(ustr \<Rightarrow> nat option) \<Rightarrow> ustr \<Rightarrow> ustr option" where
  "dtd_qname cn s = (case dtd_name cn s of None \<Rightarrow> None
   | Some (name, rest) \<Rightarrow>
       if (case split_once 58 name of None \<Rightarrow> is_ncname name | Some (p, l) \<Rightarrow> is_ncname p \<and> is_ncname l) then Some rest else None)"

definition dtd_ncname :: "(ustr \<Rightarrow> nat option) \<Rightarrow> ustr \<Rightarrow> (ustr \<times> ustr) option" where
  "dtd_ncname cn s = (case dtd_name cn s of None \<Rightarrow> None
   | Some (name, rest) \<Rightarrow> if is_ncname name then Some (name, rest) else None)"

definition dtd_literal :: "ustr \<Rightarrow> (ustr \<times> ustr) option" where
  "dtd_literal s = (case s of [] \<Rightarrow> None
   | q # t \<Rightarrow>
       if q = 39 \<or> q = 34 then
         (case split_once q t of None \<Rightarrow> None
          | Some (content, rest) \<Rightarrow> if list_all is_xml_character content then Some (content, rest) else None)
       else None)"

text \<open>\<open>str::find\<close> of a two character needle: what stands before it, and the text from it on.\<close>

fun find_pair :: "nat \<Rightarrow> nat \<Rightarrow> ustr \<Rightarrow> (ustr \<times> ustr) option" where
  "find_pair a b (c # d # s) =
    (if c = a \<and> d = b then Some ([], c # d # s) else map_option (\<lambda>(p, r). (c # p, r)) (find_pair a b (d # s)))"
| "find_pair a b s = None"

definition dtd_end :: "ustr \<Rightarrow> ustr option" where
  "dtd_end s = dtd_take (us ''>'') (space s)"

lemma dtd_take_eq: "dtd_take tok s = Some r \<longleftrightarrow> s = tok @ r"
  by (induction tok s rule: dtd_take.induct) auto

lemma dtd_take_length: "dtd_take tok s = Some r \<Longrightarrow> length s = length tok + length r"
  by (simp add: dtd_take_eq)

lemma space_le: "length (space s) \<le> length s"
  by (simp add: space_def length_dropWhile_le)

lemma separator_less: "separator s = Some r \<Longrightarrow> length r < length s"
  using space_le [of s] by (auto simp: separator_def split: if_splits)

lemma dtd_name_le: "dtd_name cn s = Some (name, r) \<Longrightarrow> length r \<le> length s"
  by (auto simp: dtd_name_def)

lemma dtd_qname_le: "dtd_qname cn s = Some r \<Longrightarrow> length r \<le> length s"
  by (auto simp: dtd_qname_def dest: dtd_name_le split: option.splits if_splits)

lemma dtd_ncname_le: "dtd_ncname cn s = Some (name, r) \<Longrightarrow> length r \<le> length s"
  by (auto simp: dtd_ncname_def dest: dtd_name_le split: option.splits if_splits)

lemma dtd_literal_less: "dtd_literal s = Some (v, r) \<Longrightarrow> length r < length s"
  by (auto simp: dtd_literal_def split_once_Some split: list.splits option.splits if_splits)

lemma dtd_opt_le: "length (dtd_opt tok s) \<le> length s"
  by (auto simp: dtd_opt_def dest: dtd_take_length split: option.split)

section \<open>References and identifiers\<close>

definition is_hex_digit :: "nat \<Rightarrow> bool" where
  "is_hex_digit c \<longleftrightarrow> is_digit c \<or> (97 \<le> c \<and> c \<le> 102) \<or> (65 \<le> c \<and> c \<le> 70)"

definition digit_of :: "nat \<Rightarrow> nat" where
  "digit_of c = (if is_digit c then c - 48 else if 97 \<le> c then c - 87 else c - 55)"

text \<open>\<open>u32::from_str_radix\<close> on digits of the radix, then \<open>char::from_u32\<close>.\<close>

definition char_reference :: "nat \<Rightarrow> ustr \<Rightarrow> nat option" where
  "char_reference radix ds = (let v = foldl (\<lambda>n d. n * radix + digit_of d) 0 ds in
     if v < 2 ^ 32 \<and> v \<le> 0x10ffff \<and> \<not> (0xd800 \<le> v \<and> v \<le> 0xdfff) then Some v else None)"

definition reference_ok :: "(ustr \<Rightarrow> nat option) \<Rightarrow> ustr \<Rightarrow> bool" where
  "reference_ok cn ref = (case dtd_take (us ''#'') ref of
     Some num \<Rightarrow>
       (let (ds, radix) = (case dtd_take (us ''x'') num of Some h \<Rightarrow> (h, 16) | None \<Rightarrow> (num, 10)) in
        ds \<noteq> [] \<and> list_all (if radix = 16 then is_hex_digit else is_digit) ds \<and>
        (case char_reference radix ds of Some ch \<Rightarrow> is_xml_character ch | None \<Rightarrow> False))
   | None \<Rightarrow> (case dtd_ncname cn ref of Some (_, rest) \<Rightarrow> rest = [] | None \<Rightarrow> False))"

function references :: "(ustr \<Rightarrow> nat option) \<Rightarrow> bool \<Rightarrow> ustr \<Rightarrow> bool" where
  "references cn attribute s = (case s of
     [] \<Rightarrow> True
   | ch # cs \<Rightarrow>
       if ch = 38 then
         (case split_once 59 cs of None \<Rightarrow> False
          | Some (ref, rest) \<Rightarrow> reference_ok cn ref \<and> references cn attribute rest)
       else if (attribute \<and> ch = 60) \<or> (\<not> attribute \<and> ch = 37) then False
       else references cn attribute cs)"
  by pat_completeness auto
termination by (relation "measure (\<lambda>(_, _, s). length s)") (auto simp: split_once_Some)

declare references.simps [simp del]

definition public_char :: "nat \<Rightarrow> bool" where
  "public_char c \<longleftrightarrow> is_digit c \<or> (65 \<le> c \<and> c \<le> 90) \<or> (97 \<le> c \<and> c \<le> 122) \<or> c = 13 \<or> c = 10
     \<or> c \<in> set (us '' -'' @ [39] @ us ''()+,./:=?;!*#@$_%'')"

definition external_id :: "bool \<Rightarrow> ustr \<Rightarrow> ustr option" where
  "external_id for_notation s = (case dtd_take (us ''SYSTEM'') s of
     Some r \<Rightarrow> Option.bind (separator r) (\<lambda>r. map_option snd (dtd_literal r))
   | None \<Rightarrow>
       Option.bind (dtd_take (us ''PUBLIC'') s) (\<lambda>r. Option.bind (separator r) (\<lambda>r.
       Option.bind (dtd_literal r) (\<lambda>(public_id, r).
         if \<not> list_all public_char public_id then None
         else (let t = space r in
           if \<not> for_notation \<or> starts_with_any {39, 34} t
           then (if length t = length r then None else map_option snd (dtd_literal t))
           else Some t)))))"

section \<open>Declarations\<close>

definition entity_value :: "(ustr \<Rightarrow> nat option) \<Rightarrow> bool \<Rightarrow> ustr \<Rightarrow> ustr option" where
  "entity_value cn parameter s =
    (if starts_with_any {39, 34} s
     then Option.bind (dtd_literal s) (\<lambda>(v, r). if references cn False v then dtd_end r else None)
     else Option.bind (external_id False s) (\<lambda>r.
       let t = space r in
       if length t \<noteq> length r then
         (case dtd_take (us ''NDATA'') t of
            Some u \<Rightarrow>
              if parameter then None
              else Option.bind (separator u) (\<lambda>u. Option.bind (dtd_ncname cn u) (\<lambda>(_, u). dtd_end u))
          | None \<Rightarrow> dtd_end t)
       else dtd_end t))"

definition dtd_entity :: "(ustr \<Rightarrow> nat option) \<Rightarrow> ustr \<Rightarrow> ustr option" where
  "dtd_entity cn s =
    Option.bind (separator s) (\<lambda>r.
    Option.bind (case dtd_take (us ''%'') r of Some r \<Rightarrow> map_option (Pair True) (separator r) | None \<Rightarrow> Some (False, r)) (\<lambda>(parameter, r).
    Option.bind (dtd_ncname cn r) (\<lambda>(_, r).
    Option.bind (separator r) (entity_value cn parameter))))"

definition enumeration_token :: "(ustr \<Rightarrow> nat option) \<Rightarrow> bool \<Rightarrow> ustr \<Rightarrow> ustr option" where
  "enumeration_token cn names s =
    (if names then map_option snd (dtd_ncname cn s)
     else (let r = dropWhile name_char s in if length r = length s then None else Some r))"

lemma enumeration_token_le: "enumeration_token cn names s = Some r \<Longrightarrow> length r \<le> length s"
  by (auto simp: enumeration_token_def Let_def length_dropWhile_le dest: dtd_ncname_le split: if_splits)

function enumeration :: "(ustr \<Rightarrow> nat option) \<Rightarrow> bool \<Rightarrow> ustr \<Rightarrow> ustr option" where
  "enumeration cn names s = (case enumeration_token cn names (space s) of
     None \<Rightarrow> None
   | Some r \<Rightarrow> (case dtd_take (us '')'') (space r) of
       Some t \<Rightarrow> Some t
     | None \<Rightarrow> (case dtd_take (us ''|'') (space r) of None \<Rightarrow> None | Some t \<Rightarrow> enumeration cn names t)))"
  by pat_completeness auto
termination
proof (relation "measure (\<lambda>(_, _, s). length s)", goal_cases)
  case (2 cn names s r t)
  then show ?case
    using enumeration_token_le [of cn names "space s" r] space_le [of s] space_le [of r]
    by (auto dest!: dtd_take_length)
qed simp

declare enumeration.simps [simp del]

definition ATTRIBUTE_TYPES :: "ustr list" where
  "ATTRIBUTE_TYPES = map us [''CDATA'', ''ID'', ''IDREF'', ''IDREFS'', ''ENTITY'', ''ENTITIES'', ''NMTOKEN'', ''NMTOKENS'']"

definition attribute_type :: "(ustr \<Rightarrow> nat option) \<Rightarrow> ustr \<Rightarrow> ustr option" where
  "attribute_type cn s = (case dtd_take (us ''('') s of
     Some r \<Rightarrow> enumeration cn False r
   | None \<Rightarrow> Option.bind (dtd_name cn s) (\<lambda>(name, r).
       if name = us ''NOTATION''
       then Option.bind (separator r) (\<lambda>r. Option.bind (dtd_take (us ''('') r) (enumeration cn True))
       else if name \<in> set ATTRIBUTE_TYPES then Some r else None))"

definition attribute_default :: "(ustr \<Rightarrow> nat option) \<Rightarrow> ustr \<Rightarrow> ustr option" where
  "attribute_default cn s = (case dtd_take (us ''#REQUIRED'') s of
     Some r \<Rightarrow> Some r
   | None \<Rightarrow> (case dtd_take (us ''#IMPLIED'') s of
       Some r \<Rightarrow> Some r
     | None \<Rightarrow> Option.bind (case dtd_take (us ''#FIXED'') s of Some r \<Rightarrow> separator r | None \<Rightarrow> Some s) (\<lambda>r.
         Option.bind (dtd_literal r) (\<lambda>(v, r). if references cn True v then Some r else None))))"

text \<open>One attribute definition of an \<open>ATTLIST\<close>, after its separator.\<close>

definition attribute_def :: "(ustr \<Rightarrow> nat option) \<Rightarrow> ustr \<Rightarrow> ustr option" where
  "attribute_def cn s =
    Option.bind (dtd_qname cn s) (\<lambda>r. Option.bind (separator r) (\<lambda>r. Option.bind (attribute_type cn r) (\<lambda>r.
    Option.bind (separator r) (attribute_default cn))))"

lemma enumeration_le: "enumeration cn names s = Some r \<Longrightarrow> length r \<le> length s"
proof (induction cn names s arbitrary: r rule: enumeration.induct)
  case (1 cn names s)
  obtain t where t: "enumeration_token cn names (space s) = Some t"
    using "1.prems" by (subst (asm) enumeration.simps) (auto split: option.splits)
  note less = enumeration_token_le [OF t] space_le [of s] space_le [of t]
  show ?case
  proof (cases "dtd_take (us '')'') (space t)")
    case (Some u)
    then have "r = u" using "1.prems" t by (subst (asm) enumeration.simps) (simp del: us_Cons)
    then show ?thesis using less dtd_take_length [OF Some] by simp
  next
    case None
    then obtain u where u: "dtd_take (us ''|'') (space t) = Some u" "enumeration cn names u = Some r"
      using "1.prems" t by (subst (asm) enumeration.simps) (auto simp del: us_Cons split: option.splits)
    then show ?thesis using "1.IH" [OF t None u] dtd_take_length [OF u(1)] less by simp
  qed
qed

lemma attribute_type_le: "attribute_type cn s = Some r \<Longrightarrow> length r \<le> length s"
  by (fastforce simp: attribute_type_def bind_eq_Some_conv simp del: us_Cons
      dest!: dtd_take_length separator_less dtd_name_le enumeration_le split: option.splits if_splits)

lemma attribute_default_le: "attribute_default cn s = Some r \<Longrightarrow> length r \<le> length s"
  by (fastforce simp: attribute_default_def bind_eq_Some_conv simp del: us_Cons
      dest!: dtd_take_length separator_less dtd_literal_less split: option.splits if_splits)

lemma attribute_def_le: "attribute_def cn s = Some r \<Longrightarrow> length r \<le> length s"
  by (fastforce simp: attribute_def_def bind_eq_Some_conv
      dest!: dtd_qname_le separator_less attribute_type_le attribute_default_le)

function attributes :: "(ustr \<Rightarrow> nat option) \<Rightarrow> ustr \<Rightarrow> ustr option" where
  "attributes cn s = (case dtd_take (us ''>'') (space s) of
     Some r \<Rightarrow> Some r
   | None \<Rightarrow>
       if length (space s) = length s then None
       else (case attribute_def cn (space s) of None \<Rightarrow> None | Some r \<Rightarrow> attributes cn r))"
  by pat_completeness auto
termination
proof (relation "measure (\<lambda>(_, s). length s)", goal_cases)
  case (2 cn s r)
  then show ?case using attribute_def_le [of cn "space s" r] space_le [of s] by auto
qed simp

declare attributes.simps [simp del]

definition dtd_attlist :: "(ustr \<Rightarrow> nat option) \<Rightarrow> ustr \<Rightarrow> ustr option" where
  "dtd_attlist cn s = Option.bind (separator s) (\<lambda>r. Option.bind (dtd_qname cn r) (attributes cn))"

text \<open>The rest of a mixed content model: more names, and whether there were any.\<close>

function mixed_names :: "(ustr \<Rightarrow> nat option) \<Rightarrow> bool \<Rightarrow> ustr \<Rightarrow> (bool \<times> ustr) option" where
  "mixed_names cn names s = (case dtd_take (us ''|'') s of
     None \<Rightarrow> Some (names, s)
   | Some r \<Rightarrow> (case dtd_qname cn (space r) of None \<Rightarrow> None | Some t \<Rightarrow> mixed_names cn True (space t)))"
  by pat_completeness auto
termination
proof (relation "measure (\<lambda>(_, _, s). length s)", goal_cases)
  case (2 cn names s r t)
  then show ?case
    using dtd_qname_le [of cn "space r" t] space_le [of r] space_le [of t] by (auto dest!: dtd_take_length)
qed simp

declare mixed_names.simps [simp del]

definition occurrence :: "ustr \<Rightarrow> ustr" where
  "occurrence s = (case s of c # r \<Rightarrow> if c = 63 \<or> c = 42 \<or> c = 43 then r else s | [] \<Rightarrow> [])"

lemma occurrence_le: "length (occurrence s) \<le> length s"
  by (auto simp: occurrence_def split: list.split)

text \<open>
  After an item of a content model: closing groups, then a separator.  The stack has one entry
  per open group, its separator once it has one; the empty stack is the end of the model.
\<close>

function close_groups :: "nat option list \<Rightarrow> ustr \<Rightarrow> (nat option list \<times> ustr) option" where
  "close_groups groups s = (let t = space (occurrence s) in
     case dtd_take (us '')'') t of
       Some r \<Rightarrow> if tl groups = [] then Some ([], r) else close_groups (tl groups) r
     | None \<Rightarrow>
         (case t of
            sep # r \<Rightarrow>
              if sep = 124 \<or> sep = 44 then
                (case groups of
                   used # outer \<Rightarrow> if used \<noteq> None \<and> used \<noteq> Some sep then None else Some (Some sep # outer, r)
                 | [] \<Rightarrow> None)
              else None
          | [] \<Rightarrow> None))"
  by pat_completeness auto
termination
proof (relation "measure (\<lambda>(_, s). length s)", goal_cases)
  case (2 groups s t r)
  then show ?case using space_le [of "occurrence s"] occurrence_le [of s] by (auto dest!: dtd_take_length)
qed simp

declare close_groups.simps [simp del]

lemma close_groups_less: "close_groups groups s = Some (g, r) \<Longrightarrow> length r < length s"
proof (induction groups s arbitrary: g r rule: close_groups.induct)
  case (1 groups s)
  let ?t = "space (occurrence s)"
  have le: "length ?t \<le> length s" using space_le [of "occurrence s"] occurrence_le [of s] by linarith
  show ?case
  proof (cases "dtd_take (us '')'') ?t")
    case (Some u)
    have u: "length u < length ?t" using dtd_take_length [OF Some] by simp
    show ?thesis
    proof (cases "tl groups = []")
      case True
      then show ?thesis using "1.prems" Some le u by (simp add: Let_def close_groups.simps [of groups s] del: us_Cons)
    next
      case False
      then have "close_groups (tl groups) u = Some (g, r)"
        using "1.prems" Some by (simp add: Let_def close_groups.simps [of groups s] del: us_Cons)
      then show ?thesis using "1.IH" [OF refl Some False] le u by fastforce
    qed
  next
    case None
    then show ?thesis using "1.prems" le
      by (auto simp: Let_def close_groups.simps [of groups s] simp del: us_Cons split: list.splits if_splits)
  qed
qed

function content_model :: "(ustr \<Rightarrow> nat option) \<Rightarrow> nat option list \<Rightarrow> ustr \<Rightarrow> ustr option" where
  "content_model cn groups s = (case dtd_take (us ''('') (space s) of
     Some r \<Rightarrow> content_model cn (None # groups) r
   | None \<Rightarrow> (case dtd_qname cn (space s) of
       None \<Rightarrow> None
     | Some r \<Rightarrow> (case close_groups groups r of
         None \<Rightarrow> None
       | Some (groups, t) \<Rightarrow> if groups = [] then Some t else content_model cn groups t)))"
  by pat_completeness auto
termination
proof (relation "measure (\<lambda>(_, _, s). length s)", goal_cases)
  case (2 cn groups s r p g t)
  then have "close_groups groups r = Some (g, t)" by simp
  from close_groups_less [OF this] show ?case using 2 space_le [of s] dtd_qname_le [of cn "space s" r] by auto
next
  case (3 cn groups s r)
  then show ?case using space_le [of s] by (auto dest!: dtd_take_length)
qed simp

declare content_model.simps [simp del]

definition dtd_element :: "(ustr \<Rightarrow> nat option) \<Rightarrow> ustr \<Rightarrow> ustr option" where
  "dtd_element cn s =
    Option.bind (separator s) (\<lambda>r. Option.bind (dtd_qname cn r) (\<lambda>r. Option.bind (separator r) (\<lambda>r.
      case dtd_take (us ''EMPTY'') r of Some t \<Rightarrow> dtd_end t
      | None \<Rightarrow> (case dtd_take (us ''ANY'') r of Some t \<Rightarrow> dtd_end t
        | None \<Rightarrow> Option.bind (dtd_take (us ''('') r) (\<lambda>r. let r = space r in
            case dtd_take (us ''#PCDATA'') r of
              Some t \<Rightarrow>
                Option.bind (mixed_names cn False (space t)) (\<lambda>(names, t). Option.bind (dtd_take (us '')'') t) (\<lambda>t.
                  if names then Option.bind (dtd_take (us ''*'') t) dtd_end else dtd_end (dtd_opt (us ''*'') t)))
            | None \<Rightarrow> Option.bind (content_model cn [None] r) (\<lambda>t. dtd_end (occurrence t)))))))"

definition dtd_comment :: "ustr \<Rightarrow> ustr option" where
  "dtd_comment s = Option.bind (find_pair 45 45 s) (\<lambda>(inside, r).
     if list_all is_xml_character inside then dtd_take (us ''-->'') r else None)"

definition dtd_instruction :: "(ustr \<Rightarrow> nat option) \<Rightarrow> ustr \<Rightarrow> ustr option" where
  "dtd_instruction cn s = Option.bind (dtd_ncname cn s) (\<lambda>(target, r).
     if \<not> valid_pi_target target then None
     else (case dtd_take (us ''?>'') r of
         Some t \<Rightarrow> Some t
       | None \<Rightarrow> Option.bind (separator r) (\<lambda>r. Option.bind (find_pair 63 62 r) (\<lambda>(inside, r).
           if list_all is_xml_character inside then Some (drop 2 r) else None))))"

definition dtd_notation :: "(ustr \<Rightarrow> nat option) \<Rightarrow> ustr \<Rightarrow> ustr option" where
  "dtd_notation cn s = Option.bind (separator s) (\<lambda>r. Option.bind (dtd_ncname cn r) (\<lambda>(_, r).
     Option.bind (separator r) (\<lambda>r. Option.bind (external_id True r) dtd_end)))"

definition parameter_reference :: "(ustr \<Rightarrow> nat option) \<Rightarrow> ustr \<Rightarrow> ustr option" where
  "parameter_reference cn s = Option.bind (dtd_ncname cn s) (\<lambda>(_, r). dtd_take (us '';'') r)"

text \<open>The declarations of the internal subset, by the token each starts with, tried in this order.\<close>

definition subset_parsers :: "(ustr \<Rightarrow> nat option) \<Rightarrow> (ustr \<times> (ustr \<Rightarrow> ustr option)) list" where
  "subset_parsers cn =
    [(us ''<!ELEMENT'', dtd_element cn), (us ''<!ATTLIST'', dtd_attlist cn), (us ''<!ENTITY'', dtd_entity cn),
     (us ''<!NOTATION'', dtd_notation cn), (us ''<!--'', dtd_comment), (us ''<?'', dtd_instruction cn),
     (us ''%'', parameter_reference cn)]"

fun first_parser :: "(ustr \<times> (ustr \<Rightarrow> ustr option)) list \<Rightarrow> ustr \<Rightarrow> ustr option" where
  "first_parser [] s = None"
| "first_parser ((tok, p) # ps) s = (case dtd_take tok s of Some r \<Rightarrow> p r | None \<Rightarrow> first_parser ps s)"

section \<open>What is left is a suffix\<close>

named_theorems leaves \<open>a parser leaves a suffix of its text\<close>

lemma take_leaves [leaves]: "dtd_take tok s = Some r \<Longrightarrow> suffix r s"
  by (auto simp: dtd_take_eq suffix_def)

lemma space_leaves: "suffix (space s) s"
  by (simp add: space_def suffix_dropWhile)

lemma separator_leaves [leaves]: "separator s = Some r \<Longrightarrow> suffix r s"
  using space_leaves by (auto simp: separator_def split: if_splits)

lemma name_leaves [leaves]: "dtd_name cn s = Some (name, r) \<Longrightarrow> suffix r s"
  by (auto simp: dtd_name_def suffix_drop)

lemma qname_leaves [leaves]: "dtd_qname cn s = Some r \<Longrightarrow> suffix r s"
  by (auto simp: dtd_qname_def dest: name_leaves split: option.splits if_splits)

lemma ncname_leaves [leaves]: "dtd_ncname cn s = Some (name, r) \<Longrightarrow> suffix r s"
  by (auto simp: dtd_ncname_def dest: name_leaves split: option.splits if_splits)

lemma literal_leaves [leaves]: "dtd_literal s = Some (v, r) \<Longrightarrow> suffix r s"
  by (auto simp: dtd_literal_def split_once_Some suffix_def split: list.splits option.splits if_splits)

lemma opt_leaves: "suffix (dtd_opt tok s) s"
  by (auto simp: dtd_opt_def dest: take_leaves split: option.split)

lemma find_pair_leaves [leaves]: "find_pair a b s = Some (p, r) \<Longrightarrow> suffix r s"
  by (induction a b s arbitrary: p r rule: find_pair.induct) (auto intro: suffix_ConsI split: if_splits)

lemma end_leaves [leaves]: "dtd_end s = Some r \<Longrightarrow> suffix r s"
  using space_leaves suffix_order.trans by (fastforce simp: dtd_end_def dest!: take_leaves)

lemma occurrence_leaves: "suffix (occurrence s) s"
  by (auto simp: occurrence_def suffix_ConsI split: list.split)

lemma through_space: "suffix r (space s) \<Longrightarrow> suffix r s"
  using space_leaves suffix_order.trans by blast

lemma through_opt: "suffix r (dtd_opt tok s) \<Longrightarrow> suffix r s"
  using opt_leaves suffix_order.trans by blast

lemma through_occurrence: "suffix r (occurrence s) \<Longrightarrow> suffix r s"
  using occurrence_leaves suffix_order.trans by blast

lemmas leaves_through = through_space through_opt through_occurrence

lemma external_id_leaves [leaves]: "external_id b s = Some r \<Longrightarrow> suffix r s"
  by (auto simp: external_id_def bind_eq_Some_conv Let_def space_leaves simp del: us_Cons
      dest!: leaves leaves_through split: option.splits if_splits; meson space_leaves suffix_order.trans)

lemma bind_SomeE:
  assumes "Option.bind m f = Some r"
  obtains x where "m = Some x" "f x = Some r"
  using assms by (cases m) auto

lemma entity_value_leaves [leaves]: "entity_value cn parameter s = Some r \<Longrightarrow> suffix r s"
  by (auto simp: entity_value_def Let_def simp del: us_Cons elim!: bind_SomeE
      dest!: leaves leaves_through split: option.splits if_splits; meson suffix_order.trans)

lemma entity_leaves [leaves]: "dtd_entity cn s = Some r \<Longrightarrow> suffix r s"
  by (auto simp: dtd_entity_def simp del: us_Cons elim!: bind_SomeE dest!: leaves split: option.splits;
      meson suffix_order.trans)

lemma notation_leaves [leaves]: "dtd_notation cn s = Some r \<Longrightarrow> suffix r s"
  by (auto simp: dtd_notation_def bind_eq_Some_conv simp del: us_Cons dest!: leaves; meson suffix_order.trans)

lemma comment_leaves [leaves]: "dtd_comment s = Some r \<Longrightarrow> suffix r s"
  by (auto simp: dtd_comment_def bind_eq_Some_conv simp del: us_Cons dest!: leaves split: if_splits; meson suffix_order.trans)

lemma parameter_reference_leaves [leaves]: "parameter_reference cn s = Some r \<Longrightarrow> suffix r s"
  by (auto simp: parameter_reference_def bind_eq_Some_conv simp del: us_Cons dest!: leaves; meson suffix_order.trans)

lemma instruction_leaves [leaves]: "dtd_instruction cn s = Some r \<Longrightarrow> suffix r s"
  by (auto simp: dtd_instruction_def bind_eq_Some_conv simp del: us_Cons dest!: leaves split: if_splits option.splits; meson suffix_drop suffix_order.trans)

lemma enumeration_leaves [leaves]: "enumeration cn names s = Some r \<Longrightarrow> suffix r s"
proof (induction cn names s arbitrary: r rule: enumeration.induct)
  case (1 cn names s)
  obtain t where t: "enumeration_token cn names (space s) = Some t"
    using "1.prems" by (subst (asm) enumeration.simps) (auto split: option.splits)
  have st: "suffix t s"
    using t by (auto simp: enumeration_token_def Let_def suffix_dropWhile dest!: leaves leaves_through
        split: if_splits; meson space_leaves suffix_dropWhile suffix_order.trans)
  show ?case
  proof (cases "dtd_take (us '')'') (space t)")
    case (Some u)
    then have "r = u" using "1.prems" t by (subst (asm) enumeration.simps) (simp del: us_Cons)
    then show ?thesis using st through_space [OF take_leaves [OF Some]] suffix_order.trans by blast
  next
    case None
    then obtain u where u: "dtd_take (us ''|'') (space t) = Some u" "enumeration cn names u = Some r"
      using "1.prems" t by (subst (asm) enumeration.simps) (auto simp del: us_Cons split: option.splits)
    from "1.IH" [OF t None u] st through_space [OF take_leaves [OF u(1)]] show ?thesis by (meson suffix_order.trans)
  qed
qed

lemma attribute_type_leaves [leaves]: "attribute_type cn s = Some r \<Longrightarrow> suffix r s"
  by (auto simp: attribute_type_def bind_eq_Some_conv simp del: us_Cons dest!: leaves split: option.splits if_splits;
      meson suffix_order.trans)

lemma attribute_default_leaves [leaves]: "attribute_default cn s = Some r \<Longrightarrow> suffix r s"
  by (auto simp: attribute_default_def bind_eq_Some_conv simp del: us_Cons dest!: leaves split: option.splits if_splits;
      meson suffix_order.trans)

lemma attribute_def_leaves [leaves]: "attribute_def cn s = Some r \<Longrightarrow> suffix r s"
  by (auto simp: attribute_def_def bind_eq_Some_conv dest!: leaves; meson suffix_order.trans)

lemma attributes_leaves [leaves]: "attributes cn s = Some r \<Longrightarrow> suffix r s"
proof (induction cn s arbitrary: r rule: attributes.induct)
  case (1 cn s)
  show ?case
  proof (cases "dtd_take (us ''>'') (space s)")
    case (Some u)
    then have "r = u" using "1.prems" by (subst (asm) attributes.simps) (simp del: us_Cons)
    then show ?thesis using through_space [OF take_leaves [OF Some]] by simp
  next
    case None
    then obtain u where u: "length (space s) \<noteq> length s" "attribute_def cn (space s) = Some u" "attributes cn u = Some r"
      using "1.prems" by (subst (asm) attributes.simps) (auto simp del: us_Cons split: option.splits if_splits)
    from "1.IH" [OF None u] through_space [OF attribute_def_leaves [OF u(2)]] show ?thesis by (meson suffix_order.trans)
  qed
qed

lemma attlist_leaves [leaves]: "dtd_attlist cn s = Some r \<Longrightarrow> suffix r s"
  by (auto simp: dtd_attlist_def bind_eq_Some_conv dest!: leaves; meson suffix_order.trans)

lemma mixed_names_leaves [leaves]: "mixed_names cn names s = Some (b, r) \<Longrightarrow> suffix r s"
proof (induction cn names s arbitrary: b r rule: mixed_names.induct)
  case (1 cn names s)
  show ?case
  proof (cases "dtd_take (us ''|'') s")
    case None
    then show ?thesis using "1.prems" by (subst (asm) mixed_names.simps) (simp del: us_Cons)
  next
    case (Some u)
    then obtain t where t: "dtd_qname cn (space u) = Some t" "mixed_names cn True (space t) = Some (b, r)"
      using "1.prems" by (subst (asm) mixed_names.simps) (auto simp del: us_Cons split: option.splits)
    from through_space [OF "1.IH" [OF Some t]] through_space [OF qname_leaves [OF t(1)]] take_leaves [OF Some]
    show ?thesis by (meson suffix_order.trans)
  qed
qed

lemma close_groups_leaves [leaves]: "close_groups groups s = Some (g, r) \<Longrightarrow> suffix r s"
proof (induction groups s arbitrary: g r rule: close_groups.induct)
  case (1 groups s)
  let ?t = "space (occurrence s)"
  have le: "suffix ?t s" by (rule through_occurrence) (rule space_leaves)
  show ?case
  proof (cases "dtd_take (us '')'') ?t")
    case (Some u)
    note u = take_leaves [OF Some]
    show ?thesis
    proof (cases "tl groups = []")
      case True
      then have "r = u" using "1.prems" Some by (simp add: Let_def close_groups.simps [of groups s] del: us_Cons)
      then show ?thesis using le u suffix_order.trans by blast
    next
      case False
      then have "close_groups (tl groups) u = Some (g, r)"
        using "1.prems" Some by (simp add: Let_def close_groups.simps [of groups s] del: us_Cons)
      from "1.IH" [OF refl Some False this] le u show ?thesis by (meson suffix_order.trans)
    qed
  next
    case None
    then obtain c where "?t = c # r" using "1.prems"
      by (auto simp: Let_def close_groups.simps [of groups s] simp del: us_Cons split: list.splits if_splits)
    then show ?thesis using le suffix_ConsI suffix_order.trans by (metis suffix_ConsD)
  qed
qed

lemma content_model_leaves [leaves]: "content_model cn groups s = Some r \<Longrightarrow> suffix r s"
proof (induction cn groups s arbitrary: r rule: content_model.induct)
  case (1 cn groups s)
  show ?case
  proof (cases "dtd_take (us ''('') (space s)")
    case (Some u)
    then have "content_model cn (None # groups) u = Some r"
      using "1.prems" by (subst (asm) content_model.simps) (simp del: us_Cons)
    from "1.IH"(2) [OF Some this] through_space [OF take_leaves [OF Some]] show ?thesis by (meson suffix_order.trans)
  next
    case None
    then obtain u g t where u: "dtd_qname cn (space s) = Some u" "close_groups groups u = Some (g, t)"
        and rest: "(if g = [] then Some t else content_model cn g t) = Some r"
      using "1.prems" by (subst (asm) content_model.simps) (auto simp del: us_Cons split: option.splits)
    have st: "suffix t s"
      using through_space [OF qname_leaves [OF u(1)]] close_groups_leaves [OF u(2)] by (meson suffix_order.trans)
    show ?thesis
    proof (cases "g = []")
      case False
      then have "content_model cn g t = Some r" using rest by simp
      from "1.IH"(1) [OF None u refl False this] st show ?thesis by (meson suffix_order.trans)
    qed (use rest st in simp)
  qed
qed

lemma element_leaves [leaves]: "dtd_element cn s = Some r \<Longrightarrow> suffix r s"
  by (auto simp: dtd_element_def Let_def simp del: us_Cons elim!: bind_SomeE
      dest!: leaves leaves_through split: option.splits if_splits; meson suffix_order.trans)

lemma first_parser_leaves:
  assumes "first_parser ps s = Some r" "list_all (\<lambda>(tok, p). tok \<noteq> [] \<and> (\<forall>t u. p t = Some u \<longrightarrow> suffix u t)) ps"
  shows "suffix r s \<and> length r < length s"
  using assms
proof (induction ps)
  case (Cons q ps)
  obtain tok p where q: "q = (tok, p)" by (cases q)
  show ?case
  proof (cases "dtd_take tok s")
    case (Some t)
    then have "suffix r t" "0 < length tok" using Cons.prems q by auto
    moreover from this have "length r < length s" using dtd_take_length [OF Some] suffix_length_le [of r t] by linarith
    ultimately show ?thesis using take_leaves [OF Some] suffix_order.trans by blast
  qed (use Cons q in simp)
qed simp

lemma subset_parsers_leave: "list_all (\<lambda>(tok, p). tok \<noteq> [] \<and> (\<forall>t u. p t = Some u \<longrightarrow> suffix u t)) (subset_parsers cn)"
  by (auto simp: subset_parsers_def dest: leaves)

section \<open>The declaration\<close>

function internal_subset :: "(ustr \<Rightarrow> nat option) \<Rightarrow> ustr \<Rightarrow> ustr option" where
  "internal_subset cn s = (case dtd_take (us '']'') (space s) of
     Some r \<Rightarrow> Some r
   | None \<Rightarrow> (case first_parser (subset_parsers cn) (space s) of None \<Rightarrow> None | Some r \<Rightarrow> internal_subset cn r))"
  by pat_completeness auto
termination
proof (relation "measure (\<lambda>(_, s). length s)", goal_cases)
  case (2 cn s r)
  then show ?case using first_parser_leaves [OF _ subset_parsers_leave, of cn "space s" r] space_le [of s] by auto
qed simp

declare internal_subset.simps [simp del]

definition dtd_declaration :: "(ustr \<Rightarrow> nat option) \<Rightarrow> ustr \<Rightarrow> ustr option" where
  "dtd_declaration cn s =
    Option.bind (dtd_take (us ''<!DOCTYPE'') s) (\<lambda>r. Option.bind (separator r) (\<lambda>r. Option.bind (dtd_qname cn r) (\<lambda>r.
    Option.bind
      (let t = space r in
       if length t \<noteq> length r \<and> \<not> starts_with_any {91, 62} t then map_option space (external_id False t) else Some t) (\<lambda>r.
    Option.bind
      (case dtd_take (us ''['') r of Some t \<Rightarrow> map_option space (internal_subset cn t) | None \<Rightarrow> Some r)
      (dtd_take (us ''>''))))))"

text \<open>The tokens up to the root element: a declaration by the position where it starts.\<close>

datatype PrologToken = PT_Error | PT_Dtd nat | PT_ElementStart | PT_Other

definition blank :: "ustr \<Rightarrow> ustr" where
  "blank d = map (\<lambda>b. if b = 10 then 10 else 32) (as_bytes d)"

fun without_declaration :: "(ustr \<Rightarrow> nat option) \<Rightarrow> ustr \<Rightarrow> PrologToken list \<Rightarrow> ustr option" where
  "without_declaration cn s [] = Some s"
| "without_declaration cn s (token # tokens) = (case token of
     PT_Error \<Rightarrow> None
   | PT_Dtd start \<Rightarrow> (case dtd_declaration cn (drop start s) of
       None \<Rightarrow> None
     | Some rest \<Rightarrow> (let stop = length s - length rest in
         Some (take start s @ blank (drop start (take stop s)) @ drop stop s)))
   | PT_ElementStart \<Rightarrow> Some s
   | PT_Other \<Rightarrow> without_declaration cn s tokens)"

lemma internal_subset_leaves [leaves]: "internal_subset cn s = Some r \<Longrightarrow> suffix r s"
proof (induction cn s arbitrary: r rule: internal_subset.induct)
  case (1 cn s)
  show ?case
  proof (cases "dtd_take (us '']'') (space s)")
    case (Some u)
    then have "r = u" using "1.prems" by (subst (asm) internal_subset.simps) (simp del: us_Cons)
    then show ?thesis using through_space [OF take_leaves [OF Some]] by simp
  next
    case None
    then obtain u where u: "first_parser (subset_parsers cn) (space s) = Some u" "internal_subset cn u = Some r"
      using "1.prems" by (subst (asm) internal_subset.simps) (auto simp del: us_Cons split: option.splits)
    from "1.IH" [OF None u] through_space first_parser_leaves [OF u(1) subset_parsers_leave]
    show ?thesis by (meson suffix_order.trans)
  qed
qed

lemma declaration_leaves [leaves]: "dtd_declaration cn s = Some r \<Longrightarrow> suffix r s"
  by (auto simp: dtd_declaration_def Let_def simp del: us_Cons elim!: bind_SomeE
      dest!: leaves leaves_through split: option.splits if_splits; meson suffix_order.trans)

lemma blank_length: "utf8_len (blank d) = utf8_len d"
proof -
  have "length (utf8_char c) = utf8_width c" for c by (simp add: utf8_char_def utf8_width_def)
  then have "length (as_bytes d) = utf8_len d"
    by (induction d) (simp_all add: as_bytes_def)
  moreover have "utf8_len (map (\<lambda>b :: byte. if b = 10 then 10 else 32) bs) = length bs" for bs
    by (induction bs) (simp_all add: utf8_width_def)
  ultimately show ?thesis by (simp add: blank_def)
qed

text \<open>A declaration runs from its keyword to its closing bracket.\<close>

lemma declaration_text:
  assumes "dtd_declaration cn s = Some after"
  shows "\<exists>d. s = d @ after \<and> prefix (us ''<!DOCTYPE'') d \<and> last d = 62"
proof -
  obtain r a b c t where r: "dtd_take (us ''<!DOCTYPE'') s = Some r" and ab: "separator r = Some a" "dtd_qname cn a = Some b"
    and c: "(let t = space b in
       if length t \<noteq> length b \<and> \<not> starts_with_any {91, 62} t then map_option space (external_id False t) else Some t) = Some c"
    and e: "(case dtd_take (us ''['') c of Some t \<Rightarrow> map_option space (internal_subset cn t) | None \<Rightarrow> Some c) = Some t"
    and t1: "dtd_take (us ''>'') t = Some after"
    using assms unfolding dtd_declaration_def by (elim bind_SomeE) (rule that)
  have "suffix c b" using c by (auto simp: Let_def space_leaves simp del: us_Cons dest!: leaves leaves_through split: if_splits; meson space_leaves suffix_order.trans)
  moreover have "suffix t c"
    using e by (auto simp del: us_Cons dest!: leaves leaves_through split: option.splits; meson space_leaves suffix_order.trans)
  moreover have "suffix b a" "suffix a r" using ab by (blast intro: leaves)+
  ultimately have "suffix t r" by (meson suffix_order.trans)
  note t = t1 this
  obtain u where "r = u @ t" using t(2) by (auto simp: suffix_def)
  moreover have "s = us ''<!DOCTYPE'' @ r" "t = us ''>'' @ after" using r t(1) by (simp_all only: dtd_take_eq)
  ultimately have "s = (us ''<!DOCTYPE'' @ u @ us ''>'') @ after" by simp
  then show ?thesis by (intro exI [of _ "us ''<!DOCTYPE'' @ u @ us ''>''"]) (simp add: prefix_def)
qed

text \<open>The bytes of two texts have line feeds at the same positions.\<close>

definition same_lines :: "ustr \<Rightarrow> ustr \<Rightarrow> bool" where
  "same_lines s out \<longleftrightarrow> list_all2 (\<lambda>b c. (b = 10) = (c = 10)) (as_bytes s) (as_bytes out)"

lemma as_bytes_append: "as_bytes (a @ b) = as_bytes a @ as_bytes b"
  by (simp add: as_bytes_def)

lemma same_lines_append: "same_lines a b \<Longrightarrow> same_lines c d \<Longrightarrow> same_lines (a @ c) (b @ d)"
  by (simp add: same_lines_def as_bytes_append list_all2_appendI)

lemma same_lines_refl [simp]: "same_lines s s"
  by (simp add: same_lines_def list.rel_refl)

lemma same_lines_blank: "same_lines d (blank d)"
proof -
  have "as_bytes (map (\<lambda>b :: byte. if b = 10 then 10 else 32) bs) = map (\<lambda>b. if b = 10 then 10 else 32) bs" for bs
    by (induction bs) (simp_all add: as_bytes_def utf8_char_def)
  then show ?thesis by (simp add: same_lines_def blank_def list_all2_map2 list.rel_refl)
qed


end
