(* ===== verification/Pushed_Xml.thy ===== *)
theory Pushed_Xml
  imports Pushed_Documents Pushed_Dtd
begin

text \<open>
  From the bytes of a push to its document (\<open>szamlazz-adatkapcsolat\<close>, \<open>document.rs\<close> and
  \<open>document/xml.rs\<close>): the identification of the root, the check of the XML's shape and of every
  element's namespace, and the parse.

  The events of \<open>quick_xml\<close>, its namespace resolver, the tokens of \<open>xmlparser\<close> and the escaping
  functions are the parameter \<open>XmlLib\<close>; positions in the text are counted in characters.
\<close>

section \<open>The readers' view of a text\<close>

datatype PrefixDeclaration = PD_Default | PD_Named ustr

datatype ResolveResult = RR_Bound ustr | RR_Unbound | RR_Unknown ustr

text \<open>An attribute: its key, the namespace binding it makes, the raw text and the normalized value.\<close>

datatype XAttr = XA_Error | XA (xa_key: ustr) (xa_binding: "PrefixDeclaration option") (xa_raw: ustr) (xa_value: "ustr option")

record StartTag =
  st_name :: ustr
  st_local :: ustr
  st_attributes :: "XAttr list"
  st_unchecked :: "XAttr list"

record XmlDecl =
  xd_version :: "ustr option"
  xd_raw :: ustr
  xd_attributes :: "XAttr list"

datatype XEvent =
    XE_Start StartTag | XE_Empty StartTag | XE_End ustr | XE_Decl XmlDecl | XE_Text ustr | XE_CData
  | XE_GeneralRef | XE_DocType | XE_PI ustr | XE_Comment | XE_Eof | XE_Error

datatype LexToken = LT_Error | LT_Attribute ustr ustr nat nat ustr | LT_Text ustr | LT_Other

record ('r, 'n) XmlLib =
  xl_de :: "'n PushLib"
  xl_events :: "bool \<Rightarrow> ustr \<Rightarrow> XEvent list"
  xl_prolog :: "ustr \<Rightarrow> PrologToken list"
  xl_tokens :: "ustr \<Rightarrow> LexToken list"
  xl_name :: "ustr \<Rightarrow> nat option"
  xl_normalize :: "ustr \<Rightarrow> ustr option"
  xl_escape :: "ustr \<Rightarrow> ustr"
  xl_unescape :: "ustr \<Rightarrow> ustr option"
  xl_new :: 'r
  xl_push :: "'r \<Rightarrow> 'r option"
  xl_pop :: "'r \<Rightarrow> 'r"
  xl_add :: "'r \<Rightarrow> PrefixDeclaration \<Rightarrow> ustr \<Rightarrow> 'r option"
  xl_element :: "'r \<Rightarrow> ustr \<Rightarrow> ResolveResult"
  xl_attribute :: "'r \<Rightarrow> ustr \<Rightarrow> ResolveResult \<times> ustr"

section \<open>The root\<close>

definition root_of_local :: "ustr \<Rightarrow> RootKind option" where
  "root_of_local name =
    (if name = us ''szamla'' then Some RK_OutgoingInvoice
     else if name = us ''szamlabe'' then Some RK_IncomingInvoice
     else if name = us ''banktranz'' then Some RK_BankTransaction
     else if name = us ''xmlnyugtaarchiv'' then Some RK_Receipts
     else None)"

definition strip_suffix :: "ustr \<Rightarrow> ustr \<Rightarrow> ustr option" where
  "strip_suffix tail s = map_option rev (dtd_take (rev tail) (rev s))"

definition namespace_attribute :: "StartTag \<Rightarrow> ustr" where
  "namespace_attribute start = (case Option.bind (strip_suffix (st_local start) (st_name start)) (strip_suffix (us '':'')) of
     None \<Rightarrow> us ''xmlns'' | Some pre \<Rightarrow> us ''xmlns:'' @ pre)"

text \<open>The first attribute with the key, or nothing; \<open>Err\<close> where reading up to it or its value fails.\<close>

fun find_namespace :: "ustr \<Rightarrow> XAttr list \<Rightarrow> (ustr option, PushParseError) result" where
  "find_namespace key [] = Ok None"
| "find_namespace key (XA_Error # attrs) = Err PPE_Xml"
| "find_namespace key (XA k b raw v # attrs) =
    (if k = key then (case v of None \<Rightarrow> Err PPE_Xml | Some ns \<Rightarrow> Ok (Some ns)) else find_namespace key attrs)"

definition root_tag :: "StartTag \<Rightarrow> (RootKind, PushParseError) result" where
  "root_tag start = (case root_of_local (st_local start) of
     None \<Rightarrow> Err (PPE_UnknownRoot (st_local start))
   | Some kind \<Rightarrow> try_then (find_namespace (namespace_attribute start) (st_unchecked start)) (\<lambda>ns.
       if ns \<noteq> Some (RootKind_namespace kind)
       then Err (PPE_WrongNamespace (root_element kind) (RootKind_namespace kind) (case ns of None \<Rightarrow> [] | Some n \<Rightarrow> n))
       else Ok kind))"

fun root_kind :: "XEvent list \<Rightarrow> (RootKind, PushParseError) result" where
  "root_kind [] = Err PPE_Empty"
| "root_kind (event # events) = (case event of
     XE_Error \<Rightarrow> Err PPE_Xml
   | XE_Start start \<Rightarrow> root_tag start
   | XE_Empty start \<Rightarrow> root_tag start
   | XE_Eof \<Rightarrow> Err PPE_Empty
   | _ \<Rightarrow> root_kind events)"

definition identify :: "('r, 'n) XmlLib \<Rightarrow> byte list \<Rightarrow> (RootKind, PushParseError) result" where
  "identify lib body = (case from_utf8 body of None \<Rightarrow> Err PPE_Utf8 | Some t \<Rightarrow> root_kind (xl_events lib False t))"

section \<open>Namespaces\<close>

definition XML_NS :: ustr where
  "XML_NS = us ''http://www.w3.org/XML/1998/namespace''"

definition XMLNS_NS :: ustr where
  "XMLNS_NS = us ''http://www.w3.org/2000/xmlns/''"

fun add_bindings :: "('r, 'n) XmlLib \<Rightarrow> 'r \<Rightarrow> XAttr list \<Rightarrow> 'r option" where
  "add_bindings lib r [] = Some r"
| "add_bindings lib r (XA_Error # attrs) = None"
| "add_bindings lib r (XA key binding raw v # attrs) = (case binding of
     None \<Rightarrow> add_bindings lib r attrs
   | Some pre \<Rightarrow> (case v of
       None \<Rightarrow> None
     | Some ns \<Rightarrow>
         if (pre = PD_Default \<and> (ns = XML_NS \<or> ns = XMLNS_NS)) \<or> (pre \<noteq> PD_Default \<and> ns = []) then None
         else (case xl_add lib r pre ns of None \<Rightarrow> None | Some r' \<Rightarrow> add_bindings lib r' attrs)))"

fun attributes_distinct :: "('r, 'n) XmlLib \<Rightarrow> 'r \<Rightarrow> (ustr option \<times> ustr) list \<Rightarrow> XAttr list \<Rightarrow> bool" where
  "attributes_distinct lib r taken [] = True"
| "attributes_distinct lib r taken (XA_Error # attrs) = False"
| "attributes_distinct lib r taken (XA key binding raw v # attrs) =
    (if binding \<noteq> None then attributes_distinct lib r taken attrs
     else (case xl_attribute lib r key of
         (RR_Unknown _, _) \<Rightarrow> False
       | (RR_Bound ns, local) \<Rightarrow> (Some ns, local) \<notin> set taken \<and> attributes_distinct lib r ((Some ns, local) # taken) attrs
       | (RR_Unbound, local) \<Rightarrow> (None, local) \<notin> set taken \<and> attributes_distinct lib r ((None, local) # taken) attrs))"

definition push_scope :: "('r, 'n) XmlLib \<Rightarrow> 'r \<Rightarrow> StartTag \<Rightarrow> 'r option" where
  "push_scope lib r start =
    (if dtd_take (us ''xmlns:'') (st_name start) \<noteq> None then None
     else (case xl_push lib r of None \<Rightarrow> None
       | Some r \<Rightarrow> (case add_bindings lib r (st_attributes start) of None \<Rightarrow> None
         | Some r \<Rightarrow> if attributes_distinct lib r [] (st_attributes start) then Some r else None)))"

text \<open>\<open>read_resolved_event\<close>: the namespace of the event and the reader after it.\<close>

definition resolve_event :: "('r, 'n) XmlLib \<Rightarrow> 'r \<Rightarrow> bool \<Rightarrow> XEvent \<Rightarrow> (ResolveResult \<times> 'r \<times> bool) option" where
  "resolve_event lib r pending event = (let r = (if pending then xl_pop lib r else r) in
     case event of
       XE_Error \<Rightarrow> None
     | XE_Start start \<Rightarrow> map_option (\<lambda>r. (xl_element lib r (st_name start), r, False)) (push_scope lib r start)
     | XE_Empty start \<Rightarrow> map_option (\<lambda>r. (xl_element lib r (st_name start), r, True)) (push_scope lib r start)
     | XE_End name \<Rightarrow> Some (xl_element lib r name, r, True)
     | _ \<Rightarrow> Some (RR_Unbound, r, False))"

definition check_namespace :: "ResolveResult \<Rightarrow> StartTag \<Rightarrow> RootKind \<Rightarrow> (unit, PushParseError) result" where
  "check_namespace ns start kind =
    (if ns \<noteq> RR_Bound (RootKind_namespace kind)
     then Err (PPE_WrongNamespace (st_local start) (RootKind_namespace kind) (case ns of
         RR_Bound n \<Rightarrow> n | RR_Unbound \<Rightarrow> [] | RR_Unknown pre \<Rightarrow> msg ''unbound prefix '' @ pre))
     else Ok ())"

section \<open>The XML declaration\<close>

fun declaration_spaced :: "ustr \<Rightarrow> nat option \<Rightarrow> bool \<Rightarrow> bool" where
  "declaration_spaced [] open_quote needs_space = True"
| "declaration_spaced (ch # s) (Some q) needs_space =
    (if ch = q then declaration_spaced s None True else declaration_spaced s (Some q) needs_space)"
| "declaration_spaced (ch # s) None needs_space =
    (if needs_space \<and> \<not> is_push_space ch then False
     else declaration_spaced s (if ch = 39 \<or> ch = 34 then Some ch else None) False)"

definition valid_encoding_name :: "ustr \<Rightarrow> bool" where
  "valid_encoding_name name = (case name of [] \<Rightarrow> False
   | b # bs \<Rightarrow> ((65 \<le> b \<and> b \<le> 90) \<or> (97 \<le> b \<and> b \<le> 122)) \<and>
       list_all (\<lambda>b. (65 \<le> b \<and> b \<le> 90) \<or> (97 \<le> b \<and> b \<le> 122) \<or> is_digit b \<or> b = 46 \<or> b = 95 \<or> b = 45) bs)"

definition declaration_rank :: "ustr \<Rightarrow> ustr \<Rightarrow> nat option" where
  "declaration_rank key raw =
    (if key = us ''version'' \<and> raw = us ''1.0'' then Some 1
     else if key = us ''encoding'' \<and> valid_encoding_name raw then Some 2
     else if key = us ''standalone'' \<and> (raw = us ''yes'' \<or> raw = us ''no'') then Some 3
     else None)"

fun declaration_ranked :: "nat \<Rightarrow> XAttr list \<Rightarrow> bool" where
  "declaration_ranked last_rank [] = True"
| "declaration_ranked last_rank (XA_Error # attrs) = False"
| "declaration_ranked last_rank (XA key binding raw v # attrs) = (case declaration_rank key raw of
     None \<Rightarrow> False | Some rank \<Rightarrow> last_rank < rank \<and> declaration_ranked rank attrs)"

definition validate_declaration :: "XmlDecl \<Rightarrow> bool" where
  "validate_declaration decl \<longleftrightarrow> xd_version decl = Some (us ''1.0'') \<and> declaration_spaced (xd_raw decl) None False \<and>
     declaration_ranked 0 (xd_attributes decl)"

section \<open>The whole document\<close>

definition is_namespace_key :: "ustr \<Rightarrow> ustr \<Rightarrow> bool" where
  "is_namespace_key pre local \<longleftrightarrow> pre = us ''xmlns'' \<or> (pre = [] \<and> local = us ''xmlns'')"

definition escape_binding :: "('r, 'n) XmlLib \<Rightarrow> ustr \<Rightarrow> ustr" where
  "escape_binding lib binding = concat (map (\<lambda>c.
     if c = 9 then us ''&#9;'' else if c = 10 then us ''&#10;'' else if c = 13 then us ''&#13;'' else [c]) (xl_escape lib binding))"

definition decoded_ok :: "('r, 'n) XmlLib \<Rightarrow> ustr \<Rightarrow> bool" where
  "decoded_ok lib v = (case xl_unescape lib v of None \<Rightarrow> False | Some d \<Rightarrow> list_all is_xml_character d)"

text \<open>The token loop: the normalized text so far and the position copied to.\<close>

fun lexical_loop :: "('r, 'n) XmlLib \<Rightarrow> ustr \<Rightarrow> LexToken list \<Rightarrow> ustr \<Rightarrow> nat \<Rightarrow> (ustr \<times> nat) option" where
  "lexical_loop lib s [] normalized copied_to = Some (normalized, copied_to)"
| "lexical_loop lib s (LT_Error # tokens) normalized copied_to = None"
| "lexical_loop lib s (LT_Other # tokens) normalized copied_to = lexical_loop lib s tokens normalized copied_to"
| "lexical_loop lib s (LT_Text v # tokens) normalized copied_to =
    (if decoded_ok lib v then lexical_loop lib s tokens normalized copied_to else None)"
| "lexical_loop lib s (LT_Attribute pre local start stop v # tokens) normalized copied_to =
    (case (if is_namespace_key pre local then
        (case xl_normalize lib v of
           None \<Rightarrow> None
         | Some binding \<Rightarrow>
             if binding \<noteq> v then Some (normalized @ drop copied_to (take start s) @ escape_binding lib binding, stop)
             else Some (normalized, copied_to))
       else Some (normalized, copied_to)) of
       None \<Rightarrow> None
     | Some (normalized, copied_to) \<Rightarrow> if decoded_ok lib v then lexical_loop lib s tokens normalized copied_to else None)"

definition validate_lexical :: "('r, 'n) XmlLib \<Rightarrow> ustr \<Rightarrow> (ustr, PushParseError) result" where
  "validate_lexical lib s =
    (if \<not> list_all is_xml_character s then Err PPE_Xml
     else (case lexical_loop lib s (xl_tokens lib s) [] 0 of
         None \<Rightarrow> Err PPE_Xml
       | Some (normalized, copied_to) \<Rightarrow> if copied_to = 0 then Ok s else Ok (normalized @ drop copied_to s)))"

definition event_namespace :: "ResolveResult \<Rightarrow> XEvent \<Rightarrow> RootKind \<Rightarrow> (unit, PushParseError) result" where
  "event_namespace ns event kind = (case event of
     XE_Start start \<Rightarrow> check_namespace ns start kind
   | XE_Empty start \<Rightarrow> check_namespace ns start kind
   | _ \<Rightarrow> Ok ())"

text \<open>What an event does to the depth and to whether the root was seen; \<open>None\<close> is a refusal.\<close>

definition event_shape :: "nat \<Rightarrow> bool \<Rightarrow> bool \<Rightarrow> XEvent \<Rightarrow> (nat \<times> bool) option" where
  "event_shape depth seen_root first_event event = (case event of
     XE_Start _ \<Rightarrow> if depth = 0 then (if seen_root then None else Some (1, True)) else Some (depth + 1, seen_root)
   | XE_Empty _ \<Rightarrow> if depth = 0 then (if seen_root then None else Some (0, True)) else Some (depth, seen_root)
   | XE_End _ \<Rightarrow> if depth = 0 then None else Some (depth - 1, seen_root)
   | XE_Decl decl \<Rightarrow> if first_event \<and> validate_declaration decl then Some (depth, seen_root) else None
   | XE_Text v \<Rightarrow> if depth = 0 \<and> \<not> list_all is_push_space v then None else Some (depth, seen_root)
   | XE_CData \<Rightarrow> if depth = 0 then None else Some (depth, seen_root)
   | XE_GeneralRef \<Rightarrow> if depth = 0 then None else Some (depth, seen_root)
   | XE_DocType \<Rightarrow> None
   | XE_PI target \<Rightarrow> if valid_pi_target target then Some (depth, seen_root) else None
   | _ \<Rightarrow> Some (depth, seen_root))"

fun document_loop :: "('r, 'n) XmlLib \<Rightarrow> RootKind \<Rightarrow> 'r \<Rightarrow> bool \<Rightarrow> nat \<Rightarrow> bool \<Rightarrow> bool \<Rightarrow> XEvent list \<Rightarrow> (unit, PushParseError) result" where
  "document_loop lib kind r pending depth seen_root first_event [] =
    (if depth \<noteq> 0 \<or> \<not> seen_root then Err PPE_Xml else Ok ())"
| "document_loop lib kind r pending depth seen_root first_event (event # events) =
    (case resolve_event lib r pending event of
       None \<Rightarrow> Err PPE_Xml
     | Some (ns, r, pending) \<Rightarrow> try_then (event_namespace ns event kind) (\<lambda>_.
         if event = XE_Eof then (if depth \<noteq> 0 \<or> \<not> seen_root then Err PPE_Xml else Ok ())
         else (case event_shape depth seen_root first_event event of
             None \<Rightarrow> Err PPE_Xml
           | Some (depth, seen_root) \<Rightarrow> document_loop lib kind r pending depth seen_root False events)))"

definition validate_xml_document :: "('r, 'n) XmlLib \<Rightarrow> ustr \<Rightarrow> RootKind \<Rightarrow> (ustr, PushParseError) result" where
  "validate_xml_document lib s kind =
    try_then (document_loop lib kind (xl_new lib) False 0 False True (xl_events lib True s)) (\<lambda>_. validate_lexical lib s)"

definition xml_validate :: "('r, 'n) XmlLib \<Rightarrow> ustr \<Rightarrow> RootKind \<Rightarrow> (ustr, PushParseError) result" where
  "xml_validate lib s kind = (case without_declaration (xl_name lib) s (xl_prolog lib s) of
     None \<Rightarrow> Err PPE_Xml
   | Some hidden \<Rightarrow> validate_xml_document lib hidden kind)"

section \<open>The parse\<close>

definition read_document :: "'n PushLib \<Rightarrow> RootKind \<Rightarrow> ustr \<Rightarrow> 'n \<Rightarrow> Document option" where
  "read_document de kind raw n = (case kind of
     RK_OutgoingInvoice \<Rightarrow> map_option (\<lambda>invoice. Doc_OutgoingInvoice (invoice\<lparr> pin_raw_xml := Some raw \<rparr>)) (PushedInvoice_de de n)
   | RK_IncomingInvoice \<Rightarrow> map_option (\<lambda>invoice. Doc_IncomingInvoice (invoice\<lparr> pin_raw_xml := Some raw \<rparr>)) (PushedInvoice_de de n)
   | RK_BankTransaction \<Rightarrow> map_option (\<lambda>t. Doc_BankTransaction (t\<lparr> bt_raw_xml := Some raw \<rparr>)) (BankTransaction_de de n)
   | RK_Receipts \<Rightarrow> map_option (\<lambda>batch. Doc_Receipts (batch\<lparr> rb_raw_xml := Some raw \<rparr>)) (ReceiptBatch_de de n))"

definition parse_identified :: "('r, 'n) XmlLib \<Rightarrow> byte list \<Rightarrow> RootKind \<Rightarrow> (Document, PushParseError) result" where
  "parse_identified lib body kind = (case from_utf8 body of
     None \<Rightarrow> Err PPE_Utf8
   | Some t \<Rightarrow> try_then (xml_validate lib t kind) (\<lambda>normalized.
       case Option.bind (pl_from_str (xl_de lib) normalized) (read_document (xl_de lib) kind t) of
         None \<Rightarrow> Err PPE_Xml
       | Some document \<Rightarrow> Ok document))"

definition Document_parse :: "('r, 'n) XmlLib \<Rightarrow> byte list \<Rightarrow> (Document, PushParseError) result" where
  "Document_parse lib body = try_then (identify lib body) (parse_identified lib body)"

definition parse_strict :: "('r, 'n) XmlLib \<Rightarrow> byte list \<Rightarrow> (Document, PushParseError + ValidationError) result" where
  "parse_strict lib body = (case Document_parse lib body of
     Inl e \<Rightarrow> Err (Inl e)
   | Inr document \<Rightarrow> (case Document_validate document of Inl e \<Rightarrow> Err (Inr e) | Inr _ \<Rightarrow> Ok document))"

section \<open>What an accepted text is\<close>

text \<open>The reference: the events up to the end with the namespaces they resolve to, the depth after a
  sequence of events, and the positions of elements that no other element contains.\<close>

fun resolved_events :: "('r, 'n) XmlLib \<Rightarrow> 'r \<Rightarrow> bool \<Rightarrow> XEvent list \<Rightarrow> (ResolveResult \<times> XEvent) list" where
  "resolved_events lib r pending [] = []"
| "resolved_events lib r pending (event # events) = (case resolve_event lib r pending event of
     None \<Rightarrow> []
   | Some (ns, r, pending) \<Rightarrow> if event = XE_Eof then [] else (ns, event) # resolved_events lib r pending events)"

definition is_element :: "XEvent \<Rightarrow> bool" where
  "is_element event = (case event of XE_Start _ \<Rightarrow> True | XE_Empty _ \<Rightarrow> True | _ \<Rightarrow> False)"

definition depth_change :: "XEvent \<Rightarrow> int" where
  "depth_change event = (case event of XE_Start _ \<Rightarrow> 1 | XE_End _ \<Rightarrow> - 1 | _ \<Rightarrow> 0)"

fun depths :: "int \<Rightarrow> XEvent list \<Rightarrow> int list" where
  "depths d [] = [d]"
| "depths d (event # events) = d # depths (d + depth_change event) events"

fun roots :: "int \<Rightarrow> XEvent list \<Rightarrow> nat" where
  "roots d [] = 0"
| "roots d (event # events) = (if d = 0 \<and> is_element event then 1 else 0) + roots (d + depth_change event) events"

lemma event_shape_depth: "event_shape d seen f event = Some (d', seen') \<Longrightarrow> int d' = int d + depth_change event"
  by (auto simp: event_shape_def depth_change_def split: XEvent.splits if_splits)

lemma event_shape_root:
  "event_shape d seen f event = Some (d', seen') \<Longrightarrow>
    (if seen' then 1 else 0) = (if seen then 1 else (0::nat)) + (if d = 0 \<and> is_element event then 1 else 0) \<or>
    (seen = seen' \<and> \<not> (d = 0 \<and> is_element event))"
  by (auto simp: event_shape_def is_element_def split: XEvent.splits if_splits)

lemma event_shape_no_doctype: "event_shape d seen f event = Some x \<Longrightarrow> event \<noteq> XE_DocType"
  by (auto simp: event_shape_def)

lemma document_loop_shape:
  assumes "document_loop lib kind r pending d seen f events = Inr ()"
  shows "list_all (\<lambda>(ns, event). is_element event \<longrightarrow> ns = RR_Bound (RootKind_namespace kind)) (resolved_events lib r pending events)
    \<and> list_all (\<lambda>k. 0 \<le> k) (depths (int d) (map snd (resolved_events lib r pending events)))
    \<and> last (depths (int d) (map snd (resolved_events lib r pending events))) = 0
    \<and> roots (int d) (map snd (resolved_events lib r pending events)) = (if seen then 0 else 1)
    \<and> XE_DocType \<notin> set (map snd (resolved_events lib r pending events))"
  using assms
proof (induction lib kind r pending d seen f events rule: document_loop.induct)
  case (2 lib kind r pending d seen f event events)
  obtain ns r' pending' where res: "resolve_event lib r pending event = Some (ns, r', pending')"
    using "2.prems" by (auto split: option.splits)
  have ns: "event_namespace ns event kind = Inr ()"
    using "2.prems" res by (cases "event_namespace ns event kind") auto
  show ?case
  proof (cases "event = XE_Eof")
    case True
    then show ?thesis using "2.prems" res ns by (auto split: if_splits)
  next
    case False
    obtain d' seen' where sh: "event_shape d seen f event = Some (d', seen')"
      using "2.prems" res ns False by (auto split: option.splits)
    have "document_loop lib kind r' pending' d' seen' False events = Inr ()" using "2.prems" res ns False sh by simp
    note IH = "2.IH" [OF res refl refl False sh refl this]
    have "is_element event \<longrightarrow> ns = RR_Bound (RootKind_namespace kind)"
      using ns by (auto simp: event_namespace_def is_element_def check_namespace_def split: XEvent.splits if_splits)
    moreover have "depths (int d + depth_change event) xs \<noteq> []" for xs by (cases xs) auto
    ultimately show ?thesis
      using IH event_shape_root [OF sh] event_shape_no_doctype [OF sh] res False
      unfolding event_shape_depth [OF sh] by (auto split: if_splits)
  qed
qed (auto split: if_splits)

definition raw_xml :: "Document \<Rightarrow> ustr option" where
  "raw_xml document = (case document of
     Doc_OutgoingInvoice invoice \<Rightarrow> pin_raw_xml invoice
   | Doc_IncomingInvoice invoice \<Rightarrow> pin_raw_xml invoice
   | Doc_BankTransaction t \<Rightarrow> bt_raw_xml t
   | Doc_Receipts batch \<Rightarrow> rb_raw_xml batch)"

lemma read_document_kind: "read_document de kind raw n = Some d \<Longrightarrow> Document_kind d = kind \<and> raw_xml d = Some raw"
  by (auto simp: read_document_def Document_kind_def raw_xml_def split: RootKind.splits)

text \<open>(C35) What the parse accepts is a pushed document.  An accepted body is UTF-8, its kind is the one
  its root identifies, and the document keeps the exact text.  Up to a document type declaration
  blanked out, the text has one root and balanced tags, no document type declaration, and every element of it,
  read or not, is in the namespace of its kind.\<close>

theorem parse_accepts_documents_only:
  assumes "Document_parse lib body = Inr document"
  shows "\<exists>text hidden. from_utf8 body = Some text \<and> raw_xml document = Some text \<and>
    root_kind (xl_events lib False text) = Inr (Document_kind document) \<and>
    without_declaration (xl_name lib) text (xl_prolog lib text) = Some hidden \<and>
    (let resolved = resolved_events lib (xl_new lib) False (xl_events lib True hidden); events = map snd resolved in
      list_all (\<lambda>(ns, event). is_element event \<longrightarrow> ns = RR_Bound (RootKind_namespace (Document_kind document))) resolved \<and>
      list_all (\<lambda>k. 0 \<le> k) (depths 0 events) \<and> last (depths 0 events) = 0 \<and> roots 0 events = 1 \<and> XE_DocType \<notin> set events)"
proof -
  obtain kind where kind: "identify lib body = Inr kind" "parse_identified lib body kind = Inr document"
    using assms by (auto simp: Document_parse_def try_then_Inr_iff)
  then obtain t where t: "from_utf8 body = Some t" "root_kind (xl_events lib False t) = Inr kind"
    by (auto simp: identify_def split: option.splits)
  from kind(2) t(1) obtain normalized where v: "xml_validate lib t kind = Inr normalized"
      and d: "\<exists>n. read_document (xl_de lib) kind t n = Some document"
    by (auto simp: parse_identified_def try_then_Inr_iff bind_eq_Some_conv split: option.splits)
  from v obtain hidden where h: "without_declaration (xl_name lib) t (xl_prolog lib t) = Some hidden"
      and loop: "document_loop lib kind (xl_new lib) False 0 False True (xl_events lib True hidden) = Inr ()"
    by (auto simp: xml_validate_def validate_xml_document_def try_then_Inr_iff split: option.splits)
  from d obtain n where "read_document (xl_de lib) kind t n = Some document" ..
  note k = read_document_kind [OF this]
  show ?thesis
    using document_loop_shape [OF loop] t h k by (intro exI [of _ t] exI [of _ hidden]) (simp add: Let_def)
qed

definition ex_push_lib :: "unit PushLib" where
  "ex_push_lib = \<lparr> pl_from_str = \<lambda>_. Some (), pl_string = \<lambda>_ name. if name = us ''irany'' then Present (Some (us ''XX'')) else Absent,
     pl_str = \<lambda>_ _. Absent, pl_int = \<lambda>_ _. Present 987, pl_struct = \<lambda>_ _. Absent, pl_elem = \<lambda>_ _. Absent, pl_seq = \<lambda>_ _. Absent,
     pl_strings = \<lambda>_ _. Absent, pl_decimal = \<lambda>_. None, pl_date = \<lambda>_. None, pl_base64 = \<lambda>_. None \<rparr>"

definition ex_root_tag :: StartTag where
  "ex_root_tag = \<lparr> st_name = us ''banktranz'', st_local = us ''banktranz'', st_attributes = [],
     st_unchecked = [XA (us ''xmlns'') (Some PD_Default) (RootKind_namespace RK_BankTransaction) (Some (RootKind_namespace RK_BankTransaction))] \<rparr>"

definition ex_xml_lib :: "(unit, unit) XmlLib" where
  "ex_xml_lib = \<lparr> xl_de = ex_push_lib, xl_events = \<lambda>_ _. [XE_Start ex_root_tag, XE_Empty ex_root_tag, XE_End (us ''banktranz''), XE_Eof],
     xl_prolog = \<lambda>_. [PT_ElementStart], xl_tokens = \<lambda>_. [], xl_name = \<lambda>_. None, xl_normalize = Some, xl_escape = \<lambda>s. s,
     xl_unescape = Some, xl_new = (), xl_push = Some, xl_pop = \<lambda>r. r, xl_add = \<lambda>r _ _. Some r,
     xl_element = \<lambda>_ _. RR_Bound (RootKind_namespace RK_BankTransaction), xl_attribute = \<lambda>_ name. (RR_Unbound, name) \<rparr>"

definition ex_transaction :: BankTransaction where
  "ex_transaction = \<lparr> bt_id = 987, bt_bank_account = None, bt_value_date = None, bt_direction = Some (TD_Other (us ''XX'')),
     bt_transaction_type = None, bt_technical = None, bt_amount = None, bt_currency = None, bt_partner = None, bt_memo = None,
     bt_raw_xml = Some (us ''<b/>'') \<rparr>"

lemma ex_trim: "trim (us ''XX'') = us ''XX''"
  by (simp add: trim_id_iff is_whitespace_def)

lemma ex_parses: "Document_parse ex_xml_lib (as_bytes (us ''<b/>'')) = Inr (Doc_BankTransaction ex_transaction)"
proof -
  have utf8: "from_utf8 (as_bytes (us ''<b/>'')) = Some (us ''<b/>'')"
    by (simp add: from_utf8_def as_bytes_def utf8_char_def)
  have names: "us ''banktranz'' \<noteq> us ''szamla''" "us ''banktranz'' \<noteq> us ''szamlabe''" by simp_all
  have kind: "root_kind [XE_Start ex_root_tag, XE_Empty ex_root_tag, XE_End (us ''banktranz''), XE_Eof] = Inr RK_BankTransaction"
    by (simp add: root_tag_def ex_root_tag_def root_of_local_def namespace_attribute_def strip_suffix_def)
  have dir: "direction_field ex_push_lib () (us ''irany'') = Some (Some (TD_Other (us ''XX'')))"
    using ex_trim by (simp add: direction_field_def ex_push_lib_def with_default_def empty_string_as_none_def
        TransactionDirection_from_code_def Let_def)
  have de: "BankTransaction_de ex_push_lib () = Some (ex_transaction\<lparr> bt_raw_xml := None \<rparr>)"
    using dir by (simp add: BankTransaction_de_def ex_transaction_def required_field_def text_field_def date_field_def bool_field_def
        decimal_field_def struct_option_def with_default_def ex_push_lib_def)
  have scope: "push_scope ex_xml_lib r ex_root_tag = Some r" for r
    by (simp add: push_scope_def ex_xml_lib_def ex_root_tag_def)
  have "xml_validate ex_xml_lib (us ''<b/>'') RK_BankTransaction = Inr (us ''<b/>'')"
    using scope by (simp add: xml_validate_def validate_xml_document_def validate_lexical_def resolve_event_def event_namespace_def
        event_shape_def check_namespace_def ex_xml_lib_def is_xml_character_def)
  then show ?thesis
    using utf8 kind de by (simp add: Document_parse_def identify_def parse_identified_def read_document_def ex_xml_lib_def
        ex_transaction_def ex_push_lib_def del: us_Cons)
qed

theorem parse_accepts_documents_only_witness:
  "\<exists>text hidden. from_utf8 (as_bytes (us ''<b/>'')) = Some text \<and> raw_xml (Doc_BankTransaction ex_transaction) = Some text \<and>
    root_kind (xl_events ex_xml_lib False text) = Inr RK_BankTransaction \<and>
    without_declaration (xl_name ex_xml_lib) text (xl_prolog ex_xml_lib text) = Some hidden"
  using parse_accepts_documents_only [OF ex_parses] by (auto simp: Document_kind_def)

section \<open>Content never refuses\<close>

lemma add_bindings_de: "add_bindings (lib\<lparr> xl_de := de \<rparr>) r attrs = add_bindings lib r attrs"
  by (induction lib r attrs rule: add_bindings.induct) (auto split: option.split)

lemma attributes_distinct_de: "attributes_distinct (lib\<lparr> xl_de := de \<rparr>) r taken attrs = attributes_distinct lib r taken attrs"
  by (induction lib r taken attrs rule: attributes_distinct.induct) (auto split: prod.split ResolveResult.split)

lemma resolve_event_de: "resolve_event (lib\<lparr> xl_de := de \<rparr>) = resolve_event lib"
proof -
  have "push_scope (lib\<lparr> xl_de := de \<rparr>) r start = push_scope lib r start" for r start
    by (auto simp: push_scope_def add_bindings_de attributes_distinct_de split: option.split)
  then show ?thesis by (intro ext) (simp add: resolve_event_def Let_def split: XEvent.split)
qed

lemma document_loop_de:
  "document_loop (lib\<lparr> xl_de := de \<rparr>) kind r pending d seen f events = document_loop lib kind r pending d seen f events"
  by (induction lib kind r pending d seen f events rule: document_loop.induct)
    (auto simp: resolve_event_de try_then_def split: option.split sum.split)

lemma lexical_loop_de: "lexical_loop (lib\<lparr> xl_de := de \<rparr>) s tokens normalized copied = lexical_loop lib s tokens normalized copied"
proof (induction lib s tokens normalized copied rule: lexical_loop.induct)
  case (5 lib s pre local start stop v tokens normalized copied)
  then show ?case by (auto simp: decoded_ok_def escape_binding_def split: option.split)
qed (auto simp: decoded_ok_def)

lemma xml_validate_de: "xml_validate (lib\<lparr> xl_de := de \<rparr>) s kind = xml_validate lib s kind"
  by (simp add: xml_validate_def validate_xml_document_def document_loop_de validate_lexical_def lexical_loop_de split: option.split)

text \<open>(C36) Content never refuses.  Whatever the calendar makes of a date text and whatever the decoder
  makes of an encoded PDF, the parse refuses the same bodies, with the same errors: no date element and no
  PDF can cost the delivery of the record it sits in.\<close>

theorem parse_refuses_no_content:
  "Document_parse (lib\<lparr> xl_de := (xl_de lib)\<lparr> pl_date := date, pl_base64 := pdf \<rparr> \<rparr>) body = Inl e \<longleftrightarrow>
   Document_parse lib body = Inl e"
proof -
  let ?de = "content (xl_de lib) date pdf"
  have read: "read_document ?de kind t n = None \<longleftrightarrow> read_document (xl_de lib) kind t n = None" for kind t n
    by (simp add: read_document_def content_free split: RootKind.split)
  have bind: "Option.bind m (read_document ?de kind t) = None \<longleftrightarrow> Option.bind m (read_document (xl_de lib) kind t) = None"
    for m :: "'b option" and kind t by (cases m) (simp_all add: read)
  have refuse: "(case m of None \<Rightarrow> Inl x | Some d \<Rightarrow> Inr d) = Inl e \<longleftrightarrow> m = None \<and> e = x" for m :: "Document option" and x e
    by (cases m) auto
  have "parse_identified (lib\<lparr> xl_de := ?de \<rparr>) body kind = Inl e \<longleftrightarrow> parse_identified lib body kind = Inl e" for kind
    by (simp add: parse_identified_def xml_validate_de try_then_def refuse bind split: option.split sum.split)
  then show ?thesis by (simp add: Document_parse_def identify_def try_then_def split: sum.split option.split)
qed

end
