(* ===== verification/Push_Protocol.thy ===== *)
theory Push_Protocol
  imports Pushed_Xml
begin

text \<open>
  The receiver of pushes (\<open>szamlazz-adatkapcsolat\<close>: \<open>ack.rs\<close>, \<open>key.rs\<close>, \<open>handler.rs\<close>, \<open>fanout.rs\<close>,
  \<open>axum.rs\<close>): the acknowledgements, the fan-out over several handlers, and the protocol from a request
  to its answer.

  A handler is a record of state-passing functions, one per stream; its state and its errors are
  arbitrary.  What \<open>axum\<close> makes of the request body (within its limit) is part of the request.
  An acknowledgement is the document it writes, a tree; a success carries the status 200.
\<close>

section \<open>Acknowledgements\<close>

datatype ControlCode = CC_KeyUnknown | CC_Disconnect

definition ControlCode_as_wire :: "ControlCode \<Rightarrow> ustr" where
  "ControlCode_as_wire code = (case code of CC_KeyUnknown \<Rightarrow> us ''KEY_ERR'' | CC_Disconnect \<Rightarrow> us ''KEY_DEL'')"

text \<open>The envelope of a kind around what is written in it.\<close>

definition ack_render :: "RootKind \<Rightarrow> XmlNode list \<Rightarrow> XmlDocument" where
  "ack_render kind children = \<lparr> xd_root = ack_root_element kind,
     xd_namespace = us ''http://www.szamlazz.hu/'' @ ack_root_element kind, xd_children = children \<rparr>"

definition el_control :: "ControlCode option \<Rightarrow> XmlNode list" where
  "el_control control = el_text_opt ''hibakod'' (map_option ControlCode_as_wire control)"

definition ControlCode_to_xml :: "ControlCode \<Rightarrow> RootKind \<Rightarrow> XmlDocument" where
  "ControlCode_to_xml code kind = ack_render kind (el_text ''hibakod'' (ControlCode_as_wire code))"

record InvoiceAck =
  ia_id :: "int option"
  ia_registration_number :: "ustr option"
  ia_control :: "ControlCode option"

definition InvoiceAck_accept :: "int \<Rightarrow> InvoiceAck" where
  "InvoiceAck_accept k = \<lparr> ia_id = Some k, ia_registration_number = None, ia_control = None \<rparr>"

definition with_registration_number :: "InvoiceAck \<Rightarrow> ustr \<Rightarrow> InvoiceAck" where
  "with_registration_number ack num = ack\<lparr> ia_registration_number := Some num \<rparr>"

definition InvoiceAck_key_unknown :: InvoiceAck where
  "InvoiceAck_key_unknown = \<lparr> ia_id = None, ia_registration_number = None, ia_control = Some CC_KeyUnknown \<rparr>"

definition InvoiceAck_disconnect :: InvoiceAck where
  "InvoiceAck_disconnect = \<lparr> ia_id = None, ia_registration_number = None, ia_control = Some CC_Disconnect \<rparr>"

definition for_document :: "InvoiceAck \<Rightarrow> int \<Rightarrow> InvoiceAck" where
  "for_document ack k = (if ia_control ack \<noteq> None then ack\<lparr> ia_id := None, ia_registration_number := None \<rparr> else ack\<lparr> ia_id := Some k \<rparr>)"

datatype AckError = AE_InvalidXmlCharacter nat

definition validate_xml_10 :: "ustr \<Rightarrow> (unit, AckError) result" where
  "validate_xml_10 v = (case List.find (\<lambda>c. \<not> is_xml_character c) v of
     Some c \<Rightarrow> Err (AE_InvalidXmlCharacter c) | None \<Rightarrow> Ok ())"

text \<open>\<open>i64::to_string\<close>.\<close>

definition int_text :: "int \<Rightarrow> ustr" where
  "int_text k = (if k < 0 then 45 # decimal_digits (nat (- k)) else decimal_digits (nat k))"

definition InvoiceAck_to_xml :: "InvoiceAck \<Rightarrow> InvoiceDirection \<Rightarrow> (XmlDocument, AckError) result" where
  "InvoiceAck_to_xml ack direction =
    try_then (case ia_registration_number ack of Some num \<Rightarrow> validate_xml_10 num | None \<Rightarrow> Ok ()) (\<lambda>_.
    Ok (ack_render (RootKind_from direction)
      ((if ia_id ack \<noteq> None \<or> ia_registration_number ack \<noteq> None
        then el_node ''alap'' (el_text_opt ''id'' (map_option int_text (ia_id ack)) @ el_text_opt ''iktatoszam'' (ia_registration_number ack))
        else []) @ el_control (ia_control ack))))"

record Ack =
  ack_control :: "ControlCode option"

definition Ack_accept :: Ack where
  "Ack_accept = \<lparr> ack_control = None \<rparr>"

definition Ack_key_unknown :: Ack where
  "Ack_key_unknown = \<lparr> ack_control = Some CC_KeyUnknown \<rparr>"

definition Ack_disconnect :: Ack where
  "Ack_disconnect = \<lparr> ack_control = Some CC_Disconnect \<rparr>"

definition Ack_to_xml :: "Ack \<Rightarrow> RootKind \<Rightarrow> XmlDocument" where
  "Ack_to_xml ack kind = ack_render kind (el_control (ack_control ack))"

definition keys_match :: "ustr \<Rightarrow> ustr \<Rightarrow> bool" where
  "keys_match presented expected \<longleftrightarrow> as_bytes presented = as_bytes expected"

section \<open>Handlers\<close>

record ('s, 'e) Handler =
  h_outgoing_invoice :: "PushedInvoice \<Rightarrow> 's \<Rightarrow> (InvoiceAck, 'e) result \<times> 's"
  h_incoming_invoice :: "PushedInvoice \<Rightarrow> 's \<Rightarrow> (InvoiceAck, 'e) result \<times> 's"
  h_bank_transaction :: "BankTransaction \<Rightarrow> 's \<Rightarrow> (Ack, 'e) result \<times> 's"
  h_receipts :: "ReceiptBatch \<Rightarrow> 's \<Rightarrow> (Ack, 'e) result \<times> 's"

datatype 'e FanoutFailure = NoHandlers | HandlerFailure ustr 'e

text \<open>The handlers one after the other, each on the document; the acks and the failures, in order.\<close>

fun dispatch :: "(ustr \<times> ('d \<Rightarrow> 's \<Rightarrow> ('a, 'e) result \<times> 's)) list \<Rightarrow> 'd \<Rightarrow> 's \<Rightarrow> ('a list \<times> 'e FanoutFailure list) \<times> 's" where
  "dispatch [] d s = (([], []), s)"
| "dispatch ((name, handler) # handlers) d s = (let
     (r, s) = handler d s;
     ((acks, failures), s) = dispatch handlers d s in
     (case r of Inr ack \<Rightarrow> ((ack # acks, failures), s) | Inl e \<Rightarrow> ((acks, HandlerFailure name e # failures), s)))"

definition fan_out :: "(ustr \<times> ('d \<Rightarrow> 's \<Rightarrow> ('a, 'e) result \<times> 's)) list \<Rightarrow> ('a list \<Rightarrow> 'a) \<Rightarrow> 'd \<Rightarrow> 's \<Rightarrow>
    ('a, 'e FanoutFailure list) result \<times> 's" where
  "fan_out handlers merge d s =
    (if handlers = [] then (Err [NoHandlers], s)
     else (case dispatch handlers d s of ((acks, failures), s) \<Rightarrow> (if failures = [] then Ok (merge acks) else Err failures, s)))"

definition escalate :: "ControlCode option \<Rightarrow> ControlCode option \<Rightarrow> ControlCode option" where
  "escalate current following =
    (if current = Some CC_Disconnect \<or> following = Some CC_Disconnect then Some CC_Disconnect
     else if current = Some CC_KeyUnknown \<or> following = Some CC_KeyUnknown then Some CC_KeyUnknown
     else None)"

definition merge_invoice_acks :: "int \<Rightarrow> InvoiceAck list \<Rightarrow> InvoiceAck" where
  "merge_invoice_acks document_id acks = (let
     (control, registration) = fold (\<lambda>ack (control, registration).
        (escalate control (ia_control ack), if registration = None then ia_registration_number ack else registration)) acks (None, None) in
     case control of
       Some CC_Disconnect \<Rightarrow> InvoiceAck_disconnect
     | Some CC_KeyUnknown \<Rightarrow> InvoiceAck_key_unknown
     | None \<Rightarrow> (let ack = InvoiceAck_accept document_id in
         case registration of Some num \<Rightarrow> with_registration_number ack num | None \<Rightarrow> ack))"

definition merge_acks :: "Ack list \<Rightarrow> Ack" where
  "merge_acks acks = (case fold (\<lambda>ack current. escalate current (ack_control ack)) acks None of
     Some CC_Disconnect \<Rightarrow> Ack_disconnect
   | Some CC_KeyUnknown \<Rightarrow> Ack_key_unknown
   | None \<Rightarrow> Ack_accept)"

definition Fanout :: "(ustr \<times> ('s, 'e) Handler) list \<Rightarrow> ('s, 'e FanoutFailure list) Handler" where
  "Fanout handlers = \<lparr>
     h_outgoing_invoice = \<lambda>invoice. fan_out (map (apsnd h_outgoing_invoice) handlers) (merge_invoice_acks (pii_id (pin_info invoice))) invoice,
     h_incoming_invoice = \<lambda>invoice. fan_out (map (apsnd h_incoming_invoice) handlers) (merge_invoice_acks (pii_id (pin_info invoice))) invoice,
     h_bank_transaction = fan_out (map (apsnd h_bank_transaction) handlers) merge_acks,
     h_receipts = fan_out (map (apsnd h_receipts) handlers) merge_acks \<rparr>"

section \<open>From a request to its answer\<close>

text \<open>The key header (when present and text) and the body, or the status of its rejection.\<close>

record PushRequest =
  rq_key :: "ustr option"
  rq_body :: "(byte list, nat) result"

datatype PushResponse = PR_Status nat ustr | PR_Rejected nat | PR_Xml XmlDocument

definition response_status :: "PushResponse \<Rightarrow> nat" where
  "response_status r = (case r of PR_Status code _ \<Rightarrow> code | PR_Rejected code \<Rightarrow> code | PR_Xml _ \<Rightarrow> 200)"

definition handler_error :: PushResponse where
  "handler_error = PR_Status 500 (us ''handler error'')"

definition resolver_unavailable :: PushResponse where
  "resolver_unavailable = PR_Status 503 (us ''key resolver unavailable'')"

definition invoice_xml_response :: "InvoiceAck \<Rightarrow> InvoiceDirection \<Rightarrow> PushResponse" where
  "invoice_xml_response ack direction = (case InvoiceAck_to_xml ack direction of Inr body \<Rightarrow> PR_Xml body | Inl _ \<Rightarrow> handler_error)"

definition handle_document :: "('s, 'e) Handler \<Rightarrow> Document \<Rightarrow> 's \<Rightarrow> PushResponse \<times> 's" where
  "handle_document handler document s = (case document of
     Doc_OutgoingInvoice invoice \<Rightarrow> (case h_outgoing_invoice handler invoice s of
         (Inr ack, s) \<Rightarrow> (invoice_xml_response (for_document ack (pii_id (pin_info invoice))) Dir_Outgoing, s)
       | (Inl _, s) \<Rightarrow> (handler_error, s))
   | Doc_IncomingInvoice invoice \<Rightarrow> (case h_incoming_invoice handler invoice s of
         (Inr ack, s) \<Rightarrow> (invoice_xml_response (for_document ack (pii_id (pin_info invoice))) Dir_Incoming, s)
       | (Inl _, s) \<Rightarrow> (handler_error, s))
   | Doc_BankTransaction transaction \<Rightarrow> (case h_bank_transaction handler transaction s of
         (Inr ack, s) \<Rightarrow> (PR_Xml (Ack_to_xml ack RK_BankTransaction), s)
       | (Inl _, s) \<Rightarrow> (handler_error, s))
   | Doc_Receipts batch \<Rightarrow> (case h_receipts handler batch s of
         (Inr ack, s) \<Rightarrow> (PR_Xml (Ack_to_xml ack RK_Receipts), s)
       | (Inl _, s) \<Rightarrow> (handler_error, s)))"

type_synonym ('s, 'e, 'x) KeyResolver = "ustr \<Rightarrow> 's \<Rightarrow> (('s, 'e) Handler option, 'x) result \<times> 's"

definition receive :: "('r, 'n) XmlLib \<Rightarrow> (PushParseError \<Rightarrow> ustr) \<Rightarrow> ('s, 'e, 'x) KeyResolver \<Rightarrow> PushRequest \<Rightarrow> 's \<Rightarrow> PushResponse \<times> 's" where
  "receive lib display resolve request s = (case rq_key request of
     None \<Rightarrow> (PR_Status 401 (us ''missing X-Szamlazzhu-Key header''), s)
   | Some presented_key \<Rightarrow> (case rq_body request of
       Inl rejection \<Rightarrow> (PR_Rejected rejection, s)
     | Inr body \<Rightarrow> (case identify lib body of
         Inl error \<Rightarrow> (PR_Status 400 (display error), s)
       | Inr kind \<Rightarrow> (case resolve presented_key s of
           (Inl _, s) \<Rightarrow> (resolver_unavailable, s)
         | (Inr None, s) \<Rightarrow> (PR_Xml (ControlCode_to_xml CC_KeyUnknown kind), s)
         | (Inr (Some handler), s) \<Rightarrow> (case parse_identified lib body kind of
             Inl error \<Rightarrow> (PR_Status 400 (display error), s)
           | Inr document \<Rightarrow> handle_document handler document s)))))"

definition FixedKey :: "ustr \<Rightarrow> ('s, 'e) Handler \<Rightarrow> ('s, 'e, unit) KeyResolver" where
  "FixedKey key handler presented_key s = (Ok (if keys_match presented_key key then Some handler else None), s)"

section \<open>Fan-out\<close>

text \<open>The state after handlers have run one after the other, whatever each answered.\<close>

definition run_all :: "(ustr \<times> ('d \<Rightarrow> 's \<Rightarrow> ('a, 'e) result \<times> 's)) list \<Rightarrow> 'd \<Rightarrow> 's \<Rightarrow> 's" where
  "run_all handlers d s = fold (\<lambda>(name, handler) s. snd (handler d s)) handlers s"

text \<open>The answers, each from the state its predecessors left.\<close>

fun answers :: "(ustr \<times> ('d \<Rightarrow> 's \<Rightarrow> ('a, 'e) result \<times> 's)) list \<Rightarrow> 'd \<Rightarrow> 's \<Rightarrow> (ustr \<times> ('a, 'e) result) list" where
  "answers [] d s = []"
| "answers ((name, handler) # handlers) d s = (name, fst (handler d s)) # answers handlers d (snd (handler d s))"

lemma dispatch_answers:
  "dispatch handlers d s =
    (([ack. (name, Inr ack) \<leftarrow> answers handlers d s], [HandlerFailure name e. (name, Inl e) \<leftarrow> answers handlers d s]), run_all handlers d s)"
  by (induction handlers d s rule: dispatch.induct) (auto simp: Let_def run_all_def split: prod.splits sum.splits)

text \<open>The order of control codes: none, unknown key, disconnect.\<close>

definition strength :: "ControlCode option \<Rightarrow> nat" where
  "strength c = (case c of None \<Rightarrow> 0 | Some CC_KeyUnknown \<Rightarrow> 1 | Some CC_Disconnect \<Rightarrow> 2)"

lemma strength_escalate: "strength (escalate a b) = max (strength a) (strength b)"
  by (auto simp: strength_def escalate_def split: option.splits ControlCode.splits)

lemma strength_inj: "strength a = strength b \<longleftrightarrow> a = b"
  by (auto simp: strength_def split: option.splits ControlCode.splits)

lemma fold_escalate: "strength (fold (\<lambda>ack current. escalate current (f ack)) acks c) = fold max (map (strength \<circ> f) acks) (strength c)"
  by (induction acks arbitrary: c) (simp_all add: strength_escalate max.commute)

lemma merge_acks_control: "strength (ack_control (merge_acks acks)) = fold max (map (strength \<circ> ack_control) acks) 0"
proof -
  have "ack_control (merge_acks acks) = fold (\<lambda>ack current. escalate current (ack_control ack)) acks None"
    by (auto simp: merge_acks_def Ack_disconnect_def Ack_key_unknown_def Ack_accept_def split: option.split ControlCode.split)
  then show ?thesis using fold_escalate [of ack_control acks None] by (simp add: strength_def)
qed

text \<open>The registration number of the first ack that has one.\<close>

definition first_registration :: "InvoiceAck list \<Rightarrow> ustr option" where
  "first_registration acks = Option.bind (List.find (\<lambda>ack. ia_registration_number ack \<noteq> None) acks) ia_registration_number"

lemma merge_fold:
  "fold (\<lambda>ack (control, registration).
      (escalate control (ia_control ack), if registration = None then ia_registration_number ack else registration)) acks (c, r) =
    (fold (\<lambda>ack current. escalate current (ia_control ack)) acks c, if r = None then first_registration acks else r)"
  by (induction acks arbitrary: c r) (auto simp: first_registration_def)

lemma merge_invoice_acks_exact:
  "strength (ia_control (merge_invoice_acks k acks)) = fold max (map (strength \<circ> ia_control) acks) 0 \<and>
   (if ia_control (merge_invoice_acks k acks) = None
    then ia_id (merge_invoice_acks k acks) = Some k \<and> ia_registration_number (merge_invoice_acks k acks) = first_registration acks
    else ia_id (merge_invoice_acks k acks) = None \<and> ia_registration_number (merge_invoice_acks k acks) = None)"
proof -
  let ?c = "fold (\<lambda>ack current. escalate current (ia_control ack)) acks None"
  have "strength ?c = fold max (map (strength \<circ> ia_control) acks) 0"
    using fold_escalate [of ia_control acks None] by (simp add: strength_def)
  moreover have "ia_control (merge_invoice_acks k acks) = ?c"
    by (auto simp: merge_invoice_acks_def merge_fold Let_def InvoiceAck_disconnect_def InvoiceAck_key_unknown_def
        InvoiceAck_accept_def with_registration_number_def split: option.split ControlCode.split)
  moreover have "merge_invoice_acks k acks = (case ?c of Some CC_Disconnect \<Rightarrow> InvoiceAck_disconnect
      | Some CC_KeyUnknown \<Rightarrow> InvoiceAck_key_unknown
      | None \<Rightarrow> \<lparr> ia_id = Some k, ia_registration_number = first_registration acks, ia_control = None \<rparr>)"
    by (auto simp: merge_invoice_acks_def merge_fold Let_def InvoiceAck_accept_def with_registration_number_def
        split: option.split ControlCode.split)
  ultimately show ?thesis
    by (auto simp: InvoiceAck_disconnect_def InvoiceAck_key_unknown_def split: option.splits ControlCode.splits)
qed

lemma no_failure: "[HandlerFailure name e. (name, Inl e) \<leftarrow> xs] = [] \<Longrightarrow> map snd xs = map Inr [ack. (name, Inr ack) \<leftarrow> xs]"
  by (induction xs) (auto split: sum.splits prod.splits)

text \<open>What a fan-out of a document to a list of handlers must come to: every handler has run once, in order, each from the state its
  predecessors left, whatever they answered; success, with an ack \<open>P\<close> allows of theirs, only if there are handlers and
  all of them succeeded; otherwise exactly the failures there were, by name and in order.\<close>

definition fanned :: "(ustr \<times> ('d \<Rightarrow> 's \<Rightarrow> ('a, 'e) result \<times> 's)) list \<Rightarrow> ('a list \<Rightarrow> 'a \<Rightarrow> bool) \<Rightarrow> 'd \<Rightarrow> 's \<Rightarrow>
    ('a, 'e FanoutFailure list) result \<times> 's \<Rightarrow> bool" where
  "fanned handlers P d s out \<longleftrightarrow> snd out = run_all handlers d s \<and> (case fst out of
     Inr ack \<Rightarrow> handlers \<noteq> [] \<and> (\<exists>acks. map snd (answers handlers d s) = map Inr acks \<and> P acks ack)
   | Inl failures \<Rightarrow> failures \<noteq> [] \<and> (if handlers = [] then failures = [NoHandlers]
       else failures = [HandlerFailure name e. (name, Inl e) \<leftarrow> answers handlers d s]))"

text \<open>The one ack for the acks of all: the strongest control code; and of an invoice without one the document's id, with the
  first registration number any of them gave, and with one neither.\<close>

definition one_ack :: "Ack list \<Rightarrow> Ack \<Rightarrow> bool" where
  "one_ack acks ack \<longleftrightarrow> strength (ack_control ack) = fold max (map (strength \<circ> ack_control) acks) 0"

definition one_invoice_ack :: "int \<Rightarrow> InvoiceAck list \<Rightarrow> InvoiceAck \<Rightarrow> bool" where
  "one_invoice_ack k acks ack \<longleftrightarrow> strength (ia_control ack) = fold max (map (strength \<circ> ia_control) acks) 0 \<and>
     (if ia_control ack = None then ia_id ack = Some k \<and> ia_registration_number ack = first_registration acks
      else ia_id ack = None \<and> ia_registration_number ack = None)"

lemma fan_out_fanned:
  assumes "\<And>acks. P acks (merge acks)"
  shows "fanned handlers P d s (fan_out handlers merge d s)"
proof -
  let ?as = "answers handlers d s"
  show ?thesis
  proof (cases "handlers = [] \<or> [HandlerFailure name e. (name, Inl e) \<leftarrow> ?as] \<noteq> []")
    case True
    then show ?thesis by (auto simp: fanned_def fan_out_def dispatch_answers run_all_def)
  next
    case False
    define acks where "acks = [ack. (name, Inr ack) \<leftarrow> ?as]"
    have f: "fan_out handlers merge d s = (Inr (merge acks), run_all handlers d s)"
      using False unfolding acks_def by (simp add: fan_out_def dispatch_answers)
    have m: "map snd ?as = map Inr acks" using no_failure [of ?as] False unfolding acks_def by blast
    have "handlers \<noteq> []" using False by blast
    then show ?thesis unfolding fanned_def f fst_conv snd_conv sum.case using m assms by blast
  qed
qed

text \<open>(C39) A fan-out answers for all its handlers, for every kind of document: an outgoing or an incoming invoice, a bank
  transaction or a batch of receipts goes to that very handler of each, all of them run once and in order, and it
  succeeds only if there are handlers and every one of them succeeded; a failure of any is a failure of the whole, with each named.  Its
  ack carries the strongest control code of theirs; for an invoice without one it echoes the document's id with the first
  registration number any of them gave, and with one it carries neither.\<close>

theorem fanout_answers_for_all:
  "fanned (map (apsnd h_outgoing_invoice) handlers) (one_invoice_ack (pii_id (pin_info outgoing))) outgoing s
     (h_outgoing_invoice (Fanout handlers) outgoing s) \<and>
   fanned (map (apsnd h_incoming_invoice) handlers) (one_invoice_ack (pii_id (pin_info incoming))) incoming s
     (h_incoming_invoice (Fanout handlers) incoming s) \<and>
   fanned (map (apsnd h_bank_transaction) handlers) one_ack transaction s (h_bank_transaction (Fanout handlers) transaction s) \<and>
   fanned (map (apsnd h_receipts) handlers) one_ack batch s (h_receipts (Fanout handlers) batch s)"
proof -
  have "one_invoice_ack k acks (merge_invoice_acks k acks)" "one_ack acks' (merge_acks acks')" for k acks acks'
    using merge_invoice_acks_exact [of k acks] merge_acks_control [of acks'] by (simp_all add: one_invoice_ack_def one_ack_def)
  then show ?thesis by (simp add: Fanout_def fan_out_fanned)
qed

section \<open>Answers\<close>

text \<open>An answer that acknowledges the document: a handler's own acceptance of it, bound to it.\<close>

definition acknowledged :: "('s, 'e) Handler \<Rightarrow> Document \<Rightarrow> 's \<Rightarrow> XmlDocument \<Rightarrow> 's \<Rightarrow> bool" where
  "acknowledged handler document s body s' = (case document of
     Doc_OutgoingInvoice invoice \<Rightarrow> (\<exists>ack. h_outgoing_invoice handler invoice s = (Inr ack, s') \<and>
       InvoiceAck_to_xml (for_document ack (pii_id (pin_info invoice))) Dir_Outgoing = Inr body)
   | Doc_IncomingInvoice invoice \<Rightarrow> (\<exists>ack. h_incoming_invoice handler invoice s = (Inr ack, s') \<and>
       InvoiceAck_to_xml (for_document ack (pii_id (pin_info invoice))) Dir_Incoming = Inr body)
   | Doc_BankTransaction transaction \<Rightarrow> (\<exists>ack. h_bank_transaction handler transaction s = (Inr ack, s') \<and>
       body = Ack_to_xml ack RK_BankTransaction)
   | Doc_Receipts batch \<Rightarrow> (\<exists>ack. h_receipts handler batch s = (Inr ack, s') \<and> body = Ack_to_xml ack RK_Receipts))"

lemma handle_document_200:
  assumes "handle_document handler document s = (response, s')" "response_status response = 200"
  shows "\<exists>body. response = PR_Xml body \<and> acknowledged handler document s body s'"
  using assms
  by (auto simp: handle_document_def acknowledged_def invoice_xml_response_def handler_error_def response_status_def
      split: Document.splits sum.splits prod.splits)

text \<open>(C34) A final answer is definite.  szamlazz.hu ends the delivery on a status of 200, and only then: the receiver
  answers it only for a push with a key and a body whose root is known, and then either with the
  unknown-key code, when the resolver completed and found no connection, or with the acceptance of that
  connection's handler for the document this body parses to.  Whatever is uncertain (a missing header, a failed
  lookup, a body that does not parse, a failing handler) is another status, which is retried.\<close>

theorem final_answers_are_definite:
  assumes "receive lib display resolve request s = (response, s')" "response_status response = 200"
    and "\<forall>code. rq_body request \<noteq> Inl code \<or> code \<noteq> 200"
  shows "\<exists>key body kind s1. rq_key request = Some key \<and> rq_body request = Inr body \<and> identify lib body = Inr kind \<and>
    ((resolve key s = (Inr None, s') \<and> response = PR_Xml (ControlCode_to_xml CC_KeyUnknown kind)) \<or>
     (\<exists>handler document ack. resolve key s = (Inr (Some handler), s1) \<and> Document_parse lib body = Inr document \<and>
       response = PR_Xml ack \<and> acknowledged handler document s1 ack s'))"
proof -
  obtain key where key: "rq_key request = Some key" using assms by (auto simp: receive_def response_status_def split: option.splits)
  obtain body where body: "rq_body request = Inr body"
    using assms key by (cases "rq_body request") (auto simp: receive_def response_status_def)
  obtain kind where kind: "identify lib body = Inr kind"
    using assms key body by (cases "identify lib body") (auto simp: receive_def response_status_def)
  obtain r s1 where r: "resolve key s = (r, s1)" by fastforce
  show ?thesis
  proof (cases r)
    case (Inl x)
    then show ?thesis using assms key body kind r by (auto simp: receive_def resolver_unavailable_def response_status_def)
  next
    case (Inr found)
    show ?thesis
    proof (cases found)
      case None
      then show ?thesis using assms key body kind r Inr by (auto simp: receive_def)
    next
      case (Some handler)
      obtain document where d: "parse_identified lib body kind = Inr document"
        using assms key body kind r Inr Some
        by (cases "parse_identified lib body kind") (auto simp: receive_def response_status_def)
      then have "handle_document handler document s1 = (response, s')"
        using assms key body kind r Inr Some by (simp add: receive_def)
      from handle_document_200 [OF this assms(2)] show ?thesis
        using key body kind r Inr Some d by (auto simp: Document_parse_def)
    qed
  qed
qed

definition ex_handler :: "(BankTransaction list, unit) Handler" where
  "ex_handler = \<lparr> h_outgoing_invoice = \<lambda>invoice s. (Ok (InvoiceAck_accept 0), s), h_incoming_invoice = \<lambda>_ s. (Err (), s),
     h_bank_transaction = \<lambda>t s. (Ok Ack_accept, t # s), h_receipts = \<lambda>_ s. (Err (), s) \<rparr>"

theorem final_answers_are_definite_witness:
  "\<exists>ack. fst (receive ex_xml_lib (\<lambda>_. []) (FixedKey (us ''k'') ex_handler)
      \<lparr> rq_key = Some (us ''k''), rq_body = Ok (as_bytes (us ''<b/>'')) \<rparr> []) = PR_Xml ack \<and>
    acknowledged ex_handler (Doc_BankTransaction ex_transaction) [] ack [ex_transaction]"
proof -
  let ?rq = "\<lparr> rq_key = Some (us ''k''), rq_body = Ok (as_bytes (us ''<b/>'')) \<rparr>"
  obtain kind where parse: "identify ex_xml_lib (as_bytes (us ''<b/>'')) = Inr kind"
      "parse_identified ex_xml_lib (as_bytes (us ''<b/>'')) kind = Inr (Doc_BankTransaction ex_transaction)"
    using ex_parses by (auto simp: Document_parse_def try_then_Inr_iff)
  have answer: "receive ex_xml_lib (\<lambda>_. []) (FixedKey (us ''k'') ex_handler) ?rq [] =
      (PR_Xml (Ack_to_xml Ack_accept RK_BankTransaction), [ex_transaction])"
    using parse by (simp add: receive_def FixedKey_def keys_match_def handle_document_def ex_handler_def del: us_Cons)
  have no_reject: "\<forall>code. rq_body ?rq \<noteq> Inl code \<or> code \<noteq> 200" by simp
  have "response_status (PR_Xml (Ack_to_xml Ack_accept RK_BankTransaction)) = 200" by (simp add: response_status_def)
  from final_answers_are_definite [OF answer this no_reject] show ?thesis
    using answer ex_parses by (auto simp: FixedKey_def keys_match_def simp del: us_Cons)
qed

text \<open>With one fixed key, a push under any other key reaches no handler.\<close>

lemma fixed_key_guards:
  assumes "\<not> (\<exists>key. rq_key request = Some key \<and> keys_match key configured)"
  shows "receive lib display (FixedKey configured handler) request s = receive lib display (FixedKey configured handler') request s"
    and "snd (receive lib display (FixedKey configured handler) request s) = s"
  using assms by (auto simp: receive_def FixedKey_def split: option.split sum.split)

end
