(* ===== verification/Push_Archive.thy ===== *)
theory Push_Archive
  imports Push_Protocol
begin

text \<open>
  The archiving handler (\<open>szamlazz-adatkapcsolat\<close>, \<open>archive.rs\<close>): the paths of its objects, the
  versions it keeps, and the handler itself.

  The storage operator (\<open>opendal\<close>) is the parameter \<open>Operator\<close>, over an arbitrary state; JSON texts and
  the clock's stamps are parameters too.  The loop that looks for a version not yet taken has no bound
  in the source and is a partial function; on a store that behaves as documented it is proved to end.
\<close>

section \<open>Configuration\<close>

definition directory :: "RootKind \<Rightarrow> ustr" where
  "directory kind = (case kind of
     RK_OutgoingInvoice \<Rightarrow> us ''outgoing-invoices''
   | RK_IncomingInvoice \<Rightarrow> us ''incoming-invoices''
   | RK_BankTransaction \<Rightarrow> us ''bank-transactions''
   | RK_Receipts \<Rightarrow> us ''receipts'')"

datatype ArchiveLayout = AL_Monthly | AL_Flat

datatype Redelivery = RD_Overwrite | RD_Timestamped | RD_Both

datatype StorageError = SE_AlreadyExists | SE_ConditionNotMatch | SE_OtherError ustr

datatype ArchiveError = ArE_Storage StorageError | ArE_Serialize ustr

text \<open>The operator: an unconditional write, one that must create its object, and the clock: the stamp
  and the nanoseconds of the next reading.\<close>

record 's Operator =
  op_write :: "ustr \<Rightarrow> byte list \<Rightarrow> 's \<Rightarrow> (unit, StorageError) result \<times> 's"
  op_write_new :: "ustr \<Rightarrow> byte list \<Rightarrow> 's \<Rightarrow> (unit, StorageError) result \<times> 's"
  op_clock :: "64 word \<Rightarrow> ustr \<times> ustr"

record Archiver =
  ar_layout :: ArchiveLayout
  ar_redelivery :: Redelivery
  ar_save_xml :: bool
  ar_save_pdf :: bool
  ar_save_data :: bool

definition Archiver_new :: Archiver where
  "Archiver_new = \<lparr> ar_layout = AL_Monthly, ar_redelivery = RD_Overwrite, ar_save_xml = True, ar_save_pdf = True, ar_save_data = True \<rparr>"

section \<open>Paths\<close>

text \<open>\<open>{:0w}\<close> of an integer: zeros after the sign, up to the width.\<close>

definition padded :: "nat \<Rightarrow> int \<Rightarrow> ustr" where
  "padded w k = (let ds = decimal_digits (nat \<bar>k\<bar>) in
     if k < 0 then 45 # replicate (w - 1 - length ds) 48 @ ds else replicate (w - length ds) 48 @ ds)"

definition archive_path :: "Archiver \<Rightarrow> RootKind \<Rightarrow> ustr \<Rightarrow> Date option \<Rightarrow> ustr" where
  "archive_path a kind name date = directory kind @ us ''/'' @
     (if ar_layout a = AL_Monthly
      then (case date of
          Some (year, month, _) \<Rightarrow> padded 4 year @ us ''/'' @ padded 2 (int month) @ us ''/''
        | None \<Rightarrow> us ''undated/'')
      else []) @ name"

definition object_path :: "ustr \<Rightarrow> ustr \<Rightarrow> ustr" where
  "object_path base extension = base @ us ''.'' @ extension"

text \<open>\<open>{:016x}\<close> of a \<open>u64\<close>.\<close>

definition hex_char :: "nat \<Rightarrow> nat" where
  "hex_char d = (if d < 10 then 48 + d else 87 + d)"

fun hex_fixed :: "nat \<Rightarrow> nat \<Rightarrow> ustr" where
  "hex_fixed 0 n = []"
| "hex_fixed (Suc k) n = hex_fixed k (n div 16) @ [hex_char (n mod 16)]"

text \<open>The version of a reading: the process-local sequence counts it, wrapping around.\<close>

definition timestamp :: "'s Operator \<Rightarrow> 64 word \<Rightarrow> ustr" where
  "timestamp store sequence = (let (stamp, nanos) = op_clock store sequence in
     stamp @ us ''-'' @ nanos @ us ''-'' @ hex_fixed 16 (unat sequence))"

section \<open>Writing\<close>

text \<open>The state of a handler: the store and the sequence.\<close>

partial_function (option) write_version_loop ::
  "'s Operator \<Rightarrow> ustr \<Rightarrow> ustr \<Rightarrow> byte list \<Rightarrow> 's \<Rightarrow> 64 word \<Rightarrow> ((unit, StorageError) result \<times> 's \<times> 64 word) option" where
  "write_version_loop store base extension bytes s sequence =
    (case op_write_new store (object_path (object_path base (timestamp store sequence)) extension) bytes s of
       (Inr _, s) \<Rightarrow> Some (Ok (), s, sequence + 1)
     | (Inl SE_AlreadyExists, s) \<Rightarrow> write_version_loop store base extension bytes s (sequence + 1)
     | (Inl SE_ConditionNotMatch, s) \<Rightarrow> write_version_loop store base extension bytes s (sequence + 1)
     | (Inl error, s) \<Rightarrow> Some (Err error, s, sequence + 1))"

definition archive_write :: "'s Operator \<Rightarrow> Archiver \<Rightarrow> RootKind \<Rightarrow> ustr \<Rightarrow> Date option \<Rightarrow> ustr \<Rightarrow> byte list \<Rightarrow> 's \<times> 64 word \<Rightarrow>
    ((unit, ArchiveError) result \<times> 's \<times> 64 word) option" where
  "archive_write store a kind name date extension bytes = (\<lambda>(s, sequence).
     let base = archive_path a kind name date;
       current = (\<lambda>(s, sequence). let (r, s) = op_write store (object_path base extension) bytes s in
         Some (map_err ArE_Storage r, s, sequence));
       version = (\<lambda>(s, sequence). map_option (\<lambda>(r, st). (map_err ArE_Storage r, st)) (write_version_loop store base extension bytes s sequence)) in
     case ar_redelivery a of
       RD_Overwrite \<Rightarrow> current (s, sequence)
     | RD_Timestamped \<Rightarrow> version (s, sequence)
     | RD_Both \<Rightarrow> (case version (s, sequence) of
         None \<Rightarrow> None
       | Some (Inl e, st) \<Rightarrow> Some (Inl e, st)
       | Some (Inr _, st) \<Rightarrow> current st))"

text \<open>Writes one after the other, the first error ending them.\<close>

fun write_each :: "('st \<Rightarrow> ((unit, ArchiveError) result \<times> 'st) option) list \<Rightarrow> 'st \<Rightarrow> ((unit, ArchiveError) result \<times> 'st) option" where
  "write_each [] st = Some (Ok (), st)"
| "write_each (w # ws) st = (case w st of
     None \<Rightarrow> None
   | Some (Inl e, st) \<Rightarrow> Some (Inl e, st)
   | Some (Inr _, st) \<Rightarrow> write_each ws st)"

text \<open>\<open>serde_json\<close>: values, an object without one of its members, and their texts.\<close>

record 'j Json_Texts =
  js_value :: "PushedInvoice \<Rightarrow> ('j, ustr) result"
  js_remove :: "ustr \<Rightarrow> 'j \<Rightarrow> 'j"
  js_pretty :: "'j \<Rightarrow> (byte list, ustr) result"
  js_transaction :: "BankTransaction \<Rightarrow> (byte list, ustr) result"
  js_receipt :: "ReceiptDocument \<Rightarrow> (byte list, ustr) result"

definition document_json :: "'j Json_Texts \<Rightarrow> PushedInvoice \<Rightarrow> (byte list, ustr) result" where
  "document_json js invoice = try_then (js_value js invoice) (\<lambda>v. js_pretty js (js_remove js (us ''pdf'') v))"

definition serialized :: "(byte list, ustr) result \<Rightarrow> (byte list \<Rightarrow> 'st \<Rightarrow> ((unit, ArchiveError) result \<times> 'st) option) \<Rightarrow> 'st \<Rightarrow>
    ((unit, ArchiveError) result \<times> 'st) option" where
  "serialized json w st = (case json of Inl e \<Rightarrow> Some (Err (ArE_Serialize e), st) | Inr bytes \<Rightarrow> w bytes st)"

definition archive_invoice :: "'s Operator \<Rightarrow> 'j Json_Texts \<Rightarrow> Archiver \<Rightarrow> InvoiceDirection \<Rightarrow> PushedInvoice \<Rightarrow> 's \<times> 64 word \<Rightarrow>
    ((unit, ArchiveError) result \<times> 's \<times> 64 word) option" where
  "archive_invoice store js a direction invoice = (let
     kind = RootKind_from direction; name = int_text (pii_id (pin_info invoice)); date = pii_issue_date (pin_info invoice) in
     write_each
      ((case pin_raw_xml invoice of Some xml \<Rightarrow> if ar_save_xml a then [archive_write store a kind name date (us ''xml'') (as_bytes xml)] else [] | None \<Rightarrow> []) @
       (case pin_pdf invoice of Some pdf \<Rightarrow> if ar_save_pdf a then [archive_write store a kind name date (us ''pdf'') (pdf_bytes pdf)] else [] | None \<Rightarrow> []) @
       (if ar_save_data a then [serialized (document_json js invoice) (archive_write store a kind name date (us ''json''))] else [])))"

definition archive_bank_transaction :: "'s Operator \<Rightarrow> 'j Json_Texts \<Rightarrow> Archiver \<Rightarrow> BankTransaction \<Rightarrow> 's \<times> 64 word \<Rightarrow>
    ((unit, ArchiveError) result \<times> 's \<times> 64 word) option" where
  "archive_bank_transaction store js a t = (let
     name = int_text (bt_id t); date = bt_value_date t in
     write_each
      ((case bt_raw_xml t of Some xml \<Rightarrow> if ar_save_xml a then [archive_write store a RK_BankTransaction name date (us ''xml'') (as_bytes xml)] else [] | None \<Rightarrow> []) @
       (if ar_save_data a then [serialized (js_transaction js t) (archive_write store a RK_BankTransaction name date (us ''json''))] else [])))"

definition archive_receipt :: "'s Operator \<Rightarrow> 'j Json_Texts \<Rightarrow> Archiver \<Rightarrow> ReceiptDocument \<Rightarrow> 's \<times> 64 word \<Rightarrow>
    ((unit, ArchiveError) result \<times> 's \<times> 64 word) option" where
  "archive_receipt store js a receipt =
    (if \<not> ar_save_data a then (\<lambda>st. Some (Ok (), st))
     else serialized (js_receipt js receipt)
       (archive_write store a RK_Receipts (int_text (ri_id (rd_info receipt))) (ri_issue_date (rd_info receipt)) (us ''json'')))"

text \<open>\<open>Iterator::find_map\<close>.\<close>

fun first_some :: "'a option list \<Rightarrow> 'a option" where
  "first_some [] = None"
| "first_some (Some a # xs) = Some a"
| "first_some (None # xs) = first_some xs"

definition batch_name :: "int list \<Rightarrow> ustr" where
  "batch_name ids = us ''batch-'' @ int_text (fold min (tl ids) (hd ids)) @ us ''-'' @ int_text (fold max (tl ids) (hd ids))"

definition archive_receipt_batch :: "'s Operator \<Rightarrow> Archiver \<Rightarrow> ReceiptBatch \<Rightarrow> 's \<times> 64 word \<Rightarrow>
    ((unit, ArchiveError) result \<times> 's \<times> 64 word) option" where
  "archive_receipt_batch store a batch st = (case rb_raw_xml batch of
     Some xml \<Rightarrow>
       if \<not> ar_save_xml a \<or> rb_receipts batch = [] then Some (Ok (), st)
       else archive_write store a RK_Receipts (batch_name (map (\<lambda>receipt. ri_id (rd_info receipt)) (rb_receipts batch)))
         (first_some (map (\<lambda>receipt. ri_issue_date (rd_info receipt)) (rb_receipts batch))) (us ''xml'') (as_bytes xml) st
   | None \<Rightarrow> Some (Ok (), st))"

definition archive_receipts :: "'s Operator \<Rightarrow> 'j Json_Texts \<Rightarrow> Archiver \<Rightarrow> ReceiptBatch \<Rightarrow> 's \<times> 64 word \<Rightarrow>
    ((unit, ArchiveError) result \<times> 's \<times> 64 word) option" where
  "archive_receipts store js a batch =
    write_each (archive_receipt_batch store a batch # map (archive_receipt store js a) (rb_receipts batch))"

text \<open>The handler: the ack of what was archived.\<close>

definition archived :: "'a \<Rightarrow> ((unit, ArchiveError) result \<times> 'st) option \<Rightarrow> (('a, ArchiveError) result \<times> 'st) option" where
  "archived ack r = map_option (\<lambda>(r, st). (try_then r (\<lambda>_. Ok ack), st)) r"

definition Archiver_invoice :: "'s Operator \<Rightarrow> 'j Json_Texts \<Rightarrow> Archiver \<Rightarrow> InvoiceDirection \<Rightarrow> PushedInvoice \<Rightarrow> 's \<times> 64 word \<Rightarrow>
    ((InvoiceAck, ArchiveError) result \<times> 's \<times> 64 word) option" where
  "Archiver_invoice store js a direction invoice st =
    archived (InvoiceAck_accept (pii_id (pin_info invoice))) (archive_invoice store js a direction invoice st)"

definition Archiver_bank_transaction :: "'s Operator \<Rightarrow> 'j Json_Texts \<Rightarrow> Archiver \<Rightarrow> BankTransaction \<Rightarrow> 's \<times> 64 word \<Rightarrow>
    ((Ack, ArchiveError) result \<times> 's \<times> 64 word) option" where
  "Archiver_bank_transaction store js a t st = archived Ack_accept (archive_bank_transaction store js a t st)"

definition Archiver_receipts :: "'s Operator \<Rightarrow> 'j Json_Texts \<Rightarrow> Archiver \<Rightarrow> ReceiptBatch \<Rightarrow> 's \<times> 64 word \<Rightarrow>
    ((Ack, ArchiveError) result \<times> 's \<times> 64 word) option" where
  "Archiver_receipts store js a batch st = archived Ack_accept (archive_receipts store js a batch st)"

section \<open>Every object has its own path\<close>

lemma decimal_digits_inj: "decimal_digits m = decimal_digits n \<Longrightarrow> m = n"
proof -
  have "digits_value (decimal_digits k) = k" for k
    by (induction k rule: decimal_digits.induct) (simp add: decimal_digits.simps digits_value_def)
  then show "decimal_digits m = decimal_digits n \<Longrightarrow> m = n" by metis
qed

lemma int_text_chars: "c \<in> set (int_text k) \<Longrightarrow> c = 45 \<or> (48 \<le> c \<and> c \<le> 57)"
  by (auto simp: int_text_def dest: decimal_digits_range split: if_splits)

lemma int_text_inj: "int_text i = int_text j \<Longrightarrow> i = j"
proof -
  have no_sign: "45 # xs \<noteq> decimal_digits n" for xs n using decimal_digits_range [of 45 n] by auto (metis list.set_intros(1))
  then show "int_text i = int_text j \<Longrightarrow> i = j"
    by (auto simp: int_text_def no_sign no_sign [symmetric] dest!: decimal_digits_inj split: if_splits)
qed

lemma split_on_more: "tl (split_on sep (m @ sep # t)) \<noteq> []"
  by (induction m) (auto split: list.split)

lemma last_split_on: "sep \<notin> set t \<Longrightarrow> last (split_on sep (m @ sep # t)) = t"
proof (induction m)
  case (Cons c m)
  then show ?case using split_on_more [of sep m t] by (auto split: list.split)
qed (simp add: split_on_none)

lemma directory_chars: "47 \<notin> set (directory kind)"
  by (cases kind) (simp_all add: directory_def)

lemma directory_inj: "directory k = directory l \<longleftrightarrow> k = l"
  by (cases k; cases l) (simp_all add: directory_def)

lemma archive_path_parts:
  assumes "47 \<notin> set t"
  shows "hd (split_on 47 (archive_path a kind name date @ t)) = directory kind"
    and "47 \<notin> set name \<Longrightarrow> last (split_on 47 (archive_path a kind name date @ t)) = name @ t"
proof -
  obtain m where m: "archive_path a kind name date = directory kind @ 47 # m @ name" and ends: "m = [] \<or> (\<exists>n. m = n @ [47])"
    by (auto simp: archive_path_def split: option.split)
  have split: "split_on 47 (archive_path a kind name date @ t) = directory kind # split_on 47 (m @ name @ t)"
    using directory_chars by (simp add: m split_on_append)
  then show "hd (split_on 47 (archive_path a kind name date @ t)) = directory kind" by simp
  show "last (split_on 47 (archive_path a kind name date @ t)) = name @ t" if "47 \<notin> set name"
  proof -
    have none: "47 \<notin> set (name @ t)" using that assms by simp
    then have "last (split_on 47 (m @ name @ t)) = name @ t"
      using ends last_split_on [OF none] by (auto simp: split_on_none)
    then show ?thesis using split by simp
  qed
qed

definition EXTENSIONS :: "ustr list" where
  "EXTENSIONS = [us ''xml'', us ''pdf'', us ''json'']"

text \<open>Archived documents do not overwrite one another: the object of a document under one archiver
  determines the kind and the id of the document and which artifact it is, whatever the dates.  Only a
  redelivery of the same document finds its path taken.\<close>

theorem archive_paths_distinct:
  assumes "object_path (archive_path a kind (int_text i) date) extension = object_path (archive_path a kind' (int_text i') date') extension'"
    and "list_all (\<lambda>e. e \<in> set EXTENSIONS) [extension, extension']"
  shows "kind = kind' \<and> i = i' \<and> extension = extension'"
proof -
  have ext: "47 \<notin> set (46 # e) \<and> 46 \<notin> set e" if "e \<in> set EXTENSIONS" for e
    using that by (auto simp: EXTENSIONS_def)
  have chars: "47 \<notin> set (int_text k) \<and> 46 \<notin> set (int_text k)" for k using int_text_chars by fastforce
  have eq: "archive_path a kind (int_text i) date @ 46 # extension = archive_path a kind' (int_text i') date' @ 46 # extension'"
    using assms(1) by (simp add: object_path_def)
  have "directory kind = directory kind'"
    using archive_path_parts(1) [of "46 # extension" a kind "int_text i" date]
      archive_path_parts(1) [of "46 # extension'" a kind' "int_text i'" date'] eq ext assms(2) by simp
  moreover have "int_text i @ 46 # extension = int_text i' @ 46 # extension'"
    using archive_path_parts(2) [of "46 # extension" "int_text i" a kind date]
      archive_path_parts(2) [of "46 # extension'" "int_text i'" a kind' date'] eq ext chars assms(2) by simp
  then have "split_once 46 (int_text i' @ 46 # extension') = Some (int_text i, extension)"
    "split_once 46 (int_text i' @ 46 # extension') = Some (int_text i', extension')"
    using chars by (auto simp: split_once_Some)
  ultimately show ?thesis using int_text_inj [of i i'] by (auto simp: directory_inj)
qed

theorem archive_paths_distinct_witness:
  "object_path (archive_path Archiver_new RK_Receipts (int_text 7) None) (us ''xml'') \<noteq>
   object_path (archive_path Archiver_new RK_Receipts (int_text 8) (Some (2024, 5, 1))) (us ''xml'')"
proof
  assume e: "object_path (archive_path Archiver_new RK_Receipts (int_text 7) None) (us ''xml'') =
   object_path (archive_path Archiver_new RK_Receipts (int_text 8) (Some (2024, 5, 1))) (us ''xml'')"
  have "list_all (\<lambda>e. e \<in> set EXTENSIONS) [us ''xml'', us ''xml'']" by (simp add: EXTENSIONS_def)
  from archive_paths_distinct [OF e this] show False by simp
qed

section \<open>Versions\<close>

lemma hex_char_inj: "a < 16 \<Longrightarrow> b < 16 \<Longrightarrow> hex_char a = hex_char b \<longleftrightarrow> a = b"
  by (auto simp: hex_char_def)

lemma hex_fixed_length [simp]: "length (hex_fixed k n) = k"
  by (induction k arbitrary: n) simp_all

lemma hex_fixed_inj: "m < 16 ^ k \<Longrightarrow> n < 16 ^ k \<Longrightarrow> hex_fixed k m = hex_fixed k n \<Longrightarrow> m = n"
proof (induction k arbitrary: m n)
  case (Suc k)
  then have "m div 16 < 16 ^ k" "n div 16 < 16 ^ k" by (simp_all add: less_mult_imp_div_less mult.commute)
  moreover have "hex_fixed k (m div 16) = hex_fixed k (n div 16)" "m mod 16 = n mod 16"
    using Suc.prems(3) by (simp_all add: hex_char_inj)
  ultimately have "m div 16 = n div 16" using Suc.IH by blast
  then show ?case using \<open>m mod 16 = n mod 16\<close> by (metis div_mult_mod_eq)
qed simp

definition version_path :: "'s Operator \<Rightarrow> ustr \<Rightarrow> ustr \<Rightarrow> 64 word \<Rightarrow> ustr" where
  "version_path store base extension sequence = object_path (object_path base (timestamp store sequence)) extension"

lemma version_path_inj: "version_path store base extension m = version_path store base extension n \<Longrightarrow> m = n"
proof -
  assume "version_path store base extension m = version_path store base extension n"
  then have "timestamp store m = timestamp store n" by (simp add: version_path_def object_path_def)
  moreover have "rev (take 16 (rev (timestamp store k))) = hex_fixed 16 (unat k)" for k
    by (simp add: timestamp_def Let_def split: prod.split del: hex_fixed.simps)
  ultimately have "hex_fixed 16 (unat m) = hex_fixed 16 (unat n)" by metis
  moreover have "unat m < 16 ^ 16" "unat n < 16 ^ 16" using unsigned_less [of m] unsigned_less [of n] by simp_all
  ultimately show "m = n" using hex_fixed_inj word_unat_eq_iff by blast
qed

text \<open>
  What the loop relies on of its store (the documented meaning of \<open>if_not_exists\<close>), with \<open>view\<close> the objects
  in it: a conditional write that succeeds created its object; one that reports the object as existing (or the
  condition as not met) found it and changed nothing; and one that fails in any other way may or may not have taken
  effect, wholly or in part, but never on an object that existed and never elsewhere.
\<close>

definition taken :: "StorageError \<Rightarrow> bool" where
  "taken e \<longleftrightarrow> e \<in> {SE_AlreadyExists, SE_ConditionNotMatch}"

definition conditional_store :: "'s Operator \<Rightarrow> ('s \<Rightarrow> ustr \<Rightarrow> byte list option) \<Rightarrow> bool" where
  "conditional_store store view \<longleftrightarrow> (\<forall>path bytes s r s'. op_write_new store path bytes s = (r, s') \<longrightarrow> (case r of
     Inr _ \<Rightarrow> view s path = None \<and> view s' = (view s)(path \<mapsto> bytes)
   | Inl e \<Rightarrow> if taken e then view s path \<noteq> None \<and> view s' = view s
       else (view s path \<noteq> None \<longrightarrow> view s' path = view s path) \<and> (\<forall>other. other \<noteq> path \<longrightarrow> view s' other = view s other)))"

lemma conditional_write: "conditional_store store view \<Longrightarrow> op_write_new store path bytes s = (r, s') \<Longrightarrow> (case r of
     Inr _ \<Rightarrow> view s path = None \<and> view s' = (view s)(path \<mapsto> bytes)
   | Inl e \<Rightarrow> if taken e then view s path \<noteq> None \<and> view s' = view s
       else (view s path \<noteq> None \<longrightarrow> view s' path = view s path) \<and> (\<forall>other. other \<noteq> path \<longrightarrow> view s' other = view s other))"
  unfolding conditional_store_def by blast

text \<open>The search from \<open>sequence\<close> stopped at its \<open>k\<close>-th version, all before it being taken: it added its object there, or failed
  with another error, whatever it kept before being there still.\<close>

definition kept_version :: "(ustr \<Rightarrow> byte list option) \<Rightarrow> (nat \<Rightarrow> ustr) \<Rightarrow> byte list \<Rightarrow> nat \<Rightarrow> (unit, StorageError) result \<Rightarrow>
    (ustr \<Rightarrow> byte list option) \<Rightarrow> bool" where
  "kept_version old path bytes k r new \<longleftrightarrow> list_all (\<lambda>j. old (path j) \<noteq> None) [0..<k] \<and> (case r of
     Inr _ \<Rightarrow> old (path k) = None \<and> new = old(path k \<mapsto> bytes)
   | Inl e \<Rightarrow> \<not> taken e \<and> (\<forall>other v. old other = Some v \<longrightarrow> new other = Some v) \<and> (\<forall>other. other \<noteq> path k \<longrightarrow> new other = old other))"

lemma kept_at_once:
  assumes "conditional_store store view" "op_write_new store (path 0) bytes s = (r, t)" "\<And>e. r = Inl e \<Longrightarrow> \<not> taken e"
  shows "kept_version (view s) path bytes 0 r (view t)"
proof (cases r)
  case (Inl e)
  note c = conditional_write [OF assms(1,2)] assms(3) [OF Inl]
  have "view t other = Some v" if "view s other = Some v" for other v
    using c that Inl by (cases "other = path 0") auto
  then show ?thesis using c Inl by (simp add: kept_version_def)
qed (use conditional_write [OF assms(1,2)] in \<open>simp add: kept_version_def\<close>)

lemma kept_version_later:
  assumes "kept_version old (\<lambda>j. path (Suc j)) bytes k r new" "old (path 0) \<noteq> None"
  shows "kept_version old path bytes (Suc k) r new"
proof -
  have "[0..<Suc k] = 0 # map Suc [0..<k]" by (simp add: map_Suc_upt upt_conv_Cons del: upt_Suc)
  then show ?thesis using assms by (simp add: kept_version_def list.pred_map comp_def del: upt_Suc)
qed

lemma write_version_step:
  assumes store: "conditional_store store view"
    and fresh: "view s (version_path store base extension (sequence + of_nat n)) = None"
  shows "\<exists>r s' k. k \<le> n \<and> write_version_loop store base extension bytes s sequence = Some (r, s', sequence + of_nat (Suc k)) \<and>
    kept_version (view s) (\<lambda>j. version_path store base extension (sequence + of_nat j)) bytes k r (view s')"
  using fresh
proof (induction n arbitrary: s sequence)
  case (0 s sequence)
  obtain r t where w: "op_write_new store (version_path store base extension sequence) bytes s = (r, t)" by fastforce
  note c = conditional_write [OF store w]
  have n: "\<not> taken e" if "r = Inl e" for e using c that 0 by auto
  then have "write_version_loop store base extension bytes s sequence = Some (r, t, sequence + of_nat (Suc 0))"
    using w by (subst write_version_loop.simps) (auto simp: version_path_def [symmetric] taken_def split: sum.splits StorageError.splits)
  then show ?case using kept_at_once [OF store _ n, of "\<lambda>j. version_path store base extension (sequence + of_nat j)"] w by fastforce
next
  case (Suc n s sequence)
  let ?path = "\<lambda>j. version_path store base extension (sequence + of_nat j)"
  obtain r t where w: "op_write_new store (version_path store base extension sequence) bytes s = (r, t)" by fastforce
  note c = conditional_write [OF store w]
  show ?case
  proof (cases "\<exists>e. r = Inl e \<and> taken e")
    case True
    then have v: "view t = view s" and found: "view s (?path 0) \<noteq> None" using c by auto
    have same: "write_version_loop store base extension bytes s sequence = write_version_loop store base extension bytes t (sequence + 1)"
      using True w by (subst write_version_loop.simps) (auto simp: version_path_def [symmetric] taken_def)
    have "view t (version_path store base extension (sequence + 1 + of_nat n)) = None"
      using Suc.prems v by (simp add: add.assoc)
    from Suc.IH [OF this] obtain r s' k where k: "k \<le> n"
        "write_version_loop store base extension bytes t (sequence + 1) = Some (r, s', sequence + 1 + of_nat (Suc k))"
        "kept_version (view s) (\<lambda>j. version_path store base extension (sequence + 1 + of_nat j)) bytes k r (view s')"
      unfolding v by blast
    have "kept_version (view s) ?path bytes (Suc k) r (view s')"
      using kept_version_later [where path = ?path] found k(3) by (simp add: add.assoc)
    then show ?thesis using k(1,2) same by (intro exI [of _ r] exI [of _ s'] exI [of _ "Suc k"]) (simp add: add.assoc)
  next
    case False
    then have n: "\<And>e. r = Inl e \<Longrightarrow> \<not> taken e" by blast
    then have "write_version_loop store base extension bytes s sequence = Some (r, t, sequence + of_nat (Suc 0))"
      using w by (subst write_version_loop.simps) (auto simp: version_path_def [symmetric] taken_def split: sum.splits StorageError.splits)
    then show ?thesis using kept_at_once [OF store _ n, of ?path] w by fastforce
  qed
qed

text \<open>Among as many versions as a \<open>u64\<close> counts, one is free.\<close>

lemma fresh_version:
  assumes "finite (dom m)" "card (dom m) < 2 ^ 64"
  shows "\<exists>k. m (version_path store base extension (sequence + of_nat k)) = None"
proof (rule ccontr)
  assume "\<not> ?thesis"
  then have "m (version_path store base extension (sequence + of_nat k)) \<noteq> None" for k by simp
  from this [of "unat w" for w :: "64 word"] have "m (version_path store base extension (sequence + w)) \<noteq> None" for w by simp
  then have sub: "range (\<lambda>w. version_path store base extension (sequence + w)) \<subseteq> dom m" by auto
  have "inj (\<lambda>w :: 64 word. version_path store base extension (sequence + w))"
    by (rule injI) (auto dest: version_path_inj)
  then have "card (range (\<lambda>w. version_path store base extension (sequence + w))) = CARD(64 word)" by (rule card_image)
  moreover have "CARD(64 word) = 2 ^ 64" by (simp add: card_word)
  ultimately show False using card_mono [OF assms(1) sub] assms(2) by simp
qed

text \<open>(C40) Keeping a version ends and loses nothing.  The source tries one version after the other without a
  bound; on a store of fewer than \<open>2 ^ 64\<close> objects whose conditional writes never touch an existing object, the search
  ends (its sequence number just after the last version it tried), and every version it passed over was taken.  Then either
  exactly one object was added, the document under the first free version; or an error other than "taken" is returned, and
  then at most that one version may hold something new (the write may have landed): every delivery kept before is still
  there, unchanged.\<close>

theorem write_version_keeps_all:
  assumes "conditional_store store view" "finite (dom (view s))" "card (dom (view s)) < 2 ^ 64"
  shows "\<exists>r s' k. write_version_loop store base extension bytes s sequence = Some (r, s', sequence + of_nat (Suc k)) \<and>
    kept_version (view s) (\<lambda>j. version_path store base extension (sequence + of_nat j)) bytes k r (view s')"
proof -
  obtain n where "view s (version_path store base extension (sequence + of_nat n)) = None"
    using fresh_version [OF assms(2,3)] by blast
  from write_version_step [OF assms(1) this] show ?thesis by blast
qed

text \<open>A store in memory, with a clock that does not move.\<close>

definition memory_store :: "(ustr \<Rightarrow> byte list option) Operator" where
  "memory_store = \<lparr> op_write = \<lambda>path bytes m. (Ok (), m(path \<mapsto> bytes)),
     op_write_new = \<lambda>path bytes m. if m path = None then (Ok (), m(path \<mapsto> bytes)) else (Err SE_AlreadyExists, m),
     op_clock = \<lambda>_. (us ''20240501T000000Z'', us ''0'') \<rparr>"

definition ex_store :: "ustr \<Rightarrow> byte list option" where
  "ex_store = [version_path memory_store (us ''receipts/7'') (us ''xml'') 0 \<mapsto> [2]]"

theorem write_version_keeps_all_witness:
  "\<exists>r s' k. write_version_loop memory_store (us ''receipts/7'') (us ''xml'') [1] ex_store 0 = Some (r, s', of_nat (Suc k)) \<and>
    kept_version ex_store (\<lambda>j. version_path memory_store (us ''receipts/7'') (us ''xml'') (of_nat j)) [1] k r s'"
proof -
  have "conditional_store memory_store (\<lambda>m. m)"
    by (auto simp: conditional_store_def memory_store_def taken_def split: if_splits sum.splits)
  moreover have "finite (dom ex_store)" "card (dom ex_store) < 2 ^ 64" by (simp_all add: ex_store_def)
  ultimately show ?thesis
    using write_version_keeps_all [where view = "\<lambda>m. m" and sequence = 0 and s = ex_store and store = memory_store] by simp
qed

end
