(* ===== verification/Account_Resolution.thy ===== *)
theory Account_Resolution
  imports Durable_Steps
begin

text \<open>
  From a request's scope to its account and credentials (\<open>account/static_resolver.rs\<close>,
  \<open>account.rs\<close> and \<open>service/prologue.rs\<close>): the accounts of a static configuration, the prologue of
  every handler and the fetching of credentials.

  A URL is what the package \<open>url\<close> makes of its text, the parameter \<open>UrlLib\<close>.  A \<open>BTreeMap\<close> is the list of its
  entries in the order it is walked.  An embedder's own resolver and store are functions of a state; a
  call that outlives its deadline answers \<open>None\<close>.
\<close>

section \<open>Endpoints\<close>

record 'u UrlLib =
  ul_parse :: "ustr \<Rightarrow> ('u, ustr) result"
  ul_userinfo_seen :: "ustr \<Rightarrow> bool"
  ul_scheme :: "'u \<Rightarrow> ustr"
  ul_host :: "'u \<Rightarrow> ustr option"
  ul_username :: "'u \<Rightarrow> ustr"
  ul_password :: "'u \<Rightarrow> ustr option"
  ul_path :: "'u \<Rightarrow> ustr"
  ul_set_path :: "ustr \<Rightarrow> 'u \<Rightarrow> 'u"
  ul_no_fragment :: "'u \<Rightarrow> 'u"
  ul_text :: "'u \<Rightarrow> ustr"
  ul_loopback :: "ustr \<Rightarrow> bool"

datatype InvalidEndpoint = IE_Url ustr | IE_Scheme | IE_Host | IE_Userinfo

definition Endpoint_parse :: "'u UrlLib \<Rightarrow> ustr \<Rightarrow> (ustr, InvalidEndpoint) result" where
  "Endpoint_parse ul v = (case ul_parse ul v of
     Inl e \<Rightarrow> Err (IE_Url e)
   | Inr url \<Rightarrow>
       if ul_scheme ul url \<noteq> us ''http'' \<and> ul_scheme ul url \<noteq> us ''https'' then Err IE_Scheme
       else if ul_host ul url = None then Err IE_Host
       else if ul_userinfo_seen ul v \<or> ul_username ul url \<noteq> [] \<or> ul_password ul url \<noteq> None then Err IE_Userinfo
       else Ok v)"

definition trim_start_matches :: "nat \<Rightarrow> ustr \<Rightarrow> ustr" where
  "trim_start_matches c s = dropWhile (\<lambda>d. d = c) s"

definition trim_end_matches :: "nat \<Rightarrow> ustr \<Rightarrow> ustr" where
  "trim_end_matches c s = rev (dropWhile (\<lambda>d. d = c) (rev s))"

definition is_cleartext :: "'u UrlLib \<Rightarrow> ustr \<Rightarrow> bool" where
  "is_cleartext ul endpoint = (case ul_parse ul endpoint of
     Inl _ \<Rightarrow> False
   | Inr url \<Rightarrow>
       if ul_scheme ul url \<noteq> us ''http'' then False
       else (let host = (case ul_host ul url of None \<Rightarrow> [] | Some h \<Rightarrow> h);
           host = trim_end_matches 93 (trim_start_matches 91 host) in
         \<not> (eq_ignore_ascii_case host (us ''localhost'') \<or> ul_loopback ul host)))"

definition Endpoint_normalized :: "'u UrlLib \<Rightarrow> ustr \<Rightarrow> ustr" where
  "Endpoint_normalized ul endpoint = (case ul_parse ul endpoint of
     Inl _ \<Rightarrow> endpoint
   | Inr url \<Rightarrow> ul_text ul (ul_no_fragment ul (ul_set_path ul (trim_end_matches 47 (ul_path ul url)) url)))"

section \<open>The static configuration\<close>

definition MAX_SCOPE_LEN :: nat where
  "MAX_SCOPE_LEN = 36"

record StaticAccount =
  sa_id :: ustr
  sa_agent_key :: ustr
  sa_endpoint :: "ustr option"
  sa_defaults :: Defaults
  sa_seller :: SellerConfig

record StaticConfig =
  sc_account :: "StaticAccount option"
  sc_accounts :: "(ustr \<times> StaticAccount) list"

datatype AccountTable = AT_Single | AT_Scoped ustr

definition AccountTable_scope :: "AccountTable \<Rightarrow> ustr option" where
  "AccountTable_scope table = (case table of AT_Single \<Rightarrow> None | AT_Scoped scope \<Rightarrow> Some scope)"

definition AccountTable_display :: "AccountTable \<Rightarrow> ustr" where
  "AccountTable_display table = (case table of AT_Single \<Rightarrow> us ''account'' | AT_Scoped scope \<Rightarrow> us ''accounts.'' @ scope)"

datatype InvalidScope = Scope_Empty | Scope_TooLong nat | Scope_InvalidChar nat

datatype StaticConfigError =
    SCE_InvalidAccount AccountTable InvalidAccount
  | SCE_BothShapes
  | SCE_NoAccount
  | SCE_InvalidScope ustr InvalidScope
  | SCE_EmptyId AccountTable
  | SCE_EmptyAgentKey AccountTable ustr
  | SCE_InvalidEndpoint AccountTable ustr InvalidEndpoint
  | SCE_DuplicateId ustr AccountTable AccountTable
  | SCE_DuplicateCredentials AccountTable AccountTable

definition scope_char :: "nat \<Rightarrow> bool" where
  "scope_char c \<longleftrightarrow> (97 \<le> c \<and> c \<le> 122) \<or> (48 \<le> c \<and> c \<le> 57) \<or> c = 95"

definition validate_scope :: "ustr \<Rightarrow> (unit, InvalidScope) result" where
  "validate_scope scope =
    (if scope = [] then Err Scope_Empty
     else if MAX_SCOPE_LEN < utf8_len scope then Err (Scope_TooLong (utf8_len scope))
     else (case List.find (\<lambda>c. \<not> scope_char c) scope of Some c \<Rightarrow> Err (Scope_InvalidChar c) | None \<Rightarrow> Ok ()))"

record Entry =
  en_account :: Account
  en_credentials :: Credentials

definition Entry_build :: "'u UrlLib \<Rightarrow> AccountTable \<Rightarrow> StaticAccount \<Rightarrow> (Entry, StaticConfigError) result" where
  "Entry_build ul table cfg =
    (if trim (sa_id cfg) = [] then Err (SCE_EmptyId table)
     else if trim (sa_agent_key cfg) = [] then Err (SCE_EmptyAgentKey table (sa_id cfg))
     else try_then (case sa_endpoint cfg of
         Some endpoint \<Rightarrow> map_err (SCE_InvalidEndpoint table (sa_id cfg)) (Endpoint_parse ul endpoint)
       | None \<Rightarrow> Ok Endpoint_PRODUCTION) (\<lambda>endpoint.
       let account = (Account_new (sa_id cfg) (sa_id cfg))
         \<lparr> acc_endpoint := endpoint, acc_defaults := sa_defaults cfg, acc_seller := sa_seller cfg \<rparr> in
       try_then (map_err (SCE_InvalidAccount table) (Account_validate account)) (\<lambda>_.
       Ok \<lparr> en_account = account, en_credentials = AgentKey (sa_agent_key cfg) \<rparr>)))"

datatype StaticResolver = Single Entry | Multi "(ustr \<times> Entry) list"

definition is_scoped :: "StaticResolver \<Rightarrow> bool" where
  "is_scoped r = (case r of Single _ \<Rightarrow> False | Multi _ \<Rightarrow> True)"

definition entries :: "StaticResolver \<Rightarrow> (ustr option \<times> Entry) list" where
  "entries r = (case r of Single entry \<Rightarrow> [(None, entry)] | Multi es \<Rightarrow> map (\<lambda>(scope, entry). (Some scope, entry)) es)"

text \<open>The pass of \<open>multi\<close>: the ids and the pairs of endpoint and key claimed so far.\<close>

fun multi_loop :: "'u UrlLib \<Rightarrow> (ustr \<times> StaticAccount) list \<Rightarrow> (ustr \<times> AccountTable) list \<Rightarrow> ((ustr \<times> ustr) \<times> AccountTable) list \<Rightarrow>
    ((ustr \<times> Entry) list, StaticConfigError) result" where
  "multi_loop ul [] ids credentials = Ok []"
| "multi_loop ul ((scope, account) # accounts) ids credentials =
    try_then (map_err (SCE_InvalidScope scope) (validate_scope scope)) (\<lambda>_.
    let table = AT_Scoped scope in
    try_then (Entry_build ul table account) (\<lambda>entry.
    case map_of ids (acc_id (en_account entry)) of
      Some earlier \<Rightarrow> Err (SCE_DuplicateId (acc_id (en_account entry)) earlier table)
    | None \<Rightarrow> (let pair = (Endpoint_normalized ul (acc_endpoint (en_account entry)), sa_agent_key account) in
        case map_of credentials pair of
          Some earlier \<Rightarrow> Err (SCE_DuplicateCredentials earlier table)
        | None \<Rightarrow> try_then (multi_loop ul accounts ((acc_id (en_account entry), table) # ids) ((pair, table) # credentials)) (\<lambda>es.
            Ok ((scope, entry) # es)))))"

definition StaticResolver_try_from :: "'u UrlLib \<Rightarrow> StaticConfig \<Rightarrow> (StaticResolver, StaticConfigError) result" where
  "StaticResolver_try_from ul cfg = (case (sc_account cfg, sc_accounts cfg) of
     (Some account, []) \<Rightarrow> try_then (Entry_build ul AT_Single account) (\<lambda>entry. Ok (Single entry))
   | (Some account, _) \<Rightarrow> Err SCE_BothShapes
   | (None, []) \<Rightarrow> Err SCE_NoAccount
   | (None, accounts) \<Rightarrow> try_then (multi_loop ul accounts [] []) (\<lambda>es. Ok (Multi es)))"

datatype ResolveError = ResE_Unscoped | ResE_Unknown ustr | ResE_Unavailable ustr

datatype FetchError = FeE_Gone ustr | FeE_Unavailable ustr

definition StaticResolver_resolve :: "StaticResolver \<Rightarrow> ustr option \<Rightarrow> (Account, ResolveError) result" where
  "StaticResolver_resolve r scope = (case (r, scope) of
     (Single entry, None) \<Rightarrow> Ok (en_account entry)
   | (Single _, Some scope) \<Rightarrow> Err (ResE_Unknown scope)
   | (Multi _, None) \<Rightarrow> Err ResE_Unscoped
   | (Multi es, Some scope) \<Rightarrow> (case map_of es scope of Some entry \<Rightarrow> Ok (en_account entry) | None \<Rightarrow> Err (ResE_Unknown scope)))"

definition StaticResolver_fetch :: "StaticResolver \<Rightarrow> ustr \<Rightarrow> (Credentials, FetchError) result" where
  "StaticResolver_fetch r credential_ref =
    (case List.find (\<lambda>entry. acc_credential_ref (en_account entry) = credential_ref) (map snd (entries r)) of
       Some entry \<Rightarrow> Ok (en_credentials entry)
     | None \<Rightarrow> Err (FeE_Gone credential_ref))"

section \<open>The prologue\<close>

datatype Resolution = Res_Account Account | Res_Unscoped | Res_Unknown ustr

datatype ResolverUnavailable = RU_Reported ustr | RU_TimedOut

definition CALL_DEADLINE :: nat where
  "CALL_DEADLINE = 10"

definition resolution :: "(Account, ResolveError) result \<Rightarrow> (Resolution, ResolverUnavailable) result" where
  "resolution r = (case r of
     Inr account \<Rightarrow> Ok (Res_Account account)
   | Inl ResE_Unscoped \<Rightarrow> Ok Res_Unscoped
   | Inl (ResE_Unknown scope) \<Rightarrow> Ok (Res_Unknown scope)
   | Inl (ResE_Unavailable source) \<Rightarrow> Err (RU_Reported source))"

definition resolve_scope :: "(Account, ResolveError) result option \<Rightarrow> (Resolution, ResolverUnavailable) result" where
  "resolve_scope answer = (case answer of Some r \<Rightarrow> resolution r | None \<Rightarrow> Err RU_TimedOut)"

definition InvalidAccount_display :: "InvalidAccount \<Rightarrow> ustr" where
  "InvalidAccount_display e = ia_field e @ msg '': '' @ ia_rule e"

definition account_of :: "Resolution \<Rightarrow> (Account, Fault) result" where
  "account_of r = (case r of
     Res_Account account \<Rightarrow>
       try_then (map_err (\<lambda>error. Fault_unavailable (msg ''invalid account configuration: '' @ InvalidAccount_display error
         @ msg ''; contact the deployment operator'')) (Account_validate account)) (\<lambda>_. Ok account)
   | Res_Unscoped \<Rightarrow> Err (Fault_unknown_account
       (msg ''no account is reachable unscoped: this deployment serves accounts by scope, send the request under the account's scope (/restate/scope/{scope}/call/'' @ [8230] @ msg '')''))
   | Res_Unknown scope \<Rightarrow> Err (Fault_unknown_account (msg ''no account is reachable under scope '' @ debug_str scope)))"

definition resolve_exhausted :: "TerminalError \<Rightarrow> Fault" where
  "resolve_exhausted error =
    (if is_cancelled error
     then Fault_cancelled (msg ''the account resolution was cancelled ('' @ decimal_digits (unat (term_code error)) @ msg ''); nothing was sent'')
     else Fault_unavailable (msg ''the account could not be resolved ('' @ decimal_digits (unat (term_code error)) @ msg ''): '' @ term_message error
       @ msg ''; reconcile any earlier write before deliberately renewing the operation''))"

text \<open>An error of a handler: a fault, or the runtime's own.\<close>

datatype HandlerError = HE_Fault Fault | HE_Terminal TerminalError

definition run_once :: "'s Runtime \<Rightarrow> ustr \<Rightarrow> 'a \<Rightarrow> ('s, ('a, HandlerError) result) prog" where
  "run_once rt name v = do {
     r \<leftarrow> run_operating rt name (State_Monad.return (Ok v :: ('a, unit) result));
     State_Monad.return (map_err (\<lambda>error. if is_cancelled error
       then HE_Fault (Fault_cancelled (msg ''namespace pinning was cancelled; nothing was sent'')) else HE_Terminal error) r)
   }"

record Execution_Start =
  ex_account :: Account
  ex_namespace :: Namespace

text \<open>\<open>ask\<close> is the embedder's resolver under the deadline.\<close>

definition run_prologue :: "'s Runtime \<Rightarrow> (ustr option \<Rightarrow> ('s, (Account, ResolveError) result option) prog) \<Rightarrow> Namespace \<Rightarrow> ustr option \<Rightarrow>
    ('s, (Execution_Start, HandlerError) result) prog" where
  "run_prologue rt ask namespace scope = do {
     pinned \<leftarrow> run_once rt (us ''namespace'') namespace;
     case pinned of
       Inl e \<Rightarrow> State_Monad.return (Err e)
     | Inr pinned \<Rightarrow> do {
         r \<leftarrow> run_operating rt (us ''account'') (do { answer \<leftarrow> ask scope; State_Monad.return (resolve_scope answer) });
         State_Monad.return (map_err HE_Fault (try_then (map_err resolve_exhausted r) (\<lambda>r.
           try_then (account_of r) (\<lambda>account. Ok \<lparr> ex_account = account, ex_namespace = pinned \<rparr>))))
       }
   }"

section \<open>Credentials\<close>

definition FETCH_ATTEMPTS :: nat where
  "FETCH_ATTEMPTS = 3"

datatype FetchFailure = FF_Store FetchError | FF_TimedOut

definition FetchFailure_is_retryable :: "FetchFailure \<Rightarrow> bool" where
  "FetchFailure_is_retryable failure = (case failure of FF_Store (FeE_Gone _) \<Rightarrow> False | _ \<Rightarrow> True)"

definition fetch_fault :: "FetchFailure \<Rightarrow> Fault" where
  "fetch_fault failure = Fault_unavailable (msg ''the account's credentials could not be fetched ('' @ (case failure of
       FF_Store (FeE_Gone _) \<Rightarrow> msg ''the credential store has no credentials under the account's reference''
     | FF_Store (FeE_Unavailable _) \<Rightarrow> msg ''the credential store is unavailable''
     | FF_TimedOut \<Rightarrow> msg ''the credential store did not answer within 10s'') @ msg ''); the outcome is not known'')"

definition fetch_answer :: "(Credentials, FetchError) result option \<Rightarrow> (Credentials, FetchFailure) result" where
  "fetch_answer answer = (case answer of
     Some (Inr credentials) \<Rightarrow> Ok credentials | Some (Inl error) \<Rightarrow> Err (FF_Store error) | None \<Rightarrow> Err FF_TimedOut)"

text \<open>The loop from an attempt on: the number of attempts left after this one.\<close>

fun fetch_loop :: "('st \<Rightarrow> (Credentials, FetchError) result option \<times> 'st) \<Rightarrow> nat \<Rightarrow> 'st \<Rightarrow> (Credentials, Fault) result \<times> 'st" where
  "fetch_loop store left st = (case store st of
     (answer, st) \<Rightarrow> (case fetch_answer answer of
       Inr credentials \<Rightarrow> (Ok credentials, st)
     | Inl failure \<Rightarrow>
         if \<not> FetchFailure_is_retryable failure \<or> left = 0 then (Err (fetch_fault failure), st)
         else fetch_loop store (left - 1) st))"

declare fetch_loop.simps [simp del]

definition fetch_credentials :: "(ustr \<Rightarrow> 'st \<Rightarrow> (Credentials, FetchError) result option \<times> 'st) \<Rightarrow> Account \<Rightarrow> 'st \<Rightarrow> (Credentials, Fault) result \<times> 'st" where
  "fetch_credentials store account st = fetch_loop (store (acc_credential_ref account)) (FETCH_ATTEMPTS - 1) st"

section \<open>The accounts of a configuration are separate\<close>

text \<open>What the safety contract compares: the target an entry's credentials are sent to.\<close>

definition entry_id :: "Entry \<Rightarrow> ustr" where
  "entry_id e = acc_id (en_account e)"

definition entry_target :: "'u UrlLib \<Rightarrow> Entry \<Rightarrow> ustr \<times> Credentials" where
  "entry_target ul e = (Endpoint_normalized ul (acc_endpoint (en_account e)), en_credentials e)"

lemma Entry_build_ok:
  assumes "Entry_build ul table sa = Ok e"
  shows "entry_id e = sa_id sa" "acc_credential_ref (en_account e) = sa_id sa" "en_credentials e = AgentKey (sa_agent_key sa)"
    "Account_validate (en_account e) = Ok ()" "trim (sa_id sa) \<noteq> []" "trim (sa_agent_key sa) \<noteq> []"
  using assms
  by (auto simp: Entry_build_def try_then_Inr_iff map_err_Inr_iff Let_def Account_new_def entry_id_def split: if_splits option.splits)

lemma multi_loop_Cons:
  assumes "multi_loop ul ((scope, sa) # accounts) ids credentials = Ok es"
  obtains e es' where "es = (scope, e) # es'" "validate_scope scope = Ok ()" "Entry_build ul (AT_Scoped scope) sa = Ok e"
    "map_of ids (entry_id e) = None" "map_of credentials (Endpoint_normalized ul (acc_endpoint (en_account e)), sa_agent_key sa) = None"
    "multi_loop ul accounts ((entry_id e, AT_Scoped scope) # ids)
       (((Endpoint_normalized ul (acc_endpoint (en_account e)), sa_agent_key sa), AT_Scoped scope) # credentials) = Ok es'"
  using assms
  by (auto simp: try_then_Inr_iff map_err_Inr_iff Let_def entry_id_def split: option.splits)

declare multi_loop.simps(2) [simp del]

text \<open>Each entry is built from the account of its scope.\<close>

lemma multi_loop_built:
  "multi_loop ul accounts ids credentials = Ok es \<Longrightarrow>
    list_all2 (\<lambda>(scope, sa) (scope', e). scope' = scope \<and> validate_scope scope = Ok () \<and> Entry_build ul (AT_Scoped scope) sa = Ok e) accounts es"
proof (induction accounts arbitrary: ids credentials es)
  case (Cons a accounts)
  obtain scope sa where a: "a = (scope, sa)" by (cases a)
  show ?case using Cons.prems unfolding a by (auto elim!: multi_loop_Cons intro: Cons.IH)
qed simp

text \<open>No id and no target is claimed twice, nor one that was claimed before.\<close>

lemma multi_loop_distinct:
  "multi_loop ul accounts ids credentials = Ok es \<Longrightarrow>
    distinct (map (entry_id \<circ> snd) es) \<and> (\<forall>e\<in>set es. entry_id (snd e) \<notin> fst ` set ids)"
proof (induction accounts arbitrary: ids credentials es)
  case (Cons a accounts)
  obtain scope sa where a: "a = (scope, sa)" by (cases a)
  obtain e es' where e: "es = (scope, e) # es'" "map_of ids (entry_id e) = None"
    and rest: "multi_loop ul accounts ((entry_id e, AT_Scoped scope) # ids)
       (((Endpoint_normalized ul (acc_endpoint (en_account e)), sa_agent_key sa), AT_Scoped scope) # credentials) = Ok es'"
    using Cons.prems unfolding a by (rule multi_loop_Cons)
  show ?case using Cons.IH [OF rest] e by (auto simp: map_of_eq_None_iff)
qed simp

lemma multi_loop_targets:
  "multi_loop ul accounts ids credentials = Ok es \<Longrightarrow>
    distinct (map (entry_target ul \<circ> snd) es) \<and>
    (\<forall>e\<in>set es. \<forall>p\<in>fst ` set credentials. entry_target ul (snd e) \<noteq> (fst p, AgentKey (snd p)))"
proof (induction accounts arbitrary: ids credentials es)
  case (Cons a accounts)
  obtain scope sa where a: "a = (scope, sa)" by (cases a)
  obtain e es' where e: "es = (scope, e) # es'" "Entry_build ul (AT_Scoped scope) sa = Ok e"
      "map_of credentials (Endpoint_normalized ul (acc_endpoint (en_account e)), sa_agent_key sa) = None"
    and rest: "multi_loop ul accounts ((entry_id e, AT_Scoped scope) # ids)
       (((Endpoint_normalized ul (acc_endpoint (en_account e)), sa_agent_key sa), AT_Scoped scope) # credentials) = Ok es'"
    using Cons.prems unfolding a by (rule multi_loop_Cons)
  have t: "entry_target ul e = (Endpoint_normalized ul (acc_endpoint (en_account e)), AgentKey (sa_agent_key sa))"
    by (simp add: entry_target_def Entry_build_ok(3) [OF e(2)])
  note IH = Cons.IH [OF rest]
  have "\<forall>p\<in>fst ` set credentials. entry_target ul e \<noteq> (fst p, AgentKey (snd p))"
    using e(3) unfolding t map_of_eq_None_iff by force
  moreover have "entry_target ul e \<notin> (entry_target ul \<circ> snd) ` set es'"
    using IH by (fastforce simp: t)
  ultimately show ?case using IH by (auto simp: e(1))
qed simp

lemma find_unique:
  assumes "distinct (map f xs)" "x \<in> set xs"
  shows "List.find (\<lambda>y. f y = f x) xs = Some x"
  using assms by (induction xs) (auto simp: image_iff)

lemma distinct_owner:
  assumes "distinct (map (f \<circ> snd) xs)" "(s, x) \<in> set xs" "(t, y) \<in> set xs" "f x = f y"
  shows "s = t"
  using assms inj_onD [of "f \<circ> snd" "set xs" "(s, x)" "(t, y)"] by (simp add: distinct_map)

text \<open>Where a resolver's accounts come from.\<close>

lemma try_from_cases:
  assumes "StaticResolver_try_from ul cfg = Ok r"
  obtains (single) sa e where "r = Single e" "sc_account cfg = Some sa" "sc_accounts cfg = []" "Entry_build ul AT_Single sa = Ok e"
    | (multi) es where "r = Multi es" "sc_account cfg = None" "multi_loop ul (sc_accounts cfg) [] [] = Ok es"
  using assms
  by (auto simp: StaticResolver_try_from_def try_then_Inr_iff split: option.splits list.splits)

lemma built_map_of:
  assumes "list_all2 (\<lambda>(scope, sa) (scope', e). scope' = scope \<and> validate_scope scope = Ok () \<and> Entry_build ul (AT_Scoped scope) sa = Ok e) accounts es"
    and "map_of es scope = Some e"
  shows "\<exists>sa. map_of accounts scope = Some sa \<and> Entry_build ul (AT_Scoped scope) sa = Ok e"
  using assms by (induction rule: list_all2_induct) (auto split: if_splits)

text \<open>The entry a scope resolves to.\<close>

definition configured :: "StaticConfig \<Rightarrow> ustr option \<Rightarrow> StaticAccount option" where
  "configured cfg scope = (case scope of None \<Rightarrow> sc_account cfg | Some s \<Rightarrow> if sc_account cfg = None then map_of (sc_accounts cfg) s else None)"

lemma resolve_entry:
  assumes r: "StaticResolver_try_from ul cfg = Ok r" and a: "StaticResolver_resolve r scope = Ok a"
  obtains e sa table where "(scope, e) \<in> set (entries r)" "a = en_account e" "configured cfg scope = Some sa" "Entry_build ul table sa = Ok e"
  using r
proof (cases rule: try_from_cases)
  case (single sa e)
  then show ?thesis using a that [of e sa AT_Single] by (auto simp: StaticResolver_resolve_def entries_def configured_def split: option.splits)
next
  case (multi es)
  obtain s e where e: "scope = Some s" "map_of es s = Some e" "a = en_account e"
    using a by (auto simp: multi(1) StaticResolver_resolve_def split: option.splits)
  obtain sa where sa: "map_of (sc_accounts cfg) s = Some sa" "Entry_build ul (AT_Scoped s) sa = Ok e"
    using built_map_of [OF multi_loop_built [OF multi(3)] e(2)] by blast
  have "(scope, e) \<in> set (entries r)"
    using map_of_SomeD [OF e(2)] by (force simp: entries_def multi(1) e(1))
  then show ?thesis using that e sa by (auto simp: configured_def multi(2))
qed

lemma entries_distinct:
  assumes "StaticResolver_try_from ul cfg = Ok r"
  shows "distinct (map (entry_id \<circ> snd) (entries r)) \<and> distinct (map (entry_target ul \<circ> snd) (entries r)) \<and>
    (\<forall>e\<in>set (entries r). acc_credential_ref (en_account (snd e)) = entry_id (snd e))"
  using assms
proof (cases rule: try_from_cases)
  case (single sa e)
  then show ?thesis
    by (simp add: entries_def Entry_build_ok)
next
  case (multi es)
  have m: "map (f \<circ> snd) (entries r) = map (f \<circ> snd) es" for f :: "Entry \<Rightarrow> 'b"
    by (simp add: entries_def multi(1) case_prod_unfold comp_def)
  have "acc_credential_ref (en_account e) = entry_id e" if "(s, e) \<in> set es" for s e
    using multi_loop_built [OF multi(3)] that by (auto simp: list_all2_conv_all_nth in_set_conv_nth Entry_build_ok dest!: spec)
  then show ?thesis
    using multi_loop_distinct [OF multi(3)] multi_loop_targets [OF multi(3)]
    by (auto simp: m) (auto simp: entries_def multi(1))
qed

text \<open>(C33) The static resolver keeps its half of the safety contract: of a configuration that was accepted, a scope
  resolves to the account configured under it and the account's reference fetches the key configured there and no other; two
  different scopes never resolve to accounts of one id, nor to one pair of endpoint, as normalised, and key.
\<close>

theorem static_accounts_separate:
  assumes r: "StaticResolver_try_from ul cfg = Ok r" and a: "StaticResolver_resolve r scope = Ok a"
  shows "\<exists>sa. configured cfg scope = Some sa \<and> acc_id a = sa_id sa \<and> Account_validate a = Ok () \<and>
    StaticResolver_fetch r (acc_credential_ref a) = Ok (AgentKey (sa_agent_key sa)) \<and>
    (\<forall>scope' a'. StaticResolver_resolve r scope' = Ok a' \<longrightarrow> scope' \<noteq> scope \<longrightarrow>
      acc_id a' \<noteq> acc_id a \<and>
      (Endpoint_normalized ul (acc_endpoint a'), StaticResolver_fetch r (acc_credential_ref a')) \<noteq>
      (Endpoint_normalized ul (acc_endpoint a), StaticResolver_fetch r (acc_credential_ref a)))"
proof -
  note d = entries_distinct [OF r]
  have fetch: "StaticResolver_fetch r (acc_credential_ref (en_account e)) = Ok (en_credentials e)" if "(s, e) \<in> set (entries r)" for s e
  proof -
    have "map snd (entries r) = map snd (entries r) \<and> e \<in> set (map snd (entries r))" using that by force
    then have "List.find (\<lambda>y. entry_id y = entry_id e) (map snd (entries r)) = Some e" using find_unique [of entry_id "map snd (entries r)" e] d by simp
    moreover have "List.find (\<lambda>y. acc_credential_ref (en_account y) = entry_id e) (map snd (entries r)) = List.find (\<lambda>y. entry_id y = entry_id e) (map snd (entries r))"
      using d by (intro find_cong) auto
    ultimately show ?thesis using d that by (auto simp: StaticResolver_fetch_def)
  qed
  obtain e sa table where e: "(scope, e) \<in> set (entries r)" "a = en_account e" "configured cfg scope = Some sa" "Entry_build ul table sa = Ok e"
    using r a by (rule resolve_entry)
  have "acc_id a' \<noteq> acc_id a \<and> (Endpoint_normalized ul (acc_endpoint a'), StaticResolver_fetch r (acc_credential_ref a')) \<noteq>
      (Endpoint_normalized ul (acc_endpoint a), StaticResolver_fetch r (acc_credential_ref a))"
    if a': "StaticResolver_resolve r scope' = Ok a'" "scope' \<noteq> scope" for scope' a'
  proof -
    obtain e' sa' table' where e': "(scope', e') \<in> set (entries r)" "a' = en_account e'" "configured cfg scope' = Some sa'" "Entry_build ul table' sa' = Ok e'"
      using r a'(1) by (rule resolve_entry)
    have "entry_id e' \<noteq> entry_id e" "entry_target ul e' \<noteq> entry_target ul e"
      using d a'(2) distinct_owner [OF _ e'(1) e(1)] by blast+
    then show ?thesis using fetch [OF e(1)] fetch [OF e'(1)] by (auto simp: e(2) e'(2) entry_id_def entry_target_def)
  qed
  then show ?thesis using e Entry_build_ok [OF e(4)] fetch [OF e(1)] by (auto simp: entry_id_def)
qed

section \<open>What the prologue establishes\<close>

lemma run_durably_const:
  "run_state (run_durably rt name (State (Pair (Ok v))) n) w = (Ok u, w') \<Longrightarrow> u = v"
  by (induction n arbitrary: w) (auto split: Attempt.splits)

lemma account_of_valid: "account_of r = Ok a \<Longrightarrow> r = Res_Account a \<and> Account_validate a = Ok ()"
  by (auto simp: account_of_def try_then_Inr_iff map_err_Inr_iff split: Resolution.splits)

text \<open>
  A body runs under the namespace the deployment was configured with when the invocation began, for an account
  that is valid.
\<close>

lemma run_prologue_start:
  assumes "fst (run_state (run_prologue rt ask namespace scope) w) = Ok start"
  shows "ex_namespace start = namespace \<and> Account_validate (ex_account start) = Ok ()"
  using assms
  by (auto simp: run_prologue_def run_once_def run_operating_def State_Monad.bind_def State_Monad.return_def
      map_err_Inr_iff try_then_Inr_iff split: prod.splits sum.splits
      dest!: account_of_valid dest: run_durably_const)

section \<open>The loop that fetches credentials\<close>

text \<open>The store's state after a number of calls.\<close>

primrec after_calls :: "('st \<Rightarrow> 'a \<times> 'st) \<Rightarrow> nat \<Rightarrow> 'st \<Rightarrow> 'st" where
  "after_calls store 0 st = st"
| "after_calls store (Suc n) st = after_calls store n (snd (store st))"

definition nth_call :: "('st \<Rightarrow> (Credentials, FetchError) result option \<times> 'st) \<Rightarrow> nat \<Rightarrow> 'st \<Rightarrow> (Credentials, FetchFailure) result" where
  "nth_call store n st = fetch_answer (fst (store (after_calls store n st)))"

definition settles :: "(Credentials, FetchFailure) result \<Rightarrow> bool" where
  "settles answer = (case answer of Inr _ \<Rightarrow> True | Inl failure \<Rightarrow> \<not> FetchFailure_is_retryable failure)"

lemma fetch_loop_calls:
  "\<exists>n\<le>left. fetch_loop store left st = (map_err fetch_fault (nth_call store n st), after_calls store (Suc n) st) \<and>
    (\<forall>i<n. \<not> settles (nth_call store i st)) \<and> (n < left \<longrightarrow> settles (nth_call store n st))"
proof (induction left arbitrary: st)
  case 0
  show ?case by (subst fetch_loop.simps) (auto simp: nth_call_def map_err_def split: prod.splits sum.splits)
next
  case (Suc left)
  show ?case
  proof (cases "settles (nth_call store 0 st)")
    case True
    then show ?thesis
      by (intro exI [of _ 0]) (subst fetch_loop.simps, auto simp: nth_call_def settles_def map_err_def split: prod.splits sum.splits)
  next
    case False
    then have step: "fetch_loop store (Suc left) st = fetch_loop store left (snd (store st))"
      by (subst fetch_loop.simps) (auto simp: nth_call_def settles_def split: prod.splits sum.splits)
    have shift: "nth_call store i (snd (store st)) = nth_call store (Suc i) st" for i by (simp add: nth_call_def)
    obtain n where n: "n \<le> left" "fetch_loop store left (snd (store st)) = (map_err fetch_fault (nth_call store (Suc n) st), after_calls store (Suc (Suc n)) st)"
      "\<forall>i<n. \<not> settles (nth_call store (Suc i) st)" "n < left \<longrightarrow> settles (nth_call store (Suc n) st)"
      using Suc.IH [of "snd (store st)"] by (auto simp: shift)
    then show ?thesis using False step by (intro exI [of _ "Suc n"]) (auto simp: less_Suc_eq_0_disj)
  qed
qed

lemma FETCH_attempt_iffs:
  "(n \<le> FETCH_ATTEMPTS - 1) = (n < FETCH_ATTEMPTS)" "(n < FETCH_ATTEMPTS - 1) = (n + 1 < FETCH_ATTEMPTS)"
  by (auto simp: FETCH_ATTEMPTS_def)

text \<open>(C23) Fetching credentials ends: after one, two or three calls of the store, the first of them that settles the question, an
  answer with credentials or a reference the store does not know, or else the third; what it gives is that call's answer.
\<close>

theorem fetch_credentials_bounded:
  "\<exists>n<FETCH_ATTEMPTS. fetch_credentials store account st =
      (map_err fetch_fault (nth_call (store (acc_credential_ref account)) n st), after_calls (store (acc_credential_ref account)) (Suc n) st) \<and>
    (\<forall>i<n. \<not> settles (nth_call (store (acc_credential_ref account)) i st)) \<and>
    (n + 1 < FETCH_ATTEMPTS \<longrightarrow> settles (nth_call (store (acc_credential_ref account)) n st))"
  using fetch_loop_calls [of "FETCH_ATTEMPTS - 1" "store (acc_credential_ref account)" st]
  unfolding fetch_credentials_def FETCH_attempt_iffs .

text \<open>An account's store that is silent once and then answers.\<close>

definition example_store :: "ustr \<Rightarrow> nat \<Rightarrow> (Credentials, FetchError) result option \<times> nat" where
  "example_store credential_ref n = (if n = 0 then None else Some (Ok (AgentKey credential_ref)), n + 1)"

definition example_account :: Account where
  "example_account = Account_new (us ''acme'') (us ''acme'')"

theorem fetch_credentials_bounded_witness:
  "fst (fetch_credentials example_store example_account 0) = Ok (AgentKey (us ''acme'')) \<and> snd (fetch_credentials example_store example_account 0) = 2"
proof -
  have ref: "acc_credential_ref example_account = us ''acme''" by (simp add: example_account_def Account_new_def)
  have calls: "nth_call (example_store c) 0 0 = Err FF_TimedOut" "nth_call (example_store c) (Suc 0) 0 = Ok (AgentKey c)" for c
    by (simp_all add: nth_call_def example_store_def fetch_answer_def)
  have s: "\<not> settles (Err FF_TimedOut)" "settles (Ok c)" for c by (simp_all add: settles_def FetchFailure_is_retryable_def)
  obtain n where n: "n < 3" "fetch_credentials example_store example_account 0 =
      (map_err fetch_fault (nth_call (example_store (us ''acme'')) n 0), after_calls (example_store (us ''acme'')) (Suc n) 0)"
    "\<forall>i<n. \<not> settles (nth_call (example_store (us ''acme'')) i 0)" "n + 1 < 3 \<longrightarrow> settles (nth_call (example_store (us ''acme'')) n 0)"
    using fetch_credentials_bounded [of example_store example_account 0] by (auto simp: ref FETCH_ATTEMPTS_def)
  have "n \<noteq> 0" using n(4) calls(1) [of "us ''acme''"] s(1) by (intro notI) (simp del: us_Cons)
  moreover have "\<not> Suc 0 < n" using n(3) calls(2) [of "us ''acme''"] s(2) by force
  ultimately have "n = Suc 0" by simp
  then show ?thesis using n(2) by (simp add: calls example_store_def map_err_def)
qed

text \<open>Two accounts of one endpoint, by two scopes.\<close>

definition example_urls :: "ustr UrlLib" where
  "example_urls = \<lparr> ul_parse = Ok, ul_userinfo_seen = (\<lambda>s. 64 \<in> set s), ul_scheme = takeWhile (\<lambda>c. c \<noteq> 58), ul_host = (\<lambda>s. Some (drop 8 s)),
     ul_username = (\<lambda>_. []), ul_password = (\<lambda>_. None), ul_path = (\<lambda>_. []), ul_set_path = (\<lambda>_ u. u), ul_no_fragment = (\<lambda>u. u), ul_text = (\<lambda>u. u),
     ul_loopback = (\<lambda>_. False) \<rparr>"

definition example_static :: "char list \<Rightarrow> char list \<Rightarrow> StaticAccount" where
  "example_static i key = \<lparr> sa_id = us i, sa_agent_key = us key, sa_endpoint = None, sa_defaults = Defaults_default, sa_seller = SellerConfig_default \<rparr>"

definition example_static_config :: StaticConfig where
  "example_static_config = \<lparr> sc_account = None, sc_accounts = [(us ''acme'', example_static ''acme'' ''k1''), (us ''beta_events'', example_static ''beta'' ''k2'')] \<rparr>"

theorem static_accounts_separate_witness:
  "\<exists>r a b. StaticResolver_try_from example_urls example_static_config = Ok r \<and>
    StaticResolver_resolve r (Some (us ''acme'')) = Ok a \<and> StaticResolver_resolve r (Some (us ''beta_events'')) = Ok b \<and>
    StaticResolver_fetch r (acc_credential_ref a) = Ok (AgentKey (us ''k1'')) \<and> acc_id b \<noteq> acc_id a"
proof -
  let ?account = "\<lambda>i. (Account_new i i)\<lparr> acc_endpoint := Endpoint_PRODUCTION, acc_defaults := Defaults_default, acc_seller := SellerConfig_default \<rparr>"
  have valid: "Account_validate (?account i) = Ok ()" for i
    by (simp add: Account_validate_def Account_new_def Language_from_str_def match_token_def Language_arms_def account_texts_def Let_def
        Defaults_default_def SellerConfig_default_def validate_xml_text_def is_xml_10_character_def)
  have build: "Entry_build example_urls t (example_static i k) = Ok \<lparr> en_account = ?account (us i), en_credentials = AgentKey (us k) \<rparr>"
    if "trim (us i) \<noteq> []" "trim (us k) \<noteq> []" for t i k
    using that by (simp add: Entry_build_def example_static_def valid Let_def)
  have keys: "trim (us i) \<noteq> []" if "i \<in> set [''acme'', ''beta'', ''k1'', ''k2'']" for i
    using that by (auto simp: trim_def trim_start_def trim_end_def is_whitespace_def)
  have scopes: "validate_scope (us ''acme'') = Ok ()" "validate_scope (us ''beta_events'') = Ok ()"
    by (simp_all add: validate_scope_def MAX_SCOPE_LEN_def utf8_len_def utf8_width_def scope_char_def)
  have sa: "sa_agent_key (example_static i k) = us k" for i k by (simp add: example_static_def)
  have ne: "us ''beta'' \<noteq> us ''acme''" "us ''k2'' \<noteq> us ''k1''" "us ''beta_events'' \<noteq> us ''acme''" by simp_all
  let ?r = "Multi [(us ''acme'', \<lparr> en_account = ?account (us ''acme''), en_credentials = AgentKey (us ''k1'') \<rparr>),
    (us ''beta_events'', \<lparr> en_account = ?account (us ''beta''), en_credentials = AgentKey (us ''k2'') \<rparr>)]"
  have r: "StaticResolver_try_from example_urls example_static_config = Ok ?r"
    by (simp add: StaticResolver_try_from_def example_static_config_def multi_loop.simps scopes build keys sa Let_def Account_new_def ne del: us_Cons)
  have a: "StaticResolver_resolve ?r (Some (us ''acme'')) = Ok (?account (us ''acme''))"
    and b: "StaticResolver_resolve ?r (Some (us ''beta_events'')) = Ok (?account (us ''beta''))"
    by (simp_all add: StaticResolver_resolve_def ne del: us_Cons)
  have "configured example_static_config (Some (us ''acme'')) = Some (example_static ''acme'' ''k1'')"
    by (simp add: configured_def example_static_config_def del: us_Cons)
  then have "StaticResolver_fetch ?r (acc_credential_ref (?account (us ''acme''))) = Ok (AgentKey (us ''k1''))"
      "acc_id (?account (us ''beta'')) \<noteq> acc_id (?account (us ''acme''))"
    using static_accounts_separate [OF r a] b ne(3) sa by (metis option.inject)+
  then show ?thesis using r a b by blast
qed

end
