(* ===== verification/Spec2Isabelle.thy ===== *)
theory Spec2Isabelle
  imports Agent_Service Push_Archive Account_Resolution
begin

text \<open>
  A verification library for \<^bold>\<open>szamlazz-rs\<close>, the Rust worker that issues, reverses and
  deletes documents at the Hungarian invoicing service szamlazz.hu.

  \<^bold>\<open>The program.\<close>  The crate \<open>szamlazz-agent\<close> is a client of szamlazz.hu's Agent API.  The crate
  \<open>restate-szamlazz\<close> serves it as durable services: one object per order, whose handlers look
  an order up, issue a document of one of five kinds, reverse an invoice (storno) or delete a
  proforma, and a stateless service for what needs no order.  szamlazz.hu has no idempotency key,
  and a reply may be lost, so the hard part is that a document is never issued twice and that an
  outcome is never invented.  Three layers work together: \<open>identity.rs\<close> gives every document one
  external id; \<open>gateway.rs\<close> and \<open>gateway/recovery.rs\<close> query before every write, send once and
  classify the reply; \<open>service/recovery.rs\<close> keeps a marker in the order's state from before the
  send until its outcome is known.  The handlers of \<open>service/create.rs\<close>, \<open>service/storno.rs\<close>,
  \<open>service/delete.rs\<close> and \<open>service/status.rs\<close> decide, on journaled reads, whether a write is due.
  The crate \<open>szamlazz-ipn\<close> reads the payment notifications szamlazz.hu posts, and
  \<open>szamlazz-adatkapcsolat\<close> receives the documents it pushes.

  \<^bold>\<open>The theories\<close>, in the order of their imports.

  \<^item> \<open>Prelude\<close>: results, strings as lists of code points with the parts of Rust's \<open>str\<close> the source
    uses, the shared lemmas, the named theorem collections and the locale \<open>open_tokens\<close>
    (an enumeration whose unknown tokens survive).
  \<^item> \<open>Error_Codes\<close>: \<open>szamlazz-agent/src/error.rs\<close> and \<open>client.rs\<close>; codes, their parsing and the
    outcome class of every failure.
  \<^item> \<open>Identity\<close>: \<open>identity.rs\<close>; validated segments (locale \<open>bounded_segment\<close>), document kinds, and
    the composition of external ids with its uniqueness and length.
  \<^item> \<open>Accounts\<close>: \<open>account.rs\<close>; defaults and validation.
  \<^item> \<open>Documents\<close>: \<open>gateway/document.rs\<close>, \<open>gateway/diagnostic.rs\<close>; reported documents and what is kept
    of answers and failures.
  \<^item> \<open>Exchange\<close>: the requests of the Agent operations, the remote side as the parameter \<open>Remote\<close>,
    programs over a world with a trace of events, and \<open>yields\<close>, the statement that a property of
    result and new events holds for every remote side.
  \<^item> \<open>Decimals\<close>, \<open>Line_Items\<close>: \<open>number.rs\<close>, \<open>contract/decimal.rs\<close>, \<open>item.rs\<close> and
    \<open>contract/document.rs\<close>; exact decimal arithmetic, the parser of wire numbers, line items, VAT
    and the monetary checks of a document, over the decimal type's primitive operations.
  \<^item> \<open>Agent_Requests\<close>, \<open>Multipart\<close>: \<open>szamlazz-agent/src/ops\<close>, \<open>xml.rs\<close> and \<open>wire.rs\<close>; the requests with
    the element tree each writes, and the multipart body around it.
  \<^item> \<open>Gateway_Reads\<close>, \<open>Gateway_Writes\<close>: the gateway's operations of \<open>gateway.rs\<close>.
  \<^item> \<open>Recovery_Contract\<close>, \<open>Reconcile\<close>, \<open>Protected_Writes\<close>: \<open>contract/recovery.rs\<close> and
    \<open>gateway/recovery.rs\<close>; reconciliation and the writes bound to a marker.
  \<^item> \<open>Faults\<close>: \<open>contract.rs\<close> and \<open>service/support.rs\<close>; the faults the services answer with.
  \<^item> \<open>Markers\<close>: \<open>service/recovery.rs\<close>; preparing, decoding, observing and recovering a marker.
  \<^item> \<open>Write_Protocol\<close>: \<open>protected_write\<close> and \<open>replay_enabled_write\<close> as a step relation under a
    durable-execution runtime that may stop and replay anywhere; the locale \<open>order_write\<close> is the
    contract of a write, and the six writes of the services interpret it.
  \<^item> \<open>Durable_Steps\<close>: the journaled reads of \<open>service/support.rs\<close>, and that a settled write returns.
  \<^item> \<open>Build_Request\<close>: \<open>gateway/build.rs\<close>; from a caller's document and the account's defaults to the
    Agent request.
  \<^item> \<open>Create_Decisions\<close>, \<open>Create_Service\<close>: \<open>service/create.rs\<close>; the decisions one by one, then the
    handlers that issue a kind or a correction.
  \<^item> \<open>Storno_Service\<close>, \<open>Delete_Service\<close>, \<open>Status_Service\<close>: the other handlers of an order, over
    \<open>contract/storno.rs\<close>.
  \<^item> \<open>Taxpayers\<close>, \<open>Agent_Service\<close>: \<open>ops/taxpayer.rs\<close>, and the stateless handlers of
    \<open>service/agent.rs\<close> with \<open>contract/agent.rs\<close>.
  \<^item> \<open>Payment_Notification\<close>: \<open>szamlazz-ipn\<close>; the form check, the collection of the fields and the
    exact reading of amounts.
  \<^item> \<open>Pushed_Documents\<close>, \<open>Pushed_Dtd\<close>, \<open>Pushed_Xml\<close>, \<open>Push_Protocol\<close>, \<open>Push_Archive\<close>: the crate
    \<open>szamlazz-adatkapcsolat\<close>, which receives pushed documents; their fields and schema check
    (\<open>document.rs\<close>), the grammar of a document type declaration (\<open>document/xml/dtd.rs\<close>), the shape of
    the XML and the parse (\<open>document/xml.rs\<close>), acks, fan-out and the protocol (\<open>ack.rs\<close>, \<open>fanout.rs\<close>,
    \<open>axum.rs\<close>), and the archive (\<open>archive.rs\<close>).
  \<^item> \<open>Account_Resolution\<close>: \<open>account/static_resolver.rs\<close> and \<open>service/prologue.rs\<close>; the accounts of
    a static configuration, the prologue of every handler and the fetching of credentials.

  \<^bold>\<open>What is shown.\<close>  One call of a gateway write sends at most one write, its own, after reads that
  permit it; a reply that leaves the outcome open is never reported as settled; reconciliation
  never writes and settles only on documents szamlazz.hu reports for that very intent; a refusal
  settles a write only when every write made was refused; one
  invocation of a protected write sends at most once under any stops and replays, and ends with
  its marker cleared and its result settled, or with an outcome-unknown fault and the marker
  kept, and once its journal holds a settled outcome a run without further stops returns it; a
  marker is read only as the write of its own object; external ids are unique and within the
  length szamlazz.hu keeps.  The handlers issue, reverse or delete only on reads that justify it,
  what they issue is the caller's document, and the status only reads; every marker they leave can be read back.  Decimal arithmetic is exact or refused, line items agree with
  their rates, a request's document says what the request says, and a multipart body reads back
  as its parts.  A receiver ends the delivery of a pushed document only on a definite verdict; its
  parse accepts well-formed documents of the right namespace only and refuses none for its dates or
  its PDF; a fan-out answers for all its handlers; the archive keeps what it has.  Round trips and exactness lemmas cover the parsers.

  \<^bold>\<open>Modelling conventions.\<close>  Text is a list of code points (\<open>ustr\<close>), byte lengths are UTF-8 lengths.
  A decimal is a scaled integer with the bounds of the decimal type written out; dates are
  carried.  A Rust \<open>Result\<close> is a sum with the error on the left.  Asynchronous calls are
  state-passing programs; an await of szamlazz.hu is one event of the trace.  Loops are structural
  recursions or recursions on the text left to read, except two searches that the source leaves
  unbounded and the model makes partial functions: that for a multipart boundary, proved to return
  for all payloads below about \<open>9 * 10 ^ 17\<close> bytes, and that for an unused version in the archive,
  proved to return for stores of fewer than \<open>2 ^ 64\<close> objects; a durable read that is retried recurses on
  its number of attempts, which the source bounds as well.  No other fuel is used.

  \<^bold>\<open>Parameters.\<close>  The remote side, Unicode normalisation, JSON codecs, endpoint and timestamp parsing,
  the decimal library, the splitting of bytes into XML events and the durable runtime are
  third-party; they are arguments, and what a theorem needs of them is a hypothesis of it.

  \<^bold>\<open>Not modelled.\<close>  The rendering of an element tree as bytes and the reading of reply bytes
  (quick-xml and serde), HTTP, tracing output, JSON glue, the opening of HTTP clients, the registration of handlers, the worker's configuration files, receipts, process start and the command line.
\<close>

end
